(* ===== verification/Prelude.thy ===== *)
theory Prelude
  imports Main "HOL-Library.Char_ord" "HOL-Library.List_Lexorder"
begin

text \<open>
  Shared vocabulary of the development: fixed-width bounds of the C++ integer types, C's
  truncating division, \<open>std::map\<close> as a sorted association list, \<open>std::to_string\<close> and
  \<open>strtoll\<close> on character lists, and the generic lemmas the components use.

  Strings are character lists whose characters are bytes, ordered as \<open>std::string\<close> orders
  them (lexicographically, bytes compared unsigned): the instances of \<open>HOL-Library.Char_ord\<close>
  and \<open>HOL-Library.List_Lexorder\<close>.
\<close>

named_theorems smap_simps \<open>lookup laws of the sorted association lists that model std::map\<close>
named_theorems frame_simps \<open>fields an operation leaves alone\<close>
named_theorems inv_intros \<open>an operation preserves its component's invariant\<close>

section \<open>Fixed-width integers\<close>

abbreviation INT32_MAX :: int where "INT32_MAX \<equiv> 2147483647"
abbreviation INT32_MIN :: int where "INT32_MIN \<equiv> - 2147483648"
abbreviation INT64_MAX :: int where "INT64_MAX \<equiv> 9223372036854775807"
abbreviation INT64_MIN :: int where "INT64_MIN \<equiv> - 9223372036854775808"

definition in_int32 :: "int \<Rightarrow> bool" where
  "in_int32 v \<longleftrightarrow> INT32_MIN \<le> v \<and> v \<le> INT32_MAX"

definition in_int64 :: "int \<Rightarrow> bool" where
  "in_int64 v \<longleftrightarrow> INT64_MIN \<le> v \<and> v \<le> INT64_MAX"

text \<open>C++ integer division truncates towards zero.\<close>

definition cdiv :: "int \<Rightarrow> int \<Rightarrow> int" where
  "cdiv a b = sgn a * sgn b * (\<bar>a\<bar> div \<bar>b\<bar>)"

text \<open>\<open>std::clamp(v, lo, hi)\<close>; its precondition is \<open>lo \<le> hi\<close>.\<close>

definition clamp :: "int \<Rightarrow> int \<Rightarrow> int \<Rightarrow> int" where
  "clamp v lo hi = (if v < lo then lo else if hi < v then hi else v)"

section \<open>std::map as a sorted association list\<close>

type_synonym ('k, 'v) smap = "('k \<times> 'v) list"

fun mput :: "'k::linorder \<Rightarrow> 'v \<Rightarrow> ('k, 'v) smap \<Rightarrow> ('k, 'v) smap" where
  "mput k v [] = [(k, v)]"
| "mput k v ((k', v') # m) =
     (if k < k' then (k, v) # (k', v') # m
      else if k = k' then (k, v) # m
      else (k', v') # mput k v m)"

definition mfind :: "('k, 'v) smap \<Rightarrow> 'k \<Rightarrow> 'v option" where
  "mfind m k = map_of m k"

definition merase :: "'k \<Rightarrow> ('k, 'v) smap \<Rightarrow> ('k, 'v) smap" where
  "merase k m = filter (\<lambda>e. fst e \<noteq> k) m"

definition msorted :: "('k::linorder, 'v) smap \<Rightarrow> bool" where
  "msorted m \<longleftrightarrow> sorted_wrt (<) (map fst m)"

section \<open>Numbers as text\<close>

abbreviation char_of_digit :: "nat \<Rightarrow> char" where
  "char_of_digit d \<equiv> char_of (48 + d)"

fun digits_of :: "nat \<Rightarrow> string" where
  "digits_of n = (if n < 10 then [char_of_digit n]
                  else digits_of (n div 10) @ [char_of_digit (n mod 10)])"

declare digits_of.simps [simp del]

text \<open>\<open>std::to_string\<close> of a signed integer.\<close>

definition to_string :: "int \<Rightarrow> string" where
  "to_string v = (if v < 0 then CHR ''-'' # digits_of (nat (- v)) else digits_of (nat v))"

text \<open>\<open>isspace\<close> and \<open>isdigit\<close> in the C locale.\<close>

definition isspace :: "char \<Rightarrow> bool" where
  "isspace c \<longleftrightarrow> of_char c = (32::nat) \<or> (9 \<le> (of_char c :: nat) \<and> (of_char c :: nat) \<le> 13)"

definition isdigit :: "char \<Rightarrow> bool" where
  "isdigit c \<longleftrightarrow> 48 \<le> (of_char c :: nat) \<and> (of_char c :: nat) \<le> 57"

definition digit_val :: "char \<Rightarrow> int" where
  "digit_val c = of_char c - 48"

definition decimal :: "string \<Rightarrow> int" where
  "decimal ds = foldl (\<lambda>n c. 10 * n + digit_val c) 0 ds"

text \<open>The bytes of a string before its first NUL: what \<open>c_str()\<close> shows a C function.\<close>

definition c_str :: "string \<Rightarrow> string" where
  "c_str s = takeWhile (\<lambda>c. c \<noteq> CHR 0x00) s"

text \<open>
  \<open>strtoll(s, &end, 10)\<close> on a C string: the value, the bytes from \<open>end\<close> on, and whether
  \<open>errno\<close> was set to ERANGE. Without digits \<open>end\<close> is \<open>s\<close> itself and the value 0.
\<close>

definition strtoll :: "string \<Rightarrow> int \<times> string \<times> bool" where
  "strtoll s =
     (let t = dropWhile isspace s;
          neg = (t \<noteq> [] \<and> hd t = CHR ''-'');
          u = (if t \<noteq> [] \<and> (hd t = CHR ''-'' \<or> hd t = CHR ''+'') then tl t else t);
          ds = takeWhile isdigit u;
          v = (if neg then - decimal ds else decimal ds)
      in if ds = [] then (0, s, False)
         else (if v < INT64_MIN then INT64_MIN else if INT64_MAX < v then INT64_MAX else v,
               dropWhile isdigit u, \<not> in_int64 v))"

section \<open>Generic lemmas\<close>

lemma clamp_bounds [simp]:
  "lo \<le> hi \<Longrightarrow> lo \<le> clamp v lo hi" "lo \<le> hi \<Longrightarrow> clamp v lo hi \<le> hi"
  by (auto simp: clamp_def)

lemma clamp_id: "lo \<le> v \<Longrightarrow> v \<le> hi \<Longrightarrow> clamp v lo hi = v"
  by (simp add: clamp_def)

lemma clamp_mono: "lo \<le> hi \<Longrightarrow> v \<le> w \<Longrightarrow> clamp v lo hi \<le> clamp w lo hi"
  by (auto simp: clamp_def)

lemma cdiv_nonneg: "0 \<le> a \<Longrightarrow> 0 < b \<Longrightarrow> cdiv a b = a div b"
  by (cases "a = 0") (auto simp: cdiv_def sgn_if)

lemma in_map_filter: "y \<in> set (List.map_filter f xs) \<longleftrightarrow> (\<exists>x \<in> set xs. f x = Some y)"
  by (force simp: List.map_filter_def)

lemma mfind_mput [smap_simps]: "mfind (mput k v m) k' = (if k' = k then Some v else mfind m k')"
  by (induction k v m rule: mput.induct) (auto simp: mfind_def)

lemma mfind_merase [smap_simps]: "mfind (merase k m) k' = (if k' = k then None else mfind m k')"
  by (induction m) (auto simp: mfind_def merase_def)

lemma mfind_Nil [smap_simps, simp]: "mfind [] k = None"
  by (simp add: mfind_def)

lemma mfind_None_iff: "mfind m k = None \<longleftrightarrow> k \<notin> fst ` set m"
  by (simp add: mfind_def map_of_eq_None_iff)

lemma keys_mput [simp]: "fst ` set (mput k v m) = insert k (fst ` set m)"
  by (induction k v m rule: mput.induct) auto

lemma keys_merase [simp]: "fst ` set (merase k m) = fst ` set m - {k}"
  by (auto simp: merase_def)

lemma set_merase: "set (merase k m) = {e \<in> set m. fst e \<noteq> k}"
  by (auto simp: merase_def)

lemma merase_absent: "k \<notin> fst ` set m \<Longrightarrow> merase k m = m"
  by (induction m) (auto simp: merase_def)

lemma set_mput: "set (mput k v m) \<subseteq> insert (k, v) (set m)"
  by (induction k v m rule: mput.induct) auto

lemma mput_in_set: "(k, v) \<in> set (mput k v m)"
  by (induction k v m rule: mput.induct) auto

lemma msorted_Nil [simp]: "msorted []"
  by (simp add: msorted_def)

lemma msorted_mput: "msorted m \<Longrightarrow> msorted (mput k v m)"
proof (induction k v m rule: mput.induct)
  case (2 k v k' v' m)
  have keys: "set (map fst (mput k v m)) = insert k (set (map fst m))"
    by simp
  from 2 show ?case
    using keys by (auto simp: msorted_def image_iff dest: less_trans)
qed (simp add: msorted_def)

lemma msorted_filter: "msorted m \<Longrightarrow> msorted (filter P m)"
  by (induction m) (auto simp: msorted_def)

lemma msorted_merase: "msorted m \<Longrightarrow> msorted (merase k m)"
  by (simp add: merase_def msorted_filter)

lemma msorted_distinct: "msorted m \<Longrightarrow> distinct (map fst m)"
  by (simp add: msorted_def strict_sorted_iff)

lemma mfind_in_set: "msorted m \<Longrightarrow> (k, v) \<in> set m \<longleftrightarrow> mfind m k = Some v"
  unfolding mfind_def using msorted_distinct by force

lemma mfind_SomeD: "mfind m k = Some v \<Longrightarrow> (k, v) \<in> set m"
  by (simp add: mfind_def map_of_SomeD)

lemma mfind_filter:
  "msorted m \<Longrightarrow> mfind (filter P m) k =
     (case mfind m k of None \<Rightarrow> None | Some v \<Rightarrow> if P (k, v) then Some v else None)"
proof (induction m)
  case (Cons e m)
  have "msorted m" using Cons.prems by (simp add: msorted_def)
  moreover have "k = fst e \<Longrightarrow> map_of m k = None"
    using msorted_distinct [OF Cons.prems] by (auto simp: map_of_eq_None_iff)
  ultimately show ?case
    using Cons.IH by (cases e) (auto simp: mfind_def split: option.splits)
qed simp

section \<open>Printing and parsing an integer\<close>

lemma of_char_of_digit: "d < 10 \<Longrightarrow> (of_char (char_of_digit d) :: nat) = 48 + d"
  by simp

lemma digits_of_nonempty [simp]: "digits_of n \<noteq> []"
  by (subst digits_of.simps) simp

lemma digits_of_isdigit: "c \<in> set (digits_of n) \<Longrightarrow> isdigit c"
proof (induction n rule: digits_of.induct)
  case (1 n)
  have d: "m < 10 \<Longrightarrow> isdigit (char_of_digit m)" for m
    by (simp add: isdigit_def)
  show ?case
    using "1.prems" by (subst (asm) digits_of.simps) (auto simp: d dest: "1.IH" split: if_splits)
qed

lemma decimal_append [simp]: "decimal (ds @ [c]) = 10 * decimal ds + digit_val c"
  by (simp add: decimal_def)

lemma digit_val_digit [simp]: "d < 10 \<Longrightarrow> digit_val (char_of_digit d) = int d"
proof -
  assume "d < 10"
  then have "(of_char (char_of_digit d) :: nat) = 48 + d" by (rule of_char_of_digit)
  then have "(of_char (char_of_digit d) :: int) = 48 + int d" by (metis of_nat_add of_nat_numeral of_nat_of_char)
  then show ?thesis by (simp add: digit_val_def)
qed

lemma decimal_digits_of [simp]: "decimal (digits_of n) = int n"
proof (induction n rule: digits_of.induct)
  case (1 n)
  have small: "n < 10 \<Longrightarrow> decimal [char_of_digit n] = int n"
    using digit_val_digit [of n] by (simp add: decimal_def del: of_char_of)
  show ?case
  proof (cases "n < 10")
    case True
    then show ?thesis using small by (subst digits_of.simps) simp
  next
    case False
    then show ?thesis using "1.IH" by (subst digits_of.simps) (simp del: of_char_of add: zdiv_int zmod_int)
  qed
qed

lemma isdigit_neq:
  "isdigit c \<Longrightarrow> \<not> isspace c \<and> c \<noteq> CHR ''-'' \<and> c \<noteq> CHR ''+'' \<and> c \<noteq> CHR 0x00"
  by (auto simp: isdigit_def isspace_def)

lemma takeWhile_digits [simp]: "takeWhile isdigit (digits_of n) = digits_of n"
  by (simp add: takeWhile_eq_all_conv digits_of_isdigit)

lemma dropWhile_digits [simp]: "dropWhile isdigit (digits_of n) = []"
  by (simp add: dropWhile_eq_Nil_conv digits_of_isdigit)

lemma hd_digits: "isdigit (hd (digits_of n))"
  by (rule digits_of_isdigit [of _ n]) simp

lemma c_str_to_string [simp]: "c_str (to_string v) = to_string v"
proof -
  have "\<forall>c \<in> set (to_string v). c \<noteq> CHR 0x00"
    by (auto simp: to_string_def dest: digits_of_isdigit isdigit_neq)
  then show ?thesis by (simp add: c_str_def takeWhile_eq_all_conv)
qed

lemma to_string_nonspace: "c \<in> set (to_string v) \<Longrightarrow> \<not> isspace c"
  by (auto simp: to_string_def isspace_def dest!: digits_of_isdigit isdigit_neq split: if_splits)

lemma to_string_nonempty [simp]: "to_string v \<noteq> []"
  by (simp add: to_string_def)

lemma dropWhile_hd: "xs \<noteq> [] \<Longrightarrow> \<not> P (hd xs) \<Longrightarrow> dropWhile P xs = xs"
  by (cases xs) auto

lemma strtoll_to_string:
  assumes "in_int64 v"
  shows "strtoll (to_string v) = (v, [], False)"
proof -
  have "dropWhile isspace (to_string v) = to_string v"
    by (rule dropWhile_hd) (simp_all add: to_string_nonspace [of _ v])
  moreover have "hd (digits_of (nat v)) \<noteq> CHR ''-''" "hd (digits_of (nat v)) \<noteq> CHR ''+''"
    using isdigit_neq [OF hd_digits] by auto
  ultimately show ?thesis
    using assms by (auto simp: strtoll_def to_string_def in_int64_def Let_def intro: digits_of_isdigit)
qed

end
