(* ===== verification/FleetConfig.thy ===== *)
theory FleetConfig
  imports Prelude Complex_Main
begin

text \<open>
  The device configuration of the Power HAL (\<open>power-fleet/Config.h\<close>, \<open>Config.cpp\<close>): its
  data, the parser of the JSON tree and the well-formedness that every accepted
  configuration has.

  jsoncpp is not part of the repository. A JSON value is of an arbitrary type \<open>'j\<close> and the
  accessors the parser calls are the fields of \<open>json_api\<close>; \<open>v.get(key, dflt).asX()\<close> is
  the member's value when \<open>ja_isMember\<close> holds and the C++ default otherwise, as jsoncpp
  documents it. An accessor that throws ends the service and is outside the model. An error
  is the text that \<open>Fail\<close> stores.
\<close>

section \<open>Data\<close>

type_synonym ValueMap = "(string, string) smap"

datatype NodeType = CpufreqFloor | PpmFloor | Value | Pulse
datatype Aggregate = MaxInt | MaxFields
datatype Release = Default | RNone | Capture

record NodeConfig =
  nc_name :: string
  nc_type :: NodeType
  nc_path :: string
  nc_maxPath :: string
  nc_minInfoPath :: string
  nc_durationPath :: string
  nc_cluster :: int
  nc_defaultValue :: string
  nc_aggregate :: Aggregate
  nc_release :: Release
  nc_order :: int

definition NodeConfig_init :: NodeConfig where
  "NodeConfig_init = \<lparr>nc_name = '''', nc_type = Value, nc_path = '''', nc_maxPath = '''',
     nc_minInfoPath = '''', nc_durationPath = '''', nc_cluster = -1, nc_defaultValue = '''',
     nc_aggregate = MaxInt, nc_release = Default, nc_order = 0\<rparr>"

record RequestConfig =
  rc_holdMs :: int
  rc_pulseMs :: int
  rc_pulseMaxMs :: int
  rc_flingMinMs :: int
  rc_maxMs :: int
  rc_ignoreZeroDuration :: bool
  rc_pulse :: "string list"
  rc_set :: ValueMap

record AdpfConfig =
  ac_enabled :: bool
  ac_reportRateMs :: int
  ac_staleMs :: int
  ac_lowWater :: rat
  ac_levels :: "ValueMap list"

text \<open>The IEEE double nearest to 0.8, the default of \<open>lowWater\<close>.\<close>

definition double_0_8 :: rat where
  "double_0_8 = 3602879701896397 / 4503599627370496"

definition AdpfConfig_init :: AdpfConfig where
  "AdpfConfig_init = \<lparr>ac_enabled = False, ac_reportRateMs = 100, ac_staleMs = 150,
     ac_lowWater = double_0_8, ac_levels = []\<rparr>"

record Config =
  cf_nodes :: "NodeConfig list"
  cf_requests :: "(string, RequestConfig) smap"
  cf_adpf :: AdpfConfig
  cf_boosts :: "string list"
  cf_modes :: "string list"

definition Config_init :: Config where
  "Config_init = \<lparr>cf_nodes = [], cf_requests = [], cf_adpf = AdpfConfig_init,
     cf_boosts = [], cf_modes = []\<rparr>"

text \<open>The accessors of a jsoncpp value that the parser uses.\<close>

record 'j json_api =
  ja_isObject :: "'j \<Rightarrow> bool"
  ja_isArray :: "'j \<Rightarrow> bool"
  ja_isInt :: "'j \<Rightarrow> bool"
  ja_isMember :: "'j \<Rightarrow> string \<Rightarrow> bool"
  ja_index :: "'j \<Rightarrow> string \<Rightarrow> 'j"
  ja_memberNames :: "'j \<Rightarrow> string list"
  ja_elems :: "'j \<Rightarrow> 'j list"
  ja_asString :: "'j \<Rightarrow> string"
  ja_asInt :: "'j \<Rightarrow> int"
  ja_asInt64 :: "'j \<Rightarrow> int"
  ja_asBool :: "'j \<Rightarrow> bool"
  ja_asDouble :: "'j \<Rightarrow> rat"

section \<open>The parser\<close>

definition ja_str :: "'j json_api \<Rightarrow> 'j \<Rightarrow> string \<Rightarrow> string" where
  "ja_str ja v k = ja_asString ja (ja_index ja v k)"

definition ja_get :: "'j json_api \<Rightarrow> ('j json_api \<Rightarrow> 'j \<Rightarrow> 'x) \<Rightarrow> 'j \<Rightarrow> string \<Rightarrow> 'x \<Rightarrow> 'x" where
  "ja_get ja as v k dflt = (if ja_isMember ja v k then as ja (ja_index ja v k) else dflt)"

definition ParseValueMap :: "'j json_api \<Rightarrow> 'j \<Rightarrow> ValueMap" where
  "ParseValueMap ja v =
     (if \<not> ja_isObject ja v then []
      else fold (\<lambda>key out. mput key (ja_str ja v key) out) (ja_memberNames ja v) [])"

text \<open>A \<open>std::set\<close> of names is the list of its elements; only membership is used.\<close>

definition ParseNames :: "'j json_api \<Rightarrow> 'j \<Rightarrow> string list" where
  "ParseNames ja v = (if \<not> ja_isArray ja v then [] else map (ja_asString ja) (ja_elems ja v))"

definition ParseNodeKind :: "'j json_api \<Rightarrow> string \<Rightarrow> 'j \<Rightarrow> string + NodeConfig" where
  "ParseNodeKind ja name v =
     (let node = NodeConfig_init\<lparr>nc_name := name\<rparr>; type = ja_str ja v ''Type'' in
      if type = ''cpufreq_floor'' then
        let policy = ja_str ja v ''Policy'' in
        if policy = [] then Inl (''node '' @ name @ '': cpufreq_floor needs Policy'')
        else Inr (node\<lparr>nc_type := CpufreqFloor, nc_path := policy @ ''/scaling_min_freq'',
                       nc_maxPath := policy @ ''/scaling_max_freq'',
                       nc_minInfoPath := policy @ ''/cpuinfo_min_freq''\<rparr>)
      else if type = ''ppm_floor'' then
        if \<not> ja_isInt ja (ja_index ja v ''Cluster'')
        then Inl (''node '' @ name @ '': ppm_floor needs Cluster'')
        else Inr (node\<lparr>nc_type := PpmFloor,
                       nc_path := ja_get ja ja_asString v ''Path''
                                    ''/proc/ppm/policy/userlimit_min_cpu_freq'',
                       nc_maxPath := ja_str ja v ''MaxPath'',
                       nc_cluster := ja_asInt ja (ja_index ja v ''Cluster'')\<rparr>)
      else if type = ''value'' then
        let node = node\<lparr>nc_type := Value, nc_path := ja_str ja v ''Path'',
                        nc_defaultValue := ja_str ja v ''Default''\<rparr>;
            aggregate = ja_get ja ja_asString v ''Aggregate'' ''max_int'' in
        if aggregate = ''max_int'' then Inr (node\<lparr>nc_aggregate := MaxInt\<rparr>)
        else if aggregate = ''max_fields'' then Inr (node\<lparr>nc_aggregate := MaxFields\<rparr>)
        else Inl (''node '' @ name @ '': unknown Aggregate '' @ aggregate)
      else if type = ''pulse'' then
        Inr (node\<lparr>nc_type := Pulse, nc_path := ja_str ja v ''Path'',
                  nc_durationPath := ja_str ja v ''DurationPath''\<rparr>)
      else Inl (''node '' @ name @ '': unknown Type '' @ CHR 0x27 # type @ [CHR 0x27]))"

definition ParseNode :: "'j json_api \<Rightarrow> string \<Rightarrow> 'j \<Rightarrow> string + NodeConfig" where
  "ParseNode ja name v =
     (case ParseNodeKind ja name v of Inl e \<Rightarrow> Inl e | Inr node \<Rightarrow>
      if nc_path node = [] then Inl (''node '' @ name @ '': no path'') else
      let node = node\<lparr>nc_order := ja_get ja ja_asInt v ''Order'' 0\<rparr>;
          release = ja_get ja ja_asString v ''Release'' ''default'' in
      case (if release = ''default'' then Inr Default
            else if release = ''none'' then Inr RNone
            else if release = ''capture'' then Inr Capture
            else Inl (''node '' @ name @ '': unknown Release '' @ release)) of
        Inl e \<Rightarrow> Inl e
      | Inr rel \<Rightarrow>
          let node = node\<lparr>nc_release := rel\<rparr> in
          if nc_release node \<noteq> Default \<and> nc_type node \<noteq> Value
          then Inl (''node '' @ name @ '': Release none/capture is for value nodes'')
          else Inr node)"

text \<open>\<open>CheckSet\<close>: every name in the value map must be a non-pulse node; \<open>None\<close> is success.\<close>

fun CheckSet :: "(string, NodeType) smap \<Rightarrow> ValueMap \<Rightarrow> string \<Rightarrow> string option" where
  "CheckSet types [] loc = None"
| "CheckSet types ((node, value) # vs) loc =
     (case mfind types node of
        None \<Rightarrow> Some (loc @ '': unknown node '' @ node)
      | Some t \<Rightarrow> if t = Pulse then Some (loc @ '': pulse node '' @ node @ '' in Set'')
                  else CheckSet types vs loc)"

text \<open>The four loops of \<open>ParseConfig\<close>.\<close>

fun parse_nodes :: "'j json_api \<Rightarrow> 'j \<Rightarrow> string list \<Rightarrow> (string, NodeType) smap \<Rightarrow>
    NodeConfig list \<Rightarrow> string + (string, NodeType) smap \<times> NodeConfig list" where
  "parse_nodes ja nodes [] types out = Inr (types, out)"
| "parse_nodes ja nodes (name # names) types out =
     (case ParseNode ja name (ja_index ja nodes name) of
        Inl e \<Rightarrow> Inl e
      | Inr node \<Rightarrow> parse_nodes ja nodes names (mput name (nc_type node) types) (out @ [node]))"

fun parse_pulses :: "'j json_api \<Rightarrow> (string, NodeType) smap \<Rightarrow> string \<Rightarrow> 'j list \<Rightarrow>
    string list \<Rightarrow> string + string list" where
  "parse_pulses ja types source [] out = Inr out"
| "parse_pulses ja types source (p # ps) out =
     (let name = ja_asString ja p in
      if mfind types name \<noteq> Some Pulse
      then Inl (source @ '': '' @ name @ '' is not a pulse node'')
      else parse_pulses ja types source ps (out @ [name]))"

definition ParseRequest :: "'j json_api \<Rightarrow> (string, NodeType) smap \<Rightarrow> string \<Rightarrow> 'j \<Rightarrow>
    string + RequestConfig" where
  "ParseRequest ja types source r =
     (case parse_pulses ja types source (ja_elems ja (ja_index ja r ''Pulse'')) [] of
        Inl e \<Rightarrow> Inl e
      | Inr pulse \<Rightarrow>
          let rc = \<lparr>rc_holdMs = ja_get ja ja_asInt r ''HoldMs'' 0,
                    rc_pulseMs = ja_get ja ja_asInt r ''PulseMs'' 0,
                    rc_pulseMaxMs = ja_get ja ja_asInt r ''PulseMaxMs'' 1000,
                    rc_flingMinMs = ja_get ja ja_asInt r ''FlingMinMs'' 0,
                    rc_maxMs = ja_get ja ja_asInt r ''MaxMs'' 0,
                    rc_ignoreZeroDuration = ja_get ja ja_asBool r ''IgnoreZeroDuration'' False,
                    rc_pulse = pulse,
                    rc_set = ParseValueMap ja (ja_index ja r ''Set'')\<rparr> in
          case CheckSet types (rc_set rc) source of
            Some e \<Rightarrow> Inl e
          | None \<Rightarrow> if source = ''launch'' \<and> rc_maxMs rc \<le> 0
                    then Inl ''launch needs MaxMs > 0'' else Inr rc)"

fun parse_requests :: "'j json_api \<Rightarrow> (string, NodeType) smap \<Rightarrow> 'j \<Rightarrow> string list \<Rightarrow>
    (string, RequestConfig) smap \<Rightarrow> string + (string, RequestConfig) smap" where
  "parse_requests ja types requests [] out = Inr out"
| "parse_requests ja types requests (source # sources) out =
     (if source \<noteq> ''interaction'' \<and> source \<noteq> ''fling'' \<and> source \<noteq> ''launch''
      then Inl (''unknown request '' @ source)
      else case ParseRequest ja types source (ja_index ja requests source) of
             Inl e \<Rightarrow> Inl e
           | Inr rc \<Rightarrow> parse_requests ja types requests sources (mput source rc out))"

fun parse_levels :: "'j json_api \<Rightarrow> (string, NodeType) smap \<Rightarrow> 'j list \<Rightarrow> ValueMap list \<Rightarrow>
    string + ValueMap list" where
  "parse_levels ja types [] out = Inr out"
| "parse_levels ja types (level # levels) out =
     (let vs = ParseValueMap ja level in
      case CheckSet types vs ''Adpf level'' of
        Some e \<Rightarrow> Inl e
      | None \<Rightarrow> parse_levels ja types levels (out @ [vs]))"

definition ParseAdpf :: "'j json_api \<Rightarrow> (string, NodeType) smap \<Rightarrow> 'j \<Rightarrow> string + AdpfConfig" where
  "ParseAdpf ja types adpf =
     (if \<not> ja_isObject ja adpf then Inr AdpfConfig_init
      else case parse_levels ja types (ja_elems ja (ja_index ja adpf ''Levels'')) [] of
             Inl e \<Rightarrow> Inl e
           | Inr levels \<Rightarrow>
               let ac = \<lparr>ac_enabled = ja_get ja ja_asBool adpf ''Enabled'' False,
                         ac_reportRateMs = ja_get ja ja_asInt64 adpf ''ReportRateMs'' 100,
                         ac_staleMs = ja_get ja ja_asInt64 adpf ''StaleMs'' 150,
                         ac_lowWater = ja_get ja ja_asDouble adpf ''LowWater'' double_0_8,
                         ac_levels = levels\<rparr> in
               if ac_enabled ac \<and> ac_levels ac = []
               then Inl ''Adpf enabled without Levels'' else Inr ac)"

text \<open>\<open>ParseConfig\<close>, with jsoncpp's text parser as the argument \<open>parse\<close>.\<close>

definition ParseConfig :: "'j json_api \<Rightarrow> (string \<Rightarrow> string + 'j) \<Rightarrow> string \<Rightarrow> string + Config" where
  "ParseConfig ja parse json =
     (case parse json of Inl errs \<Rightarrow> Inl (''json: '' @ errs) | Inr rootv \<Rightarrow>
      if \<not> ja_isObject ja rootv then Inl ''json: root is not an object'' else
      let nodes = ja_index ja rootv ''Nodes'' in
      case parse_nodes ja nodes (ja_memberNames ja nodes) [] [] of Inl e \<Rightarrow> Inl e
      | Inr (types, ncs) \<Rightarrow>
      let requests = ja_index ja rootv ''Requests'' in
      case parse_requests ja types requests (ja_memberNames ja requests) [] of Inl e \<Rightarrow> Inl e
      | Inr rcs \<Rightarrow>
      case ParseAdpf ja types (ja_index ja rootv ''Adpf'') of Inl e \<Rightarrow> Inl e
      | Inr adpf \<Rightarrow>
      let supported = ja_index ja rootv ''Supported'' in
      Inr \<lparr>cf_nodes = ncs, cf_requests = rcs, cf_adpf = adpf,
           cf_boosts = ParseNames ja (ja_index ja supported ''Boosts''),
           cf_modes = ParseNames ja (ja_index ja supported ''Modes'')\<rparr>)"

text \<open>\<open>LoadConfig\<close>: \<open>readFile\<close> is the \<open>std::ifstream\<close> contents, \<open>None\<close> if it cannot be opened.\<close>

definition LoadConfig :: "'j json_api \<Rightarrow> (string \<Rightarrow> string + 'j) \<Rightarrow> (string \<Rightarrow> string option) \<Rightarrow>
    string \<Rightarrow> string + Config" where
  "LoadConfig ja parse readFile path =
     (case readFile path of None \<Rightarrow> Inl (''cannot open '' @ path)
      | Some buf \<Rightarrow> ParseConfig ja parse buf)"

text \<open>The configuration \<open>main\<close> runs with: a missing or broken file leaves the empty one.\<close>

definition main_config :: "'j json_api \<Rightarrow> (string \<Rightarrow> string + 'j) \<Rightarrow> (string \<Rightarrow> string option) \<Rightarrow>
    string \<Rightarrow> Config" where
  "main_config ja parse readFile path =
     (case LoadConfig ja parse readFile path of Inl e \<Rightarrow> Config_init | Inr c \<Rightarrow> c)"

section \<open>Well-formed configurations\<close>

definition wf_node :: "NodeConfig \<Rightarrow> bool" where
  "wf_node n \<longleftrightarrow> nc_path n \<noteq> [] \<and> (nc_release n \<noteq> Default \<longrightarrow> nc_type n = Value) \<and>
     (nc_type n = CpufreqFloor \<longrightarrow> (\<exists>policy. policy \<noteq> [] \<and>
        nc_path n = policy @ ''/scaling_min_freq'' \<and>
        nc_maxPath n = policy @ ''/scaling_max_freq'' \<and>
        nc_minInfoPath n = policy @ ''/cpuinfo_min_freq''))"

definition holdable :: "NodeConfig list \<Rightarrow> ValueMap \<Rightarrow> bool" where
  "holdable ncs vm \<longleftrightarrow> msorted vm \<and> (\<forall>node \<in> fst ` set vm. \<exists>n \<in> set ncs. nc_name n = node \<and> nc_type n \<noteq> Pulse)"

definition wf_request :: "NodeConfig list \<Rightarrow> string \<times> RequestConfig \<Rightarrow> bool" where
  "wf_request ncs = (\<lambda>(source, rc).
     source \<in> {''interaction'', ''fling'', ''launch''} \<and>
     holdable ncs (rc_set rc) \<and>
     (\<forall>p \<in> set (rc_pulse rc). \<exists>n \<in> set ncs. nc_name n = p \<and> nc_type n = Pulse) \<and>
     (source = ''launch'' \<longrightarrow> 0 < rc_maxMs rc))"

definition wf_config :: "Config \<Rightarrow> bool" where
  "wf_config c \<longleftrightarrow>
     (\<forall>n \<in> set (cf_nodes c). wf_node n) \<and>
     msorted (cf_requests c) \<and> (\<forall>r \<in> set (cf_requests c). wf_request (cf_nodes c) r) \<and>
     (\<forall>l \<in> set (ac_levels (cf_adpf c)). holdable (cf_nodes c) l) \<and>
     (ac_enabled (cf_adpf c) \<longrightarrow> ac_levels (cf_adpf c) \<noteq> [])"

section \<open>Every accepted configuration is well formed\<close>

lemma ParseValueMap_sorted: "msorted (ParseValueMap ja v)"
proof -
  have "msorted out \<Longrightarrow> msorted (fold (\<lambda>key. mput key (ja_str ja v key)) ks out)" for ks out
    by (induction ks arbitrary: out) (auto simp: msorted_mput)
  then show ?thesis by (auto simp: ParseValueMap_def)
qed

lemma ParseNodeKind_ok:
  assumes "ParseNodeKind ja name v = Inr n"
  shows "nc_name n = name \<and> nc_release n = Default \<and>
    (nc_type n = CpufreqFloor \<longrightarrow> (\<exists>policy. policy \<noteq> [] \<and>
        nc_path n = policy @ ''/scaling_min_freq'' \<and>
        nc_maxPath n = policy @ ''/scaling_max_freq'' \<and>
        nc_minInfoPath n = policy @ ''/cpuinfo_min_freq''))"
  using assms by (auto simp: ParseNodeKind_def NodeConfig_init_def Let_def split: if_splits)

lemma ParseNode_ok:
  assumes "ParseNode ja name v = Inr n"
  shows "nc_name n = name" "wf_node n"
  using assms ParseNodeKind_ok [of ja name v]
  by (auto simp: ParseNode_def wf_node_def Let_def split: sum.splits if_splits)

text \<open>The table of node types agrees with the nodes parsed so far.\<close>

definition types_of :: "(string, NodeType) smap \<Rightarrow> NodeConfig list \<Rightarrow> bool" where
  "types_of types ncs \<longleftrightarrow>
     (\<forall>name t. mfind types name = Some t \<longrightarrow> (\<exists>n \<in> set ncs. nc_name n = name \<and> nc_type n = t))"

lemma types_ofD:
  "types_of types ncs \<Longrightarrow> mfind types name = Some t \<Longrightarrow> \<exists>n \<in> set ncs. nc_name n = name \<and> nc_type n = t"
  by (simp add: types_of_def)

lemma parse_nodes_ok:
  assumes "parse_nodes ja nodes names types out = Inr (types', out')"
    and "types_of types out" and "\<forall>n \<in> set out. wf_node n"
  shows "types_of types' out' \<and> (\<forall>n \<in> set out'. wf_node n)"
  using assms
proof (induction ja nodes names types out rule: parse_nodes.induct)
  case (2 ja nodes name names types out)
  from "2.prems"(1) obtain node where node: "ParseNode ja name (ja_index ja nodes name) = Inr node"
    and rest: "parse_nodes ja nodes names (mput name (nc_type node) types) (out @ [node]) = Inr (types', out')"
    by (auto split: sum.splits)
  have "types_of (mput name (nc_type node) types) (out @ [node])"
    using "2.prems"(2) ParseNode_ok(1) [OF node] by (auto simp: types_of_def mfind_mput)
  then show ?case
    using "2.IH" [OF node rest] "2.prems"(3) ParseNode_ok(2) [OF node] by simp
qed simp

lemma parse_pulses_ok:
  assumes "parse_pulses ja types source ps out = Inr out'"
    and "\<forall>p \<in> set out. mfind types p = Some Pulse"
  shows "\<forall>p \<in> set out'. mfind types p = Some Pulse"
  using assms by (induction ja types source ps out rule: parse_pulses.induct)
    (auto simp: Let_def split: if_splits)

lemma CheckSet_ok:
  "CheckSet types vm loc = None \<Longrightarrow> node \<in> fst ` set vm \<Longrightarrow> \<exists>t. mfind types node = Some t \<and> t \<noteq> Pulse"
  by (induction types vm loc rule: CheckSet.induct) (auto split: option.splits if_splits)

lemma CheckSet_holdable:
  assumes "CheckSet types (ParseValueMap ja v) loc = None" and "types_of types ncs"
  shows "holdable ncs (ParseValueMap ja v)"
  unfolding holdable_def
proof (intro conjI ballI)
  fix node assume "node \<in> fst ` set (ParseValueMap ja v)"
  then obtain t where "mfind types node = Some t" "t \<noteq> Pulse"
    using CheckSet_ok [OF assms(1)] by blast
  then show "\<exists>n \<in> set ncs. nc_name n = node \<and> nc_type n \<noteq> Pulse"
    using types_ofD [OF assms(2)] by blast
qed (rule ParseValueMap_sorted)

lemma ParseRequest_ok:
  assumes "ParseRequest ja types source r = Inr rc" and "types_of types ncs"
    and "source \<in> {''interaction'', ''fling'', ''launch''}"
  shows "wf_request ncs (source, rc)"
proof -
  have "\<forall>p \<in> set (rc_pulse rc). mfind types p = Some Pulse"
    and "CheckSet types (rc_set rc) source = None" and "source = ''launch'' \<longrightarrow> 0 < rc_maxMs rc"
    and "rc_set rc = ParseValueMap ja (ja_index ja r ''Set'')"
    using assms(1) parse_pulses_ok [of ja types source]
    by (auto simp: ParseRequest_def Let_def split: sum.splits option.splits if_splits)
  then show ?thesis
    using assms(2,3) CheckSet_holdable [of types ja _ source ncs] types_ofD [OF assms(2)]
    by (auto simp: wf_request_def)
qed

lemma parse_requests_ok:
  assumes "parse_requests ja types requests sources out = Inr out'" and "types_of types ncs"
    and "msorted out" and "\<forall>r \<in> set out. wf_request ncs r"
  shows "msorted out' \<and> (\<forall>r \<in> set out'. wf_request ncs r)"
  using assms
proof (induction ja types requests sources out rule: parse_requests.induct)
  case (2 ja types requests source sources out)
  from "2.prems"(1) obtain rc where src: "source \<in> {''interaction'', ''fling'', ''launch''}"
    and rc: "ParseRequest ja types source (ja_index ja requests source) = Inr rc"
    and rest: "parse_requests ja types requests sources (mput source rc out) = Inr out'"
    by (auto split: sum.splits if_splits)
  have "\<forall>r \<in> set (mput source rc out). wf_request ncs r"
    using ParseRequest_ok [OF rc "2.prems"(2) src] "2.prems"(4) set_mput [of source rc out] by blast
  moreover have "\<not> (source \<noteq> ''interaction'' \<and> source \<noteq> ''fling'' \<and> source \<noteq> ''launch'')"
    using src by simp
  ultimately show ?case
    by (intro "2.IH" [OF _ rc rest "2.prems"(2)] msorted_mput "2.prems"(3))
qed simp

lemma parse_levels_ok:
  assumes "parse_levels ja types levels out = Inr out'" and "types_of types ncs"
    and "\<forall>l \<in> set out. holdable ncs l"
  shows "\<forall>l \<in> set out'. holdable ncs l"
  using assms by (induction ja types levels out rule: parse_levels.induct)
    (auto simp: Let_def CheckSet_holdable split: option.splits)

lemma ParseAdpf_ok:
  assumes "ParseAdpf ja types adpf = Inr ac" and "types_of types ncs"
  shows "(\<forall>l \<in> set (ac_levels ac). holdable ncs l) \<and> (ac_enabled ac \<longrightarrow> ac_levels ac \<noteq> [])"
  using assms parse_levels_ok [of ja types _ "[]" _ ncs]
  by (auto simp: ParseAdpf_def AdpfConfig_init_def Let_def split: if_splits sum.splits)

lemma ParseConfig_wf_config:
  assumes "ParseConfig ja parse json = Inr c"
  shows "wf_config c"
proof -
  have nil: "types_of [] []" by (simp add: types_of_def)
  from assms obtain rootv nodes types reqs adpf where
    n: "parse_nodes ja nodes (ja_memberNames ja nodes) [] [] = Inr (types, cf_nodes c)" and
    r: "parse_requests ja types reqs (ja_memberNames ja reqs) [] = Inr (cf_requests c)" and
    a: "ParseAdpf ja types adpf = Inr (cf_adpf c)"
    by (auto simp: ParseConfig_def Let_def split: sum.splits if_splits prod.splits)
  have "types_of types (cf_nodes c)" and "\<forall>n \<in> set (cf_nodes c). wf_node n"
    using parse_nodes_ok [OF n nil] by auto
  then show ?thesis
    using parse_requests_ok [OF r] ParseAdpf_ok [OF a] by (auto simp: wf_config_def)
qed

lemma main_config_wf_config: "wf_config (main_config ja parse readFile path)"
  using ParseConfig_wf_config [of ja parse]
  by (auto simp: main_config_def LoadConfig_def wf_config_def Config_init_def AdpfConfig_init_def
      split: sum.splits option.splits)

section \<open>The shipped configuration\<close>

text \<open>
  A concrete JSON tree with its accessors, used to evaluate the parser on the file
  \<open>configs/power/fleet_power.json\<close> (\<open>fleet_power_json\<close>, member for member).
\<close>

datatype json = JNull | JBool bool | JInt int | JString string | JArray "json list"
  | JObject "(string \<times> json) list"

fun json_index :: "json \<Rightarrow> string \<Rightarrow> json" where
  "json_index (JObject ms) k = (case mfind ms k of None \<Rightarrow> JNull | Some v \<Rightarrow> v)"
| "json_index _ k = JNull"

definition json_tree :: "json json_api" where
  "json_tree = \<lparr>
     ja_isObject = (\<lambda>v. case v of JObject _ \<Rightarrow> True | _ \<Rightarrow> False),
     ja_isArray = (\<lambda>v. case v of JArray _ \<Rightarrow> True | _ \<Rightarrow> False),
     ja_isInt = (\<lambda>v. case v of JInt _ \<Rightarrow> True | _ \<Rightarrow> False),
     ja_isMember = (\<lambda>v k. case v of JObject ms \<Rightarrow> mfind ms k \<noteq> None | _ \<Rightarrow> False),
     ja_index = json_index,
     ja_memberNames = (\<lambda>v. case v of JObject ms \<Rightarrow> map fst ms | _ \<Rightarrow> []),
     ja_elems = (\<lambda>v. case v of JArray vs \<Rightarrow> vs | _ \<Rightarrow> []),
     ja_asString = (\<lambda>v. case v of JString s \<Rightarrow> s | _ \<Rightarrow> []),
     ja_asInt = (\<lambda>v. case v of JInt n \<Rightarrow> n | _ \<Rightarrow> 0),
     ja_asInt64 = (\<lambda>v. case v of JInt n \<Rightarrow> n | _ \<Rightarrow> 0),
     ja_asBool = (\<lambda>v. case v of JBool b \<Rightarrow> b | _ \<Rightarrow> False),
     ja_asDouble = (\<lambda>v. case v of JInt n \<Rightarrow> of_int n | _ \<Rightarrow> 0)\<rparr>"

definition fleet_power_json :: json where
  "fleet_power_json = JObject [
     (''Adpf'', JObject [(''Enabled'', JBool False)]),
     (''Nodes'', JObject [
       (''hps'', JObject [(''Aggregate'', JString ''max_int''), (''Default'', JString ''1''),
          (''Path'', JString ''/proc/hps/num_base_perf_serv''), (''Type'', JString ''value'')]),
       (''ia_boost'', JObject [(''Aggregate'', JString ''max_int''), (''Default'', JString ''0''),
          (''Path'', JString ''/sys/devices/system/cpu/cpufreq/interactive/boost''),
          (''Type'', JString ''value'')]),
       (''ia_pulse'', JObject [
          (''DurationPath'', JString ''/sys/devices/system/cpu/cpufreq/interactive/boostpulse_duration''),
          (''Path'', JString ''/sys/devices/system/cpu/cpufreq/interactive/boostpulse''),
          (''Type'', JString ''pulse'')])]),
     (''Requests'', JObject [
       (''interaction'', JObject [(''HoldMs'', JInt 1000), (''Pulse'', JArray [JString ''ia_pulse'']),
          (''PulseMaxMs'', JInt 1000), (''PulseMs'', JInt 80),
          (''Set'', JObject [(''hps'', JString ''4'')])]),
       (''launch'', JObject [(''MaxMs'', JInt 1500), (''Set'', JObject [(''ia_boost'', JString ''1'')])])]),
     (''Supported'', JObject [(''Boosts'', JArray [JString ''INTERACTION'']),
       (''Modes'', JArray [JString ''LAUNCH'', JString ''INTERACTIVE'',
          JString ''DISPLAY_INACTIVE'', JString ''LOW_POWER''])]),
     (''_comment'', JString [])]"

definition fleet_config :: Config where
  "fleet_config = \<lparr>
     cf_nodes = [
       NodeConfig_init\<lparr>nc_name := ''hps'', nc_path := ''/proc/hps/num_base_perf_serv'',
         nc_defaultValue := ''1''\<rparr>,
       NodeConfig_init\<lparr>nc_name := ''ia_boost'',
         nc_path := ''/sys/devices/system/cpu/cpufreq/interactive/boost'', nc_defaultValue := ''0''\<rparr>,
       NodeConfig_init\<lparr>nc_name := ''ia_pulse'', nc_type := Pulse,
         nc_path := ''/sys/devices/system/cpu/cpufreq/interactive/boostpulse'',
         nc_durationPath := ''/sys/devices/system/cpu/cpufreq/interactive/boostpulse_duration''\<rparr>],
     cf_requests = [
       (''interaction'', \<lparr>rc_holdMs = 1000, rc_pulseMs = 80, rc_pulseMaxMs = 1000, rc_flingMinMs = 0,
          rc_maxMs = 0, rc_ignoreZeroDuration = False, rc_pulse = [''ia_pulse''],
          rc_set = [(''hps'', ''4'')]\<rparr>),
       (''launch'', \<lparr>rc_holdMs = 0, rc_pulseMs = 0, rc_pulseMaxMs = 1000, rc_flingMinMs = 0,
          rc_maxMs = 1500, rc_ignoreZeroDuration = False, rc_pulse = [],
          rc_set = [(''ia_boost'', ''1'')]\<rparr>)],
     cf_adpf = AdpfConfig_init,
     cf_boosts = [''INTERACTION''],
     cf_modes = [''LAUNCH'', ''INTERACTIVE'', ''DISPLAY_INACTIVE'', ''LOW_POWER'']\<rparr>"

lemma fleet_power_json_parses:
  "ParseConfig json_tree (\<lambda>_. Inr fleet_power_json) [] = Inr fleet_config"
  by (simp add: ParseConfig_def ParseAdpf_def ParseRequest_def ParseNode_def ParseNodeKind_def
      ParseValueMap_def ParseNames_def ja_get_def ja_str_def json_tree_def mfind_def Let_def
      fleet_power_json_def fleet_config_def NodeConfig_init_def AdpfConfig_init_def)

text \<open>
  C8 (safety). A configuration that \<open>ParseConfig\<close> accepts is well formed, whatever the JSON: every
  node has a path, \<open>Release\<close> none or capture occurs on value nodes only, every request is one of
  the three known sources and names existing nodes of the right kind (pulse nodes in \<open>Pulse\<close>,
  none in \<open>Set\<close> or in an ADPF level), "launch" has a positive \<open>MaxMs\<close>, and ADPF is enabled only
  with levels.
\<close>

theorem ParseConfig_wellformed:
  assumes "ParseConfig ja parse json = Inr c"
  shows "wf_config c"
  using assms by (rule ParseConfig_wf_config)

theorem ParseConfig_wellformed_witness:
  "ParseConfig json_tree (\<lambda>_. Inr fleet_power_json) [] = Inr fleet_config \<and> wf_config fleet_config"
  using fleet_power_json_parses ParseConfig_wellformed [OF fleet_power_json_parses] by blast

text \<open>
  The configuration \<open>main\<close> runs with is well formed in every case, and when the file is
  missing or rejected it supports no boost and no mode and has no node, so the HAL writes nothing.
\<close>

theorem main_config_fallback:
  "wf_config (main_config ja parse readFile path) \<and>
   (case LoadConfig ja parse readFile path of
      Inr c \<Rightarrow> main_config ja parse readFile path = c
    | Inl e \<Rightarrow> cf_nodes (main_config ja parse readFile path) = [] \<and>
        cf_requests (main_config ja parse readFile path) = [] \<and>
        cf_boosts (main_config ja parse readFile path) = [] \<and>
        cf_modes (main_config ja parse readFile path) = [] \<and>
        \<not> ac_enabled (cf_adpf (main_config ja parse readFile path)))"
  using main_config_wf_config [of ja parse readFile path]
  by (auto simp: main_config_def Config_init_def AdpfConfig_init_def split: sum.splits)

end
