(* ===== verification/FleetEngine.thy ===== *)
theory FleetEngine
  imports FleetConfig "HOL-Library.Product_Lexorder" "HOL-Library.Multiset"
begin

text \<open>
  The node engine of the Power HAL (\<open>power-fleet/Engine.h\<close>, \<open>Engine.cpp\<close>): the requests,
  the per-node state, the target computation, the write path and the public operations, with
  the laws that other components rely on (locale \<open>request_engine\<close>) and its correctness.

  The engine does its I/O through \<open>Fs\<close>. The world it acts on is of an arbitrary type \<open>'w\<close>
  and is passed explicitly: \<open>fs_read\<close> reads a node, \<open>fs_write\<close> returns the new world,
  whether the write succeeded and the errno it left. Every public operation runs under
  \<open>mLock\<close>, so an operation is one step on the pair of engine state and world.
  Time points are \<open>steady_clock\<close> nanoseconds, \<open>time_max\<close> is \<open>time_point::max()\<close>.
  Integers are unbounded; \<open>ResolveKhz_in_int64\<close> states when the source's int64 arithmetic
  agrees. The write, failure and deferral counters do not wrap.
\<close>

section \<open>Parsing of node contents and tokens\<close>

definition trim_char :: "char \<Rightarrow> bool" where
  "trim_char c \<longleftrightarrow> c = CHR '' '' \<or> c = CHR 0x09 \<or> c = CHR 0x0A"

definition Trim :: "string \<Rightarrow> string" where
  "Trim s = rev (dropWhile trim_char (rev (dropWhile trim_char s)))"

definition ParseInt :: "string \<Rightarrow> int option" where
  "ParseInt s =
     (let t = Trim s in
      if t = [] then None
      else case strtoll (c_str t) of (v, endp, erange) \<Rightarrow>
        if erange \<or> endp = c_str t \<or> endp \<noteq> [] then None else Some v)"

text \<open>\<open>in >> field\<close> over an \<open>istringstream\<close>: the maximal runs of non-space characters.\<close>

fun fields_aux :: "string \<Rightarrow> string \<Rightarrow> string list" where
  "fields_aux acc [] = (if acc = [] then [] else [rev acc])"
| "fields_aux acc (c # cs) =
     (if isspace c then (if acc = [] then fields_aux [] cs else rev acc # fields_aux [] cs)
      else fields_aux (c # acc) cs)"

definition ParseFields :: "string \<Rightarrow> int list" where
  "ParseFields s =
     (let vs = map ParseInt (fields_aux [] s) in
      if None \<in> set vs then [] else map the vs)"

definition ResolveKhz :: "string \<Rightarrow> int option \<Rightarrow> int option" where
  "ResolveKhz token ceil =
     (if token = ''max'' then ceil
      else if take 4 token = ''pct:'' then
        (case ParseInt (drop 4 token) of
           None \<Rightarrow> None
         | Some pct \<Rightarrow> (case ceil of None \<Rightarrow> None
                        | Some c \<Rightarrow> Some (cdiv (c * clamp pct 0 100) 100)))
      else ParseInt token)"

section \<open>State\<close>

abbreviation ns_per_ms :: int where "ns_per_ms \<equiv> 1000000"
abbreviation time_max :: int where "time_max \<equiv> INT64_MAX"

definition kRetryPeriod :: int where "kRetryPeriod = 500 * ns_per_ms"
definition kRetryWindow :: int where "kRetryWindow = 60000 * ns_per_ms"

definition EACCES :: int where "EACCES = 13"
definition ENOENT :: int where "ENOENT = 2"

record 'w Fs =
  fs_read :: "'w \<Rightarrow> string \<Rightarrow> string option"
  fs_write :: "'w \<Rightarrow> string \<Rightarrow> string \<Rightarrow> 'w \<times> bool \<times> int"

record NodeState =
  ns_cfg :: NodeConfig
  ns_written :: "string option"
  ns_releasedKhz :: "int option"
  ns_pulseUs :: "int option"
  ns_captured :: "string option"
  ns_writes :: nat
  ns_failures :: nat
  ns_deferred :: nat
  ns_lastError :: int

definition NodeState_init :: "NodeConfig \<Rightarrow> NodeState" where
  "NodeState_init cfg = \<lparr>ns_cfg = cfg, ns_written = None, ns_releasedKhz = None,
     ns_pulseUs = None, ns_captured = None, ns_writes = 0, ns_failures = 0, ns_deferred = 0,
     ns_lastError = 0\<rparr>"

record Request =
  rq_values :: ValueMap
  rq_until :: int

record Engine =
  mNodes :: "NodeState list"
  mRequests :: "(string, Request) smap"
  mDirty :: bool
  mRetryUntil :: int

section \<open>Target computation and writing\<close>

definition readKhz :: "'w Fs \<Rightarrow> 'w \<Rightarrow> string \<Rightarrow> int option" where
  "readKhz fs w path =
     (if path = [] then None
      else case fs_read fs w path of None \<Rightarrow> None | Some s \<Rightarrow> ParseInt s)"

definition tokens_for :: "(string, Request) smap \<Rightarrow> string \<Rightarrow> string list" where
  "tokens_for reqs name = List.map_filter (\<lambda>(source, r). mfind (rq_values r) name) reqs"

definition max_opt :: "int option \<Rightarrow> int \<Rightarrow> int option" where
  "max_opt best v = (case best of None \<Rightarrow> Some v | Some b \<Rightarrow> Some (max b v))"

definition fold_max :: "(string \<Rightarrow> int option) \<Rightarrow> string list \<Rightarrow> int option \<Rightarrow> int option" where
  "fold_max val tokens = fold (\<lambda>t best. case val t of None \<Rightarrow> best | Some v \<Rightarrow> max_opt best v) tokens"

definition grow :: "int list \<Rightarrow> nat \<Rightarrow> int list" where
  "grow best n = (if n > length best then best @ replicate (n - length best) INT64_MIN else best)"

definition merge_fields :: "int list \<Rightarrow> int list \<Rightarrow> int list" where
  "merge_fields best f =
     (let best = grow best (length f) in
      map2 max (take (length f) best) f @ drop (length f) best)"

fun join_space :: "int list \<Rightarrow> string" where
  "join_space [] = []"
| "join_space [v] = to_string v"
| "join_space (v # vs) = to_string v @ '' '' @ join_space vs"

definition aggregate_tokens :: "NodeConfig \<Rightarrow> string list \<Rightarrow> string" where
  "aggregate_tokens cfg tokens =
     (if nc_aggregate cfg = MaxInt then
        (case fold_max ParseInt tokens None of
           Some best \<Rightarrow> to_string best
         | None \<Rightarrow> nc_defaultValue cfg)
      else
        let best = fold (\<lambda>t best. merge_fields best (ParseFields t)) tokens [] in
        if best = [] then nc_defaultValue cfg else join_space best)"

definition targetValue :: "'w Fs \<Rightarrow> 'w \<Rightarrow> string list \<Rightarrow> NodeState \<Rightarrow> NodeState \<times> string option" where
  "targetValue fs w tokens node =
     (let cfg = ns_cfg node in
      if tokens = [] then
        (case nc_release cfg of
           Default \<Rightarrow> (node, Some (nc_defaultValue cfg))
         | RNone \<Rightarrow> (node\<lparr>ns_written := None\<rparr>, None)
         | Capture \<Rightarrow>
             if ns_captured node = None then (node, None)
             else if ns_written node = ns_captured node then (node\<lparr>ns_captured := None\<rparr>, None)
             else (node, ns_captured node))
      else if nc_release cfg = Capture \<and> ns_captured node = None then
        (case fs_read fs w (nc_path cfg) of
           None \<Rightarrow> (node, None)
         | Some current \<Rightarrow>
             (node\<lparr>ns_captured := Some (Trim current)\<rparr>, Some (aggregate_tokens cfg tokens)))
      else (node, Some (aggregate_tokens cfg tokens)))"

definition targetCpufreq :: "'w Fs \<Rightarrow> 'w \<Rightarrow> string list \<Rightarrow> NodeState \<Rightarrow> NodeState \<times> string option" where
  "targetCpufreq fs w tokens node =
     (case readKhz fs w (nc_maxPath (ns_cfg node)) of
        None \<Rightarrow> (node, None)
      | Some ceil \<Rightarrow>
          let node = (if ns_releasedKhz node = None
                      then node\<lparr>ns_releasedKhz := readKhz fs w (nc_minInfoPath (ns_cfg node))\<rparr>
                      else node) in
          case ns_releasedKhz node of
            None \<Rightarrow> (node, None)
          | Some released \<Rightarrow>
              let khz = fold (\<lambda>t khz. case ResolveKhz t (Some ceil) of
                                        None \<Rightarrow> khz | Some v \<Rightarrow> max khz v) tokens released in
              (node, Some (to_string (min khz ceil))))"

definition targetPpm :: "'w Fs \<Rightarrow> 'w \<Rightarrow> string list \<Rightarrow> NodeState \<Rightarrow> NodeState \<times> string option" where
  "targetPpm fs w tokens node =
     (let ceil = readKhz fs w (nc_maxPath (ns_cfg node));
          khz = fold_max (\<lambda>t. ResolveKhz t ceil) tokens None;
          khz = (case (khz, ceil) of (Some k, Some c) \<Rightarrow> Some (min k c) | _ \<Rightarrow> khz) in
      (node, Some (to_string (nc_cluster (ns_cfg node)) @ '' '' @
                   (case khz of Some k \<Rightarrow> to_string k | None \<Rightarrow> ''-1''))))"

definition targetLocked :: "'w Fs \<Rightarrow> 'w \<Rightarrow> (string, Request) smap \<Rightarrow> NodeState \<Rightarrow>
    NodeState \<times> string option" where
  "targetLocked fs w reqs node =
     (let tokens = tokens_for reqs (nc_name (ns_cfg node)) in
      case nc_type (ns_cfg node) of
        CpufreqFloor \<Rightarrow> targetCpufreq fs w tokens node
      | PpmFloor \<Rightarrow> targetPpm fs w tokens node
      | Value \<Rightarrow> targetValue fs w tokens node
      | Pulse \<Rightarrow> (node, None))"

definition writeLocked :: "'w Fs \<Rightarrow> 'w \<Rightarrow> NodeState \<Rightarrow> string \<Rightarrow> 'w \<times> NodeState \<times> bool" where
  "writeLocked fs w node value =
     (case fs_write fs w (nc_path (ns_cfg node)) value of (w', ok, err) \<Rightarrow>
      if ok then
        (w', node\<lparr>ns_writes := ns_writes node + 1,
                  ns_written := (if nc_type (ns_cfg node) \<noteq> Pulse then Some value
                                 else ns_written node)\<rparr>, True)
      else
        let node = node\<lparr>ns_lastError := err, ns_written := None\<rparr> in
        if ns_writes node = 0 \<and> (err = EACCES \<or> err = ENOENT)
        then (w', node\<lparr>ns_deferred := ns_deferred node + 1\<rparr>, False)
        else (w', node\<lparr>ns_failures := ns_failures node + 1\<rparr>, False))"

section \<open>Applying the requests\<close>

definition live_requests :: "int \<Rightarrow> (string, Request) smap \<Rightarrow> (string, Request) smap" where
  "live_requests now reqs = filter (\<lambda>(source, r). now < rq_until r) reqs"

definition next_deadline :: "(string, Request) smap \<Rightarrow> int" where
  "next_deadline reqs = fold (\<lambda>(source, r) next. min next (rq_until r)) reqs time_max"

text \<open>One round of the node loop: the new world and node, and whether the write is still pending.\<close>

definition apply_node :: "'w Fs \<Rightarrow> (string, Request) smap \<Rightarrow> 'w \<Rightarrow> NodeState \<Rightarrow>
    'w \<times> NodeState \<times> bool" where
  "apply_node fs reqs w node =
     (if nc_type (ns_cfg node) = Pulse then (w, node, False)
      else case targetLocked fs w reqs node of
             (node, None) \<Rightarrow> (w, node, False)
           | (node, Some target) \<Rightarrow>
               if ns_written node = Some target then (w, node, False)
               else case writeLocked fs w node target of
                      (w, node, ok) \<Rightarrow> (w, node, \<not> ok \<and> ns_writes node = 0))"

fun apply_nodes :: "'w Fs \<Rightarrow> (string, Request) smap \<Rightarrow> 'w \<Rightarrow> NodeState list \<Rightarrow>
    'w \<times> NodeState list \<times> bool" where
  "apply_nodes fs reqs w [] = (w, [], False)"
| "apply_nodes fs reqs w (node # nodes) =
     (case apply_node fs reqs w node of (w, node, pending) \<Rightarrow>
      case apply_nodes fs reqs w nodes of (w, nodes, pending') \<Rightarrow>
        (w, node # nodes, pending \<or> pending'))"

definition applyLocked :: "'w Fs \<Rightarrow> int \<Rightarrow> 'w \<Rightarrow> Engine \<Rightarrow> 'w \<times> Engine \<times> int" where
  "applyLocked fs now w e =
     (let reqs = live_requests now (mRequests e); next = next_deadline reqs in
      case apply_nodes fs reqs w (mNodes e) of (w, nodes, pending) \<Rightarrow>
        (w, e\<lparr>mRequests := reqs, mNodes := nodes\<rparr>,
         if pending \<and> now < mRetryUntil e then min next (now + kRetryPeriod) else next))"

section \<open>Public operations\<close>

definition node_before :: "NodeConfig \<Rightarrow> NodeConfig \<Rightarrow> bool" where
  "node_before a b \<longleftrightarrow>
     (if nc_order a \<noteq> nc_order b then nc_order a < nc_order b else nc_name a < nc_name b)"

text \<open>\<open>std::stable_sort\<close> with the comparator above, as stable insertion.\<close>

fun insert_node :: "NodeConfig \<Rightarrow> NodeConfig list \<Rightarrow> NodeConfig list" where
  "insert_node n [] = [n]"
| "insert_node n (m # ms) = (if node_before m n then m # insert_node n ms else n # m # ms)"

definition sort_nodes :: "NodeConfig list \<Rightarrow> NodeConfig list" where
  "sort_nodes ns = foldr insert_node ns []"

definition Engine_ctor :: "NodeConfig list \<Rightarrow> Engine" where
  "Engine_ctor nodes = \<lparr>mNodes = map NodeState_init (sort_nodes nodes), mRequests = [],
     mDirty = False, mRetryUntil = 0\<rparr>"

definition reset :: "'w Fs \<Rightarrow> int \<Rightarrow> 'w \<Rightarrow> Engine \<Rightarrow> 'w \<times> Engine" where
  "reset fs now w e =
     (let e = e\<lparr>mRequests := [],
                mNodes := map (\<lambda>node. node\<lparr>ns_written := None\<rparr>) (mNodes e),
                mRetryUntil := now + kRetryWindow\<rparr> in
      case applyLocked fs now w e of (w, e, _) \<Rightarrow> (w, e))"

definition setRequest :: "'w Fs \<Rightarrow> string \<Rightarrow> ValueMap \<Rightarrow> int \<Rightarrow> bool \<Rightarrow> int \<Rightarrow> 'w \<Rightarrow> Engine \<Rightarrow> 'w \<times> Engine" where
  "setRequest fs source values until ext now w e =
     (let until = (case mfind (mRequests e) source of
                     Some r \<Rightarrow> if ext \<and> rq_until r > now then max until (rq_until r) else until
                   | None \<Rightarrow> until);
          e = e\<lparr>mRequests := mput source \<lparr>rq_values = values, rq_until = until\<rparr> (mRequests e)\<rparr> in
      case applyLocked fs now w e of (w, e, _) \<Rightarrow> (w, e\<lparr>mDirty := True\<rparr>))"

definition clearRequest :: "'w Fs \<Rightarrow> string \<Rightarrow> int \<Rightarrow> 'w \<Rightarrow> Engine \<Rightarrow> 'w \<times> Engine" where
  "clearRequest fs source now w e =
     (if mfind (mRequests e) source = None then (w, e)
      else case applyLocked fs now w (e\<lparr>mRequests := merase source (mRequests e)\<rparr>) of
             (w, e, _) \<Rightarrow> (w, e\<lparr>mDirty := True\<rparr>))"

definition clearAll :: "'w Fs \<Rightarrow> int \<Rightarrow> 'w \<Rightarrow> Engine \<Rightarrow> 'w \<times> Engine" where
  "clearAll fs now w e =
     (if mRequests e = [] then (w, e)
      else case applyLocked fs now w (e\<lparr>mRequests := []\<rparr>) of
             (w, e, _) \<Rightarrow> (w, e\<lparr>mDirty := True\<rparr>))"

definition pulse_node :: "'w Fs \<Rightarrow> int \<Rightarrow> 'w \<Rightarrow> NodeState \<Rightarrow> 'w \<times> NodeState" where
  "pulse_node fs durationMs w node =
     (let us = durationMs * 1000;
          (w, node) =
            (if nc_durationPath (ns_cfg node) \<noteq> [] \<and> ns_pulseUs node \<noteq> Some us
             then case fs_write fs w (nc_durationPath (ns_cfg node)) (to_string us) of
                    (w, ok, err) \<Rightarrow>
                      (w, if ok then node\<lparr>ns_pulseUs := Some us\<rparr>
                          else node\<lparr>ns_failures := ns_failures node + 1, ns_lastError := err\<rparr>)
             else (w, node)) in
      case writeLocked fs w node ''1'' of (w, node, _) \<Rightarrow> (w, node))"

fun pulse_nodes :: "'w Fs \<Rightarrow> string \<Rightarrow> int \<Rightarrow> 'w \<Rightarrow> NodeState list \<Rightarrow> 'w \<times> NodeState list" where
  "pulse_nodes fs name durationMs w [] = (w, [])"
| "pulse_nodes fs name durationMs w (node # nodes) =
     (if nc_name (ns_cfg node) = name then
        (if nc_type (ns_cfg node) \<noteq> Pulse then (w, node # nodes)
         else case pulse_node fs durationMs w node of (w, node) \<Rightarrow> (w, node # nodes))
      else case pulse_nodes fs name durationMs w nodes of (w, nodes) \<Rightarrow> (w, node # nodes))"

definition pulse :: "'w Fs \<Rightarrow> string \<Rightarrow> int \<Rightarrow> 'w \<Rightarrow> Engine \<Rightarrow> 'w \<times> Engine" where
  "pulse fs name durationMs w e =
     (case pulse_nodes fs name durationMs w (mNodes e) of (w, nodes) \<Rightarrow> (w, e\<lparr>mNodes := nodes\<rparr>))"

definition hasRequest :: "Engine \<Rightarrow> string \<Rightarrow> bool" where
  "hasRequest e source \<longleftrightarrow> mfind (mRequests e) source \<noteq> None"

text \<open>
  One round of the worker: it applies at time \<open>now\<close>, computes when to wake, and clears
  \<open>mDirty\<close> when it wakes. \<open>None\<close> is an untimed wait.
\<close>

definition loop_round :: "'w Fs \<Rightarrow> int \<Rightarrow> 'w \<Rightarrow> Engine \<Rightarrow> 'w \<times> Engine \<times> int option" where
  "loop_round fs now w e =
     (case applyLocked fs now w e of (w, e, next) \<Rightarrow>
        (w, e\<lparr>mDirty := False\<rparr>, if next = time_max then None else Some next))"

section \<open>Parsing lemmas\<close>

lemma Trim_id:
  assumes "s \<noteq> []" and "\<forall>c \<in> set s. \<not> isspace c"
  shows "Trim s = s"
proof -
  have "\<forall>c \<in> set s. \<not> trim_char c"
    using assms(2) by (auto simp: trim_char_def isspace_def)
  then have "dropWhile trim_char s = s" "dropWhile trim_char (rev s) = rev s"
    using assms(1) by (simp_all add: dropWhile_hd hd_rev)
  then show ?thesis by (simp add: Trim_def)
qed

lemma ParseInt_to_string: "in_int64 v \<Longrightarrow> ParseInt (to_string v) = Some v"
  using Trim_id [of "to_string v"] to_string_nonspace [of _ v]
  by (simp add: ParseInt_def strtoll_to_string to_string_nonempty [symmetric])

lemma ParseInt_in_int64: "ParseInt s = Some v \<Longrightarrow> in_int64 v"
  by (auto simp: ParseInt_def strtoll_def Let_def in_int64_def split: if_splits)

text \<open>A percentage of a ceil below 2^63/100 is computed without overflow, and stays below it.\<close>

lemma pct_bounds:
  assumes "0 \<le> c"
  shows "0 \<le> cdiv (c * clamp pct 0 100) 100 \<and> cdiv (c * clamp pct 0 100) 100 \<le> c"
proof -
  have p: "0 \<le> clamp pct 0 100" "clamp pct 0 100 \<le> 100" by simp_all
  then have "c * clamp pct 0 100 \<le> c * 100" using assms by (intro mult_left_mono) auto
  moreover have "0 \<le> c * clamp pct 0 100" using assms p by simp
  ultimately show ?thesis by (simp add: cdiv_nonneg) linarith
qed

lemma ResolveKhz_cases:
  assumes "ResolveKhz token (Some c) = Some v"
  shows "v = c \<or> ParseInt token = Some v \<or> (\<exists>pct. v = cdiv (c * clamp pct 0 100) 100)"
proof (cases "token = ''max''")
  case True
  then show ?thesis using assms by (simp add: ResolveKhz_def)
next
  case notmax: False
  show ?thesis
  proof (cases "take 4 token = ''pct:''")
    case True
    then show ?thesis
      using assms notmax by (cases "ParseInt (drop 4 token)") (auto simp: ResolveKhz_def)
  next
    case False
    then show ?thesis using assms notmax by (simp add: ResolveKhz_def)
  qed
qed

lemma ResolveKhz_in_int64:
  assumes "ResolveKhz token (Some c) = Some v" and "0 \<le> c" and "c \<le> INT64_MAX div 100"
  shows "in_int64 v"
proof -
  consider "v = c" | "ParseInt token = Some v" | pct where "v = cdiv (c * clamp pct 0 100) 100"
    using ResolveKhz_cases [OF assms(1)] by blast
  then show ?thesis
  proof cases
    case 1
    then show ?thesis using assms(2,3) by (simp add: in_int64_def)
  next
    case 2
    then show ?thesis by (rule ParseInt_in_int64)
  next
    case (3 pct)
    then show ?thesis using pct_bounds [OF assms(2), of pct] assms(3) by (simp add: in_int64_def)
  qed
qed

section \<open>Maxima\<close>

lemma fold_max_Some:
  "fold_max val ts (Some b) = Some (Max (insert b {v. \<exists>t \<in> set ts. val t = Some v}))"
proof (induction ts arbitrary: b)
  case (Cons t ts)
  have fin: "finite {v. \<exists>t \<in> set ts. val t = Some v}" for ts
  proof -
    have "{v. \<exists>t \<in> set ts. val t = Some v} = the ` val ` {t \<in> set ts. val t \<noteq> None}" by force
    then show ?thesis by simp
  qed
  show ?case
  proof (cases "val t")
    case None
    have "{v. \<exists>u \<in> set (t # ts). val u = Some v} = {v. \<exists>u \<in> set ts. val u = Some v}"
      using None by auto
    then show ?thesis using None Cons.IH [of b] by (simp add: fold_max_def)
  next
    case (Some x)
    have "{v. \<exists>u \<in> set (t # ts). val u = Some v} = insert x {v. \<exists>u \<in> set ts. val u = Some v}"
      using Some by auto
    moreover have "Max (insert (max b x) A) = Max (insert b (insert x A))" if "finite A" for A
      using that by (cases "A = {}") (auto simp: max.assoc)
    ultimately show ?thesis
      using Some Cons.IH [of "max b x"] fin by (simp add: fold_max_def max_opt_def)
  qed
qed (simp add: fold_max_def)

lemma fold_max_None:
  "fold_max val ts None =
     (let vs = {v. \<exists>t \<in> set ts. val t = Some v} in if vs = {} then None else Some (Max vs))"
proof (induction ts)
  case (Cons t ts)
  show ?case
  proof (cases "val t")
    case None
    then have "{v. \<exists>u \<in> set (t # ts). val u = Some v} = {v. \<exists>u \<in> set ts. val u = Some v}"
      by auto
    then show ?thesis using None Cons.IH by (simp add: fold_max_def)
  next
    case (Some x)
    then have eq: "{v. \<exists>u \<in> set (t # ts). val u = Some v} = insert x {v. \<exists>u \<in> set ts. val u = Some v}"
      by auto
    show ?thesis
      unfolding eq using Some fold_max_Some [of val ts x] by (simp add: fold_max_def max_opt_def)
  qed
qed (simp add: fold_max_def)

lemma fold_max_khz:
  "Some (fold (\<lambda>t k. case val t of None \<Rightarrow> k | Some v \<Rightarrow> max k v) ts b) = fold_max val ts (Some b)"
  by (induction ts arbitrary: b) (auto simp: fold_max_def max_opt_def split: option.splits)

section \<open>Requests and deadlines\<close>

lemma live_requests_iff:
  "(source, r) \<in> set (live_requests now reqs) \<longleftrightarrow> (source, r) \<in> set reqs \<and> now < rq_until r"
  by (simp add: live_requests_def)

lemma msorted_live [inv_intros]: "msorted reqs \<Longrightarrow> msorted (live_requests now reqs)"
  by (simp add: live_requests_def msorted_filter)

lemma next_deadline_le:
  "fold (\<lambda>(source, r) next. min next (rq_until r)) reqs b \<le> b \<and>
   (\<forall>(source, r) \<in> set reqs. fold (\<lambda>(source, r) next. min next (rq_until r)) reqs b \<le> rq_until r)"
proof (induction reqs arbitrary: b)
  case (Cons e reqs)
  obtain s r where e: "e = (s, r)" by (cases e)
  show ?case using Cons.IH [of "min b (rq_until r)"] by (auto simp: e)
qed simp

lemma next_deadline_attained:
  "next_deadline reqs = time_max \<or> next_deadline reqs \<in> (rq_until \<circ> snd) ` set reqs"
proof -
  have "fold (\<lambda>(source, r) next. min next (rq_until r)) reqs b \<in> insert b ((rq_until \<circ> snd) ` set reqs)" for b
  proof (induction reqs arbitrary: b)
    case (Cons e reqs)
    obtain s r where e: "e = (s, r)" by (cases e)
    show ?case using Cons.IH [of "min b (rq_until r)"] by (auto simp: e min_def split: if_splits)
  qed simp
  then show ?thesis unfolding next_deadline_def by blast
qed

lemma next_deadline_bounds:
  "next_deadline reqs \<le> time_max" "(source, r) \<in> set reqs \<Longrightarrow> next_deadline reqs \<le> rq_until r"
  using next_deadline_le [of reqs time_max] by (auto simp: next_deadline_def)

lemma applyLocked_fields:
  assumes "applyLocked fs now w e = (w', e', next)"
  shows "mRequests e' = live_requests now (mRequests e)" "mRetryUntil e' = mRetryUntil e"
    "mDirty e' = mDirty e"
  using assms by (auto simp: applyLocked_def Let_def split: prod.splits)

lemma applyLocked_cfgs:
  assumes "applyLocked fs now w e = (w', e', next)"
  shows "map ns_cfg (mNodes e') = map ns_cfg (mNodes e)"
proof -
  have target: "targetLocked fs w reqs node = (node', t) \<Longrightarrow> ns_cfg node' = ns_cfg node" for fs w reqs node node' t
    by (auto simp: targetLocked_def targetCpufreq_def targetPpm_def targetValue_def Let_def
        split: NodeType.splits Release.splits option.splits if_splits)
  have node: "apply_node fs reqs w node = (w', node', b) \<Longrightarrow> ns_cfg node' = ns_cfg node" for fs reqs w node w' node' b
    using target by (auto simp: apply_node_def writeLocked_def Let_def split: if_splits prod.splits option.splits)
  have "apply_nodes fs reqs w nodes = (w', nodes', b) \<Longrightarrow> map ns_cfg nodes' = map ns_cfg nodes" for fs reqs w nodes w' nodes' b
    by (induction fs reqs w nodes arbitrary: w' nodes' b rule: apply_nodes.induct)
      (auto dest: node split: prod.splits)
  then show ?thesis
    using assms by (auto simp: applyLocked_def Let_def split: prod.splits)
qed

section \<open>The interface of the engine\<close>

text \<open>
  What the engine promises its clients, on the abstract state "source \<rightharpoonup> request": an
  operation that applies drops the expired requests, \<open>spec_set\<close> replaces one request (and
  with \<open>ext\<close> keeps the later deadline), \<open>spec_clear\<close> removes one.
\<close>

type_synonym request_view = "string \<Rightarrow> Request option"

definition spec_expire :: "int \<Rightarrow> request_view \<Rightarrow> request_view" where
  "spec_expire now m = (\<lambda>s. case m s of None \<Rightarrow> None | Some r \<Rightarrow> if now < rq_until r then Some r else None)"

definition spec_until :: "string \<Rightarrow> int \<Rightarrow> bool \<Rightarrow> int \<Rightarrow> request_view \<Rightarrow> int" where
  "spec_until source until ext now m =
     (case m source of
        Some r \<Rightarrow> if ext \<and> now < rq_until r then max until (rq_until r) else until
      | None \<Rightarrow> until)"

definition spec_set :: "string \<Rightarrow> ValueMap \<Rightarrow> int \<Rightarrow> bool \<Rightarrow> int \<Rightarrow> request_view \<Rightarrow> request_view" where
  "spec_set source vals until ext now m =
     spec_expire now (m(source \<mapsto> \<lparr>rq_values = vals, rq_until = spec_until source until ext now m\<rparr>))"

definition spec_clear :: "string \<Rightarrow> int \<Rightarrow> request_view \<Rightarrow> request_view" where
  "spec_clear source now m = (if m source = None then m else spec_expire now (m(source := None)))"

locale request_engine =
  fixes view :: "'s \<Rightarrow> request_view"
    and valid :: "'s \<Rightarrow> bool"
    and set_request :: "string \<Rightarrow> ValueMap \<Rightarrow> int \<Rightarrow> bool \<Rightarrow> int \<Rightarrow> 's \<Rightarrow> 's"
    and clear_request :: "string \<Rightarrow> int \<Rightarrow> 's \<Rightarrow> 's"
    and clear_all :: "int \<Rightarrow> 's \<Rightarrow> 's"
    and pulse_op :: "string \<Rightarrow> int \<Rightarrow> 's \<Rightarrow> 's"
    and tick :: "int \<Rightarrow> 's \<Rightarrow> 's"
  assumes valid_set: "valid s \<Longrightarrow> valid (set_request source vals until ext now s)"
    and valid_clear: "valid s \<Longrightarrow> valid (clear_request source now s)"
    and valid_clear_all: "valid s \<Longrightarrow> valid (clear_all now s)"
    and valid_pulse: "valid s \<Longrightarrow> valid (pulse_op name d s)"
    and valid_tick: "valid s \<Longrightarrow> valid (tick now s)"
    and view_set: "valid s \<Longrightarrow>
      view (set_request source vals until ext now s) = spec_set source vals until ext now (view s)"
    and view_clear: "valid s \<Longrightarrow> view (clear_request source now s) = spec_clear source now (view s)"
    and view_clear_all: "valid s \<Longrightarrow> view (clear_all now s) = (\<lambda>_. None)"
    and view_pulse: "valid s \<Longrightarrow> view (pulse_op name d s) = view s"
    and view_tick: "valid s \<Longrightarrow> view (tick now s) = spec_expire now (view s)"
begin

lemmas valid_ops = valid_set valid_clear valid_clear_all valid_pulse valid_tick
lemmas view_ops = view_set view_clear view_clear_all view_pulse view_tick

lemma dom_tick: "valid s \<Longrightarrow> dom (view (tick now s)) \<subseteq> dom (view s)"
  by (auto simp: view_ops spec_expire_def split: option.splits if_splits)

lemma dom_set: "valid s \<Longrightarrow> dom (view (set_request source vals until ext now s)) \<subseteq> insert source (dom (view s))"
  by (auto simp: view_ops spec_set_def spec_expire_def split: option.splits if_splits)

lemma dom_clear: "valid s \<Longrightarrow> dom (view (clear_request source now s)) \<subseteq> dom (view s) - {source}"
  by (auto simp: view_ops spec_clear_def spec_expire_def split: option.splits if_splits)

lemma dom_clear_all: "valid s \<Longrightarrow> dom (view (clear_all now s)) = {}"
  by (simp add: view_ops)

lemma set_other:
  "valid s \<Longrightarrow> source' \<noteq> source \<Longrightarrow>
   view (set_request source vals until ext now s) source' = spec_expire now (view s) source'"
  by (simp add: view_ops spec_set_def spec_expire_def)

text \<open>A request asked to last past \<open>now\<close> is held, with the asked values, at least that long.\<close>

lemma set_held:
  assumes "valid s" and "now < until"
  shows "\<exists>u \<ge> until. view (set_request source vals until ext now s) source = Some \<lparr>rq_values = vals, rq_until = u\<rparr>"
  using assms by (auto simp: view_ops spec_set_def spec_expire_def spec_until_def split: option.splits)

lemma pulses_keep:
  "valid s \<Longrightarrow> valid (fold (\<lambda>p. pulse_op p d) ps s) \<and> view (fold (\<lambda>p. pulse_op p d) ps s) = view s"
  by (induction ps arbitrary: s) (auto simp: valid_pulse view_pulse)

end

lemma mfind_live: "msorted reqs \<Longrightarrow> mfind (live_requests now reqs) = spec_expire now (mfind reqs)"
  by (auto simp: live_requests_def mfind_filter spec_expire_def fun_eq_iff)

lemma applyLocked_view:
  "msorted (mRequests e) \<Longrightarrow> applyLocked fs now w e = (w', e', next) \<Longrightarrow>
   msorted (mRequests e') \<and> mfind (mRequests e') = spec_expire now (mfind (mRequests e))"
  by (simp add: applyLocked_fields msorted_live mfind_live)

abbreviation eng_set where "eng_set fs source vals until ext now s \<equiv> setRequest fs source vals until ext now (fst s) (snd s)"
abbreviation eng_clear where "eng_clear fs source now s \<equiv> clearRequest fs source now (fst s) (snd s)"
abbreviation eng_clear_all where "eng_clear_all fs now s \<equiv> clearAll fs now (fst s) (snd s)"
abbreviation eng_pulse where "eng_pulse fs name d s \<equiv> pulse fs name d (fst s) (snd s)"
abbreviation eng_tick where "eng_tick fs now s \<equiv> (case applyLocked fs now (fst s) (snd s) of (w, e, _) \<Rightarrow> (w, e))"
abbreviation eng_view where "eng_view s \<equiv> mfind (mRequests (snd s))"
abbreviation eng_valid where "eng_valid s \<equiv> msorted (mRequests (snd s))"

lemma setRequest_view:
  assumes "eng_valid s"
  shows "eng_valid (eng_set fs source vals until ext now s) \<and>
    eng_view (eng_set fs source vals until ext now s) = spec_set source vals until ext now (eng_view s)"
proof -
  define u where "u = spec_until source until ext now (eng_view s)"
  define e where "e = (snd s)\<lparr>mRequests := mput source \<lparr>rq_values = vals, rq_until = u\<rparr> (mRequests (snd s))\<rparr>"
  obtain w' e' n where a: "applyLocked fs now (fst s) e = (w', e', n)" by (metis prod_cases3)
  have "eng_set fs source vals until ext now s = (w', e'\<lparr>mDirty := True\<rparr>)"
    using a by (simp add: setRequest_def e_def u_def spec_until_def Let_def cong: option.case_cong)
  moreover have "msorted (mRequests e)" using assms by (simp add: e_def msorted_mput)
  moreover have "mfind (mRequests e) = (eng_view s)(source \<mapsto> \<lparr>rq_values = vals, rq_until = u\<rparr>)"
    by (auto simp: e_def mfind_mput fun_eq_iff)
  ultimately show ?thesis using applyLocked_view [OF _ a] by (simp add: spec_set_def u_def)
qed

lemma clearRequest_view:
  assumes "eng_valid s"
  shows "eng_valid (eng_clear fs source now s) \<and>
    eng_view (eng_clear fs source now s) = spec_clear source now (eng_view s)"
proof -
  define e where "e = (snd s)\<lparr>mRequests := merase source (mRequests (snd s))\<rparr>"
  obtain w' e' n where a: "applyLocked fs now (fst s) e = (w', e', n)" by (metis prod_cases3)
  have "msorted (mRequests e)" using assms by (simp add: e_def msorted_merase)
  moreover have "mfind (mRequests e) = (eng_view s)(source := None)"
    by (auto simp: e_def mfind_merase fun_eq_iff)
  ultimately show ?thesis
    using applyLocked_view [OF _ a] a assms by (auto simp: clearRequest_def e_def spec_clear_def)
qed

lemma clearAll_view:
  assumes "eng_valid s"
  shows "eng_valid (eng_clear_all fs now s) \<and> eng_view (eng_clear_all fs now s) = (\<lambda>_. None)"
proof -
  obtain w' e' n where a: "applyLocked fs now (fst s) ((snd s)\<lparr>mRequests := []\<rparr>) = (w', e', n)"
    by (metis prod_cases3)
  then show ?thesis
    using applyLocked_fields(1) [OF a] by (auto simp: clearAll_def live_requests_def)
qed

interpretation eng: request_engine eng_view eng_valid "eng_set fs" "eng_clear fs" "eng_clear_all fs"
    "eng_pulse fs" "eng_tick fs" for fs
proof (unfold_locales, goal_cases)
  case (4 s name d) then show ?case by (simp add: pulse_def split: prod.splits)
next
  case (5 s now) then show ?case by (auto split: prod.splits dest: applyLocked_view)
next
  case (9 s name d) then show ?case by (simp add: pulse_def split: prod.splits)
next
  case (10 s now) then show ?case by (auto split: prod.splits dest: applyLocked_view)
qed (use setRequest_view clearRequest_view clearAll_view in blast)+

section \<open>No redundant writes\<close>

text \<open>
  \<open>fs_writable\<close>: every write succeeds. \<open>fs_frame\<close>: a write changes what is read at its own
  path only. \<open>paths_apart\<close>: the nodes write distinct files, none of them a ceiling or a
  minimum that a node reads.
\<close>

definition fs_writable :: "'w Fs \<Rightarrow> bool" where
  "fs_writable fs \<longleftrightarrow> (\<forall>w p v. fst (snd (fs_write fs w p v)))"

definition fs_frame :: "'w Fs \<Rightarrow> bool" where
  "fs_frame fs \<longleftrightarrow> (\<forall>w p v q. q \<noteq> p \<longrightarrow> fs_read fs (fst (fs_write fs w p v)) q = fs_read fs w q)"

abbreviation node_path :: "NodeState \<Rightarrow> string" where "node_path n \<equiv> nc_path (ns_cfg n)"

definition node_reads :: "NodeState \<Rightarrow> string set" where
  "node_reads n = {nc_maxPath (ns_cfg n), nc_minInfoPath (ns_cfg n)}"

definition paths_apart :: "NodeState list \<Rightarrow> bool" where
  "paths_apart ns \<longleftrightarrow> distinct (map node_path ns) \<and>
     (\<forall>n \<in> set ns. \<forall>m \<in> set ns. node_path m \<notin> node_reads n)"

lemma targetLocked_cfg: "targetLocked fs w reqs node = (node', t) \<Longrightarrow> ns_cfg node' = ns_cfg node"
  by (auto simp: targetLocked_def targetCpufreq_def targetPpm_def targetValue_def Let_def
      split: NodeType.splits Release.splits option.splits if_splits)

lemma writeLocked_ok:
  assumes "fs_writable fs" and "nc_type (ns_cfg node) \<noteq> Pulse"
  shows "writeLocked fs w node v =
    (fst (fs_write fs w (node_path node) v), node\<lparr>ns_writes := ns_writes node + 1, ns_written := Some v\<rparr>, True)"
  using assms by (auto simp: writeLocked_def fs_writable_def split: prod.splits) (metis fst_conv snd_conv)+

lemma apply_node_cases:
  assumes "apply_node fs reqs w node = (w1, node1, pending)" and "fs_writable fs"
    and "nc_type (ns_cfg node) \<noteq> Pulse"
  obtains (skip) nd where "targetLocked fs w reqs node = (nd, None)" "w1 = w" "node1 = nd" "\<not> pending"
  | (same) nd t where "targetLocked fs w reqs node = (nd, Some t)" "ns_written nd = Some t"
      "w1 = w" "node1 = nd" "\<not> pending"
  | (wrote) nd t where "targetLocked fs w reqs node = (nd, Some t)"
      "w1 = fst (fs_write fs w (node_path node) t)"
      "node1 = nd\<lparr>ns_writes := ns_writes nd + 1, ns_written := Some t\<rparr>" "\<not> pending"
proof -
  obtain nd ot where t: "targetLocked fs w reqs node = (nd, ot)" by (cases "targetLocked fs w reqs node")
  have cfg: "ns_cfg nd = ns_cfg node" using targetLocked_cfg [OF t] .
  show thesis
  proof (cases ot)
    case None
    then show thesis using assms t by (intro skip) (auto simp: apply_node_def)
  next
    case (Some v)
    show thesis
    proof (cases "ns_written nd = Some v")
      case True
      then show thesis using assms t Some by (intro same) (auto simp: apply_node_def)
    next
      case False
      then show thesis
        using assms t Some cfg writeLocked_ok [OF assms(2), of nd w v]
        by (intro wrote) (auto simp: apply_node_def)
    qed
  qed
qed

lemma readKhz_cong: "fs_read fs v p = fs_read fs w p \<Longrightarrow> readKhz fs v p = readKhz fs w p"
  by (simp add: readKhz_def)

text \<open>A node that was just applied has nothing to write in any world that reads the same.\<close>

lemma apply_node_again:
  assumes a: "apply_node fs reqs w node = (w1, node1, b)" and ok: "fs_writable fs"
    and rd: "\<forall>p \<in> node_reads node. fs_read fs v p = fs_read fs w p"
    and own: "fs_read fs v (node_path node) = fs_read fs w1 (node_path node)"
  shows "\<exists>node2. apply_node fs reqs v node1 = (v, node2, False)"
proof (cases "nc_type (ns_cfg node)")
  case Pulse
  then show ?thesis using a by (auto simp: apply_node_def)
next
  case CpufreqFloor
  then have np: "nc_type (ns_cfg node) \<noteq> Pulse" by simp
  have rk: "readKhz fs v (nc_maxPath (ns_cfg node)) = readKhz fs w (nc_maxPath (ns_cfg node))"
    "readKhz fs v (nc_minInfoPath (ns_cfg node)) = readKhz fs w (nc_minInfoPath (ns_cfg node))"
    using rd by (auto simp: node_reads_def intro: readKhz_cong)
  show ?thesis
    by (rule apply_node_cases [OF a ok np])
      (use CpufreqFloor rk in \<open>auto simp: apply_node_def targetLocked_def targetCpufreq_def Let_def
        split: option.splits if_splits\<close>)
next
  case PpmFloor
  then have np: "nc_type (ns_cfg node) \<noteq> Pulse" by simp
  have rk: "readKhz fs v (nc_maxPath (ns_cfg node)) = readKhz fs w (nc_maxPath (ns_cfg node))"
    using rd by (auto simp: node_reads_def intro: readKhz_cong)
  show ?thesis
    by (rule apply_node_cases [OF a ok np])
      (use PpmFloor rk in \<open>auto simp: apply_node_def targetLocked_def targetPpm_def Let_def\<close>)
next
  case Value
  then have np: "nc_type (ns_cfg node) \<noteq> Pulse" by simp
  show ?thesis
    by (rule apply_node_cases [OF a ok np])
      (use Value own in \<open>auto simp: apply_node_def targetLocked_def targetValue_def Let_def
        split: option.splits if_splits Release.splits\<close>)
qed

lemma apply_node_frame:
  assumes "apply_node fs reqs w node = (w1, node1, b)" and "fs_frame fs" and "q \<noteq> node_path node"
  shows "fs_read fs w1 q = fs_read fs w q" and "ns_cfg node1 = ns_cfg node"
proof -
  have "fs_read fs w1 q = fs_read fs w q \<and> ns_cfg node1 = ns_cfg node"
  proof (cases "nc_type (ns_cfg node) = Pulse")
    case True
    then show ?thesis using assms(1) by (auto simp: apply_node_def)
  next
    case False
    obtain nd ot where t: "targetLocked fs w reqs node = (nd, ot)" by (cases "targetLocked fs w reqs node")
    have "fs_write fs w p v = (w', x) \<Longrightarrow> q \<noteq> p \<Longrightarrow> fs_read fs w' q = fs_read fs w q" for w p v w' x
      using assms(2) unfolding fs_frame_def by (metis fst_conv)
    then show ?thesis
      using assms t False targetLocked_cfg [OF t]
      by (auto simp: apply_node_def writeLocked_def Let_def split: option.splits if_splits prod.splits)
  qed
  then show "fs_read fs w1 q = fs_read fs w q" and "ns_cfg node1 = ns_cfg node" by auto
qed

lemma apply_nodes_frame:
  assumes "apply_nodes fs reqs w nodes = (w', nodes', b)" and "fs_frame fs"
    and "q \<notin> node_path ` set nodes"
  shows "fs_read fs w' q = fs_read fs w q"
  using assms
proof (induction fs reqs w nodes arbitrary: w' nodes' b rule: apply_nodes.induct)
  case (2 fs reqs w node nodes)
  obtain w1 node1 b1 where n: "apply_node fs reqs w node = (w1, node1, b1)" by (metis prod_cases3)
  obtain w2 nodes2 b2 where ns: "apply_nodes fs reqs w1 nodes = (w2, nodes2, b2)" by (metis prod_cases3)
  have "fs_read fs w2 q = fs_read fs w1 q"
    using "2.IH" [OF n [symmetric] refl ns "2.prems"(2)] "2.prems"(3) by simp
  then show ?case using "2.prems" n ns apply_node_frame(1) [OF n "2.prems"(2)] by auto
qed simp

lemma apply_nodes_again:
  assumes "apply_nodes fs reqs w nodes = (w', nodes', b)" and "fs_writable fs" and "fs_frame fs"
    and "distinct (map node_path nodes)"
    and "\<forall>n \<in> set nodes. \<forall>m \<in> set nodes. node_path m \<notin> node_reads n"
    and "\<forall>q. fs_read fs v q = fs_read fs w' q"
  shows "\<exists>nodes2. apply_nodes fs reqs v nodes' = (v, nodes2, False)"
  using assms
proof (induction fs reqs w nodes arbitrary: w' nodes' b rule: apply_nodes.induct)
  case (2 fs reqs w node nodes)
  obtain w1 node1 b1 where n: "apply_node fs reqs w node = (w1, node1, b1)" by (metis prod_cases3)
  obtain w2 nodes2 b2 where ns: "apply_nodes fs reqs w1 nodes = (w2, nodes2, b2)" by (metis prod_cases3)
  have eqs: "w' = w2" "nodes' = node1 # nodes2" using "2.prems"(1) n ns by auto
  have rest: "\<exists>nodes3. apply_nodes fs reqs v nodes2 = (v, nodes3, False)"
    using "2.IH" [OF n [symmetric] refl ns] "2.prems" eqs by auto
  have reads: "fs_read fs w2 q = fs_read fs w q" if "q \<in> node_reads node" for q
  proof -
    have "q \<notin> node_path ` set (node # nodes)" using that "2.prems"(5) by auto
    then show ?thesis
      using apply_nodes_frame [OF "2.prems"(1) "2.prems"(3)] eqs by auto
  qed
  have own: "fs_read fs w2 (node_path node) = fs_read fs w1 (node_path node)"
    using apply_nodes_frame [OF ns "2.prems"(3), of "node_path node"] "2.prems"(4) by auto
  have "\<exists>node2. apply_node fs reqs v node1 = (v, node2, False)"
    using apply_node_again [OF n "2.prems"(2)] reads own "2.prems"(6) eqs by auto
  then show ?case using rest eqs by auto
qed simp

section \<open>Properties of the engine\<close>

text \<open>A sysfs for the witnesses: a file exists or not, existing files are writable.\<close>

definition map_fs :: "(string, string) smap Fs" where
  "map_fs = \<lparr>fs_read = mfind,
     fs_write = (\<lambda>w p v. if mfind w p = None then (w, False, ENOENT) else (mput p v w, True, 0))\<rparr>"

text \<open>A sysfs whose nodes can all be written.\<close>

definition open_fs :: "(string, string) smap Fs" where
  "open_fs = \<lparr>fs_read = mfind, fs_write = (\<lambda>w p v. (mput p v w, True, 0))\<rparr>"

lemma open_fs_ok: "fs_writable open_fs" "fs_frame open_fs"
  by (auto simp: open_fs_def fs_writable_def fs_frame_def mfind_mput)

definition demo_cpu :: NodeConfig where
  "demo_cpu = NodeConfig_init\<lparr>nc_name := ''cpu'', nc_type := CpufreqFloor, nc_path := ''p/min'',
     nc_maxPath := ''p/max'', nc_minInfoPath := ''p/info''\<rparr>"

definition demo_cap :: NodeConfig where
  "demo_cap = NodeConfig_init\<lparr>nc_name := ''hps'', nc_path := ''hps'', nc_release := Capture\<rparr>"

text \<open>
  C3 (safety). The deadline that \<open>applyLocked\<close> hands to the worker: it lies in the future, so
  the worker never spins; the requests that remain are exactly the unexpired ones, none of
  them ends before the worker wakes; and the deadline is the end of one of them, the start-up
  retry period, or \<open>time_point::max()\<close>.
\<close>

theorem applyLocked_deadline:
  assumes "applyLocked fs now w e = (w', e', next)" and "now < time_max"
  shows "now < next \<and> mRequests e' = filter (\<lambda>(source, r). now < rq_until r) (mRequests e) \<and>
    (\<forall>(source, r) \<in> set (mRequests e'). next \<le> rq_until r) \<and>
    (next = time_max \<or> (\<exists>(source, r) \<in> set (mRequests e'). next = rq_until r) \<or>
     next = now + kRetryPeriod \<and> now < mRetryUntil e)"
proof -
  define reqs where "reqs = live_requests now (mRequests e)"
  have reqs: "mRequests e' = reqs" using applyLocked_fields(1) [OF assms(1)] by (simp add: reqs_def)
  have nx: "next = next_deadline reqs \<or>
      next = min (next_deadline reqs) (now + kRetryPeriod) \<and> now < mRetryUntil e"
    using assms(1) by (auto simp: applyLocked_def reqs_def Let_def split: prod.splits if_splits)
  have "now < next_deadline reqs"
    using next_deadline_attained [of reqs] assms(2)
    by (auto simp: reqs_def live_requests_iff)
  moreover have "\<exists>(source, r) \<in> set reqs. next_deadline reqs = rq_until r" if "next_deadline reqs \<noteq> time_max"
    using next_deadline_attained [of reqs] that by force
  moreover have "\<forall>(source, r) \<in> set reqs. next_deadline reqs \<le> rq_until r"
    using next_deadline_bounds(2) by blast
  moreover have "mRequests e' = filter (\<lambda>(source, r). now < rq_until r) (mRequests e)"
    using reqs by (simp add: reqs_def live_requests_def)
  moreover have "next = next_deadline reqs \<or> next = now + kRetryPeriod \<and> now < mRetryUntil e \<and> next \<le> next_deadline reqs"
    using nx by (auto simp: min_def)
  ultimately show ?thesis
    unfolding reqs [symmetric] by (fastforce simp: kRetryPeriod_def)
qed

theorem applyLocked_deadline_witness:
  "case applyLocked map_fs 5 []
      (Engine_ctor []\<lparr>mRequests := [(''fling'', \<lparr>rq_values = [], rq_until = 9\<rparr>),
                                    (''launch'', \<lparr>rq_values = [], rq_until = 4\<rparr>)]\<rparr>)
    of (w', e', next) \<Rightarrow> next = 9 \<and> 5 < next"
proof -
  let ?e = "Engine_ctor []\<lparr>mRequests := [(''fling'', \<lparr>rq_values = [], rq_until = 9\<rparr>),
                                         (''launch'', \<lparr>rq_values = [], rq_until = 4\<rparr>)]\<rparr>"
  have a: "applyLocked map_fs 5 [] ?e = ([], ?e\<lparr>mRequests := [(''fling'', \<lparr>rq_values = [], rq_until = 9\<rparr>)]\<rparr>, 9)"
    by (simp add: applyLocked_def live_requests_def next_deadline_def Engine_ctor_def sort_nodes_def)
  show ?thesis using a applyLocked_deadline [OF a] by simp
qed

text \<open>
  C4 (functional). The target of a cpufreq floor: the maximum of the released frequency and of
  every live request for the node, cut down to the ceiling that is in force now, so that the
  kernel never sees a floor above the ceiling.
\<close>

theorem cpufreq_floor_target:
  assumes "nc_type (ns_cfg node) = CpufreqFloor"
    and "targetLocked fs w reqs node = (node', Some t)"
  shows "\<exists>ceil released. readKhz fs w (nc_maxPath (ns_cfg node)) = Some ceil \<and>
    ns_releasedKhz node' = Some released \<and>
    t = to_string (min ceil (Max (insert released
          {v. \<exists>tok \<in> set (tokens_for reqs (nc_name (ns_cfg node))). ResolveKhz tok (Some ceil) = Some v})))"
proof -
  let ?tokens = "tokens_for reqs (nc_name (ns_cfg node))"
  obtain ceil where c: "readKhz fs w (nc_maxPath (ns_cfg node)) = Some ceil"
    using assms by (auto simp: targetLocked_def targetCpufreq_def split: option.splits)
  obtain released where r: "ns_releasedKhz node' = Some released"
    and t: "t = to_string (min (fold (\<lambda>t khz. case ResolveKhz t (Some ceil) of
                                       None \<Rightarrow> khz | Some v \<Rightarrow> max khz v) ?tokens released) ceil)"
    using assms c
    by (auto simp: targetLocked_def targetCpufreq_def Let_def split: option.splits if_splits)
  have "fold (\<lambda>t khz. case ResolveKhz t (Some ceil) of None \<Rightarrow> khz | Some v \<Rightarrow> max khz v) ?tokens released =
        Max (insert released {v. \<exists>tok \<in> set ?tokens. ResolveKhz tok (Some ceil) = Some v})"
    using fold_max_khz [of "\<lambda>t. ResolveKhz t (Some ceil)" ?tokens released]
      fold_max_Some [of "\<lambda>t. ResolveKhz t (Some ceil)" ?tokens released] by simp
  then show ?thesis using c r t by (auto simp: min.commute)
qed

theorem cpufreq_floor_target_witness:
  "\<exists>node'. targetLocked map_fs [(''p/info'', ''300''), (''p/max'', ''1300'')]
     [(''launch'', \<lparr>rq_values = [(''cpu'', ''pct:50'')], rq_until = 9\<rparr>)] (NodeState_init demo_cpu) = (node', Some ''650'') \<and>
   (\<exists>ceil released. readKhz map_fs [(''p/info'', ''300''), (''p/max'', ''1300'')] ''p/max'' = Some ceil \<and>
      ns_releasedKhz node' = Some released)"
proof -
  let ?w = "[(''p/info'', ''300''), (''p/max'', ''1300'')]"
  let ?r = "[(''launch'', \<lparr>rq_values = [(''cpu'', ''pct:50'')], rq_until = 9\<rparr>)]"
  have t: "targetLocked map_fs ?w ?r (NodeState_init demo_cpu) =
      ((NodeState_init demo_cpu)\<lparr>ns_releasedKhz := Some 300\<rparr>, Some ''650'')"
    by code_simp
  have ty: "nc_type (ns_cfg (NodeState_init demo_cpu)) = CpufreqFloor"
    by (simp add: NodeState_init_def demo_cpu_def)
  show ?thesis
    using t cpufreq_floor_target [OF ty t] by (auto simp: NodeState_init_def demo_cpu_def)
qed

text \<open>
  The engine writes a node only when its target differs from what it last wrote:
  with writable nodes, applying again at the same time writes nothing, whatever the requests
  and the node states are.
\<close>

theorem applyLocked_no_redundant_writes:
  assumes "fs_writable fs" and "fs_frame fs" and "paths_apart (mNodes e)"
    and "applyLocked fs now w e = (w', e', next)"
    and "applyLocked fs now w' e' = (w'', e'', next')"
  shows "w'' = w'"
proof -
  define reqs where "reqs = live_requests now (mRequests e)"
  have again: "live_requests now reqs = reqs" by (simp add: reqs_def live_requests_def)
  from assms(4) obtain b where n: "apply_nodes fs reqs w (mNodes e) = (w', mNodes e', b)"
    and r: "mRequests e' = reqs"
    by (auto simp: applyLocked_def reqs_def Let_def split: prod.splits)
  obtain nodes2 where "apply_nodes fs reqs w' (mNodes e') = (w', nodes2, False)"
    using apply_nodes_again [OF n assms(1,2), of w'] assms(3) by (auto simp: paths_apart_def)
  then show ?thesis
    using assms(5) by (simp add: applyLocked_def r again)
qed

theorem applyLocked_no_redundant_writes_witness:
  "\<exists>w' e' next. applyLocked open_fs 5 [(''hps'', ''1'')]
      ((Engine_ctor [demo_cap])\<lparr>mRequests := [(''launch'', \<lparr>rq_values = [(''hps'', ''4'')], rq_until = 9\<rparr>)]\<rparr>) = (w', e', next)
    \<and> w' = [(''hps'', ''4'')] \<and> fst (applyLocked open_fs 5 w' e') = w'"
proof -
  let ?e = "(Engine_ctor [demo_cap])\<lparr>mRequests := [(''launch'', \<lparr>rq_values = [(''hps'', ''4'')], rq_until = 9\<rparr>)]\<rparr>"
  have a: "applyLocked open_fs 5 [(''hps'', ''1'')] ?e =
     ([(''hps'', ''4'')], ?e\<lparr>mNodes := [(NodeState_init demo_cap)\<lparr>ns_captured := Some ''1'',
         ns_written := Some ''4'', ns_writes := 1\<rparr>]\<rparr>, 9)"
    by code_simp
  obtain w'' e'' n where b: "applyLocked open_fs 5 [(''hps'', ''4'')]
       (?e\<lparr>mNodes := [(NodeState_init demo_cap)\<lparr>ns_captured := Some ''1'',
         ns_written := Some ''4'', ns_writes := 1\<rparr>]\<rparr>) = (w'', e'', n)" by (metis prod_cases3)
  have p: "paths_apart (mNodes ?e)"
    by (simp add: paths_apart_def node_reads_def Engine_ctor_def sort_nodes_def NodeState_init_def
        demo_cap_def NodeConfig_init_def)
  show ?thesis
    using a b applyLocked_no_redundant_writes [OF open_fs_ok p a b] by simp
qed

lemma apply_nodes_Nil_written:
  assumes "apply_nodes fs reqs w nodes = (w', nodes', b)" and "fs_writable fs" and "n \<in> set nodes'"
    and "reqs = []"
  shows "(nc_type (ns_cfg n) = Value \<and> nc_release (ns_cfg n) = Default \<longrightarrow>
            ns_written n = Some (nc_defaultValue (ns_cfg n))) \<and>
         (nc_type (ns_cfg n) = PpmFloor \<longrightarrow>
            ns_written n = Some (to_string (nc_cluster (ns_cfg n)) @ '' -1''))"
  using assms
proof (induction fs reqs w nodes arbitrary: w' nodes' b rule: apply_nodes.induct)
  case (2 fs reqs w node nodes)
  obtain w1 node1 b1 where nd: "apply_node fs reqs w node = (w1, node1, b1)" by (metis prod_cases3)
  obtain w2 nodes2 b2 where ns: "apply_nodes fs reqs w1 nodes = (w2, nodes2, b2)" by (metis prod_cases3)
  have tok: "tokens_for reqs x = []" for x using "2.prems"(4) by (simp add: tokens_for_def List.map_filter_def)
  have "(nc_type (ns_cfg node1) = Value \<and> nc_release (ns_cfg node1) = Default \<longrightarrow>
            ns_written node1 = Some (nc_defaultValue (ns_cfg node1))) \<and>
         (nc_type (ns_cfg node1) = PpmFloor \<longrightarrow>
            ns_written node1 = Some (to_string (nc_cluster (ns_cfg node1)) @ '' -1''))"
  proof (cases "nc_type (ns_cfg node) = Pulse")
    case True
    then show ?thesis using nd by (auto simp: apply_node_def)
  next
    case False
    show ?thesis
      by (rule apply_node_cases [OF nd "2.prems"(2) False])
        (auto simp: targetLocked_def targetValue_def targetPpm_def targetCpufreq_def tok fold_max_def Let_def
          split: NodeType.splits Release.splits if_splits option.splits)
  qed
  then show ?case
    using "2.IH" [OF nd [symmetric] refl ns "2.prems"(2) _ "2.prems"(4)] "2.prems"(1,3) nd ns by auto
qed simp

text \<open>
  A restarted HAL leaves no floor behind: \<open>reset\<close> drops every request, and
  with writable nodes every value node with \<open>Release::Default\<close> holds its default and every PPM
  floor is released with \<open>-1\<close> when it returns.
\<close>

theorem reset_leaves_no_floor:
  assumes "fs_writable fs" and "reset fs now w e = (w', e')"
  shows "mRequests e' = [] \<and>
    (\<forall>n \<in> set (mNodes e'). nc_type (ns_cfg n) = Value \<and> nc_release (ns_cfg n) = Default \<longrightarrow>
        ns_written n = Some (nc_defaultValue (ns_cfg n))) \<and>
    (\<forall>n \<in> set (mNodes e'). nc_type (ns_cfg n) = PpmFloor \<longrightarrow>
        ns_written n = Some (to_string (nc_cluster (ns_cfg n)) @ '' -1''))"
proof -
  have "\<exists>b. apply_nodes fs [] w (map (ns_written_update (\<lambda>_. None)) (mNodes e)) = (w', mNodes e', b)"
    and "mRequests e' = []"
    using assms(2) by (auto simp: reset_def applyLocked_def live_requests_def Let_def split: prod.splits)
  then show ?thesis using apply_nodes_Nil_written [OF _ assms(1)] by blast
qed

theorem reset_leaves_no_floor_witness:
  "\<exists>e'. reset open_fs 7 [] ((Engine_ctor (cf_nodes fleet_config))\<lparr>mRequests :=
      [(''launch'', \<lparr>rq_values = [(''hps'', ''4'')], rq_until = 900\<rparr>)]\<rparr>) =
      ([(''/proc/hps/num_base_perf_serv'', ''1''),
        (''/sys/devices/system/cpu/cpufreq/interactive/boost'', ''0'')], e') \<and> mRequests e' = []"
proof -
  let ?e = "(Engine_ctor (cf_nodes fleet_config))\<lparr>mRequests :=
      [(''launch'', \<lparr>rq_values = [(''hps'', ''4'')], rq_until = 900\<rparr>)]\<rparr>"
  obtain w' e' where r: "reset open_fs 7 [] ?e = (w', e')" by (cases "reset open_fs 7 [] ?e")
  have "fst (reset open_fs 7 [] ?e) = [(''/proc/hps/num_base_perf_serv'', ''1''),
        (''/sys/devices/system/cpu/cpufreq/interactive/boost'', ''0'')]" by code_simp
  then show ?thesis using r reset_leaves_no_floor [OF open_fs_ok(1) r] by simp
qed

text \<open>
  C5 (refinement). \<open>setRequest\<close> implements the abstract \<open>spec_set\<close> on the map from sources to
  requests, and keeps the requests in \<open>std::map\<close> order: one entry per source, the later end
  kept when the caller extends, expired entries gone. A request asked to last past \<open>now\<close> is
  in force at least that long.
\<close>

theorem setRequest_refines:
  assumes "msorted (mRequests e)" and "setRequest fs source vals until ext now w e = (w', e')"
  shows "msorted (mRequests e') \<and>
    mfind (mRequests e') = spec_set source vals until ext now (mfind (mRequests e)) \<and>
    (now < until \<longrightarrow> (\<exists>u \<ge> until. mfind (mRequests e') source = Some \<lparr>rq_values = vals, rq_until = u\<rparr>))"
  using assms eng.valid_set [of "(w, e)" fs source vals until ext now]
    eng.view_set [of "(w, e)" fs source vals until ext now]
    eng.set_held [of "(w, e)" now until fs source vals ext] by auto

theorem setRequest_refines_witness:
  "\<exists>w' e'. setRequest open_fs ''fling'' [(''hps'', ''2'')] 50 True 10 []
      ((Engine_ctor [demo_cap])\<lparr>mRequests := [(''fling'', \<lparr>rq_values = [], rq_until = 80\<rparr>)]\<rparr>) = (w', e') \<and>
    mfind (mRequests e') ''fling'' = Some \<lparr>rq_values = [(''hps'', ''2'')], rq_until = 80\<rparr>"
proof -
  let ?e = "(Engine_ctor [demo_cap])\<lparr>mRequests := [(''fling'', \<lparr>rq_values = [], rq_until = 80\<rparr>)]\<rparr>"
  obtain w' e' where s: "setRequest open_fs ''fling'' [(''hps'', ''2'')] 50 True 10 [] ?e = (w', e')"
    by fastforce
  have "msorted (mRequests ?e)" by (simp add: msorted_def)
  then show ?thesis
    using s setRequest_refines [OF _ s]
    by (auto simp: spec_set_def spec_expire_def spec_until_def mfind_def [of "[_]"])
qed



text \<open>
  The captured value is dropped with \<open>written\<close> left at it. When the node changed meanwhile, a
  hold that asks for that same value is taken for written already: here the node holds \<open>0\<close>, the
  hold asks for \<open>1\<close>, and nothing is written.
\<close>

lemma capture_stale_written:
  "apply_node open_fs [(''launch'', \<lparr>rq_values = [(''hps'', ''1'')], rq_until = 9\<rparr>)] [(''hps'', ''0'')]
     ((NodeState_init demo_cap)\<lparr>ns_written := Some ''1'', ns_writes := 2\<rparr>) =
   ([(''hps'', ''0'')], (NodeState_init demo_cap)\<lparr>ns_captured := Some ''0'', ns_written := Some ''1'', ns_writes := 2\<rparr>, False)"
  by code_simp

section \<open>Aggregation of value nodes\<close>

text \<open>A missing field counts as the padding \<open>INT64_MIN\<close>.\<close>

definition field_at :: "int list \<Rightarrow> nat \<Rightarrow> int" where
  "field_at v i = (if i < length v then v ! i else INT64_MIN)"

lemma ParseFields_in_int64: "v \<in> set (ParseFields s) \<Longrightarrow> INT64_MIN \<le> v"
proof -
  assume "v \<in> set (ParseFields s)"
  then obtain f where "f \<in> set (fields_aux [] s)" "v = the (ParseInt f)" "ParseInt f \<noteq> None"
    by (force simp: ParseFields_def Let_def split: if_splits)
  then have "ParseInt f = Some v" by auto
  then show ?thesis using ParseInt_in_int64 by (simp add: in_int64_def)
qed

lemma merge_fields_length: "length (merge_fields best f) = max (length best) (length f)"
  by (auto simp: merge_fields_def grow_def Let_def)

lemma merge_fields_field:
  assumes "\<forall>v \<in> set best. INT64_MIN \<le> v" and "\<forall>v \<in> set f. INT64_MIN \<le> v"
  shows "field_at (merge_fields best f) i = max (field_at best i) (field_at f i)"
proof -
  have "i < length best \<Longrightarrow> INT64_MIN \<le> best ! i" "i < length f \<Longrightarrow> INT64_MIN \<le> f ! i"
    using assms by auto
  then show ?thesis
    by (auto simp: field_at_def merge_fields_def grow_def Let_def nth_append max_def)
qed

lemma field_at_ge: "\<forall>v \<in> set vs. INT64_MIN \<le> v \<Longrightarrow> INT64_MIN \<le> field_at vs i"
  by (auto simp: field_at_def)

lemma merge_fields_ge:
  assumes "\<forall>v \<in> set best. INT64_MIN \<le> v" and "\<forall>v \<in> set f. INT64_MIN \<le> v"
  shows "\<forall>v \<in> set (merge_fields best f). INT64_MIN \<le> v"
proof
  fix v assume "v \<in> set (merge_fields best f)"
  then obtain i where "i < length (merge_fields best f)" "v = merge_fields best f ! i"
    by (metis in_set_conv_nth)
  then have "v = max (field_at best i) (field_at f i)"
    using merge_fields_field [OF assms, of i] by (simp add: field_at_def)
  then show "INT64_MIN \<le> v" using field_at_ge [OF assms(1), of i] by (simp add: le_max_iff_disj)
qed

lemma fold_merge_fields:
  assumes "\<forall>v \<in> set best. INT64_MIN \<le> v"
  shows "field_at (fold (\<lambda>t best. merge_fields best (ParseFields t)) tokens best) i =
      Max (insert (field_at best i) ((\<lambda>t. field_at (ParseFields t) i) ` set tokens))
    \<and> length (fold (\<lambda>t best. merge_fields best (ParseFields t)) tokens best) =
      Max (insert (length best) ((\<lambda>t. length (ParseFields t)) ` set tokens))"
  using assms
proof (induction tokens arbitrary: best)
  case (Cons t tokens)
  have p: "\<forall>v \<in> set (ParseFields t). INT64_MIN \<le> v" using ParseFields_in_int64 by blast
  have mx: "Max (insert (max a b) A) = Max (insert a (insert b A))" if "finite A" for A and a b :: "'a :: linorder"
    using that by (cases "A = {}") (auto simp: max.assoc)
  show ?case
    using Cons.IH [OF merge_fields_ge [OF Cons.prems p]] merge_fields_field [OF Cons.prems p, of i]
      merge_fields_length [of best "ParseFields t"]
    by (simp add: mx)
qed simp

text \<open>
  What a held value node is set to: with \<open>MaxInt\<close> the maximum of the integers
  among the requested tokens; with \<open>MaxFields\<close> as many fields as the longest token has, each
  the maximum of that field over all tokens (tokens that do not parse ask for nothing); the
  default when no token parses.
\<close>

theorem value_node_aggregate:
  "aggregate_tokens cfg tokens =
     (case nc_aggregate cfg of
        MaxInt \<Rightarrow> (let vs = {v. \<exists>t \<in> set tokens. ParseInt t = Some v} in
                   if vs = {} then nc_defaultValue cfg else to_string (Max vs))
      | MaxFields \<Rightarrow> (let n = Max (insert 0 ((\<lambda>t. length (ParseFields t)) ` set tokens)) in
                   if n = 0 then nc_defaultValue cfg
                   else join_space (map (\<lambda>i. Max (insert INT64_MIN ((\<lambda>t. field_at (ParseFields t) i) ` set tokens))) [0..<n])))"
proof (cases "nc_aggregate cfg")
  case MaxInt
  then show ?thesis by (simp add: aggregate_tokens_def fold_max_None Let_def)
next
  case MaxFields
  let ?best = "fold (\<lambda>t best. merge_fields best (ParseFields t)) tokens []"
  let ?n = "Max (insert 0 ((\<lambda>t. length (ParseFields t)) ` set tokens))"
  let ?f = "\<lambda>i. Max (insert INT64_MIN ((\<lambda>t. field_at (ParseFields t) i) ` set tokens))"
  have pad: "field_at [] i = INT64_MIN" for i by (simp add: field_at_def)
  have f: "field_at ?best i = ?f i" and l: "length ?best = ?n" for i
    using fold_merge_fields [of "[]" tokens i] by (simp_all add: pad)
  have "?best = map ?f [0..<?n]"
  proof (rule nth_equalityI)
    fix i assume "i < length ?best"
    then show "?best ! i = map ?f [0..<?n] ! i" using f [of i] l by (simp add: field_at_def)
  qed (simp add: l)
  moreover have "?best = [] \<longleftrightarrow> ?n = 0" using l by (metis length_0_conv)
  moreover have "aggregate_tokens cfg tokens = (if ?best = [] then nc_defaultValue cfg else join_space ?best)"
    using MaxFields by (simp only: aggregate_tokens_def Aggregate.distinct if_False Let_def)
  ultimately have "aggregate_tokens cfg tokens =
      (if ?n = 0 then nc_defaultValue cfg else join_space (map ?f [0..<?n]))"
    by argo
  then show ?thesis by (simp only: MaxFields Aggregate.case Let_def)
qed

text \<open>
  The order the nodes are written in: the constructor's comparison sort is the
  stable sort by \<open>(order, name)\<close>, a permutation of the configured nodes.
\<close>

theorem Engine_ctor_order:
  "map ns_cfg (mNodes (Engine_ctor nodes)) = sort_key (\<lambda>n. (nc_order n, nc_name n)) nodes \<and>
   mset (map ns_cfg (mNodes (Engine_ctor nodes))) = mset nodes"
proof -
  have "insert_node n ms = insort_key (\<lambda>n. (nc_order n, nc_name n)) n ms" for n ms
    by (induction ms) (auto simp: node_before_def less_eq_prod_def)
  then have ins: "insert_node = insort_key (\<lambda>n. (nc_order n, nc_name n))" by (intro ext)
  have "map ns_cfg (map NodeState_init ns) = ns" for ns
    by (simp add: comp_def NodeState_init_def)
  then have "map ns_cfg (mNodes (Engine_ctor nodes)) = sort_key (\<lambda>n. (nc_order n, nc_name n)) nodes"
    by (simp add: Engine_ctor_def sort_nodes_def sort_key_def ins del: map_map)
  then show ?thesis by simp
qed

end
