(* ===== verification/Floats.thy ===== *)
theory Floats
  imports Complex_Main
begin

text \<open>
  IEEE binary floating point as exact rationals: a finite \<open>float\<close> or \<open>double\<close> is the rational it
  denotes and an operation is the exact result rounded to nearest, ties to even, with a
  precision of 24 or 53 bits (\<open>rnd\<close>). The exponent is unbounded, so overflow to infinity and
  subnormal results are not covered. The program's operands (millidegrees, nanoseconds and a factor
  around 1) are far from both. The theory proves that rounding is monotone and keeps the values
  that the format represents, which is what comparisons of rounded values need.
\<close>

section \<open>Rounding\<close>

text \<open>Nearest integer, ties to even.\<close>

definition round_ne :: "rat \<Rightarrow> int" where
  "round_ne x =
     (let f = \<lfloor>x\<rfloor>; d = x - of_int f in
      if d < 1/2 then f else if 1/2 < d then f + 1 else if even f then f else f + 1)"

text \<open>The number of bits of an integer and the integer logarithm of a positive rational.\<close>

function bits :: "int \<Rightarrow> int" where
  "bits n = (if n \<le> 0 then 0 else 1 + bits (n div 2))"
  by auto
termination
  by (relation "measure nat") auto

declare bits.simps [simp del]

definition flog2 :: "rat \<Rightarrow> int" where
  "flog2 x =
     (case quotient_of x of (a, b) \<Rightarrow>
        let k = bits a - bits b in
        if 2 powi k \<le> x then k else k - 1)"

definition rnd :: "nat \<Rightarrow> rat \<Rightarrow> rat" where
  "rnd p x =
     (if x = 0 then 0
      else let s = 2 powi (flog2 \<bar>x\<bar> - (int p - 1)) in of_int (round_ne (x / s)) * s)"

abbreviation to_float :: "int \<Rightarrow> rat" where "to_float v \<equiv> rnd 24 (of_int v)"
abbreviation to_double :: "int \<Rightarrow> rat" where "to_double v \<equiv> rnd 53 (of_int v)"

section \<open>Nearest integers\<close>

lemma round_ne_of_int [simp]: "round_ne (of_int n) = n"
  by (simp add: round_ne_def)

lemma round_ne_cases:
  obtains "round_ne x = \<lfloor>x\<rfloor>" "x - of_int \<lfloor>x\<rfloor> \<le> 1/2"
  | "round_ne x = \<lfloor>x\<rfloor> + 1" "1/2 \<le> x - of_int \<lfloor>x\<rfloor>"
  by (cases "x - of_int \<lfloor>x\<rfloor> < 1/2"; cases "1/2 < x - of_int \<lfloor>x\<rfloor>"; cases "even \<lfloor>x\<rfloor>")
    (auto simp: round_ne_def Let_def)

lemma round_ne_mono:
  assumes "x \<le> y"
  shows "round_ne x \<le> round_ne y"
proof (cases "\<lfloor>x\<rfloor> = \<lfloor>y\<rfloor>")
  case True
  then show ?thesis using assms by (auto simp: round_ne_def Let_def)
next
  case False
  then have "\<lfloor>x\<rfloor> + 1 \<le> \<lfloor>y\<rfloor>" using floor_mono [OF assms] by linarith
  moreover have "round_ne x \<le> \<lfloor>x\<rfloor> + 1" by (rule round_ne_cases [of x]) auto
  moreover have "\<lfloor>y\<rfloor> \<le> round_ne y" by (rule round_ne_cases [of y]) auto
  ultimately show ?thesis by linarith
qed

lemma round_ne_minus: "round_ne (- x) = - round_ne x"
proof (cases "x = of_int \<lfloor>x\<rfloor>")
  case True
  then show ?thesis by (metis of_int_minus round_ne_of_int)
next
  case False
  define f where "f = \<lfloor>x\<rfloor>"
  have lt: "of_int f < x" "x < of_int f + 1" using False unfolding f_def by linarith+
  then have fm: "\<lfloor>- x\<rfloor> = - f - 1" by (intro floor_unique) auto
  show ?thesis
    unfolding round_ne_def Let_def fm f_def [symmetric]
    using lt by (auto simp: field_simps)
qed

section \<open>The logarithm\<close>

lemma bits_bounds:
  assumes "0 < n"
  shows "2 powi (bits n - 1) \<le> (of_int n :: rat) \<and> (of_int n :: rat) < 2 powi bits n"
  using assms
proof (induction n rule: bits.induct)
  case (1 n)
  show ?case
  proof (cases "n = 1")
    case True
    then show ?thesis by (simp add: bits.simps [of 1] bits.simps [of 0])
  next
    case False
    define m where "m = n div 2"
    have m: "0 < m" "2 * m \<le> n" "n \<le> 2 * m + 1" using False "1.prems" by (auto simp: m_def)
    have ih: "2 powi (bits m - 1) \<le> (of_int m :: rat)" "(of_int m :: rat) < 2 powi bits m"
      using "1.IH" "1.prems" m(1) by (auto simp: m_def)
    have bn: "bits n = 1 + bits m" using "1.prems" by (subst bits.simps) (simp add: m_def)
    have "0 \<le> bits k" for k by (induction k rule: bits.induct) (subst bits.simps, auto)
    then obtain k where k: "bits m = int k" by (metis nonneg_int_cases)
    have "m + 1 \<le> 2 ^ k" using ih(2) unfolding k power_int_of_nat
      by (metis add1_zle_eq of_int_less_iff of_int_numeral of_int_power)
    then have "n < 2 * 2 ^ k" using m(3) by linarith
    then have "(of_int n :: rat) < 2 * 2 ^ k" by (metis of_int_less_iff of_int_mult of_int_numeral of_int_power)
    moreover have "(2::rat) powi bits m \<le> of_int n"
    proof -
      have "(2::rat) powi bits m = 2 * 2 powi (bits m - 1)" by (simp add: power_int_diff)
      also have "\<dots> \<le> 2 * of_int m" using ih(1) by simp
      also have "\<dots> \<le> of_int n" using m(2) by (metis of_int_le_iff of_int_mult of_int_numeral)
      finally show ?thesis .
    qed
    ultimately show ?thesis by (simp add: bn k power_int_add)
  qed
qed

lemma flog2_bounds:
  assumes "0 < x"
  shows "2 powi flog2 x \<le> x" "x < 2 powi (flog2 x + 1)"
proof -
  obtain a b where q: "quotient_of x = (a, b)" by (cases "quotient_of x")
  have x: "x = of_int a / of_int b" and b: "0 < b"
    using quotient_of_div [OF q] quotient_of_denom_pos [OF q] by auto
  then have a: "0 < a" using assms by (simp add: zero_less_divide_iff)
  define la lb where "la = bits a" and "lb = bits b"
  have ba: "2 powi (la - 1) \<le> (of_int a :: rat)" "(of_int a :: rat) < 2 powi la"
    and bb: "2 powi (lb - 1) \<le> (of_int b :: rat)" "(of_int b :: rat) < 2 powi lb"
    using bits_bounds [OF a] bits_bounds [OF b]
    by (simp_all add: la_def lb_def)
  have "2 powi (la - lb - 1) \<le> x"
  proof -
    have "(2::rat) powi (la - lb - 1) * of_int b \<le> 2 powi (la - lb - 1) * 2 powi lb"
      using bb(2) by (intro mult_left_mono) auto
    also have "\<dots> = 2 powi (la - 1)" by (simp flip: power_int_add)
    finally show ?thesis using ba(1) b by (simp add: x pos_le_divide_eq)
  qed
  moreover have "x < 2 powi (la - lb + 1)"
  proof -
    have "(2::rat) powi la = 2 powi (la - lb + 1) * 2 powi (lb - 1)" by (simp flip: power_int_add)
    also have "\<dots> \<le> 2 powi (la - lb + 1) * of_int b" using bb(1) by (intro mult_left_mono) auto
    finally show ?thesis using ba(2) b by (simp add: x pos_divide_less_eq)
  qed
  ultimately show "2 powi flog2 x \<le> x" "x < 2 powi (flog2 x + 1)"
    by (auto simp: flog2_def q la_def lb_def Let_def)
qed

lemma powi_2_mono: "m \<le> n \<Longrightarrow> (2::rat) powi m \<le> 2 powi n"
  by (simp add: power_int_increasing)

lemma flog2_mono:
  assumes "0 < x" and "x \<le> y"
  shows "flog2 x \<le> flog2 y"
proof (rule ccontr)
  assume "\<not> flog2 x \<le> flog2 y"
  then have "(2::rat) powi (flog2 y + 1) \<le> 2 powi flog2 x" by (intro powi_2_mono) auto
  then show False using flog2_bounds [of x] flog2_bounds [of y] assms by linarith
qed

section \<open>Rounding is monotone and keeps representable values\<close>

lemma rnd_0 [simp]: "rnd p 0 = 0"
  by (simp add: rnd_def)

lemma rnd_minus: "rnd p (- x) = - rnd p x"
  by (simp add: rnd_def Let_def round_ne_minus)

lemma rnd_binade:
  assumes "0 < x" and "0 < p"
  shows "2 powi flog2 x \<le> rnd p x" "rnd p x \<le> 2 powi (flog2 x + 1)"
proof -
  define e where "e = flog2 x - (int p - 1)"
  define s where "s = (2::rat) powi e"
  have s: "0 < s" by (simp add: s_def)
  have r: "rnd p x = of_int (round_ne (x / s)) * s" using assms by (simp add: rnd_def s_def e_def Let_def)
  have sc: "(2::rat) powi (e + int n) = of_int (2 ^ n) * s" for n
    by (simp add: s_def power_int_add)
  have lo: "(2::rat) powi flog2 x = of_int (2 ^ (p - 1)) * s"
    and hi: "(2::rat) powi (flog2 x + 1) = of_int (2 ^ p) * s"
    using sc [of "p - 1"] sc [of p] assms(2) by (simp_all add: e_def of_nat_diff)
  have "of_int (2 ^ (p - 1)) \<le> x / s" "x / s \<le> of_int (2 ^ p)"
    using flog2_bounds [OF assms(1)] s unfolding lo hi by (auto simp: pos_le_divide_eq pos_divide_le_eq)
  then have "2 ^ (p - 1) \<le> round_ne (x / s)" "round_ne (x / s) \<le> 2 ^ p"
    using round_ne_mono [of "of_int (2 ^ (p - 1))" "x / s"] round_ne_mono [of "x / s" "of_int (2 ^ p)"]
    unfolding round_ne_of_int by auto
  then have "of_int (2 ^ (p - 1)) * s \<le> of_int (round_ne (x / s)) * s"
    "of_int (round_ne (x / s)) * s \<le> of_int (2 ^ p) * s"
    using s by (auto intro!: mult_right_mono simp only: of_int_le_iff)
  then show "2 powi flog2 x \<le> rnd p x" "rnd p x \<le> 2 powi (flog2 x + 1)"
    unfolding r lo hi by auto
qed

lemma rnd_nonneg: "0 \<le> x \<Longrightarrow> 0 < p \<Longrightarrow> 0 \<le> rnd p x"
proof (cases "x = 0")
  case False
  assume "0 \<le> x" "0 < p"
  then have "2 powi flog2 x \<le> rnd p x" using rnd_binade(1) [of x p] False by simp
  moreover have "(0::rat) \<le> 2 powi flog2 x" by simp
  ultimately show ?thesis by (rule order_trans [rotated])
qed simp

lemma rnd_mono_pos:
  assumes "0 < x" and "x \<le> y" and "0 < p"
  shows "rnd p x \<le> rnd p y"
proof (cases "flog2 x = flog2 y")
  case True
  define s where "s = (2::rat) powi (flog2 x - (int p - 1))"
  have "0 < s" by (simp add: s_def)
  then have "x / s \<le> y / s" using assms(2) by (simp add: divide_right_mono)
  then show ?thesis
    using assms \<open>0 < s\<close> round_ne_mono [of "x / s" "y / s"] True
    by (simp add: rnd_def s_def Let_def mult_right_mono)
next
  case False
  then have "flog2 x + 1 \<le> flog2 y" using flog2_mono [OF assms(1,2)] by linarith
  then have "(2::rat) powi (flog2 x + 1) \<le> 2 powi flog2 y" by (rule powi_2_mono)
  then show ?thesis
    using rnd_binade(2) [OF assms(1,3)] rnd_binade(1) [of y p] assms by linarith
qed

lemma rnd_mono:
  assumes "x \<le> y" and "0 < p"
  shows "rnd p x \<le> rnd p y"
proof -
  consider "0 < x" | "x \<le> 0" "0 \<le> y" | "y < 0" by linarith
  then show ?thesis
  proof cases
    case 1
    then show ?thesis using rnd_mono_pos assms by blast
  next
    case 2
    then show ?thesis
      using rnd_nonneg [of y p] rnd_nonneg [of "- x" p] assms(2) by (simp add: rnd_minus)
  next
    case 3
    then show ?thesis using rnd_mono_pos [of "- y" "- x" p] assms by (simp add: rnd_minus)
  qed
qed

text \<open>An integer of at most \<open>p\<close> bits is represented exactly.\<close>

lemma rnd_of_int:
  assumes "\<bar>n\<bar> < 2 ^ p" and "0 < p"
  shows "rnd p (of_int n) = of_int n"
proof (cases "n = 0")
  case False
  define e where "e = flog2 \<bar>of_int n :: rat\<bar>"
  have pos: "0 < \<bar>of_int n :: rat\<bar>" using False by simp
  have "(2::rat) powi e \<le> \<bar>of_int n\<bar>" using flog2_bounds(1) [OF pos] by (simp add: e_def)
  also have "\<dots> < 2 powi int p" using assms(1)
    by (metis of_int_abs of_int_less_iff of_int_numeral of_int_power power_int_of_nat)
  finally have "e < int p" using powi_2_mono [of "int p" e] by linarith
  then obtain k where k: "int p - 1 - e = int k" by (metis zero_le_imp_eq_int zle_diff1_eq diff_ge_0_iff_ge)
  have s: "(2::rat) powi (e - (int p - 1)) = 1 / 2 ^ k"
    using k by (metis minus_diff_eq power_int_minus power_int_of_nat inverse_eq_divide)
  have "of_int n / (1 / 2 ^ k) = (of_int (n * 2 ^ k) :: rat)" by simp
  then have "round_ne (of_int n / (1 / 2 ^ k)) = n * 2 ^ k" by (metis round_ne_of_int)
  then show ?thesis using False by (simp add: rnd_def Let_def s flip: e_def)
qed simp

end
