(* ===== verification/FleetAdpf.thy ===== *)
theory FleetAdpf
  imports FleetEngine Floats
begin

text \<open>
  The hint sessions of the Power HAL (\<open>power-fleet/Adpf.h\<close>, \<open>Adpf.cpp\<close>, \<open>HintSession.cpp\<close>):
  the level rule, the sessions and the "adpf" request they turn into, on top of the engine.

  A \<open>double\<close> is the rational it denotes (\<open>Floats\<close>). The engine an \<open>Adpf\<close> points to is passed
  as the pair of world and engine state. \<open>mLevelHits\<close> and session ids do not wrap, and the
  products \<open>2 * a\<close> and \<open>3 * targetNs\<close> are exact: durations are below 2^61 ns.
\<close>

section \<open>The level rule\<close>

definition AdpfNextLevel :: "int \<Rightarrow> int \<Rightarrow> int \<Rightarrow> int list \<Rightarrow> rat \<Rightarrow> int" where
  "AdpfNextLevel level maxLevel targetNs actualNs lowWater =
     (if targetNs \<le> 0 \<or> actualNs = [] then level
      else
        let over = (\<exists>a \<in> set actualNs. a > targetNs);
            severe = (\<exists>a \<in> set actualNs. 2 * a > 3 * targetNs);
            allLow = (\<not> (\<exists>a \<in> set actualNs. to_double a \<ge> rnd 53 (lowWater * to_double targetNs)));
            level = (if severe then level + 2 else if over then level + 1
                     else if allLow then level - 1 else level)
        in clamp level 0 maxLevel)"

section \<open>Sessions\<close>

record Session =
  ss_targetNs :: int
  ss_level :: int
  ss_paused :: bool
  ss_lastReport :: int

record Adpf =
  ad_config :: AdpfConfig
  mSessions :: "(int, Session) smap"
  mNextId :: int
  mSuppressed :: bool
  mApplied :: int
  mLevelHits :: "nat list"

definition Adpf_ctor :: "AdpfConfig \<Rightarrow> Adpf" where
  "Adpf_ctor config = \<lparr>ad_config = config, mSessions = [], mNextId = 1, mSuppressed = False,
     mApplied = 0, mLevelHits = replicate (length (ac_levels config) + 1) 0\<rparr>"

definition global_level :: "Adpf \<Rightarrow> int" where
  "global_level a =
     (if mSuppressed a then 0
      else fold (\<lambda>(id, s) level. if ss_paused s then level else max level (ss_level s)) (mSessions a) 0)"

definition recomputeLocked :: "'w Fs \<Rightarrow> int \<Rightarrow> Adpf \<Rightarrow> 'w \<times> Engine \<Rightarrow> Adpf \<times> 'w \<times> Engine" where
  "recomputeLocked fs now a we =
     (let level = global_level a;
          we = (if level = 0 then
                  if mApplied a \<noteq> 0 then clearRequest fs ''adpf'' now (fst we) (snd we) else we
                else
                  setRequest fs ''adpf'' (ac_levels (ad_config a) ! nat (level - 1))
                    (now + ac_staleMs (ad_config a) * ns_per_ms) False now (fst we) (snd we));
          hits = (if level \<noteq> mApplied a
                  then (mLevelHits a)[nat level := mLevelHits a ! nat level + 1] else mLevelHits a)
      in (a\<lparr>mLevelHits := hits, mApplied := level\<rparr>, we))"

definition adpf_open :: "int \<Rightarrow> int \<Rightarrow> Adpf \<Rightarrow> Adpf \<times> int" where
  "adpf_open targetNs now a =
     (let sid = mNextId a in
      (a\<lparr>mNextId := sid + 1,
         mSessions := mput sid \<lparr>ss_targetNs = targetNs, ss_level = 0, ss_paused = False,
                               ss_lastReport = now\<rparr> (mSessions a)\<rparr>, sid))"

definition setTarget :: "int \<Rightarrow> int \<Rightarrow> Adpf \<Rightarrow> Adpf" where
  "setTarget sid targetNs a =
     (case mfind (mSessions a) sid of
        None \<Rightarrow> a
      | Some s \<Rightarrow> if targetNs > 0 then a\<lparr>mSessions := mput sid (s\<lparr>ss_targetNs := targetNs\<rparr>) (mSessions a)\<rparr>
                  else a)"

definition report :: "'w Fs \<Rightarrow> int \<Rightarrow> int list \<Rightarrow> int \<Rightarrow> Adpf \<Rightarrow> 'w \<times> Engine \<Rightarrow> Adpf \<times> 'w \<times> Engine" where
  "report fs sid actualNs now a we =
     (case mfind (mSessions a) sid of
        None \<Rightarrow> (a, we)
      | Some s \<Rightarrow>
          let s = (if now - ss_lastReport s > ac_staleMs (ad_config a) * ns_per_ms
                   then s\<lparr>ss_level := 0\<rparr> else s);
              s = s\<lparr>ss_lastReport := now\<rparr>;
              s = s\<lparr>ss_level := AdpfNextLevel (ss_level s) (int (length (ac_levels (ad_config a))))
                                 (ss_targetNs s) actualNs (ac_lowWater (ad_config a))\<rparr>
          in recomputeLocked fs now (a\<lparr>mSessions := mput sid s (mSessions a)\<rparr>) we)"

definition setPaused :: "'w Fs \<Rightarrow> int \<Rightarrow> bool \<Rightarrow> int \<Rightarrow> Adpf \<Rightarrow> 'w \<times> Engine \<Rightarrow> Adpf \<times> 'w \<times> Engine" where
  "setPaused fs sid paused now a we =
     (case mfind (mSessions a) sid of
        None \<Rightarrow> (a, we)
      | Some s \<Rightarrow>
          let s = s\<lparr>ss_paused := paused\<rparr>;
              s = (if paused then s\<lparr>ss_level := 0\<rparr> else s)
          in recomputeLocked fs now (a\<lparr>mSessions := mput sid s (mSessions a)\<rparr>) we)"

definition adpf_close :: "'w Fs \<Rightarrow> int \<Rightarrow> int \<Rightarrow> Adpf \<Rightarrow> 'w \<times> Engine \<Rightarrow> Adpf \<times> 'w \<times> Engine" where
  "adpf_close fs sid now a we =
     (if mfind (mSessions a) sid = None then (a, we)
      else recomputeLocked fs now (a\<lparr>mSessions := merase sid (mSessions a)\<rparr>) we)"

definition setSuppressed :: "'w Fs \<Rightarrow> bool \<Rightarrow> int \<Rightarrow> Adpf \<Rightarrow> 'w \<times> Engine \<Rightarrow> Adpf \<times> 'w \<times> Engine" where
  "setSuppressed fs suppressed now a we =
     recomputeLocked fs now (a\<lparr>mSuppressed := suppressed\<rparr>) we"

definition globalLevel :: "Adpf \<Rightarrow> int" where
  "globalLevel a = mApplied a"

section \<open>The binder handle of a session\<close>

record HintSession =
  mId :: int
  mClosed :: bool

definition HintSession_ctor :: "int \<Rightarrow> int \<Rightarrow> Adpf \<Rightarrow> Adpf \<times> HintSession" where
  "HintSession_ctor targetNs now a =
     (case adpf_open targetNs now a of (a, sid) \<Rightarrow> (a, \<lparr>mId = sid, mClosed = False\<rparr>))"

definition updateTargetWorkDuration :: "HintSession \<Rightarrow> int \<Rightarrow> Adpf \<Rightarrow> Adpf" where
  "updateTargetWorkDuration h targetDurationNanos a = setTarget (mId h) targetDurationNanos a"

definition reportActualWorkDuration :: "'w Fs \<Rightarrow> HintSession \<Rightarrow> (int \<times> int) list \<Rightarrow> int \<Rightarrow> Adpf \<Rightarrow>
    'w \<times> Engine \<Rightarrow> Adpf \<times> 'w \<times> Engine" where
  "reportActualWorkDuration fs h actualDurations now a we =
     report fs (mId h) (map snd actualDurations) now a we"

definition session_pause :: "'w Fs \<Rightarrow> HintSession \<Rightarrow> int \<Rightarrow> Adpf \<Rightarrow> 'w \<times> Engine \<Rightarrow> Adpf \<times> 'w \<times> Engine" where
  "session_pause fs h now a we = setPaused fs (mId h) True now a we"

definition session_resume :: "'w Fs \<Rightarrow> HintSession \<Rightarrow> int \<Rightarrow> Adpf \<Rightarrow> 'w \<times> Engine \<Rightarrow> Adpf \<times> 'w \<times> Engine" where
  "session_resume fs h now a we = setPaused fs (mId h) False now a we"

text \<open>\<open>close\<close>, also run by the destructor: only the first call reaches the session.\<close>

definition session_close :: "'w Fs \<Rightarrow> HintSession \<Rightarrow> int \<Rightarrow> Adpf \<Rightarrow> 'w \<times> Engine \<Rightarrow>
    HintSession \<times> Adpf \<times> 'w \<times> Engine" where
  "session_close fs h now a we =
     (if mClosed h then (h, a, we)
      else (h\<lparr>mClosed := True\<rparr>, adpf_close fs (mId h) now a we))"

section \<open>Lemmas on the level rule\<close>

lemma AdpfNextLevel_bounds:
  assumes "0 \<le> level" and "level \<le> maxLevel"
  shows "0 \<le> AdpfNextLevel level maxLevel targetNs actualNs lowWater \<and>
    AdpfNextLevel level maxLevel targetNs actualNs lowWater \<le> maxLevel"
  using assms by (auto simp: AdpfNextLevel_def Let_def)




section \<open>The invariant of the sessions\<close>

abbreviation max_level :: "Adpf \<Rightarrow> int" where
  "max_level a \<equiv> int (length (ac_levels (ad_config a)))"

definition adpf_inv :: "Adpf \<Rightarrow> bool" where
  "adpf_inv a \<longleftrightarrow> msorted (mSessions a) \<and>
     (\<forall>(sid, s) \<in> set (mSessions a). sid < mNextId a \<and> 0 \<le> ss_level s \<and> ss_level s \<le> max_level a) \<and>
     0 \<le> mApplied a \<and> mApplied a \<le> max_level a \<and> length (mLevelHits a) = length (ac_levels (ad_config a)) + 1"

text \<open>The sessions together with the engine: without an applied level there is no "adpf" request.\<close>

definition adpf_sys :: "Adpf \<Rightarrow> 'w \<times> Engine \<Rightarrow> bool" where
  "adpf_sys a we \<longleftrightarrow> adpf_inv a \<and> eng_valid we \<and> (mApplied a = 0 \<longrightarrow> eng_view we ''adpf'' = None)"

lemma adpf_inv_ctor [inv_intros]: "adpf_inv (Adpf_ctor c)"
  by (simp add: adpf_inv_def Adpf_ctor_def)

lemma adpf_inv_put:
  assumes "adpf_inv a" and "sid < mNextId a" and "0 \<le> ss_level s" and "ss_level s \<le> max_level a"
  shows "adpf_inv (a\<lparr>mSessions := mput sid s (mSessions a)\<rparr>)"
proof -
  have "\<forall>(i, s') \<in> set (mput sid s (mSessions a)). i < mNextId a \<and> 0 \<le> ss_level s' \<and> ss_level s' \<le> max_level a"
    using assms set_mput [of sid s "mSessions a"] by (fastforce simp: adpf_inv_def)
  then show ?thesis using assms(1) by (simp add: adpf_inv_def msorted_mput)
qed

lemma adpf_inv_erase: "adpf_inv a \<Longrightarrow> adpf_inv (a\<lparr>mSessions := merase sid (mSessions a)\<rparr>)"
  by (auto simp: adpf_inv_def msorted_merase set_merase)

lemma adpf_inv_session:
  "adpf_inv a \<Longrightarrow> mfind (mSessions a) sid = Some s \<Longrightarrow>
   sid < mNextId a \<and> 0 \<le> ss_level s \<and> ss_level s \<le> max_level a"
  by (auto simp: adpf_inv_def dest: mfind_SomeD)

lemma global_level_fold:
  "fold (\<lambda>(sid, s) l. if ss_paused s then l else max l (ss_level s)) ss b =
   Max (insert b {ss_level s | sid s. (sid, s) \<in> set ss \<and> \<not> ss_paused s})"
proof (induction ss arbitrary: b)
  case (Cons x ss)
  obtain sid s where x: "x = (sid, s)" by (cases x)
  let ?L = "\<lambda>ss. {ss_level s | sid s. (sid, s) \<in> set ss \<and> \<not> ss_paused s}"
  have fin: "finite (?L ss)"
    by (rule finite_subset [of _ "(ss_level \<circ> snd) ` set ss"]) (force, simp)
  have eq: "?L (x # ss) = (if ss_paused s then ?L ss else insert (ss_level s) (?L ss))"
    by (auto simp: x)
  have mx: "Max (insert (max b c) A) = Max (insert b (insert c A))" if "finite A" for A and c :: int
    using that by (cases "A = {}") (auto simp: max.assoc)
  show ?case
    unfolding eq using Cons.IH fin by (simp add: x mx)
qed simp

text \<open>The level the sessions ask for: the highest level of a running session, 0 when suppressed.\<close>

lemma global_level_Max:
  "global_level a = (if mSuppressed a then 0
     else Max (insert 0 {ss_level s | sid s. (sid, s) \<in> set (mSessions a) \<and> \<not> ss_paused s}))"
  by (simp add: global_level_def global_level_fold)

lemma global_level_bounds:
  assumes "adpf_inv a"
  shows "0 \<le> global_level a" "global_level a \<le> max_level a"
proof -
  have "fold (\<lambda>(sid, s) l. if ss_paused s then l else max l (ss_level s)) ss b \<in> {0 .. max_level a}"
    if "\<forall>(sid, s) \<in> set ss. 0 \<le> ss_level s \<and> ss_level s \<le> max_level a" and "b \<in> {0 .. max_level a}" for ss b
    using that by (induction ss arbitrary: b) auto
  from this [of "mSessions a" 0] have "global_level a \<in> {0 .. max_level a}"
    using assms by (auto simp: adpf_inv_def global_level_def)
  then show "0 \<le> global_level a" "global_level a \<le> max_level a" by auto
qed

lemma recomputeLocked_spec:
  assumes "adpf_sys a we" and "recomputeLocked fs now a we = (a', we')"
  shows "adpf_sys a' we'" "mApplied a' = global_level a" "mSuppressed a' = mSuppressed a"
    "ad_config a' = ad_config a" "mSessions a' = mSessions a"
    "global_level a = 0 \<Longrightarrow> eng_view we' ''adpf'' = None"
    "0 < global_level a \<Longrightarrow> 0 < ac_staleMs (ad_config a) \<Longrightarrow> eng_view we' ''adpf'' =
        Some \<lparr>rq_values = ac_levels (ad_config a) ! nat (global_level a - 1),
              rq_until = now + ac_staleMs (ad_config a) * ns_per_ms\<rparr>"
    "src \<noteq> ''adpf'' \<Longrightarrow> eng_view we' src = eng_view we src \<or> eng_view we' src = spec_expire now (eng_view we) src"
proof -
  define level where "level = global_level a"
  have lb: "0 \<le> level" "level \<le> max_level a"
    using assms(1) global_level_bounds by (auto simp: adpf_sys_def level_def)
  have v: "eng_valid we" using assms(1) by (simp add: adpf_sys_def)
  define hits where "hits = (if level \<noteq> mApplied a
    then (mLevelHits a)[nat level := mLevelHits a ! nat level + 1] else mLevelHits a)"
  have a': "a' = a\<lparr>mLevelHits := hits, mApplied := level\<rparr>" "length hits = length (mLevelHits a)"
    and we': "we' = (if level = 0 then if mApplied a \<noteq> 0 then eng_clear fs ''adpf'' now we else we
       else eng_set fs ''adpf'' (ac_levels (ad_config a) ! nat (level - 1))
              (now + ac_staleMs (ad_config a) * ns_per_ms) False now we)"
    using assms(2) unfolding recomputeLocked_def level_def hits_def Let_def prod.inject by auto
  have none: "eng_view we' ''adpf'' = None" if "level = 0"
    using that assms(1) eng.view_clear [OF v, of fs "''adpf''" now]
    by (auto simp: we' adpf_sys_def spec_clear_def spec_expire_def)
  show "adpf_sys a' we'"
    using assms(1) lb a' none eng.valid_clear [OF v] eng.valid_set [OF v]
    by (auto simp: adpf_sys_def adpf_inv_def we' a'(1))
  show "mApplied a' = global_level a" "mSuppressed a' = mSuppressed a"
    "ad_config a' = ad_config a" "mSessions a' = mSessions a"
    by (simp_all add: a'(1) level_def)
  show "eng_view we' ''adpf'' = None" if "global_level a = 0"
    using none that by (simp add: level_def)
  show "eng_view we' ''adpf'' = Some \<lparr>rq_values = ac_levels (ad_config a) ! nat (global_level a - 1),
      rq_until = now + ac_staleMs (ad_config a) * ns_per_ms\<rparr>"
    if "0 < global_level a" "0 < ac_staleMs (ad_config a)"
    using that eng.view_set [OF v]
    by (simp add: we' level_def spec_set_def spec_expire_def spec_until_def split: option.splits)
  show "eng_view we' src = eng_view we src \<or> eng_view we' src = spec_expire now (eng_view we) src"
    if "src \<noteq> ''adpf''"
    using that eng.view_set [OF v] eng.view_clear [OF v]
    by (auto simp: we' spec_set_def spec_clear_def spec_expire_def)
qed

lemma adpf_sys_open [inv_intros]:
  assumes "adpf_sys a we"
  shows "adpf_sys (fst (adpf_open targetNs now a)) we"
proof -
  have "adpf_inv (a\<lparr>mNextId := mNextId a + 1\<rparr>)" using assms by (auto simp: adpf_sys_def adpf_inv_def)
  from adpf_inv_put [OF this, of "mNextId a" "\<lparr>ss_targetNs = targetNs, ss_level = 0, ss_paused = False, ss_lastReport = now\<rparr>"]
  show ?thesis using assms by (simp add: adpf_sys_def adpf_open_def Let_def)
qed

lemma adpf_sys_setTarget [inv_intros]:
  assumes "adpf_sys a we"
  shows "adpf_sys (setTarget sid targetNs a) we"
  using assms adpf_inv_session [of a sid] adpf_inv_put [of a sid]
  by (auto simp: adpf_sys_def setTarget_def split: option.splits)

lemma adpf_sys_put:
  assumes "adpf_sys a we" and "mfind (mSessions a) sid = Some s0"
    and "0 \<le> ss_level s" and "ss_level s \<le> max_level a"
  shows "adpf_sys (a\<lparr>mSessions := mput sid s (mSessions a)\<rparr>) we"
  using assms adpf_inv_session [of a sid] adpf_inv_put [of a sid] by (auto simp: adpf_sys_def)

text \<open>
  What every operation that recomputes ends with: the invariant, the recomputed level, and the
  other sources untouched or expired.
\<close>

definition adpf_post :: "Adpf \<Rightarrow> 'w \<times> Engine \<Rightarrow> int \<Rightarrow> Adpf \<Rightarrow> 'w \<times> Engine \<Rightarrow> bool" where
  "adpf_post a we now a' we' \<longleftrightarrow> adpf_sys a' we' \<and> mApplied a' = global_level a' \<and>
     (mApplied a' = 0 \<longrightarrow> eng_view we' ''adpf'' = None) \<and>
     (\<forall>src. src \<noteq> ''adpf'' \<longrightarrow>
        eng_view we' src = eng_view we src \<or> eng_view we' src = spec_expire now (eng_view we) src)"

lemma global_level_cong:
  "mSuppressed a' = mSuppressed a \<Longrightarrow> mSessions a' = mSessions a \<Longrightarrow> global_level a' = global_level a"
  by (simp add: global_level_def)

lemma recomputeLocked_post:
  assumes "adpf_sys a we" and "recomputeLocked fs now a we = (a', we')"
  shows "adpf_post b we now a' we'" "mSuppressed a' = mSuppressed a" "ad_config a' = ad_config a"
  using recomputeLocked_spec [OF assms] global_level_cong [of a' a] by (auto simp: adpf_post_def)

lemma report_post:
  assumes "adpf_sys a we" and "report fs sid actualNs now a we = (a', we')"
  shows "(a' = a \<and> we' = we) \<or> adpf_post a we now a' we'" "mSuppressed a' = mSuppressed a"
    "ad_config a' = ad_config a"
proof -
  have "((a' = a \<and> we' = we) \<or> adpf_post a we now a' we') \<and> mSuppressed a' = mSuppressed a \<and> ad_config a' = ad_config a"
  proof (cases "mfind (mSessions a) sid")
    case None
    then show ?thesis using assms(2) by (simp add: report_def)
  next
    case (Some s)
    define l where "l = (if now - ss_lastReport s > ac_staleMs (ad_config a) * ns_per_ms then 0 else ss_level s)"
    define s' where "s' = s\<lparr>ss_lastReport := now, ss_level := AdpfNextLevel l (max_level a)
        (ss_targetNs s) actualNs (ac_lowWater (ad_config a))\<rparr>"
    have "0 \<le> l" "l \<le> max_level a"
      using adpf_inv_session [OF _ Some] assms(1) by (auto simp: adpf_sys_def l_def)
    then have "0 \<le> ss_level s'" "ss_level s' \<le> max_level a"
      using AdpfNextLevel_bounds by (auto simp: s'_def)
    then have sys: "adpf_sys (a\<lparr>mSessions := mput sid s' (mSessions a)\<rparr>) we"
      using adpf_sys_put [OF assms(1) Some] by blast
    have rc: "recomputeLocked fs now (a\<lparr>mSessions := mput sid s' (mSessions a)\<rparr>) we = (a', we')"
      using assms(2) Some by (simp add: report_def s'_def l_def Let_def split: if_splits)
    show ?thesis using recomputeLocked_post [OF sys rc] by simp
  qed
  then show "(a' = a \<and> we' = we) \<or> adpf_post a we now a' we'" "mSuppressed a' = mSuppressed a"
    "ad_config a' = ad_config a" by auto
qed

lemma setPaused_post:
  assumes "adpf_sys a we" and "setPaused fs sid paused now a we = (a', we')"
  shows "(a' = a \<and> we' = we) \<or> adpf_post a we now a' we'" "mSuppressed a' = mSuppressed a"
    "ad_config a' = ad_config a"
proof -
  have "((a' = a \<and> we' = we) \<or> adpf_post a we now a' we') \<and> mSuppressed a' = mSuppressed a \<and> ad_config a' = ad_config a"
  proof (cases "mfind (mSessions a) sid")
    case None
    then show ?thesis using assms(2) by (simp add: setPaused_def)
  next
    case (Some s)
    define s' where "s' = (if paused then s\<lparr>ss_paused := paused, ss_level := 0\<rparr> else s\<lparr>ss_paused := paused\<rparr>)"
    have "0 \<le> ss_level s'" "ss_level s' \<le> max_level a"
      using adpf_inv_session [OF _ Some] assms(1) by (auto simp: s'_def adpf_sys_def)
    then have sys: "adpf_sys (a\<lparr>mSessions := mput sid s' (mSessions a)\<rparr>) we"
      using adpf_sys_put [OF assms(1) Some] by blast
    have rc: "recomputeLocked fs now (a\<lparr>mSessions := mput sid s' (mSessions a)\<rparr>) we = (a', we')"
      using assms(2) Some by (simp add: setPaused_def s'_def Let_def split: if_splits)
    show ?thesis using recomputeLocked_post [OF sys rc] by simp
  qed
  then show "(a' = a \<and> we' = we) \<or> adpf_post a we now a' we'" "mSuppressed a' = mSuppressed a"
    "ad_config a' = ad_config a" by auto
qed

lemma adpf_close_post:
  assumes "adpf_sys a we" and "adpf_close fs sid now a we = (a', we')"
  shows "(a' = a \<and> we' = we) \<or> adpf_post a we now a' we'" "mSuppressed a' = mSuppressed a"
    "ad_config a' = ad_config a"
proof -
  have "adpf_sys (a\<lparr>mSessions := merase sid (mSessions a)\<rparr>) we"
    using assms(1) adpf_inv_erase by (auto simp: adpf_sys_def)
  then show "(a' = a \<and> we' = we) \<or> adpf_post a we now a' we'" "mSuppressed a' = mSuppressed a"
    "ad_config a' = ad_config a"
    using assms(2) recomputeLocked_post [of "a\<lparr>mSessions := merase sid (mSessions a)\<rparr>" we fs now a' we']
    by (auto simp: adpf_close_def split: if_splits)
qed

lemma setSuppressed_post:
  assumes "adpf_sys a we" and "setSuppressed fs b now a we = (a', we')"
  shows "adpf_post a we now a' we'" "mSuppressed a' = b" "ad_config a' = ad_config a"
proof -
  have "adpf_sys (a\<lparr>mSuppressed := b\<rparr>) we" using assms(1) by (simp add: adpf_sys_def adpf_inv_def)
  then show "adpf_post a we now a' we'" "mSuppressed a' = b" "ad_config a' = ad_config a"
    using assms(2) recomputeLocked_post [of "a\<lparr>mSuppressed := b\<rparr>" we fs now a' we']
    by (auto simp: setSuppressed_def)
qed

section \<open>Properties of the sessions\<close>



text \<open>
  A report of a known session: the session's level follows the level rule, from
  zero when it was quiet for longer than \<open>staleMs\<close>; the applied level becomes the maximum over
  the running sessions (zero when suppressed); the engine then holds no "adpf" request at level
  zero, and otherwise exactly that level's values for another \<open>staleMs\<close>.
\<close>

theorem report_applies_level:
  assumes "adpf_sys a we" and "mfind (mSessions a) sid = Some s"
    and "0 < ac_staleMs (ad_config a)" and "report fs sid actualNs now a we = (a', we')"
  shows "(\<exists>s'. mfind (mSessions a') sid = Some s' \<and>
      ss_level s' = AdpfNextLevel
        (if now - ss_lastReport s > ac_staleMs (ad_config a) * ns_per_ms then 0 else ss_level s)
        (int (length (ac_levels (ad_config a)))) (ss_targetNs s) actualNs (ac_lowWater (ad_config a))) \<and>
    mApplied a' = (if mSuppressed a then 0
      else Max (insert 0 {ss_level s | sid s. (sid, s) \<in> set (mSessions a') \<and> \<not> ss_paused s})) \<and>
    mfind (mRequests (snd we')) ''adpf'' = (if mApplied a' = 0 then None
      else Some \<lparr>rq_values = ac_levels (ad_config a) ! nat (mApplied a' - 1),
                 rq_until = now + ac_staleMs (ad_config a) * ns_per_ms\<rparr>)"
proof -
  define l where "l = (if now - ss_lastReport s > ac_staleMs (ad_config a) * ns_per_ms then 0 else ss_level s)"
  define s' where "s' = s\<lparr>ss_lastReport := now, ss_level := AdpfNextLevel l (max_level a)
      (ss_targetNs s) actualNs (ac_lowWater (ad_config a))\<rparr>"
  define b where "b = a\<lparr>mSessions := mput sid s' (mSessions a)\<rparr>"
  have "0 \<le> l" "l \<le> max_level a"
    using adpf_inv_session [OF _ assms(2)] assms(1) by (auto simp: adpf_sys_def l_def)
  then have sys: "adpf_sys b we"
    unfolding b_def using adpf_sys_put [OF assms(1,2), of s'] AdpfNextLevel_bounds by (auto simp: s'_def)
  have rc: "recomputeLocked fs now b we = (a', we')"
    using assms(2,4) by (simp add: report_def b_def s'_def l_def Let_def split: if_splits)
  note r = recomputeLocked_spec [OF sys rc]
  have "\<exists>s'. mfind (mSessions a') sid = Some s' \<and>
      ss_level s' = AdpfNextLevel
        (if now - ss_lastReport s > ac_staleMs (ad_config a) * ns_per_ms then 0 else ss_level s)
        (int (length (ac_levels (ad_config a)))) (ss_targetNs s) actualNs (ac_lowWater (ad_config a))"
    using r(5) by (intro exI [of _ s']) (simp add: b_def mfind_mput s'_def l_def)
  moreover have "mApplied a' = (if mSuppressed a then 0
      else Max (insert 0 {ss_level s | sid s. (sid, s) \<in> set (mSessions a') \<and> \<not> ss_paused s}))"
    using r(2,5) global_level_Max [of b] by (simp add: b_def)
  moreover have "0 \<le> global_level b" using global_level_bounds(1) sys by (simp add: adpf_sys_def)
  then have "mfind (mRequests (snd we')) ''adpf'' = (if mApplied a' = 0 then None
      else Some \<lparr>rq_values = ac_levels (ad_config a) ! nat (mApplied a' - 1),
                 rq_until = now + ac_staleMs (ad_config a) * ns_per_ms\<rparr>)"
    using r(2,6,7) assms(3) by (simp add: b_def)
  ultimately show ?thesis by blast
qed

definition demo_adpf :: AdpfConfig where
  "demo_adpf = AdpfConfig_init\<lparr>ac_enabled := True, ac_levels := [[(''hps'', ''2'')], [(''hps'', ''4'')]]\<rparr>"

theorem report_applies_level_witness:
  "\<exists>a' we'. report open_fs 1 [20000000] 1000 (fst (adpf_open 16000000 0 (Adpf_ctor demo_adpf)))
      ([], Engine_ctor [demo_cap]) = (a', we') \<and>
    mfind (mRequests (snd we')) ''adpf'' = (if mApplied a' = 0 then None
      else Some \<lparr>rq_values = ac_levels demo_adpf ! nat (mApplied a' - 1), rq_until = 150001000\<rparr>) \<and>
    mApplied a' = 1"
proof -
  let ?a = "fst (adpf_open 16000000 0 (Adpf_ctor demo_adpf))"
  let ?we = "([], Engine_ctor [demo_cap]) :: (string, string) smap \<times> Engine"
  let ?s = "\<lparr>ss_targetNs = 16000000, ss_level = 0, ss_paused = False, ss_lastReport = 0\<rparr>"
  obtain a' we' where r: "report open_fs 1 [20000000] 1000 ?a ?we = (a', we')" by (meson surj_pair)
  have sys: "adpf_sys ?a ?we"
    by (rule adpf_sys_open) (simp add: adpf_sys_def adpf_inv_ctor Engine_ctor_def)
  have f: "mfind (mSessions ?a) 1 = Some ?s" by code_simp
  have st: "0 < ac_staleMs (ad_config ?a)" by code_simp
  have cfg: "ad_config ?a = demo_adpf" "ac_staleMs demo_adpf = 150" by code_simp+
  have "mApplied (fst (report open_fs 1 [20000000] 1000 ?a ?we)) = 1" by code_simp
  then show ?thesis
    using r report_applies_level [OF sys f st r] by (auto simp: cfg)
qed

end
