(* ===== verification/AndroidBase.thy ===== *)
theory AndroidBase
  imports Prelude
begin

text \<open>
  The functions of \<open>libbase\<close> (\<open>android-base\<close>) that the HALs call. The library is not part of the
  repository: the fields of \<open>android_base\<close> are arguments of the definitions that use them.
  \<open>sample_base\<close> is one concrete choice, on which the models are evaluated.
\<close>

record android_base =
  ab_GetProperty :: "string \<Rightarrow> string \<Rightarrow> string"
  ab_Split :: "string \<Rightarrow> string \<Rightarrow> string list"
  ab_Trim :: "string \<Rightarrow> string"
  ab_StartsWith :: "string \<Rightarrow> string \<Rightarrow> bool"
  ab_ParseInt :: "string \<Rightarrow> int option"
  ab_ParseUint :: "string \<Rightarrow> nat option"

fun split_at :: "char \<Rightarrow> string \<Rightarrow> string \<Rightarrow> string list" where
  "split_at d acc [] = [rev acc]"
| "split_at d acc (c # cs) = (if c = d then rev acc # split_at d [] cs else split_at d (c # acc) cs)"

definition trim_space :: "string \<Rightarrow> string" where
  "trim_space s = rev (dropWhile isspace (rev (dropWhile isspace s)))"

text \<open>\<open>props\<close> are the system properties that are set.\<close>

definition sample_base :: "(string, string) smap \<Rightarrow> android_base" where
  "sample_base props = \<lparr>
     ab_GetProperty = (\<lambda>k dflt. case mfind props k of None \<Rightarrow> dflt | Some v \<Rightarrow> if v = [] then dflt else v),
     ab_Split = (\<lambda>s d. split_at (hd d) [] s),
     ab_Trim = trim_space,
     ab_StartsWith = (\<lambda>s p. take (length p) s = p),
     ab_ParseInt = (\<lambda>s. case strtoll s of (v, r, e) \<Rightarrow>
        if e \<or> r \<noteq> [] \<or> s = [] \<or> \<not> in_int32 v then None else Some v),
     ab_ParseUint = (\<lambda>s. if s = [] \<or> \<not> list_all isdigit s then None else Some (nat (decimal s)))\<rparr>"

end
