(* ===== verification/FleetPower.thy ===== *)
theory FleetPower
  imports FleetAdpf AndroidBase
begin

text \<open>
  The AIDL front end of the Power HAL (\<open>power-fleet/Power.h\<close>, \<open>Power.cpp\<close>) and its process as a
  transition system: binder calls under \<open>Power::mLock\<close>, hint-session calls and the engine's
  worker, interleaved at the granularity of the engine's and \<open>Adpf\<close>'s own locks.

  A call that holds \<open>mLock\<close> decides on its flags and the configuration and then makes a
  sequence of calls on the engine and \<open>Adpf\<close>: \<open>setMode\<close> and \<open>setBoost\<close> return the new flags and
  that sequence, \<open>run_call\<close> performs one element. \<open>Clock::now()\<close> is read at each of them, so
  every element is performed with a time of its own. The generated \<open>toString\<close> of the AIDL enums
  is an argument.
\<close>

section \<open>Binder calls\<close>

datatype Mode = LAUNCH | INTERACTIVE | DISPLAY_INACTIVE | LOW_POWER | OtherMode nat
datatype Boost = INTERACTION | OtherBoost nat
datatype status = Ok | EX_UNSUPPORTED_OPERATION

record aidl_names =
  modeName :: "Mode \<Rightarrow> string"
  boostName :: "Boost \<Rightarrow> string"

text \<open>\<open>OffList\<close>: a \<open>std::set\<close> of which only membership is used.\<close>

definition OffList :: "android_base \<Rightarrow> string list" where
  "OffList ab =
     (let v = ab_GetProperty ab ''debug.vendor.power.fleet.off'' [];
          v = (if v = [] then ab_GetProperty ab ''ro.vendor.power.fleet.off'' [] else v) in
      if v = ''none'' then []
      else filter (\<lambda>s. s \<noteq> []) (map (ab_Trim ab) (ab_Split ab v '','')))"

definition Without :: "ValueMap \<Rightarrow> string list \<Rightarrow> ValueMap" where
  "Without vals off = filter (\<lambda>(node, value). node \<notin> set off) vals"

record PowerFlags =
  mScreenOff :: bool
  mLowPower :: bool

text \<open>The calls made on the engine and on \<open>Adpf\<close>; a duration is in milliseconds from \<open>now\<close>.\<close>

datatype call =
    ClearRequest string
  | ClearAll
  | DoPulse string int
  | SetRequest string ValueMap int bool
  | SetSuppressed bool

definition updateAdpfSuppression :: "PowerFlags \<Rightarrow> call" where
  "updateAdpfSuppression f = SetSuppressed (mScreenOff f \<or> mLowPower f)"

definition launch_calls :: "RequestConfig \<Rightarrow> string list \<Rightarrow> call list" where
  "launch_calls rc off =
     map (\<lambda>p. DoPulse p (min (rc_pulseMs rc) (rc_pulseMaxMs rc))) (filter (\<lambda>p. p \<notin> set off) (rc_pulse rc)) @
     [SetRequest ''launch'' (Without (rc_set rc) off) (rc_maxMs rc) False]"

definition setMode :: "aidl_names \<Rightarrow> android_base \<Rightarrow> Config \<Rightarrow> Mode \<Rightarrow> bool \<Rightarrow> PowerFlags \<Rightarrow>
    PowerFlags \<times> call list" where
  "setMode an ab cfg type enabled f =
     (if modeName an type \<notin> set (cf_modes cfg) then (f, [])
      else case type of
        LAUNCH \<Rightarrow>
          (case mfind (cf_requests cfg) ''launch'' of
             None \<Rightarrow> (f, [])
           | Some rc \<Rightarrow>
               let off = OffList ab in
               if \<not> enabled \<or> mScreenOff f \<or> ''launch'' \<in> set off then (f, [ClearRequest ''launch''])
               else (f, launch_calls rc off))
      | INTERACTIVE \<Rightarrow>
          let f = f\<lparr>mScreenOff := \<not> enabled\<rparr> in
          (f, (if mScreenOff f then [ClearAll] else []) @ [updateAdpfSuppression f])
      | DISPLAY_INACTIVE \<Rightarrow>
          let f = f\<lparr>mScreenOff := enabled\<rparr> in
          (f, (if mScreenOff f then [ClearAll] else []) @ [updateAdpfSuppression f])
      | LOW_POWER \<Rightarrow>
          let f = f\<lparr>mLowPower := enabled\<rparr> in
          (f, (if mLowPower f then [ClearRequest ''interaction'', ClearRequest ''fling''] else []) @
              [updateAdpfSuppression f])
      | OtherMode _ \<Rightarrow> (f, []))"

definition isModeSupported :: "aidl_names \<Rightarrow> Config \<Rightarrow> Mode \<Rightarrow> bool" where
  "isModeSupported an cfg type \<longleftrightarrow> modeName an type \<in> set (cf_modes cfg)"

definition boost_source :: "Config \<Rightarrow> int \<Rightarrow> bool \<times> string" where
  "boost_source cfg durationMs =
     (let fling = (durationMs > 0 \<and> mfind (cf_requests cfg) ''fling'' \<noteq> None) in
      (fling, if fling then ''fling'' else ''interaction''))"

definition boost_calls :: "RequestConfig \<Rightarrow> string list \<Rightarrow> bool \<Rightarrow> string \<Rightarrow> int \<Rightarrow> call list" where
  "boost_calls rc off fling source durationMs =
     (let pulseMs = clamp (if durationMs > 0 then durationMs else rc_pulseMs rc) 1 (rc_pulseMaxMs rc);
          vals = Without (rc_set rc) off;
          holdMs = (if fling then max durationMs (rc_flingMinMs rc) else max (rc_holdMs rc) durationMs) in
      (if rc_pulse rc \<noteq> [] then map (\<lambda>p. DoPulse p pulseMs) (filter (\<lambda>p. p \<notin> set off) (rc_pulse rc)) else []) @
      (if vals \<noteq> [] then [SetRequest source vals holdMs True] else []))"

definition setBoost :: "aidl_names \<Rightarrow> android_base \<Rightarrow> Config \<Rightarrow> Boost \<Rightarrow> int \<Rightarrow> PowerFlags \<Rightarrow> call list" where
  "setBoost an ab cfg type durationMs f =
     (if type \<noteq> INTERACTION \<or> boostName an type \<notin> set (cf_boosts cfg) then []
      else if mScreenOff f \<or> mLowPower f then []
      else case boost_source cfg durationMs of (fling, source) \<Rightarrow>
        let off = OffList ab in
        case mfind (cf_requests cfg) source of
          None \<Rightarrow> []
        | Some rc \<Rightarrow>
            if source \<in> set off then []
            else if durationMs \<le> 0 \<and> rc_ignoreZeroDuration rc then []
            else boost_calls rc off fling source durationMs)"

definition isBoostSupported :: "aidl_names \<Rightarrow> Config \<Rightarrow> Boost \<Rightarrow> bool" where
  "isBoostSupported an cfg type \<longleftrightarrow> boostName an type \<in> set (cf_boosts cfg)"

definition createHintSession :: "Config \<Rightarrow> int \<Rightarrow> int \<Rightarrow> Adpf \<Rightarrow> Adpf \<times> (status + HintSession)" where
  "createHintSession cfg durationNanos now a =
     (if \<not> ac_enabled (cf_adpf cfg) then (a, Inl EX_UNSUPPORTED_OPERATION)
      else case HintSession_ctor durationNanos now a of (a, h) \<Rightarrow> (a, Inr h))"

definition getHintSessionPreferredRate :: "Config \<Rightarrow> int \<times> status" where
  "getHintSessionPreferredRate cfg =
     (if \<not> ac_enabled (cf_adpf cfg) then (-1, EX_UNSUPPORTED_OPERATION)
      else (ac_reportRateMs (cf_adpf cfg) * 1000000, Ok))"

section \<open>The process\<close>

text \<open>
  \<open>pw_pending\<close> are the calls the binder thread that holds \<open>mLock\<close> has still to make, \<open>pw_handles\<close>
  the hint sessions handed out.
\<close>

record 'w Power =
  pw_flags :: PowerFlags
  pw_pending :: "call list"
  pw_adpf :: Adpf
  pw_handles :: "HintSession list"
  pw_engine :: "'w \<times> Engine"

definition run_call :: "'w Fs \<Rightarrow> int \<Rightarrow> call \<Rightarrow> Adpf \<Rightarrow> 'w \<times> Engine \<Rightarrow> Adpf \<times> 'w \<times> Engine" where
  "run_call fs now c a we =
     (case c of
        ClearRequest source \<Rightarrow> (a, clearRequest fs source now (fst we) (snd we))
      | ClearAll \<Rightarrow> (a, clearAll fs now (fst we) (snd we))
      | DoPulse name d \<Rightarrow> (a, pulse fs name d (fst we) (snd we))
      | SetRequest source vals ms ext \<Rightarrow>
          (a, setRequest fs source vals (now + ms * ns_per_ms) ext now (fst we) (snd we))
      | SetSuppressed b \<Rightarrow> setSuppressed fs b now a we)"

text \<open>\<open>main\<close>: the engine is built and reset, then the service is constructed on it.\<close>

definition Power_main :: "'w Fs \<Rightarrow> Config \<Rightarrow> int \<Rightarrow> 'w \<Rightarrow> 'w Power" where
  "Power_main fs cfg now w =
     \<lparr>pw_flags = \<lparr>mScreenOff = False, mLowPower = False\<rparr>, pw_pending = [],
      pw_adpf = Adpf_ctor (cf_adpf cfg), pw_handles = [],
      pw_engine = reset fs now w (Engine_ctor (cf_nodes cfg))\<rparr>"

inductive power_step :: "aidl_names \<Rightarrow> 'w Fs \<Rightarrow> Config \<Rightarrow> 'w Power \<Rightarrow> 'w Power \<Rightarrow> bool"
  for an :: aidl_names and fs :: "'w Fs" and cfg :: Config where
  mode: "pw_pending p = [] \<Longrightarrow> setMode an ab cfg type enabled (pw_flags p) = (f, cs) \<Longrightarrow>
    power_step an fs cfg p (p\<lparr>pw_flags := f, pw_pending := cs\<rparr>)"
| boost: "pw_pending p = [] \<Longrightarrow>
    power_step an fs cfg p (p\<lparr>pw_pending := setBoost an ab cfg type durationMs (pw_flags p)\<rparr>)"
| call: "pw_pending p = c # cs \<Longrightarrow> run_call fs now c (pw_adpf p) (pw_engine p) = (a, we) \<Longrightarrow>
    power_step an fs cfg p (p\<lparr>pw_pending := cs, pw_adpf := a, pw_engine := we\<rparr>)"
| create: "createHintSession cfg durationNanos now (pw_adpf p) = (a, Inr h) \<Longrightarrow>
    power_step an fs cfg p (p\<lparr>pw_adpf := a, pw_handles := h # pw_handles p\<rparr>)"
| target: "h \<in> set (pw_handles p) \<Longrightarrow>
    power_step an fs cfg p (p\<lparr>pw_adpf := updateTargetWorkDuration h ns (pw_adpf p)\<rparr>)"
| report: "h \<in> set (pw_handles p) \<Longrightarrow>
    reportActualWorkDuration fs h ds now (pw_adpf p) (pw_engine p) = (a, we) \<Longrightarrow>
    power_step an fs cfg p (p\<lparr>pw_adpf := a, pw_engine := we\<rparr>)"
| pause: "h \<in> set (pw_handles p) \<Longrightarrow> session_pause fs h now (pw_adpf p) (pw_engine p) = (a, we) \<Longrightarrow>
    power_step an fs cfg p (p\<lparr>pw_adpf := a, pw_engine := we\<rparr>)"
| resume: "h \<in> set (pw_handles p) \<Longrightarrow> session_resume fs h now (pw_adpf p) (pw_engine p) = (a, we) \<Longrightarrow>
    power_step an fs cfg p (p\<lparr>pw_adpf := a, pw_engine := we\<rparr>)"
| close: "pw_handles p = hs1 @ h # hs2 \<Longrightarrow> session_close fs h now (pw_adpf p) (pw_engine p) = (h', a, we) \<Longrightarrow>
    power_step an fs cfg p (p\<lparr>pw_adpf := a, pw_engine := we, pw_handles := hs1 @ h' # hs2\<rparr>)"
| worker: "loop_round fs now (fst (pw_engine p)) (snd (pw_engine p)) = (w, e, wake) \<Longrightarrow>
    power_step an fs cfg p (p\<lparr>pw_engine := (w, e)\<rparr>)"

inductive power_reachable :: "aidl_names \<Rightarrow> 'w Fs \<Rightarrow> Config \<Rightarrow> 'w Power \<Rightarrow> bool"
  for an :: aidl_names and fs :: "'w Fs" and cfg :: Config where
  start: "power_reachable an fs cfg (Power_main fs cfg now w)"
| step: "power_reachable an fs cfg p \<Longrightarrow> power_step an fs cfg p p' \<Longrightarrow> power_reachable an fs cfg p'"

inductive_cases power_stepE: "power_step an fs cfg p p'"

text \<open>A binder call from start to end with no other thread in between; \<open>clk i\<close> is the i-th clock reading.\<close>

fun run_calls :: "'w Fs \<Rightarrow> (nat \<Rightarrow> int) \<Rightarrow> nat \<Rightarrow> call list \<Rightarrow> Adpf \<Rightarrow> 'w \<times> Engine \<Rightarrow> Adpf \<times> 'w \<times> Engine" where
  "run_calls fs clk i [] a we = (a, we)"
| "run_calls fs clk i (c # cs) a we =
     (case run_call fs (clk i) c a we of (a, we) \<Rightarrow> run_calls fs clk (Suc i) cs a we)"

section \<open>What the pending calls still achieve\<close>

text \<open>
  \<open>D\<close> bounds the sources that hold a request, whatever the sessions and the worker do in
  between: the sessions can add "adpf" only while not suppressed, the worker only removes.
\<close>

definition sources :: "string set" where
  "sources = {''interaction'', ''fling'', ''launch'', ''adpf''}"

definition adpf_may :: "bool \<Rightarrow> string set" where
  "adpf_may spd = (if spd then {} else {''adpf''})"

definition settled :: "PowerFlags \<Rightarrow> bool \<Rightarrow> string set \<Rightarrow> bool" where
  "settled f spd D \<longleftrightarrow> spd = (mScreenOff f \<or> mLowPower f) \<and> D \<subseteq> sources \<and>
     (mScreenOff f \<longrightarrow> D = {}) \<and> (mLowPower f \<longrightarrow> D \<subseteq> {''launch''})"

fun pend_ok :: "PowerFlags \<Rightarrow> call list \<Rightarrow> bool \<Rightarrow> string set \<Rightarrow> bool" where
  "pend_ok f [] spd D \<longleftrightarrow> settled f spd D"
| "pend_ok f (ClearRequest src # cs) spd D \<longleftrightarrow> pend_ok f cs spd (D - {src} \<union> adpf_may spd)"
| "pend_ok f (ClearAll # cs) spd D \<longleftrightarrow> pend_ok f cs spd (adpf_may spd)"
| "pend_ok f (DoPulse n d # cs) spd D \<longleftrightarrow> pend_ok f cs spd D"
| "pend_ok f (SetRequest src v ms ext # cs) spd D \<longleftrightarrow> src \<noteq> ''adpf'' \<and> pend_ok f cs spd (insert src D)"
| "pend_ok f (SetSuppressed b # cs) spd D \<longleftrightarrow> pend_ok f cs b (D - {''adpf''} \<union> adpf_may b)"

definition power_inv :: "'w Power \<Rightarrow> bool" where
  "power_inv p \<longleftrightarrow> adpf_sys (pw_adpf p) (pw_engine p) \<and>
     (mSuppressed (pw_adpf p) \<longrightarrow> mApplied (pw_adpf p) = 0) \<and>
     (\<exists>D. dom (eng_view (pw_engine p)) \<subseteq> D \<and> adpf_may (mSuppressed (pw_adpf p)) \<subseteq> D \<and>
          pend_ok (pw_flags p) (pw_pending p) (mSuppressed (pw_adpf p)) D)"

lemma pend_ok_pulses:
  "pend_ok f (map (\<lambda>p. DoPulse p d) ps @ cs) spd D = pend_ok f cs spd D"
  by (induction ps) auto

lemma setMode_pend_ok:
  assumes "settled f spd D" and "adpf_may spd \<subseteq> D" and "setMode an ab cfg type enabled f = (f', cs)"
  shows "pend_ok f' cs spd D"
proof -
  have skip: "pend_ok f [] spd D" using assms(1) by simp
  show ?thesis
  proof (cases "modeName an type \<in> set (cf_modes cfg)")
    case False
    then show ?thesis using assms(3) skip by (simp add: setMode_def)
  next
    case True
    show ?thesis
    proof (cases type)
      case LAUNCH
      then show ?thesis
        using assms True by (auto simp: setMode_def launch_calls_def pend_ok_pulses settled_def adpf_may_def
            sources_def Let_def split: option.splits if_splits)
    next
      case INTERACTIVE
      then show ?thesis
        using assms True by (auto simp: setMode_def settled_def updateAdpfSuppression_def adpf_may_def
            sources_def Let_def split: if_splits)
    next
      case DISPLAY_INACTIVE
      then show ?thesis
        using assms True by (auto simp: setMode_def settled_def updateAdpfSuppression_def adpf_may_def
            sources_def Let_def split: if_splits)
    next
      case LOW_POWER
      then show ?thesis
        using assms True by (auto simp: setMode_def settled_def updateAdpfSuppression_def adpf_may_def
            sources_def Let_def split: if_splits)
    next
      case OtherMode
      then show ?thesis using assms(3) skip True by (simp add: setMode_def)
    qed
  qed
qed

lemma setBoost_cases:
  "setBoost an ab cfg type durationMs f = [] \<or>
   (\<exists>rc. \<not> mScreenOff f \<and> \<not> mLowPower f \<and> setBoost an ab cfg type durationMs f =
      boost_calls rc (OffList ab) (fst (boost_source cfg durationMs)) (snd (boost_source cfg durationMs)) durationMs)"
  by (auto simp: setBoost_def Let_def split: prod.splits option.splits if_splits)

lemma setBoost_pend_ok:
  assumes "settled f spd D"
  shows "pend_ok f (setBoost an ab cfg type durationMs f) spd D"
proof (cases "setBoost an ab cfg type durationMs f = []")
  case True
  then show ?thesis using assms by simp
next
  case False
  then obtain rc where b: "\<not> mScreenOff f" "\<not> mLowPower f" "setBoost an ab cfg type durationMs f =
    boost_calls rc (OffList ab) (fst (boost_source cfg durationMs)) (snd (boost_source cfg durationMs)) durationMs"
    using setBoost_cases [of an ab cfg type durationMs f] by blast
  have src: "snd (boost_source cfg durationMs) \<in> sources - {''adpf''}"
    by (simp add: boost_source_def sources_def Let_def)
  show ?thesis
    using assms src unfolding b(3) boost_calls_def Let_def
    by (auto simp: pend_ok_pulses [where cs = "[]", simplified] pend_ok_pulses settled_def b(1,2))
qed

section \<open>Every step keeps the invariant\<close>

lemma dom_expire: "dom (spec_expire now m) \<subseteq> dom m"
  by (auto simp: spec_expire_def split: option.splits if_splits)

lemma power_invI:
  assumes "adpf_sys (pw_adpf p) (pw_engine p)" and "mSuppressed (pw_adpf p) \<Longrightarrow> mApplied (pw_adpf p) = 0"
    and "dom (eng_view (pw_engine p)) \<subseteq> D" and "adpf_may (mSuppressed (pw_adpf p)) \<subseteq> D"
    and "pend_ok (pw_flags p) (pw_pending p) (mSuppressed (pw_adpf p)) D"
  shows "power_inv p"
  using assms unfolding power_inv_def by blast

text \<open>An operation on the sessions, seen from the bound on the sources.\<close>

lemma adpf_post_dom:
  assumes "adpf_post a we now a' we'" and "dom (eng_view we) \<subseteq> D"
  shows "dom (eng_view we') \<subseteq> D - {''adpf''} \<union> adpf_may (mSuppressed a')"
    and "mSuppressed a' \<Longrightarrow> mApplied a' = 0"
proof -
  have ap: "mApplied a' = global_level a'" "adpf_sys a' we'"
    and none: "mApplied a' = 0 \<Longrightarrow> eng_view we' ''adpf'' = None"
    and other: "\<And>src. src \<noteq> ''adpf'' \<Longrightarrow> eng_view we' src = eng_view we src \<or> eng_view we' src = spec_expire now (eng_view we) src"
    using assms(1) by (auto simp: adpf_post_def)
  show z: "mApplied a' = 0" if "mSuppressed a'" using that ap by (simp add: global_level_def)
  show "dom (eng_view we') \<subseteq> D - {''adpf''} \<union> adpf_may (mSuppressed a')"
  proof
    fix src assume "src \<in> dom (eng_view we')"
    then obtain r where r: "eng_view we' src = Some r" by blast
    show "src \<in> D - {''adpf''} \<union> adpf_may (mSuppressed a')"
    proof (cases "src = ''adpf''")
      case True
      then have "\<not> mSuppressed a'" using r none z by auto
      then show ?thesis using True by (simp add: adpf_may_def)
    next
      case False
      then have "src \<in> dom (eng_view we)"
        using other [OF False] r dom_expire [of now "eng_view we"] by (metis domI subsetD)
      then show ?thesis using False assms(2) by auto
    qed
  qed
qed

lemma session_op_inv:
  assumes "power_inv p" and "(a = pw_adpf p \<and> we = pw_engine p) \<or> adpf_post (pw_adpf p) (pw_engine p) now a we"
    and "mSuppressed a = mSuppressed (pw_adpf p)"
  shows "power_inv (p\<lparr>pw_adpf := a, pw_engine := we\<rparr>)"
proof -
  obtain D where D: "dom (eng_view (pw_engine p)) \<subseteq> D" "adpf_may (mSuppressed (pw_adpf p)) \<subseteq> D"
    "pend_ok (pw_flags p) (pw_pending p) (mSuppressed (pw_adpf p)) D"
    using assms(1) by (auto simp: power_inv_def)
  from assms(2) show ?thesis
  proof
    assume "a = pw_adpf p \<and> we = pw_engine p"
    then show ?thesis using assms(1) by simp
  next
    assume post: "adpf_post (pw_adpf p) (pw_engine p) now a we"
    have "dom (eng_view we) \<subseteq> D" using adpf_post_dom(1) [OF post D(1)] D(2) assms(3) by auto
    then show ?thesis
      using post adpf_post_dom(2) [OF post D(1)] D assms(3)
      by (intro power_invI [of _ D]) (auto simp: adpf_post_def)
  qed
qed

lemma adpf_sys_engine:
  "adpf_sys a we \<Longrightarrow> eng_valid we' \<Longrightarrow> (eng_view we ''adpf'' = None \<Longrightarrow> eng_view we' ''adpf'' = None) \<Longrightarrow> adpf_sys a we'"
  by (auto simp: adpf_sys_def)

lemma engine_call_inv:
  assumes "power_inv p" and "pw_pending p = c # cs" and "eng_valid we"
    and "eng_view (pw_engine p) ''adpf'' = None \<Longrightarrow> eng_view we ''adpf'' = None"
    and "\<And>D. dom (eng_view (pw_engine p)) \<subseteq> D \<Longrightarrow> adpf_may (mSuppressed (pw_adpf p)) \<subseteq> D \<Longrightarrow>
      pend_ok (pw_flags p) (c # cs) (mSuppressed (pw_adpf p)) D \<Longrightarrow>
      \<exists>D'. dom (eng_view we) \<subseteq> D' \<and> adpf_may (mSuppressed (pw_adpf p)) \<subseteq> D' \<and>
           pend_ok (pw_flags p) cs (mSuppressed (pw_adpf p)) D'"
  shows "power_inv (p\<lparr>pw_pending := cs, pw_adpf := pw_adpf p, pw_engine := we\<rparr>)"
  using assms adpf_sys_engine [of "pw_adpf p" "pw_engine p" we]
  unfolding power_inv_def by auto

lemma run_call_inv:
  assumes inv: "power_inv p" and pend: "pw_pending p = c # cs"
    and run: "run_call fs now c (pw_adpf p) (pw_engine p) = (a, we)"
  shows "power_inv (p\<lparr>pw_pending := cs, pw_adpf := a, pw_engine := we\<rparr>)"
proof -
  have sys: "adpf_sys (pw_adpf p) (pw_engine p)" and v: "eng_valid (pw_engine p)"
    using inv by (auto simp: power_inv_def adpf_sys_def)
  show ?thesis
  proof (cases c)
    case (ClearRequest src)
    then have eq: "a = pw_adpf p" "we = eng_clear fs src now (pw_engine p)" using run by (auto simp: run_call_def)
    show ?thesis unfolding eq(1)
    proof (rule engine_call_inv [OF inv pend])
      fix D assume "dom (eng_view (pw_engine p)) \<subseteq> D" "pend_ok (pw_flags p) (c # cs) (mSuppressed (pw_adpf p)) D"
      then show "\<exists>D'. dom (eng_view we) \<subseteq> D' \<and> adpf_may (mSuppressed (pw_adpf p)) \<subseteq> D' \<and>
          pend_ok (pw_flags p) cs (mSuppressed (pw_adpf p)) D'"
        using ClearRequest eng.dom_clear [OF v, of fs src now]
        unfolding eq(2)
        by (intro exI [of _ "D - {src} \<union> adpf_may (mSuppressed (pw_adpf p))"] conjI) (blast, blast, simp)
    qed (use eq eng.valid_clear [OF v] eng.view_clear [OF v] in \<open>auto simp: spec_clear_def spec_expire_def\<close>)
  next
    case ClearAll
    then have eq: "a = pw_adpf p" "we = eng_clear_all fs now (pw_engine p)" using run by (auto simp: run_call_def)
    show ?thesis unfolding eq(1)
    proof (rule engine_call_inv [OF inv pend])
      fix D assume "pend_ok (pw_flags p) (c # cs) (mSuppressed (pw_adpf p)) D"
      then show "\<exists>D'. dom (eng_view we) \<subseteq> D' \<and> adpf_may (mSuppressed (pw_adpf p)) \<subseteq> D' \<and>
          pend_ok (pw_flags p) cs (mSuppressed (pw_adpf p)) D'"
        using ClearAll eng.dom_clear_all [OF v, of fs now] unfolding eq(2) by auto
    qed (use eq eng.valid_clear_all [OF v] eng.view_clear_all [OF v] in auto)
  next
    case (DoPulse n d)
    then have eq: "a = pw_adpf p" "we = eng_pulse fs n d (pw_engine p)" using run by (auto simp: run_call_def)
    show ?thesis unfolding eq(1)
    proof (rule engine_call_inv [OF inv pend])
      fix D assume "dom (eng_view (pw_engine p)) \<subseteq> D" "adpf_may (mSuppressed (pw_adpf p)) \<subseteq> D"
        "pend_ok (pw_flags p) (c # cs) (mSuppressed (pw_adpf p)) D"
      then show "\<exists>D'. dom (eng_view we) \<subseteq> D' \<and> adpf_may (mSuppressed (pw_adpf p)) \<subseteq> D' \<and>
          pend_ok (pw_flags p) cs (mSuppressed (pw_adpf p)) D'"
        using DoPulse eng.view_pulse [OF v, of fs n d] eq by (intro exI [of _ D]) simp
    qed (use eq eng.valid_pulse [OF v] eng.view_pulse [OF v] in auto)
  next
    case (SetRequest src vals ms ext)
    then have eq: "a = pw_adpf p" "we = eng_set fs src vals (now + ms * ns_per_ms) ext now (pw_engine p)"
      using run by (auto simp: run_call_def)
    have "src \<noteq> ''adpf''" using inv pend SetRequest by (auto simp: power_inv_def)
    show ?thesis unfolding eq(1)
    proof (rule engine_call_inv [OF inv pend])
      fix D assume "dom (eng_view (pw_engine p)) \<subseteq> D" "adpf_may (mSuppressed (pw_adpf p)) \<subseteq> D"
        "pend_ok (pw_flags p) (c # cs) (mSuppressed (pw_adpf p)) D"
      then show "\<exists>D'. dom (eng_view we) \<subseteq> D' \<and> adpf_may (mSuppressed (pw_adpf p)) \<subseteq> D' \<and>
          pend_ok (pw_flags p) cs (mSuppressed (pw_adpf p)) D'"
        using SetRequest eng.dom_set [OF v, of fs src vals "now + ms * ns_per_ms" ext now]
        unfolding eq(2) by (intro exI [of _ "insert src D"] conjI) (blast, blast, simp)
    qed (use eq \<open>src \<noteq> ''adpf''\<close> eng.valid_set [OF v] eng.set_other [OF v] in \<open>auto simp: spec_expire_def\<close>)
  next
    case (SetSuppressed b)
    then have rc: "setSuppressed fs b now (pw_adpf p) (pw_engine p) = (a, we)" using run by (simp add: run_call_def)
    note post = setSuppressed_post [OF sys rc]
    obtain D where D: "dom (eng_view (pw_engine p)) \<subseteq> D"
      "pend_ok (pw_flags p) (c # cs) (mSuppressed (pw_adpf p)) D"
      using inv pend by (auto simp: power_inv_def)
    show ?thesis
      using adpf_post_dom [OF post(1) D(1)] post D(2) SetSuppressed
      by (intro power_invI [of _ "D - {''adpf''} \<union> adpf_may b"]) (auto simp: adpf_post_def)
  qed
qed

lemma power_inv_engine:
  assumes "power_inv p" and "eng_valid we" and "dom (eng_view we) \<subseteq> dom (eng_view (pw_engine p))"
  shows "power_inv (p\<lparr>pw_engine := we\<rparr>)"
proof -
  have none: "eng_view we ''adpf'' = None" if "eng_view (pw_engine p) ''adpf'' = None"
    using that assms(3) by (auto simp: dom_def)
  have "adpf_sys (pw_adpf p) (pw_engine p)" using assms(1) by (simp add: power_inv_def)
  then have "adpf_sys (pw_adpf p) we" using assms(2) none by (rule adpf_sys_engine)
  moreover obtain D where "dom (eng_view (pw_engine p)) \<subseteq> D" "adpf_may (mSuppressed (pw_adpf p)) \<subseteq> D"
    "pend_ok (pw_flags p) (pw_pending p) (mSuppressed (pw_adpf p)) D"
    using assms(1) by (auto simp: power_inv_def)
  ultimately show ?thesis
    using assms(1,3) by (intro power_invI [of _ D]) (auto simp: power_inv_def)
qed

lemma power_inv_adpf:
  assumes "power_inv p" and "adpf_sys a (pw_engine p)"
    and "mSuppressed a = mSuppressed (pw_adpf p)" and "mApplied a = mApplied (pw_adpf p)"
  shows "power_inv (p\<lparr>pw_adpf := a\<rparr>)"
  using assms unfolding power_inv_def by auto

lemma power_inv_handles: "power_inv (p\<lparr>pw_handles := hs\<rparr>) = power_inv p"
  by (simp add: power_inv_def)

lemma power_step_inv [inv_intros]:
  assumes "power_step an fs cfg p p'" and "power_inv p"
  shows "power_inv p'"
proof -
  have sys: "adpf_sys (pw_adpf p) (pw_engine p)" and v: "eng_valid (pw_engine p)"
    and z: "mSuppressed (pw_adpf p) \<longrightarrow> mApplied (pw_adpf p) = 0"
    using assms(2) by (auto simp: power_inv_def adpf_sys_def)
  obtain D where D: "dom (eng_view (pw_engine p)) \<subseteq> D" "adpf_may (mSuppressed (pw_adpf p)) \<subseteq> D"
    "pend_ok (pw_flags p) (pw_pending p) (mSuppressed (pw_adpf p)) D"
    using assms(2) by (auto simp: power_inv_def)
  from assms(1) show ?thesis
  proof cases
    case (mode ab type enabled f cs)
    then show ?thesis using D sys z setMode_pend_ok [OF _ D(2) mode(3)]
      by (intro power_invI [of _ D]) auto
  next
    case (boost ab type durationMs)
    then show ?thesis using D sys z setBoost_pend_ok [of "pw_flags p" "mSuppressed (pw_adpf p)" D]
      by (intro power_invI [of _ D]) auto
  next
    case (call c cs now a we)
    then show ?thesis using run_call_inv [OF assms(2)] by blast
  next
    case (create durationNanos now a h)
    then have "a = fst (adpf_open durationNanos now (pw_adpf p))"
      by (auto simp: createHintSession_def HintSession_ctor_def split: if_splits prod.splits)
    then have "power_inv (p\<lparr>pw_adpf := a\<rparr>)"
      using adpf_sys_open [OF sys] by (intro power_inv_adpf [OF assms(2)]) (auto simp: adpf_open_def Let_def)
    then show ?thesis using create(1) power_inv_handles [of _ "p\<lparr>pw_adpf := a\<rparr>"] by simp
  next
    case (target h ns)
    have "mSuppressed (setTarget sid ns a) = mSuppressed a" "mApplied (setTarget sid ns a) = mApplied a" for sid a
      by (auto simp: setTarget_def split: option.splits)
    then show ?thesis
      using target adpf_sys_setTarget [OF sys] by (auto simp: updateTargetWorkDuration_def intro!: power_inv_adpf [OF assms(2)])
  next
    case (report h ds now a we)
    then have "report fs (mId h) (map snd ds) now (pw_adpf p) (pw_engine p) = (a, we)"
      by (simp add: reportActualWorkDuration_def)
    from report_post [OF sys this] show ?thesis using report(1) session_op_inv [OF assms(2)] by blast
  next
    case (pause h now a we)
    then have "setPaused fs (mId h) True now (pw_adpf p) (pw_engine p) = (a, we)" by (simp add: session_pause_def)
    from setPaused_post [OF sys this] show ?thesis using pause(1) session_op_inv [OF assms(2)] by blast
  next
    case (resume h now a we)
    then have "setPaused fs (mId h) False now (pw_adpf p) (pw_engine p) = (a, we)" by (simp add: session_resume_def)
    from setPaused_post [OF sys this] show ?thesis using resume(1) session_op_inv [OF assms(2)] by blast
  next
    case (close hs1 h hs2 now h' a we)
    have "(a = pw_adpf p \<and> we = pw_engine p) \<or> adpf_close fs (mId h) now (pw_adpf p) (pw_engine p) = (a, we)"
      using close(3) by (auto simp: session_close_def split: if_splits)
    then have "power_inv (p\<lparr>pw_adpf := a, pw_engine := we\<rparr>)"
      using adpf_close_post [OF sys, of fs "mId h" now a we] session_op_inv [OF assms(2), of a we now] by auto
    then show ?thesis
      using close(1) power_inv_handles [of "hs1 @ h' # hs2" "p\<lparr>pw_adpf := a, pw_engine := we\<rparr>"] by simp
  next
    case (worker now w e wake)
    obtain w1 e1 n where ap: "applyLocked fs now (fst (pw_engine p)) (snd (pw_engine p)) = (w1, e1, n)"
      by (metis prod_cases3)
    have we: "w = w1" "e = e1\<lparr>mDirty := False\<rparr>" using worker(2) ap by (auto simp: loop_round_def)
    have "eng_valid (w, e)" "dom (eng_view (w, e)) \<subseteq> dom (eng_view (pw_engine p))"
      using applyLocked_view [OF v ap] dom_expire [of now "eng_view (pw_engine p)"] by (simp_all add: we)
    then show ?thesis unfolding worker(1) by (rule power_inv_engine [OF assms(2)])
  qed
qed

lemma power_main_inv [inv_intros]: "power_inv (Power_main fs cfg now w)"
proof -
  let ?we = "reset fs now w (Engine_ctor (cf_nodes cfg))"
  have nil: "mRequests (snd ?we) = []"
    by (auto simp: reset_def applyLocked_def live_requests_def Let_def split: prod.splits)
  have ctor: "mApplied (Adpf_ctor c) = 0" "mSuppressed (Adpf_ctor c) = False" for c
    by (simp_all add: Adpf_ctor_def)
  show ?thesis
    by (rule power_invI [of _ "{''adpf''}"])
      (auto simp: Power_main_def adpf_sys_def adpf_inv_ctor nil settled_def sources_def adpf_may_def ctor)
qed

lemma power_reachable_inv: "power_reachable an fs cfg p \<Longrightarrow> power_inv p"
  by (induction rule: power_reachable.induct) (auto intro: inv_intros)

section \<open>Properties of the service\<close>

text \<open>
  C2 (safety). Whatever the framework, the apps' hint sessions and the engine's worker do, in any
  interleaving: once a call under \<open>mLock\<close> has finished, a dark screen means that no request at
  all is in force, battery saver that only "launch" can be, and no "adpf" floor exists while
  either holds.
\<close>

theorem power_no_floor_when_idle:
  assumes "power_reachable an fs cfg p" and "pw_pending p = []"
  shows "(mScreenOff (pw_flags p) \<longrightarrow> mRequests (snd (pw_engine p)) = []) \<and>
    (mLowPower (pw_flags p) \<longrightarrow> fst ` set (mRequests (snd (pw_engine p))) \<subseteq> {''launch''}) \<and>
    fst ` set (mRequests (snd (pw_engine p))) \<subseteq> {''interaction'', ''fling'', ''launch'', ''adpf''} \<and>
    (mScreenOff (pw_flags p) \<or> mLowPower (pw_flags p) \<longrightarrow> mApplied (pw_adpf p) = 0)"
proof -
  have "power_inv p" using power_reachable_inv assms(1) by blast
  then obtain D where D: "dom (eng_view (pw_engine p)) \<subseteq> D" "settled (pw_flags p) (mSuppressed (pw_adpf p)) D"
    and z: "mSuppressed (pw_adpf p) \<longrightarrow> mApplied (pw_adpf p) = 0"
    using assms(2) by (auto simp: power_inv_def)
  have "fst ` set (mRequests (snd (pw_engine p))) = dom (eng_view (pw_engine p))"
    using mfind_None_iff [of "mRequests (snd (pw_engine p))"] by (auto simp: dom_def)
  then have keys: "fst ` set (mRequests (snd (pw_engine p))) \<subseteq> D" using D(1) by simp
  then show ?thesis using D(2) z by (auto simp: settled_def sources_def)
qed

definition demo_names :: aidl_names where
  "demo_names = \<lparr>modeName = (\<lambda>m. case m of LAUNCH \<Rightarrow> ''LAUNCH'' | INTERACTIVE \<Rightarrow> ''INTERACTIVE''
       | DISPLAY_INACTIVE \<Rightarrow> ''DISPLAY_INACTIVE'' | LOW_POWER \<Rightarrow> ''LOW_POWER'' | OtherMode _ \<Rightarrow> ''VR''),
     boostName = (\<lambda>b. case b of INTERACTION \<Rightarrow> ''INTERACTION'' | OtherBoost _ \<Rightarrow> ''ML_ACC'')\<rparr>"

theorem power_no_floor_when_idle_witness:
  "\<exists>p. power_reachable demo_names open_fs fleet_config p \<and> pw_pending p = [] \<and> mScreenOff (pw_flags p) \<and>
       mRequests (snd (pw_engine p)) = []"
proof -
  let ?p0 = "Power_main open_fs fleet_config 0 []"
  let ?f = "\<lparr>mScreenOff = True, mLowPower = False\<rparr>"
  let ?p1 = "?p0\<lparr>pw_flags := ?f, pw_pending := [ClearAll, SetSuppressed True]\<rparr>"
  have m: "setMode demo_names (sample_base []) fleet_config INTERACTIVE False (pw_flags ?p0) =
      (?f, [ClearAll, SetSuppressed True])"
    by (simp add: setMode_def demo_names_def fleet_config_def Power_main_def updateAdpfSuppression_def)
  have "pw_pending ?p0 = []" by (simp add: Power_main_def)
  from power_reachable.step [OF power_reachable.start power_step.mode [OF this m]]
  have r1: "power_reachable demo_names open_fs fleet_config ?p1" .
  obtain a2 we2 where c2: "run_call open_fs 1 ClearAll (pw_adpf ?p1) (pw_engine ?p1) = (a2, we2)" by (meson surj_pair)
  have "pw_pending ?p1 = ClearAll # [SetSuppressed True]" by simp
  from power_reachable.step [OF r1 power_step.call [OF this c2]]
  have r2: "power_reachable demo_names open_fs fleet_config
      (?p1\<lparr>pw_pending := [SetSuppressed True], pw_adpf := a2, pw_engine := we2\<rparr>)" (is "power_reachable _ _ _ ?p2") .
  obtain a3 we3 where c3: "run_call open_fs 2 (SetSuppressed True) (pw_adpf ?p2) (pw_engine ?p2) = (a3, we3)"
    by (meson surj_pair)
  have "pw_pending ?p2 = SetSuppressed True # []" by simp
  from power_reachable.step [OF r2 power_step.call [OF this c3]]
  have r3: "power_reachable demo_names open_fs fleet_config
      (?p2\<lparr>pw_pending := [], pw_adpf := a3, pw_engine := we3\<rparr>)" (is "power_reachable _ _ _ ?p3") .
  have "pw_pending ?p3 = []" "mScreenOff (pw_flags ?p3)" by simp_all
  then show ?thesis using r3 power_no_floor_when_idle [OF r3] by blast
qed

text \<open>
  In every reachable state, also in the middle of a call, the vector indices of
  \<open>Adpf\<close> are in range: a session's level and the applied level never exceed the number of
  configured levels, so \<open>levels[level - 1]\<close> and \<open>mLevelHits[level]\<close> exist; session ids are
  distinct and below \<open>mNextId\<close>.
\<close>

theorem adpf_indices_in_range:
  assumes "power_reachable an fs cfg p"
  shows "0 \<le> global_level (pw_adpf p) \<and>
    global_level (pw_adpf p) \<le> int (length (ac_levels (ad_config (pw_adpf p)))) \<and>
    nat (global_level (pw_adpf p)) < length (mLevelHits (pw_adpf p)) \<and>
    distinct (map fst (mSessions (pw_adpf p))) \<and>
    (\<forall>(sid, s) \<in> set (mSessions (pw_adpf p)). sid < mNextId (pw_adpf p) \<and> 0 \<le> ss_level s \<and>
       ss_level s \<le> int (length (ac_levels (ad_config (pw_adpf p)))))"
proof -
  have inv: "adpf_inv (pw_adpf p)"
    using power_reachable_inv [OF assms] by (simp add: power_inv_def adpf_sys_def)
  then show ?thesis
    using global_level_bounds [OF inv] msorted_distinct by (auto simp: adpf_inv_def)
qed

theorem adpf_indices_in_range_witness:
  "nat (global_level (pw_adpf (Power_main open_fs fleet_config 0 []))) <
   length (mLevelHits (pw_adpf (Power_main open_fs fleet_config 0 [])))"
  using adpf_indices_in_range [OF power_reachable.start [of demo_names open_fs fleet_config 0 "[]"]] by blast

text \<open>The engine's view through a run of pulses.\<close>

lemma run_pulses:
  assumes "eng_valid we"
  shows "\<exists>we'. run_calls fs clk i (map (\<lambda>p. DoPulse p d) ps @ cs) a we = run_calls fs clk (i + length ps) cs a we' \<and>
    eng_valid we' \<and> eng_view we' = eng_view we"
  using assms
proof (induction ps arbitrary: we i)
  case (Cons p ps)
  let ?we = "eng_pulse fs p d we"
  have "eng_valid ?we" "eng_view ?we = eng_view we"
    using eng.valid_pulse [OF Cons.prems] eng.view_pulse [OF Cons.prems] by auto
  then show ?case using Cons.IH [of ?we "Suc i"] by (simp add: run_call_def)
next
  case Nil
  then show ?case by (intro exI [of _ we]) simp
qed

text \<open>A request that extends: at least as long as asked, and as long as the running one.\<close>

lemma spec_set_extend:
  "now < until \<Longrightarrow> \<exists>u. spec_set src v until True now m src = Some \<lparr>rq_values = v, rq_until = u\<rparr> \<and> until \<le> u \<and>
     (\<forall>r. m src = Some r \<and> now < rq_until r \<longrightarrow> rq_until r \<le> u)"
  by (intro exI [of _ "spec_until src until True now m"])
    (auto simp: spec_set_def spec_expire_def spec_until_def split: option.splits)

text \<open>
  \<open>setMode(LAUNCH, true)\<close> with the screen on and "launch" not switched off: when
  the call returns, the engine holds the "launch" request with the configured values less the
  switched-off nodes, and its end is \<open>MaxMs\<close> after the time the call read, so a lost
  \<open>LAUNCH=false\<close> releases it. \<open>setMode(LAUNCH, false)\<close> removes it.
\<close>

theorem setMode_launch:
  assumes "eng_valid we" and "modeName an LAUNCH \<in> set (cf_modes cfg)"
    and "wf_config cfg" and "mfind (cf_requests cfg) ''launch'' = Some rc"
    and "setMode an ab cfg LAUNCH enabled f = (f', cs)" and "run_calls fs clk 0 cs a we = (a', we')"
  shows "f' = f \<and> a' = a \<and>
    (if enabled \<and> \<not> mScreenOff f \<and> ''launch'' \<notin> set (OffList ab)
     then \<exists>i. 0 < rc_maxMs rc \<and> mfind (mRequests (snd we')) ''launch'' =
            Some \<lparr>rq_values = Without (rc_set rc) (OffList ab), rq_until = clk i + rc_maxMs rc * ns_per_ms\<rparr>
     else mfind (mRequests (snd we')) ''launch'' = None)"
proof (cases "enabled \<and> \<not> mScreenOff f \<and> ''launch'' \<notin> set (OffList ab)")
  case True
  have pos: "0 < rc_maxMs rc"
    using assms(3,4) by (auto simp: wf_config_def wf_request_def dest: mfind_SomeD)
  have cs: "f' = f" "cs = launch_calls rc (OffList ab)"
    using True assms(2,4,5) by (simp_all add: setMode_def)
  define ps where "ps = filter (\<lambda>p. p \<notin> set (OffList ab)) (rc_pulse rc)"
  obtain we1 where r: "run_calls fs clk 0 cs a we = run_calls fs clk (0 + length ps)
      [SetRequest ''launch'' (Without (rc_set rc) (OffList ab)) (rc_maxMs rc) False] a we1"
    and v: "eng_valid we1"
    unfolding cs(2) launch_calls_def ps_def using run_pulses [OF assms(1)] by blast
  have "a' = a" "we' = eng_set fs ''launch'' (Without (rc_set rc) (OffList ab))
      (clk (length ps) + rc_maxMs rc * ns_per_ms) False (clk (length ps)) we1"
    using assms(6) r by (auto simp: run_call_def)
  then have "a' = a" "eng_view we' ''launch'' = Some \<lparr>rq_values = Without (rc_set rc) (OffList ab),
      rq_until = clk (length ps) + rc_maxMs rc * ns_per_ms\<rparr>"
    using pos eng.view_set [OF v]
    by (auto simp: spec_set_def spec_expire_def spec_until_def split: option.splits)
  then show ?thesis using True cs(1) pos by auto
next
  case False
  then have "f' = f" "cs = [ClearRequest ''launch'']" using assms(2,4,5) by (auto simp: setMode_def)
  then show ?thesis
    using False assms(6) eng.view_clear [OF assms(1)]
    by (auto simp: run_call_def spec_clear_def spec_expire_def)
qed

theorem setMode_launch_witness:
  "\<exists>a' we'. run_calls open_fs (\<lambda>_. 7) 0 [SetRequest ''launch'' [(''ia_boost'', ''1'')] 1500 False] (Adpf_ctor demo_adpf)
      ([], Engine_ctor (cf_nodes fleet_config)) = (a', we') \<and>
    mfind (mRequests (snd we')) ''launch'' = Some \<lparr>rq_values = [(''ia_boost'', ''1'')], rq_until = 1500000007\<rparr>"
proof -
  let ?we = "([], Engine_ctor (cf_nodes fleet_config)) :: (string, string) smap \<times> Engine"
  let ?f = "\<lparr>mScreenOff = False, mLowPower = False\<rparr>"
  let ?cs = "[SetRequest ''launch'' [(''ia_boost'', ''1'')] 1500 False]"
  let ?rc = "\<lparr>rc_holdMs = 0, rc_pulseMs = 0, rc_pulseMaxMs = 1000, rc_flingMinMs = 0, rc_maxMs = 1500,
    rc_ignoreZeroDuration = False, rc_pulse = [], rc_set = [(''ia_boost'', ''1'')]\<rparr>"
  obtain a' we' where r: "run_calls open_fs (\<lambda>_. 7) 0 ?cs (Adpf_ctor demo_adpf) ?we = (a', we')" by (meson surj_pair)
  have s: "setMode demo_names (sample_base []) fleet_config LAUNCH True ?f = (?f, ?cs)" by code_simp
  have off: "OffList (sample_base []) = []" by code_simp
  have v: "eng_valid ?we" "modeName demo_names LAUNCH \<in> set (cf_modes fleet_config)"
    "mfind (cf_requests fleet_config) ''launch'' = Some ?rc"
    by (simp_all add: Engine_ctor_def demo_names_def fleet_config_def mfind_def)
  have wf: "wf_config fleet_config" using ParseConfig_wf_config [OF fleet_power_json_parses] .
  show ?thesis
    using r setMode_launch [OF v(1,2) wf v(3) s r] by (simp add: off Without_def)
qed

text \<open>
  A supported interaction boost with the screen on, outside battery saver and with
  something to hold: the chosen source ("fling" for a positive duration when the device has one,
  "interaction" otherwise) holds its values at least for the asked and the configured duration,
  and never ends earlier than the hold that was running.
\<close>

theorem setBoost_holds:
  assumes "eng_valid we" and "boostName an INTERACTION \<in> set (cf_boosts cfg)"
    and "\<not> mScreenOff f" and "\<not> mLowPower f" and "boost_source cfg durationMs = (fling, source)"
    and "mfind (cf_requests cfg) source = Some rc" and "source \<notin> set (OffList ab)"
    and "0 < durationMs \<or> \<not> rc_ignoreZeroDuration rc" and "Without (rc_set rc) (OffList ab) \<noteq> []"
    and "run_calls fs clk 0 (setBoost an ab cfg INTERACTION durationMs f) a we = (a', we')"
    and "0 < (if fling then max durationMs (rc_flingMinMs rc) else max (rc_holdMs rc) durationMs)"
  shows "\<exists>i u. mfind (mRequests (snd we')) source = Some \<lparr>rq_values = Without (rc_set rc) (OffList ab), rq_until = u\<rparr> \<and>
    clk i + durationMs * ns_per_ms \<le> u \<and>
    clk i + (if fling then rc_flingMinMs rc else rc_holdMs rc) * ns_per_ms \<le> u \<and>
    (\<forall>r. mfind (mRequests (snd we)) source = Some r \<and> clk i < rq_until r \<longrightarrow> rq_until r \<le> u)"
proof -
  define hold where "hold = (if fling then max durationMs (rc_flingMinMs rc) else max (rc_holdMs rc) durationMs)"
  define vals where "vals = Without (rc_set rc) (OffList ab)"
  define ps where "ps = filter (\<lambda>p. p \<notin> set (OffList ab)) (rc_pulse rc)"
  define d where "d = clamp (if durationMs > 0 then durationMs else rc_pulseMs rc) 1 (rc_pulseMaxMs rc)"
  have "setBoost an ab cfg INTERACTION durationMs f = boost_calls rc (OffList ab) fling source durationMs"
    using assms(2-8) by (auto simp: setBoost_def Let_def)
  also have "\<dots> = map (\<lambda>p. DoPulse p d) ps @ [SetRequest source vals hold True]"
    using assms(9) by (auto simp: boost_calls_def Let_def ps_def d_def vals_def hold_def)
  finally have cs: "setBoost an ab cfg INTERACTION durationMs f = \<dots>" .
  obtain we1 where r: "run_calls fs clk 0 (setBoost an ab cfg INTERACTION durationMs f) a we =
      run_calls fs clk (0 + length ps) [SetRequest source vals hold True] a we1"
    and v: "eng_valid we1" "eng_view we1 = eng_view we"
    unfolding cs using run_pulses [OF assms(1)] by blast
  define i where "i = length ps"
  have "we' = eng_set fs source vals (clk i + hold * ns_per_ms) True (clk i) we1"
    using assms(10) r by (auto simp: run_call_def i_def)
  then have "eng_view we' = spec_set source vals (clk i + hold * ns_per_ms) True (clk i) (eng_view we)"
    using eng.view_set [OF v(1)] v(2) by simp
  moreover have pos: "0 < hold" using assms(11) by (simp add: hold_def)
  then have "clk i < clk i + hold * ns_per_ms" by simp
  ultimately obtain u where u: "eng_view we' source = Some \<lparr>rq_values = vals, rq_until = u\<rparr>"
      "clk i + hold * ns_per_ms \<le> u"
      "\<forall>r. eng_view we source = Some r \<and> clk i < rq_until r \<longrightarrow> rq_until r \<le> u"
    using spec_set_extend [of "clk i" "clk i + hold * ns_per_ms" source vals "eng_view we"] by metis
  have "durationMs \<le> hold" "(if fling then rc_flingMinMs rc else rc_holdMs rc) \<le> hold" by (auto simp: hold_def)
  then have "clk i + durationMs * ns_per_ms \<le> u"
    "clk i + (if fling then rc_flingMinMs rc else rc_holdMs rc) * ns_per_ms \<le> u"
    using u(2) by (auto simp: algebra_simps)
  then show ?thesis using u(1,3) unfolding vals_def by blast
qed

theorem setBoost_holds_witness:
  "\<exists>u a' we'. run_calls open_fs (\<lambda>i. 7) 0 (setBoost demo_names (sample_base []) fleet_config INTERACTION 0
        \<lparr>mScreenOff = False, mLowPower = False\<rparr>) (Adpf_ctor demo_adpf) ([], Engine_ctor (cf_nodes fleet_config)) = (a', we') \<and>
    mfind (mRequests (snd we')) ''interaction'' = Some \<lparr>rq_values = [(''hps'', ''4'')], rq_until = u\<rparr> \<and> 1000000007 \<le> u"
proof -
  let ?we = "([], Engine_ctor (cf_nodes fleet_config)) :: (string, string) smap \<times> Engine"
  let ?f = "\<lparr>mScreenOff = False, mLowPower = False\<rparr>"
  let ?rc = "\<lparr>rc_holdMs = 1000, rc_pulseMs = 80, rc_pulseMaxMs = 1000, rc_flingMinMs = 0, rc_maxMs = 0,
    rc_ignoreZeroDuration = False, rc_pulse = [''ia_pulse''], rc_set = [(''hps'', ''4'')]\<rparr>"
  obtain a' we' where r: "run_calls open_fs (\<lambda>i. 7) 0 (setBoost demo_names (sample_base []) fleet_config INTERACTION 0 ?f)
      (Adpf_ctor demo_adpf) ?we = (a', we')" by (meson surj_pair)
  have off: "OffList (sample_base []) = []" by code_simp
  have src: "boost_source fleet_config 0 = (False, ''interaction'')" by code_simp
  have v: "eng_valid ?we" "boostName demo_names INTERACTION \<in> set (cf_boosts fleet_config)"
    "mfind (cf_requests fleet_config) ''interaction'' = Some ?rc"
    by (simp_all add: Engine_ctor_def demo_names_def fleet_config_def mfind_def)
  show ?thesis
    using r setBoost_holds [OF v(1,2) _ _ src v(3) _ _ _ r] by (auto simp: off Without_def)
qed

end
