(* ===== verification/Thermal.thy ===== *)
theory Thermal
  imports Floats AndroidBase "HOL-Library.Word"
begin

text \<open>
  The thermal HAL (\<open>thermal/Thermal.h\<close>, \<open>Thermal.cpp\<close>): the sensor table, the zone lookup, a
  round of the poller, the queries and the callback registry.

  \<open>env\<close> is what the file system answers during one call: \<open>ev_read\<close> the contents of a file,
  \<open>ev_left\<close> what a failed \<open>ReadFileToString\<close> leaves in its output string, \<open>ev_access\<close> whether a
  path exists. A \<open>float\<close> is the rational it denotes, \<open>NAN\<close> is \<open>None\<close>; a severity is its number
  (0 is \<open>NONE\<close>). HIDL's \<open>interfacesEqual\<close> is the argument \<open>ieq\<close>, the callbacks are of an
  arbitrary type \<open>'c\<close>, a null callback is \<open>None\<close>.
\<close>

section \<open>Sensors\<close>

record env =
  ev_read :: "string \<Rightarrow> string option"
  ev_left :: "string \<Rightarrow> string"
  ev_access :: "string \<Rightarrow> bool"

datatype TemperatureType = CPU | BATTERY | SKIN | OtherTemperature nat

type_synonym severity = nat

definition kSeverities :: nat where "kSeverities = 7"

record Sensor =
  sn_zoneType :: string
  sn_name :: string
  sn_type :: TemperatureType
  sn_hot :: "rat option list"
  sn_tempPath :: string
  sn_lastSeverity :: severity

definition kSensors :: "Sensor list" where
  "kSensors = [
     \<lparr>sn_zoneType = ''mtktscpu'', sn_name = ''cpu'', sn_type = CPU,
      sn_hot = [None, None, None, Some 85, Some 100, None, None], sn_tempPath = [], sn_lastSeverity = 0\<rparr>,
     \<lparr>sn_zoneType = ''mtktsbattery'', sn_name = ''battery'', sn_type = BATTERY,
      sn_hot = [None, None, None, None, None, Some 60, None], sn_tempPath = [], sn_lastSeverity = 0\<rparr>,
     \<lparr>sn_zoneType = ''mtktsAP'', sn_name = ''skin'', sn_type = SKIN,
      sn_hot = [None, None, Some 45, None, None, Some 95, None], sn_tempPath = [], sn_lastSeverity = 0\<rparr>]"

text \<open>The loop of \<open>severityOf\<close>, from \<open>i\<close> down to 1.\<close>

fun severity_from :: "rat option list \<Rightarrow> rat \<Rightarrow> nat \<Rightarrow> severity" where
  "severity_from hot celsius 0 = 0"
| "severity_from hot celsius (Suc i) =
     (case hot ! Suc i of
        Some h \<Rightarrow> if celsius \<ge> h then Suc i else severity_from hot celsius i
      | None \<Rightarrow> severity_from hot celsius i)"

definition severityOf :: "Sensor \<Rightarrow> rat \<Rightarrow> severity" where
  "severityOf sensor celsius = severity_from (sn_hot sensor) celsius (kSeverities - 1)"

definition firstHot :: "Sensor \<Rightarrow> rat option" where
  "firstHot sensor =
     (case List.find (\<lambda>h. h \<noteq> None) (take (kSeverities - 1) (drop 1 (sn_hot sensor))) of
        None \<Rightarrow> None | Some h \<Rightarrow> h)"

section \<open>Zones and readings\<close>

definition zone_dir :: "nat \<Rightarrow> string" where
  "zone_dir zone = ''/sys/class/thermal/thermal_zone'' @ to_string (int zone) @ ''/''"

definition resolve_zone :: "android_base \<Rightarrow> env \<Rightarrow> nat \<Rightarrow> Sensor list \<Rightarrow> Sensor list" where
  "resolve_zone ab ev zone sensors =
     (case ev_read ev (zone_dir zone @ ''type'') of
        None \<Rightarrow> sensors
      | Some type \<Rightarrow>
          map (\<lambda>s. if sn_tempPath s = [] \<and> ab_Trim ab type = sn_zoneType s
                   then s\<lparr>sn_tempPath := zone_dir zone @ ''temp''\<rparr> else s) sensors)"

definition resolveZones :: "android_base \<Rightarrow> env \<Rightarrow> Sensor list \<Rightarrow> Sensor list" where
  "resolveZones ab ev sensors = fold (resolve_zone ab ev) [0..<32] sensors"

definition Thermal_ctor :: "android_base \<Rightarrow> env \<Rightarrow> Sensor list" where
  "Thermal_ctor ab ev = resolveZones ab ev kSensors"

text \<open>\<open>milli / 1000.0f\<close> in single precision.\<close>

definition milli_to_celsius :: "int \<Rightarrow> rat" where
  "milli_to_celsius milli = rnd 24 (to_float milli / 1000)"

definition readSensor :: "android_base \<Rightarrow> env \<Rightarrow> Sensor \<Rightarrow> rat option" where
  "readSensor ab ev sensor =
     (if sn_tempPath sensor = [] then None
      else case ev_read ev (sn_tempPath sensor) of
        None \<Rightarrow> None
      | Some text \<Rightarrow>
          (case ab_ParseInt ab (ab_Trim ab text) of
             None \<Rightarrow> None
           | Some milli \<Rightarrow> if milli < -40000 \<or> milli > 200000 then None
                           else Some (milli_to_celsius milli)))"

section \<open>The poller\<close>

record Temperature =
  t_type :: TemperatureType
  t_name :: string
  t_value :: rat
  t_severity :: severity

record 'c CallbackSetting =
  cb_callback :: 'c
  cb_is_filter_type :: bool
  cb_type :: TemperatureType

fun poll_sensors :: "android_base \<Rightarrow> env \<Rightarrow> Sensor list \<Rightarrow> Sensor list \<times> Temperature list" where
  "poll_sensors ab ev [] = ([], [])"
| "poll_sensors ab ev (s # ss) =
     (case poll_sensors ab ev ss of (ss', changed) \<Rightarrow>
      case readSensor ab ev s of
        None \<Rightarrow> (s # ss', changed)
      | Some celsius \<Rightarrow>
          let severity = severityOf s celsius in
          if severity \<noteq> sn_lastSeverity s
          then (s\<lparr>sn_lastSeverity := severity\<rparr> # ss',
                \<lparr>t_type = sn_type s, t_name = sn_name s, t_value = celsius, t_severity = severity\<rparr> # changed)
          else (s # ss', changed))"

text \<open>One round of \<open>pollLoop\<close>: the sensors and the calls of \<open>notifyThrottling\<close> in order.\<close>

definition poll_round :: "android_base \<Rightarrow> env \<Rightarrow> 'c CallbackSetting list \<Rightarrow> Sensor list \<Rightarrow>
    Sensor list \<times> ('c \<times> Temperature) list" where
  "poll_round ab ev callbacks sensors =
     (let sensors = (if \<exists>s \<in> set sensors. sn_tempPath s = [] then resolveZones ab ev sensors else sensors) in
      case poll_sensors ab ev sensors of (sensors, changed) \<Rightarrow>
        (sensors, concat (map (\<lambda>t. map (\<lambda>c. (cb_callback c, t))
           (filter (\<lambda>c. \<not> (cb_is_filter_type c \<and> cb_type c \<noteq> t_type t)) callbacks)) changed)))"

section \<open>Queries\<close>

datatype ThermalStatusCode = SUCCESS | FAILURE

type_synonym ThermalStatus = "ThermalStatusCode \<times> string"

record Temperature_1_0 =
  t1_type :: TemperatureType
  t1_name :: string
  t1_currentValue :: rat
  t1_throttlingThreshold :: "rat option"
  t1_shutdownThreshold :: "rat option"
  t1_vrThrottlingThreshold :: "rat option"

definition getTemperatures :: "android_base \<Rightarrow> env \<Rightarrow> Sensor list \<Rightarrow> ThermalStatus \<times> Temperature_1_0 list" where
  "getTemperatures ab ev sensors =
     ((SUCCESS, []), List.map_filter (\<lambda>s. case readSensor ab ev s of
        None \<Rightarrow> None
      | Some celsius \<Rightarrow> Some \<lparr>t1_type = sn_type s, t1_name = sn_name s, t1_currentValue = celsius,
          t1_throttlingThreshold = firstHot s, t1_shutdownThreshold = None,
          t1_vrThrottlingThreshold = None\<rparr>) sensors)"

record CpuUsage =
  cu_name :: string
  cu_active :: "64 word"
  cu_total :: "64 word"
  cu_isOnline :: bool

text \<open>The seven counters of a \<open>/proc/stat\<close> line; a field that does not parse stays 0.\<close>

definition stat_fields :: "android_base \<Rightarrow> string \<Rightarrow> 64 word list" where
  "stat_fields ab line =
     (let f = ab_Split ab (ab_Trim ab line) '' '' in
      map (\<lambda>i. if i + 1 < length f
               then (case ab_ParseUint ab (f ! (i + 1)) of None \<Rightarrow> 0 | Some v \<Rightarrow> of_nat v)
               else 0) [0..<7])"

definition cpu_usage :: "android_base \<Rightarrow> env \<Rightarrow> string list \<Rightarrow> nat \<Rightarrow> CpuUsage" where
  "cpu_usage ab ev lines cpu =
     (let dir = ''/sys/devices/system/cpu/cpu'' @ to_string (int cpu);
          online = (if cpu > 0 then
                      (case ev_read ev (dir @ ''/online'') of Some s \<Rightarrow> s | None \<Rightarrow> ev_left ev ''1'')
                    else ''1'');
          usage = \<lparr>cu_name = ''cpu'' @ to_string (int cpu), cu_active = 0, cu_total = 0,
                   cu_isOnline = (ab_Trim ab online = ''1'')\<rparr> in
      case List.find (\<lambda>line. ab_StartsWith ab line (''cpu'' @ to_string (int cpu) @ '' '')) lines of
        None \<Rightarrow> usage
      | Some line \<Rightarrow>
          let v = stat_fields ab line; active = v ! 0 + v ! 1 + v ! 2 + v ! 5 + v ! 6 in
          usage\<lparr>cu_active := active, cu_total := active + v ! 3 + v ! 4\<rparr>)"

definition getCpuUsages :: "android_base \<Rightarrow> env \<Rightarrow> ThermalStatus \<times> CpuUsage list" where
  "getCpuUsages ab ev =
     (case ev_read ev ''/proc/stat'' of
        None \<Rightarrow> ((FAILURE, ''Failed to read /proc/stat''), [])
      | Some stat \<Rightarrow>
          ((SUCCESS, []),
           map (cpu_usage ab ev (ab_Split ab stat [CHR 0x0A]))
             (takeWhile (\<lambda>cpu. ev_access ev (''/sys/devices/system/cpu/cpu'' @ to_string (int cpu))) [0..<16])))"

definition getCurrentTemperatures :: "android_base \<Rightarrow> env \<Rightarrow> bool \<Rightarrow> TemperatureType \<Rightarrow> Sensor list \<Rightarrow>
    ThermalStatus \<times> Temperature list" where
  "getCurrentTemperatures ab ev filterType type sensors =
     ((SUCCESS, []), List.map_filter (\<lambda>s.
        if filterType \<and> sn_type s \<noteq> type then None
        else case readSensor ab ev s of
          None \<Rightarrow> None
        | Some celsius \<Rightarrow> Some \<lparr>t_type = sn_type s, t_name = sn_name s, t_value = celsius,
                               t_severity = severityOf s celsius\<rparr>) sensors)"

record TemperatureThreshold =
  th_type :: TemperatureType
  th_name :: string
  th_hot :: "rat option list"
  th_cold :: "rat option list"
  th_vr :: "rat option"

definition getTemperatureThresholds :: "bool \<Rightarrow> TemperatureType \<Rightarrow> Sensor list \<Rightarrow>
    ThermalStatus \<times> TemperatureThreshold list" where
  "getTemperatureThresholds filterType type sensors =
     ((SUCCESS, []), List.map_filter (\<lambda>s.
        if filterType \<and> sn_type s \<noteq> type then None
        else if sn_tempPath s = [] then None
        else Some \<lparr>th_type = sn_type s, th_name = sn_name s,
                   th_hot = map (\<lambda>i. sn_hot s ! i) [0..<kSeverities],
                   th_cold = replicate kSeverities None, th_vr = None\<rparr>) sensors)"

definition getCoolingDevices :: "ThermalStatus \<times> unit list" where
  "getCoolingDevices = ((SUCCESS, []), [])"

definition getCurrentCoolingDevices :: "ThermalStatus \<times> unit list" where
  "getCurrentCoolingDevices = ((SUCCESS, []), [])"

section \<open>Callbacks\<close>

definition registerThermalChangedCallback :: "('c \<Rightarrow> 'c \<Rightarrow> bool) \<Rightarrow> 'c option \<Rightarrow> bool \<Rightarrow> TemperatureType \<Rightarrow>
    'c CallbackSetting list \<Rightarrow> ThermalStatus \<times> 'c CallbackSetting list" where
  "registerThermalChangedCallback ieq callback filterType type callbacks =
     (case callback of
        None \<Rightarrow> ((FAILURE, ''Invalid nullptr callback''), callbacks)
      | Some cb \<Rightarrow>
          if \<exists>c \<in> set callbacks. ieq (cb_callback c) cb
          then ((FAILURE, ''Same callback interface registered already''), callbacks)
          else ((SUCCESS, []),
                callbacks @ [\<lparr>cb_callback = cb, cb_is_filter_type = filterType, cb_type = type\<rparr>]))"

definition unregisterThermalChangedCallback :: "('c \<Rightarrow> 'c \<Rightarrow> bool) \<Rightarrow> 'c option \<Rightarrow>
    'c CallbackSetting list \<Rightarrow> ThermalStatus \<times> 'c CallbackSetting list" where
  "unregisterThermalChangedCallback ieq callback callbacks =
     (case callback of
        None \<Rightarrow> ((FAILURE, ''Invalid nullptr callback''), callbacks)
      | Some cb \<Rightarrow>
          (if \<exists>c \<in> set callbacks. ieq (cb_callback c) cb then (SUCCESS, [])
           else (FAILURE, ''The callback was not registered before''),
           filter (\<lambda>c. \<not> ieq (cb_callback c) cb) callbacks))"

section \<open>Severities are exact\<close>

text \<open>
  The rounding in \<open>milli / 1000.0f\<close> never moves a reading across a threshold: below 256 degrees the
  spacing of floats is 2^-16, far finer than a millidegree.
\<close>

lemma milli_to_celsius_mono: "m \<le> n \<Longrightarrow> milli_to_celsius m \<le> milli_to_celsius n"
  unfolding milli_to_celsius_def by (intro rnd_mono divide_right_mono) (auto intro: rnd_mono)

lemma milli_to_celsius_threshold:
  assumes "milli_to_celsius (1000 * h) = of_int h" and "milli_to_celsius (1000 * h - 1) < of_int h"
  shows "milli_to_celsius milli \<ge> of_int h \<longleftrightarrow> milli \<ge> 1000 * h"
proof
  assume a: "milli_to_celsius milli \<ge> of_int h"
  show "milli \<ge> 1000 * h"
  proof (rule ccontr)
    assume "\<not> milli \<ge> 1000 * h"
    then have "milli_to_celsius milli \<le> milli_to_celsius (1000 * h - 1)"
      by (intro milli_to_celsius_mono) auto
    then show False using a assms(2) by linarith
  qed
qed (use milli_to_celsius_mono [of "1000 * h" milli] assms(1) in auto)

lemma thresholds_exact:
  "milli_to_celsius m \<ge> 85 \<longleftrightarrow> m \<ge> 85000" "milli_to_celsius m \<ge> 100 \<longleftrightarrow> m \<ge> 100000"
  "milli_to_celsius m \<ge> 60 \<longleftrightarrow> m \<ge> 60000" "milli_to_celsius m \<ge> 45 \<longleftrightarrow> m \<ge> 45000"
  "milli_to_celsius m \<ge> 95 \<longleftrightarrow> m \<ge> 95000"
proof -
  have e: "milli_to_celsius (1000 * 85) = of_int 85" "milli_to_celsius (1000 * 85 - 1) < of_int 85"
    "milli_to_celsius (1000 * 100) = of_int 100" "milli_to_celsius (1000 * 100 - 1) < of_int 100"
    "milli_to_celsius (1000 * 60) = of_int 60" "milli_to_celsius (1000 * 60 - 1) < of_int 60"
    "milli_to_celsius (1000 * 45) = of_int 45" "milli_to_celsius (1000 * 45 - 1) < of_int 45"
    "milli_to_celsius (1000 * 95) = of_int 95" "milli_to_celsius (1000 * 95 - 1) < of_int 95"
    by code_simp+
  show "milli_to_celsius m \<ge> 85 \<longleftrightarrow> m \<ge> 85000" "milli_to_celsius m \<ge> 100 \<longleftrightarrow> m \<ge> 100000"
    "milli_to_celsius m \<ge> 60 \<longleftrightarrow> m \<ge> 60000" "milli_to_celsius m \<ge> 45 \<longleftrightarrow> m \<ge> 45000"
    "milli_to_celsius m \<ge> 95 \<longleftrightarrow> m \<ge> 95000"
    using milli_to_celsius_threshold [OF e(1,2), of m] milli_to_celsius_threshold [OF e(3,4), of m]
      milli_to_celsius_threshold [OF e(5,6), of m] milli_to_celsius_threshold [OF e(7,8), of m]
      milli_to_celsius_threshold [OF e(9,10), of m] by simp_all
qed

lemma severity_from_Max:
  "severity_from hot c n = Max (insert 0 {i. 1 \<le> i \<and> i \<le> n \<and> (\<exists>h. hot ! i = Some h \<and> h \<le> c)})"
proof (induction n)
  case (Suc n)
  let ?A = "\<lambda>n. {i. 1 \<le> i \<and> i \<le> n \<and> (\<exists>h. hot ! i = Some h \<and> h \<le> c)}"
  have fin: "finite (?A n)" for n by simp
  show ?case
  proof (cases "\<exists>h. hot ! Suc n = Some h \<and> h \<le> c")
    case True
    then have eq: "?A (Suc n) = insert (Suc n) (?A n)" by (auto simp: le_Suc_eq)
    have "Max (insert 0 (?A (Suc n))) = Suc n"
      unfolding eq by (rule Max_eqI) (use fin in auto)
    then show ?thesis using True by auto
  next
    case False
    then have "?A (Suc n) = ?A n" by (auto simp: le_Suc_eq)
    then show ?thesis using False Suc.IH by (auto split: option.splits)
  qed
next
  case 0
  have "{i :: nat. 1 \<le> i \<and> i \<le> 0 \<and> (\<exists>h. hot ! i = Some h \<and> h \<le> c)} = {}" by auto
  then show ?case by (simp only: severity_from.simps Max_singleton)
qed

text \<open>The fixed part of the sensor table.\<close>

definition sensor_consts :: "Sensor \<Rightarrow> string \<times> string \<times> TemperatureType \<times> rat option list" where
  "sensor_consts s = (sn_zoneType s, sn_name s, sn_type s, sn_hot s)"

definition sensor_table :: "Sensor list \<Rightarrow> bool" where
  "sensor_table ss \<longleftrightarrow> map sensor_consts ss = map sensor_consts kSensors"

section \<open>Zone lookup, sensor by sensor\<close>

definition zone_match :: "android_base \<Rightarrow> env \<Rightarrow> Sensor \<Rightarrow> nat \<Rightarrow> bool" where
  "zone_match ab ev s zone \<longleftrightarrow>
     (case ev_read ev (zone_dir zone @ ''type'') of None \<Rightarrow> False | Some type \<Rightarrow> ab_Trim ab type = sn_zoneType s)"

definition resolve_sensor :: "android_base \<Rightarrow> env \<Rightarrow> Sensor \<Rightarrow> Sensor" where
  "resolve_sensor ab ev s =
     (if sn_tempPath s \<noteq> [] then s
      else case List.find (zone_match ab ev s) [0..<32] of
        None \<Rightarrow> s | Some zone \<Rightarrow> s\<lparr>sn_tempPath := zone_dir zone @ ''temp''\<rparr>)"

lemma resolve_zone_map:
  "resolve_zone ab ev zone ss =
     map (\<lambda>s. if sn_tempPath s = [] \<and> zone_match ab ev s zone
              then s\<lparr>sn_tempPath := zone_dir zone @ ''temp''\<rparr> else s) ss"
  by (auto simp: resolve_zone_def zone_match_def split: option.splits intro: map_idI [symmetric])

lemma resolve_zones_fold:
  "fold (resolve_zone ab ev) zs ss =
     map (\<lambda>s. if sn_tempPath s \<noteq> [] then s
              else case List.find (zone_match ab ev s) zs of
                None \<Rightarrow> s | Some zone \<Rightarrow> s\<lparr>sn_tempPath := zone_dir zone @ ''temp''\<rparr>) ss"
proof (induction zs arbitrary: ss)
  case Nil
  show ?case by (simp add: map_idI)
next
  case (Cons z zs)
  have "zone_match ab ev (s\<lparr>sn_tempPath := p\<rparr>) = zone_match ab ev s" for s p
    by (simp add: zone_match_def fun_eq_iff split: option.splits)
  then show ?case unfolding fold_simps Cons.IH by (simp add: resolve_zone_map)
qed

lemma resolveZones_map: "resolveZones ab ev ss = map (resolve_sensor ab ev) ss"
  by (simp add: resolveZones_def resolve_zones_fold resolve_sensor_def)

lemma resolve_sensor_consts [simp]: "sensor_consts (resolve_sensor ab ev s) = sensor_consts s"
  by (simp add: resolve_sensor_def sensor_consts_def split: option.splits)

lemma resolve_sensor_last: "sn_lastSeverity (resolve_sensor ab ev s) = sn_lastSeverity s"
  by (simp add: resolve_sensor_def split: option.splits)

lemma resolve_sensor_again:
  "resolve_sensor ab ev ((resolve_sensor ab ev s)\<lparr>sn_lastSeverity := v\<rparr>) = (resolve_sensor ab ev s)\<lparr>sn_lastSeverity := v\<rparr>"
proof -
  have m: "zone_match ab ev (s\<lparr>sn_lastSeverity := v\<rparr>) = zone_match ab ev s"
    by (simp add: zone_match_def fun_eq_iff split: option.splits)
  show ?thesis by (simp add: resolve_sensor_def m split: option.splits)
qed

section \<open>The poller, sensor by sensor\<close>

definition polled :: "android_base \<Rightarrow> env \<Rightarrow> Sensor \<Rightarrow> Sensor" where
  "polled ab ev s = (case readSensor ab ev s of None \<Rightarrow> s | Some v \<Rightarrow> s\<lparr>sn_lastSeverity := severityOf s v\<rparr>)"

definition change_of :: "android_base \<Rightarrow> env \<Rightarrow> Sensor \<Rightarrow> Temperature option" where
  "change_of ab ev s =
     (case readSensor ab ev s of
        None \<Rightarrow> None
      | Some v \<Rightarrow> if severityOf s v = sn_lastSeverity s then None
                  else Some \<lparr>t_type = sn_type s, t_name = sn_name s, t_value = v, t_severity = severityOf s v\<rparr>)"

lemma poll_sensors_map:
  "poll_sensors ab ev ss = (map (polled ab ev) ss, List.map_filter (change_of ab ev) ss)"
  by (induction ss)
    (auto simp: polled_def change_of_def Let_def map_filter_simps split: option.splits)

lemma readSensor_last [simp]: "readSensor ab ev (s\<lparr>sn_lastSeverity := v\<rparr>) = readSensor ab ev s"
  by (simp add: readSensor_def)

lemma severityOf_last [simp]: "severityOf (s\<lparr>sn_lastSeverity := v\<rparr>) c = severityOf s c"
  by (simp add: severityOf_def)

lemma polled_again: "polled ab ev (polled ab ev s) = polled ab ev s" "change_of ab ev (polled ab ev s) = None"
  by (auto simp: polled_def change_of_def split: option.splits)

lemma polled_consts [simp]: "sensor_consts (polled ab ev s) = sensor_consts s"
  by (simp add: polled_def sensor_consts_def split: option.splits)

lemma resolve_polled:
  "resolve_sensor ab ev (polled ab ev (resolve_sensor ab ev s)) = polled ab ev (resolve_sensor ab ev s)"
proof -
  have "(resolve_sensor ab ev s)\<lparr>sn_lastSeverity := sn_lastSeverity s\<rparr> = resolve_sensor ab ev s"
    by (simp flip: resolve_sensor_last [where ab = ab and ev = ev and s = s])
  then show ?thesis
    using resolve_sensor_again [where ab = ab and ev = ev and s = s]
    by (auto simp: polled_def split: option.splits) metis
qed

lemma sensor_table_poll [inv_intros]:
  "sensor_table ss \<Longrightarrow> poll_round ab ev cbs ss = (ss', calls) \<Longrightarrow> sensor_table ss'"
  by (auto simp: sensor_table_def poll_round_def resolveZones_map poll_sensors_map Let_def comp_def split: if_splits)

lemma sensor_table_ctor [inv_intros]: "sensor_table (Thermal_ctor ab ev)"
  by (simp add: sensor_table_def Thermal_ctor_def resolveZones_map comp_def)

section \<open>Properties of the thermal HAL\<close>

text \<open>
  C9 (functional). Throttling severity: for every sensor of the table and every reading, the float
  comparison gives the highest severity whose threshold the integer reading has reached.
\<close>

theorem severity_exact:
  assumes "sensor_table ss" and "s \<in> set ss"
  shows "severityOf s (milli_to_celsius milli) =
    Max (insert 0 {i. 1 \<le> i \<and> i \<le> 6 \<and> (\<exists>h. sn_hot s ! i = Some h \<and> 1000 * h \<le> of_int milli)})"
proof -
  have "sensor_consts s \<in> set (map sensor_consts kSensors)"
    using assms by (metis image_eqI set_map sensor_table_def)
  then have hots: "sn_hot s \<in> sn_hot ` set kSensors" by (auto simp: sensor_consts_def)
  have scale: "1000 * of_int k \<le> (of_int milli :: rat) \<longleftrightarrow> 1000 * k \<le> milli" for k
    by (metis of_int_le_iff of_int_mult of_int_numeral)
  have cmp: "h \<le> milli_to_celsius milli \<longleftrightarrow> 1000 * h \<le> of_int milli"
    if "h \<in> {85, 100, 60, 45, 95}" for h :: rat
    using that thresholds_exact [of milli] scale [of 85] scale [of 100] scale [of 60] scale [of 45] scale [of 95]
    by auto
  have "h \<in> {85, 100, 60, 45, 95}" if "i \<le> 6" "sn_hot s ! i = Some h" for i h
  proof -
    have "i \<in> {0, 1, 2, 3, 4, 5, 6}" using that(1) by auto
    then show ?thesis using hots that(2) by (auto simp: kSensors_def)
  qed
  then have "{i. 1 \<le> i \<and> i \<le> 6 \<and> (\<exists>h. sn_hot s ! i = Some h \<and> h \<le> milli_to_celsius milli)} =
     {i. 1 \<le> i \<and> i \<le> 6 \<and> (\<exists>h. sn_hot s ! i = Some h \<and> 1000 * h \<le> of_int milli)}"
    using cmp by blast
  then show ?thesis by (simp add: severityOf_def severity_from_Max kSeverities_def)
qed

theorem severity_exact_witness:
  "severityOf (hd kSensors) (milli_to_celsius 99999) =
    Max (insert 0 {i. 1 \<le> i \<and> i \<le> 6 \<and> (\<exists>h. sn_hot (hd kSensors) ! i = Some h \<and> 1000 * h \<le> of_int 99999)}) \<and>
   severityOf (hd kSensors) (milli_to_celsius 99999) = 3"
proof -
  have "sensor_table kSensors" "hd kSensors \<in> set kSensors" by (simp_all add: sensor_table_def kSensors_def)
  moreover have "severityOf (hd kSensors) (milli_to_celsius 99999) = 3" by code_simp
  ultimately show ?thesis using severity_exact [of kSensors "hd kSensors" 99999] by blast
qed

text \<open>
  C10 (functional). A poll round: zones that appeared are picked up, every readable sensor ends with
  the severity of its reading, a callback is notified of exactly the sensors whose severity
  changed and whose type it asked for, and a second round on the same readings notifies nobody.
\<close>

theorem poll_round_notifies:
  assumes "poll_round ab ev cbs ss = (ss', calls)"
  shows "(\<forall>s \<in> set ss'. \<forall>v. readSensor ab ev s = Some v \<longrightarrow> sn_lastSeverity s = severityOf s v) \<and>
    (\<forall>cb t. (cb, t) \<in> set calls \<longleftrightarrow>
       (\<exists>c \<in> set cbs. \<exists>s \<in> set (resolveZones ab ev ss). \<exists>v. cb = cb_callback c \<and>
          (cb_is_filter_type c \<longrightarrow> cb_type c = sn_type s) \<and> readSensor ab ev s = Some v \<and>
          severityOf s v \<noteq> sn_lastSeverity s \<and>
          t = \<lparr>t_type = sn_type s, t_name = sn_name s, t_value = v, t_severity = severityOf s v\<rparr>)) \<and>
    poll_round ab ev cbs ss' = (ss', [])"
proof -
  define rs where "rs = resolveZones ab ev ss"
  have id: "resolve_sensor ab ev s = s" if "sn_tempPath s \<noteq> []" for s using that by (simp add: resolve_sensor_def)
  have rs: "(if \<exists>s \<in> set ss. sn_tempPath s = [] then resolveZones ab ev ss else ss) = rs"
    by (auto simp: rs_def resolveZones_map id intro: map_idI [symmetric])
  have r: "ss' = map (polled ab ev) rs"
    "calls = concat (map (\<lambda>t. map (\<lambda>c. (cb_callback c, t))
        (filter (\<lambda>c. \<not> (cb_is_filter_type c \<and> cb_type c \<noteq> t_type t)) cbs)) (List.map_filter (change_of ab ev) rs))"
    using assms unfolding poll_round_def Let_def rs poll_sensors_map by auto
  have 1: "\<forall>s \<in> set ss'. \<forall>v. readSensor ab ev s = Some v \<longrightarrow> sn_lastSeverity s = severityOf s v"
    by (auto simp: r(1) polled_def split: option.splits)
  have ch: "t \<in> set (List.map_filter (change_of ab ev) rs) \<longleftrightarrow> (\<exists>s \<in> set rs. \<exists>v. readSensor ab ev s = Some v \<and>
      severityOf s v \<noteq> sn_lastSeverity s \<and>
      t = \<lparr>t_type = sn_type s, t_name = sn_name s, t_value = v, t_severity = severityOf s v\<rparr>)" for t
    by (auto simp: in_map_filter change_of_def split: option.splits if_splits)
  have 2: "(cb, t) \<in> set calls \<longleftrightarrow> (\<exists>c \<in> set cbs. cb = cb_callback c \<and>
      (cb_is_filter_type c \<longrightarrow> cb_type c = t_type t) \<and> t \<in> set (List.map_filter (change_of ab ev) rs))" for cb t
    by (auto simp: r(2))
  have "map (resolve_sensor ab ev) ss' = ss'"
    by (simp add: r(1) rs_def resolveZones_map resolve_polled)
  then have "(if \<exists>s \<in> set ss'. sn_tempPath s = [] then resolveZones ab ev ss' else ss') = ss'"
    by (simp add: resolveZones_map)
  moreover have "poll_sensors ab ev ss' = (ss', [])"
    by (simp add: poll_sensors_map r(1) polled_again List.map_filter_def comp_def)
  ultimately have 3: "poll_round ab ev cbs ss' = (ss', [])" by (simp add: poll_round_def Let_def)
  show ?thesis using 1 3 unfolding 2 ch rs_def [symmetric] by fastforce
qed

definition demo_env :: env where
  "demo_env = \<lparr>ev_read = mfind [(''/sys/class/thermal/thermal_zone1/type'', ''mtktscpu''),
       (''/sys/class/thermal/thermal_zone1/temp'', ''86000'')],
     ev_left = (\<lambda>_. []), ev_access = (\<lambda>_. False)\<rparr>"

theorem poll_round_notifies_witness:
  "\<exists>ss'. poll_round (sample_base []) demo_env [\<lparr>cb_callback = (), cb_is_filter_type = False, cb_type = CPU\<rparr>] kSensors =
      (ss', [((), \<lparr>t_type = CPU, t_name = ''cpu'', t_value = 86, t_severity = 3\<rparr>)]) \<and>
    poll_round (sample_base []) demo_env [\<lparr>cb_callback = (), cb_is_filter_type = False, cb_type = CPU\<rparr>] ss' = (ss', [])"
proof -
  let ?cbs = "[\<lparr>cb_callback = (), cb_is_filter_type = False, cb_type = CPU\<rparr>]"
  obtain ss' ns where r: "poll_round (sample_base []) demo_env ?cbs kSensors = (ss', ns)" by (meson surj_pair)
  have "snd (poll_round (sample_base []) demo_env ?cbs kSensors) =
      [((), \<lparr>t_type = CPU, t_name = ''cpu'', t_value = 86, t_severity = 3\<rparr>)]" by code_simp
  then show ?thesis using r poll_round_notifies [OF r] by auto
qed

text \<open>
  The callback registry, for any \<open>interfacesEqual\<close> that is an equivalence: registering
  a callback that is not there succeeds and adds it once; registering it again is refused and
  changes nothing; unregistering it brings the old registry back; a null callback is refused.
\<close>

theorem callback_registry:
  assumes "equivp ieq" and "\<forall>c \<in> set cbs. \<not> ieq (cb_callback c) cb"
    and "registerThermalChangedCallback ieq (Some cb) flt type cbs = (st, cbs')"
  shows "st = (SUCCESS, []) \<and>
    cbs' = cbs @ [\<lparr>cb_callback = cb, cb_is_filter_type = flt, cb_type = type\<rparr>] \<and>
    registerThermalChangedCallback ieq (Some cb) flt' type' cbs' =
      ((FAILURE, ''Same callback interface registered already''), cbs') \<and>
    unregisterThermalChangedCallback ieq (Some cb) cbs' = ((SUCCESS, []), cbs) \<and>
    unregisterThermalChangedCallback ieq (Some cb) cbs = ((FAILURE, ''The callback was not registered before''), cbs)"
proof -
  have "ieq cb cb" using assms(1) by (rule equivp_reflp)
  moreover have "filter (\<lambda>c. \<not> ieq (cb_callback c) cb) cbs = cbs" using assms(2) by (simp add: filter_id_conv)
  ultimately show ?thesis
    using assms(2,3) by (auto simp: registerThermalChangedCallback_def unregisterThermalChangedCallback_def split: if_splits)
qed

theorem callback_registry_witness:
  "unregisterThermalChangedCallback (=) (Some (2::nat))
     (snd (registerThermalChangedCallback (=) (Some 2) True SKIN [\<lparr>cb_callback = 1, cb_is_filter_type = False, cb_type = CPU\<rparr>])) =
   ((SUCCESS, []), [\<lparr>cb_callback = 1, cb_is_filter_type = False, cb_type = CPU\<rparr>])"
proof -
  let ?cbs = "[\<lparr>cb_callback = 1 :: nat, cb_is_filter_type = False, cb_type = CPU\<rparr>]"
  obtain st cbs' where r: "registerThermalChangedCallback (=) (Some 2) True SKIN ?cbs = (st, cbs')" by (meson surj_pair)
  have "\<forall>c \<in> set ?cbs. \<not> cb_callback c = 2" by simp
  from callback_registry [OF identity_equivp this r, of False CPU] show ?thesis using r by auto
qed

end
