(* ===== verification/Region.thy ===== *)
theory Region
  imports Prelude "HOL-Library.Word"
begin

unbundle bit_operations_syntax

text \<open>
  The region algebra that the Mali driver calls (\<open>treble/region.cpp\<close>, \<open>treble/m5c_RegionHelper.h\<close>):
  rectangles, the vector they are stored in, the two nested spanners that sweep two regions, the
  rasterizer that stores the result, and the exported operations.

  Coordinates are integers, read as the \<open>int32_t\<close> of the source (\<open>max_value\<close> is \<open>INT32_MAX\<close>):
  widths and heights do not overflow for coordinates of magnitude below 2^30. A pointer into
  \<open>mArr\<close> is an index. Allocation does not fail (\<open>abort()\<close> otherwise). The calls \<open>rasterizer(current)\<close>
  that \<open>region_operator\<close> makes are collected in a list and then performed, which is the same since
  the spanners do not depend on the rasterizer. The two do-while loops run on fuel; \<open>None\<close> is
  running out of it.
\<close>

section \<open>Rectangles and their vector\<close>

record Rect =
  left :: int
  top :: int
  right :: int
  bottom :: int

definition rect :: "int \<Rightarrow> int \<Rightarrow> int \<Rightarrow> int \<Rightarrow> Rect" where
  "rect l t r b = \<lparr>left = l, top = t, right = r, bottom = b\<rparr>"

definition isValid :: "Rect \<Rightarrow> bool" where
  "isValid r \<longleftrightarrow> right r - left r \<ge> 0 \<and> bottom r - top r \<ge> 0"

definition rect_isEmpty :: "Rect \<Rightarrow> bool" where
  "rect_isEmpty r \<longleftrightarrow> right r - left r \<le> 0 \<or> bottom r - top r \<le> 0"

record NRectVector =
  mCapacity :: nat
  mArr :: "Rect list"

definition NRectVector_ctor :: NRectVector where
  "NRectVector_ctor = \<lparr>mCapacity = 0, mArr = []\<rparr>"

function grow_cap :: "nat \<Rightarrow> nat \<Rightarrow> nat" where
  "grow_cap cap n = (if cap < n \<and> 0 < cap then grow_cap (cap * 2) n else cap)"
  by auto
termination
  by (relation "measure (\<lambda>(cap, n). n - cap)") auto

declare grow_cap.simps [simp del]

definition reserve :: "nat \<Rightarrow> NRectVector \<Rightarrow> NRectVector" where
  "reserve n v =
     (if n \<le> mCapacity v then v
      else v\<lparr>mCapacity := grow_cap (if mCapacity v \<noteq> 0 then mCapacity v else 4) n\<rparr>)"

definition vec_clear :: "NRectVector \<Rightarrow> NRectVector" where
  "vec_clear v = v\<lparr>mArr := []\<rparr>"

definition vec_push_back :: "Rect \<Rightarrow> NRectVector \<Rightarrow> NRectVector" where
  "vec_push_back r v = (let v = reserve (length (mArr v) + 1) v in v\<lparr>mArr := mArr v @ [r]\<rparr>)"

definition vec_insert :: "nat \<Rightarrow> Rect list \<Rightarrow> NRectVector \<Rightarrow> NRectVector" where
  "vec_insert idx rs v =
     (if rs = [] then v
      else let v = reserve (length (mArr v) + length rs) v in
           v\<lparr>mArr := take idx (mArr v) @ rs @ drop idx (mArr v)\<rparr>)"

section \<open>Sweeping two regions\<close>

abbreviation max_value :: int where "max_value \<equiv> INT32_MAX"

definition LHS :: "32 word" where "LHS = 5"
definition RHS :: "32 word" where "RHS = 6"
definition op_nand :: "32 word" where "op_nand = LHS AND NOT RHS"
definition op_and :: "32 word" where "op_and = LHS AND RHS"
definition op_or :: "32 word" where "op_or = LHS OR RHS"
definition op_xor :: "32 word" where "op_xor = LHS XOR RHS"

text \<open>A region operand: the rectangles from the current one on, and the translation.\<close>

record region =
  rects :: "Rect list"
  dx :: int
  dy :: int

record SpannerBase =
  lhs_head :: int
  lhs_tail :: int
  rhs_head :: int
  rhs_tail :: int

definition SpannerBase_ctor :: SpannerBase where
  "SpannerBase_ctor = \<lparr>lhs_head = max_value, lhs_tail = max_value, rhs_head = max_value, rhs_tail = max_value\<rparr>"

definition lhs_before_rhs :: nat where "lhs_before_rhs = 0"
definition lhs_after_rhs :: nat where "lhs_after_rhs = 1"
definition lhs_coincide_rhs :: nat where "lhs_coincide_rhs = 2"

text \<open>The result: which side covers the segment, its ends, and which sides have to advance.\<close>

record segment =
  sg_inside :: nat
  sg_head :: int
  sg_tail :: int
  sg_more_lhs :: bool
  sg_more_rhs :: bool

definition base_next :: "SpannerBase \<Rightarrow> segment \<times> SpannerBase" where
  "base_next s =
     (if lhs_head s < rhs_head s then
        (if lhs_tail s \<le> rhs_head s then
           (\<lparr>sg_inside = lhs_before_rhs, sg_head = lhs_head s, sg_tail = lhs_tail s,
             sg_more_lhs = True, sg_more_rhs = False\<rparr>, s)
         else
           (\<lparr>sg_inside = lhs_before_rhs, sg_head = lhs_head s, sg_tail = rhs_head s,
             sg_more_lhs = False, sg_more_rhs = False\<rparr>, s\<lparr>lhs_head := rhs_head s\<rparr>))
      else if rhs_head s < lhs_head s then
        (if rhs_tail s \<le> lhs_head s then
           (\<lparr>sg_inside = lhs_after_rhs, sg_head = rhs_head s, sg_tail = rhs_tail s,
             sg_more_lhs = False, sg_more_rhs = True\<rparr>, s)
         else
           (\<lparr>sg_inside = lhs_after_rhs, sg_head = rhs_head s, sg_tail = lhs_head s,
             sg_more_lhs = False, sg_more_rhs = False\<rparr>, s\<lparr>rhs_head := lhs_head s\<rparr>))
      else
        let s1 = (if lhs_tail s \<le> rhs_tail s then s\<lparr>rhs_head := lhs_tail s\<rparr> else s);
            s2 = (if rhs_tail s \<le> lhs_tail s then s1\<lparr>lhs_head := rhs_tail s\<rparr> else s1) in
        (\<lparr>sg_inside = lhs_coincide_rhs, sg_head = lhs_head s,
          sg_tail = (if rhs_tail s \<le> lhs_tail s then rhs_tail s else lhs_tail s),
          sg_more_lhs = (lhs_tail s \<le> rhs_tail s), sg_more_rhs = (rhs_tail s \<le> lhs_tail s)\<rparr>, s2))"

subsection \<open>The outer spanner\<close>

record Spanner =
  sp_base :: SpannerBase
  sp_lhs :: region
  sp_rhs :: region

definition Spanner_ctor :: "region \<Rightarrow> region \<Rightarrow> Spanner" where
  "Spanner_ctor l r =
     (let b = SpannerBase_ctor;
          b = (case rects l of [] \<Rightarrow> b
               | q # _ \<Rightarrow> b\<lparr>lhs_head := top q + dy l, lhs_tail := bottom q + dy l\<rparr>);
          b = (case rects r of [] \<Rightarrow> b
               | q # _ \<Rightarrow> b\<lparr>rhs_head := top q + dy r, rhs_tail := bottom q + dy r\<rparr>)
      in \<lparr>sp_base = b, sp_lhs = l, sp_rhs = r\<rparr>)"

definition sp_isDone :: "Spanner \<Rightarrow> bool" where
  "sp_isDone s \<longleftrightarrow> rects (sp_rhs s) = [] \<and> rects (sp_lhs s) = []"

text \<open>\<open>Spanner::advance\<close> (called on a nonempty region): the region at its next span, with the new ends.\<close>

definition outer_advance :: "region \<Rightarrow> region \<times> int \<times> int" where
  "outer_advance reg =
     (let rs = dropWhile (\<lambda>r. top r = top (hd (rects reg))) (rects reg) in
      (reg\<lparr>rects := rs\<rparr>,
       case rs of [] \<Rightarrow> (max_value, max_value) | q # _ \<Rightarrow> (top q + dy reg, bottom q + dy reg)))"

definition sp_next :: "Spanner \<Rightarrow> nat \<times> int \<times> int \<times> Spanner" where
  "sp_next s =
     (case base_next (sp_base s) of (g, b) \<Rightarrow>
      let s = s\<lparr>sp_base := b\<rparr>;
          s = (if sg_more_lhs g then
                 (case outer_advance (sp_lhs s) of (reg, h, t) \<Rightarrow>
                    s\<lparr>sp_lhs := reg, sp_base := (sp_base s)\<lparr>lhs_head := h, lhs_tail := t\<rparr>\<rparr>)
               else s);
          s = (if sg_more_rhs g then
                 (case outer_advance (sp_rhs s) of (reg, h, t) \<Rightarrow>
                    s\<lparr>sp_rhs := reg, sp_base := (sp_base s)\<lparr>rhs_head := h, rhs_tail := t\<rparr>\<rparr>)
               else s)
      in (sg_inside g, sg_head g, sg_tail g, s))"

subsection \<open>The inner spanner\<close>

record SpannerInner =
  si_base :: SpannerBase
  si_lhs :: region
  si_rhs :: region

definition SpannerInner_ctor :: "region \<Rightarrow> region \<Rightarrow> SpannerInner" where
  "SpannerInner_ctor l r = \<lparr>si_base = SpannerBase_ctor, si_lhs = l, si_rhs = r\<rparr>"

definition load_lhs :: "region \<Rightarrow> SpannerBase \<Rightarrow> SpannerBase" where
  "load_lhs l b = (case rects l of [] \<Rightarrow> b
     | q # _ \<Rightarrow> b\<lparr>lhs_head := left q + dx l, lhs_tail := right q + dx l\<rparr>)"

definition load_rhs :: "region \<Rightarrow> SpannerBase \<Rightarrow> SpannerBase" where
  "load_rhs r b = (case rects r of [] \<Rightarrow> b
     | q # _ \<Rightarrow> b\<lparr>rhs_head := left q + dx r, rhs_tail := right q + dx r\<rparr>)"

definition prepare :: "nat \<Rightarrow> SpannerInner \<Rightarrow> SpannerInner" where
  "prepare inside s =
     s\<lparr>si_base :=
       (if inside = lhs_before_rhs then
          (load_lhs (si_lhs s) (si_base s))\<lparr>rhs_head := max_value, rhs_tail := max_value\<rparr>
        else if inside = lhs_after_rhs then
          load_rhs (si_rhs s) ((si_base s)\<lparr>lhs_head := max_value, lhs_tail := max_value\<rparr>)
        else load_rhs (si_rhs s) (load_lhs (si_lhs s) (si_base s)))\<rparr>"

definition si_isDone :: "SpannerInner \<Rightarrow> bool" where
  "si_isDone s \<longleftrightarrow> lhs_head (si_base s) = max_value \<and> rhs_head (si_base s) = max_value"

text \<open>\<open>SpannerInner::advance\<close>; \<open>None\<close> leaves the ends alone.\<close>

definition inner_advance :: "region \<Rightarrow> region \<times> (int \<times> int) option" where
  "inner_advance reg =
     (case rects reg of
        [] \<Rightarrow> (reg, None)
      | r # rs \<Rightarrow>
          (reg\<lparr>rects := rs\<rparr>,
           Some (case rs of [] \<Rightarrow> (max_value, max_value)
                 | q # _ \<Rightarrow> if top q \<noteq> top r then (max_value, max_value)
                            else (left q + dx reg, right q + dx reg))))"

definition si_next :: "SpannerInner \<Rightarrow> nat \<times> int \<times> int \<times> SpannerInner" where
  "si_next s =
     (case base_next (si_base s) of (g, b) \<Rightarrow>
      let s = s\<lparr>si_base := b\<rparr>;
          s = (if sg_more_lhs g then
                 (case inner_advance (si_lhs s) of
                    (reg, Some (h, t)) \<Rightarrow> s\<lparr>si_lhs := reg, si_base := (si_base s)\<lparr>lhs_head := h, lhs_tail := t\<rparr>\<rparr>
                  | (reg, None) \<Rightarrow> s)
               else s);
          s = (if sg_more_rhs g then
                 (case inner_advance (si_rhs s) of
                    (reg, Some (h, t)) \<Rightarrow> s\<lparr>si_rhs := reg, si_base := (si_base s)\<lparr>rhs_head := h, rhs_tail := t\<rparr>\<rparr>
                  | (reg, None) \<Rightarrow> s)
               else s)
      in (sg_inside g, sg_head g, sg_tail g, s))"

subsection \<open>region_operator::operator()\<close>

definition emit :: "32 word \<Rightarrow> nat \<Rightarrow> Rect \<Rightarrow> Rect list" where
  "emit op inside cur =
     (if bit (drop_bit inside op AND 1) 0 \<and> left cur < right cur \<and> top cur < bottom cur then [cur] else [])"

fun inner_loop :: "nat \<Rightarrow> 32 word \<Rightarrow> int \<Rightarrow> int \<Rightarrow> SpannerInner \<Rightarrow> Rect list option" where
  "inner_loop 0 op t b s = None"
| "inner_loop (Suc n) op t b s =
     (case si_next s of (inside, l, r, s) \<Rightarrow>
      let out = emit op inside (rect l t r b) in
      if si_isDone s then Some out
      else map_option (\<lambda>rest. out @ rest) (inner_loop n op t b s))"

definition inner_fuel :: "Spanner \<Rightarrow> nat" where
  "inner_fuel s = 2 * (length (rects (sp_lhs s)) + length (rects (sp_rhs s))) + 1"

fun outer_loop :: "nat \<Rightarrow> 32 word \<Rightarrow> Spanner \<Rightarrow> Rect list option" where
  "outer_loop 0 op s = None"
| "outer_loop (Suc n) op s =
     (let inner = SpannerInner_ctor (sp_lhs s) (sp_rhs s) in
      case sp_next s of (inside, t, b, s') \<Rightarrow>
      case inner_loop (inner_fuel s) op t b (prepare inside inner) of
        None \<Rightarrow> None
      | Some out \<Rightarrow>
          if sp_isDone s' then Some out
          else map_option (\<lambda>rest. out @ rest) (outer_loop n op s'))"

definition region_operator :: "32 word \<Rightarrow> region \<Rightarrow> region \<Rightarrow> Rect list option" where
  "region_operator op l r = outer_loop (2 * (length (rects l) + length (rects r)) + 1) op (Spanner_ctor l r)"

section \<open>The rasterizer\<close>

record rasterizer =
  rz_bounds :: Rect
  rz_storage :: NRectVector
  rz_head :: nat
  rz_tail :: nat
  rz_span :: NRectVector

definition rasterizer_ctor :: "NRectVector \<Rightarrow> rasterizer" where
  "rasterizer_ctor storage = \<lparr>rz_bounds = rect INT32_MAX 0 INT32_MIN 0, rz_storage = vec_clear storage,
     rz_head = 0, rz_tail = 0, rz_span = NRectVector_ctor\<rparr>"

definition flushSpan :: "rasterizer \<Rightarrow> rasterizer" where
  "flushSpan z =
     (let span = mArr (rz_span z); arr = mArr (rz_storage z);
          last_span = take (rz_tail z - rz_head z) (drop (rz_head z) arr);
          merge = (rz_tail z - rz_head z = length span \<and> top (hd span) = bottom (hd last_span) \<and>
                   list_all2 (\<lambda>p q. left p = left q \<and> right p = right q) span last_span);
          z = (if merge then
                 z\<lparr>rz_storage := (rz_storage z)\<lparr>mArr := take (rz_head z) arr @
                    map (\<lambda>r. r\<lparr>bottom := bottom (hd span)\<rparr>) last_span @ drop (rz_tail z) arr\<rparr>\<rparr>
               else
                 let st = vec_insert (length arr) span (rz_storage z) in
                 z\<lparr>rz_bounds := (rz_bounds z)\<lparr>left := min (left (hd span)) (left (rz_bounds z)),
                                              right := max (right (last span)) (right (rz_bounds z))\<rparr>,
                   rz_storage := st, rz_tail := length (mArr st), rz_head := length (mArr st) - length span\<rparr>)
      in z\<lparr>rz_span := vec_clear (rz_span z)\<rparr>)"

definition raster_push :: "Rect \<Rightarrow> rasterizer \<Rightarrow> rasterizer" where
  "raster_push r z = z\<lparr>rz_span := vec_push_back r (rz_span z)\<rparr>"

definition raster :: "Rect \<Rightarrow> rasterizer \<Rightarrow> rasterizer" where
  "raster r z =
     (let span = mArr (rz_span z) in
      if span \<noteq> [] then
        (let cur = last span in
         if top cur \<noteq> top r then raster_push r (flushSpan z)
         else if right cur = left r
         then z\<lparr>rz_span := (rz_span z)\<lparr>mArr := butlast span @ [cur\<lparr>right := right r\<rparr>]\<rparr>\<rparr>
         else raster_push r z)
      else raster_push r z)"

text \<open>The destructor: the last span, then the bounds at the end of the storage.\<close>

definition rasterizer_dtor :: "rasterizer \<Rightarrow> NRectVector" where
  "rasterizer_dtor z =
     (let z = (if mArr (rz_span z) \<noteq> [] then flushSpan z else z); st = rz_storage z in
      if mArr st \<noteq> [] then
        vec_push_back ((rz_bounds z)\<lparr>top := top (hd (mArr st)), bottom := bottom (last (mArr st))\<rparr>)
          (if length (mArr st) = 1 then vec_clear st else st)
      else vec_push_back ((rz_bounds z)\<lparr>left := 0, right := 0\<rparr>) st)"

section \<open>Regions\<close>

record Region =
  mStorage :: NRectVector

definition Region_ctor :: Region where
  "Region_ctor = \<lparr>mStorage = vec_push_back (rect 0 0 0 0) NRectVector_ctor\<rparr>"

definition Region_copy :: "Region \<Rightarrow> Region" where
  "Region_copy rhs = \<lparr>mStorage = vec_insert 0 (mArr (mStorage rhs)) (vec_clear NRectVector_ctor)\<rparr>"

definition Region_of_rect :: "Rect \<Rightarrow> Region" where
  "Region_of_rect r = \<lparr>mStorage = vec_push_back r NRectVector_ctor\<rparr>"

definition Region_assign :: "Region \<Rightarrow> Region \<Rightarrow> Region" where
  "Region_assign rhs reg = reg\<lparr>mStorage := vec_insert 0 (mArr (mStorage rhs)) (vec_clear (mStorage reg))\<rparr>"

definition getBounds :: "Region \<Rightarrow> Rect" where
  "getBounds reg = last (mArr (mStorage reg))"

definition isEmpty :: "Region \<Rightarrow> bool" where
  "isEmpty reg = rect_isEmpty (getBounds reg)"

definition isRect :: "Region \<Rightarrow> bool" where
  "isRect reg \<longleftrightarrow> length (mArr (mStorage reg)) = 1"

definition translate_rect :: "int \<Rightarrow> int \<Rightarrow> Rect \<Rightarrow> Rect" where
  "translate_rect x y r = rect (left r + x) (top r + y) (right r + x) (bottom r + y)"

definition translate :: "int \<Rightarrow> int \<Rightarrow> Region \<Rightarrow> Region" where
  "translate x y r =
     (let reg = Region_copy r in
      if (x \<noteq> 0 \<or> y \<noteq> 0) \<and> \<not> isEmpty reg
      then reg\<lparr>mStorage := (mStorage reg)\<lparr>mArr := map (translate_rect x y) (mArr (mStorage reg))\<rparr>\<rparr>
      else reg)"

definition region_clear :: "Region \<Rightarrow> Region" where
  "region_clear reg = reg\<lparr>mStorage := vec_push_back (rect 0 0 0 0) (vec_clear (mStorage reg))\<rparr>"

definition region_set :: "Rect \<Rightarrow> Region \<Rightarrow> Region" where
  "region_set r reg = reg\<lparr>mStorage := vec_push_back r (vec_clear (mStorage reg))\<rparr>"

definition region_set_wh :: "int \<Rightarrow> int \<Rightarrow> Region \<Rightarrow> Region" where
  "region_set_wh w h reg = reg\<lparr>mStorage := vec_push_back (rect 0 0 w h) (vec_clear (mStorage reg))\<rparr>"

text \<open>\<open>begin()\<close> to \<open>end()\<close>, what \<open>getArray\<close> exposes.\<close>

definition getArray :: "Region \<Rightarrow> Rect list" where
  "getArray reg =
     (let arr = mArr (mStorage reg) in
      if arr = [] then [] else take (if isRect reg then 1 else length arr - 1) arr)"

definition boolean_operation :: "32 word \<Rightarrow> Region \<Rightarrow> Region \<Rightarrow> Rect \<Rightarrow> int \<Rightarrow> int \<Rightarrow> Region option" where
  "boolean_operation op dst lhs rhs x y =
     (if \<not> isValid rhs then Some dst
      else case region_operator op \<lparr>rects = getArray lhs, dx = 0, dy = 0\<rparr> \<lparr>rects = [rhs], dx = x, dy = y\<rparr> of
        None \<Rightarrow> None
      | Some calls \<Rightarrow>
          Some (dst\<lparr>mStorage := rasterizer_dtor (fold raster calls (rasterizer_ctor (mStorage dst)))\<rparr>))"

definition operationSelf :: "Rect \<Rightarrow> 32 word \<Rightarrow> Region \<Rightarrow> Region option" where
  "operationSelf r op reg = boolean_operation op reg (Region_copy reg) r 0 0"

definition orSelf :: "Rect \<Rightarrow> Region \<Rightarrow> Region option" where
  "orSelf r reg = (if isEmpty reg then Some (region_set r reg) else operationSelf r op_or reg)"

definition subtractSelf :: "Rect \<Rightarrow> Region \<Rightarrow> Region option" where
  "subtractSelf r reg = operationSelf r op_nand reg"

end
