(* ===== verification/RegionSweep.thy ===== *)
theory RegionSweep
  imports Region
begin

text \<open>
  Correctness of the sweep of \<open>region_operator\<close>: on two well-formed lists of rectangles it ends
  within its fuel, and the rectangles it hands to the rasterizer are nonempty, in order, and
  cover exactly the points that the operation selects.
\<close>

section \<open>Points and well-formed lists of rectangles\<close>

definition covers :: "Rect \<Rightarrow> int \<Rightarrow> int \<Rightarrow> bool" where
  "covers r x y \<longleftrightarrow> left r \<le> x \<and> x < right r \<and> top r \<le> y \<and> y < bottom r"

definition pts :: "Rect list \<Rightarrow> (int \<times> int) set" where
  "pts rs = {(x, y). \<exists>r \<in> set rs. covers r x y}"

text \<open>\<open>follows r q\<close>: \<open>q\<close> is right of \<open>r\<close> in the same span, or in a later span.\<close>

definition follows :: "Rect \<Rightarrow> Rect \<Rightarrow> bool" where
  "follows r q \<longleftrightarrow> (top q = top r \<and> bottom q = bottom r \<and> right r \<le> left q) \<or> (top r < top q \<and> bottom r \<le> top q)"

text \<open>Coordinates below 2^30 in magnitude: no width or height overflows an \<open>int32_t\<close>.\<close>

abbreviation coord_limit :: int where "coord_limit \<equiv> 1073741824"

definition rect_ok :: "Rect \<Rightarrow> bool" where
  "rect_ok r \<longleftrightarrow> left r \<le> right r \<and> top r \<le> bottom r \<and> right r < coord_limit \<and> bottom r < coord_limit \<and>
     - coord_limit \<le> left r \<and> - coord_limit \<le> top r"

definition wf_rects :: "Rect list \<Rightarrow> bool" where
  "wf_rects rs \<longleftrightarrow> (\<forall>r \<in> set rs. rect_ok r) \<and> sorted_wrt follows rs"

text \<open>What a boolean operation selects at a point, given the membership in either side.\<close>

definition sel :: "32 word \<Rightarrow> bool \<Rightarrow> bool \<Rightarrow> bool" where
  "sel op a b \<longleftrightarrow> (a \<and> \<not> b \<and> bit op 0) \<or> (\<not> a \<and> b \<and> bit op 1) \<or> (a \<and> b \<and> bit op 2)"

lemma sel_none [simp]: "\<not> sel op False False"
  by (simp add: sel_def)

section \<open>The one-dimensional sweep\<close>

text \<open>The intervals still to be swept on one side, and the ends that \<open>SpannerBase\<close> keeps of the first.\<close>

type_synonym intervals = "(int \<times> int) list"

definition iv_ok :: "intervals \<Rightarrow> bool" where
  "iv_ok xs \<longleftrightarrow> (\<forall>(l, r) \<in> set xs. l \<le> r \<and> r < max_value) \<and> sorted_wrt (\<lambda>(l, r) (l', r'). r \<le> l') xs"

definition side :: "int \<Rightarrow> int \<Rightarrow> intervals \<Rightarrow> bool" where
  "side h t xs \<longleftrightarrow> (case xs of [] \<Rightarrow> h = max_value \<and> t = max_value | (l, r) # _ \<Rightarrow> l \<le> h \<and> h \<le> r \<and> t = r)"

definition start :: "intervals \<Rightarrow> int \<times> int" where
  "start xs = (case xs of [] \<Rightarrow> (max_value, max_value) | iv # _ \<Rightarrow> iv)"

definition in_iv :: "intervals \<Rightarrow> int \<Rightarrow> bool" where
  "in_iv xs z \<longleftrightarrow> (\<exists>(l, r) \<in> set xs. l \<le> z \<and> z < r)"

lemma base_next_spec:
  assumes "base_next s = (g, b)" and "lhs_head s \<le> lhs_tail s" and "rhs_head s \<le> rhs_tail s"
  shows "sg_head g \<le> sg_tail g" "sg_tail g \<le> lhs_tail s" "sg_tail g \<le> rhs_tail s"
    "lhs_tail b = lhs_tail s" "rhs_tail b = rhs_tail s" "sg_inside g \<in> {0, 1, 2}"
    "lhs_head s \<le> z \<and> z < lhs_tail s \<longleftrightarrow>
       (sg_head g \<le> z \<and> z < sg_tail g \<and> sg_inside g \<noteq> 1) \<or> (\<not> sg_more_lhs g \<and> lhs_head b \<le> z \<and> z < lhs_tail s)"
    "rhs_head s \<le> z \<and> z < rhs_tail s \<longleftrightarrow>
       (sg_head g \<le> z \<and> z < sg_tail g \<and> sg_inside g \<noteq> 0) \<or> (\<not> sg_more_rhs g \<and> rhs_head b \<le> z \<and> z < rhs_tail s)"
    "\<not> sg_more_lhs g \<Longrightarrow> sg_tail g \<le> lhs_head b \<and> lhs_head s \<le> lhs_head b \<and> lhs_head b \<le> lhs_tail s"
    "\<not> sg_more_rhs g \<Longrightarrow> sg_tail g \<le> rhs_head b \<and> rhs_head s \<le> rhs_head b \<and> rhs_head b \<le> rhs_tail s"
    "\<not> sg_more_lhs g \<Longrightarrow> \<not> sg_more_rhs g \<Longrightarrow> lhs_head b = rhs_head b \<and> lhs_head s \<noteq> rhs_head s"
    "sg_more_lhs g \<Longrightarrow> lhs_head s \<le> rhs_head s" "sg_more_rhs g \<Longrightarrow> rhs_head s \<le> lhs_head s"
    "sg_inside g \<noteq> 1 \<Longrightarrow> lhs_head s \<le> rhs_head s" "sg_inside g \<noteq> 0 \<Longrightarrow> rhs_head s \<le> lhs_head s"
  using assms
  by (auto simp: base_next_def Let_def lhs_before_rhs_def lhs_after_rhs_def lhs_coincide_rhs_def split: if_splits)

lemma side_bounds:
  assumes "side h t xs" and "iv_ok xs"
  shows "h \<le> t" "h \<le> max_value" "xs \<noteq> [] \<Longrightarrow> t < max_value" "xs = [] \<Longrightarrow> h = max_value"
  using assms by (cases xs; auto simp: side_def iv_ok_def split: prod.splits)+

lemma iv_ok_tl: "iv_ok xs \<Longrightarrow> iv_ok (tl xs)"
  by (cases xs) (auto simp: iv_ok_def)

lemma side_start: "iv_ok xs \<Longrightarrow> side (fst (start xs)) (snd (start xs)) xs"
  by (cases xs) (auto simp: side_def start_def iv_ok_def)

lemma in_iv_start: "iv_ok xs \<Longrightarrow> in_iv xs z \<Longrightarrow> fst (start xs) \<le> z"
  by (cases xs) (fastforce simp: in_iv_def start_def iv_ok_def)+

lemma side_in_iv:
  assumes "side h t xs" and "iv_ok xs"
  shows "in_iv xs z \<and> h \<le> z \<longleftrightarrow> (h \<le> z \<and> z < t) \<or> in_iv (tl xs) z" "in_iv (tl xs) z \<Longrightarrow> t \<le> z"
proof -
  have "(in_iv xs z \<and> h \<le> z \<longleftrightarrow> (h \<le> z \<and> z < t) \<or> in_iv (tl xs) z) \<and> (in_iv (tl xs) z \<longrightarrow> t \<le> z)"
  proof (cases xs)
    case (Cons iv xs')
    obtain l r where iv: "iv = (l, r)" by (cases iv)
    have h: "l \<le> h" "h \<le> r" "t = r" using assms(1) by (auto simp: side_def Cons iv)
    have "r \<le> l'" if "(l', r') \<in> set xs'" for l' r' using assms(2) that by (auto simp: iv_ok_def Cons iv)
    then have "in_iv xs' z \<Longrightarrow> r \<le> z" by (fastforce simp: in_iv_def)
    moreover have "in_iv xs z \<longleftrightarrow> (l \<le> z \<and> z < r) \<or> in_iv xs' z" by (auto simp: in_iv_def Cons iv)
    ultimately show ?thesis using h by (auto simp: Cons)
  qed (use assms in \<open>auto simp: side_def in_iv_def\<close>)
  then show "in_iv xs z \<and> h \<le> z \<longleftrightarrow> (h \<le> z \<and> z < t) \<or> in_iv (tl xs) z" "in_iv (tl xs) z \<Longrightarrow> t \<le> z" by auto
qed

text \<open>The state of one side after a step: the next interval when the side advances.\<close>

definition adv :: "bool \<Rightarrow> int \<Rightarrow> intervals \<Rightarrow> int \<times> intervals" where
  "adv mv h xs = (if mv then (fst (start (tl xs)), tl xs) else (h, xs))"

definition sweep_measure :: "int \<Rightarrow> intervals \<Rightarrow> int \<Rightarrow> intervals \<Rightarrow> nat" where
  "sweep_measure lh xs rh ys = 2 * (length xs + length ys) + (if lh = rh then 0 else 1)"

lemma sweep_step:
  assumes b: "base_next s = (g, b)"
    and l: "side (lhs_head s) (lhs_tail s) xs" "iv_ok xs" and r: "side (rhs_head s) (rhs_tail s) ys" "iv_ok ys"
    and ne: "xs \<noteq> [] \<or> ys \<noteq> []"
  shows "sg_inside g \<noteq> 1 \<Longrightarrow> xs \<noteq> []" "sg_inside g \<noteq> 0 \<Longrightarrow> ys \<noteq> []"
    "sg_more_lhs g \<Longrightarrow> xs \<noteq> []" "sg_more_rhs g \<Longrightarrow> ys \<noteq> []"
    "adv (sg_more_lhs g) (lhs_head b) xs = (lh', xs') \<Longrightarrow> adv (sg_more_rhs g) (rhs_head b) ys = (rh', ys') \<Longrightarrow>
     sweep_measure lh' xs' rh' ys' < sweep_measure (lhs_head s) xs (rhs_head s) ys"
proof -
  note lb = side_bounds [OF l] and rb = side_bounds [OF r]
  note sp = base_next_spec [OF b lb(1) rb(1)]
  have x: "xs \<noteq> []" if "sg_inside g \<noteq> 1 \<or> sg_more_lhs g"
    using that sp(12,14) lb rb ne by force
  have y: "ys \<noteq> []" if "sg_inside g \<noteq> 0 \<or> sg_more_rhs g"
    using that sp(13,15) lb rb ne by force
  show "sg_inside g \<noteq> 1 \<Longrightarrow> xs \<noteq> []" "sg_inside g \<noteq> 0 \<Longrightarrow> ys \<noteq> []"
    "sg_more_lhs g \<Longrightarrow> xs \<noteq> []" "sg_more_rhs g \<Longrightarrow> ys \<noteq> []" using x y by auto
  assume a: "adv (sg_more_lhs g) (lhs_head b) xs = (lh', xs')" "adv (sg_more_rhs g) (rhs_head b) ys = (rh', ys')"
  show "sweep_measure lh' xs' rh' ys' < sweep_measure (lhs_head s) xs (rhs_head s) ys"
  proof (cases "sg_more_lhs g \<or> sg_more_rhs g")
    case True
    then have "length xs' + length ys' < length xs + length ys"
      using a x y by (cases xs; cases ys) (auto simp: adv_def split: if_splits)
    then show ?thesis by (simp add: sweep_measure_def)
  next
    case False
    then show ?thesis using a sp(11) by (auto simp: adv_def sweep_measure_def)
  qed
qed

text \<open>The points of a side split into the swept segment and what is left.\<close>

lemma sweep_side_lhs:
  assumes b: "base_next s = (g, b)" and l: "side (lhs_head s) (lhs_tail s) xs" "iv_ok xs"
    and rb: "rhs_head s \<le> rhs_tail s" and a: "adv (sg_more_lhs g) (lhs_head b) xs = (h', xs')"
  shows "in_iv xs z \<and> lhs_head s \<le> z \<longleftrightarrow>
      (sg_head g \<le> z \<and> z < sg_tail g \<and> sg_inside g \<noteq> 1) \<or> (in_iv xs' z \<and> h' \<le> z)"
    and "in_iv xs' z \<and> h' \<le> z \<Longrightarrow> sg_tail g \<le> z"
proof -
  note sp = base_next_spec [OF b side_bounds(1) [OF l] rb]
  have rest: "in_iv xs' z \<and> h' \<le> z \<longleftrightarrow> (\<not> sg_more_lhs g \<and> lhs_head b \<le> z \<and> z < lhs_tail s) \<or> in_iv (tl xs) z"
  proof (cases "sg_more_lhs g")
    case True
    then show ?thesis using a in_iv_start [OF iv_ok_tl [OF l(2)]] by (auto simp: adv_def)
  next
    case False
    have "side (lhs_head b) (lhs_tail s) xs"
      using l(1) sp(9) [OF False] by (auto simp: side_def split: list.splits)
    then show ?thesis using False a side_in_iv(1) [OF _ l(2), of "lhs_head b" "lhs_tail s" z] by (auto simp: adv_def)
  qed
  show "in_iv xs z \<and> lhs_head s \<le> z \<longleftrightarrow>
      (sg_head g \<le> z \<and> z < sg_tail g \<and> sg_inside g \<noteq> 1) \<or> (in_iv xs' z \<and> h' \<le> z)"
    unfolding rest side_in_iv(1) [OF l] sp(7) by blast
  show "sg_tail g \<le> z" if "in_iv xs' z \<and> h' \<le> z"
    using that side_in_iv(2) [OF l, of z] sp(2,9) unfolding rest by force
qed

lemma sweep_side_rhs:
  assumes b: "base_next s = (g, b)" and r: "side (rhs_head s) (rhs_tail s) ys" "iv_ok ys"
    and lb: "lhs_head s \<le> lhs_tail s" and a: "adv (sg_more_rhs g) (rhs_head b) ys = (h', ys')"
  shows "in_iv ys z \<and> rhs_head s \<le> z \<longleftrightarrow>
      (sg_head g \<le> z \<and> z < sg_tail g \<and> sg_inside g \<noteq> 0) \<or> (in_iv ys' z \<and> h' \<le> z)"
    and "in_iv ys' z \<and> h' \<le> z \<Longrightarrow> sg_tail g \<le> z"
proof -
  note sp = base_next_spec [OF b lb side_bounds(1) [OF r]]
  have rest: "in_iv ys' z \<and> h' \<le> z \<longleftrightarrow> (\<not> sg_more_rhs g \<and> rhs_head b \<le> z \<and> z < rhs_tail s) \<or> in_iv (tl ys) z"
  proof (cases "sg_more_rhs g")
    case True
    then show ?thesis using a in_iv_start [OF iv_ok_tl [OF r(2)]] by (auto simp: adv_def)
  next
    case False
    have "side (rhs_head b) (rhs_tail s) ys"
      using r(1) sp(10) [OF False] by (auto simp: side_def split: list.splits)
    then show ?thesis using False a side_in_iv(1) [OF _ r(2), of "rhs_head b" "rhs_tail s" z] by (auto simp: adv_def)
  qed
  show "in_iv ys z \<and> rhs_head s \<le> z \<longleftrightarrow>
      (sg_head g \<le> z \<and> z < sg_tail g \<and> sg_inside g \<noteq> 0) \<or> (in_iv ys' z \<and> h' \<le> z)"
    unfolding rest side_in_iv(1) [OF r] sp(8) by blast
  show "sg_tail g \<le> z" if "in_iv ys' z \<and> h' \<le> z"
    using that side_in_iv(2) [OF r, of z] sp(3,10) unfolding rest by force
qed

section \<open>The inner loop\<close>

text \<open>The intervals of the span a list of rectangles starts with.\<close>

definition row :: "Rect list \<Rightarrow> Rect list" where
  "row rs = takeWhile (\<lambda>r. top r = top (hd rs)) rs"

definition rowiv :: "Rect list \<Rightarrow> intervals" where
  "rowiv rs = map (\<lambda>r. (left r, right r)) (row rs)"

definition inner_side :: "region \<Rightarrow> int \<Rightarrow> int \<Rightarrow> intervals \<Rightarrow> bool" where
  "inner_side reg h t xs \<longleftrightarrow> side h t xs \<and> iv_ok xs \<and> dx reg = 0 \<and> (xs \<noteq> [] \<longrightarrow> rects reg \<noteq> [] \<and> rowiv (rects reg) = xs)"

lemma inner_advance_side:
  assumes "inner_side reg h t xs" and "xs \<noteq> []"
  shows "\<exists>reg'. inner_advance reg = (reg', Some (start (tl xs))) \<and>
    inner_side reg' (fst (start (tl xs))) (snd (start (tl xs))) (tl xs)"
proof -
  obtain r rs where rs: "rects reg = r # rs" using assms by (cases "rects reg") (auto simp: inner_side_def)
  have tl: "tl xs = map (\<lambda>r. (left r, right r)) (takeWhile (\<lambda>q. top q = top r) rs)"
    using assms by (auto simp: inner_side_def rs rowiv_def row_def)
  have ok: "iv_ok (tl xs)" using assms(1) iv_ok_tl by (auto simp: inner_side_def)
  have "inner_advance reg = (reg\<lparr>rects := rs\<rparr>, Some (start (tl xs)))"
    using assms(1) by (cases rs) (auto simp: inner_advance_def rs tl start_def inner_side_def)
  moreover have "tl xs \<noteq> [] \<longrightarrow> rs \<noteq> [] \<and> rowiv rs = tl xs"
    unfolding tl rowiv_def row_def by (cases rs) auto
  ultimately show ?thesis
    using ok side_start [OF ok] assms(1) by (auto simp: inner_side_def)
qed

lemma si_next_step:
  assumes s: "s = \<lparr>si_base = b0, si_lhs = L, si_rhs = R\<rparr>" and n: "base_next b0 = (g, b)"
    and l: "inner_side L (lhs_head b0) (lhs_tail b0) xs" and r: "inner_side R (rhs_head b0) (rhs_tail b0) ys"
    and ne: "xs \<noteq> [] \<or> ys \<noteq> []"
    and a: "adv (sg_more_lhs g) (lhs_head b) xs = (lh', xs')" "adv (sg_more_rhs g) (rhs_head b) ys = (rh', ys')"
  shows "\<exists>b' L' R'. si_next s = (sg_inside g, sg_head g, sg_tail g, \<lparr>si_base = b', si_lhs = L', si_rhs = R'\<rparr>) \<and>
    lhs_head b' = lh' \<and> rhs_head b' = rh' \<and>
    inner_side L' (lhs_head b') (lhs_tail b') xs' \<and> inner_side R' (rhs_head b') (rhs_tail b') ys'"
proof -
  have sl: "side (lhs_head b0) (lhs_tail b0) xs" "iv_ok xs" and sr: "side (rhs_head b0) (rhs_tail b0) ys" "iv_ok ys"
    using l r by (auto simp: inner_side_def)
  note sp = base_next_spec [OF n side_bounds(1) [OF sl] side_bounds(1) [OF sr]]
  note st = sweep_step [OF n sl sr ne]
  have kl: "inner_side L (lhs_head b) (lhs_tail b) xs" if "\<not> sg_more_lhs g"
    using l sp(4,9) that by (auto simp: inner_side_def side_def split: list.splits)
  have kr: "inner_side R (rhs_head b) (rhs_tail b) ys" if "\<not> sg_more_rhs g"
    using r sp(5,10) that by (auto simp: inner_side_def side_def split: list.splits)
  define L1 where "L1 = (if sg_more_lhs g then fst (inner_advance L) else L)"
  define b1 where "b1 = (if sg_more_lhs g then b\<lparr>lhs_head := lh', lhs_tail := snd (start (tl xs))\<rparr> else b)"
  define R1 where "R1 = (if sg_more_rhs g then fst (inner_advance R) else R)"
  define b2 where "b2 = (if sg_more_rhs g then b1\<lparr>rhs_head := rh', rhs_tail := snd (start (tl ys))\<rparr> else b1)"
  have pl: "inner_advance L = (L1, Some (lh', snd (start (tl xs)))) \<and> inner_side L1 lh' (snd (start (tl xs))) xs'"
    if "sg_more_lhs g"
    using inner_advance_side [OF l st(3) [OF that]] that a(1) by (auto simp: adv_def L1_def)
  have pr: "inner_advance R = (R1, Some (rh', snd (start (tl ys)))) \<and> inner_side R1 rh' (snd (start (tl ys))) ys'"
    if "sg_more_rhs g"
    using inner_advance_side [OF r st(4) [OF that]] that a(2) by (auto simp: adv_def R1_def)
  have keep: "\<not> sg_more_lhs g \<Longrightarrow> L1 = L" "\<not> sg_more_rhs g \<Longrightarrow> R1 = R" by (simp_all add: L1_def R1_def)
  have "si_next s = (sg_inside g, sg_head g, sg_tail g, \<lparr>si_base = b2, si_lhs = L1, si_rhs = R1\<rparr>)"
    using keep by (cases "sg_more_lhs g"; cases "sg_more_rhs g")
      (simp_all add: si_next_def s n Let_def b1_def b2_def pl [THEN conjunct1] pr [THEN conjunct1])
  moreover have "lhs_head b2 = lh'" "inner_side L1 (lhs_head b2) (lhs_tail b2) xs'"
    using pl kl a(1) by (auto simp: b1_def b2_def L1_def adv_def split: if_splits)
  moreover have "rhs_head b2 = rh'" "inner_side R1 (rhs_head b2) (rhs_tail b2) ys'"
    using pr kr a(2) by (auto simp: b1_def b2_def R1_def adv_def split: if_splits)
  ultimately show ?thesis by blast
qed

lemma emit_iff: "emit op i c = (if bit op i \<and> left c < right c \<and> top c < bottom c then [c] else [])"
  by (simp add: emit_def bit_and_iff bit_drop_bit_eq)

text \<open>The rectangles of one span: same top and bottom, nonempty, from left to right.\<close>

definition row_out :: "int \<Rightarrow> int \<Rightarrow> Rect list \<Rightarrow> bool" where
  "row_out t b out \<longleftrightarrow> (\<forall>r \<in> set out. top r = t \<and> bottom r = b \<and> left r < right r \<and> t < b) \<and>
     sorted_wrt (\<lambda>r q. right r \<le> left q) out"

definition in_row :: "Rect list \<Rightarrow> int \<Rightarrow> bool" where
  "in_row out x \<longleftrightarrow> (\<exists>r \<in> set out. left r \<le> x \<and> x < right r)"

lemma inner_loop_correct:
  assumes "inner_side L (lhs_head b0) (lhs_tail b0) xs" and "inner_side R (rhs_head b0) (rhs_tail b0) ys"
    and "xs \<noteq> [] \<or> ys \<noteq> []" and "sweep_measure (lhs_head b0) xs (rhs_head b0) ys \<le> n"
  shows "\<exists>out. inner_loop n op t b \<lparr>si_base = b0, si_lhs = L, si_rhs = R\<rparr> = Some out \<and> row_out t b out \<and>
    (\<forall>x. in_row out x \<longleftrightarrow> t < b \<and> sel op (in_iv xs x \<and> lhs_head b0 \<le> x) (in_iv ys x \<and> rhs_head b0 \<le> x))"
  using assms
proof (induction n arbitrary: L R b0 xs ys)
  case 0
  then show ?case by (cases xs; cases ys) (auto simp: sweep_measure_def)
next
  case (Suc n)
  obtain g bb where n: "base_next b0 = (g, bb)" by (cases "base_next b0")
  obtain lh' xs' where al: "adv (sg_more_lhs g) (lhs_head bb) xs = (lh', xs')" by (meson surj_pair)
  obtain rh' ys' where ar: "adv (sg_more_rhs g) (rhs_head bb) ys = (rh', ys')" by (meson surj_pair)
  have sl: "side (lhs_head b0) (lhs_tail b0) xs" "iv_ok xs" and sr: "side (rhs_head b0) (rhs_tail b0) ys" "iv_ok ys"
    using Suc.prems by (auto simp: inner_side_def)
  note lb = side_bounds(1) [OF sl] and rb = side_bounds(1) [OF sr]
  note sp = base_next_spec [OF n lb rb]
  obtain b' L' R' where nx: "si_next \<lparr>si_base = b0, si_lhs = L, si_rhs = R\<rparr> =
      (sg_inside g, sg_head g, sg_tail g, \<lparr>si_base = b', si_lhs = L', si_rhs = R'\<rparr>)"
    and hd: "lhs_head b' = lh'" "rhs_head b' = rh'"
    and il: "inner_side L' (lhs_head b') (lhs_tail b') xs'" and ir: "inner_side R' (rhs_head b') (rhs_tail b') ys'"
    using si_next_step [OF refl n Suc.prems(1,2,3) al ar] by blast
  define out1 where "out1 = emit op (sg_inside g) (rect (sg_head g) t (sg_tail g) b)"
  note seg = sweep_side_lhs [OF n sl rb al] sweep_side_rhs [OF n sr lb ar]
  have o1: "row_out t b out1" "\<And>r. r \<in> set out1 \<Longrightarrow> right r = sg_tail g"
    "\<And>x. in_row out1 x \<longleftrightarrow> t < b \<and> sg_head g \<le> x \<and> x < sg_tail g \<and> bit op (sg_inside g)"
    by (auto simp: out1_def emit_iff row_out_def in_row_def rect_def)
  have seg1: "sel op (sg_inside g \<noteq> 1) (sg_inside g \<noteq> 0) = bit op (sg_inside g)"
    using sp(6) by (auto simp: sel_def)
  have both: "sel op (in_iv xs x \<and> lhs_head b0 \<le> x) (in_iv ys x \<and> rhs_head b0 \<le> x) \<longleftrightarrow>
      (sg_head g \<le> x \<and> x < sg_tail g \<and> bit op (sg_inside g)) \<or> sel op (in_iv xs' x \<and> lh' \<le> x) (in_iv ys' x \<and> rh' \<le> x)" for x
  proof (cases "sg_head g \<le> x \<and> x < sg_tail g")
    case True
    then have f: "(in_iv xs' x \<and> lh' \<le> x) = False" "(in_iv ys' x \<and> rh' \<le> x) = False" using seg(2,4) [of x] by auto
    show ?thesis unfolding seg(1) seg(3) f using True seg1 by simp
  next
    case False
    then have nf: "(sg_head g \<le> x \<and> x < sg_tail g \<and> P) = False" for P by blast
    show ?thesis unfolding seg(1) seg(3) nf by simp
  qed
  show ?case
  proof (cases "xs' = [] \<and> ys' = []")
    case True
    then have "si_isDone \<lparr>si_base = b', si_lhs = L', si_rhs = R'\<rparr>"
      using il ir by (simp add: si_isDone_def inner_side_def side_def)
    moreover have "\<not> in_iv xs' x" "\<not> in_iv ys' x" for x using True by (simp_all add: in_iv_def)
    ultimately show ?thesis
      using o1 both by (intro exI [of _ out1]) (simp add: nx out1_def [symmetric])
  next
    case False
    have nd: "\<not> si_isDone \<lparr>si_base = b', si_lhs = L', si_rhs = R'\<rparr>"
    proof -
      have sides: "side (lhs_head b') (lhs_tail b') xs'" "iv_ok xs'" "side (rhs_head b') (rhs_tail b') ys'" "iv_ok ys'"
        using il ir by (auto simp: inner_side_def)
      have "xs' \<noteq> [] \<Longrightarrow> lhs_head b' < max_value" "ys' \<noteq> [] \<Longrightarrow> rhs_head b' < max_value"
        using side_bounds(1,3) [OF sides(1,2)] side_bounds(1,3) [OF sides(3,4)] by linarith+
      then show ?thesis using False by (auto simp: si_isDone_def)
    qed
    have "sweep_measure (lhs_head b') xs' (rhs_head b') ys' \<le> n"
      using sweep_step(5) [OF n sl sr Suc.prems(3) al ar] Suc.prems(4) hd by simp
    from Suc.IH [OF il ir _ this] False obtain out2 where
      o2: "inner_loop n op t b \<lparr>si_base = b', si_lhs = L', si_rhs = R'\<rparr> = Some out2" "row_out t b out2"
        "\<And>x. in_row out2 x \<longleftrightarrow> t < b \<and> sel op (in_iv xs' x \<and> lh' \<le> x) (in_iv ys' x \<and> rh' \<le> x)"
      by (auto simp: hd)
    have "sg_tail g \<le> left q" if "q \<in> set out2" for q
    proof -
      have "in_row out2 (left q)" using that o2(2) by (auto simp: in_row_def row_out_def)
      then have "(in_iv xs' (left q) \<and> lh' \<le> left q) \<or> (in_iv ys' (left q) \<and> rh' \<le> left q)"
        unfolding o2(3) by (auto simp: sel_def)
      then show ?thesis using seg(2,4) by blast
    qed
    then have "row_out t b (out1 @ out2)"
      using o1(1,2) o2(2) by (auto simp: row_out_def sorted_wrt_append)
    moreover have "in_row (out1 @ out2) x \<longleftrightarrow> in_row out1 x \<or> in_row out2 x" for x by (auto simp: in_row_def)
    ultimately show ?thesis
      using nd o1(3) o2 both by (intro exI [of _ "out1 @ out2"]) (auto simp: nx out1_def [symmetric])
  qed
qed

section \<open>The outer loop\<close>

text \<open>The spans of a list of rectangles as intervals.\<close>

function bands :: "Rect list \<Rightarrow> intervals" where
  "bands [] = []"
| "bands (r # rs) = (top r, bottom r) # bands (dropWhile (\<lambda>q. top q = top r) rs)"
  by pat_completeness auto
termination
  by (relation "measure length") (auto simp: le_imp_less_Suc length_dropWhile_le)

abbreviation rest_of :: "Rect list \<Rightarrow> Rect list" where
  "rest_of rs \<equiv> dropWhile (\<lambda>q. top q = top (hd rs)) rs"

lemma bands_tl: "rs \<noteq> [] \<Longrightarrow> tl (bands rs) = bands (rest_of rs)"
  by (cases rs) auto

lemma bands_Nil [simp]: "bands rs = [] \<longleftrightarrow> rs = []"
  by (cases rs) auto

lemma length_bands: "length (bands rs) \<le> length rs"
proof (induction rs rule: bands.induct)
  case (2 r rs)
  then show ?case using length_dropWhile_le [of "\<lambda>q. top q = top r" rs] by auto
qed simp

lemma wf_rects_Cons: "wf_rects (r # rs) \<longleftrightarrow> rect_ok r \<and> (\<forall>q \<in> set rs. follows r q) \<and> wf_rects rs"
  by (auto simp: wf_rects_def)

lemma wf_rects_dropWhile: "wf_rects rs \<Longrightarrow> wf_rects (dropWhile P rs)"
  by (induction rs) (auto simp: wf_rects_Cons)

text \<open>Everything after the first span starts below it.\<close>

lemma wf_rest_below:
  assumes "wf_rects (r # rs)" and "p \<in> set (dropWhile (\<lambda>q. top q = top r) rs)"
  shows "bottom r \<le> top p"
proof -
  have all: "\<forall>q \<in> set rs. follows r q" "wf_rects rs" using assms(1) by (auto simp: wf_rects_Cons)
  have f: "follows r p" using all(1) assms(2) by (meson set_dropWhileD)
  have "top r < top p"
  proof -
    obtain q qs where q: "dropWhile (\<lambda>q. top q = top r) rs = q # qs" using assms(2) by (cases "dropWhile (\<lambda>q. top q = top r) rs") auto
    then have "top q \<noteq> top r" using hd_dropWhile [of "\<lambda>q. top q = top r" rs] by simp
    moreover have "q \<in> set (dropWhile (\<lambda>q. top q = top r) rs)" by (simp add: q)
    then have "follows r q" using all(1) by (meson set_dropWhileD)
    ultimately have "top r < top q" by (auto simp: follows_def)
    moreover have "wf_rects (q # qs)" using wf_rects_dropWhile [OF all(2)] q by metis
    then have "p = q \<or> follows q p" using assms(2) q by (auto simp: wf_rects_Cons)
    ultimately show ?thesis by (auto simp: follows_def)
  qed
  then show ?thesis using f by (auto simp: follows_def)
qed

lemma bands_from: "(t, b) \<in> set (bands rs) \<Longrightarrow> \<exists>r \<in> set rs. t = top r \<and> b = bottom r"
  by (induction rs rule: bands.induct) (auto dest: set_dropWhileD)

lemma iv_ok_bands: "wf_rects rs \<Longrightarrow> iv_ok (bands rs)"
proof (induction rs rule: bands.induct)
  case (2 r rs)
  let ?d = "dropWhile (\<lambda>q. top q = top r) rs"
  have "wf_rects ?d" using "2.prems" wf_rects_dropWhile by (auto simp: wf_rects_Cons)
  then have ih: "iv_ok (bands ?d)" by (rule "2.IH")
  have "bottom r \<le> t" if "(t, b) \<in> set (bands ?d)" for t b
    using bands_from [OF that] wf_rest_below [OF "2.prems"] by blast
  moreover have "top r \<le> bottom r" "bottom r < max_value" using "2.prems" by (auto simp: wf_rects_Cons rect_ok_def)
  ultimately show ?case using ih by (auto simp: iv_ok_def)
qed (simp add: iv_ok_def)

lemma row_facts:
  assumes "wf_rects rs" and "rs \<noteq> []"
  shows "iv_ok (rowiv rs)" "rowiv rs \<noteq> []" "q \<in> set (row rs) \<Longrightarrow> top q = top (hd rs) \<and> bottom q = bottom (hd rs)"
proof -
  obtain r rs' where rs: "rs = r # rs'" using assms(2) by (cases rs) auto
  show "rowiv rs \<noteq> []" by (simp add: rowiv_def row_def rs)
  have same: "top q = top r \<and> bottom q = bottom r" if "q \<in> set (row rs)" for q
  proof -
    have "top q = top r" "q \<in> set rs" using that set_takeWhileD [of q] by (auto simp: row_def rs split: if_splits)
    then show ?thesis using assms(1) by (auto simp: rs wf_rects_Cons follows_def)
  qed
  then show "q \<in> set (row rs) \<Longrightarrow> top q = top (hd rs) \<and> bottom q = bottom (hd rs)" by (simp add: rs)
  have "sorted_wrt follows (row rs)" using assms(1) by (simp add: wf_rects_def row_def sorted_wrt_takeWhile)
  then have "sorted_wrt (\<lambda>p q. right p \<le> left q) (row rs)"
  proof (rule sorted_wrt_mono_rel [rotated])
    fix p q assume "p \<in> set (row rs)" "q \<in> set (row rs)" "follows p q"
    then show "right p \<le> left q" using same by (force simp: follows_def)
  qed
  moreover have "\<forall>q \<in> set (row rs). rect_ok q"
    using assms(1) set_takeWhileD by (fastforce simp: wf_rects_def row_def)
  ultimately show "iv_ok (rowiv rs)"
    by (auto simp: iv_ok_def rowiv_def rect_ok_def sorted_wrt_map)
qed

text \<open>The points at or below a line, split into the first span and the rest.\<close>

lemma pts_split:
  assumes "wf_rects rs" and "rs \<noteq> []" and "top (hd rs) \<le> h" and "h \<le> bottom (hd rs)"
  shows "(x, y) \<in> pts rs \<and> h \<le> y \<longleftrightarrow> (h \<le> y \<and> y < bottom (hd rs) \<and> in_iv (rowiv rs) x) \<or> (x, y) \<in> pts (rest_of rs)"
    and "(x, y) \<in> pts (rest_of rs) \<Longrightarrow> bottom (hd rs) \<le> y"
proof -
  have "set rs = set (row rs) \<union> set (rest_of rs)"
    by (metis row_def set_append takeWhile_dropWhile_id)
  then have "(x, y) \<in> pts rs \<longleftrightarrow> (\<exists>r \<in> set (row rs). covers r x y) \<or> (x, y) \<in> pts (rest_of rs)"
    by (auto simp: pts_def)
  moreover have "(\<exists>r \<in> set (row rs). covers r x y) \<longleftrightarrow> top (hd rs) \<le> y \<and> y < bottom (hd rs) \<and> in_iv (rowiv rs) x"
    using row_facts(3) [OF assms(1,2)] by (fastforce simp: covers_def in_iv_def rowiv_def)
  moreover have below: "(x, y) \<in> pts (rest_of rs) \<Longrightarrow> bottom (hd rs) \<le> y"
    using wf_rest_below [of "hd rs" "tl rs"] assms(1,2) by (cases rs) (fastforce simp: pts_def covers_def)+
  ultimately show "(x, y) \<in> pts rs \<and> h \<le> y \<longleftrightarrow>
      (h \<le> y \<and> y < bottom (hd rs) \<and> in_iv (rowiv rs) x) \<or> (x, y) \<in> pts (rest_of rs)"
    using assms(3,4) by auto
  show "(x, y) \<in> pts (rest_of rs) \<Longrightarrow> bottom (hd rs) \<le> y" by (rule below)
qed

definition outer_side :: "region \<Rightarrow> int \<Rightarrow> int \<Rightarrow> bool" where
  "outer_side reg h t \<longleftrightarrow> side h t (bands (rects reg)) \<and> wf_rects (rects reg) \<and> dx reg = 0 \<and> dy reg = 0"

lemma outer_advance_side:
  assumes "outer_side reg h t" and "rects reg \<noteq> []"
  shows "\<exists>reg'. outer_advance reg = (reg', start (tl (bands (rects reg)))) \<and> rects reg' = rest_of (rects reg) \<and>
    outer_side reg' (fst (start (bands (rects reg')))) (snd (start (bands (rects reg'))))"
proof -
  define rs where "rs = rest_of (rects reg)"
  have wf: "wf_rects rs" using assms(1) wf_rects_dropWhile by (simp add: outer_side_def rs_def)
  have "outer_advance reg = (reg\<lparr>rects := rs\<rparr>,
      case rs of [] \<Rightarrow> (max_value, max_value) | q # _ \<Rightarrow> (top q + dy reg, bottom q + dy reg))"
    by (simp add: outer_advance_def rs_def Let_def)
  then have "outer_advance reg = (reg\<lparr>rects := rs\<rparr>, start (bands rs))"
    using assms(1) by (cases rs) (simp_all add: outer_side_def start_def)
  then show ?thesis
    using wf side_start [OF iv_ok_bands [OF wf]] assms bands_tl [OF assms(2)]
    by (auto simp: outer_side_def rs_def)
qed

text \<open>The points of one side that the sweep has not passed yet.\<close>

definition todo :: "region \<Rightarrow> int \<Rightarrow> int \<Rightarrow> int \<Rightarrow> bool" where
  "todo reg h x y \<longleftrightarrow> (x, y) \<in> pts (rects reg) \<and> h \<le> y"

lemma pts_start:
  assumes "wf_rects rs" and "(x, y) \<in> pts rs"
  shows "fst (start (bands rs)) \<le> y"
proof -
  obtain q where q: "q \<in> set rs" "top q \<le> y" using assms(2) by (auto simp: pts_def covers_def)
  then obtain r rs' where rs: "rs = r # rs'" by (cases rs) auto
  have "top r \<le> top q" using q(1) assms(1) by (auto simp: rs wf_rects_Cons follows_def)
  then show ?thesis using q(2) by (simp add: rs start_def)
qed

text \<open>One step of the outer spanner, for one side.\<close>

lemma outer_step_side:
  assumes side: "outer_side reg h t" and h': "\<not> mv \<Longrightarrow> h' \<ge> h \<and> h' \<le> t"
    and adv: "mv \<Longrightarrow> rects reg \<noteq> []"
    and iff: "\<And>z. h \<le> z \<and> z < t \<longleftrightarrow> (sh \<le> z \<and> z < st \<and> ins) \<or> (\<not> mv \<and> h' \<le> z \<and> z < t)"
    and ne: "ins \<Longrightarrow> rects reg \<noteq> []"
    and le: "st \<le> t" "\<not> mv \<Longrightarrow> st \<le> h'"
    and reg': "if mv then outer_advance reg = (reg', start (tl (bands (rects reg)))) \<and> k = fst (start (tl (bands (rects reg))))
               else reg' = reg \<and> k = h'"
  shows "todo reg h x y \<longleftrightarrow> (sh \<le> y \<and> y < st \<and> ins \<and> in_iv (rowiv (rects reg)) x) \<or> todo reg' k x y"
    and "todo reg' k x y \<Longrightarrow> st \<le> y"
proof -
  have wf: "wf_rects (rects reg)" and sd: "side h t (bands (rects reg))" using side by (auto simp: outer_side_def)
  have main: "(todo reg h x y \<longleftrightarrow> (sh \<le> y \<and> y < st \<and> ins \<and> in_iv (rowiv (rects reg)) x) \<or> todo reg' k x y) \<and>
      (todo reg' k x y \<longrightarrow> st \<le> y)"
  proof (cases "rects reg = []")
    case True
    then have "\<not> mv" "\<not> ins" using adv ne by auto
    then show ?thesis using True reg' by (auto simp: todo_def pts_def)
  next
    case False
    then have hd: "top (hd (rects reg)) \<le> h" "h \<le> bottom (hd (rects reg))" "t = bottom (hd (rects reg))"
      using sd by (cases "rects reg"; simp add: side_def)+
    note sp = pts_split [OF wf False hd(1,2), of x y]
    have todo_h: "todo reg h x y \<longleftrightarrow> (h \<le> y \<and> y < t \<and> in_iv (rowiv (rects reg)) x) \<or> (x, y) \<in> pts (rest_of (rects reg))"
      using sp(1) hd(3) by (simp add: todo_def)
    have todo_k: "todo reg' k x y \<longleftrightarrow>
        (\<not> mv \<and> k \<le> y \<and> y < t \<and> in_iv (rowiv (rects reg)) x) \<or> (x, y) \<in> pts (rest_of (rects reg))"
    proof (cases mv)
      case True
      obtain r2 where r2: "outer_advance reg = (r2, start (tl (bands (rects reg))))" "rects r2 = rest_of (rects reg)"
        "wf_rects (rects r2)"
        using outer_advance_side [OF side False] by (auto simp: outer_side_def)
      then have "rects reg' = rest_of (rects reg)" "k = fst (start (bands (rest_of (rects reg))))"
        using True reg' bands_tl [OF False] by auto
      then show ?thesis using True pts_start [of "rest_of (rects reg)" x y] r2 by (auto simp: todo_def)
    next
      case nm: False
      then have k: "reg' = reg" "k = h'" using reg' by auto
      have "top (hd (rects reg)) \<le> h'" "h' \<le> bottom (hd (rects reg))" using h' [OF nm] hd by linarith+
      from pts_split(1) [OF wf False this, of x y] show ?thesis using nm hd(3) k by (simp add: todo_def)
    qed
    have P: "(x, y) \<in> pts (rest_of (rects reg)) \<Longrightarrow> st \<le> y" using sp(2) le(1) hd(3) by linarith
    have C: "\<not> mv \<and> k \<le> y \<and> y < t \<longleftrightarrow> \<not> mv \<and> h' \<le> y \<and> y < t" "\<not> mv \<Longrightarrow> k \<le> y \<Longrightarrow> st \<le> y"
      using reg' le(2) by auto
    show ?thesis
    proof
      show "todo reg h x y \<longleftrightarrow> (sh \<le> y \<and> y < st \<and> ins \<and> in_iv (rowiv (rects reg)) x) \<or> todo reg' k x y"
        unfolding todo_h todo_k using iff [of y] C(1) by argo
      show "todo reg' k x y \<longrightarrow> st \<le> y" unfolding todo_k using P C(2) by blast
    qed
  qed
  show "todo reg h x y \<longleftrightarrow> (sh \<le> y \<and> y < st \<and> ins \<and> in_iv (rowiv (rects reg)) x) \<or> todo reg' k x y"
    "todo reg' k x y \<Longrightarrow> st \<le> y" using main by auto
qed

text \<open>The inner loop of one span, started by \<open>prepare\<close>.\<close>

lemma inner_loop_prepared:
  assumes wf: "wf_rects (rects L)" "wf_rects (rects R)" "dx L = 0" "dx R = 0"
    and ins: "i \<in> {0, 1, 2}" "i \<noteq> 1 \<Longrightarrow> rects L \<noteq> []" "i \<noteq> 0 \<Longrightarrow> rects R \<noteq> []"
    and n: "2 * (length (rects L) + length (rects R)) + 1 \<le> n"
  shows "\<exists>out. inner_loop n op t b (prepare i (SpannerInner_ctor L R)) = Some out \<and> row_out t b out \<and>
    (\<forall>x. in_row out x \<longleftrightarrow> t < b \<and> sel op (i \<noteq> 1 \<and> in_iv (rowiv (rects L)) x) (i \<noteq> 0 \<and> in_iv (rowiv (rects R)) x))"
proof -
  define xs where "xs = (if i \<noteq> 1 then rowiv (rects L) else [])"
  define ys where "ys = (if i \<noteq> 0 then rowiv (rects R) else [])"
  obtain b0 where p: "prepare i (SpannerInner_ctor L R) = \<lparr>si_base = b0, si_lhs = L, si_rhs = R\<rparr>"
    and lb: "(lhs_head b0, lhs_tail b0) = start xs" and rb: "(rhs_head b0, rhs_tail b0) = start ys"
    using ins wf(3,4)
    by (auto simp: prepare_def SpannerInner_ctor_def SpannerBase_ctor_def load_lhs_def load_rhs_def xs_def ys_def
        lhs_before_rhs_def lhs_after_rhs_def start_def rowiv_def row_def neq_Nil_conv)
  have ok: "iv_ok xs" "iv_ok ys" using row_facts(1) wf(1,2) ins by (auto simp: xs_def ys_def iv_ok_def [of "[]"])
  have sides: "side (lhs_head b0) (lhs_tail b0) xs" "side (rhs_head b0) (rhs_tail b0) ys"
    using side_start [OF ok(1)] side_start [OF ok(2)] by (simp_all flip: lb rb)
  have l: "inner_side L (lhs_head b0) (lhs_tail b0) xs" and r: "inner_side R (rhs_head b0) (rhs_tail b0) ys"
    using sides ok wf(3,4) ins(2,3) by (auto simp: inner_side_def xs_def ys_def split: if_splits)
  have ne: "xs \<noteq> [] \<or> ys \<noteq> []" using row_facts(2) wf(1,2) ins by (auto simp: xs_def ys_def)
  have len: "length (rowiv rs) \<le> length rs" for rs by (simp add: rowiv_def row_def length_takeWhile_le)
  have "length xs \<le> length (rects L)" "length ys \<le> length (rects R)" using len by (auto simp: xs_def ys_def)
  then have m: "sweep_measure (lhs_head b0) xs (rhs_head b0) ys \<le> n" using n by (simp add: sweep_measure_def)
  have "in_iv xs x \<Longrightarrow> lhs_head b0 \<le> x" "in_iv ys x \<Longrightarrow> rhs_head b0 \<le> x" for x
    using in_iv_start [OF ok(1), of x] in_iv_start [OF ok(2), of x] by (auto simp flip: lb rb)
  then have "(in_iv xs x \<and> lhs_head b0 \<le> x) = (i \<noteq> 1 \<and> in_iv (rowiv (rects L)) x)"
    "(in_iv ys x \<and> rhs_head b0 \<le> x) = (i \<noteq> 0 \<and> in_iv (rowiv (rects R)) x)" for x
    by (auto simp: xs_def ys_def in_iv_def [of "[]"])
  then show ?thesis using inner_loop_correct [OF l r ne m, of op t b] unfolding p by simp
qed

definition spanner_ok :: "Spanner \<Rightarrow> bool" where
  "spanner_ok s \<longleftrightarrow> outer_side (sp_lhs s) (lhs_head (sp_base s)) (lhs_tail (sp_base s)) \<and>
     outer_side (sp_rhs s) (rhs_head (sp_base s)) (rhs_tail (sp_base s))"

definition sp_measure :: "Spanner \<Rightarrow> nat" where
  "sp_measure s = sweep_measure (lhs_head (sp_base s)) (bands (rects (sp_lhs s))) (rhs_head (sp_base s)) (bands (rects (sp_rhs s)))"

lemma sp_next_step:
  assumes ok: "spanner_ok s" and nd: "\<not> sp_isDone s" and n: "base_next (sp_base s) = (g, b)"
    and eq: "sp_next s = (i, h, t, s')"
  shows "i = sg_inside g" "h = sg_head g" "t = sg_tail g" "spanner_ok s'" "sp_measure s' < sp_measure s"
    "i \<noteq> 1 \<Longrightarrow> rects (sp_lhs s) \<noteq> []" "i \<noteq> 0 \<Longrightarrow> rects (sp_rhs s) \<noteq> []"
    "todo (sp_lhs s) (lhs_head (sp_base s)) x y \<longleftrightarrow>
        (h \<le> y \<and> y < t \<and> i \<noteq> 1 \<and> in_iv (rowiv (rects (sp_lhs s))) x) \<or> todo (sp_lhs s') (lhs_head (sp_base s')) x y"
    "todo (sp_lhs s') (lhs_head (sp_base s')) x y \<Longrightarrow> t \<le> y"
    "todo (sp_rhs s) (rhs_head (sp_base s)) x y \<longleftrightarrow>
        (h \<le> y \<and> y < t \<and> i \<noteq> 0 \<and> in_iv (rowiv (rects (sp_rhs s))) x) \<or> todo (sp_rhs s') (rhs_head (sp_base s')) x y"
    "todo (sp_rhs s') (rhs_head (sp_base s')) x y \<Longrightarrow> t \<le> y"
proof -
  define L R b0 where "L = sp_lhs s" and "R = sp_rhs s" and "b0 = sp_base s"
  have ol: "outer_side L (lhs_head b0) (lhs_tail b0)" and orr: "outer_side R (rhs_head b0) (rhs_tail b0)"
    and n: "base_next b0 = (g, b)" and ne: "bands (rects L) \<noteq> [] \<or> bands (rects R) \<noteq> []"
    using ok nd n by (auto simp: spanner_ok_def sp_isDone_def L_def R_def b0_def)
  have sl: "side (lhs_head b0) (lhs_tail b0) (bands (rects L))" "iv_ok (bands (rects L))"
    and sr: "side (rhs_head b0) (rhs_tail b0) (bands (rects R))" "iv_ok (bands (rects R))"
    using ol orr iv_ok_bands by (auto simp: outer_side_def)
  note sp = base_next_spec [OF n side_bounds(1) [OF sl] side_bounds(1) [OF sr]]
  note st = sweep_step [OF n sl sr ne]
  have nel: "sg_more_lhs g \<Longrightarrow> rects L \<noteq> []" "sg_inside g \<noteq> 1 \<Longrightarrow> rects L \<noteq> []"
    and ner: "sg_more_rhs g \<Longrightarrow> rects R \<noteq> []" "sg_inside g \<noteq> 0 \<Longrightarrow> rects R \<noteq> []"
    using st(1-4) by auto
  define kl kr where "kl = start (tl (bands (rects L)))" and "kr = start (tl (bands (rects R)))"
  define L1 where "L1 = (if sg_more_lhs g then fst (outer_advance L) else L)"
  define R1 where "R1 = (if sg_more_rhs g then fst (outer_advance R) else R)"
  define b1 where "b1 = (if sg_more_lhs g then b\<lparr>lhs_head := fst kl, lhs_tail := snd kl\<rparr> else b)"
  define b2 where "b2 = (if sg_more_rhs g then b1\<lparr>rhs_head := fst kr, rhs_tail := snd kr\<rparr> else b1)"
  have al: "outer_advance L = (L1, kl) \<and> rects L1 = rest_of (rects L) \<and> bands (rects L1) = tl (bands (rects L)) \<and>
      outer_side L1 (fst kl) (snd kl)" if "sg_more_lhs g"
    using outer_advance_side [OF ol nel(1) [OF that]] bands_tl [OF nel(1) [OF that]] that by (auto simp: L1_def kl_def)
  have ar: "outer_advance R = (R1, kr) \<and> rects R1 = rest_of (rects R) \<and> bands (rects R1) = tl (bands (rects R)) \<and>
      outer_side R1 (fst kr) (snd kr)" if "sg_more_rhs g"
    using outer_advance_side [OF orr ner(1) [OF that]] bands_tl [OF ner(1) [OF that]] that by (auto simp: R1_def kr_def)
  have keep: "\<not> sg_more_lhs g \<Longrightarrow> L1 = L" "\<not> sg_more_rhs g \<Longrightarrow> R1 = R" by (simp_all add: L1_def R1_def)
  have nx: "sp_next s = (sg_inside g, sg_head g, sg_tail g, \<lparr>sp_base = b2, sp_lhs = L1, sp_rhs = R1\<rparr>)"
    using keep unfolding sp_next_def Let_def b0_def [symmetric] n
    by (cases "sg_more_lhs g"; cases "sg_more_rhs g")
      (simp_all add: b1_def b2_def al [THEN conjunct1] ar [THEN conjunct1] case_prod_beta flip: L_def R_def)
  have iht: "i = sg_inside g" "h = sg_head g" "t = sg_tail g" and s'_def: "s' = \<lparr>sp_base = b2, sp_lhs = L1, sp_rhs = R1\<rparr>"
    using nx eq by auto
  have hl: "lhs_head b2 = (if sg_more_lhs g then fst kl else lhs_head b)"
    and hr: "rhs_head b2 = (if sg_more_rhs g then fst kr else rhs_head b)" by (simp_all add: b1_def b2_def)
  have kol: "outer_side L (lhs_head b) (lhs_tail b)" if "\<not> sg_more_lhs g"
    using ol sp(4,9) that by (auto simp: outer_side_def side_def split: list.splits)
  have kor: "outer_side R (rhs_head b) (rhs_tail b)" if "\<not> sg_more_rhs g"
    using orr sp(5,10) that by (auto simp: outer_side_def side_def split: list.splits)
  show "spanner_ok s'"
    using al ar kol kor keep by (auto simp: spanner_ok_def s'_def b1_def b2_def)
  show "sp_measure s' < sp_measure s"
    using st(5) [of "lhs_head b2" "bands (rects L1)" "rhs_head b2" "bands (rects R1)"] al ar keep
    by (auto simp: sp_measure_def s'_def adv_def hl hr kl_def kr_def L_def [symmetric] R_def [symmetric] b0_def [symmetric])
  show "i = sg_inside g" "h = sg_head g" "t = sg_tail g" by (fact iht)+
  show "i \<noteq> 1 \<Longrightarrow> rects (sp_lhs s) \<noteq> []" "i \<noteq> 0 \<Longrightarrow> rects (sp_rhs s) \<noteq> []"
    using nel(2) ner(2) iht(1) by (simp_all add: L_def R_def)
  have rl: "if sg_more_lhs g then outer_advance L = (L1, start (tl (bands (rects L)))) \<and> lhs_head b2 = fst (start (tl (bands (rects L))))
      else L1 = L \<and> lhs_head b2 = lhs_head b" using al keep(1) hl by (simp add: kl_def)
  have rr: "if sg_more_rhs g then outer_advance R = (R1, start (tl (bands (rects R)))) \<and> rhs_head b2 = fst (start (tl (bands (rects R))))
      else R1 = R \<and> rhs_head b2 = rhs_head b" using ar keep(2) hr by (simp add: kr_def)
  have ml: "\<not> sg_more_lhs g \<Longrightarrow> lhs_head b \<ge> lhs_head b0 \<and> lhs_head b \<le> lhs_tail b0" "\<not> sg_more_lhs g \<Longrightarrow> sg_tail g \<le> lhs_head b"
    and mr: "\<not> sg_more_rhs g \<Longrightarrow> rhs_head b \<ge> rhs_head b0 \<and> rhs_head b \<le> rhs_tail b0" "\<not> sg_more_rhs g \<Longrightarrow> sg_tail g \<le> rhs_head b"
    using sp(9,10) by auto
  note tl = outer_step_side [OF ol ml(1) nel(1) sp(7) nel(2) sp(2) ml(2) rl]
  note tr = outer_step_side [OF orr mr(1) ner(1) sp(8) ner(2) sp(3) mr(2) rr]
  show "todo (sp_lhs s) (lhs_head (sp_base s)) x y \<longleftrightarrow>
        (h \<le> y \<and> y < t \<and> i \<noteq> 1 \<and> in_iv (rowiv (rects (sp_lhs s))) x) \<or> todo (sp_lhs s') (lhs_head (sp_base s')) x y"
    using tl(1) [of x y] unfolding iht s'_def L_def b0_def by simp
  show "todo (sp_lhs s') (lhs_head (sp_base s')) x y \<Longrightarrow> t \<le> y"
    using tl(2) [of x y] unfolding iht s'_def by simp
  show "todo (sp_rhs s) (rhs_head (sp_base s)) x y \<longleftrightarrow>
        (h \<le> y \<and> y < t \<and> i \<noteq> 0 \<and> in_iv (rowiv (rects (sp_rhs s))) x) \<or> todo (sp_rhs s') (rhs_head (sp_base s')) x y"
    using tr(1) [of x y] unfolding iht s'_def R_def b0_def by simp
  show "todo (sp_rhs s') (rhs_head (sp_base s')) x y \<Longrightarrow> t \<le> y"
    using tr(2) [of x y] unfolding iht s'_def by simp
qed

text \<open>What the operator hands to the rasterizer: nonempty rectangles in order.\<close>

definition sorted_out :: "Rect list \<Rightarrow> bool" where
  "sorted_out out \<longleftrightarrow> (\<forall>r \<in> set out. left r < right r \<and> top r < bottom r) \<and> sorted_wrt follows out"

lemma row_out_pts: "row_out t b out \<Longrightarrow> (x, y) \<in> pts out \<longleftrightarrow> t \<le> y \<and> y < b \<and> in_row out x"
  by (fastforce simp: row_out_def pts_def covers_def in_row_def)

lemma row_out_sorted: "row_out t b out \<Longrightarrow> sorted_out out"
  unfolding row_out_def sorted_out_def
  by (auto simp: follows_def elim!: sorted_wrt_mono_rel [rotated])

lemma outer_loop_correct:
  assumes "spanner_ok s" and "\<not> sp_isDone s" and "sp_measure s \<le> n"
  shows "\<exists>out. outer_loop n op s = Some out \<and> sorted_out out \<and>
    (\<forall>x y. (x, y) \<in> pts out \<longleftrightarrow>
       sel op (todo (sp_lhs s) (lhs_head (sp_base s)) x y) (todo (sp_rhs s) (rhs_head (sp_base s)) x y))"
  using assms
proof (induction n arbitrary: s)
  case 0
  then show ?case
    by (cases "rects (sp_lhs s)"; cases "rects (sp_rhs s)") (auto simp: sp_measure_def sweep_measure_def sp_isDone_def)
next
  case (Suc n)
  obtain g b where g: "base_next (sp_base s) = (g, b)" by (cases "base_next (sp_base s)")
  obtain i h t s' where eq: "sp_next s = (i, h, t, s')" by (metis prod_cases4)
  note step = sp_next_step [OF Suc.prems(1,2) g eq]
  have nx: "sp_next s = (sg_inside g, sg_head g, sg_tail g, s')" using eq step(1-3) by simp
  note ok' = step(4) and m = step(5) and ne = step(6,7) [unfolded step(1)] and L = step(8,9) [unfolded step(1-3)]
    and R = step(10,11) [unfolded step(1-3)]
  have os: "outer_side (sp_lhs s) (lhs_head (sp_base s)) (lhs_tail (sp_base s))"
    "outer_side (sp_rhs s) (rhs_head (sp_base s)) (rhs_tail (sp_base s))"
    using Suc.prems(1) by (auto simp: spanner_ok_def)
  then have wf: "wf_rects (rects (sp_lhs s))" "wf_rects (rects (sp_rhs s))" "dx (sp_lhs s) = 0" "dx (sp_rhs s) = 0"
    and tails: "lhs_head (sp_base s) \<le> lhs_tail (sp_base s)" "rhs_head (sp_base s) \<le> rhs_tail (sp_base s)"
    using side_bounds(1) iv_ok_bands by (auto simp: outer_side_def)
  have i: "sg_inside g \<in> {0, 1, 2}" using base_next_spec(6) [OF g tails] .
  obtain out1 where o1: "inner_loop (inner_fuel s) op (sg_head g) (sg_tail g)
      (prepare (sg_inside g) (SpannerInner_ctor (sp_lhs s) (sp_rhs s))) = Some out1"
    "row_out (sg_head g) (sg_tail g) out1"
    "\<And>x. in_row out1 x \<longleftrightarrow> sg_head g < sg_tail g \<and> sel op (sg_inside g \<noteq> 1 \<and> in_iv (rowiv (rects (sp_lhs s))) x)
        (sg_inside g \<noteq> 0 \<and> in_iv (rowiv (rects (sp_rhs s))) x)"
    using inner_loop_prepared [OF wf i ne, of "inner_fuel s" op "sg_head g" "sg_tail g"] by (auto simp: inner_fuel_def)
  have p1: "(x, y) \<in> pts out1 \<longleftrightarrow> sg_head g \<le> y \<and> y < sg_tail g \<and>
      sel op (todo (sp_lhs s) (lhs_head (sp_base s)) x y) (todo (sp_rhs s) (rhs_head (sp_base s)) x y)" for x y
  proof (cases "sg_head g \<le> y \<and> y < sg_tail g")
    case True
    then have f: "todo (sp_lhs s') (lhs_head (sp_base s')) x y = False" "todo (sp_rhs s') (rhs_head (sp_base s')) x y = False"
      using L(2) [of x y] R(2) [of x y] by auto
    show ?thesis unfolding row_out_pts [OF o1(2)] o1(3) L(1) R(1) f using True by simp
  next
    case False
    then show ?thesis using row_out_pts [OF o1(2)] by blast
  qed
  have later: "sel op (todo (sp_lhs s) (lhs_head (sp_base s)) x y) (todo (sp_rhs s) (rhs_head (sp_base s)) x y) \<longleftrightarrow>
      (x, y) \<in> pts out1 \<or> sel op (todo (sp_lhs s') (lhs_head (sp_base s')) x y) (todo (sp_rhs s') (rhs_head (sp_base s')) x y)" for x y
  proof (cases "sg_head g \<le> y \<and> y < sg_tail g")
    case True
    then have f: "todo (sp_lhs s') (lhs_head (sp_base s')) x y = False" "todo (sp_rhs s') (rhs_head (sp_base s')) x y = False"
      using L(2) [of x y] R(2) [of x y] by auto
    show ?thesis unfolding p1 f using True by simp
  next
    case False
    then have nf: "(sg_head g \<le> y \<and> y < sg_tail g \<and> P) = False" for P by blast
    show ?thesis unfolding p1 nf L(1) R(1) by simp
  qed
  show ?case
  proof (cases "sp_isDone s'")
    case True
    then have "\<not> todo (sp_lhs s') h x y" "\<not> todo (sp_rhs s') h x y" for h x y by (auto simp: sp_isDone_def todo_def pts_def)
    then show ?thesis
      using True o1(1) row_out_sorted [OF o1(2)] later by (intro exI [of _ out1]) (simp add: nx)
  next
    case False
    from Suc.IH [OF ok' False] m Suc.prems(3) obtain out2 where o2: "outer_loop n op s' = Some out2" "sorted_out out2"
      "\<And>x y. (x, y) \<in> pts out2 \<longleftrightarrow>
        sel op (todo (sp_lhs s') (lhs_head (sp_base s')) x y) (todo (sp_rhs s') (rhs_head (sp_base s')) x y)"
      by auto
    have "sg_tail g \<le> top q" if "q \<in> set out2" for q
    proof -
      have "(left q, top q) \<in> pts out2" using that o2(2) by (auto simp: pts_def covers_def sorted_out_def intro!: bexI [of _ q])
      then show ?thesis unfolding o2(3) using L(2) R(2) by (auto simp: sel_def)
    qed
    then have "sorted_out (out1 @ out2)"
      using row_out_sorted [OF o1(2)] o1(2) o2(2)
      by (fastforce simp: sorted_out_def sorted_wrt_append row_out_def follows_def)
    moreover have "(x, y) \<in> pts (out1 @ out2) \<longleftrightarrow> (x, y) \<in> pts out1 \<or> (x, y) \<in> pts out2" for x y by (auto simp: pts_def)
    ultimately show ?thesis
      using False o1(1) o2 later by (intro exI [of _ "out1 @ out2"]) (simp add: nx)
  qed
qed

text \<open>
  The sweep on two well-formed lists, not both empty: it ends within its fuel, and the emitted
  rectangles cover exactly the selected points.
\<close>

lemma region_operator_correct:
  assumes "wf_rects ls" and "wf_rects rs" and "ls \<noteq> [] \<or> rs \<noteq> []"
  shows "\<exists>out. region_operator op \<lparr>rects = ls, dx = 0, dy = 0\<rparr> \<lparr>rects = rs, dx = 0, dy = 0\<rparr> = Some out \<and>
    sorted_out out \<and> (\<forall>x y. (x, y) \<in> pts out \<longleftrightarrow> sel op ((x, y) \<in> pts ls) ((x, y) \<in> pts rs))"
proof -
  define s where "s = Spanner_ctor \<lparr>rects = ls, dx = 0, dy = 0\<rparr> \<lparr>rects = rs, dx = 0, dy = 0\<rparr>"
  have s: "rects (sp_lhs s) = ls" "rects (sp_rhs s) = rs"
    "(lhs_head (sp_base s), lhs_tail (sp_base s)) = start (bands ls)"
    "(rhs_head (sp_base s), rhs_tail (sp_base s)) = start (bands rs)"
    "dx (sp_lhs s) = 0" "dy (sp_lhs s) = 0" "dx (sp_rhs s) = 0" "dy (sp_rhs s) = 0"
    by (cases ls; cases rs; simp add: s_def Spanner_ctor_def SpannerBase_ctor_def start_def Let_def)+
  have sides: "side (lhs_head (sp_base s)) (lhs_tail (sp_base s)) (bands ls)"
    "side (rhs_head (sp_base s)) (rhs_tail (sp_base s)) (bands rs)"
    using side_start [OF iv_ok_bands [OF assms(1)]] side_start [OF iv_ok_bands [OF assms(2)]] by (simp_all flip: s(3,4))
  have ok: "spanner_ok s" using sides s assms by (simp add: spanner_ok_def outer_side_def)
  have nd: "\<not> sp_isDone s" using s assms(3) by (auto simp: sp_isDone_def)
  have m: "sp_measure s \<le> 2 * (length ls + length rs) + 1"
    using length_bands [of ls] length_bands [of rs] by (simp add: sp_measure_def sweep_measure_def s)
  have "todo (sp_lhs s) (lhs_head (sp_base s)) x y \<longleftrightarrow> (x, y) \<in> pts ls"
    "todo (sp_rhs s) (rhs_head (sp_base s)) x y \<longleftrightarrow> (x, y) \<in> pts rs" for x y
    using pts_start [OF assms(1), of x y] pts_start [OF assms(2), of x y] by (auto simp: todo_def s(1,2) simp flip: s(3,4))
  then show ?thesis
    using outer_loop_correct [OF ok nd m, of op] by (simp add: region_operator_def s_def)
qed

end
