(* ===== verification/RegionCorrect.thy ===== *)
theory RegionCorrect
  imports RegionSweep
begin

text \<open>
  Correctness of the rasterizer and of the exported region operations: the stored rectangles are
  in the order the driver and the next operation rely on, cover exactly the union or the
  difference, and the bounds at the end of the storage are tight.
\<close>

section \<open>The vector\<close>

lemma mArr_reserve [simp]: "mArr (reserve n v) = mArr v"
  by (simp add: reserve_def)

lemma mArr_push_back [simp]: "mArr (vec_push_back r v) = mArr v @ [r]"
  by (simp add: vec_push_back_def Let_def)

lemma mArr_clear [simp]: "mArr (vec_clear v) = []"
  by (simp add: vec_clear_def)

lemma mArr_insert [simp]: "mArr (vec_insert i rs v) = take i (mArr v) @ rs @ drop i (mArr v)"
  by (simp add: vec_insert_def Let_def)

lemma mArr_ctor [simp]: "mArr NRectVector_ctor = []"
  by (simp add: NRectVector_ctor_def)

text \<open>The allocation always has room for the elements.\<close>

definition vec_ok :: "NRectVector \<Rightarrow> bool" where
  "vec_ok v \<longleftrightarrow> length (mArr v) \<le> mCapacity v"

lemma grow_cap_ge: "0 < cap \<Longrightarrow> n \<le> grow_cap cap n"
proof (induction cap n rule: grow_cap.induct)
  case (1 cap n)
  then show ?case by (cases "cap < n") (auto simp: grow_cap.simps [of cap n])
qed

lemma reserve_ge: "n \<le> mCapacity (reserve n v)" "mCapacity v \<le> mCapacity (reserve n v)"
  using grow_cap_ge [of "mCapacity v" n] grow_cap_ge [of 4 n] by (auto simp: reserve_def)

lemma vec_ok_ops [inv_intros]:
  "vec_ok NRectVector_ctor" "vec_ok v \<Longrightarrow> vec_ok (vec_clear v)" "vec_ok v \<Longrightarrow> vec_ok (vec_push_back r v)"
  "vec_ok v \<Longrightarrow> vec_ok (vec_insert i rs v)"
  using reserve_ge(1) [of "length (mArr v) + 1" v] reserve_ge(1) [of "length (mArr v) + length rs" v]
  by (auto simp: vec_ok_def NRectVector_ctor_def vec_clear_def vec_push_back_def vec_insert_def Let_def)

section \<open>The rasterizer\<close>

abbreviation stored :: "rasterizer \<Rightarrow> Rect list" where "stored z \<equiv> mArr (rz_storage z)"
abbreviation span_of :: "rasterizer \<Rightarrow> Rect list" where "span_of z \<equiv> mArr (rz_span z)"

definition one_span :: "Rect list \<Rightarrow> bool" where
  "one_span rs \<longleftrightarrow> (\<exists>t b. \<forall>r \<in> set rs. top r = t \<and> bottom r = b)"

definition box_of :: "Rect list \<Rightarrow> Rect \<Rightarrow> bool" where
  "box_of rs b \<longleftrightarrow> left b = Min (insert INT32_MAX (left ` set rs)) \<and> right b = Max (insert INT32_MIN (right ` set rs))"

text \<open>The storage: sorted, its last flushed span from \<open>rz_head\<close> on, the bounds in x.\<close>

definition storage_inv :: "rasterizer \<Rightarrow> bool" where
  "storage_inv z \<longleftrightarrow> rz_tail z = length (stored z) \<and> (if stored z = [] then rz_head z = 0 else rz_head z < length (stored z)) \<and>
     one_span (drop (rz_head z) (stored z)) \<and>
     (\<forall>q \<in> set (take (rz_head z) (stored z)). \<forall>r \<in> set (drop (rz_head z) (stored z)). top q \<noteq> top r) \<and>
     sorted_out (stored z) \<and> box_of (stored z) (rz_bounds z) \<and> top (rz_bounds z) = 0 \<and> bottom (rz_bounds z) = 0"

definition raster_inv :: "Rect list \<Rightarrow> rasterizer \<Rightarrow> bool" where
  "raster_inv done z \<longleftrightarrow> storage_inv z \<and> one_span (span_of z) \<and> sorted_out (stored z @ span_of z) \<and>
     (\<forall>q \<in> set (stored z). \<forall>p \<in> set (span_of z). top q \<noteq> top p) \<and> pts (stored z @ span_of z) = pts done \<and>
     (done = [] \<longrightarrow> span_of z = []) \<and>
     (done \<noteq> [] \<longrightarrow> span_of z \<noteq> [] \<and> top (last (span_of z)) = top (last done) \<and>
        bottom (last (span_of z)) = bottom (last done) \<and> right (last (span_of z)) = right (last done))"

lemma pts_append: "pts (a @ b) = pts a \<union> pts b"
  by (auto simp: pts_def)

lemma one_spanD: "one_span rs \<Longrightarrow> r \<in> set rs \<Longrightarrow> q \<in> set rs \<Longrightarrow> top r = top q \<and> bottom r = bottom q"
  by (auto simp: one_span_def)

lemma sorted_out_append:
  "sorted_out (a @ b) \<longleftrightarrow> sorted_out a \<and> sorted_out b \<and> (\<forall>q \<in> set a. \<forall>r \<in> set b. follows q r)"
  by (auto simp: sorted_out_def sorted_wrt_append)

lemma span_ends:
  assumes "sorted_out p" and "one_span p" and "p \<noteq> []"
  shows "Min (left ` set p) = left (hd p)" "Max (right ` set p) = right (last p)"
proof -
  have fl: "right r \<le> left q" if "follows r q" "r \<in> set p" "q \<in> set p" for r q
    using that(1) one_spanD [OF assms(2) that(2,3)] by (auto simp: follows_def)
  have ne: "\<forall>r \<in> set p. left r < right r" using assms(1) by (simp add: sorted_out_def)
  have "left (hd p) \<le> left q" if "q \<in> set p" for q
  proof (cases "q = hd p")
    case False
    then have "follows (hd p) q" using that assms(1,3) by (cases p) (auto simp: sorted_out_def)
    then have "right (hd p) \<le> left q" using fl that assms(3) by simp
    moreover have "left (hd p) < right (hd p)" using ne assms(3) by simp
    ultimately show ?thesis by linarith
  qed simp
  then show "Min (left ` set p) = left (hd p)" using assms(3) by (intro Min_eqI) auto
  have "right q \<le> right (last p)" if "q \<in> set p" for q
  proof (cases "q = last p")
    case False
    have "set p = insert (last p) (set (butlast p))"
      using assms(3) by (metis append_butlast_last_id list.simps(15) rotate1.simps(2) set_rotate1)
    then have "q \<in> set (butlast p)" using that False by auto
    moreover have "sorted_out (butlast p @ [last p])" using assms(1,3) by simp
    ultimately have "follows q (last p)" by (simp add: sorted_out_append)
    then have "right q \<le> left (last p)" using fl that assms(3) by simp
    moreover have "left (last p) < right (last p)" using ne assms(3) by simp
    ultimately show ?thesis by linarith
  qed simp
  then show "Max (right ` set p) = right (last p)" using assms(3) by (intro Max_eqI) auto
qed

lemma box_of_append:
  assumes "box_of s b" and "sorted_out p" and "one_span p" and "p \<noteq> []"
  shows "box_of (s @ p) (b\<lparr>left := min (left (hd p)) (left b), right := max (right (last p)) (right b)\<rparr>)"
proof -
  have "Min (insert INT32_MAX (left ` set (s @ p))) = min (Min (insert INT32_MAX (left ` set s))) (Min (left ` set p))"
    using assms(4) Min.union [of "insert INT32_MAX (left ` set s)" "left ` set p"] by (simp add: image_Un)
  moreover have "Max (insert INT32_MIN (right ` set (s @ p))) = max (Max (insert INT32_MIN (right ` set s))) (Max (right ` set p))"
    using assms(4) Max.union [of "insert INT32_MIN (right ` set s)" "right ` set p"] by (simp add: image_Un)
  ultimately show ?thesis
    using assms(1) span_ends [OF assms(2,3,4)] by (simp add: box_of_def min.commute max.commute)
qed

text \<open>Growing the last span downwards by an adjacent span with the same columns.\<close>

lemma merge_span:
  assumes srt: "sorted_out (a @ s @ p)" and spans: "one_span s" "one_span p" and ne: "p \<noteq> []"
    and cols: "list_all2 (\<lambda>p q. left p = left q \<and> right p = right q) p s"
    and adj: "top (hd p) = bottom (hd s)"
    and apart: "\<forall>q \<in> set a. \<forall>r \<in> set s. top q \<noteq> top r"
  defines "m \<equiv> map (\<lambda>r. r\<lparr>bottom := bottom (hd p)\<rparr>) s"
  shows "sorted_out (a @ m)" "one_span m" "pts (a @ m) = pts (a @ s @ p)" "left ` set m = left ` set s" "right ` set m = right ` set s"
    "\<forall>r \<in> set m. bottom r = bottom (hd p)" "\<forall>q \<in> set a. \<forall>r \<in> set m. top q \<noteq> top r"
proof -
  have sne: "s \<noteq> []" using ne cols by (cases s) auto
  have ss: "sorted_out a" "sorted_out s" "sorted_out p" "\<forall>q \<in> set a. \<forall>r \<in> set s. follows q r"
    using srt by (auto simp: sorted_out_append)
  have ts: "top r = top (hd s)" "bottom r = bottom (hd s)" if "r \<in> set s" for r
    using one_spanD [OF spans(1) that, of "hd s"] sne by auto
  have tp: "top r = top (hd p)" "bottom r = bottom (hd p)" if "r \<in> set p" for r
    using one_spanD [OF spans(2) that, of "hd p"] ne by auto
  have ord: "top (hd s) < bottom (hd s)" "top (hd p) < bottom (hd p)"
    using ss sne ne by (auto simp: sorted_out_def)
  show "left ` set m = left ` set s" "right ` set m = right ` set s" by (simp_all add: m_def image_image)
  show "\<forall>r \<in> set m. bottom r = bottom (hd p)" by (simp add: m_def)
  show "\<forall>q \<in> set a. \<forall>r \<in> set m. top q \<noteq> top r" using apart by (simp add: m_def)
  show "one_span m" unfolding one_span_def
    using ts(1) by (intro exI [of _ "top (hd s)"] exI [of _ "bottom (hd p)"]) (auto simp: m_def)
  have "follows q (r\<lparr>bottom := bottom (hd p)\<rparr>)" if "q \<in> set a" "r \<in> set s" for q r
    using ss(4) apart that by (fastforce simp: follows_def)
  moreover have grow: "follows (r\<lparr>bottom := bottom (hd p)\<rparr>) (q\<lparr>bottom := bottom (hd p)\<rparr>)"
    if "r \<in> set s" "q \<in> set s" "follows r q" for r q
    using that(3) ts(1) [OF that(1)] ts(1) [OF that(2)] by (auto simp: follows_def)
  have "sorted_wrt follows s" using ss(2) by (simp add: sorted_out_def)
  then have "sorted_wrt follows m"
    unfolding m_def sorted_wrt_map by (rule sorted_wrt_mono_rel [rotated]) (rule grow)
  ultimately show "sorted_out (a @ m)"
    using ss(1,2) ord adj ts by (auto simp: sorted_out_def sorted_wrt_append m_def)
  have col: "(\<exists>r \<in> set p. left r \<le> x \<and> x < right r) \<longleftrightarrow> (\<exists>r \<in> set s. left r \<le> x \<and> x < right r)" for x
  proof -
    have n: "length p = length s" "\<And>i. i < length s \<Longrightarrow> left (p ! i) = left (s ! i) \<and> right (p ! i) = right (s ! i)"
      using cols by (auto simp: list_all2_conv_all_nth)
    have "(\<exists>r \<in> set p. left r \<le> x \<and> x < right r) \<longleftrightarrow> (\<exists>i < length s. left (p ! i) \<le> x \<and> x < right (p ! i))"
      using n(1) by (metis in_set_conv_nth)
    moreover have "(\<exists>r \<in> set s. left r \<le> x \<and> x < right r) \<longleftrightarrow> (\<exists>i < length s. left (s ! i) \<le> x \<and> x < right (s ! i))"
      by (metis in_set_conv_nth)
    ultimately show ?thesis using n(2) by auto
  qed
  have "(x, y) \<in> pts m \<longleftrightarrow> (x, y) \<in> pts s \<or> (x, y) \<in> pts p" for x y
  proof -
    have "(x, y) \<in> pts m \<longleftrightarrow> (\<exists>r \<in> set s. left r \<le> x \<and> x < right r) \<and> top (hd s) \<le> y \<and> y < bottom (hd p)"
      using ts(1) by (auto simp: pts_def covers_def m_def)
    moreover have "(x, y) \<in> pts s \<longleftrightarrow> (\<exists>r \<in> set s. left r \<le> x \<and> x < right r) \<and> top (hd s) \<le> y \<and> y < bottom (hd s)"
      using ts by (auto simp: pts_def covers_def)
    moreover have "(x, y) \<in> pts p \<longleftrightarrow> (\<exists>r \<in> set p. left r \<le> x \<and> x < right r) \<and> top (hd p) \<le> y \<and> y < bottom (hd p)"
      using tp by (auto simp: pts_def covers_def)
    ultimately show ?thesis using col ord adj by auto
  qed
  then show "pts (a @ m) = pts (a @ s @ p)" by (auto simp: pts_append)
qed

lemma flushSpan_inv:
  assumes inv: "raster_inv done z" and ne: "span_of z \<noteq> []"
  shows "storage_inv (flushSpan z)" "span_of (flushSpan z) = []" "stored (flushSpan z) \<noteq> []"
    "pts (stored (flushSpan z)) = pts done" "\<forall>q \<in> set (stored (flushSpan z)). bottom q \<le> bottom (last (span_of z))"
proof -
  define S P a s where "S = stored z" and "P = span_of z" and "a = take (rz_head z) S" and "s = drop (rz_head z) S"
  have S: "S = a @ s" by (simp add: a_def s_def)
  have st: "rz_tail z = length S" "if S = [] then rz_head z = 0 else rz_head z < length S" "one_span s"
    "\<forall>q \<in> set a. \<forall>r \<in> set s. top q \<noteq> top r" "sorted_out S" "box_of S (rz_bounds z)"
    "top (rz_bounds z) = 0" "bottom (rz_bounds z) = 0"
    using inv by (auto simp: raster_inv_def storage_inv_def S_def a_def s_def)
  have sp: "one_span P" "sorted_out (S @ P)" "\<forall>q \<in> set S. \<forall>p \<in> set P. top q \<noteq> top p" "pts (S @ P) = pts done" "P \<noteq> []"
    using inv ne by (auto simp: raster_inv_def S_def P_def)
  have bP: "bottom p = bottom (last P)" if "p \<in> set P" for p using one_spanD [OF sp(1) that, of "last P"] sp(5) by auto
  have lens: "rz_tail z - rz_head z = length s" using st(1) by (simp add: s_def S_def)
  have last_s: "take (length s) (drop (rz_head z) (stored z)) = s" by (simp add: s_def S_def)
  have below: "bottom q \<le> top p" if "q \<in> set S" "p \<in> set P" for q p
    using sp(2,3) that unfolding sorted_out_append follows_def by metis
  have below': "bottom q \<le> bottom (last P)" if "q \<in> set S" for q
  proof -
    have "top (last P) < bottom (last P)" using sp(2,5) by (simp add: sorted_out_def)
    then show ?thesis using below [OF that, of "last P"] sp(5) by simp
  qed
  define merge where "merge \<longleftrightarrow> length s = length P \<and> top (hd P) = bottom (hd s) \<and>
    list_all2 (\<lambda>p q. left p = left q \<and> right p = right q) P s"
  have all: "storage_inv (flushSpan z) \<and> span_of (flushSpan z) = [] \<and> stored (flushSpan z) \<noteq> [] \<and>
    pts (stored (flushSpan z)) = pts done \<and> (\<forall>q \<in> set (stored (flushSpan z)). bottom q \<le> bottom (last (span_of z)))"
  proof (cases merge)
    case True
    define m where "m = map (\<lambda>r. r\<lparr>bottom := bottom (hd P)\<rparr>) s"
    have hyp: "sorted_out (a @ s @ P)" using sp(2) by (simp add: S)
    have tm: "length s = length P" "top (hd P) = bottom (hd s)" "list_all2 (\<lambda>p q. left p = left q \<and> right p = right q) P s"
      using True by (auto simp: merge_def)
    note mg = merge_span [OF hyp st(3) sp(1,5) tm(3,2) st(4), folded m_def]
    have fl: "flushSpan z = z\<lparr>rz_storage := (rz_storage z)\<lparr>mArr := a @ m\<rparr>, rz_span := vec_clear (rz_span z)\<rparr>"
      using tm st(1) unfolding flushSpan_def Let_def lens last_s
      by (simp add: m_def a_def S_def P_def)
    have la: "length a = rz_head z" using st(2) by (auto simp: a_def split: if_splits)
    have mne: "m \<noteq> []" using tm(1) sp(5) by (auto simp: m_def)
    have "left ` set (a @ m) = left ` set S" "right ` set (a @ m) = right ` set S" using mg(4,5) by (simp_all add: S image_Un)
    then have "box_of (a @ m) (rz_bounds z)" using st(6) unfolding box_of_def by simp
    moreover have "length m = length s" by (simp add: m_def)
    ultimately have "storage_inv (flushSpan z)"
      using mg(1,2,7) st la mne lens by (auto simp: fl storage_inv_def S)
    moreover have "\<forall>q \<in> set (a @ m). bottom q \<le> bottom (last P)"
      using mg(6) below' bP [of "hd P"] sp(5) by (auto simp: S)
    ultimately show ?thesis using mg(3) sp(4) mne by (simp add: fl S P_def [symmetric])
  next
    case False
    then have no: "(length s = length P \<and> top (hd P) = bottom (hd s) \<and>
      list_all2 (\<lambda>p q. left p = left q \<and> right p = right q) P s) = False" by (simp add: merge_def)
    define bb where "bb = (rz_bounds z)\<lparr>left := min (left (hd P)) (left (rz_bounds z)), right := max (right (last P)) (right (rz_bounds z))\<rparr>"
    have fl: "stored (flushSpan z) = S @ P" "span_of (flushSpan z) = []" "rz_head (flushSpan z) = length S"
      "rz_tail (flushSpan z) = length S + length P" "rz_bounds (flushSpan z) = bb"
      using st(1) unfolding flushSpan_def Let_def lens last_s no [unfolded P_def] if_False
      by (simp_all add: S_def P_def bb_def)
    have "box_of (S @ P) bb" using box_of_append [OF st(6) _ sp(1,5)] sp(2) by (auto simp: bb_def sorted_out_append)
    moreover have "top bb = 0" "bottom bb = 0" using st(7,8) by (simp_all add: bb_def)
    ultimately have "storage_inv (flushSpan z)" using sp(1,2,3,5) unfolding storage_inv_def fl by simp
    moreover have "\<forall>q \<in> set (S @ P). bottom q \<le> bottom (last P)" using below' bP by fastforce
    ultimately show ?thesis using sp(4,5) unfolding fl P_def [symmetric] by simp
  qed
  then show "storage_inv (flushSpan z)" "span_of (flushSpan z) = []" "stored (flushSpan z) \<noteq> []"
    "pts (stored (flushSpan z)) = pts done" "\<forall>q \<in> set (stored (flushSpan z)). bottom q \<le> bottom (last (span_of z))"
    by auto
qed

lemma storage_inv_span [simp]: "storage_inv (z\<lparr>rz_span := v\<rparr>) = storage_inv z"
  by (simp add: storage_inv_def)

lemma raster_inv_push:
  assumes "storage_inv z" and "span_of z = []" and "pts (stored z) = pts done" and "left r < right r" "top r < bottom r"
    and "\<forall>q \<in> set (stored z). follows q r \<and> top q \<noteq> top r"
  shows "raster_inv (done @ [r]) (raster_push r z)"
proof -
  have "sorted_out (stored z)" using assms(1) by (simp add: storage_inv_def)
  then have "sorted_out (stored z @ [r])" using assms(4-6) by (simp add: sorted_out_append) (simp add: sorted_out_def)
  then show ?thesis using assms by (simp add: raster_inv_def raster_push_def one_span_def pts_append)
qed

lemma raster_step:
  assumes inv: "raster_inv done z" and srt: "sorted_out (done @ [r])"
  shows "raster_inv (done @ [r]) (raster r z)"
proof (cases "done = []")
  case True
  then have e: "span_of z = []" "stored z = []"
    using inv by (auto simp: raster_inv_def pts_def covers_def sorted_out_def set_eq_iff) (metis list.set_intros(1) neq_Nil_conv order_refl)
  then show ?thesis
    using inv srt True raster_inv_push [of z "[]" r] by (auto simp: raster_def raster_inv_def sorted_out_def pts_append)
next
  case False
  define c P where "c = last (span_of z)" and "P = span_of z"
  have P: "P \<noteq> []" "one_span P" "top c = top (last done)" "bottom c = bottom (last done)" "right c = right (last done)"
    "c \<in> set P" and st: "storage_inv z" "sorted_out (stored z @ P)" "\<forall>q \<in> set (stored z). \<forall>p \<in> set P. top q \<noteq> top p"
    "pts (stored z @ P) = pts done"
    using inv False by (auto simp: raster_inv_def c_def P_def)
  have "follows (last done) r" using srt False by (auto simp: sorted_out_append)
  then have f: "follows c r" using P by (simp add: follows_def)
  have r: "left r < right r" "top r < bottom r" using srt by (auto simp: sorted_out_def)
  show ?thesis
  proof (cases "top c = top r")
    case newspan: False
    then have "bottom c \<le> top r" using f by (auto simp: follows_def)
    note fl = flushSpan_inv [OF inv P(1) [unfolded P_def]]
    have "\<forall>q \<in> set (stored (flushSpan z)). top q < bottom q" using fl(1) by (auto simp: storage_inv_def sorted_out_def)
    then have "\<forall>q \<in> set (stored (flushSpan z)). follows q r \<and> top q \<noteq> top r"
      using fl(5) \<open>bottom c \<le> top r\<close> by (fastforce simp: follows_def c_def)
    then have "raster_inv (done @ [r]) (raster_push r (flushSpan z))"
      using raster_inv_push [OF fl(1,2,4) r] by blast
    then show ?thesis using newspan P(1) by (simp add: raster_def P_def c_def Let_def)
  next
    case same: True
    then have cr: "bottom r = bottom c" "right c \<le> left r" using f by (auto simp: follows_def)
    have tops: "top p = top r" "bottom p = bottom r" if "p \<in> set P" for p
      using one_spanD [OF P(2) that P(6)] same cr by auto
    have Pc: "P = butlast P @ [c]" using P(1) by (simp add: c_def P_def)
    have srtP: "sorted_out P" "\<forall>q \<in> set (stored z). \<forall>p \<in> set P. follows q p" using st(2) by (auto simp: sorted_out_append)
    show ?thesis
    proof (cases "right c = left r")
      case True
      define c' where "c' = c\<lparr>right := right r\<rparr>"
      define P' where "P' = butlast P @ [c']"
      have eq: "raster r z = z\<lparr>rz_span := (rz_span z)\<lparr>mArr := P'\<rparr>\<rparr>"
        using same True P(1) by (simp add: raster_def P_def c_def c'_def P'_def Let_def)
      have bl: "sorted_out (butlast P @ [c])" "one_span (butlast P @ [c])" using srtP(1) P(2) Pc by simp_all
      have fc: "follows q c' = follows q c" for q by (simp add: follows_def c'_def)
      have "sorted_out P'" using bl(1) r True unfolding P'_def
        by (auto simp: sorted_out_append fc) (auto simp: sorted_out_def c'_def)
      moreover have "\<forall>q \<in> set (stored z). \<forall>p \<in> set P'. follows q p \<and> top q \<noteq> top p"
      proof (intro ballI)
        fix q p assume q: "q \<in> set (stored z)" and "p \<in> set P'"
        then have "p \<in> set P \<or> p = c'" by (auto simp: P'_def dest: in_set_butlastD)
        then show "follows q p \<and> top q \<noteq> top p"
          using srtP(2) st(3) q P(6) fc [of q] by (auto simp: c'_def)
      qed
      moreover have "one_span P'" unfolding one_span_def
        using tops by (intro exI [of _ "top r"] exI [of _ "bottom r"]) (auto simp: P'_def c'_def P(6) dest: in_set_butlastD)
      moreover have "pts P' = pts P \<union> pts [r]"
      proof -
        have "left c < right c" using srtP(1) P(6) by (simp add: sorted_out_def)
        then have "covers c' x y \<longleftrightarrow> covers c x y \<or> covers r x y" for x y
          using True same cr(1) r by (auto simp: covers_def c'_def)
        then have "pts [c'] = pts [c] \<union> pts [r]" by (auto simp: pts_def)
        then show ?thesis using Pc unfolding P'_def by (metis pts_append sup_assoc)
      qed
      then have "pts (stored z @ P') = pts (done @ [r])" using st(4) by (simp add: pts_append sup_assoc flip: st(4))
      moreover have "last P' = c'" "P' \<noteq> []" by (simp_all add: P'_def)
      ultimately show ?thesis
        using st(1,2) same cr(1) by (simp add: eq raster_inv_def sorted_out_append c'_def)
    next
      case gap: False
      have eq: "raster r z = raster_push r z" using same gap P(1) by (simp add: raster_def P_def c_def Let_def)
      have fP: "follows p r" if "p \<in> set P" for p
      proof -
        have "right p \<le> right c"
          using span_ends(2) [OF srtP(1) P(2,1)] that Max_ge [of "right ` set P" "right p"] by (simp add: c_def P_def)
        then show ?thesis using tops [OF that] cr(2) by (auto simp: follows_def)
      qed
      have "follows q r \<and> top q \<noteq> top r" if "q \<in> set (stored z)" for q
        using srtP(2) st(3) that P(6) tops [OF P(6)] by (force simp: follows_def)
      then have fS: "\<forall>q \<in> set (stored z). follows q r" "\<forall>q \<in> set (stored z). top q \<noteq> top r" by auto
      have "sorted_out [r]" using r by (simp add: sorted_out_def)
      then have "sorted_out ((stored z @ P) @ [r])" unfolding sorted_out_append [of "stored z @ P"]
        using st(2) fS(1) fP by auto
      moreover have "one_span (P @ [r])" unfolding one_span_def
        using tops by (intro exI [of _ "top r"] exI [of _ "bottom r"]) auto
      moreover have "pts ((stored z @ P) @ [r]) = pts (done @ [r])" unfolding pts_append [of _ "[r]"] st(4) ..
      ultimately show ?thesis
        using st(1,3) fS(2) by (auto simp: eq raster_inv_def raster_push_def P_def [symmetric])
    qed
  qed
qed

lemma raster_fold:
  assumes "sorted_out out"
  shows "raster_inv out (fold raster out (rasterizer_ctor v))"
proof -
  have init: "raster_inv [] (rasterizer_ctor v)"
    by (simp add: raster_inv_def storage_inv_def rasterizer_ctor_def one_span_def sorted_out_def box_of_def rect_def)
  have "raster_inv done z \<Longrightarrow> sorted_out (done @ out) \<Longrightarrow> raster_inv (done @ out) (fold raster out z)" for "done" z
  proof (induction out arbitrary: "done" z)
    case (Cons r out)
    have "sorted_out ((done @ [r]) @ out)" using Cons.prems(2) by simp
    then show ?case using Cons.IH [OF raster_step [OF Cons.prems(1)]] sorted_out_append by (metis append.assoc append_Cons append_Nil fold_simps(2))
  qed simp
  from this [OF init] show ?thesis using assms by simp
qed

text \<open>The vectors of the rasterizer keep their elements within their allocation.\<close>

definition raster_mem :: "rasterizer \<Rightarrow> bool" where
  "raster_mem z \<longleftrightarrow> vec_ok (rz_storage z) \<and> vec_ok (rz_span z) \<and> rz_head z \<le> rz_tail z"

lemma vec_ok_same_length:
  assumes "vec_ok v" and "length xs \<le> length (mArr v)"
  shows "vec_ok (v\<lparr>mArr := xs\<rparr>)"
  using assms by (simp add: vec_ok_def)

lemma flushSpan_mem:
  assumes "raster_mem z"
  shows "raster_mem (flushSpan z)"
proof -
  define arr where "arr = mArr (rz_storage z)"
  have ok: "vec_ok (rz_storage z)" "vec_ok (vec_clear (rz_span z))" "rz_head z \<le> rz_tail z"
    using assms by (auto simp: raster_mem_def intro: inv_intros)
  have "length (take (rz_head z) arr @ map f (take (rz_tail z - rz_head z) (drop (rz_head z) arr)) @ drop (rz_tail z) arr) \<le> length arr" for f :: "Rect \<Rightarrow> Rect"
    using ok(3) by auto
  then show ?thesis
    using ok vec_ok_ops(4) [OF ok(1)] unfolding flushSpan_def Let_def arr_def raster_mem_def
    by (auto intro!: vec_ok_same_length simp del: length_take)
qed

lemma raster_mem_step:
  assumes "raster_mem z"
  shows "raster_mem (raster r z)"
proof -
  have push: "raster_mem (raster_push r w)" if "raster_mem w" for w
    using that by (auto simp: raster_mem_def raster_push_def intro: inv_intros)
  show ?thesis
  proof (cases "mArr (rz_span z) \<noteq> [] \<and> top (last (mArr (rz_span z))) = top r \<and> right (last (mArr (rz_span z))) = left r")
    case True
    then show ?thesis using assms by (auto simp: raster_def Let_def raster_mem_def intro!: vec_ok_same_length)
  next
    case False
    then show ?thesis using push [OF assms] push [OF flushSpan_mem [OF assms]] by (auto simp: raster_def Let_def)
  qed
qed

lemma raster_mem_fold: "raster_mem z \<Longrightarrow> raster_mem (fold raster rs z)"
  by (induction rs arbitrary: z) (auto intro: raster_mem_step)

lemma dtor_mem:
  assumes "raster_mem z"
  shows "vec_ok (rasterizer_dtor z)"
proof -
  define w where "w = (if mArr (rz_span z) \<noteq> [] then flushSpan z else z)"
  have "vec_ok (rz_storage w)" using assms flushSpan_mem [OF assms] by (simp add: w_def raster_mem_def)
  then show ?thesis unfolding rasterizer_dtor_def Let_def w_def [symmetric] by (auto intro: inv_intros)
qed

section \<open>Well-formed regions\<close>

text \<open>The stored rectangles are followed by their tight bounds, unless there is a single one.\<close>

definition bounds_of :: "Rect list \<Rightarrow> Rect \<Rightarrow> bool" where
  "bounds_of rs b \<longleftrightarrow> box_of rs b \<and> top b = top (hd rs) \<and> bottom b = bottom (last rs)"

definition wf_region :: "Region \<Rightarrow> bool" where
  "wf_region reg \<longleftrightarrow> vec_ok (mStorage reg) \<and> mArr (mStorage reg) \<noteq> [] \<and>
     (if length (mArr (mStorage reg)) = 1 then rect_ok (hd (mArr (mStorage reg)))
      else let rs = butlast (mArr (mStorage reg)) in
           sorted_out rs \<and> (\<forall>r \<in> set rs. rect_ok r) \<and> bounds_of rs (last (mArr (mStorage reg))))"

definition region_points :: "Region \<Rightarrow> (int \<times> int) set" where
  "region_points reg = pts (getArray reg)"

definition pts_ok :: "(int \<times> int) set \<Rightarrow> bool" where
  "pts_ok A \<longleftrightarrow> (\<forall>(x, y) \<in> A. - coord_limit \<le> x \<and> - coord_limit \<le> y \<and> x + 1 < coord_limit \<and> y + 1 < coord_limit)"

lemma pts_ok_rects: "\<forall>r \<in> set rs. rect_ok r \<Longrightarrow> pts_ok (pts rs)"
  by (fastforce simp: pts_ok_def pts_def covers_def rect_ok_def)

lemma rect_ok_of_pts:
  assumes "sorted_out rs" and "pts_ok (pts rs)" and "r \<in> set rs"
  shows "rect_ok r"
proof -
  have r: "left r < right r" "top r < bottom r" using assms(1,3) by (auto simp: sorted_out_def)
  then have "(left r, top r) \<in> pts rs" "(right r - 1, bottom r - 1) \<in> pts rs"
    using assms(3) by (auto simp: pts_def covers_def)
  then have "- coord_limit \<le> left r" "- coord_limit \<le> top r" "right r - 1 + 1 < coord_limit" "bottom r - 1 + 1 < coord_limit"
    using assms(2) unfolding pts_ok_def by blast+
  then show ?thesis using r by (simp add: rect_ok_def)
qed

lemma getArray_eq: "mArr (mStorage reg) \<noteq> [] \<Longrightarrow>
  getArray reg = (if length (mArr (mStorage reg)) = 1 then mArr (mStorage reg) else butlast (mArr (mStorage reg)))"
  by (auto simp: getArray_def isRect_def Let_def butlast_conv_take)

lemma wf_getArray:
  assumes "wf_region reg"
  shows "wf_rects (getArray reg)" "getArray reg \<noteq> []"
proof -
  have ne: "mArr (mStorage reg) \<noteq> []" using assms by (simp add: wf_region_def)
  show "wf_rects (getArray reg)"
  proof (cases "length (mArr (mStorage reg)) = 1")
    case True
    then obtain r where "mArr (mStorage reg) = [r]" by (auto simp: length_Suc_conv)
    then show ?thesis using assms by (simp add: getArray_eq wf_region_def wf_rects_def)
  next
    case False
    then show ?thesis using assms ne by (auto simp: getArray_eq wf_region_def wf_rects_def sorted_out_def Let_def)
  qed
  show "getArray reg \<noteq> []" using ne by (cases "mArr (mStorage reg)") (auto simp: getArray_eq)
qed

lemma rasterizer_dtor_region:
  assumes inv: "raster_inv out z" and mem: "raster_mem z" and ok: "pts_ok (pts out)"
    and reg_def: "mStorage reg = rasterizer_dtor z"
  shows "wf_region reg" "region_points reg = pts out"
proof -
  define w where "w = (if span_of z \<noteq> [] then flushSpan z else z)"
  have w: "storage_inv w" "pts (stored w) = pts out" "sorted_out (stored w)"
    using inv flushSpan_inv [OF inv] by (auto simp: w_def raster_inv_def storage_inv_def)
  have box: "box_of (stored w) (rz_bounds w)" "top (rz_bounds w) = 0" "bottom (rz_bounds w) = 0"
    using w(1) by (auto simp: storage_inv_def)
  have rok: "\<forall>r \<in> set (stored w). rect_ok r" using rect_ok_of_pts w(2,3) ok by metis
  have v: "vec_ok (rasterizer_dtor z)" by (rule dtor_mem [OF mem])
  define b where "b = (rz_bounds w)\<lparr>top := top (hd (stored w)), bottom := bottom (last (stored w))\<rparr>"
  have d: "mArr (rasterizer_dtor z) =
      (if stored w \<noteq> [] then (if length (stored w) = 1 then [] else stored w) @ [b]
       else [(rz_bounds w)\<lparr>left := 0, right := 0\<rparr>])"
    unfolding rasterizer_dtor_def Let_def w_def [symmetric] b_def by auto
  have bb: "box_of (stored w) b" using box(1) by (simp add: box_of_def b_def)
  consider (none) "stored w = []" | (one) r where "stored w = [r]" | (many) "length (stored w) > 1"
    by (metis Suc_lessI length_0_conv length_Suc_conv length_greater_0_conv neq_Nil_conv One_nat_def)
  then have "wf_region reg \<and> region_points reg = pts out"
  proof cases
    case none
    then have "mArr (mStorage reg) = [rect 0 0 0 0]" using d box by (simp add: reg_def rect_def)
    then show ?thesis using v none w(2)
      by (auto simp: wf_region_def region_points_def getArray_eq reg_def rect_ok_def rect_def pts_def covers_def)
  next
    case one
    have "rect_ok r" using rok one by simp
    then have "b = r" using bb one by (simp add: box_of_def b_def rect_ok_def)
    then show ?thesis using v d one w(2) \<open>rect_ok r\<close> by (simp add: wf_region_def region_points_def getArray_eq reg_def)
  next
    case many
    then have "mArr (mStorage reg) = stored w @ [b]" using d by (auto simp: reg_def)
    then show ?thesis using v many w(2,3) rok bb
      by (auto simp: wf_region_def region_points_def getArray_eq reg_def bounds_of_def b_def)
  qed
  then show "wf_region reg" "region_points reg = pts out" by auto
qed

text \<open>One boolean operation in place.\<close>

lemma operationSelf_correct:
  assumes wf: "wf_region reg" and r: "rect_ok r"
  shows "\<exists>reg'. operationSelf r op reg = Some reg' \<and> wf_region reg' \<and>
    (\<forall>x y. (x, y) \<in> region_points reg' \<longleftrightarrow> sel op ((x, y) \<in> region_points reg) (covers r x y))"
proof -
  have copy: "mArr (mStorage (Region_copy reg)) = mArr (mStorage reg)" by (simp add: Region_copy_def)
  have arr: "getArray (Region_copy reg) = getArray reg" unfolding getArray_def isRect_def copy ..
  have valid: "isValid r" using r by (simp add: isValid_def rect_ok_def)
  have wr: "wf_rects [r]" using r by (simp add: wf_rects_def)
  obtain out where out: "region_operator op \<lparr>rects = getArray reg, dx = 0, dy = 0\<rparr> \<lparr>rects = [r], dx = 0, dy = 0\<rparr> = Some out"
    "sorted_out out" "\<And>x y. (x, y) \<in> pts out \<longleftrightarrow> sel op ((x, y) \<in> pts (getArray reg)) ((x, y) \<in> pts [r])"
    using region_operator_correct [OF wf_getArray(1) [OF wf] wr, of op] by blast
  have "pts_ok (pts (getArray reg @ [r]))" using wf_getArray(1) [OF wf] r by (intro pts_ok_rects) (auto simp: wf_rects_def)
  moreover have "pts out \<subseteq> pts (getArray reg @ [r])" using out(3) by (auto simp: pts_append sel_def)
  ultimately have po: "pts_ok (pts out)" unfolding pts_ok_def by blast
  define z where "z = fold raster out (rasterizer_ctor (mStorage reg))"
  have "raster_mem (rasterizer_ctor (mStorage reg))"
    using wf by (auto simp: raster_mem_def rasterizer_ctor_def wf_region_def intro: inv_intros)
  then have mem: "raster_mem z" unfolding z_def by (rule raster_mem_fold)
  have inv: "raster_inv out z" unfolding z_def by (rule raster_fold [OF out(2)])
  define reg' where "reg' = reg\<lparr>mStorage := rasterizer_dtor z\<rparr>"
  have "mStorage reg' = rasterizer_dtor z" by (simp add: reg'_def)
  note res = rasterizer_dtor_region [OF inv mem po this]
  have "operationSelf r op reg = Some reg'"
    using valid out(1) by (simp add: operationSelf_def boolean_operation_def arr reg'_def z_def)
  then show ?thesis using res out(3) by (intro exI [of _ reg']) (simp add: region_points_def pts_def)
qed

lemma sel_or: "sel op_or a b \<longleftrightarrow> a \<or> b"
  by (auto simp add: sel_def op_or_def LHS_def RHS_def bit_simps lhs_before_rhs_def lhs_after_rhs_def lhs_coincide_rhs_def)

lemma sel_nand: "sel op_nand a b \<longleftrightarrow> a \<and> \<not> b"
  by (simp add: sel_def op_nand_def LHS_def RHS_def bit_simps lhs_before_rhs_def lhs_after_rhs_def lhs_coincide_rhs_def)

lemma isEmpty_points:
  assumes "wf_region reg"
  shows "isEmpty reg \<longleftrightarrow> region_points reg = {}"
proof (cases "length (mArr (mStorage reg)) = 1")
  case True
  then obtain r where r: "mArr (mStorage reg) = [r]" by (auto simp: length_Suc_conv)
  then show ?thesis
    by (auto simp: isEmpty_def getBounds_def rect_isEmpty_def region_points_def getArray_eq pts_def covers_def)
       (meson linorder_not_le order_refl)+
next
  case False
  define rs where "rs = butlast (mArr (mStorage reg))"
  have rs: "rs \<noteq> []" "sorted_out rs" "box_of rs (getBounds reg)" "top (getBounds reg) = top (hd rs)" "bottom (getBounds reg) = bottom (last rs)"
    using assms False by (auto simp: wf_region_def rs_def bounds_of_def getBounds_def Let_def butlast_conv_take neq_Nil_conv Suc_le_eq)
  have "left (getBounds reg) \<le> left (hd rs)" "right (hd rs) \<le> right (getBounds reg)"
    using rs(1,3) Min_le [of "insert INT32_MAX (left ` set rs)" "left (hd rs)"]
      Max_ge [of "insert INT32_MIN (right ` set rs)" "right (hd rs)"]
    unfolding box_of_def by (metis List.finite_set finite_imageI finite_insert hd_in_set imageI insertCI)+
  moreover have hd: "left (hd rs) < right (hd rs)" "top (hd rs) < bottom (hd rs)" using rs(1,2) by (auto simp: sorted_out_def)
  moreover have "bottom (hd rs) \<le> bottom (last rs)"
  proof (cases rs)
    case (Cons q qs)
    show ?thesis
    proof (cases "qs = []")
      case False
      then have "follows q (last qs)" "top (last qs) < bottom (last qs)" using rs(2) Cons by (auto simp: sorted_out_def)
      then show ?thesis using Cons False by (auto simp: follows_def)
    qed (simp add: Cons)
  qed (use rs(1) in simp)
  ultimately have "\<not> isEmpty reg" using rs(4,5) by (auto simp: isEmpty_def rect_isEmpty_def)
  moreover have "(left (hd rs), top (hd rs)) \<in> region_points reg"
    using rs(1) hd assms False by (force simp: region_points_def getArray_eq wf_region_def rs_def [symmetric] pts_def covers_def)
  ultimately show ?thesis by auto
qed

section \<open>The exported operations\<close>

text \<open>
  C11 (functional). \<open>Region::orSelf\<close> on a well-formed region ends and yields a well-formed region (nonempty
  disjoint rectangles in order, tight bounds behind them, all of it inside the allocation) that
  covers exactly the points of the region and of the rectangle.
\<close>

theorem orSelf_points:
  assumes "wf_region reg" and "rect_ok r"
  shows "\<exists>reg'. orSelf r reg = Some reg' \<and> wf_region reg' \<and>
    region_points reg' = region_points reg \<union> {(x, y). covers r x y}"
proof (cases "isEmpty reg")
  case True
  then have "region_points reg = {}" using isEmpty_points [OF assms(1)] by simp
  moreover have "vec_ok (vec_push_back r (vec_clear (mStorage reg)))"
    using assms(1) by (auto simp: wf_region_def intro: inv_intros)
  ultimately show ?thesis using True assms(2)
    by (auto simp: orSelf_def region_set_def wf_region_def region_points_def getArray_eq pts_def)
next
  case False
  obtain reg' where "operationSelf r op_or reg = Some reg'" "wf_region reg'"
    "\<forall>x y. (x, y) \<in> region_points reg' \<longleftrightarrow> (x, y) \<in> region_points reg \<or> covers r x y"
    using operationSelf_correct [OF assms, of op_or] by (auto simp: sel_or)
  then show ?thesis using False by (auto simp: orSelf_def)
qed

theorem orSelf_points_witness:
  "\<exists>reg'. orSelf (rect 0 0 10 10) Region_ctor = Some reg' \<and> wf_region reg' \<and>
    region_points reg' = region_points Region_ctor \<union> {(x, y). covers (rect 0 0 10 10) x y}"
  by (rule orSelf_points) (simp_all add: wf_region_def Region_ctor_def rect_ok_def rect_def vec_ok_ops)

text \<open>
  C12 (termination). \<open>Region::subtractSelf\<close> on a well-formed region ends and yields a well-formed region that
  covers exactly the points of the region outside the rectangle.
\<close>

theorem subtractSelf_points:
  assumes "wf_region reg" and "rect_ok r"
  shows "\<exists>reg'. subtractSelf r reg = Some reg' \<and> wf_region reg' \<and>
    region_points reg' = region_points reg - {(x, y). covers r x y}"
proof -
  obtain reg' where "operationSelf r op_nand reg = Some reg'" "wf_region reg'"
    "\<forall>x y. (x, y) \<in> region_points reg' \<longleftrightarrow> (x, y) \<in> region_points reg \<and> \<not> covers r x y"
    using operationSelf_correct [OF assms, of op_nand] by (auto simp: sel_nand)
  then show ?thesis by (auto simp: subtractSelf_def)
qed

theorem subtractSelf_points_witness:
  "\<exists>reg'. subtractSelf (rect 2 2 5 5) (Region_of_rect (rect 0 0 10 10)) = Some reg' \<and> wf_region reg' \<and>
    region_points reg' = region_points (Region_of_rect (rect 0 0 10 10)) - {(x, y). covers (rect 2 2 5 5) x y}"
  by (rule subtractSelf_points) (simp_all add: wf_region_def Region_of_rect_def rect_ok_def rect_def vec_ok_ops)

text \<open>
  The emptiness test looks at the bounds alone, and on a well-formed region it is right.
\<close>

theorem isEmpty_iff_no_points:
  assumes "wf_region reg"
  shows "isEmpty reg \<longleftrightarrow> region_points reg = {}"
  by (rule isEmpty_points [OF assms])

theorem isEmpty_iff_no_points_witness:
  "isEmpty Region_ctor \<longleftrightarrow> region_points Region_ctor = {}"
  by (rule isEmpty_iff_no_points) (simp add: wf_region_def Region_ctor_def rect_ok_def rect_def vec_ok_ops)

end
