(* ===== verification/RilEvent.thy ===== *)
theory RilEvent
  imports Prelude
begin

text \<open>
  The event loop of libril (\<open>ril/libril/ril_event.cpp\<close>): the intrusive doubly linked lists of timers
  and of pending events, the table of watched descriptors, and one round of \<open>ril_event_loop\<close>.

  Events live in an explicit heap, a map from addresses to records; address 0 is \<open>NULL\<close>, and the
  two list heads \<open>timer_list\<close> and \<open>pending_list\<close> are the addresses 1 and 2. Times are unbounded
  integers. \<open>clock_gettime\<close> and \<open>select\<close> are arguments (the time, the result). The loops over the
  lists are partial functions, so a list that is not well formed makes them run forever.
\<close>

section \<open>Heap and lists\<close>

type_synonym addr = nat

record timeval =
  tv_sec :: int
  tv_usec :: int

record ril_event =
  ev_next :: addr
  ev_prev :: addr
  ev_fd :: int
  ev_index :: int
  ev_persist :: bool
  ev_timeout :: timeval
  ev_func :: nat
  ev_param :: nat

type_synonym event_heap = "addr \<Rightarrow> ril_event"

definition MAX_FD_EVENTS :: nat where "MAX_FD_EVENTS = 8"
definition TIMER_LIST :: addr where "TIMER_LIST = 1"
definition PENDING_LIST :: addr where "PENDING_LIST = 2"

definition zero_event :: ril_event where
  "zero_event = \<lparr>ev_next = 0, ev_prev = 0, ev_fd = 0, ev_index = 0, ev_persist = False,
     ev_timeout = \<lparr>tv_sec = 0, tv_usec = 0\<rparr>, ev_func = 0, ev_param = 0\<rparr>"

definition set_next :: "addr \<Rightarrow> addr \<Rightarrow> event_heap \<Rightarrow> event_heap" where
  "set_next a v h = h(a := (h a)\<lparr>ev_next := v\<rparr>)"

definition set_prev :: "addr \<Rightarrow> addr \<Rightarrow> event_heap \<Rightarrow> event_heap" where
  "set_prev a v h = h(a := (h a)\<lparr>ev_prev := v\<rparr>)"

definition init_list :: "addr \<Rightarrow> event_heap \<Rightarrow> event_heap" where
  "init_list l h = h(l := zero_event\<lparr>ev_next := l, ev_prev := l, ev_fd := - 1\<rparr>)"

definition addToList :: "addr \<Rightarrow> addr \<Rightarrow> event_heap \<Rightarrow> event_heap" where
  "addToList ev l h =
     (let h = set_next ev l h;
          h = set_prev ev (ev_prev (h l)) h;
          h = set_next (ev_prev (h ev)) ev h
      in set_prev l ev h)"

definition removeFromList :: "addr \<Rightarrow> event_heap \<Rightarrow> event_heap" where
  "removeFromList ev h =
     (let h = set_prev (ev_next (h ev)) (ev_prev (h ev)) h;
          h = set_next (ev_prev (h ev)) (ev_next (h ev)) h;
          h = set_next ev 0 h
      in set_prev ev 0 h)"

section \<open>Times\<close>

definition timeradd :: "timeval \<Rightarrow> timeval \<Rightarrow> timeval" where
  "timeradd a b =
     (let s = tv_sec a + tv_sec b; u = tv_usec a + tv_usec b in
      if u \<ge> 1000000 then \<lparr>tv_sec = s + 1, tv_usec = u - 1000000\<rparr> else \<lparr>tv_sec = s, tv_usec = u\<rparr>)"

definition timersub :: "timeval \<Rightarrow> timeval \<Rightarrow> timeval" where
  "timersub a b =
     (let s = tv_sec a - tv_sec b; u = tv_usec a - tv_usec b in
      if u < 0 then \<lparr>tv_sec = s - 1, tv_usec = u + 1000000\<rparr> else \<lparr>tv_sec = s, tv_usec = u\<rparr>)"

definition timer_less :: "timeval \<Rightarrow> timeval \<Rightarrow> bool" where
  "timer_less a b \<longleftrightarrow> (if tv_sec a = tv_sec b then tv_usec a < tv_usec b else tv_sec a < tv_sec b)"

definition getNow :: "int \<Rightarrow> int \<Rightarrow> timeval" where
  "getNow sec nsec = \<lparr>tv_sec = sec, tv_usec = nsec div 1000\<rparr>"

section \<open>The event loop\<close>

record event_loop =
  heap :: event_heap
  readFds :: "int set"
  nfds :: int
  watch_table :: "addr list"

definition upd_heap :: "(event_heap \<Rightarrow> event_heap) \<Rightarrow> event_loop \<Rightarrow> event_loop" where
  "upd_heap f st = st\<lparr>heap := f (heap st)\<rparr>"

definition max_fd :: "event_heap \<Rightarrow> addr list \<Rightarrow> int" where
  "max_fd h table = fold (\<lambda>rev n. if rev \<noteq> 0 \<and> ev_fd (h rev) > n then ev_fd (h rev) else n) table 0"

definition removeWatch :: "addr \<Rightarrow> nat \<Rightarrow> event_loop \<Rightarrow> event_loop" where
  "removeWatch ev i st =
     (let table = (watch_table st)[i := 0];
          h = (heap st)(ev := (heap st ev)\<lparr>ev_index := - 1\<rparr>);
          st = st\<lparr>watch_table := table, heap := h, readFds := readFds st - {ev_fd (h ev)}\<rparr> in
      if ev_fd (h ev) + 1 = nfds st then st\<lparr>nfds := max_fd h table + 1\<rparr> else st)"

partial_function (option) expire :: "timeval \<Rightarrow> addr \<Rightarrow> event_heap \<Rightarrow> event_heap option" where
  "expire now tev h =
     (if tev \<noteq> TIMER_LIST \<and> timer_less (ev_timeout (h tev)) now
      then expire now (ev_next (h tev)) (addToList tev PENDING_LIST (removeFromList tev h))
      else Some h)"

definition processTimeouts :: "timeval \<Rightarrow> event_loop \<Rightarrow> event_loop option" where
  "processTimeouts now st =
     map_option (\<lambda>h. st\<lparr>heap := h\<rparr>) (expire now (ev_next (heap st TIMER_LIST)) (heap st))"

fun read_readies :: "int set \<Rightarrow> nat list \<Rightarrow> int \<Rightarrow> event_loop \<Rightarrow> event_loop" where
  "read_readies rfds [] n st = st"
| "read_readies rfds (i # is) n st =
     (if n > 0 then
        (let rev = watch_table st ! i in
         if rev \<noteq> 0 \<and> ev_fd (heap st rev) \<in> rfds then
           (let st = upd_heap (addToList rev PENDING_LIST) st;
                st = (if \<not> ev_persist (heap st rev) then removeWatch rev i st else st) in
            read_readies rfds is (n - 1) st)
         else read_readies rfds is n st)
      else st)"

definition processReadReadies :: "int set \<Rightarrow> int \<Rightarrow> event_loop \<Rightarrow> event_loop" where
  "processReadReadies rfds n st = read_readies rfds [0..<MAX_FD_EVENTS] n st"

text \<open>A callback gets the function, the descriptor and the parameter, and may change the loop.\<close>

type_synonym callback = "nat \<Rightarrow> int \<Rightarrow> nat \<Rightarrow> event_loop \<Rightarrow> event_loop"
type_synonym call = "nat \<times> int \<times> nat"

partial_function (option) fire :: "callback \<Rightarrow> addr \<Rightarrow> call list \<Rightarrow> event_loop \<Rightarrow> (call list \<times> event_loop) option" where
  "fire cb ev calls st =
     (if ev = PENDING_LIST then Some (calls, st)
      else let e = heap st ev; st = upd_heap (removeFromList ev) st in
           fire cb (ev_next e) (calls @ [(ev_func e, ev_fd e, ev_param e)]) (cb (ev_func e) (ev_fd e) (ev_param e) st))"

definition firePending :: "callback \<Rightarrow> event_loop \<Rightarrow> (call list \<times> event_loop) option" where
  "firePending cb st = fire cb (ev_next (heap st PENDING_LIST)) [] st"

text \<open>The time to wait, \<open>None\<close> for the result -1 (no timer).\<close>

definition calcNextTimeout :: "timeval \<Rightarrow> event_loop \<Rightarrow> timeval option" where
  "calcNextTimeout now st =
     (let tev = ev_next (heap st TIMER_LIST) in
      if tev = TIMER_LIST then None
      else if timer_less now (ev_timeout (heap st tev)) then Some (timersub (ev_timeout (heap st tev)) now)
      else Some \<lparr>tv_sec = 0, tv_usec = 0\<rparr>)"

definition ril_event_init :: "event_loop \<Rightarrow> event_loop" where
  "ril_event_init st = st\<lparr>readFds := {}, heap := init_list PENDING_LIST (init_list TIMER_LIST (heap st)),
     watch_table := replicate MAX_FD_EVENTS 0\<rparr>"

definition ril_event_set :: "addr \<Rightarrow> int \<Rightarrow> bool \<Rightarrow> nat \<Rightarrow> nat \<Rightarrow> event_loop \<Rightarrow> event_loop" where
  "ril_event_set ev fd persist func param =
     upd_heap (\<lambda>h. h(ev := zero_event\<lparr>ev_fd := fd, ev_index := - 1, ev_persist := persist, ev_func := func, ev_param := param\<rparr>))"

definition ril_event_add :: "addr \<Rightarrow> event_loop \<Rightarrow> event_loop" where
  "ril_event_add ev st =
     (case find (\<lambda>i. watch_table st ! i = 0) [0..<MAX_FD_EVENTS] of
        None \<Rightarrow> st
      | Some i \<Rightarrow>
          let h = (heap st)(ev := (heap st ev)\<lparr>ev_index := int i\<rparr>); fd = ev_fd (h ev) in
          st\<lparr>watch_table := (watch_table st)[i := ev], heap := h, readFds := insert fd (readFds st),
             nfds := (if fd \<ge> nfds st then fd + 1 else nfds st)\<rparr>)"

text \<open>The first timer from \<open>l\<close> on that does not end before the new one.\<close>

partial_function (option) find_slot :: "event_heap \<Rightarrow> timeval \<Rightarrow> addr \<Rightarrow> addr option" where
  "find_slot h t l =
     (if timer_less (ev_timeout (h l)) t \<and> l \<noteq> TIMER_LIST then find_slot h t (ev_next (h l)) else Some l)"

definition ril_timer_add :: "addr \<Rightarrow> timeval \<Rightarrow> timeval option \<Rightarrow> event_loop \<Rightarrow> event_loop option" where
  "ril_timer_add ev now tv st =
     (case tv of None \<Rightarrow> Some st
      | Some tv \<Rightarrow>
          let l = ev_next (heap st TIMER_LIST);
              h = (heap st)(ev := (heap st ev)\<lparr>ev_fd := - 1, ev_timeout := timeradd now tv\<rparr>) in
          map_option (\<lambda>l. st\<lparr>heap := addToList ev l h\<rparr>) (find_slot h (ev_timeout (h ev)) l))"

definition ril_event_del :: "addr \<Rightarrow> event_loop \<Rightarrow> event_loop" where
  "ril_event_del ev st =
     (let i = ev_index (heap st ev) in
      if i < 0 \<or> i \<ge> int MAX_FD_EVENTS then st else removeWatch ev (nat i) st)"

text \<open>
  One round of \<open>ril_event_loop\<close>. \<open>select\<close> is given the descriptors, their bound and the timeout, and
  returns the ready set and its size, or the error number; \<open>None\<close> ends the loop.
\<close>

datatype 'a round_result = Again 'a | Bail

definition event_loop_round :: "callback \<Rightarrow> (int \<Rightarrow> int set \<Rightarrow> timeval option \<Rightarrow> int + int set \<times> int) \<Rightarrow> int \<Rightarrow>
    timeval \<Rightarrow> timeval \<Rightarrow> event_loop \<Rightarrow> (call list \<times> event_loop) round_result option" where
  "event_loop_round cb select EINTR now now' st =
     (case select (nfds st) (readFds st) (calcNextTimeout now st) of
        Inl err \<Rightarrow> Some (if err = EINTR then Again ([], st) else Bail)
      | Inr (rfds, n) \<Rightarrow>
          map_option Again (Option.bind (processTimeouts now' st) (\<lambda>st. firePending cb (processReadReadies rfds n st))))"

end
