(* ===== verification/RilLists.thy ===== *)
theory RilLists
  imports RilEvent
begin

text \<open>
  The intrusive lists of the event loop as lists of addresses: what \<open>addToList\<close> and
  \<open>removeFromList\<close> do to a circular list with a head, what they leave alone, and what the three
  walks over such lists return.
\<close>

section \<open>Circular lists\<close>

fun links :: "event_heap \<Rightarrow> addr list \<Rightarrow> bool" where
  "links h (a # b # r) \<longleftrightarrow> ev_next (h a) = b \<and> ev_prev (h b) = a \<and> links h (b # r)"
| "links h _ \<longleftrightarrow> True"

definition dlist :: "event_heap \<Rightarrow> addr \<Rightarrow> addr list \<Rightarrow> bool" where
  "dlist h s xs \<longleftrightarrow> distinct (s # xs) \<and> 0 \<notin> set (s # xs) \<and> links h (s # xs @ [s])"

lemma links_append: "links h (xs @ a # ys) \<longleftrightarrow> links h (xs @ [a]) \<and> links h (a # ys)"
proof (induction xs)
  case (Cons x xs)
  then show ?case by (cases xs) auto
qed simp

lemma links_cong:
  assumes "\<And>a. a \<in> set (butlast xs) \<Longrightarrow> ev_next (h a) = ev_next (h' a)"
    and "\<And>a. a \<in> set (tl xs) \<Longrightarrow> ev_prev (h a) = ev_prev (h' a)"
  shows "links h xs = links h' xs"
  using assms
proof (induction h xs rule: links.induct)
  case (1 h a b r)
  have "links h (b # r) = links h' (b # r)" using 1(2,3) by (intro 1(1)) auto
  then show ?case using 1(2,3) by simp
qed auto

text \<open>The part of an event that the lists do not touch.\<close>

definition ev_data :: "ril_event \<Rightarrow> int \<times> int \<times> bool \<times> timeval \<times> nat \<times> nat" where
  "ev_data e = (ev_fd e, ev_index e, ev_persist e, ev_timeout e, ev_func e, ev_param e)"

definition same_data :: "event_heap \<Rightarrow> event_heap \<Rightarrow> bool" where
  "same_data h h' \<longleftrightarrow> (\<forall>a. ev_data (h' a) = ev_data (h a))"

lemma same_dataD:
  assumes "same_data h h'"
  shows "ev_fd (h' a) = ev_fd (h a)" "ev_index (h' a) = ev_index (h a)" "ev_persist (h' a) = ev_persist (h a)"
    "ev_timeout (h' a) = ev_timeout (h a)" "ev_func (h' a) = ev_func (h a)" "ev_param (h' a) = ev_param (h a)"
  using assms by (auto simp: same_data_def ev_data_def)

lemma same_data_refl [simp]: "same_data h h"
  by (simp add: same_data_def)

lemma same_data_trans: "same_data h h' \<Longrightarrow> same_data h' h'' \<Longrightarrow> same_data h h''"
  by (simp add: same_data_def)

lemma same_data_ops: "same_data h (addToList ev l h)" "same_data h (removeFromList ev h)"
  by (auto simp: same_data_def ev_data_def addToList_def removeFromList_def set_next_def set_prev_def Let_def)

lemma addToList_links:
  assumes "ev \<noteq> l" and "ev \<noteq> ev_prev (h l)"
  shows "ev_next (addToList ev l h a) = (if a = ev then l else if a = ev_prev (h l) then ev else ev_next (h a))"
    "ev_prev (addToList ev l h a) = (if a = l then ev else if a = ev then ev_prev (h l) else ev_prev (h a))"
  using assms by (auto simp: addToList_def set_next_def set_prev_def Let_def)

lemma removeFromList_links:
  assumes "ev \<noteq> ev_next (h ev)" and "ev \<noteq> ev_prev (h ev)"
  shows "a \<noteq> ev \<Longrightarrow> ev_next (removeFromList ev h a) = (if a = ev_prev (h ev) then ev_next (h ev) else ev_next (h a))"
    "a \<noteq> ev \<Longrightarrow> ev_prev (removeFromList ev h a) = (if a = ev_next (h ev) then ev_prev (h ev) else ev_prev (h a))"
  using assms by (auto simp: removeFromList_def set_next_def set_prev_def Let_def)

lemma dlist_split:
  "dlist h s (as @ bs) \<longleftrightarrow> distinct (s # as @ bs) \<and> 0 \<notin> set (s # as @ bs) \<and> links h (s # as) \<and> links h (bs @ [s]) \<and>
     ev_next (h (last (s # as))) = hd (bs @ [s]) \<and> ev_prev (h (hd (bs @ [s]))) = last (s # as)"
proof -
  define L p q R where "L = butlast (s # as)" and "p = last (s # as)" and "q = hd (bs @ [s])" and "R = tl (bs @ [s])"
  have a: "s # as = L @ [p]" unfolding L_def p_def by (rule append_butlast_last_id [symmetric]) simp
  have b: "bs @ [s] = q # R" unfolding q_def R_def by (rule list.collapse [symmetric]) simp
  have "s # (as @ bs) @ [s] = L @ p # q # R" using a b by (metis append.assoc append_Cons append_Nil)
  then have "links h (s # (as @ bs) @ [s]) \<longleftrightarrow> links h (L @ [p]) \<and> ev_next (h p) = q \<and> ev_prev (h q) = p \<and> links h (q # R)"
    by (simp only: links_append [of h L p "q # R"] links.simps)
  then show ?thesis
    unfolding dlist_def a b last_snoc list.sel(1) by blast
qed

lemma hd_ends: "hd (bs @ [s]) \<in> set (s # bs)" "last (s # as) \<in> set (s # as)"
  by (cases bs; simp) (metis last_in_set list.distinct(1))

lemma butlast_tl_ends:
  "distinct (s # as @ bs) \<Longrightarrow> last (s # as) \<notin> set (butlast (s # as))"
  "distinct (s # as @ bs) \<Longrightarrow> last (s # as) \<notin> set bs"
  "distinct (s # as @ bs) \<Longrightarrow> hd (bs @ [s]) \<notin> set as"
  "distinct (s # as @ bs) \<Longrightarrow> hd (bs @ [s]) \<notin> set (tl (bs @ [s]))"
proof -
  assume d: "distinct (s # as @ bs)"
  have "distinct (butlast (s # as) @ [last (s # as)])" using d by (subst append_butlast_last_id) auto
  then show "last (s # as) \<notin> set (butlast (s # as))" by simp
  have "last (s # as) \<in> set (s # as)" by (rule hd_ends)
  then show "last (s # as) \<notin> set bs" using d by auto
  show "hd (bs @ [s]) \<notin> set as" using d by (cases bs) auto
  show "hd (bs @ [s]) \<notin> set (tl (bs @ [s]))" using d by (cases bs) auto
qed

text \<open>Inserting before the first element of \<open>bs\<close>, or at the end.\<close>

lemma dlist_addToList:
  assumes d: "dlist h s (as @ bs)" and ev: "ev \<notin> set (s # as @ bs)" "ev \<noteq> 0"
  shows "dlist (addToList ev (hd (bs @ [s])) h) s (as @ ev # bs)"
proof -
  define p q where "p = last (s # as)" and "q = hd (bs @ [s])"
  have pq: "p \<in> set (s # as)" "q \<in> set (s # bs)" unfolding p_def q_def by (rule hd_ends)+
  have s: "distinct (s # as @ bs)" "0 \<notin> set (s # as @ bs)" "links h (s # as)" "links h (bs @ [s])" "ev_prev (h q) = p"
    using d by (auto simp: dlist_split p_def q_def)
  note ends = butlast_tl_ends [OF s(1), folded p_def q_def]
  have ne: "ev \<noteq> q" "ev \<noteq> ev_prev (h q)" using ev pq s(5) by auto
  note upd = addToList_links [where ev = ev and l = q and h = h, OF ne]
  have "links (addToList ev q h) (s # as) = links h (s # as)"
  proof (rule links_cong)
    fix a assume "a \<in> set (butlast (s # as))"
    then have "a \<noteq> p" "a \<noteq> ev" using ends(1) ev(1) by (auto dest: in_set_butlastD split: if_splits)
    then show "ev_next (addToList ev q h a) = ev_next (h a)" using s(5) upd by simp
  next
    fix a assume "a \<in> set (tl (s # as))"
    then have "a \<noteq> q" "a \<noteq> ev" using ends(3) ev(1) by auto
    then show "ev_prev (addToList ev q h a) = ev_prev (h a)" using upd by simp
  qed
  moreover have "links (addToList ev q h) (bs @ [s]) = links h (bs @ [s])"
  proof (rule links_cong)
    fix a assume "a \<in> set (butlast (bs @ [s]))"
    then have "a \<noteq> p" "a \<noteq> ev" using ends(2) ev(1) by auto
    then show "ev_next (addToList ev q h a) = ev_next (h a)" using s(5) upd by simp
  next
    fix a assume a: "a \<in> set (tl (bs @ [s]))"
    then have "a \<in> set (s # bs)" by (cases bs) auto
    then have "a \<noteq> q" "a \<noteq> ev" using a ends(4) ev(1) by auto
    then show "ev_prev (addToList ev q h a) = ev_prev (h a)" using upd by simp
  qed
  moreover have "hd ((ev # bs) @ [s]) = ev" "links h' ((ev # bs) @ [s]) \<longleftrightarrow> ev_next (h' ev) = q \<and> ev_prev (h' q) = ev \<and> links h' (bs @ [s])" for h'
    unfolding q_def by simp (cases bs; simp)
  moreover have "ev \<noteq> p" using ne(2) s(5) by simp
  ultimately show ?thesis
    unfolding q_def [symmetric] dlist_split p_def [symmetric] using s ev ne(1) upd by auto
qed

lemma dlist_removeFromList:
  assumes d: "dlist h s (as @ ev # bs)"
  shows "dlist (removeFromList ev h) s (as @ bs)"
proof -
  define p q where "p = last (s # as)" and "q = hd (bs @ [s])"
  have pq: "p \<in> set (s # as)" "q \<in> set (s # bs)" unfolding p_def q_def by (rule hd_ends)+
  have "links h ((ev # bs) @ [s]) \<longleftrightarrow> ev_next (h ev) = q \<and> ev_prev (h q) = ev \<and> links h (bs @ [s])"
    unfolding q_def by (cases bs; simp)
  then have s: "distinct (s # as @ ev # bs)" "0 \<notin> set (s # as @ ev # bs)" "links h (s # as)" "links h (bs @ [s])"
    "ev_next (h ev) = q" "ev_prev (h ev) = p"
    using d by (auto simp: dlist_split [of h s as "ev # bs"] p_def)
  have ds: "distinct (s # as @ bs)" using s(1) by auto
  note ends = butlast_tl_ends [OF ds, folded p_def q_def]
  have ev: "ev \<notin> set (s # as @ bs)" using s(1) by auto
  have ne: "ev \<noteq> ev_next (h ev)" "ev \<noteq> ev_prev (h ev)" using ev pq s(5,6) by auto
  note upd = removeFromList_links [where ev = ev and h = h, OF ne, unfolded s(5,6)]
  have "links (removeFromList ev h) (s # as) = links h (s # as)"
  proof (rule links_cong)
    fix a assume "a \<in> set (butlast (s # as))"
    then have "a \<noteq> p" "a \<noteq> ev" using ends(1) ev by (auto dest: in_set_butlastD split: if_splits)
    then show "ev_next (removeFromList ev h a) = ev_next (h a)" using upd by simp
  next
    fix a assume "a \<in> set (tl (s # as))"
    then have "a \<noteq> q" "a \<noteq> ev" using ends(3) ev by auto
    then show "ev_prev (removeFromList ev h a) = ev_prev (h a)" using upd by simp
  qed
  moreover have "links (removeFromList ev h) (bs @ [s]) = links h (bs @ [s])"
  proof (rule links_cong)
    fix a assume "a \<in> set (butlast (bs @ [s]))"
    then have "a \<noteq> p" "a \<noteq> ev" using ends(2) ev by auto
    then show "ev_next (removeFromList ev h a) = ev_next (h a)" using upd by simp
  next
    fix a assume a: "a \<in> set (tl (bs @ [s]))"
    then have "a \<in> set (s # bs)" by (cases bs) auto
    then have "a \<noteq> q" "a \<noteq> ev" using a ends(4) ev by auto
    then show "ev_prev (removeFromList ev h a) = ev_prev (h a)" using upd by simp
  qed
  moreover have "p \<noteq> ev" "q \<noteq> ev" using ne s(5,6) by auto
  ultimately show ?thesis
    unfolding dlist_split p_def [symmetric] q_def [symmetric] using s ds upd by auto
qed

text \<open>A list keeps its shape when no other list's neighbours are touched.\<close>

lemma dlist_frame:
  assumes "dlist h s xs" and "\<And>a. a \<in> set (s # xs) \<Longrightarrow> ev_next (h' a) = ev_next (h a) \<and> ev_prev (h' a) = ev_prev (h a)"
  shows "dlist h' s xs"
proof -
  have "links h' (s # xs @ [s]) = links h (s # xs @ [s])"
    using assms(2) by (intro links_cong) (auto simp: butlast_append)
  then show ?thesis using assms(1) by (simp add: dlist_def)
qed

lemma dlist_add_other:
  assumes "dlist h s xs" and "dlist h t (as @ bs)" and "set (s # xs) \<inter> set (t # as @ bs) = {}"
    and "ev \<notin> set (s # xs)" "ev \<notin> set (t # as @ bs)"
  shows "dlist (addToList ev (hd (bs @ [t])) h) s xs"
proof (rule dlist_frame [OF assms(1)])
  fix a assume a: "a \<in> set (s # xs)"
  have q: "hd (bs @ [t]) \<in> set (t # bs)" by (rule hd_ends)
  have "ev_prev (h (hd (bs @ [t]))) = last (t # as)" using assms(2) by (auto simp: dlist_split)
  moreover have p: "last (t # as) \<in> set (t # as)" by (rule hd_ends)
  ultimately have pv: "ev_prev (h (hd (bs @ [t]))) \<in> set (t # as)" by simp
  have ne: "ev \<noteq> hd (bs @ [t])" "ev \<noteq> ev_prev (h (hd (bs @ [t])))" using q pv assms(5) by auto
  have "a \<noteq> ev" "a \<noteq> hd (bs @ [t])" "a \<noteq> ev_prev (h (hd (bs @ [t])))" using a q pv assms(3,4) by auto
  then show "ev_next (addToList ev (hd (bs @ [t])) h a) = ev_next (h a) \<and> ev_prev (addToList ev (hd (bs @ [t])) h a) = ev_prev (h a)"
    using addToList_links [where ev = ev and l = "hd (bs @ [t])" and h = h, OF ne] by simp
qed

lemma dlist_remove_other:
  assumes "dlist h s xs" and "dlist h t (as @ ev # bs)" and "set (s # xs) \<inter> set (t # as @ ev # bs) = {}"
  shows "dlist (removeFromList ev h) s xs"
proof (rule dlist_frame [OF assms(1)])
  fix a assume a: "a \<in> set (s # xs)"
  have "links h ((ev # bs) @ [t]) \<longleftrightarrow> ev_next (h ev) = hd (bs @ [t]) \<and> ev_prev (h (hd (bs @ [t]))) = ev \<and> links h (bs @ [t])"
    by (cases bs; simp)
  then have l: "ev_next (h ev) = hd (bs @ [t])" "ev_prev (h ev) = last (t # as)" "distinct (t # as @ ev # bs)"
    using assms(2) by (auto simp: dlist_split [of h t as "ev # bs"])
  have m: "hd (bs @ [t]) \<in> set (t # bs)" "last (t # as) \<in> set (t # as)" by (rule hd_ends)+
  have ne: "ev \<noteq> ev_next (h ev)" "ev \<noteq> ev_prev (h ev)" using m l by auto
  have "a \<noteq> ev" "a \<noteq> ev_next (h ev)" "a \<noteq> ev_prev (h ev)" using a assms(3) m l by auto
  then show "ev_next (removeFromList ev h a) = ev_next (h a) \<and> ev_prev (removeFromList ev h a) = ev_prev (h a)"
    using removeFromList_links [where ev = ev and h = h, OF ne] by simp
qed

lemma dlist_hd: "dlist h s xs \<Longrightarrow> ev_next (h s) = hd (xs @ [s])"
  using dlist_split [of h s "[]" xs] by simp

lemma dlist_init: "s \<noteq> 0 \<Longrightarrow> dlist (init_list s h) s []"
  by (simp add: dlist_def init_list_def)

end
