(* ===== verification/RilEventLoop.thy ===== *)
theory RilEventLoop
  imports RilLists
begin

text \<open>
  Correctness of the libril event loop: the timer list stays sorted and refines a list of
  deadlines, the watch table, the descriptor set and its bound agree, and one round of the loop
  fires exactly the expired timers and the ready descriptors, in order.
\<close>

section \<open>Times\<close>

definition normal :: "timeval \<Rightarrow> bool" where
  "normal t \<longleftrightarrow> 0 \<le> tv_usec t \<and> tv_usec t < 1000000"

definition usecs :: "timeval \<Rightarrow> int" where
  "usecs t = tv_sec t * 1000000 + tv_usec t"

lemma timer_less_usecs: "normal a \<Longrightarrow> normal b \<Longrightarrow> timer_less a b \<longleftrightarrow> usecs a < usecs b"
  by (auto simp: timer_less_def usecs_def normal_def)

lemma timeradd_usecs:
  assumes "normal a" and "normal b"
  shows "normal (timeradd a b)" "usecs (timeradd a b) = usecs a + usecs b"
  using assms by (auto simp: timeradd_def usecs_def normal_def Let_def)

lemma timersub_usecs:
  assumes "normal a" and "normal b"
  shows "normal (timersub a b)" "usecs (timersub a b) = usecs a - usecs b"
  using assms by (auto simp: timersub_def usecs_def normal_def Let_def)

section \<open>The invariant\<close>

abbreviation due :: "event_heap \<Rightarrow> addr \<Rightarrow> int" where
  "due h a \<equiv> usecs (ev_timeout (h a))"

definition watched :: "event_loop \<Rightarrow> addr list" where
  "watched st = filter (\<lambda>e. e \<noteq> 0) (watch_table st)"

text \<open>The lists of timers \<open>ts\<close> and of pending events \<open>ps\<close>.\<close>

definition lists_ok :: "event_heap \<Rightarrow> addr list \<Rightarrow> addr list \<Rightarrow> bool" where
  "lists_ok h ts ps \<longleftrightarrow> dlist h TIMER_LIST ts \<and> dlist h PENDING_LIST ps \<and>
     set (TIMER_LIST # ts) \<inter> set (PENDING_LIST # ps) = {} \<and>
     sorted_wrt (\<lambda>a b. due h a \<le> due h b) ts \<and> (\<forall>e \<in> set ts. normal (ev_timeout (h e)))"

definition watch_ok :: "event_loop \<Rightarrow> bool" where
  "watch_ok st \<longleftrightarrow> length (watch_table st) = MAX_FD_EVENTS \<and>
     (\<forall>i < MAX_FD_EVENTS. watch_table st ! i \<noteq> 0 \<longrightarrow> ev_index (heap st (watch_table st ! i)) = int i) \<and>
     TIMER_LIST \<notin> set (watch_table st) \<and> PENDING_LIST \<notin> set (watch_table st) \<and>
     inj_on (\<lambda>e. ev_fd (heap st e)) (set (watched st)) \<and>
     (\<forall>e \<in> set (watched st). 0 \<le> ev_fd (heap st e) \<and> ev_fd (heap st e) < nfds st) \<and>
     readFds st = (\<lambda>e. ev_fd (heap st e)) ` set (watched st)"

definition event_inv :: "event_loop \<Rightarrow> addr list \<Rightarrow> addr list \<Rightarrow> bool" where
  "event_inv st ts ps \<longleftrightarrow> lists_ok (heap st) ts ps \<and> watch_ok st \<and> set ts \<inter> set (watched st) = {}"

lemma heads [simp]: "TIMER_LIST \<noteq> PENDING_LIST" "PENDING_LIST \<noteq> TIMER_LIST" "TIMER_LIST \<noteq> 0" "PENDING_LIST \<noteq> 0"
  "0 < TIMER_LIST" "0 < PENDING_LIST"
  by (simp_all add: TIMER_LIST_def PENDING_LIST_def)

lemma watched_iff: "e \<in> set (watched st) \<longleftrightarrow> e \<noteq> 0 \<and> e \<in> set (watch_table st)"
  by (auto simp: watched_def)




lemma same_data_watch:
  assumes "same_data (heap st) h"
  shows "watch_ok (st\<lparr>heap := h\<rparr>) = watch_ok st"
  by (simp add: watch_ok_def same_dataD [OF assms] watched_def)

lemma same_data_sorted:
  assumes "same_data h h'"
  shows "sorted_wrt (\<lambda>a b. due h' a \<le> due h' b) ts = sorted_wrt (\<lambda>a b. due h a \<le> due h b) ts"
    "(\<forall>e \<in> set ts. normal (ev_timeout (h' e))) = (\<forall>e \<in> set ts. normal (ev_timeout (h e)))"
  by (simp_all add: same_dataD [OF assms])

section \<open>Moving events between the lists\<close>

lemma lists_ok_pend:
  assumes ok: "lists_ok h ts ps" and ev: "ev \<notin> set (TIMER_LIST # ts)" "ev \<notin> set (PENDING_LIST # ps)" "ev \<noteq> 0"
  shows "lists_ok (addToList ev PENDING_LIST h) ts (ps @ [ev])"
proof -
  have d: "dlist h TIMER_LIST ts" "dlist h PENDING_LIST (ps @ [])" "set (TIMER_LIST # ts) \<inter> set (PENDING_LIST # ps @ []) = {}"
    using ok by (auto simp: lists_ok_def)
  have "dlist (addToList ev PENDING_LIST h) PENDING_LIST (ps @ [ev])"
    using dlist_addToList [OF d(2)] ev by simp
  moreover have "dlist (addToList ev PENDING_LIST h) TIMER_LIST ts"
    using dlist_add_other [OF d] ev by simp
  ultimately show ?thesis
    using ok ev same_data_sorted [OF same_data_ops(1) [of h ev PENDING_LIST]] by (auto simp: lists_ok_def)
qed

lemma lists_ok_expire1:
  assumes ok: "lists_ok h (ev # ts) ps"
  shows "lists_ok (addToList ev PENDING_LIST (removeFromList ev h)) ts (ps @ [ev])" "ev_next (h ev) = hd (ts @ [TIMER_LIST])"
proof -
  have d: "dlist h TIMER_LIST ([] @ ev # ts)" "dlist h PENDING_LIST ps" "set (PENDING_LIST # ps) \<inter> set (TIMER_LIST # [] @ ev # ts) = {}"
    using ok by (auto simp: lists_ok_def)
  have "dlist (removeFromList ev h) TIMER_LIST ts" using dlist_removeFromList [OF d(1)] by simp
  moreover have "dlist (removeFromList ev h) PENDING_LIST ps" by (rule dlist_remove_other [OF d(2,1,3)])
  ultimately have "lists_ok (removeFromList ev h) ts ps"
    using ok same_data_sorted [OF same_data_ops(2) [of h ev]] by (auto simp: lists_ok_def)
  moreover have "ev \<notin> set (TIMER_LIST # ts)" "ev \<notin> set (PENDING_LIST # ps)" "ev \<noteq> 0"
    using d by (auto simp: dlist_def)
  ultimately show "lists_ok (addToList ev PENDING_LIST (removeFromList ev h)) ts (ps @ [ev])"
    by (rule lists_ok_pend)
  have "dlist h TIMER_LIST ([ev] @ ts)" using d(1) by simp
  then show "ev_next (h ev) = hd (ts @ [TIMER_LIST])" unfolding dlist_split by simp
qed


lemma expire_correct:
  assumes "lists_ok h ts ps" and "normal now"
  shows "\<exists>h'. expire now (hd (ts @ [TIMER_LIST])) h = Some h' \<and> same_data h h' \<and>
    lists_ok h' (filter (\<lambda>e. \<not> due h e < usecs now) ts) (ps @ filter (\<lambda>e. due h e < usecs now) ts)"
  using assms(1)
proof (induction ts arbitrary: h ps)
  case Nil
  then show ?case by (subst expire.simps) simp
next
  case (Cons ev ts)
  have ne: "ev \<noteq> TIMER_LIST" "normal (ev_timeout (h ev))" "\<forall>e \<in> set ts. due h ev \<le> due h e"
    using Cons.prems by (auto simp: lists_ok_def dlist_def)
  show ?case
  proof (cases "due h ev < usecs now")
    case True
    define g where "g = addToList ev PENDING_LIST (removeFromList ev h)"
    have sd: "same_data h g" unfolding g_def by (rule same_data_trans [OF same_data_ops(2) same_data_ops(1)])
    have step: "lists_ok g ts (ps @ [ev])" "ev_next (h ev) = hd (ts @ [TIMER_LIST])"
      using lists_ok_expire1 [OF Cons.prems] by (auto simp: g_def)
    obtain h' where "expire now (hd (ts @ [TIMER_LIST])) g = Some h'" "same_data g h'"
      "lists_ok h' (filter (\<lambda>e. \<not> due g e < usecs now) ts) ((ps @ [ev]) @ filter (\<lambda>e. due g e < usecs now) ts)"
      using Cons.IH [OF step(1)] by blast
    moreover have "expire now ev h = expire now (hd (ts @ [TIMER_LIST])) g"
      using True ne assms(2) by (subst expire.simps) (simp add: timer_less_usecs step(2) g_def)
    ultimately show ?thesis
      using True sd by (intro exI [of _ h']) (auto simp: same_dataD [OF sd] intro: same_data_trans)
  next
    case False
    then have "expire now ev h = Some h" using ne(2) assms(2) by (subst expire.simps) (simp add: timer_less_usecs)
    moreover have "filter (\<lambda>e. \<not> due h e < usecs now) (ev # ts) = ev # ts" "filter (\<lambda>e. due h e < usecs now) (ev # ts) = []"
      using False ne(3) by (auto simp: filter_id_conv filter_empty_conv)
    ultimately show ?thesis using Cons.prems by simp
  qed
qed

lemma processTimeouts_correct:
  assumes inv: "event_inv st ts ps" and "normal now"
  shows "\<exists>st'. processTimeouts now st = Some st' \<and> same_data (heap st) (heap st') \<and> readFds st' = readFds st \<and>
    nfds st' = nfds st \<and> watch_table st' = watch_table st \<and>
    event_inv st' (filter (\<lambda>e. \<not> due (heap st) e < usecs now) ts) (ps @ filter (\<lambda>e. due (heap st) e < usecs now) ts)"
proof -
  have ok: "lists_ok (heap st) ts ps" "watch_ok st" "set ts \<inter> set (watched st) = {}" using inv by (auto simp: event_inv_def)
  then have hd: "ev_next (heap st TIMER_LIST) = hd (ts @ [TIMER_LIST])" by (intro dlist_hd) (simp add: lists_ok_def)
  obtain h' where h: "expire now (hd (ts @ [TIMER_LIST])) (heap st) = Some h'" "same_data (heap st) h'"
    "lists_ok h' (filter (\<lambda>e. \<not> due (heap st) e < usecs now) ts) (ps @ filter (\<lambda>e. due (heap st) e < usecs now) ts)"
    using expire_correct [OF ok(1) assms(2)] by blast
  have "watch_ok (st\<lparr>heap := h'\<rparr>)" using same_data_watch [OF h(2)] ok(2) by simp
  then show ?thesis using h ok(3)
    by (intro exI [of _ "st\<lparr>heap := h'\<rparr>"]) (auto simp: processTimeouts_def hd event_inv_def watched_def)
qed

section \<open>The watch table\<close>











section \<open>The interface operations\<close>

lemma find_slot_correct:
  assumes "links h (ts @ [TIMER_LIST])" and "TIMER_LIST \<notin> set ts" and "normal t" and "\<forall>e \<in> set ts. normal (ev_timeout (h e))"
  shows "find_slot h t (hd (ts @ [TIMER_LIST])) = Some (hd (dropWhile (\<lambda>e. due h e < usecs t) ts @ [TIMER_LIST]))"
  using assms
proof (induction ts)
  case Nil
  then show ?case by (subst find_slot.simps) simp
next
  case (Cons e ts)
  have l: "links h (ts @ [TIMER_LIST])" "ev_next (h e) = hd (ts @ [TIMER_LIST])" using Cons.prems(1) by (cases ts; simp)+
  show ?case
  proof (cases "due h e < usecs t")
    case True
    then have "find_slot h t e = find_slot h t (hd (ts @ [TIMER_LIST]))"
      using Cons.prems(2-4) l(2) by (subst find_slot.simps) (simp add: timer_less_usecs)
    then show ?thesis using True Cons.IH [OF l(1)] Cons.prems(2-4) by simp
  next
    case False
    then show ?thesis using Cons.prems(3,4) by (subst find_slot.simps) (simp add: timer_less_usecs)
  qed
qed

lemma sorted_insert_here:
  fixes k :: "addr \<Rightarrow> int"
  assumes "sorted_wrt (\<lambda>a b. k a \<le> k b) ts"
  shows "sorted_wrt (\<lambda>a b. k a \<le> k b) (takeWhile (\<lambda>e. k e < k ev) ts @ ev # dropWhile (\<lambda>e. k e < k ev) ts)"
  using assms
proof (induction ts)
  case (Cons a ts)
  then show ?case by (auto dest: set_takeWhileD set_dropWhileD)
qed simp

text \<open>The heap with the deadline of a new timer written into it.\<close>

definition timer_event :: "addr \<Rightarrow> timeval \<Rightarrow> event_heap \<Rightarrow> event_heap" where
  "timer_event ev t h = h(ev := (h ev)\<lparr>ev_fd := - 1, ev_timeout := t\<rparr>)"

lemma ril_timer_add_correct:
  assumes inv: "event_inv st ts ps" and nw: "normal now" "normal tv"
    and ev: "ev \<noteq> 0" "ev \<notin> set (TIMER_LIST # ts)" "ev \<notin> set (PENDING_LIST # ps)" "ev \<notin> set (watched st)"
  shows "\<exists>st'. ril_timer_add ev now (Some tv) st = Some st' \<and> readFds st' = readFds st \<and> nfds st' = nfds st \<and>
    watch_table st' = watch_table st \<and> (\<forall>a. a \<noteq> ev \<longrightarrow> ev_data (heap st' a) = ev_data (heap st a)) \<and>
    due (heap st') ev = usecs now + usecs tv \<and>
    event_inv st' (takeWhile (\<lambda>e. due (heap st) e < usecs now + usecs tv) ts @ ev #
                   dropWhile (\<lambda>e. due (heap st) e < usecs now + usecs tv) ts) ps"
proof -
  define t where "t = timeradd now tv"
  define h where "h = timer_event ev t (heap st)"
  have t: "normal t" "usecs t = usecs now + usecs tv" using timeradd_usecs [OF nw] by (auto simp: t_def)
  have ok: "lists_ok (heap st) ts ps" "watch_ok st" "set ts \<inter> set (watched st) = {}" using inv by (auto simp: event_inv_def)
  have same: "a \<noteq> ev \<Longrightarrow> h a = heap st a" "ev_timeout (h ev) = t" "ev_next (h a) = ev_next (heap st a)" "ev_prev (h a) = ev_prev (heap st a)" for a
    by (auto simp: h_def timer_event_def)
  have lk: "links h xs = links (heap st) xs" for xs by (rule links_cong) (auto simp: same)
  have hts: "\<And>e. e \<in> set ts \<Longrightarrow> h e = heap st e" using ev(2) same(1) by (metis list.set_intros(2))
  have sorted: "sorted_wrt (\<lambda>a b. due h a \<le> due h b) ts" "\<forall>e \<in> set ts. normal (ev_timeout (h e))"
    using ok(1) hts by (auto simp: lists_ok_def elim!: sorted_wrt_mono_rel [rotated])
  define as bs where "as = takeWhile (\<lambda>e. due h e < due h ev) ts" and "bs = dropWhile (\<lambda>e. due h e < due h ev) ts"
  have split: "ts = as @ bs" by (simp add: as_def bs_def)
  have d: "dlist h TIMER_LIST (as @ bs)" "dlist h PENDING_LIST ps" "set (PENDING_LIST # ps) \<inter> set (TIMER_LIST # as @ bs) = {}"
    using ok(1) by (auto simp: lists_ok_def dlist_def lk split [symmetric])
  have "links h (ts @ [TIMER_LIST])" using d(1) by (cases ts) (auto simp: dlist_def split [symmetric])
  then have slot: "find_slot h t (hd (ts @ [TIMER_LIST])) = Some (hd (bs @ [TIMER_LIST]))"
    using find_slot_correct [OF _ _ t(1) sorted(2)] ok(1) by (auto simp: lists_ok_def dlist_def bs_def same(2))
  define h' where "h' = addToList ev (hd (bs @ [TIMER_LIST])) h"
  have sd: "same_data h h'" by (simp add: h'_def same_data_ops)
  have new: "dlist h' TIMER_LIST (as @ ev # bs)" "dlist h' PENDING_LIST ps"
    unfolding h'_def using dlist_addToList [OF d(1)] dlist_add_other [OF d(2,1,3)] ev split by auto
  have "ev_next (heap st TIMER_LIST) = hd (ts @ [TIMER_LIST])" using ok(1) by (intro dlist_hd) (simp add: lists_ok_def)
  then have eq: "ril_timer_add ev now (Some tv) st = Some (st\<lparr>heap := h'\<rparr>)"
    using slot same(2) by (simp add: ril_timer_add_def h'_def h_def timer_event_def t_def Let_def)
  have "sorted_wrt (\<lambda>a b. due h' a \<le> due h' b) (as @ ev # bs)"
    unfolding same_data_sorted(1) [OF sd] as_def bs_def by (rule sorted_insert_here [OF sorted(1)])
  moreover have "\<forall>e \<in> set (as @ ev # bs). normal (ev_timeout (h' e))"
    unfolding same_dataD(4) [OF sd] using sorted(2) t(1) same(2) split by auto
  ultimately have lists: "lists_ok h' (as @ ev # bs) ps"
    using new d(3) ev(2,3) split by (auto simp: lists_ok_def)
  have wd: "ev_data (h' a) = ev_data (heap st a)" if "a \<noteq> ev" for a using sd same(1) [OF that] by (simp add: same_data_def)
  have wev: "\<And>e. e \<in> set (watched st) \<Longrightarrow> ev_data (h' e) = ev_data (heap st e)" using wd ev(4) by metis
  then have wfd: "\<And>e. e \<in> set (watched st) \<Longrightarrow> ev_fd (h' e) = ev_fd (heap st e) \<and> ev_index (h' e) = ev_index (heap st e)"
    by (simp add: ev_data_def)
  have "watch_ok (st\<lparr>heap := h'\<rparr>)"
  proof -
    have tb: "watch_table st ! i \<in> set (watched st)" if "i < MAX_FD_EVENTS" "watch_table st ! i \<noteq> 0" for i
      using that ok(2) by (auto simp: watched_iff watch_ok_def)
    have im: "(\<lambda>e. ev_fd (h' e)) ` set (watched st) = (\<lambda>e. ev_fd (heap st e)) ` set (watched st)" using wfd by (intro image_cong) auto
    have "inj_on (\<lambda>e. ev_fd (h' e)) (set (watched st)) = inj_on (\<lambda>e. ev_fd (heap st e)) (set (watched st))"
      using wfd by (intro inj_on_cong) auto
    then show ?thesis using ok(2) wfd tb im unfolding watch_ok_def watched_def by simp
  qed
  moreover have kk: "due h e < due h ev \<longleftrightarrow> due (heap st) e < usecs now + usecs tv" if "e \<in> set ts" for e
    using hts [OF that] same(2) t(2) by simp
  then have "as = takeWhile (\<lambda>e. due (heap st) e < usecs now + usecs tv) ts" "bs = dropWhile (\<lambda>e. due (heap st) e < usecs now + usecs tv) ts"
    unfolding as_def bs_def by (auto intro!: takeWhile_cong dropWhile_cong)
  moreover have "set (as @ ev # bs) \<inter> set (watched st) = {}" using ok(3) ev(4) split by auto
  ultimately show ?thesis
    using lists wd t(2) same(2) same_dataD(4) [OF sd] eq
    by (intro exI [of _ "st\<lparr>heap := h'\<rparr>"]) (simp add: event_inv_def watched_def)
qed



lemma ril_event_init_correct:
  assumes "0 \<le> nfds st"
  shows "event_inv (ril_event_init st) [] []" "watched (ril_event_init st) = []"
proof -
  have "dlist (init_list PENDING_LIST (init_list TIMER_LIST (heap st))) TIMER_LIST []"
    by (rule dlist_frame [OF dlist_init [of TIMER_LIST "heap st"]]) (auto simp: init_list_def)
  then show "event_inv (ril_event_init st) [] []" "watched (ril_event_init st) = []"
    using dlist_init by (auto simp: event_inv_def lists_ok_def watch_ok_def watched_def ril_event_init_def)
qed

section \<open>Firing\<close>





lemma calcNextTimeout_correct:
  assumes inv: "event_inv st ts ps" and "normal now"
  shows "calcNextTimeout now st = None \<longleftrightarrow> ts = []"
    "ts \<noteq> [] \<Longrightarrow> \<exists>w. calcNextTimeout now st = Some w \<and> normal w \<and> usecs w = max 0 (due (heap st) (hd ts) - usecs now)"
proof -
  have d: "dlist (heap st) TIMER_LIST ts" "\<forall>e \<in> set ts. normal (ev_timeout (heap st e))"
    using inv by (auto simp: event_inv_def lists_ok_def)
  have h: "ev_next (heap st TIMER_LIST) = hd (ts @ [TIMER_LIST])" by (rule dlist_hd [OF d(1)])
  have ne: "ts \<noteq> [] \<Longrightarrow> hd ts \<noteq> TIMER_LIST" using d(1) by (cases ts) (auto simp: dlist_def)
  show "calcNextTimeout now st = None \<longleftrightarrow> ts = []"
    using ne by (cases ts) (auto simp: calcNextTimeout_def h Let_def)
  assume t: "ts \<noteq> []"
  then have "normal (ev_timeout (heap st (hd ts)))" using d(2) by simp
  then show "\<exists>w. calcNextTimeout now st = Some w \<and> normal w \<and> usecs w = max 0 (due (heap st) (hd ts) - usecs now)"
    using t ne timer_less_usecs [OF assms(2), of "ev_timeout (heap st (hd ts))"] timersub_usecs [OF _ assms(2)]
    by (auto simp: calcNextTimeout_def h Let_def normal_def usecs_def)
qed

section \<open>The timers as a queue of deadlines\<close>

text \<open>
  The contract of the timers: a queue of deadlines in microseconds, sorted, in which a new entry
  goes before equal ones. The laws are enough to show that the loop neither oversleeps nor stalls.
\<close>

locale deadline_queue =
  fixes rep :: "'s \<Rightarrow> (int \<times> 'e) list \<Rightarrow> bool"
    and fresh :: "'e \<Rightarrow> 's \<Rightarrow> bool"
    and add :: "'e \<Rightarrow> int \<Rightarrow> int \<Rightarrow> 's \<Rightarrow> 's option"
    and expired :: "int \<Rightarrow> 's \<Rightarrow> 's option"
    and wait :: "int \<Rightarrow> 's \<Rightarrow> int option"
  assumes sorted_law: "rep s q \<Longrightarrow> sorted (map fst q)"
    and add_law: "rep s q \<Longrightarrow> fresh e s \<Longrightarrow> \<exists>s'. add e now d s = Some s' \<and> rep s' (insort_key fst (now + d, e) q)"
    and expired_law: "rep s q \<Longrightarrow> \<exists>s'. expired now s = Some s' \<and> rep s' (filter (\<lambda>x. now \<le> fst x) q)"
    and wait_law: "rep s q \<Longrightarrow> wait now s = (if q = [] then None else Some (max 0 (fst (hd q) - now)))"
begin

lemma hd_least: "rep s q \<Longrightarrow> x \<in> set q \<Longrightarrow> fst (hd q) \<le> fst x"
  using sorted_law [of s q] by (cases q) auto

lemma no_oversleep:
  assumes "rep s q" and "fresh e s"
  shows "\<exists>s' q' w. add e now d s = Some s' \<and> rep s' q' \<and> (now + d, e) \<in> set q' \<and> wait now s' = Some w \<and>
    (\<forall>x \<in> set q'. w \<le> max 0 (fst x - now))"
proof -
  obtain s' where s': "add e now d s = Some s'" "rep s' (insort_key fst (now + d, e) q)"
    using add_law [OF assms] by blast
  define q' where "q' = insort_key fst (now + d, e) q"
  have q': "(now + d, e) \<in> set q'" "q' \<noteq> []" by (auto simp: q'_def set_insort_key)
  have "fst (hd q') \<le> fst x" if "x \<in> set q'" for x using hd_least [OF s'(2)] that by (simp add: q'_def)
  then show ?thesis using s' q' wait_law [OF s'(2), of now] unfolding q'_def [symmetric]
    by (intro exI [of _ s'] exI [of _ q'] exI [of _ "max 0 (fst (hd q') - now)"]) (force simp: max_def)
qed

lemma progress:
  assumes "rep s q" and "wait now s = Some w" and "now + w < now'"
  shows "\<exists>s' q'. expired now' s = Some s' \<and> rep s' q' \<and> length q' < length q \<and> (\<forall>x \<in> set q'. now' \<le> fst x)"
proof -
  obtain s' where s': "expired now' s = Some s'" "rep s' (filter (\<lambda>x. now' \<le> fst x) q)"
    using expired_law [OF assms(1)] by blast
  have q: "q \<noteq> []" "w = max 0 (fst (hd q) - now)" using assms(2) wait_law [OF assms(1), of now] by (auto split: if_splits)
  then have "hd q \<in> set q" "\<not> now' \<le> fst (hd q)" using assms(3) by auto
  then have "length (filter (\<lambda>x. now' \<le> fst x) q) < length q" by (rule length_filter_less)
  then show ?thesis using s' by auto
qed

end

definition tv_of :: "int \<Rightarrow> timeval" where
  "tv_of u = \<lparr>tv_sec = u div 1000000, tv_usec = u mod 1000000\<rparr>"

lemma tv_of: "normal (tv_of u)" "usecs (tv_of u) = u"
  by (simp_all add: tv_of_def normal_def usecs_def)

definition timers_rep :: "event_loop \<Rightarrow> (int \<times> addr) list \<Rightarrow> bool" where
  "timers_rep st q \<longleftrightarrow> (\<exists>ts ps. event_inv st ts ps \<and> q = map (\<lambda>a. (due (heap st) a, a)) ts)"

definition timer_fresh :: "addr \<Rightarrow> event_loop \<Rightarrow> bool" where
  "timer_fresh e st \<longleftrightarrow> e \<noteq> 0 \<and> e \<noteq> TIMER_LIST \<and> e \<noteq> PENDING_LIST \<and> e \<notin> set (watched st) \<and>
     (\<forall>ts ps. event_inv st ts ps \<longrightarrow> e \<notin> set ts \<union> set ps)"

lemma insort_split:
  "map (\<lambda>a. (k a, a)) (takeWhile (\<lambda>a. k a < k e) ts @ e # dropWhile (\<lambda>a. k a < k e) ts) =
   insort_key fst (k e, e) (map (\<lambda>a. (k a :: int, a)) ts)"
  by (induction ts) auto

lemma timer_add_rep:
  assumes "timers_rep st q" and "timer_fresh e st"
  shows "\<exists>st'. ril_timer_add e (tv_of now) (Some (tv_of d)) st = Some st' \<and> timers_rep st' (insort_key fst (now + d, e) q)"
proof -
  obtain ts ps where i: "event_inv st ts ps" "q = map (\<lambda>a. (due (heap st) a, a)) ts"
    using assms(1) by (auto simp: timers_rep_def)
  have f: "e \<noteq> 0" "e \<notin> set (TIMER_LIST # ts)" "e \<notin> set (PENDING_LIST # ps)" "e \<notin> set (watched st)"
    using assms(2) i(1) by (auto simp: timer_fresh_def)
  obtain st' where st': "ril_timer_add e (tv_of now) (Some (tv_of d)) st = Some st'"
    "\<forall>a. a \<noteq> e \<longrightarrow> ev_data (heap st' a) = ev_data (heap st a)" "due (heap st') e = now + d"
    "event_inv st' (takeWhile (\<lambda>a. due (heap st) a < now + d) ts @ e # dropWhile (\<lambda>a. due (heap st) a < now + d) ts) ps"
    using ril_timer_add_correct [OF i(1) tv_of(1) tv_of(1) f, of now d] by (auto simp: tv_of(2))
  define k where "k a = due (heap st') a" for a
  have same: "k a = due (heap st) a" if "a \<in> set ts" for a
    using st'(2) that f(2) unfolding k_def ev_data_def by (metis list.set_intros(2) prod.inject)
  have "takeWhile (\<lambda>a. due (heap st) a < now + d) ts = takeWhile (\<lambda>a. k a < k e) ts"
    "dropWhile (\<lambda>a. due (heap st) a < now + d) ts = dropWhile (\<lambda>a. k a < k e) ts"
    "q = map (\<lambda>a. (k a, a)) ts"
    using same st'(3) by (auto simp: i(2) k_def [of e] intro!: takeWhile_cong dropWhile_cong)
  then show ?thesis using st'(1,4) insort_split [of k e ts] st'(3)
    unfolding timers_rep_def by (auto simp: k_def)
qed

lemma timers_expired_rep:
  assumes "timers_rep st q"
  shows "\<exists>st'. processTimeouts (tv_of now) st = Some st' \<and> timers_rep st' (filter (\<lambda>x. now \<le> fst x) q)"
proof -
  obtain ts ps where i: "event_inv st ts ps" "q = map (\<lambda>a. (due (heap st) a, a)) ts"
    using assms by (auto simp: timers_rep_def)
  obtain st' where st': "processTimeouts (tv_of now) st = Some st'" "same_data (heap st) (heap st')"
    "event_inv st' (filter (\<lambda>e. \<not> due (heap st) e < now) ts) (ps @ filter (\<lambda>e. due (heap st) e < now) ts)"
    using processTimeouts_correct [OF i(1) tv_of(1), of now] by (auto simp: tv_of(2))
  then show ?thesis
    by (intro exI [of _ st']) (auto simp: timers_rep_def i(2) filter_map comp_def same_dataD(4) [OF st'(2)] not_less)
qed

lemma timers_wait_rep:
  assumes "timers_rep st q"
  shows "map_option usecs (calcNextTimeout (tv_of now) st) = (if q = [] then None else Some (max 0 (fst (hd q) - now)))"
proof -
  obtain ts ps where i: "event_inv st ts ps" "q = map (\<lambda>a. (due (heap st) a, a)) ts"
    using assms by (auto simp: timers_rep_def)
  show ?thesis
    using calcNextTimeout_correct [OF i(1) tv_of(1), of now] by (cases ts) (auto simp: i(2) tv_of(2))
qed

interpretation timers: deadline_queue timers_rep timer_fresh "\<lambda>e now d. ril_timer_add e (tv_of now) (Some (tv_of d))"
  "\<lambda>now. processTimeouts (tv_of now)" "\<lambda>now st. map_option usecs (calcNextTimeout (tv_of now) st)"
proof
  fix st q assume "timers_rep st q"
  then show "sorted (map fst q)"
    by (auto simp: timers_rep_def event_inv_def lists_ok_def sorted_wrt_map)
qed (simp_all add: timer_add_rep timers_expired_rep timers_wait_rep)

section \<open>Properties\<close>

text \<open>A loop just initialised, and the same loop watching descriptor 5 with the event at address 3.\<close>

definition fresh_loop :: event_loop where
  "fresh_loop = ril_event_init \<lparr>heap = (\<lambda>_. zero_event), readFds = {}, nfds = 0, watch_table = []\<rparr>"

lemma fresh_loop_inv: "event_inv fresh_loop [] []" "watched fresh_loop = []" "readFds fresh_loop = {}" "0 \<in> set (watch_table fresh_loop)"
  using ril_event_init_correct [of "\<lparr>heap = (\<lambda>_. zero_event), readFds = {}, nfds = 0, watch_table = []\<rparr>"]
  by (simp_all add: fresh_loop_def ril_event_init_def MAX_FD_EVENTS_def)

lemma dlist_unique: "dlist h s xs \<Longrightarrow> dlist h s [] \<Longrightarrow> xs = []"
proof -
  assume d: "dlist h s xs" "dlist h s []"
  have "hd (xs @ [s]) = hd ([] @ [s])" using dlist_hd [OF d(1)] dlist_hd [OF d(2)] by (simp only:)
  moreover have "s \<notin> set xs" using d(1) by (simp add: dlist_def)
  ultimately show "xs = []" by (cases xs) auto
qed

lemma fresh_loop_only: "event_inv fresh_loop ts ps \<Longrightarrow> ts = [] \<and> ps = []"
  using fresh_loop_inv(1) dlist_unique unfolding event_inv_def lists_ok_def by blast

lemma fresh_loop_timers: "timers_rep fresh_loop []" "timer_fresh 3 fresh_loop"
proof -
  show "timers_rep fresh_loop []" using fresh_loop_inv(1) unfolding timers_rep_def by (intro exI) auto
  show "timer_fresh 3 fresh_loop"
    using fresh_loop_inv(2) by (auto simp: timer_fresh_def TIMER_LIST_def PENDING_LIST_def dest!: fresh_loop_only)
qed

lemma demo_timer:
  obtains st where "timers_rep st [(150, 3)]"
  using timer_add_rep [OF fresh_loop_timers, of 100 50] by auto

text \<open>
  C14 (refinement). \<open>ril_timer_add\<close> on the doubly linked list in the heap implements sorted insertion
  into the queue of deadlines: it ends, the new timer goes before those that end at the same time,
  and all links, the watch table and the other events stay as they were.
\<close>

theorem ril_timer_add_refines:
  assumes "timers_rep st q" and "timer_fresh e st"
  shows "\<exists>st'. ril_timer_add e (tv_of now) (Some (tv_of d)) st = Some st' \<and> timers_rep st' (insort_key fst (now + d, e) q)"
  using timers.add_law [OF assms] .

theorem ril_timer_add_refines_witness:
  "\<exists>st'. ril_timer_add 3 (tv_of 100) (Some (tv_of 50)) fresh_loop = Some st' \<and> timers_rep st' (insort_key fst (100 + 50, 3) [])"
  by (rule ril_timer_add_refines) (rule fresh_loop_timers)+

text \<open>
  After a timer is added, the time \<open>calcNextTimeout\<close> tells \<open>select\<close> to wait is
  no longer than what is left of any timer, the new one included (zero when one is past).
\<close>

theorem calcNextTimeout_no_oversleep:
  assumes "timers_rep st q" and "timer_fresh e st"
  shows "\<exists>st' q' w. ril_timer_add e (tv_of now) (Some (tv_of d)) st = Some st' \<and> timers_rep st' q' \<and> (now + d, e) \<in> set q' \<and>
    map_option usecs (calcNextTimeout (tv_of now) st') = Some w \<and> (\<forall>x \<in> set q'. w \<le> max 0 (fst x - now))"
  using timers.no_oversleep [OF assms] .

theorem calcNextTimeout_no_oversleep_witness:
  "\<exists>st' q' w. ril_timer_add 3 (tv_of 100) (Some (tv_of 50)) fresh_loop = Some st' \<and> timers_rep st' q' \<and> (100 + 50, 3) \<in> set q' \<and>
    map_option usecs (calcNextTimeout (tv_of 100) st') = Some w \<and> (\<forall>x \<in> set q'. w \<le> max 0 (fst x - 100))"
  by (rule calcNextTimeout_no_oversleep) (rule fresh_loop_timers)+

text \<open>
  C15 (liveness). A loop that has slept longer than \<open>calcNextTimeout\<close> told it makes progress: \<open>processTimeouts\<close>
  ends and takes at least one timer off the list, and exactly the timers not yet past are left.
\<close>

theorem processTimeouts_progress:
  assumes "timers_rep st q" and "map_option usecs (calcNextTimeout (tv_of now) st) = Some w" and "now + w < now'"
  shows "\<exists>st' q'. processTimeouts (tv_of now') st = Some st' \<and> timers_rep st' q' \<and> length q' < length q \<and> (\<forall>x \<in> set q'. now' \<le> fst x)"
  using timers.progress [OF assms] .

theorem processTimeouts_progress_witness:
  "\<exists>st st' q'. timers_rep st [(150, 3)] \<and> processTimeouts (tv_of 151) st = Some st' \<and> timers_rep st' q' \<and>
    length q' < length [(150::int, 3::addr)] \<and> (\<forall>x \<in> set q'. 151 \<le> fst x)"
proof -
  obtain st where st: "timers_rep st [(150, 3)]" by (rule demo_timer)
  have "map_option usecs (calcNextTimeout (tv_of 100) st) = Some 50" using timers_wait_rep [OF st, of 100] by simp
  from processTimeouts_progress [OF st this, of 151] st show ?thesis by auto
qed








end
