(* ===== verification/Words.thy ===== *)
theory Words
  imports Prelude "HOL-Library.Word"
begin

unbundle bit_operations_syntax

text \<open>
  Shared facts on fixed-width words: equality bit by bit, exhaustive checks over bytes, and the
  interface of a four-byte encoding of 32-bit words.
\<close>

type_synonym u8 = "8 word"
type_synonym u32 = "32 word"

section \<open>Bits\<close>

lemma bits_eqI:
  fixes a b :: "'a::len word"
  assumes "\<forall>n \<in> set [0..<LENGTH('a)]. bit a n = bit b n"
  shows "a = b"
  using assms by (intro bit_word_eqI) simp

lemma upt8: "[0..<8] = [0, 1, 2, 3, 4, 5, 6, 7 :: nat]"
  by code_simp

lemma upt32: "[0..<32] = [0, 1, 2, 3, 4, 5, 6, 7, 8, 9, 10, 11, 12, 13, 14, 15, 16, 17, 18, 19, 20, 21, 22, 23, 24, 25, 26, 27, 28, 29, 30, 31 :: nat]"
  by code_simp

lemma all_bytes:
  assumes "\<forall>n \<in> set [0..<256]. P (word_of_nat n :: 8 word)"
  shows "P b"
proof -
  have "unat b < 2 ^ LENGTH(8)" by (rule unsigned_less)
  then have "unat b < 256" by simp
  then show ?thesis using bspec [OF assms, of "unat b"] by simp
qed

section \<open>Four-byte encodings\<close>

text \<open>Both byte orders promise the same; what a reader of a buffer needs is proved here once.\<close>

locale word_codec =
  fixes put :: "u32 \<Rightarrow> u8 list" and get :: "u8 list \<Rightarrow> u32"
  assumes put_length: "length (put v) = 4"
    and get_put: "get (put v @ rest) = v"
begin

lemma put_inj: "put v = put w \<Longrightarrow> v = w"
  using get_put [of v "[]"] get_put [of w "[]"] by simp

lemma get_drop_put: "length pre = n \<Longrightarrow> get (drop n (pre @ put v @ rest)) = v"
  by (simp add: get_put)

lemma put_skip: "drop (4 + n) (put v @ rest) = drop n rest"
  using put_length [of v] by simp

lemma get_after_put: "get (drop (4 + n) (put v @ rest)) = get (drop n rest)"
  by (simp only: put_skip)

end

end
