(* ===== verification/Legacy.thy ===== *)
theory Legacy
  imports Words
begin

unbundle bit_operations_syntax

text \<open>
  The libcutils and libnetutils functions that the old blobs import (\<open>treble/legacy.cpp\<close>): the
  conversions between UTF-16 and (modified) UTF-8, and the small replacements.

  Characters are words of their width. A UTF-16 argument is the list of the units it is declared
  to have; a C string is the list of its bytes before the terminating NUL, so \<open>[]\<close> stands for the
  NUL. \<open>SIZE_MAX\<close> is the argument \<open>smax\<close> (the code is built for 32 and 64 bits), and \<open>malloc\<close> is a
  predicate on sizes. A buffer is the list of what is written to it; that it fits the allocation is
  what the properties show.
\<close>

section \<open>UTF-16 to UTF-8\<close>

type_synonym unit16 = "16 word"
type_synonym byte = "8 word"

definition unit_bytes :: "unit16 \<Rightarrow> nat" where
  "unit_bytes u = (if u > 0x07ff then 3 else if u > 0x7f \<or> u = 0 then 2 else 1)"

fun strnlen_loop :: "nat \<Rightarrow> unit16 list \<Rightarrow> nat \<Rightarrow> nat" where
  "strnlen_loop smax [] utf8Len = (if utf8Len = smax then smax - 1 else utf8Len)"
| "strnlen_loop smax (uic # us) utf8Cur =
     (let utf8Len = (utf8Cur + unit_bytes uic) mod (smax + 1) in
      if utf8Len < utf8Cur then smax - 1 else strnlen_loop smax us utf8Len)"

definition strnlen16to8 :: "nat \<Rightarrow> unit16 list \<Rightarrow> nat" where
  "strnlen16to8 smax us = strnlen_loop smax us 0"

definition utf8_of_unit :: "unit16 \<Rightarrow> byte list" where
  "utf8_of_unit u =
     (if u > 0x07ff then
        [ucast (drop_bit 12 u OR 0xe0), ucast ((drop_bit 6 u AND 0x3f) OR 0x80), ucast ((u AND 0x3f) OR 0x80)]
      else if u > 0x7f \<or> u = 0 then
        [ucast (drop_bit 6 u OR 0xc0), ucast ((u AND 0x3f) OR 0x80)]
      else [ucast u])"

text \<open>The bytes written, the terminating NUL last.\<close>

definition strncpy16to8 :: "unit16 list \<Rightarrow> byte list" where
  "strncpy16to8 us = concat (map utf8_of_unit us) @ [0]"

text \<open>The allocated size and the bytes written into it.\<close>

definition strndup16to8 :: "nat \<Rightarrow> (nat \<Rightarrow> bool) \<Rightarrow> unit16 list option \<Rightarrow> (nat \<times> byte list) option" where
  "strndup16to8 smax malloc s =
     (case s of None \<Rightarrow> None
      | Some us \<Rightarrow>
          let len = strnlen16to8 smax us in
          if len \<ge> smax - 1 then None
          else if \<not> malloc (len + 1) then None
          else Some (len + 1, strncpy16to8 us))"

section \<open>UTF-8 to UTF-16\<close>

definition UTF16_REPLACEMENT_CHAR :: "32 word" where "UTF16_REPLACEMENT_CHAR = 0xfffd"
definition UNICODE_UPPER_LIMIT :: "32 word" where "UNICODE_UPPER_LIMIT = 0x10fffd"

definition UTF8_SEQ_LENGTH :: "byte \<Rightarrow> nat" where
  "UTF8_SEQ_LENGTH ch =
     unat (drop_bit (unat (drop_bit 3 (ucast ch :: 32 word) AND 0x1e)) (0xe5000000 :: 32 word) AND 3) + 1"

definition is_cont :: "byte \<Rightarrow> bool" where
  "is_cont b \<longleftrightarrow> b AND 0xc0 = 0x80"

fun strlen8to16_loop :: "byte list \<Rightarrow> int \<Rightarrow> nat \<Rightarrow> nat" where
  "strlen8to16_loop [] expected len = len"
| "strlen8to16_loop (ic # s) expected len =
     (if is_cont ic then
        (let expected = expected - 1 in strlen8to16_loop s expected (if expected < 0 then len + 1 else len))
      else
        (let expected = int (UTF8_SEQ_LENGTH ic) - 1 in
         strlen8to16_loop s expected (if expected = 3 then len + 2 else len + 1)))"

definition strlen8to16 :: "byte list \<Rightarrow> nat" where
  "strlen8to16 s = strlen8to16_loop s 0 0"

definition leaderMask :: "byte list" where
  "leaderMask = [0xff, 0x1f, 0x0f, 0x07]"

fun cont_bytes :: "nat \<Rightarrow> 32 word \<Rightarrow> byte list \<Rightarrow> 32 word \<times> byte list" where
  "cont_bytes 0 ret s = (ret, s)"
| "cont_bytes (Suc k) ret [] = (UTF16_REPLACEMENT_CHAR, [])"
| "cont_bytes (Suc k) ret (b # s) =
     (if \<not> is_cont b then (UTF16_REPLACEMENT_CHAR, b # s)
      else cont_bytes k (push_bit 6 ret OR (0x3f AND ucast b)) s)"

definition getUtf32FromUtf8 :: "byte list \<Rightarrow> 32 word \<times> byte list" where
  "getUtf32FromUtf8 p =
     (case p of [] \<Rightarrow> (0, [])
      | b # s \<Rightarrow>
          if is_cont b then (UTF16_REPLACEMENT_CHAR, s)
          else let seq_len = UTF8_SEQ_LENGTH b in
               cont_bytes (seq_len - 1) (ucast (b AND leaderMask ! (seq_len - 1))) s)"

definition utf16_units :: "32 word \<Rightarrow> unit16 list" where
  "utf16_units c =
     (if c \<le> 0xffff then [ucast c]
      else if c \<le> UNICODE_UPPER_LIMIT then
        [ucast (0xd800 OR drop_bit 10 (c - 0x10000)), ucast (0xdc00 OR ((c - 0x10000) AND 0x3ff))]
      else [ucast UTF16_REPLACEMENT_CHAR])"

lemma cont_bytes_length: "length (snd (cont_bytes k ret s)) \<le> length s"
  by (induction k ret s rule: cont_bytes.induct) (auto simp: le_SucI)

lemma getUtf32_shorter: "p \<noteq> [] \<Longrightarrow> length (snd (getUtf32FromUtf8 p)) < length p"
  by (cases p) (auto simp: getUtf32FromUtf8_def Let_def less_Suc_eq_le cont_bytes_length)

function decode8to16 :: "byte list \<Rightarrow> unit16 list" where
  "decode8to16 s =
     (if s = [] then []
      else case getUtf32FromUtf8 s of (c, s') \<Rightarrow> utf16_units c @ decode8to16 s')"
  by auto
termination
  by (relation "measure length") (simp, metis in_measure getUtf32_shorter snd_conv)

declare decode8to16.simps [simp del]

text \<open>The allocated units, the units written (the terminator last) and the length reported.\<close>

definition strdup8to16 :: "nat \<Rightarrow> (nat \<Rightarrow> bool) \<Rightarrow> byte list option \<Rightarrow> (nat \<times> unit16 list \<times> nat) option" where
  "strdup8to16 smax malloc s =
     (case s of None \<Rightarrow> None
      | Some s \<Rightarrow>
          let len = strlen8to16 s in
          if len \<ge> smax div 2 then None
          else if \<not> malloc (2 * (len + 1)) then None
          else let dest = decode8to16 s in Some (len + 1, dest @ [0], length dest))"

section \<open>The small replacements\<close>

definition android_memset16 :: "unit16 \<Rightarrow> nat \<Rightarrow> unit16 list \<Rightarrow> unit16 list" where
  "android_memset16 v count dst = (let n = count div 2 in replicate n v @ drop n dst)"

definition m5c_bzero :: "nat \<Rightarrow> byte list \<Rightarrow> byte list" where
  "m5c_bzero n s = replicate n 0 @ drop n s"

definition m5c_bcopy :: "byte list \<Rightarrow> nat \<Rightarrow> byte list \<Rightarrow> byte list" where
  "m5c_bcopy src n dst = take n src @ drop n dst"

datatype errno = ENOSYS | EINVAL

definition dhcp_start :: "string option \<Rightarrow> errno + nat" where
  "dhcp_start ifname = Inl ENOSYS"

definition dhcp_get_results :: "string option \<Rightarrow> errno + nat" where
  "dhcp_get_results ifname = Inl ENOSYS"

definition ifc_set_txq_state :: "string \<Rightarrow> int \<Rightarrow> int" where
  "ifc_set_txq_state ifname state = 0"

definition ifc_ccmni_md_cfg :: "string \<Rightarrow> int \<Rightarrow> int \<Rightarrow> int \<Rightarrow> int" where
  "ifc_ccmni_md_cfg ifname md_id ccmni_idx op = 0"

record xlog_record =
  tag_str :: "string option"
  fmt_str :: "string option"
  prio :: int

text \<open>
  \<open>__xlog_buf_printf\<close>: the call of \<open>__android_log_buf_write\<close> it makes. \<open>vsnprintf\<close> (the whole text for a
  format and its arguments) and the number of log buffers are parameters; \<open>LOG_ID_MAIN\<close> is 0.
\<close>

definition xlog_buf_printf :: "(string \<Rightarrow> 'a \<Rightarrow> string) \<Rightarrow> int \<Rightarrow> int \<Rightarrow> xlog_record option \<Rightarrow> 'a \<Rightarrow>
    errno + int \<times> int \<times> string option \<times> string" where
  "xlog_buf_printf format LOG_ID_MAX bufid rec args =
     (case rec of None \<Rightarrow> Inl EINVAL
      | Some r \<Rightarrow>
          (case fmt_str r of None \<Rightarrow> Inl EINVAL
           | Some f \<Rightarrow>
               let msg = take 1023 (format f args);
                   bufid = (if bufid < 0 \<or> bufid \<ge> LOG_ID_MAX then 0 else bufid) in
               Inr (bufid, prio r, tag_str r, msg)))"

section \<open>Sequence lengths\<close>

lemma seq_length_of_mask:
  "(b AND 0x80 = 0 \<longrightarrow> UTF8_SEQ_LENGTH b = 1 \<and> \<not> is_cont b) \<and>
   (b AND 0xe0 = 0xc0 \<longrightarrow> UTF8_SEQ_LENGTH b = 2 \<and> \<not> is_cont b) \<and>
   (b AND 0xf0 = 0xe0 \<longrightarrow> UTF8_SEQ_LENGTH b = 3 \<and> \<not> is_cont b) \<and>
   1 \<le> UTF8_SEQ_LENGTH b \<and> UTF8_SEQ_LENGTH b \<le> 4"
  by (rule all_bytes [of _ b]) code_simp


section \<open>Buffer sizes\<close>

lemma length_utf8_of_unit: "length (utf8_of_unit u) = unit_bytes u"
  by (simp add: utf8_of_unit_def unit_bytes_def)

lemma strnlen_loop_exact:
  assumes "strnlen_loop smax us n < smax - 1" and "n \<le> smax" and "3 \<le> smax"
  shows "strnlen_loop smax us n = n + length (concat (map utf8_of_unit us))"
  using assms
proof (induction smax us n rule: strnlen_loop.induct)
  case (1 smax n)
  then show ?case by (auto split: if_splits)
next
  case (2 smax uic us n)
  define m where "m = (n + unit_bytes uic) mod (smax + 1)"
  have ub: "1 \<le> unit_bytes uic" "unit_bytes uic \<le> 3" by (auto simp: unit_bytes_def)
  have m: "\<not> m < n" "strnlen_loop smax us m < smax - 1" using "2.prems"(1) by (auto simp: m_def Let_def split: if_splits)
  have "m = n + unit_bytes uic"
  proof (cases "n + unit_bytes uic \<le> smax")
    case False
    then have "m = n + unit_bytes uic - (smax + 1)" using ub "2.prems" by (simp add: m_def mod_if)
    then have False using False m(1) ub "2.prems"(2,3) by linarith
    then show ?thesis ..
  qed (simp add: m_def)
  moreover have "m \<le> smax" unfolding m_def by (metis Suc_eq_plus1 less_Suc_eq_le mod_less_divisor zero_less_Suc)
  then have "strnlen_loop smax us m = m + length (concat (map utf8_of_unit us))"
    using "2.IH" [OF refl] m "2.prems"(3) by (simp add: m_def)
  ultimately show ?case using m(1) by (simp add: m_def [symmetric] length_utf8_of_unit del: One_nat_def)
qed

text \<open>The number of units the decoder writes for one code point.\<close>

lemma length_utf16_units: "length (utf16_units c) \<le> 2" "c \<le> 0xffff \<Longrightarrow> length (utf16_units c) = 1"
  by (auto simp: utf16_units_def)

definition low_bits :: "nat \<Rightarrow> 32 word \<Rightarrow> bool" where
  "low_bits n w \<longleftrightarrow> (\<forall>i \<ge> n. \<not> bit w i)"

lemma low_bits_le: "low_bits n w \<Longrightarrow> n \<le> 16 \<Longrightarrow> w \<le> 0xffff"
proof -
  assume a: "low_bits n w" "n \<le> 16"
  then have "w = take_bit 16 w" by (intro bit_word_eqI) (auto simp: bit_simps low_bits_def not_less [symmetric] intro: ccontr)
  then have "unat w < 2 ^ 16" by (metis take_bit_nat_less_exp unsigned_take_bit_eq)
  then show ?thesis by (simp add: word_le_nat_alt)
qed

lemma bit_3f: "bit (63 :: int) i \<longleftrightarrow> i < 6"
proof -
  have m: "(63 :: int) = mask 6" by (simp add: mask_numeral)
  show ?thesis unfolding m bit_mask_iff by simp
qed

lemma low_bits_step: "low_bits n w \<Longrightarrow> low_bits (n + 6) (push_bit 6 w OR (0x3f AND ucast (b :: byte)))"
  by (auto simp: low_bits_def bit_simps bit_3f)

lemma cont_bytes_bits: "low_bits n w \<Longrightarrow> n + 6 * k \<le> 16 \<Longrightarrow> fst (cont_bytes k w s) \<le> 0xffff"
proof (induction k w s arbitrary: n rule: cont_bytes.induct)
  case (1 ret s)
  then show ?case by (auto intro: low_bits_le)
next
  case (3 k ret b s)
  show ?case
  proof (cases "is_cont b")
    case True
    then show ?thesis using "3.IH" [OF _ low_bits_step [OF "3.prems"(1)]] "3.prems"(2) by simp
  qed (simp add: UTF16_REPLACEMENT_CHAR_def)
qed (simp_all add: UTF16_REPLACEMENT_CHAR_def)

lemma leader_bits: "UTF8_SEQ_LENGTH b \<le> 3 \<Longrightarrow> low_bits (16 - 6 * (UTF8_SEQ_LENGTH b - 1)) (ucast (b AND leaderMask ! (UTF8_SEQ_LENGTH b - 1)))"
proof -
  have "UTF8_SEQ_LENGTH b \<le> 3 \<longrightarrow> (ucast (b AND leaderMask ! (UTF8_SEQ_LENGTH b - 1)) :: 32 word) =
      take_bit (16 - 6 * (UTF8_SEQ_LENGTH b - 1)) (ucast (b AND leaderMask ! (UTF8_SEQ_LENGTH b - 1)))"
    by (rule all_bytes [of _ b]) code_simp
  moreover assume "UTF8_SEQ_LENGTH b \<le> 3"
  ultimately show ?thesis unfolding low_bits_def by (metis bit_take_bit_iff leD)
qed

lemma getUtf32_bmp: "\<not> is_cont b \<Longrightarrow> UTF8_SEQ_LENGTH b \<le> 3 \<Longrightarrow> fst (getUtf32FromUtf8 (b # s)) \<le> 0xffff"
  using cont_bytes_bits [OF leader_bits, of b "UTF8_SEQ_LENGTH b - 1" s] seq_length_of_mask [of b]
  by (simp add: getUtf32FromUtf8_def Let_def)

lemma strlen_loop_acc: "strlen8to16_loop s e (n + len) = strlen8to16_loop s e n + len"
proof (induction s arbitrary: e n)
  case (Cons a s)
  from Cons [of _ "n + 1"] Cons [of _ "n + 2"] Cons [of _ n] show ?case by (simp add: Let_def)
qed simp

text \<open>Continuation bytes that the sequence expects are not counted.\<close>

lemma strlen_loop_cont:
  assumes "int k = e"
  shows "strlen8to16_loop s e n = strlen8to16_loop (snd (cont_bytes k r s)) (e - int (length s - length (snd (cont_bytes k r s)))) n \<and>
    (e - int (length s - length (snd (cont_bytes k r s))) \<le> 0 \<or> snd (cont_bytes k r s) = [] \<or> \<not> is_cont (hd (snd (cont_bytes k r s))))"
  using assms
proof (induction k r s arbitrary: e rule: cont_bytes.induct)
  case (3 k ret b s)
  show ?case
  proof (cases "is_cont b")
    case True
    define s' where "s' = snd (cont_bytes k (push_bit 6 ret OR (0x3f AND ucast b)) s)"
    have le: "length s' \<le> length s" unfolding s'_def by (rule cont_bytes_length)
    have "int k = e - 1" "0 \<le> e - 1" using "3.prems" by auto
    then show ?thesis using True "3.IH" [of "e - 1"] le by (simp add: s'_def [symmetric] Let_def Suc_diff_le algebra_simps)
  qed simp
qed simp_all

lemma decode_fits:
  "e \<le> 0 \<or> s = [] \<or> \<not> is_cont (hd s) \<Longrightarrow> length (decode8to16 s) \<le> strlen8to16_loop s e 0"
proof (induction s arbitrary: e rule: decode8to16.induct)
  case (1 s)
  show ?case
  proof (cases s)
    case (Cons b r)
    obtain c s' where g: "getUtf32FromUtf8 s = (c, s')" by (meson surj_pair)
    have dec: "length (decode8to16 s) = length (utf16_units c) + length (decode8to16 s')"
      using Cons g by (subst decode8to16.simps) simp
    show ?thesis
    proof (cases "is_cont b")
      case True
      then have "c = UTF16_REPLACEMENT_CHAR" "s' = r" using g Cons by (auto simp: getUtf32FromUtf8_def)
      moreover have "length (decode8to16 s') \<le> strlen8to16_loop s' (e - 1) 0"
        using "1.IH" [OF _ g [symmetric], of "e - 1"] "1.prems" True Cons by auto
      moreover have "length (utf16_units UTF16_REPLACEMENT_CHAR) = 1" by (simp add: length_utf16_units UTF16_REPLACEMENT_CHAR_def)
      ultimately show ?thesis
        using dec True Cons "1.prems" strlen_loop_acc [of r "e - 1" 0 1] by (simp add: Let_def)
    next
      case False
      define k where "k = UTF8_SEQ_LENGTH b - 1"
      have k: "int k = int (UTF8_SEQ_LENGTH b) - 1" "k \<le> 3" using seq_length_of_mask [of b] by (auto simp: k_def)
      define w where "w = (ucast (b AND leaderMask ! k) :: 32 word)"
      have s': "s' = snd (cont_bytes k w r)" using g Cons False by (simp add: getUtf32FromUtf8_def Let_def k_def w_def)
      define e' where "e' = int k - int (length r - length s')"
      have cn: "strlen8to16_loop r (int k) 0 = strlen8to16_loop s' e' 0" "e' \<le> 0 \<or> s' = [] \<or> \<not> is_cont (hd s')"
        using strlen_loop_cont [of k "int k" r 0 w] by (auto simp: s' e'_def)
      have "length (decode8to16 s') \<le> strlen8to16_loop s' e' 0"
        using cn(2) Cons by (intro "1.IH" [OF _ g [symmetric], of e']) simp_all
      moreover have "length (utf16_units c) \<le> (if k = 3 then 2 else 1)"
        using length_utf16_units [of c] getUtf32_bmp [OF False, of r] k g Cons by (auto simp: k_def)
      moreover have "strlen8to16_loop s e 0 = strlen8to16_loop r (int k) 0 + (if k = 3 then 2 else 1)"
        using Cons False k(1) strlen_loop_acc [of r "int k" 0 1] strlen_loop_acc [of r 3 0 2] by (simp add: Let_def flip: k(1))
      ultimately show ?thesis using dec cn(1) by linarith
    qed
  qed (simp add: decode8to16.simps)
qed

section \<open>Decoding what was encoded\<close>

lemma beyond16: "16 \<le> n \<Longrightarrow> \<not> bit (u :: unit16) n"
  using bit_imp_le_length [of u n] by auto

lemma small_bits: "(u :: unit16) \<le> 0x07ff \<Longrightarrow> 11 \<le> n \<Longrightarrow> \<not> bit u n" "(u :: unit16) \<le> 0x7f \<Longrightarrow> 7 \<le> n \<Longrightarrow> \<not> bit u n"
proof -
  assume "u \<le> 0x07ff" "11 \<le> n"
  then have "u = take_bit 11 u" by (simp add: word_le_nat_alt word_unat_eq_iff unsigned_take_bit_eq take_bit_nat_eq_self)
  then show "\<not> bit u n" using \<open>11 \<le> n\<close> by (metis bit_take_bit_iff leD)
next
  assume "u \<le> 0x7f" "7 \<le> n"
  then have "u = take_bit 7 u" by (simp add: word_le_nat_alt word_unat_eq_iff unsigned_take_bit_eq take_bit_nat_eq_self)
  then show "\<not> bit u n" using \<open>7 \<le> n\<close> by (metis bit_take_bit_iff leD)
qed

text \<open>The two kinds of bytes that \<open>strncpy16to8\<close> builds.\<close>

lemma cont_unit: "is_cont (ucast ((w AND 0x3f) OR 0x80 :: unit16))"
  unfolding is_cont_def by (rule bits_eqI) (simp add: upt8 bit_simps)

lemma leader3: "(ucast (drop_bit 12 (u :: unit16) OR 0xe0) :: byte) AND 0xf0 = 0xe0"
  by (rule bits_eqI) (simp add: upt8 bit_simps beyond16)

lemma leader2: "u \<le> 0x07ff \<Longrightarrow> (ucast (drop_bit 6 (u :: unit16) OR 0xc0) :: byte) AND 0xe0 = 0xc0"
  by (rule bits_eqI) (simp add: upt8 bit_simps small_bits(1))

lemma leader1: "u \<le> 0x7f \<Longrightarrow> (ucast (u :: unit16) :: byte) AND 0x80 = 0"
  by (rule bits_eqI) (simp add: upt8 bit_simps small_bits(2))

lemma no_nul: "0 \<notin> set (utf8_of_unit u)"
proof -
  have c: "(ucast ((w AND 0x3f) OR 0x80 :: unit16) :: byte) \<noteq> 0" for w
    using cont_unit [of w] by (auto simp: is_cont_def)
  have "(ucast (drop_bit 12 u OR 0xe0) :: byte) \<noteq> 0" using leader3 [of u] by auto
  moreover have "u \<le> 0x07ff \<Longrightarrow> (ucast (drop_bit 6 u OR 0xc0) :: byte) \<noteq> 0" using leader2 [of u] by auto
  moreover have "(ucast u :: byte) \<noteq> 0" if "u \<le> 0x7f" "u \<noteq> 0"
  proof
    assume z: "(ucast u :: byte) = 0"
    have "(ucast (ucast u :: byte) :: unit16) = u"
    proof (rule bit_word_eqI)
      fix n assume "n < LENGTH(16)"
      then show "bit (ucast (ucast u :: byte) :: unit16) n = bit u n"
        using small_bits(2) [OF that(1), of n] by (cases "n < 7") (auto simp: bit_simps)
    qed
    then show False using z that(2) by simp
  qed
  ultimately show ?thesis using c by (auto simp: utf8_of_unit_def not_less)
qed

lemma join3: "push_bit 6 (push_bit 6 (ucast ((ucast (drop_bit 12 u OR 0xe0) :: byte) AND 0x0f)) OR
    (0x3f AND ucast (ucast ((drop_bit 6 u AND 0x3f) OR 0x80) :: byte))) OR
    (0x3f AND ucast (ucast ((u AND 0x3f) OR 0x80 :: unit16) :: byte)) = (ucast u :: 32 word)"
  by (rule bits_eqI) (simp add: upt32 bit_simps beyond16)

lemma join2: "u \<le> 0x07ff \<Longrightarrow> push_bit 6 (ucast ((ucast (drop_bit 6 u OR 0xc0) :: byte) AND 0x1f)) OR
    (0x3f AND ucast (ucast ((u AND 0x3f) OR 0x80 :: unit16) :: byte)) = (ucast u :: 32 word)"
  by (rule bits_eqI) (simp add: upt32 bit_simps beyond16 small_bits(1))

lemma join1: "u \<le> 0x7f \<Longrightarrow> ucast ((ucast u :: byte) AND 0xff) = (ucast (u :: unit16) :: 32 word)"
  by (rule bits_eqI) (simp add: upt32 bit_simps beyond16 small_bits(2))

lemma getUtf32_unit: "getUtf32FromUtf8 (utf8_of_unit u @ s) = (ucast u, s)"
proof -
  consider "u > 0x07ff" | "u \<le> 0x07ff" "u > 0x7f \<or> u = 0" | "u \<le> 0x7f" "u \<noteq> 0" by fastforce
  then show ?thesis
  proof cases
    case 1
    have "UTF8_SEQ_LENGTH (ucast (drop_bit 12 u OR 0xe0)) = 3" "\<not> is_cont (ucast (drop_bit 12 u OR 0xe0))"
      using seq_length_of_mask leader3 [of u] by blast+
    then show ?thesis using 1 cont_unit [of u] cont_unit [of "drop_bit 6 u"] join3 [of u]
      by (simp add: utf8_of_unit_def getUtf32FromUtf8_def Let_def leaderMask_def numeral_2_eq_2)
  next
    case 2
    have "UTF8_SEQ_LENGTH (ucast (drop_bit 6 u OR 0xc0)) = 2" "\<not> is_cont (ucast (drop_bit 6 u OR 0xc0))"
      using seq_length_of_mask leader2 [OF 2(1)] by blast+
    moreover have "\<not> u > 0x07ff" using 2(1) by simp
    ultimately show ?thesis using 2 cont_unit [of u] join2 [OF 2(1)]
      by (simp add: utf8_of_unit_def getUtf32FromUtf8_def Let_def leaderMask_def)
  next
    case 3
    have "UTF8_SEQ_LENGTH (ucast u) = 1" "\<not> is_cont (ucast u)"
      using seq_length_of_mask leader1 [OF 3(1)] by blast+
    moreover have "\<not> u > 0x07ff" "\<not> u > 0x7f" using 3(1) by (auto simp: word_le_nat_alt word_less_nat_alt)
    ultimately show ?thesis using 3 join1 [OF 3(1)]
      by (simp add: utf8_of_unit_def getUtf32FromUtf8_def Let_def leaderMask_def)
  qed
qed

lemma decode_unit: "decode8to16 (utf8_of_unit u @ s) = u # decode8to16 s"
proof -
  have "(ucast u :: 32 word) = take_bit 16 (ucast u)" by (rule bit_word_eqI) (auto simp: bit_simps dest: bit_imp_le_length)
  then have "low_bits 16 (ucast u)" unfolding low_bits_def by (metis bit_take_bit_iff leD)
  then have "(ucast u :: 32 word) \<le> 0xffff" by (rule low_bits_le) simp
  moreover have "(ucast (ucast u :: 32 word) :: unit16) = u" by (rule bit_word_eqI) (simp add: bit_simps)
  ultimately have "utf16_units (ucast u) = [u]" by (simp add: utf16_units_def)
  moreover have "utf8_of_unit u @ s \<noteq> []" by (simp add: utf8_of_unit_def)
  ultimately show ?thesis by (subst decode8to16.simps) (simp add: getUtf32_unit)
qed

lemma decode_encode: "decode8to16 (concat (map utf8_of_unit us)) = us"
  by (induction us) (simp_all add: decode_unit decode8to16.simps [of "[]"])

section \<open>Properties\<close>

text \<open>
  \<open>strndup16to8\<close> fills its allocation exactly: what \<open>strncpy16to8\<close> writes, the NUL included, is as
  long as the size given to \<open>malloc\<close>, also where the count of \<open>strnlen16to8\<close> could wrap around, and
  no NUL is written before the last byte.
\<close>

theorem strndup16to8_fits:
  assumes "3 \<le> smax" and "strndup16to8 smax malloc s = Some (n, buf)"
  shows "length buf = n \<and> n \<le> smax \<and> last buf = 0 \<and> 0 \<notin> set (butlast buf)"
proof -
  obtain us where us: "s = Some us" "strnlen_loop smax us 0 < smax - 1" "n = strnlen_loop smax us 0 + 1" "buf = strncpy16to8 us"
    using assms(2) by (auto simp: strndup16to8_def strnlen16to8_def Let_def split: option.splits if_splits)
  then have "length buf = n" using strnlen_loop_exact [OF us(2) _ assms(1)] by (simp add: strncpy16to8_def)
  moreover have "n \<le> smax" using us(2,3) by simp
  ultimately show ?thesis using us(4) no_nul by (auto simp: strncpy16to8_def)
qed

theorem strndup16to8_fits_witness:
  "length (strncpy16to8 [0x41, 0x20ac]) = 5 \<and> 5 \<le> (2 ^ 32 - 1 :: nat) \<and> last (strncpy16to8 [0x41, 0x20ac]) = 0 \<and>
    0 \<notin> set (butlast (strncpy16to8 [0x41, 0x20ac]))"
proof -
  have "strndup16to8 (2 ^ 32 - 1) (\<lambda>_. True) (Some [0x41, 0x20ac]) = Some (5, strncpy16to8 [0x41, 0x20ac])"
    by (simp add: strndup16to8_def strnlen16to8_def unit_bytes_def Let_def)
  from strndup16to8_fits [OF _ this] show ?thesis by simp
qed

text \<open>
  \<open>strdup8to16\<close> stays inside its allocation for every byte string, valid UTF-8 or not: the
  units it writes and the terminator are at most what \<open>strlen8to16\<close> counted plus one.
\<close>

theorem strdup8to16_fits:
  assumes "strdup8to16 smax malloc s = Some (n, buf, out_len)"
  shows "length buf \<le> n \<and> out_len + 1 = length buf"
proof -
  obtain bs where "s = Some bs" "n = strlen8to16 bs + 1" "buf = decode8to16 bs @ [0]" "out_len = length (decode8to16 bs)"
    using assms by (auto simp: strdup8to16_def Let_def split: option.splits if_splits)
  then show ?thesis using decode_fits [of 0 bs] by (simp add: strlen8to16_def)
qed

theorem strdup8to16_fits_witness:
  "\<exists>n buf l. strdup8to16 (2 ^ 32 - 1) (\<lambda>_. True) (Some [0xf0, 0x80, 0x41, 0x80]) = Some (n, buf, l) \<and> length buf \<le> n \<and> l + 1 = length buf"
proof -
  have "strlen8to16 [0xf0, 0x80, 0x41, 0x80] = 4" by code_simp
  then obtain n buf l where "strdup8to16 (2 ^ 32 - 1) (\<lambda>_. True) (Some [0xf0, 0x80, 0x41, 0x80]) = Some (n, buf, l)"
    by (simp add: strdup8to16_def Let_def)
  from this strdup8to16_fits [OF this] show ?thesis by blast
qed

lemma strlen_loop_le: "strlen8to16_loop s e n \<le> n + 2 * length s"
proof (induction s arbitrary: e n)
  case (Cons b s)
  have "strlen8to16_loop s e' m \<le> n + 2 + 2 * length s" if "m \<le> n + 2" for e' m
    using Cons [of e' m] that by linarith
  then show ?case by (simp add: Let_def)
qed simp

lemma strnlen_loop_small:
  "n + 3 * length us < smax - 1 \<Longrightarrow> strnlen_loop smax us n = n + length (concat (map utf8_of_unit us))"
proof (induction us arbitrary: n)
  case (Cons u us)
  have "unit_bytes u \<le> 3" by (simp add: unit_bytes_def)
  then show ?case using Cons.prems Cons.IH [of "n + unit_bytes u"] by (simp add: Let_def length_utf8_of_unit)
qed auto

lemma concat_units_le: "length (concat (map utf8_of_unit us)) \<le> 3 * length us"
  by (induction us) (auto simp: length_utf8_of_unit unit_bytes_def)

text \<open>
  C17 (roundtrip). Every sequence of UTF-16 units, embedded zeros and lone surrogates included, that is
  turned into a C string by \<open>strndup16to8\<close> comes back unchanged from \<open>strdup8to16\<close>, with its length.
\<close>

theorem utf16_roundtrip:
  assumes "12 * length us + 4 \<le> smax"
  shows "\<exists>n buf m out. strndup16to8 smax (\<lambda>_. True) (Some us) = Some (n, buf) \<and>
    strdup8to16 smax (\<lambda>_. True) (Some (takeWhile (\<lambda>b. b \<noteq> 0) buf)) = Some (m, out, length us) \<and> take (length us) out = us"
proof -
  define bs where "bs = concat (map utf8_of_unit us)"
  have len: "length bs \<le> 3 * length us" unfolding bs_def by (rule concat_units_le)
  have "strnlen16to8 smax us = length bs"
    using strnlen_loop_small [of 0 us smax] assms by (simp add: strnlen16to8_def bs_def)
  then have enc: "strndup16to8 smax (\<lambda>_. True) (Some us) = Some (length bs + 1, bs @ [0])"
    using len assms by (simp add: strndup16to8_def strncpy16to8_def bs_def Let_def)
  have "\<forall>b \<in> set bs. b \<noteq> 0" using no_nul by (fastforce simp: bs_def)
  then have tw: "takeWhile (\<lambda>b. b \<noteq> 0) (bs @ [0]) = bs" by (simp add: takeWhile_append2)
  have "strlen8to16 bs < smax div 2" using strlen_loop_le [of bs 0 0] len assms by (simp add: strlen8to16_def)
  then have "strdup8to16 smax (\<lambda>_. True) (Some bs) = Some (strlen8to16 bs + 1, us @ [0], length us)"
    using decode_encode [of us] by (simp add: strdup8to16_def Let_def bs_def)
  then show ?thesis using enc tw by simp
qed

theorem utf16_roundtrip_witness:
  "\<exists>n buf m out. strndup16to8 1000 (\<lambda>_. True) (Some [0x41, 0, 0xd83d]) = Some (n, buf) \<and>
    strdup8to16 1000 (\<lambda>_. True) (Some (takeWhile (\<lambda>b. b \<noteq> 0) buf)) = Some (m, out, length [0x41, 0, 0xd83d :: unit16]) \<and>
    take (length [0x41, 0, 0xd83d :: unit16]) out = [0x41, 0, 0xd83d]"
  by (rule utf16_roundtrip) simp

end
