(* ===== verification/Mal.thy ===== *)
theory Mal
  imports Words
begin

unbundle bit_operations_syntax

text \<open>
  The MAL socket server of libril (\<open>ril/libril/ril.cpp\<close>, the \<open>rild-mal\<close> part): framing on the byte
  stream, the table of requests in flight, and the dispatch of AT commands to the vendor RIL with
  its retries.

  A descriptor is the list of the results its \<open>read\<close> calls give (an exhausted list is a closed
  peer); the results of the \<open>write\<close> calls for a frame are a parameter. \<open>malloc\<close> is a predicate on
  sizes. The vendor RIL is a function from the command, the socket and the attempt to its outcome:
  a completion with its error and response, or none within the waiting time. The server has a
  single thread, so the dispatch of a request is one step; the mutexes and the sleeps between the
  attempts have no other effect.
\<close>

definition RIL_REQUEST_AT_COMMAND_WITH_PROXY :: u32 where "RIL_REQUEST_AT_COMMAND_WITH_PROXY = 2106"
definition MAL_HEADER_BYTES :: nat where "MAL_HEADER_BYTES = 16"
definition MAL_MAX_FRAME :: nat where "MAL_MAX_FRAME = 64 * 1024"
definition MAL_MAX_INFLIGHT :: nat where "MAL_MAX_INFLIGHT = 16"
definition MAL_MAX_ATTEMPTS :: nat where "MAL_MAX_ATTEMPTS = 10"
definition RIL_E_GENERIC_FAILURE :: u32 where "RIL_E_GENERIC_FAILURE = 2"
definition RIL_E_NO_MEMORY :: u32 where "RIL_E_NO_MEMORY = 37"
definition SIM_COUNT :: u32 where "SIM_COUNT = 2"
definition RIL_SOCKET_1 :: u32 where "RIL_SOCKET_1 = 0"
definition RIL_SOCKET_2 :: u32 where "RIL_SOCKET_2 = 1"
definition RIL_SOCKET_NUM :: u32 where "RIL_SOCKET_NUM = 2"

section \<open>Words in byte buffers\<close>

definition malGetLE :: "u8 list \<Rightarrow> u32" where
  "malGetLE p = ucast (p ! 0) OR push_bit 8 (ucast (p ! 1)) OR push_bit 16 (ucast (p ! 2)) OR push_bit 24 (ucast (p ! 3))"

definition malPutLE :: "u32 \<Rightarrow> u8 list" where
  "malPutLE v = [ucast (v AND 0xff), ucast (drop_bit 8 v AND 0xff), ucast (drop_bit 16 v AND 0xff), ucast (drop_bit 24 v AND 0xff)]"

definition malPutBE :: "u32 \<Rightarrow> u8 list" where
  "malPutBE v = [ucast (drop_bit 24 v AND 0xff), ucast (drop_bit 16 v AND 0xff), ucast (drop_bit 8 v AND 0xff), ucast (v AND 0xff)]"

text \<open>The length word, read in place by \<open>malServerLoop\<close>.\<close>

definition malGetBE :: "u8 list \<Rightarrow> u32" where
  "malGetBE p = push_bit 24 (ucast (p ! 0)) OR push_bit 16 (ucast (p ! 1)) OR push_bit 8 (ucast (p ! 2)) OR ucast (p ! 3)"

section \<open>Reading and writing\<close>

datatype read_event = Data "u8 list" | Read_EINTR | Read_error

text \<open>\<open>malReadAll\<close>: the bytes, or \<open>None\<close> for -1, and what is left to read.\<close>

function malReadAll :: "nat \<Rightarrow> read_event list \<Rightarrow> u8 list option \<times> read_event list" where
  "malReadAll len evs =
     (if len = 0 then (Some [], evs)
      else case evs of
        [] \<Rightarrow> (None, [])
      | Read_EINTR # evs \<Rightarrow> malReadAll len evs
      | Read_error # evs \<Rightarrow> (None, evs)
      | Data bs # evs \<Rightarrow>
          if bs = [] then (None, evs)
          else let n = min len (length bs);
                   rest = (if n < length bs then Data (drop n bs) # evs else evs) in
               case malReadAll (len - n) rest of
                 (None, r) \<Rightarrow> (None, r)
               | (Some buf, r) \<Rightarrow> (Some (take n bs @ buf), r))"
  by pat_completeness auto
termination
  by (relation "measure (\<lambda>(len, evs). len + length evs)") (auto simp: min_def)

declare malReadAll.simps [simp del]

datatype write_event = Wrote nat | Write_EINTR | Write_error

text \<open>\<open>malWriteAll\<close>: whether it returned 0, and the bytes the peer got.\<close>

fun malWriteAll :: "u8 list \<Rightarrow> write_event list \<Rightarrow> bool \<times> u8 list" where
  "malWriteAll [] evs = (True, [])"
| "malWriteAll buf [] = (False, [])"
| "malWriteAll buf (Write_EINTR # evs) = malWriteAll buf evs"
| "malWriteAll buf (Write_error # evs) = (False, [])"
| "malWriteAll buf (Wrote n # evs) =
     (if n = 0 then (False, [])
      else case malWriteAll (drop n buf) evs of (ok, sent) \<Rightarrow> (ok, take n buf @ sent))"

section \<open>State\<close>

record mal_slot =
  inUse :: bool
  sl_pRI :: nat
  sl_serial :: u32
  sl_simId :: u32
  sl_cmd :: "u8 list option"
  sl_done :: bool
  sl_err :: u32
  sl_text :: "u8 list option"

text \<open>\<open>next_pRI\<close> is the address the next allocation of a \<open>RequestInfo\<close> returns.\<close>

record mal =
  s_malInflight :: "mal_slot list"
  s_malClientFd :: int
  mal_sent :: "(int \<times> u8 list) list"
  next_pRI :: nat

definition free_slot :: mal_slot where
  "free_slot = \<lparr>inUse = False, sl_pRI = 0, sl_serial = 0, sl_simId = 0, sl_cmd = None, sl_done = False, sl_err = 0, sl_text = None\<rparr>"

definition mal_init :: mal where
  "mal_init = \<lparr>s_malInflight = replicate MAL_MAX_INFLIGHT free_slot, s_malClientFd = - 1, mal_sent = [], next_pRI = 1\<rparr>"

definition upd_slot :: "nat \<Rightarrow> (mal_slot \<Rightarrow> mal_slot) \<Rightarrow> mal \<Rightarrow> mal" where
  "upd_slot i f st = st\<lparr>s_malInflight := (s_malInflight st)[i := f (s_malInflight st ! i)]\<rparr>"

definition malClaim :: "nat \<Rightarrow> mal \<Rightarrow> nat option" where
  "malClaim pRI st =
     (if pRI = 0 then None
      else find (\<lambda>i. inUse (s_malInflight st ! i) \<and> sl_pRI (s_malInflight st ! i) = pRI) [0..<MAL_MAX_INFLIGHT])"

section \<open>Answers\<close>

definition mal_frame :: "u32 \<Rightarrow> u32 \<Rightarrow> u32 \<Rightarrow> u8 list \<Rightarrow> u8 list" where
  "mal_frame simId serial err text =
     (let payloadLen = 4 + length text; bodyLen = 24 + payloadLen in
      malPutBE (of_nat bodyLen) @ malPutLE 8 @ malPutLE 1 @ malPutLE simId @ malPutLE 0 @ malPutLE serial @
      malPutLE err @ malPutLE (of_nat (length text)) @ text)"

record mal_env =
  env_malloc :: "nat \<Rightarrow> bool"
  env_write :: "u8 list \<Rightarrow> write_event list"
  env_sizeof_RequestInfo :: nat

definition malSendFrame :: "mal_env \<Rightarrow> u32 \<Rightarrow> u32 \<Rightarrow> u32 \<Rightarrow> u8 list \<Rightarrow> mal \<Rightarrow> mal" where
  "malSendFrame env simId serial err text st =
     (let frame = mal_frame simId serial err text in
      if \<not> env_malloc env (4 + (24 + (4 + length text))) then st
      else if s_malClientFd st \<ge> 0
      then st\<lparr>mal_sent := mal_sent st @ [(s_malClientFd st, snd (malWriteAll frame (env_write env frame)))]\<rparr>
      else st)"

text \<open>\<open>strnlen\<close> on the response: its bytes before the first NUL.\<close>

definition malComplete :: "mal_env \<Rightarrow> nat \<Rightarrow> u32 \<Rightarrow> u8 list option \<Rightarrow> mal \<Rightarrow> mal" where
  "malComplete env slot e response st =
     (let text = (case response of None \<Rightarrow> [] | Some r \<Rightarrow> takeWhile (\<lambda>b. b \<noteq> 0) r);
          copy = (if text \<noteq> [] \<and> env_malloc env (length text + 1) then Some text else None) in
      upd_slot slot (\<lambda>s. s\<lparr>sl_text := copy, sl_err := e, sl_done := True\<rparr>) st)"

section \<open>Dispatch\<close>

definition isalpha :: "u8 \<Rightarrow> bool" where
  "isalpha b \<longleftrightarrow> (65 \<le> b \<and> b \<le> 90) \<or> (97 \<le> b \<and> b \<le> 122)"

text \<open>The bytes of \<open>"+$%^*#&"\<close>.\<close>

definition at_symbol :: "u8 \<Rightarrow> bool" where
  "at_symbol b \<longleftrightarrow> b \<in> {43, 36, 37, 94, 42, 35, 38}"

text \<open>
  \<open>malCmdName\<close> on a command with its terminating NUL left out: the characters written to a buffer of
  size \<open>n\<close> before the terminator. The three loops stop at the end of the command or of the buffer.
\<close>

definition malCmdName :: "u8 list option \<Rightarrow> nat \<Rightarrow> u8 list" where
  "malCmdName cmd n =
     (case cmd of None \<Rightarrow> []
      | Some c \<Rightarrow>
          if n = 0 then []
          else
            let at = (2 \<le> length c \<and> (c ! 0 = 65 \<or> c ! 0 = 97) \<and> (c ! 1 = 84 \<or> c ! 1 = 116));
                i = (if at then min 2 (n - 1) else 0);
                i = (if at then i + length (takeWhile at_symbol (take (n - 1 - i) (drop i c))) else i);
                i = i + length (takeWhile isalpha (take (n - 1 - i) (drop i c)))
            in take i c)"

datatype outcome = Completed u32 "u8 list option" | Timed_out

type_synonym vendor = "u8 list \<Rightarrow> u32 \<Rightarrow> nat \<Rightarrow> outcome"

text \<open>
  The attempts from number \<open>attempt\<close> on: whether the last one timed out, and how many were made.
  \<open>RIL_onRequestComplete\<close> finds the slot by the token.
\<close>

definition on_complete :: "mal_env \<Rightarrow> nat \<Rightarrow> u32 \<Rightarrow> u8 list option \<Rightarrow> mal \<Rightarrow> mal" where
  "on_complete env pRI e response st =
     (case malClaim pRI st of None \<Rightarrow> st | Some slot \<Rightarrow> malComplete env slot e response st)"

function attempts :: "mal_env \<Rightarrow> vendor \<Rightarrow> u8 list \<Rightarrow> u32 \<Rightarrow> nat \<Rightarrow> nat \<Rightarrow> nat \<Rightarrow> mal \<Rightarrow> bool \<times> nat \<times> mal" where
  "attempts env vendor cmd socket_id pRI slot attempt st =
     (let st = upd_slot slot (\<lambda>s. s\<lparr>sl_done := False\<rparr>) st;
          st = (case vendor cmd socket_id attempt of
                  Completed e response \<Rightarrow> on_complete env pRI e response st
                | Timed_out \<Rightarrow> st);
          timedOut = (\<not> sl_done (s_malInflight st ! slot));
          err = sl_err (s_malInflight st ! slot) in
      if timedOut then (True, attempt, st)
      else if err = 0 \<or> attempt \<ge> MAL_MAX_ATTEMPTS then (False, attempt, st)
      else attempts env vendor cmd socket_id pRI slot (attempt + 1) st)"
  by pat_completeness auto
termination
  by (relation "measure (\<lambda>(_, _, _, _, _, _, attempt, _). MAL_MAX_ATTEMPTS - attempt)") auto

declare attempts.simps [simp del]

definition mal_socket_id :: "u32 \<Rightarrow> u32" where
  "mal_socket_id simId = (if simId + 1 \<le> SIM_COUNT then simId + 1 else RIL_SOCKET_1)"

definition malDispatch :: "mal_env \<Rightarrow> vendor \<Rightarrow> u32 \<Rightarrow> u32 \<Rightarrow> u32 \<Rightarrow> u8 list \<Rightarrow> mal \<Rightarrow> mal" where
  "malDispatch env vendor simId requestId serial payload st =
     (if requestId \<noteq> RIL_REQUEST_AT_COMMAND_WITH_PROXY then malSendFrame env simId serial RIL_E_GENERIC_FAILURE [] st
      else if length payload < 8 then malSendFrame env simId serial RIL_E_GENERIC_FAILURE [] st
      else
        let cmdLen = unat (malGetLE (drop 4 payload)) in
        if cmdLen > length payload - 8 then malSendFrame env simId serial RIL_E_GENERIC_FAILURE [] st
        else if \<not> env_malloc env (cmdLen + 1) then malSendFrame env simId serial RIL_E_NO_MEMORY [] st
        else
          let cmd = take cmdLen (drop 8 payload) in
          case find (\<lambda>i. \<not> inUse (s_malInflight st ! i)) [0..<MAL_MAX_INFLIGHT] of
            None \<Rightarrow> malSendFrame env simId serial RIL_E_GENERIC_FAILURE [] st
          | Some slot \<Rightarrow>
              let st = upd_slot slot (\<lambda>s. s\<lparr>inUse := True, sl_serial := serial, sl_simId := simId, sl_cmd := Some cmd\<rparr>) st in
              if \<not> env_malloc env (env_sizeof_RequestInfo env) then
                malSendFrame env simId serial RIL_E_NO_MEMORY []
                  (upd_slot slot (\<lambda>s. s\<lparr>sl_cmd := None, inUse := False\<rparr>) st)
              else
                let pRI = next_pRI st;
                    st = st\<lparr>next_pRI := pRI + 1\<rparr>;
                    st = upd_slot slot (\<lambda>s. s\<lparr>sl_pRI := pRI, sl_done := False, sl_err := 0, sl_text := None\<rparr>) st in
                case attempts env vendor cmd (mal_socket_id simId) pRI slot 1 st of
                  (timedOut, _, st) \<Rightarrow>
                    let s = s_malInflight st ! slot;
                        finalErr = (if timedOut then RIL_E_GENERIC_FAILURE else sl_err s);
                        text = (case sl_text s of None \<Rightarrow> [] | Some t \<Rightarrow> t);
                        st = upd_slot slot (\<lambda>s. s\<lparr>sl_text := None\<rparr>) st;
                        st = malSendFrame env simId serial finalErr text st in
                    upd_slot slot (\<lambda>s. s\<lparr>sl_cmd := None, sl_pRI := 0, inUse := False\<rparr>) st)"

section \<open>The server\<close>

record mal_request =
  rq_simId :: u32
  rq_id :: u32
  rq_serial :: u32
  rq_payload :: "u8 list"

text \<open>A word of the body at an offset; \<open>None\<close> when it is not within the bytes received.\<close>

definition body_word :: "u8 list \<Rightarrow> nat \<Rightarrow> u32 option" where
  "body_word body off = (if off + 4 \<le> length body then Some (malGetLE (drop off body)) else None)"

datatype frame_result = Request mal_request | Drop_connection | Out_of_bounds

definition parse_body :: "u8 list \<Rightarrow> frame_result" where
  "parse_body body =
     (case body_word body 0 of None \<Rightarrow> Out_of_bounds
      | Some h \<Rightarrow>
          let hdrLen = unat h; bodyLen = length body in
          if hdrLen > bodyLen \<or> bodyLen - hdrLen < 12 then Drop_connection
          else
            (case (if hdrLen \<ge> 4 then body_word body 4 else Some 0, body_word body (4 + hdrLen), body_word body (8 + hdrLen)) of
               (Some simId, Some requestId, Some serial) \<Rightarrow>
                 Request \<lparr>rq_simId = simId, rq_id = requestId, rq_serial = serial, rq_payload = drop (12 + hdrLen) body\<rparr>
             | _ \<Rightarrow> Out_of_bounds))"

text \<open>One round of the inner loop: the frame and what is left to read.\<close>

definition read_frame :: "read_event list \<Rightarrow> frame_result \<times> read_event list" where
  "read_frame evs =
     (case malReadAll 4 evs of
        (None, evs) \<Rightarrow> (Drop_connection, evs)
      | (Some lenBuf, evs) \<Rightarrow>
          let bodyLen = unat (malGetBE lenBuf) in
          if bodyLen < MAL_HEADER_BYTES \<or> bodyLen > MAL_MAX_FRAME then (Drop_connection, evs)
          else
            (case malReadAll bodyLen evs of
               (None, evs) \<Rightarrow> (Drop_connection, evs)
             | (Some body, evs) \<Rightarrow> (parse_body body, evs)))"

fun event_size :: "read_event \<Rightarrow> nat" where
  "event_size (Data bs) = Suc (length bs)"
| "event_size _ = 1"

definition events_size :: "read_event list \<Rightarrow> nat" where
  "events_size evs = sum_list (map event_size evs)"

lemma malReadAll_shrinks:
  "malReadAll len evs = (x, r) \<Longrightarrow> events_size r \<le> events_size evs \<and> (x \<noteq> None \<and> 0 < len \<longrightarrow> events_size r < events_size evs)"
proof (induction len evs arbitrary: x r rule: malReadAll.induct)
  case (1 len evs)
  show ?case
  proof (cases "len = 0 \<or> evs = []")
    case True
    then show ?thesis using "1.prems" by (subst (asm) malReadAll.simps) (auto split: if_splits)
  next
    case False
    then obtain e es where evs: "evs = e # es" "len \<noteq> 0" by (cases evs) auto
    show ?thesis
    proof (cases e)
      case (Data bs)
      show ?thesis
      proof (cases "bs = []")
        case True
        then show ?thesis using "1.prems" Data evs by (subst (asm) malReadAll.simps) (auto simp: events_size_def)
      next
        case ne: False
        define n where "n = min len (length bs)"
        define rest where "rest = (if n < length bs then Data (drop n bs) # es else es)"
        obtain y r' where rec: "malReadAll (len - n) rest = (y, r')" by (meson surj_pair)
        have "r = r'" using "1.prems" Data evs ne rec
          by (subst (asm) malReadAll.simps) (auto simp: Let_def n_def [symmetric] rest_def [symmetric] split: option.splits)
        moreover have "events_size r' \<le> events_size rest"
          using "1.IH"(1) [OF evs(2,1) Data ne n_def rest_def rec] by simp
        moreover have "events_size rest < events_size evs"
          using ne evs by (auto simp: rest_def events_size_def Data n_def)
        ultimately show ?thesis by simp
      qed
    next
      case Read_EINTR
      then show ?thesis using "1.prems" "1.IH"(2) [OF evs(2,1) Read_EINTR, of x r] evs
        by (subst (asm) malReadAll.simps) (auto simp: events_size_def)
    next
      case Read_error
      then show ?thesis using "1.prems" evs by (subst (asm) malReadAll.simps) (auto simp: events_size_def)
    qed
  qed
qed

lemma read_frame_shrinks:
  assumes "read_frame evs = (Request rq, r)"
  shows "events_size r < events_size evs"
proof -
  obtain x r1 where r1: "malReadAll 4 evs = (x, r1)" by (meson surj_pair)
  then obtain lenBuf where x: "x = Some lenBuf" using assms by (cases x) (auto simp: read_frame_def)
  obtain y r2 where r2: "malReadAll (unat (malGetBE lenBuf)) r1 = (y, r2)" by (meson surj_pair)
  have "r = r2" using assms r1 x r2 by (cases y) (auto simp: read_frame_def Let_def split: if_splits)
  then show ?thesis using malReadAll_shrinks [OF r1] malReadAll_shrinks [OF r2] x by auto
qed

text \<open>The requests of a connection and the state after they are dispatched.\<close>

function serve :: "mal_env \<Rightarrow> vendor \<Rightarrow> read_event list \<Rightarrow> mal \<Rightarrow> mal_request list \<times> frame_result \<times> mal" where
  "serve env vendor evs st =
     (case read_frame evs of
        (Request rq, evs) \<Rightarrow>
          (case serve env vendor evs (malDispatch env vendor (rq_simId rq) (rq_id rq) (rq_serial rq) (rq_payload rq) st) of
             (rqs, e, st) \<Rightarrow> (rq # rqs, e, st))
      | (e, evs) \<Rightarrow> ([], e, st))"
  by pat_completeness auto
termination
  by (relation "measure (\<lambda>(_, _, evs, _). events_size evs)") (auto dest: sym [THEN read_frame_shrinks])

declare serve.simps [simp del]

text \<open>One connection of \<open>malServerLoop\<close>.\<close>

definition mal_connection :: "mal_env \<Rightarrow> vendor \<Rightarrow> int \<Rightarrow> read_event list \<Rightarrow> mal \<Rightarrow> mal_request list \<times> frame_result \<times> mal" where
  "mal_connection env vendor fd evs st =
     (case serve env vendor evs (st\<lparr>s_malClientFd := fd\<rparr>) of (rqs, e, st) \<Rightarrow> (rqs, e, st\<lparr>s_malClientFd := - 1\<rparr>))"

end
