(* ===== verification/MalCorrect.thy ===== *)
theory MalCorrect
  imports Mal
begin

text \<open>
  Correctness of the MAL server: the framing is independent of how the stream is cut into reads, no
  read leaves the frame received, every request is answered exactly once with its own serial, the
  retries are bounded, the slot table is left as it was, and the log shows no argument of a command.
\<close>

section \<open>Words in buffers\<close>

lemma get_put_LE: "malGetLE (malPutLE v @ rest) = v"
  unfolding malGetLE_def malPutLE_def by (rule bits_eqI) (simp add: upt32 bit_simps)

lemma get_put_BE: "malGetBE (malPutBE v @ rest) = v"
  unfolding malGetBE_def malPutBE_def by (rule bits_eqI) (simp add: upt32 bit_simps)

interpretation le: word_codec malPutLE malGetLE
  by unfold_locales (simp add: malPutLE_def, rule get_put_LE)

interpretation be: word_codec malPutBE malGetBE
  by unfold_locales (simp add: malPutBE_def, rule get_put_BE)

section \<open>The stream\<close>

text \<open>The bytes of a stream without errors, and streams without errors.\<close>

fun payload_of :: "read_event list \<Rightarrow> u8 list" where
  "payload_of [] = []"
| "payload_of (Data bs # evs) = bs @ payload_of evs"
| "payload_of (_ # evs) = payload_of evs"

definition clean :: "read_event list \<Rightarrow> bool" where
  "clean evs \<longleftrightarrow> (\<forall>e \<in> set evs. e \<noteq> Read_error \<and> e \<noteq> Data [])"

lemma malReadAll_clean:
  "clean evs \<Longrightarrow> len \<le> length (payload_of evs) \<Longrightarrow>
   \<exists>r. malReadAll len evs = (Some (take len (payload_of evs)), r) \<and> clean r \<and> payload_of r = drop len (payload_of evs)"
proof (induction len evs rule: malReadAll.induct)
  case (1 len evs)
  show ?case
  proof (cases "len = 0")
    case True
    then show ?thesis using "1.prems" by (subst malReadAll.simps) simp
  next
    case len: False
    then obtain e es where evs: "evs = e # es" using "1.prems"(2) by (cases evs) auto
    show ?thesis
    proof (cases e)
      case (Data bs)
      then have ne: "bs \<noteq> []" "clean es" using "1.prems"(1) evs by (auto simp: clean_def)
      define n where "n = min len (length bs)"
      define rest where "rest = (if n < length bs then Data (drop n bs) # es else es)"
      have rest: "clean rest" "payload_of rest = drop n (bs @ payload_of es)" "len - n \<le> length (payload_of rest)"
        using ne "1.prems"(2) evs Data by (auto simp: rest_def clean_def n_def)
      obtain r where r: "malReadAll (len - n) rest = (Some (take (len - n) (payload_of rest)), r)" "clean r"
        "payload_of r = drop (len - n) (payload_of rest)"
        using "1.IH"(1) [OF len evs Data ne(1) n_def rest_def rest(1,3)] by blast
      have "malReadAll len evs = (Some (take n bs @ take (len - n) (payload_of rest)), r)"
        using len evs Data ne(1) r(1) by (subst malReadAll.simps) (simp add: Let_def n_def [symmetric] rest_def [symmetric])
      moreover have "take n bs @ take (len - n) (payload_of rest) = take len (bs @ payload_of es)" by (auto simp: rest(2) n_def min_def)
      moreover have "drop (len - n) (payload_of rest) = drop len (bs @ payload_of es)" by (auto simp: rest(2) n_def min_def)
      ultimately show ?thesis using r evs Data by auto
    next
      case Read_EINTR
      then have "clean es" "len \<le> length (payload_of es)" "payload_of evs = payload_of es" using "1.prems" evs by (auto simp: clean_def)
      then show ?thesis using "1.IH"(2) [OF len evs Read_EINTR] len evs Read_EINTR by (subst malReadAll.simps) simp
    next
      case Read_error
      then show ?thesis using "1.prems"(1) evs by (simp add: clean_def)
    qed
  qed
qed

lemma malReadAll_some:
  "malReadAll len evs = (Some buf, r) \<Longrightarrow> length buf = len"
proof (induction len evs arbitrary: buf r rule: malReadAll.induct)
  case (1 len evs)
  show ?case
  proof (cases "len = 0 \<or> evs = []")
    case True
    then show ?thesis using "1.prems" by (subst (asm) malReadAll.simps) (auto split: if_splits)
  next
    case False
    then obtain e es where evs: "evs = e # es" "len \<noteq> 0" by (cases evs) auto
    show ?thesis
    proof (cases e)
      case (Data bs)
      define n where "n = min len (length bs)"
      define rest where "rest = (if n < length bs then Data (drop n bs) # es else es)"
      have ne: "bs \<noteq> []" using "1.prems" Data evs by (subst (asm) malReadAll.simps) auto
      obtain y r' where rec: "malReadAll (len - n) rest = (y, r')" by (meson surj_pair)
      then obtain b' where b': "y = Some b'" "buf = take n bs @ b'" using "1.prems" Data evs ne
        by (subst (asm) malReadAll.simps) (auto simp: Let_def n_def [symmetric] rest_def [symmetric] split: option.splits)
      then have "length b' = len - n" using "1.IH"(1) [OF evs(2,1) Data ne n_def rest_def] rec by simp
      then show ?thesis using b' by (simp add: n_def)
    next
      case Read_EINTR
      then show ?thesis using "1.prems" "1.IH"(2) [OF evs(2,1) Read_EINTR, of buf r] evs by (subst (asm) malReadAll.simps) auto
    next
      case Read_error
      then show ?thesis using "1.prems" evs by (subst (asm) malReadAll.simps) auto
    qed
  qed
qed

lemma malWriteAll_prefix: "\<exists>rest. buf = snd (malWriteAll buf evs) @ rest \<and> (fst (malWriteAll buf evs) \<longrightarrow> rest = [])"
proof (induction buf evs rule: malWriteAll.induct)
  case (5 b bs n evs)
  show ?case
  proof (cases "n = 0")
    case False
    obtain ok sent where w: "malWriteAll (drop n (b # bs)) evs = (ok, sent)" by (meson surj_pair)
    then obtain rest where "drop n (b # bs) = sent @ rest" "ok \<longrightarrow> rest = []" using 5 [OF False] by auto
    then show ?thesis using False w by (intro exI [of _ rest]) (simp, metis append_assoc append_take_drop_id)
  qed simp
qed auto

section \<open>Frames\<close>

text \<open>A request as the client writes it, and an answer as the client reads it.\<close>

definition request_frame :: "mal_request \<Rightarrow> u8 list" where
  "request_frame rq =
     malPutBE (of_nat (16 + length (rq_payload rq))) @ malPutLE 4 @ malPutLE (rq_simId rq) @ malPutLE (rq_id rq) @
     malPutLE (rq_serial rq) @ rq_payload rq"

definition read_answer :: "u8 list \<Rightarrow> (u32 \<times> u32 \<times> u32 \<times> u8 list) option" where
  "read_answer f =
     (let bodyLen = unat (malGetBE f); body = take bodyLen (drop 4 f); blob = unat (malGetLE body) in
      if length f < 4 + bodyLen \<or> blob \<noteq> 8 \<or> bodyLen < 28 \<or> malGetLE (drop 12 body) \<noteq> 0 then None
      else Some (malGetLE (drop 8 body), malGetLE (drop 16 body), malGetLE (drop 20 body), drop 28 body))"

definition fits :: "mal_request \<Rightarrow> bool" where
  "fits rq \<longleftrightarrow> 16 + length (rq_payload rq) \<le> MAL_MAX_FRAME"

lemma parse_request_body:
  "parse_body (malPutLE 4 @ malPutLE s @ malPutLE i @ malPutLE n @ p) = Request \<lparr>rq_simId = s, rq_id = i, rq_serial = n, rq_payload = p\<rparr>"
proof -
  define body where "body = malPutLE 4 @ malPutLE s @ malPutLE i @ malPutLE n @ p"
  have len: "length body = 16 + length p" by (simp add: body_def le.put_length)
  have d: "drop 4 body = malPutLE s @ malPutLE i @ malPutLE n @ p" "drop 8 body = malPutLE i @ malPutLE n @ p"
    "drop 12 body = malPutLE n @ p" "drop 16 body = p"
    using le.put_skip [of 0 4 "malPutLE s @ malPutLE i @ malPutLE n @ p"] le.put_skip [of 4 4 "malPutLE s @ malPutLE i @ malPutLE n @ p"]
      le.put_skip [of 0 s "malPutLE i @ malPutLE n @ p"] le.put_skip [of 8 4 "malPutLE s @ malPutLE i @ malPutLE n @ p"]
      le.put_skip [of 4 s "malPutLE i @ malPutLE n @ p"] le.put_skip [of 0 i "malPutLE n @ p"]
      le.put_skip [of 12 4 "malPutLE s @ malPutLE i @ malPutLE n @ p"] le.put_skip [of 8 s "malPutLE i @ malPutLE n @ p"]
      le.put_skip [of 4 i "malPutLE n @ p"] le.put_skip [of 0 n p]
    by (simp_all add: body_def)
  have w: "body_word body 0 = Some 4" "body_word body 4 = Some s" "body_word body 8 = Some i" "body_word body 12 = Some n"
    using len d le.get_put by (simp_all add: body_word_def) (simp add: body_def le.get_put)
  show ?thesis unfolding body_def [symmetric] using w len d by (simp add: parse_body_def)
qed

lemma read_frame_request:
  assumes "clean evs" and "payload_of evs = request_frame rq @ tail" and "fits rq"
  shows "\<exists>r. read_frame evs = (Request rq, r) \<and> clean r \<and> payload_of r = tail"
proof -
  define L where "L = 16 + length (rq_payload rq)"
  have L: "L \<le> 65536" using assms(3) by (simp add: fits_def L_def MAL_MAX_FRAME_def)
  define body where "body = malPutLE 4 @ malPutLE (rq_simId rq) @ malPutLE (rq_id rq) @ malPutLE (rq_serial rq) @ rq_payload rq"
  have pl: "payload_of evs = malPutBE (of_nat L) @ body @ tail" using assms(2) by (simp add: request_frame_def L_def body_def)
  have lb: "length body = L" by (simp add: body_def L_def le.put_length)
  have len4: "length (malPutBE (of_nat L)) = 4" by (rule be.put_length)
  obtain r1 where r1: "malReadAll 4 evs = (Some (take 4 (payload_of evs)), r1)" "clean r1" "payload_of r1 = drop 4 (payload_of evs)"
    using malReadAll_clean [OF assms(1), of 4] pl len4 by auto
  have t4: "take 4 (payload_of evs) = malPutBE (of_nat L)" "payload_of r1 = body @ tail"
    unfolding r1(3) pl using len4 by simp_all
  have un: "unat (malGetBE (malPutBE (of_nat L))) = L"
    using be.get_put [of "of_nat L" "[]"] L by (simp add: unat_of_nat take_bit_nat_eq_self)
  obtain r2 where r2: "malReadAll L r1 = (Some (take L (payload_of r1)), r2)" "clean r2" "payload_of r2 = drop L (payload_of r1)"
    using malReadAll_clean [OF r1(2), of L] t4 lb by auto
  have t: "take L (payload_of r1) = body" "payload_of r2 = tail" using t4(2) lb r2(3) by simp_all
  have "parse_body body = Request rq" unfolding body_def parse_request_body by simp
  then have "read_frame evs = (Request rq, r2)"
    using r1(1) r2(1) t4(1) un t(1) L by (simp add: read_frame_def Let_def MAL_HEADER_BYTES_def MAL_MAX_FRAME_def) (simp add: L_def)
  then show ?thesis using r2(2) t(2) by blast
qed

lemma parse_body_in_bounds: "MAL_HEADER_BYTES \<le> length body \<Longrightarrow> parse_body body \<noteq> Out_of_bounds"
  by (auto simp: parse_body_def body_word_def MAL_HEADER_BYTES_def Let_def)

lemma read_frame_in_bounds: "fst (read_frame evs) \<noteq> Out_of_bounds"
proof -
  obtain x r1 where r1: "malReadAll 4 evs = (x, r1)" by (meson surj_pair)
  show ?thesis
  proof (cases x)
    case (Some lenBuf)
    obtain y r2 where r2: "malReadAll (unat (malGetBE lenBuf)) r1 = (y, r2)" by (meson surj_pair)
    show ?thesis
    proof (cases y)
      case (Some body)
      then have "length body = unat (malGetBE lenBuf)" using malReadAll_some r2 by simp
      then show ?thesis using r1 r2 Some \<open>x = Some lenBuf\<close> parse_body_in_bounds [of body] by (simp add: read_frame_def Let_def)
    qed (use r1 r2 Some in \<open>simp add: read_frame_def Let_def\<close>)
  qed (use r1 in \<open>simp add: read_frame_def\<close>)
qed

lemma serve_in_bounds: "fst (snd (serve env vendor evs st)) = Drop_connection"
proof (induction env vendor evs st rule: serve.induct)
  case (1 env vendor evs st)
  obtain x r where x: "read_frame evs = (x, r)" by (meson surj_pair)
  then show ?case using 1 read_frame_in_bounds [of evs] by (subst serve.simps) (cases x; auto split: prod.splits)
qed

lemma read_closed: "clean evs \<Longrightarrow> payload_of evs = [] \<Longrightarrow> fst (read_frame evs) = Drop_connection"
proof -
  assume "clean evs" "payload_of evs = []"
  then have "malReadAll 4 evs = (None, [])"
  proof (induction evs)
    case (Cons e evs)
    then have "e = Read_EINTR" by (cases e) (auto simp: clean_def)
    then show ?case using Cons by (subst malReadAll.simps) (simp add: clean_def)
  qed (simp add: malReadAll.simps)
  then show ?thesis by (simp add: read_frame_def)
qed

abbreviation dispatch_rq :: "mal_env \<Rightarrow> vendor \<Rightarrow> mal_request \<Rightarrow> mal \<Rightarrow> mal" where
  "dispatch_rq env vendor rq \<equiv> malDispatch env vendor (rq_simId rq) (rq_id rq) (rq_serial rq) (rq_payload rq)"

lemma serve_requests:
  assumes "clean evs" and "payload_of evs = concat (map request_frame rqs)" and "\<forall>rq \<in> set rqs. fits rq"
  shows "serve env vendor evs st = (rqs, Drop_connection, fold (dispatch_rq env vendor) rqs st)"
  using assms
proof (induction rqs arbitrary: evs st)
  case Nil
  obtain x r where x: "read_frame evs = (x, r)" by (meson surj_pair)
  then have "x = Drop_connection" using read_closed [of evs] Nil by simp
  then show ?case using x by (subst serve.simps) simp
next
  case (Cons rq rqs)
  then obtain r where "read_frame evs = (Request rq, r)" "clean r" "payload_of r = concat (map request_frame rqs)"
    using read_frame_request [of evs rq "concat (map request_frame rqs)"] by auto
  then show ?case using Cons by (subst serve.simps) simp
qed

section \<open>Answers\<close>

lemma of_nat_u32: "n < 4294967296 \<Longrightarrow> unat (of_nat n :: u32) = n"
  by (simp add: unat_of_nat take_bit_nat_eq_self)

lemma read_answer_frame:
  assumes "length text < 2147483648"
  shows "read_answer (mal_frame simId serial err text) = Some (simId, serial, err, text)"
proof -
  define body where "body = malPutLE 8 @ malPutLE 1 @ malPutLE simId @ malPutLE 0 @ malPutLE serial @ malPutLE err @
    malPutLE (of_nat (length text)) @ text"
  have f: "mal_frame simId serial err text = malPutBE (of_nat (28 + length text)) @ body"
    by (simp add: mal_frame_def body_def Let_def add.commute)
  have lb: "length body = 28 + length text" by (simp add: body_def le.put_length)
  have l4: "length (malPutLE v) = 4" "length (malPutBE v) = 4" for v by (rule le.put_length, rule be.put_length)
  have n: "unat (malGetBE (mal_frame simId serial err text)) = 28 + length text"
    unfolding f be.get_put using assms of_nat_u32 [of "28 + length text"] by simp
  have d4: "drop 4 (mal_frame simId serial err text) = body" unfolding f using be.put_skip [of 0] by simp
  have d: "drop 8 body = malPutLE simId @ malPutLE 0 @ malPutLE serial @ malPutLE err @ malPutLE (of_nat (length text)) @ text"
    "drop 12 body = malPutLE 0 @ malPutLE serial @ malPutLE err @ malPutLE (of_nat (length text)) @ text"
    "drop 16 body = malPutLE serial @ malPutLE err @ malPutLE (of_nat (length text)) @ text"
    "drop 20 body = malPutLE err @ malPutLE (of_nat (length text)) @ text" "drop 28 body = text"
    by (simp_all add: body_def l4)
  have "malGetLE body = 8" unfolding body_def by (rule le.get_put)
  then show ?thesis unfolding read_answer_def n d4 Let_def using lb d le.get_put by (simp add: f l4)
qed

section \<open>Retries\<close>

definition copy_of :: "mal_env \<Rightarrow> u8 list option \<Rightarrow> u8 list option" where
  "copy_of env response =
     (let text = (case response of None \<Rightarrow> [] | Some r \<Rightarrow> takeWhile (\<lambda>b. b \<noteq> 0) r) in
      if text \<noteq> [] \<and> env_malloc env (length text + 1) then Some text else None)"

lemma malComplete_eq:
  "malComplete env slot e response st = upd_slot slot (\<lambda>s. s\<lparr>sl_text := copy_of env response, sl_err := e, sl_done := True\<rparr>) st"
  by (simp add: malComplete_def copy_of_def Let_def)

text \<open>The slot is in use by this token and no other slot is.\<close>

definition owns :: "nat \<Rightarrow> nat \<Rightarrow> mal \<Rightarrow> bool" where
  "owns slot pRI st \<longleftrightarrow> length (s_malInflight st) = MAL_MAX_INFLIGHT \<and> slot < MAL_MAX_INFLIGHT \<and> pRI \<noteq> 0 \<and>
     (\<forall>i < MAL_MAX_INFLIGHT. (inUse (s_malInflight st ! i) \<and> sl_pRI (s_malInflight st ! i) = pRI) = (i = slot))"

lemma find_unique:
  assumes "\<forall>i < n. P i = (i = k)" and "k < n"
  shows "find P [0..<n] = Some k"
proof -
  have "find P [0..<n] \<noteq> None" using assms by (auto simp: find_None_iff)
  then obtain j where "find P [0..<n] = Some j" by auto
  moreover from this have "j < n" "P j" by (auto simp: find_Some_iff)
  ultimately show ?thesis using assms(1) by simp
qed

lemma malClaim_owner: "owns slot pRI st \<Longrightarrow> malClaim pRI st = Some slot"
  by (simp add: malClaim_def owns_def find_unique)

lemma upd_slot_nth: "slot < length (s_malInflight st) \<Longrightarrow>
  s_malInflight (upd_slot slot f st) ! i = (if i = slot then f (s_malInflight st ! slot) else s_malInflight st ! i)"
  by (simp add: upd_slot_def nth_list_update)

lemma upd_slot_frame [simp]:
  "length (s_malInflight (upd_slot slot f st)) = length (s_malInflight st)" "s_malClientFd (upd_slot slot f st) = s_malClientFd st"
  "mal_sent (upd_slot slot f st) = mal_sent st" "next_pRI (upd_slot slot f st) = next_pRI st"
  by (simp_all add: upd_slot_def)

text \<open>What the retry loop may change.\<close>

definition same_but :: "nat \<Rightarrow> mal \<Rightarrow> mal \<Rightarrow> bool" where
  "same_but slot st st' \<longleftrightarrow> s_malClientFd st' = s_malClientFd st \<and> mal_sent st' = mal_sent st \<and> next_pRI st' = next_pRI st \<and>
     length (s_malInflight st') = length (s_malInflight st) \<and>
     (\<forall>i < length (s_malInflight st). inUse (s_malInflight st' ! i) = inUse (s_malInflight st ! i) \<and>
        sl_pRI (s_malInflight st' ! i) = sl_pRI (s_malInflight st ! i) \<and> (i \<noteq> slot \<longrightarrow> s_malInflight st' ! i = s_malInflight st ! i))"

lemma same_but_owns: "same_but slot st st' \<Longrightarrow> owns slot pRI st \<Longrightarrow> owns slot pRI st'"
  by (simp add: same_but_def owns_def)

lemma same_but_trans: "same_but slot st st' \<Longrightarrow> same_but slot st' st'' \<Longrightarrow> same_but slot st st''"
  by (simp add: same_but_def)

lemma same_but_upd:
  assumes "slot < length (s_malInflight st)" and "\<And>s. inUse (f s) = inUse s \<and> sl_pRI (f s) = sl_pRI s"
  shows "same_but slot st (upd_slot slot f st)"
  using assms by (simp add: same_but_def upd_slot_nth)

lemma attempts_correct:
  assumes "owns slot pRI st" and "attempts env vendor cmd sock pRI slot a st = (timedOut, n, st')" and "a \<le> MAL_MAX_ATTEMPTS"
  shows "same_but slot st st' \<and> a \<le> n \<and> n \<le> MAL_MAX_ATTEMPTS \<and>
    (\<forall>k. a \<le> k \<and> k < n \<longrightarrow> (\<exists>e r. vendor cmd sock k = Completed e r \<and> e \<noteq> 0)) \<and>
    (if timedOut then vendor cmd sock n = Timed_out
     else \<exists>e r. vendor cmd sock n = Completed e r \<and> (e = 0 \<or> n = MAL_MAX_ATTEMPTS) \<and>
       sl_err (s_malInflight st' ! slot) = e \<and> sl_text (s_malInflight st' ! slot) = copy_of env r)"
  using assms
proof (induction env vendor cmd sock pRI slot a st rule: attempts.induct)
  case (1 env vendor cmd sock pRI slot a st)
  define s1 where "s1 = upd_slot slot (\<lambda>s. s\<lparr>sl_done := False\<rparr>) st"
  have sl: "slot < length (s_malInflight st)" using "1.prems"(1) by (simp add: owns_def)
  have b1: "same_but slot st s1" unfolding s1_def by (rule same_but_upd [OF sl]) simp
  have o1: "owns slot pRI s1" by (rule same_but_owns [OF b1 "1.prems"(1)])
  have d1: "\<not> sl_done (s_malInflight s1 ! slot)" by (simp add: s1_def upd_slot_nth sl)
  have sl1: "slot < length (s_malInflight s1)" using o1 by (simp add: owns_def)
  show ?case
  proof (cases "vendor cmd sock a")
    case Timed_out
    then have "(timedOut, n, st') = (True, a, s1)"
      using "1.prems"(2) d1 by (subst (asm) attempts.simps) (simp add: Let_def s1_def)
    then show ?thesis using b1 Timed_out "1.prems"(3) by auto
  next
    case (Completed e r)
    define s2 where "s2 = upd_slot slot (\<lambda>s. s\<lparr>sl_text := copy_of env r, sl_err := e, sl_done := True\<rparr>) s1"
    have c: "on_complete env pRI e r s1 = s2" using malClaim_owner [OF o1] by (simp add: on_complete_def malComplete_eq s2_def)
    have f2: "sl_done (s_malInflight s2 ! slot)" "sl_err (s_malInflight s2 ! slot) = e" "sl_text (s_malInflight s2 ! slot) = copy_of env r"
      by (simp_all add: s2_def upd_slot_nth sl1)
    have b2: "same_but slot st s2"
      by (rule same_but_trans [OF b1]) (unfold s2_def, rule same_but_upd [OF sl1], simp)
    have eq: "attempts env vendor cmd sock pRI slot a st =
        (if e = 0 \<or> a \<ge> MAL_MAX_ATTEMPTS then (False, a, s2) else attempts env vendor cmd sock pRI slot (a + 1) s2)"
      using Completed c f2 by (subst attempts.simps) (simp add: Let_def s1_def [symmetric])
    show ?thesis
    proof (cases "e = 0 \<or> a \<ge> MAL_MAX_ATTEMPTS")
      case True
      then show ?thesis using eq "1.prems"(2,3) b2 Completed f2 by auto
    next
      case False
      have IH: "same_but slot s2 st' \<and> a + 1 \<le> n \<and> n \<le> MAL_MAX_ATTEMPTS \<and>
        (\<forall>k. a + 1 \<le> k \<and> k < n \<longrightarrow> (\<exists>e r. vendor cmd sock k = Completed e r \<and> e \<noteq> 0)) \<and>
        (if timedOut then vendor cmd sock n = Timed_out
         else \<exists>e r. vendor cmd sock n = Completed e r \<and> (e = 0 \<or> n = MAL_MAX_ATTEMPTS) \<and>
           sl_err (s_malInflight st' ! slot) = e \<and> sl_text (s_malInflight st' ! slot) = copy_of env r)"
      proof (rule "1.IH" [of s1 s2 "False" e])
        show "owns slot pRI s2" by (rule same_but_owns [OF b2 "1.prems"(1)])
        show "attempts env vendor cmd sock pRI slot (a + 1) s2 = (timedOut, n, st')" using eq False "1.prems"(2) by simp
      qed (use False Completed c f2 s1_def in auto)
      have "k = a \<or> a + 1 \<le> k" if "a \<le> k" for k using that by auto
      then have "\<forall>k. a \<le> k \<and> k < n \<longrightarrow> (\<exists>e r. vendor cmd sock k = Completed e r \<and> e \<noteq> 0)"
        using IH Completed False by metis
      then show ?thesis using IH same_but_trans [OF b2] by auto
    qed
  qed
qed

section \<open>Dispatch\<close>

text \<open>Memory is there and the client reads what it is sent.\<close>

definition env_ok :: "mal_env \<Rightarrow> bool" where
  "env_ok env \<longleftrightarrow> (\<forall>n. env_malloc env n) \<and> (\<forall>f. fst (malWriteAll f (env_write env f)))"

definition idle :: "mal \<Rightarrow> bool" where
  "idle st \<longleftrightarrow> length (s_malInflight st) = MAL_MAX_INFLIGHT \<and> 0 < next_pRI st \<and> (\<forall>i < MAL_MAX_INFLIGHT. \<not> inUse (s_malInflight st ! i))"

definition vendor_ok :: "vendor \<Rightarrow> bool" where
  "vendor_ok vendor \<longleftrightarrow> (\<forall>c s k e r. vendor c s k = Completed e (Some r) \<longrightarrow> length r < 2147483648)"

lemma malSendFrame_ok:
  assumes "env_ok env" and "s_malClientFd st \<ge> 0"
  shows "malSendFrame env simId serial err reply st = st\<lparr>mal_sent := mal_sent st @ [(s_malClientFd st, mal_frame simId serial err reply)]\<rparr>"
proof -
  define f where "f = mal_frame simId serial err reply"
  have "snd (malWriteAll f (env_write env f)) = f"
    using malWriteAll_prefix [of f "env_write env f"] assms(1) by (auto simp: env_ok_def)
  then show ?thesis using assms by (simp add: malSendFrame_def env_ok_def f_def Let_def)
qed

lemma copy_of_short:
  assumes "\<forall>r. response = Some r \<longrightarrow> length r < 2147483648"
  shows "\<forall>t. copy_of env response = Some t \<longrightarrow> length t < 2147483648"
proof -
  have "length (takeWhile P r) \<le> length r" for P and r :: "u8 list" by (rule length_takeWhile_le)
  then show ?thesis using assms by (cases response) (auto simp: copy_of_def Let_def intro: le_less_trans)
qed

definition short :: "u8 list option \<Rightarrow> bool" where
  "short reply \<longleftrightarrow> (\<forall>t. reply = Some t \<longrightarrow> length t < 2147483648)"

lemma attempts_short:
  assumes "owns slot pRI st" and "vendor_ok vendor" and "short (sl_text (s_malInflight st ! slot))"
    and "attempts env vendor cmd sock pRI slot a st = (timedOut, n, st')"
  shows "short (sl_text (s_malInflight st' ! slot))"
  using assms
proof (induction env vendor cmd sock pRI slot a st rule: attempts.induct)
  case (1 env vendor cmd sock pRI slot a st)
  define s1 where "s1 = upd_slot slot (\<lambda>s. s\<lparr>sl_done := False\<rparr>) st"
  have sl: "slot < length (s_malInflight st)" using "1.prems"(1) by (simp add: owns_def)
  have b1: "same_but slot st s1" unfolding s1_def by (rule same_but_upd [OF sl]) simp
  have o1: "owns slot pRI s1" by (rule same_but_owns [OF b1 "1.prems"(1)])
  have d1: "\<not> sl_done (s_malInflight s1 ! slot)" "short (sl_text (s_malInflight s1 ! slot))"
    using "1.prems"(3) by (simp_all add: s1_def upd_slot_nth sl)
  have sl1: "slot < length (s_malInflight s1)" using o1 by (simp add: owns_def)
  show ?case
  proof (cases "vendor cmd sock a")
    case Timed_out
    then have "st' = s1" using "1.prems"(4) d1 by (subst (asm) attempts.simps) (simp add: Let_def s1_def)
    then show ?thesis using d1(2) by simp
  next
    case (Completed e r)
    define s2 where "s2 = upd_slot slot (\<lambda>s. s\<lparr>sl_text := copy_of env r, sl_err := e, sl_done := True\<rparr>) s1"
    have c: "on_complete env pRI e r s1 = s2" using malClaim_owner [OF o1] by (simp add: on_complete_def malComplete_eq s2_def)
    have f2: "sl_done (s_malInflight s2 ! slot)" "sl_err (s_malInflight s2 ! slot) = e" "sl_text (s_malInflight s2 ! slot) = copy_of env r"
      by (simp_all add: s2_def upd_slot_nth sl1)
    have o2: "owns slot pRI s2"
      by (rule same_but_owns [OF _ o1]) (unfold s2_def, rule same_but_upd [OF sl1], simp)
    have sh: "short (copy_of env r)"
    proof -
      have "\<forall>x. r = Some x \<longrightarrow> length x < 2147483648" using "1.prems"(2) Completed unfolding vendor_ok_def by metis
      then show ?thesis unfolding short_def by (rule copy_of_short)
    qed
    have eq: "attempts env vendor cmd sock pRI slot a st =
        (if e = 0 \<or> a \<ge> MAL_MAX_ATTEMPTS then (False, a, s2) else attempts env vendor cmd sock pRI slot (a + 1) s2)"
      using Completed c f2 by (subst attempts.simps) (simp add: Let_def s1_def [symmetric])
    show ?thesis
    proof (cases "e = 0 \<or> a \<ge> MAL_MAX_ATTEMPTS")
      case True
      then show ?thesis using eq "1.prems"(4) f2(3) sh by auto
    next
      case False
      show ?thesis
      proof (rule "1.IH" [of s1 s2 "False" e])
        show "attempts env vendor cmd sock pRI slot (a + 1) s2 = (timedOut, n, st')" using eq False "1.prems"(4) by simp
      qed (use False Completed c f2 s1_def o2 sh "1.prems"(2) in auto)
    qed
  qed
qed

text \<open>The command of a valid request.\<close>

definition at_command :: "u32 \<Rightarrow> u8 list \<Rightarrow> u8 list option" where
  "at_command requestId payload =
     (if requestId = RIL_REQUEST_AT_COMMAND_WITH_PROXY \<and> 8 \<le> length payload \<and> unat (malGetLE (drop 4 payload)) \<le> length payload - 8
      then Some (take (unat (malGetLE (drop 4 payload))) (drop 8 payload)) else None)"

lemma malDispatch_invalid:
  assumes "env_ok env" and "at_command requestId payload = None"
  shows "malDispatch env vendor simId requestId serial payload st = malSendFrame env simId serial RIL_E_GENERIC_FAILURE [] st"
  using assms by (auto simp: at_command_def malDispatch_def Let_def env_ok_def split: if_splits)

lemma malDispatch_valid:
  assumes env: "env_ok env" and fd: "s_malClientFd st \<ge> 0" and idle: "idle st" and cmd: "at_command requestId payload = Some cmd"
    and v: "vendor_ok vendor"
  shows "\<exists>n err reply st'. malDispatch env vendor simId requestId serial payload st = st' \<and> idle st' \<and> s_malClientFd st' = s_malClientFd st \<and>
    mal_sent st' = mal_sent st @ [(s_malClientFd st, mal_frame simId serial err reply)] \<and> length reply < 2147483648 \<and>
    1 \<le> n \<and> n \<le> MAL_MAX_ATTEMPTS \<and>
    (\<forall>k. 1 \<le> k \<and> k < n \<longrightarrow> (\<exists>e r. vendor cmd (mal_socket_id simId) k = Completed e r \<and> e \<noteq> 0)) \<and>
    (case vendor cmd (mal_socket_id simId) n of
       Timed_out \<Rightarrow> err = RIL_E_GENERIC_FAILURE
     | Completed e r \<Rightarrow> err = e \<and> (e = 0 \<or> n = MAL_MAX_ATTEMPTS) \<and> reply = (case copy_of env r of None \<Rightarrow> [] | Some t \<Rightarrow> t))"
proof -
  have c: "requestId = RIL_REQUEST_AT_COMMAND_WITH_PROXY" "8 \<le> length payload" "unat (malGetLE (drop 4 payload)) \<le> length payload - 8"
    "cmd = take (unat (malGetLE (drop 4 payload))) (drop 8 payload)"
    using cmd by (auto simp: at_command_def split: if_splits)
  have m: "env_malloc env k" for k using env by (simp add: env_ok_def)
  have len: "length (s_malInflight st) = MAL_MAX_INFLIGHT" "\<forall>i < MAL_MAX_INFLIGHT. \<not> inUse (s_malInflight st ! i)" "0 < next_pRI st"
    using idle by (auto simp: idle_def)
  have "find (\<lambda>i. \<not> inUse (s_malInflight st ! i)) [0..<MAL_MAX_INFLIGHT] \<noteq> None"
    using len(2) by (auto simp: find_None_iff MAL_MAX_INFLIGHT_def intro: exI [of _ 0])
  then obtain slot where slot: "find (\<lambda>i. \<not> inUse (s_malInflight st ! i)) [0..<MAL_MAX_INFLIGHT] = Some slot" by auto
  then have sl: "slot < MAL_MAX_INFLIGHT" by (auto simp: find_Some_iff)
  define pRI where "pRI = next_pRI st"
  define s1 where "s1 = upd_slot slot (\<lambda>s. s\<lparr>inUse := True, sl_serial := serial, sl_simId := simId, sl_cmd := Some cmd\<rparr>) st"
  define s2 where "s2 = upd_slot slot (\<lambda>s. s\<lparr>sl_pRI := pRI, sl_done := False, sl_err := 0, sl_text := None\<rparr>) (s1\<lparr>next_pRI := pRI + 1\<rparr>)"
  have own: "owns slot pRI s2" using len sl by (auto simp: owns_def s2_def s1_def pRI_def upd_slot_nth)
  obtain timedOut n s3 where att: "attempts env vendor cmd (mal_socket_id simId) pRI slot 1 s2 = (timedOut, n, s3)" by (metis prod_cases3)
  have a: "same_but slot s2 s3" "1 \<le> n" "n \<le> MAL_MAX_ATTEMPTS"
    "\<forall>k. 1 \<le> k \<and> k < n \<longrightarrow> (\<exists>e r. vendor cmd (mal_socket_id simId) k = Completed e r \<and> e \<noteq> 0)"
    "if timedOut then vendor cmd (mal_socket_id simId) n = Timed_out
     else \<exists>e r. vendor cmd (mal_socket_id simId) n = Completed e r \<and> (e = 0 \<or> n = MAL_MAX_ATTEMPTS) \<and>
       sl_err (s_malInflight s3 ! slot) = e \<and> sl_text (s_malInflight s3 ! slot) = copy_of env r"
    using attempts_correct [OF own att] by (auto simp: MAL_MAX_ATTEMPTS_def)
  define err where "err = (if timedOut then RIL_E_GENERIC_FAILURE else sl_err (s_malInflight s3 ! slot))"
  define reply where "reply = (case sl_text (s_malInflight s3 ! slot) of None \<Rightarrow> [] | Some t \<Rightarrow> t)"
  define s4 where "s4 = malSendFrame env simId serial err reply (upd_slot slot (\<lambda>s. s\<lparr>sl_text := None\<rparr>) s3)"
  define s5 where "s5 = upd_slot slot (\<lambda>s. s\<lparr>sl_cmd := None, sl_pRI := 0, inUse := False\<rparr>) s4"
  have conds: "(requestId \<noteq> RIL_REQUEST_AT_COMMAND_WITH_PROXY) = False" "(length payload < 8) = False"
    "(unat (malGetLE (drop 4 payload)) > length payload - 8) = False" "(\<not> env_malloc env k) = False" for k
    using c(1-3) m by auto
  have p1: "next_pRI s1 = pRI" by (simp add: s1_def pRI_def)
  have disp: "malDispatch env vendor simId requestId serial payload st = s5"
    unfolding malDispatch_def Let_def conds if_False slot option.case c(4) [symmetric] s1_def [symmetric] p1 s2_def [symmetric]
      att prod.case err_def [symmetric] reply_def [symmetric] s4_def [symmetric] s5_def [symmetric] ..
  have sh: "short (sl_text (s_malInflight s3 ! slot))"
  proof (rule attempts_short [OF own v _ att])
    show "short (sl_text (s_malInflight s2 ! slot))" using len sl by (simp add: s2_def s1_def upd_slot_nth short_def)
  qed
  have f3: "s_malClientFd s3 = s_malClientFd st" "mal_sent s3 = mal_sent st" "length (s_malInflight s3) = MAL_MAX_INFLIGHT" "0 < next_pRI s3"
    using a(1) len by (simp_all add: same_but_def s2_def s1_def pRI_def)
  have idle3: "\<not> inUse (s_malInflight s3 ! i)" if "i < MAL_MAX_INFLIGHT" "i \<noteq> slot" for i
    using a(1) len sl that by (simp add: same_but_def s2_def s1_def upd_slot_nth)
  have s4: "s4 = (upd_slot slot (\<lambda>s. s\<lparr>sl_text := None\<rparr>) s3)\<lparr>mal_sent := mal_sent st @ [(s_malClientFd st, mal_frame simId serial err reply)]\<rparr>"
    unfolding s4_def using malSendFrame_ok [OF env] fd f3 by simp
  have "idle s5" using f3 idle3 sl by (simp add: idle_def s5_def s4 upd_slot_nth)
  moreover have "s_malClientFd s5 = s_malClientFd st" "mal_sent s5 = mal_sent st @ [(s_malClientFd st, mal_frame simId serial err reply)]"
    using f3 by (simp_all add: s5_def s4)
  moreover have "length reply < 2147483648" using sh by (auto simp: reply_def short_def split: option.splits)
  moreover have "case vendor cmd (mal_socket_id simId) n of
       Timed_out \<Rightarrow> err = RIL_E_GENERIC_FAILURE
     | Completed e r \<Rightarrow> err = e \<and> (e = 0 \<or> n = MAL_MAX_ATTEMPTS) \<and> reply = (case copy_of env r of None \<Rightarrow> [] | Some t \<Rightarrow> t)"
    using a(5) by (cases timedOut) (auto simp: err_def reply_def)
  ultimately show ?thesis using disp a(2-4) by blast
qed

lemma malDispatch_answers:
  assumes "env_ok env" and "s_malClientFd st \<ge> 0" and "idle st" and "vendor_ok vendor"
  shows "\<exists>err reply. idle (malDispatch env vendor simId requestId serial payload st) \<and>
    s_malClientFd (malDispatch env vendor simId requestId serial payload st) = s_malClientFd st \<and>
    mal_sent (malDispatch env vendor simId requestId serial payload st) =
      mal_sent st @ [(s_malClientFd st, mal_frame simId serial err reply)] \<and> length reply < 2147483648"
proof (cases "at_command requestId payload")
  case None
  then show ?thesis
    using malDispatch_invalid [OF assms(1) None] malSendFrame_ok [OF assms(1,2)] assms(3)
    by (intro exI [of _ RIL_E_GENERIC_FAILURE] exI [of _ "[]"]) (simp add: idle_def)
next
  case (Some cmd)
  obtain n err reply st' where "malDispatch env vendor simId requestId serial payload st = st'" "idle st'"
    "s_malClientFd st' = s_malClientFd st" "mal_sent st' = mal_sent st @ [(s_malClientFd st, mal_frame simId serial err reply)]"
    "length reply < 2147483648"
    using malDispatch_valid [OF assms(1-3) Some assms(4), of simId serial] by blast
  then show ?thesis by blast
qed

text \<open>Answer \<open>a\<close> is for request \<open>rq\<close>.\<close>

definition answers :: "mal_request \<Rightarrow> u8 list \<Rightarrow> bool" where
  "answers rq a \<longleftrightarrow> (\<exists>err reply. read_answer a = Some (rq_simId rq, rq_serial rq, err, reply))"

lemma fold_dispatch:
  assumes "env_ok env" and "vendor_ok vendor" and "s_malClientFd st \<ge> 0" and "idle st"
  shows "\<exists>as. list_all2 answers rqs as \<and> idle (fold (dispatch_rq env vendor) rqs st) \<and>
    mal_sent (fold (dispatch_rq env vendor) rqs st) = mal_sent st @ map (Pair (s_malClientFd st)) as"
  using assms(3,4)
proof (induction rqs arbitrary: st)
  case (Cons rq rqs)
  define st1 where "st1 = dispatch_rq env vendor rq st"
  obtain err reply where d: "idle st1" "s_malClientFd st1 = s_malClientFd st"
    "mal_sent st1 = mal_sent st @ [(s_malClientFd st, mal_frame (rq_simId rq) (rq_serial rq) err reply)]" "length reply < 2147483648"
    using malDispatch_answers [OF assms(1) Cons.prems assms(2)] unfolding st1_def by blast
  obtain as where "list_all2 answers rqs as" "idle (fold (dispatch_rq env vendor) rqs st1)"
    "mal_sent (fold (dispatch_rq env vendor) rqs st1) = mal_sent st1 @ map (Pair (s_malClientFd st1)) as"
    using Cons.IH [of st1] d Cons.prems(1) by auto
  moreover have "answers rq (mal_frame (rq_simId rq) (rq_serial rq) err reply)" using read_answer_frame [OF d(4)] by (auto simp: answers_def)
  ultimately show ?case using d
    by (intro exI [of _ "mal_frame (rq_simId rq) (rq_serial rq) err reply # as"]) (simp add: st1_def)
qed simp

section \<open>Properties\<close>

definition demo_env :: mal_env where
  "demo_env = \<lparr>env_malloc = (\<lambda>_. True), env_write = (\<lambda>f. [Write_EINTR, Wrote (length f)]), env_sizeof_RequestInfo = 64\<rparr>"

lemma demo_env_ok: "env_ok demo_env"
proof -
  have "fst (malWriteAll f [Write_EINTR, Wrote (length f)])" for f by (cases f) auto
  then show ?thesis by (simp add: env_ok_def demo_env_def)
qed

lemma mal_init_idle: "idle mal_init"
  by (simp add: idle_def mal_init_def free_slot_def)

text \<open>
  C18 (functional). End to end on one connection: however the requests of a client are cut into reads, and
  whatever the vendor does with them, the server handles exactly these requests in order, sends one
  answer to each, in order, that the client reads as carrying its slot and serial, and leaves no
  slot in use.
\<close>

theorem mal_connection_answers:
  assumes "env_ok env" and "vendor_ok vendor" and "idle st" and "fd \<ge> 0"
    and "clean evs" and "payload_of evs = concat (map request_frame rqs)" and "\<forall>rq \<in> set rqs. fits rq"
  shows "\<exists>st' as. mal_connection env vendor fd evs st = (rqs, Drop_connection, st') \<and> list_all2 answers rqs as \<and> idle st' \<and>
    mal_sent st' = mal_sent st @ map (Pair fd) as"
proof -
  define st1 where "st1 = st\<lparr>s_malClientFd := fd\<rparr>"
  have st1: "idle st1" "s_malClientFd st1 = fd" "mal_sent st1 = mal_sent st" using assms(3) by (simp_all add: st1_def idle_def)
  obtain as where "list_all2 answers rqs as" "idle (fold (dispatch_rq env vendor) rqs st1)"
    "mal_sent (fold (dispatch_rq env vendor) rqs st1) = mal_sent st @ map (Pair fd) as"
    using fold_dispatch [OF assms(1,2), of st1 rqs] assms(4) st1 by auto
  then show ?thesis using serve_requests [OF assms(5-7), of env vendor st1]
    by (intro exI [of _ "(fold (dispatch_rq env vendor) rqs st1)\<lparr>s_malClientFd := - 1\<rparr>"] exI [of _ as])
       (simp add: mal_connection_def st1_def idle_def)
qed

definition demo_request :: mal_request where
  "demo_request = \<lparr>rq_simId = 1, rq_id = 2106, rq_serial = 7, rq_payload = malPutLE 0 @ malPutLE 2 @ [65, 84]\<rparr>"

theorem mal_connection_answers_witness:
  "\<exists>st' as. mal_connection demo_env (\<lambda>c s k. if k = 1 then Completed 2 None else Completed 0 (Some [79, 75])) 5
      [Data (take 3 (request_frame demo_request)), Read_EINTR, Data (drop 3 (request_frame demo_request))] mal_init =
      ([demo_request], Drop_connection, st') \<and> list_all2 answers [demo_request] as \<and> idle st' \<and>
    mal_sent st' = mal_sent mal_init @ map (Pair 5) as"
proof (rule mal_connection_answers [OF demo_env_ok _ mal_init_idle])
  have l: "length (request_frame demo_request) = 30"
    by (simp add: request_frame_def demo_request_def le.put_length be.put_length)
  have "take 3 (request_frame demo_request) \<noteq> []" "drop 3 (request_frame demo_request) \<noteq> []"
    using l by (metis list.size(3) zero_neq_numeral length_take min.absorb2 numeral_le_iff semiring_norm(68) take_eq_Nil, simp)
  then show "clean [Data (take 3 (request_frame demo_request)), Read_EINTR, Data (drop 3 (request_frame demo_request))]"
    by (simp add: clean_def)
  show "vendor_ok (\<lambda>c s k. if k = 1 then Completed 2 None else Completed 0 (Some [79, 75]))" by (simp add: vendor_ok_def)
  show "\<forall>rq \<in> set [demo_request]. fits rq" by (simp add: fits_def demo_request_def MAL_MAX_FRAME_def le.put_length)
qed (simp_all add: payload_of.simps)



text \<open>
  Whatever bytes and errors a client sends, every word the server reads from a frame lies
  within the bytes of that frame, and the connection ends in the ordinary way.
\<close>

theorem mal_no_out_of_bounds:
  "fst (snd (mal_connection env vendor fd evs st)) = Drop_connection \<and> fst (read_frame evs) \<noteq> Out_of_bounds"
  using serve_in_bounds [of env vendor evs "st\<lparr>s_malClientFd := fd\<rparr>"] read_frame_in_bounds [of evs]
  by (auto simp: mal_connection_def split: prod.splits)

lemma takeWhile_bound: "length (takeWhile P (take k xs)) \<le> k"
  using length_takeWhile_le [of P "take k xs"] by simp

lemma take_extend:
  "take (i + length (takeWhile P (take k (drop i c)))) c = take i c @ takeWhile P (take k (drop i c))"
proof -
  define t where "t = takeWhile P (take k (drop i c))"
  have "t = take (length t) (take k (drop i c))" unfolding t_def by (rule takeWhile_eq_take)
  moreover have "length t \<le> k" unfolding t_def by (rule takeWhile_bound)
  ultimately have "t = take (length t) (drop i c)" by (simp add: min_absorb1)
  then show ?thesis unfolding t_def [symmetric] by (simp add: take_add)
qed

text \<open>
  The name of a command that goes to the log is a prefix of it made of letters and of the
  symbols that introduce AT commands, so it ends before the first digit, quote or equals sign: no
  number, PIN or argument is logged. It fits its buffer with the terminator.
\<close>

theorem malCmdName_no_arguments:
  assumes "0 < n"
  shows "length (malCmdName (Some c) n) + 1 \<le> n \<and> (\<exists>i. malCmdName (Some c) n = take i c) \<and>
    (\<forall>b \<in> set (malCmdName (Some c) n). isalpha b \<or> at_symbol b)"
proof -
  define at where "at \<longleftrightarrow> 2 \<le> length c \<and> (c ! 0 = 65 \<or> c ! 0 = 97) \<and> (c ! 1 = 84 \<or> c ! 1 = 116)"
  define i where "i = (if at then min 2 (n - 1) else 0)"
  define j where "j = (if at then i + length (takeWhile at_symbol (take (n - 1 - i) (drop i c))) else i)"
  define k where "k = j + length (takeWhile isalpha (take (n - 1 - j) (drop j c)))"
  have eq: "malCmdName (Some c) n = take k c"
    unfolding malCmdName_def option.case Let_def at_def [symmetric] i_def [symmetric] j_def [symmetric] k_def [symmetric]
    using assms by simp
  have "i \<le> n - 1" by (simp add: i_def)
  then have "j \<le> n - 1" using takeWhile_bound [of at_symbol "n - 1 - i" "drop i c"] by (auto simp: j_def)
  then have "k \<le> n - 1" using takeWhile_bound [of isalpha "n - 1 - j" "drop j c"] by (auto simp: k_def)
  then have len: "length (take k c) + 1 \<le> n" using assms by auto
  have "\<forall>b \<in> set (take i c). isalpha b"
  proof (cases at)
    case True
    then obtain x y r where "c = x # y # r" by (cases c; cases "tl c") (auto simp: at_def)
    then have "set (take 2 c) \<subseteq> {x, y}" "isalpha x" "isalpha y" using True by (auto simp: at_def isalpha_def)
    moreover have "set (take i c) \<subseteq> set (take 2 c)" by (rule set_take_subset_set_take) (simp add: i_def True)
    ultimately show ?thesis by auto
  qed (simp add: i_def)
  moreover have "\<forall>b \<in> set (take j c). b \<in> set (take i c) \<or> at_symbol b"
    using take_extend [of i at_symbol "n - 1 - i" c] by (auto simp: j_def dest: set_takeWhileD)
  moreover have "\<forall>b \<in> set (take k c). b \<in> set (take j c) \<or> isalpha b"
    using take_extend [of j isalpha "n - 1 - j" c] by (auto simp: k_def dest: set_takeWhileD)
  ultimately show ?thesis unfolding eq using len by blast
qed

theorem malCmdName_no_arguments_witness:
  "length (malCmdName (Some [65, 84, 43, 69, 61, 49]) 32) + 1 \<le> (32 :: nat) \<and>
   set (malCmdName (Some [65, 84, 43, 69, 61, 49]) 32) \<subseteq> {b. isalpha b \<or> at_symbol b}"
  using malCmdName_no_arguments [of 32 "[65, 84, 43, 69, 61, 49]"] by auto

text \<open>
  The slot of a request is 0-based, as are the socket ids that the rest of libril passes to the
  vendor; the socket id computed for a MAL request is one too high on both SIMs.
\<close>

lemma mal_socket_off_by_one: "mal_socket_id 0 = RIL_SOCKET_2" "mal_socket_id 1 = RIL_SOCKET_NUM"
  by (simp_all add: mal_socket_id_def SIM_COUNT_def RIL_SOCKET_2_def RIL_SOCKET_NUM_def)

end
