(* ===== verification/RilMacros.thy ===== *)
theory RilMacros
  imports Prelude
begin

text \<open>
  The numbers that \<open>ril/include/telephony/ril.h\<close> and \<open>mtk_ril.h\<close> give to requests, unsolicited
  responses and errors, under the names of their macros and enumerators.
\<close>

section \<open>Requests of ril.h\<close>

abbreviation (input) RIL_REQUEST_GET_SIM_STATUS :: int where "RIL_REQUEST_GET_SIM_STATUS \<equiv> 1"
abbreviation (input) RIL_REQUEST_ENTER_SIM_PIN :: int where "RIL_REQUEST_ENTER_SIM_PIN \<equiv> 2"
abbreviation (input) RIL_REQUEST_ENTER_SIM_PUK :: int where "RIL_REQUEST_ENTER_SIM_PUK \<equiv> 3"
abbreviation (input) RIL_REQUEST_ENTER_SIM_PIN2 :: int where "RIL_REQUEST_ENTER_SIM_PIN2 \<equiv> 4"
abbreviation (input) RIL_REQUEST_ENTER_SIM_PUK2 :: int where "RIL_REQUEST_ENTER_SIM_PUK2 \<equiv> 5"
abbreviation (input) RIL_REQUEST_CHANGE_SIM_PIN :: int where "RIL_REQUEST_CHANGE_SIM_PIN \<equiv> 6"
abbreviation (input) RIL_REQUEST_CHANGE_SIM_PIN2 :: int where "RIL_REQUEST_CHANGE_SIM_PIN2 \<equiv> 7"
abbreviation (input) RIL_REQUEST_ENTER_NETWORK_DEPERSONALIZATION :: int where "RIL_REQUEST_ENTER_NETWORK_DEPERSONALIZATION \<equiv> 8"
abbreviation (input) RIL_REQUEST_GET_CURRENT_CALLS :: int where "RIL_REQUEST_GET_CURRENT_CALLS \<equiv> 9"
abbreviation (input) RIL_REQUEST_DIAL :: int where "RIL_REQUEST_DIAL \<equiv> 10"
abbreviation (input) RIL_REQUEST_GET_IMSI :: int where "RIL_REQUEST_GET_IMSI \<equiv> 11"
abbreviation (input) RIL_REQUEST_HANGUP :: int where "RIL_REQUEST_HANGUP \<equiv> 12"
abbreviation (input) RIL_REQUEST_HANGUP_WAITING_OR_BACKGROUND :: int where "RIL_REQUEST_HANGUP_WAITING_OR_BACKGROUND \<equiv> 13"
abbreviation (input) RIL_REQUEST_HANGUP_FOREGROUND_RESUME_BACKGROUND :: int where "RIL_REQUEST_HANGUP_FOREGROUND_RESUME_BACKGROUND \<equiv> 14"
abbreviation (input) RIL_REQUEST_SWITCH_WAITING_OR_HOLDING_AND_ACTIVE :: int where "RIL_REQUEST_SWITCH_WAITING_OR_HOLDING_AND_ACTIVE \<equiv> 15"
abbreviation (input) RIL_REQUEST_CONFERENCE :: int where "RIL_REQUEST_CONFERENCE \<equiv> 16"
abbreviation (input) RIL_REQUEST_UDUB :: int where "RIL_REQUEST_UDUB \<equiv> 17"
abbreviation (input) RIL_REQUEST_LAST_CALL_FAIL_CAUSE :: int where "RIL_REQUEST_LAST_CALL_FAIL_CAUSE \<equiv> 18"
abbreviation (input) RIL_REQUEST_SIGNAL_STRENGTH :: int where "RIL_REQUEST_SIGNAL_STRENGTH \<equiv> 19"
abbreviation (input) RIL_REQUEST_VOICE_REGISTRATION_STATE :: int where "RIL_REQUEST_VOICE_REGISTRATION_STATE \<equiv> 20"
abbreviation (input) RIL_REQUEST_DATA_REGISTRATION_STATE :: int where "RIL_REQUEST_DATA_REGISTRATION_STATE \<equiv> 21"
abbreviation (input) RIL_REQUEST_OPERATOR :: int where "RIL_REQUEST_OPERATOR \<equiv> 22"
abbreviation (input) RIL_REQUEST_RADIO_POWER :: int where "RIL_REQUEST_RADIO_POWER \<equiv> 23"
abbreviation (input) RIL_REQUEST_DTMF :: int where "RIL_REQUEST_DTMF \<equiv> 24"
abbreviation (input) RIL_REQUEST_SEND_SMS :: int where "RIL_REQUEST_SEND_SMS \<equiv> 25"
abbreviation (input) RIL_REQUEST_SEND_SMS_EXPECT_MORE :: int where "RIL_REQUEST_SEND_SMS_EXPECT_MORE \<equiv> 26"
abbreviation (input) RIL_REQUEST_SETUP_DATA_CALL :: int where "RIL_REQUEST_SETUP_DATA_CALL \<equiv> 27"
abbreviation (input) RIL_REQUEST_SIM_IO :: int where "RIL_REQUEST_SIM_IO \<equiv> 28"
abbreviation (input) RIL_REQUEST_SEND_USSD :: int where "RIL_REQUEST_SEND_USSD \<equiv> 29"
abbreviation (input) RIL_REQUEST_CANCEL_USSD :: int where "RIL_REQUEST_CANCEL_USSD \<equiv> 30"
abbreviation (input) RIL_REQUEST_GET_CLIR :: int where "RIL_REQUEST_GET_CLIR \<equiv> 31"
abbreviation (input) RIL_REQUEST_SET_CLIR :: int where "RIL_REQUEST_SET_CLIR \<equiv> 32"
abbreviation (input) RIL_REQUEST_QUERY_CALL_FORWARD_STATUS :: int where "RIL_REQUEST_QUERY_CALL_FORWARD_STATUS \<equiv> 33"
abbreviation (input) RIL_REQUEST_SET_CALL_FORWARD :: int where "RIL_REQUEST_SET_CALL_FORWARD \<equiv> 34"
abbreviation (input) RIL_REQUEST_QUERY_CALL_WAITING :: int where "RIL_REQUEST_QUERY_CALL_WAITING \<equiv> 35"
abbreviation (input) RIL_REQUEST_SET_CALL_WAITING :: int where "RIL_REQUEST_SET_CALL_WAITING \<equiv> 36"
abbreviation (input) RIL_REQUEST_SMS_ACKNOWLEDGE :: int where "RIL_REQUEST_SMS_ACKNOWLEDGE \<equiv> 37"
abbreviation (input) RIL_REQUEST_GET_IMEI :: int where "RIL_REQUEST_GET_IMEI \<equiv> 38"
abbreviation (input) RIL_REQUEST_GET_IMEISV :: int where "RIL_REQUEST_GET_IMEISV \<equiv> 39"
abbreviation (input) RIL_REQUEST_ANSWER :: int where "RIL_REQUEST_ANSWER \<equiv> 40"
abbreviation (input) RIL_REQUEST_DEACTIVATE_DATA_CALL :: int where "RIL_REQUEST_DEACTIVATE_DATA_CALL \<equiv> 41"
abbreviation (input) RIL_REQUEST_QUERY_FACILITY_LOCK :: int where "RIL_REQUEST_QUERY_FACILITY_LOCK \<equiv> 42"
abbreviation (input) RIL_REQUEST_SET_FACILITY_LOCK :: int where "RIL_REQUEST_SET_FACILITY_LOCK \<equiv> 43"
abbreviation (input) RIL_REQUEST_CHANGE_BARRING_PASSWORD :: int where "RIL_REQUEST_CHANGE_BARRING_PASSWORD \<equiv> 44"
abbreviation (input) RIL_REQUEST_QUERY_NETWORK_SELECTION_MODE :: int where "RIL_REQUEST_QUERY_NETWORK_SELECTION_MODE \<equiv> 45"
abbreviation (input) RIL_REQUEST_SET_NETWORK_SELECTION_AUTOMATIC :: int where "RIL_REQUEST_SET_NETWORK_SELECTION_AUTOMATIC \<equiv> 46"
abbreviation (input) RIL_REQUEST_SET_NETWORK_SELECTION_MANUAL :: int where "RIL_REQUEST_SET_NETWORK_SELECTION_MANUAL \<equiv> 47"
abbreviation (input) RIL_REQUEST_QUERY_AVAILABLE_NETWORKS :: int where "RIL_REQUEST_QUERY_AVAILABLE_NETWORKS \<equiv> 48"
abbreviation (input) RIL_REQUEST_DTMF_START :: int where "RIL_REQUEST_DTMF_START \<equiv> 49"
abbreviation (input) RIL_REQUEST_DTMF_STOP :: int where "RIL_REQUEST_DTMF_STOP \<equiv> 50"
abbreviation (input) RIL_REQUEST_BASEBAND_VERSION :: int where "RIL_REQUEST_BASEBAND_VERSION \<equiv> 51"
abbreviation (input) RIL_REQUEST_SEPARATE_CONNECTION :: int where "RIL_REQUEST_SEPARATE_CONNECTION \<equiv> 52"
abbreviation (input) RIL_REQUEST_SET_MUTE :: int where "RIL_REQUEST_SET_MUTE \<equiv> 53"
abbreviation (input) RIL_REQUEST_GET_MUTE :: int where "RIL_REQUEST_GET_MUTE \<equiv> 54"
abbreviation (input) RIL_REQUEST_QUERY_CLIP :: int where "RIL_REQUEST_QUERY_CLIP \<equiv> 55"
abbreviation (input) RIL_REQUEST_LAST_DATA_CALL_FAIL_CAUSE :: int where "RIL_REQUEST_LAST_DATA_CALL_FAIL_CAUSE \<equiv> 56"
abbreviation (input) RIL_REQUEST_DATA_CALL_LIST :: int where "RIL_REQUEST_DATA_CALL_LIST \<equiv> 57"
abbreviation (input) RIL_REQUEST_RESET_RADIO :: int where "RIL_REQUEST_RESET_RADIO \<equiv> 58"
abbreviation (input) RIL_REQUEST_OEM_HOOK_RAW :: int where "RIL_REQUEST_OEM_HOOK_RAW \<equiv> 59"
abbreviation (input) RIL_REQUEST_OEM_HOOK_STRINGS :: int where "RIL_REQUEST_OEM_HOOK_STRINGS \<equiv> 60"
abbreviation (input) RIL_REQUEST_SCREEN_STATE :: int where "RIL_REQUEST_SCREEN_STATE \<equiv> 61"
abbreviation (input) RIL_REQUEST_SET_SUPP_SVC_NOTIFICATION :: int where "RIL_REQUEST_SET_SUPP_SVC_NOTIFICATION \<equiv> 62"
abbreviation (input) RIL_REQUEST_WRITE_SMS_TO_SIM :: int where "RIL_REQUEST_WRITE_SMS_TO_SIM \<equiv> 63"
abbreviation (input) RIL_REQUEST_DELETE_SMS_ON_SIM :: int where "RIL_REQUEST_DELETE_SMS_ON_SIM \<equiv> 64"
abbreviation (input) RIL_REQUEST_SET_BAND_MODE :: int where "RIL_REQUEST_SET_BAND_MODE \<equiv> 65"
abbreviation (input) RIL_REQUEST_QUERY_AVAILABLE_BAND_MODE :: int where "RIL_REQUEST_QUERY_AVAILABLE_BAND_MODE \<equiv> 66"
abbreviation (input) RIL_REQUEST_STK_GET_PROFILE :: int where "RIL_REQUEST_STK_GET_PROFILE \<equiv> 67"
abbreviation (input) RIL_REQUEST_STK_SET_PROFILE :: int where "RIL_REQUEST_STK_SET_PROFILE \<equiv> 68"
abbreviation (input) RIL_REQUEST_STK_SEND_ENVELOPE_COMMAND :: int where "RIL_REQUEST_STK_SEND_ENVELOPE_COMMAND \<equiv> 69"
abbreviation (input) RIL_REQUEST_STK_SEND_TERMINAL_RESPONSE :: int where "RIL_REQUEST_STK_SEND_TERMINAL_RESPONSE \<equiv> 70"
abbreviation (input) RIL_REQUEST_STK_HANDLE_CALL_SETUP_REQUESTED_FROM_SIM :: int where "RIL_REQUEST_STK_HANDLE_CALL_SETUP_REQUESTED_FROM_SIM \<equiv> 71"
abbreviation (input) RIL_REQUEST_EXPLICIT_CALL_TRANSFER :: int where "RIL_REQUEST_EXPLICIT_CALL_TRANSFER \<equiv> 72"
abbreviation (input) RIL_REQUEST_SET_PREFERRED_NETWORK_TYPE :: int where "RIL_REQUEST_SET_PREFERRED_NETWORK_TYPE \<equiv> 73"
abbreviation (input) RIL_REQUEST_GET_PREFERRED_NETWORK_TYPE :: int where "RIL_REQUEST_GET_PREFERRED_NETWORK_TYPE \<equiv> 74"
abbreviation (input) RIL_REQUEST_GET_NEIGHBORING_CELL_IDS :: int where "RIL_REQUEST_GET_NEIGHBORING_CELL_IDS \<equiv> 75"
abbreviation (input) RIL_REQUEST_SET_LOCATION_UPDATES :: int where "RIL_REQUEST_SET_LOCATION_UPDATES \<equiv> 76"
abbreviation (input) RIL_REQUEST_CDMA_SET_SUBSCRIPTION_SOURCE :: int where "RIL_REQUEST_CDMA_SET_SUBSCRIPTION_SOURCE \<equiv> 77"
abbreviation (input) RIL_REQUEST_CDMA_SET_ROAMING_PREFERENCE :: int where "RIL_REQUEST_CDMA_SET_ROAMING_PREFERENCE \<equiv> 78"
abbreviation (input) RIL_REQUEST_CDMA_QUERY_ROAMING_PREFERENCE :: int where "RIL_REQUEST_CDMA_QUERY_ROAMING_PREFERENCE \<equiv> 79"
abbreviation (input) RIL_REQUEST_SET_TTY_MODE :: int where "RIL_REQUEST_SET_TTY_MODE \<equiv> 80"
abbreviation (input) RIL_REQUEST_QUERY_TTY_MODE :: int where "RIL_REQUEST_QUERY_TTY_MODE \<equiv> 81"
abbreviation (input) RIL_REQUEST_CDMA_SET_PREFERRED_VOICE_PRIVACY_MODE :: int where "RIL_REQUEST_CDMA_SET_PREFERRED_VOICE_PRIVACY_MODE \<equiv> 82"
abbreviation (input) RIL_REQUEST_CDMA_QUERY_PREFERRED_VOICE_PRIVACY_MODE :: int where "RIL_REQUEST_CDMA_QUERY_PREFERRED_VOICE_PRIVACY_MODE \<equiv> 83"
abbreviation (input) RIL_REQUEST_CDMA_FLASH :: int where "RIL_REQUEST_CDMA_FLASH \<equiv> 84"
abbreviation (input) RIL_REQUEST_CDMA_BURST_DTMF :: int where "RIL_REQUEST_CDMA_BURST_DTMF \<equiv> 85"
abbreviation (input) RIL_REQUEST_CDMA_VALIDATE_AND_WRITE_AKEY :: int where "RIL_REQUEST_CDMA_VALIDATE_AND_WRITE_AKEY \<equiv> 86"
abbreviation (input) RIL_REQUEST_CDMA_SEND_SMS :: int where "RIL_REQUEST_CDMA_SEND_SMS \<equiv> 87"
abbreviation (input) RIL_REQUEST_CDMA_SMS_ACKNOWLEDGE :: int where "RIL_REQUEST_CDMA_SMS_ACKNOWLEDGE \<equiv> 88"
abbreviation (input) RIL_REQUEST_GSM_GET_BROADCAST_SMS_CONFIG :: int where "RIL_REQUEST_GSM_GET_BROADCAST_SMS_CONFIG \<equiv> 89"
abbreviation (input) RIL_REQUEST_GSM_SET_BROADCAST_SMS_CONFIG :: int where "RIL_REQUEST_GSM_SET_BROADCAST_SMS_CONFIG \<equiv> 90"
abbreviation (input) RIL_REQUEST_GSM_SMS_BROADCAST_ACTIVATION :: int where "RIL_REQUEST_GSM_SMS_BROADCAST_ACTIVATION \<equiv> 91"
abbreviation (input) RIL_REQUEST_CDMA_GET_BROADCAST_SMS_CONFIG :: int where "RIL_REQUEST_CDMA_GET_BROADCAST_SMS_CONFIG \<equiv> 92"
abbreviation (input) RIL_REQUEST_CDMA_SET_BROADCAST_SMS_CONFIG :: int where "RIL_REQUEST_CDMA_SET_BROADCAST_SMS_CONFIG \<equiv> 93"
abbreviation (input) RIL_REQUEST_CDMA_SMS_BROADCAST_ACTIVATION :: int where "RIL_REQUEST_CDMA_SMS_BROADCAST_ACTIVATION \<equiv> 94"
abbreviation (input) RIL_REQUEST_CDMA_SUBSCRIPTION :: int where "RIL_REQUEST_CDMA_SUBSCRIPTION \<equiv> 95"
abbreviation (input) RIL_REQUEST_CDMA_WRITE_SMS_TO_RUIM :: int where "RIL_REQUEST_CDMA_WRITE_SMS_TO_RUIM \<equiv> 96"
abbreviation (input) RIL_REQUEST_CDMA_DELETE_SMS_ON_RUIM :: int where "RIL_REQUEST_CDMA_DELETE_SMS_ON_RUIM \<equiv> 97"
abbreviation (input) RIL_REQUEST_DEVICE_IDENTITY :: int where "RIL_REQUEST_DEVICE_IDENTITY \<equiv> 98"
abbreviation (input) RIL_REQUEST_EXIT_EMERGENCY_CALLBACK_MODE :: int where "RIL_REQUEST_EXIT_EMERGENCY_CALLBACK_MODE \<equiv> 99"
abbreviation (input) RIL_REQUEST_GET_SMSC_ADDRESS :: int where "RIL_REQUEST_GET_SMSC_ADDRESS \<equiv> 100"
abbreviation (input) RIL_REQUEST_SET_SMSC_ADDRESS :: int where "RIL_REQUEST_SET_SMSC_ADDRESS \<equiv> 101"
abbreviation (input) RIL_REQUEST_REPORT_SMS_MEMORY_STATUS :: int where "RIL_REQUEST_REPORT_SMS_MEMORY_STATUS \<equiv> 102"
abbreviation (input) RIL_REQUEST_REPORT_STK_SERVICE_IS_RUNNING :: int where "RIL_REQUEST_REPORT_STK_SERVICE_IS_RUNNING \<equiv> 103"
abbreviation (input) RIL_REQUEST_CDMA_GET_SUBSCRIPTION_SOURCE :: int where "RIL_REQUEST_CDMA_GET_SUBSCRIPTION_SOURCE \<equiv> 104"
abbreviation (input) RIL_REQUEST_ISIM_AUTHENTICATION :: int where "RIL_REQUEST_ISIM_AUTHENTICATION \<equiv> 105"
abbreviation (input) RIL_REQUEST_ACKNOWLEDGE_INCOMING_GSM_SMS_WITH_PDU :: int where "RIL_REQUEST_ACKNOWLEDGE_INCOMING_GSM_SMS_WITH_PDU \<equiv> 106"
abbreviation (input) RIL_REQUEST_STK_SEND_ENVELOPE_WITH_STATUS :: int where "RIL_REQUEST_STK_SEND_ENVELOPE_WITH_STATUS \<equiv> 107"
abbreviation (input) RIL_REQUEST_VOICE_RADIO_TECH :: int where "RIL_REQUEST_VOICE_RADIO_TECH \<equiv> 108"
abbreviation (input) RIL_REQUEST_GET_CELL_INFO_LIST :: int where "RIL_REQUEST_GET_CELL_INFO_LIST \<equiv> 109"
abbreviation (input) RIL_REQUEST_SET_UNSOL_CELL_INFO_LIST_RATE :: int where "RIL_REQUEST_SET_UNSOL_CELL_INFO_LIST_RATE \<equiv> 110"
abbreviation (input) RIL_REQUEST_SET_INITIAL_ATTACH_APN :: int where "RIL_REQUEST_SET_INITIAL_ATTACH_APN \<equiv> 111"
abbreviation (input) RIL_REQUEST_IMS_REGISTRATION_STATE :: int where "RIL_REQUEST_IMS_REGISTRATION_STATE \<equiv> 112"
abbreviation (input) RIL_REQUEST_IMS_SEND_SMS :: int where "RIL_REQUEST_IMS_SEND_SMS \<equiv> 113"
abbreviation (input) RIL_REQUEST_SIM_TRANSMIT_APDU_BASIC :: int where "RIL_REQUEST_SIM_TRANSMIT_APDU_BASIC \<equiv> 114"
abbreviation (input) RIL_REQUEST_SIM_OPEN_CHANNEL :: int where "RIL_REQUEST_SIM_OPEN_CHANNEL \<equiv> 115"
abbreviation (input) RIL_REQUEST_SIM_CLOSE_CHANNEL :: int where "RIL_REQUEST_SIM_CLOSE_CHANNEL \<equiv> 116"
abbreviation (input) RIL_REQUEST_SIM_TRANSMIT_APDU_CHANNEL :: int where "RIL_REQUEST_SIM_TRANSMIT_APDU_CHANNEL \<equiv> 117"
abbreviation (input) RIL_REQUEST_NV_READ_ITEM :: int where "RIL_REQUEST_NV_READ_ITEM \<equiv> 118"
abbreviation (input) RIL_REQUEST_NV_WRITE_ITEM :: int where "RIL_REQUEST_NV_WRITE_ITEM \<equiv> 119"
abbreviation (input) RIL_REQUEST_NV_WRITE_CDMA_PRL :: int where "RIL_REQUEST_NV_WRITE_CDMA_PRL \<equiv> 120"
abbreviation (input) RIL_REQUEST_NV_RESET_CONFIG :: int where "RIL_REQUEST_NV_RESET_CONFIG \<equiv> 121"
abbreviation (input) RIL_REQUEST_SET_UICC_SUBSCRIPTION :: int where "RIL_REQUEST_SET_UICC_SUBSCRIPTION \<equiv> 122"
abbreviation (input) RIL_REQUEST_ALLOW_DATA :: int where "RIL_REQUEST_ALLOW_DATA \<equiv> 123"
abbreviation (input) RIL_REQUEST_GET_HARDWARE_CONFIG :: int where "RIL_REQUEST_GET_HARDWARE_CONFIG \<equiv> 124"
abbreviation (input) RIL_REQUEST_SIM_AUTHENTICATION :: int where "RIL_REQUEST_SIM_AUTHENTICATION \<equiv> 125"
abbreviation (input) RIL_REQUEST_GET_DC_RT_INFO :: int where "RIL_REQUEST_GET_DC_RT_INFO \<equiv> 126"
abbreviation (input) RIL_REQUEST_SET_DC_RT_INFO_RATE :: int where "RIL_REQUEST_SET_DC_RT_INFO_RATE \<equiv> 127"
abbreviation (input) RIL_REQUEST_SET_DATA_PROFILE :: int where "RIL_REQUEST_SET_DATA_PROFILE \<equiv> 128"
abbreviation (input) RIL_REQUEST_SHUTDOWN :: int where "RIL_REQUEST_SHUTDOWN \<equiv> 129"
abbreviation (input) RIL_REQUEST_GET_RADIO_CAPABILITY :: int where "RIL_REQUEST_GET_RADIO_CAPABILITY \<equiv> 130"
abbreviation (input) RIL_REQUEST_SET_RADIO_CAPABILITY :: int where "RIL_REQUEST_SET_RADIO_CAPABILITY \<equiv> 131"
abbreviation (input) RIL_REQUEST_START_LCE :: int where "RIL_REQUEST_START_LCE \<equiv> 132"
abbreviation (input) RIL_REQUEST_STOP_LCE :: int where "RIL_REQUEST_STOP_LCE \<equiv> 133"
abbreviation (input) RIL_REQUEST_PULL_LCEDATA :: int where "RIL_REQUEST_PULL_LCEDATA \<equiv> 134"
abbreviation (input) RIL_REQUEST_GET_ACTIVITY_INFO :: int where "RIL_REQUEST_GET_ACTIVITY_INFO \<equiv> 135"
abbreviation (input) RIL_REQUEST_SET_CARRIER_RESTRICTIONS :: int where "RIL_REQUEST_SET_CARRIER_RESTRICTIONS \<equiv> 136"
abbreviation (input) RIL_REQUEST_GET_CARRIER_RESTRICTIONS :: int where "RIL_REQUEST_GET_CARRIER_RESTRICTIONS \<equiv> 137"
abbreviation (input) RIL_REQUEST_SEND_DEVICE_STATE :: int where "RIL_REQUEST_SEND_DEVICE_STATE \<equiv> 138"
abbreviation (input) RIL_REQUEST_SET_UNSOLICITED_RESPONSE_FILTER :: int where "RIL_REQUEST_SET_UNSOLICITED_RESPONSE_FILTER \<equiv> 139"
abbreviation (input) RIL_REQUEST_SET_SIM_CARD_POWER :: int where "RIL_REQUEST_SET_SIM_CARD_POWER \<equiv> 140"
abbreviation (input) RIL_REQUEST_SET_CARRIER_INFO_IMSI_ENCRYPTION :: int where "RIL_REQUEST_SET_CARRIER_INFO_IMSI_ENCRYPTION \<equiv> 141"
abbreviation (input) RIL_REQUEST_START_NETWORK_SCAN :: int where "RIL_REQUEST_START_NETWORK_SCAN \<equiv> 142"
abbreviation (input) RIL_REQUEST_STOP_NETWORK_SCAN :: int where "RIL_REQUEST_STOP_NETWORK_SCAN \<equiv> 143"
abbreviation (input) RIL_RESPONSE_ACKNOWLEDGEMENT :: int where "RIL_RESPONSE_ACKNOWLEDGEMENT \<equiv> 800"

section \<open>Unsolicited responses of ril.h\<close>

abbreviation (input) RIL_UNSOL_RESPONSE_RADIO_STATE_CHANGED :: int where "RIL_UNSOL_RESPONSE_RADIO_STATE_CHANGED \<equiv> 1000"
abbreviation (input) RIL_UNSOL_RESPONSE_CALL_STATE_CHANGED :: int where "RIL_UNSOL_RESPONSE_CALL_STATE_CHANGED \<equiv> 1001"
abbreviation (input) RIL_UNSOL_RESPONSE_VOICE_NETWORK_STATE_CHANGED :: int where "RIL_UNSOL_RESPONSE_VOICE_NETWORK_STATE_CHANGED \<equiv> 1002"
abbreviation (input) RIL_UNSOL_RESPONSE_NEW_SMS :: int where "RIL_UNSOL_RESPONSE_NEW_SMS \<equiv> 1003"
abbreviation (input) RIL_UNSOL_RESPONSE_NEW_SMS_STATUS_REPORT :: int where "RIL_UNSOL_RESPONSE_NEW_SMS_STATUS_REPORT \<equiv> 1004"
abbreviation (input) RIL_UNSOL_RESPONSE_NEW_SMS_ON_SIM :: int where "RIL_UNSOL_RESPONSE_NEW_SMS_ON_SIM \<equiv> 1005"
abbreviation (input) RIL_UNSOL_ON_USSD :: int where "RIL_UNSOL_ON_USSD \<equiv> 1006"
abbreviation (input) RIL_UNSOL_ON_USSD_REQUEST :: int where "RIL_UNSOL_ON_USSD_REQUEST \<equiv> 1007"
abbreviation (input) RIL_UNSOL_NITZ_TIME_RECEIVED :: int where "RIL_UNSOL_NITZ_TIME_RECEIVED \<equiv> 1008"
abbreviation (input) RIL_UNSOL_SIGNAL_STRENGTH :: int where "RIL_UNSOL_SIGNAL_STRENGTH \<equiv> 1009"
abbreviation (input) RIL_UNSOL_DATA_CALL_LIST_CHANGED :: int where "RIL_UNSOL_DATA_CALL_LIST_CHANGED \<equiv> 1010"
abbreviation (input) RIL_UNSOL_SUPP_SVC_NOTIFICATION :: int where "RIL_UNSOL_SUPP_SVC_NOTIFICATION \<equiv> 1011"
abbreviation (input) RIL_UNSOL_STK_SESSION_END :: int where "RIL_UNSOL_STK_SESSION_END \<equiv> 1012"
abbreviation (input) RIL_UNSOL_STK_PROACTIVE_COMMAND :: int where "RIL_UNSOL_STK_PROACTIVE_COMMAND \<equiv> 1013"
abbreviation (input) RIL_UNSOL_STK_EVENT_NOTIFY :: int where "RIL_UNSOL_STK_EVENT_NOTIFY \<equiv> 1014"
abbreviation (input) RIL_UNSOL_STK_CALL_SETUP :: int where "RIL_UNSOL_STK_CALL_SETUP \<equiv> 1015"
abbreviation (input) RIL_UNSOL_SIM_SMS_STORAGE_FULL :: int where "RIL_UNSOL_SIM_SMS_STORAGE_FULL \<equiv> 1016"
abbreviation (input) RIL_UNSOL_SIM_REFRESH :: int where "RIL_UNSOL_SIM_REFRESH \<equiv> 1017"
abbreviation (input) RIL_UNSOL_CALL_RING :: int where "RIL_UNSOL_CALL_RING \<equiv> 1018"
abbreviation (input) RIL_UNSOL_RESPONSE_SIM_STATUS_CHANGED :: int where "RIL_UNSOL_RESPONSE_SIM_STATUS_CHANGED \<equiv> 1019"
abbreviation (input) RIL_UNSOL_RESPONSE_CDMA_NEW_SMS :: int where "RIL_UNSOL_RESPONSE_CDMA_NEW_SMS \<equiv> 1020"
abbreviation (input) RIL_UNSOL_RESPONSE_NEW_BROADCAST_SMS :: int where "RIL_UNSOL_RESPONSE_NEW_BROADCAST_SMS \<equiv> 1021"
abbreviation (input) RIL_UNSOL_CDMA_RUIM_SMS_STORAGE_FULL :: int where "RIL_UNSOL_CDMA_RUIM_SMS_STORAGE_FULL \<equiv> 1022"
abbreviation (input) RIL_UNSOL_RESTRICTED_STATE_CHANGED :: int where "RIL_UNSOL_RESTRICTED_STATE_CHANGED \<equiv> 1023"
abbreviation (input) RIL_UNSOL_ENTER_EMERGENCY_CALLBACK_MODE :: int where "RIL_UNSOL_ENTER_EMERGENCY_CALLBACK_MODE \<equiv> 1024"
abbreviation (input) RIL_UNSOL_CDMA_CALL_WAITING :: int where "RIL_UNSOL_CDMA_CALL_WAITING \<equiv> 1025"
abbreviation (input) RIL_UNSOL_CDMA_OTA_PROVISION_STATUS :: int where "RIL_UNSOL_CDMA_OTA_PROVISION_STATUS \<equiv> 1026"
abbreviation (input) RIL_UNSOL_CDMA_INFO_REC :: int where "RIL_UNSOL_CDMA_INFO_REC \<equiv> 1027"
abbreviation (input) RIL_UNSOL_OEM_HOOK_RAW :: int where "RIL_UNSOL_OEM_HOOK_RAW \<equiv> 1028"
abbreviation (input) RIL_UNSOL_RINGBACK_TONE :: int where "RIL_UNSOL_RINGBACK_TONE \<equiv> 1029"
abbreviation (input) RIL_UNSOL_RESEND_INCALL_MUTE :: int where "RIL_UNSOL_RESEND_INCALL_MUTE \<equiv> 1030"
abbreviation (input) RIL_UNSOL_CDMA_SUBSCRIPTION_SOURCE_CHANGED :: int where "RIL_UNSOL_CDMA_SUBSCRIPTION_SOURCE_CHANGED \<equiv> 1031"
abbreviation (input) RIL_UNSOL_CDMA_PRL_CHANGED :: int where "RIL_UNSOL_CDMA_PRL_CHANGED \<equiv> 1032"
abbreviation (input) RIL_UNSOL_EXIT_EMERGENCY_CALLBACK_MODE :: int where "RIL_UNSOL_EXIT_EMERGENCY_CALLBACK_MODE \<equiv> 1033"
abbreviation (input) RIL_UNSOL_RIL_CONNECTED :: int where "RIL_UNSOL_RIL_CONNECTED \<equiv> 1034"
abbreviation (input) RIL_UNSOL_VOICE_RADIO_TECH_CHANGED :: int where "RIL_UNSOL_VOICE_RADIO_TECH_CHANGED \<equiv> 1035"
abbreviation (input) RIL_UNSOL_CELL_INFO_LIST :: int where "RIL_UNSOL_CELL_INFO_LIST \<equiv> 1036"
abbreviation (input) RIL_UNSOL_RESPONSE_IMS_NETWORK_STATE_CHANGED :: int where "RIL_UNSOL_RESPONSE_IMS_NETWORK_STATE_CHANGED \<equiv> 1037"
abbreviation (input) RIL_UNSOL_UICC_SUBSCRIPTION_STATUS_CHANGED :: int where "RIL_UNSOL_UICC_SUBSCRIPTION_STATUS_CHANGED \<equiv> 1038"
abbreviation (input) RIL_UNSOL_SRVCC_STATE_NOTIFY :: int where "RIL_UNSOL_SRVCC_STATE_NOTIFY \<equiv> 1039"
abbreviation (input) RIL_UNSOL_HARDWARE_CONFIG_CHANGED :: int where "RIL_UNSOL_HARDWARE_CONFIG_CHANGED \<equiv> 1040"
abbreviation (input) RIL_UNSOL_DC_RT_INFO_CHANGED :: int where "RIL_UNSOL_DC_RT_INFO_CHANGED \<equiv> 1041"
abbreviation (input) RIL_UNSOL_RADIO_CAPABILITY :: int where "RIL_UNSOL_RADIO_CAPABILITY \<equiv> 1042"
abbreviation (input) RIL_UNSOL_ON_SS :: int where "RIL_UNSOL_ON_SS \<equiv> 1043"
abbreviation (input) RIL_UNSOL_STK_CC_ALPHA_NOTIFY :: int where "RIL_UNSOL_STK_CC_ALPHA_NOTIFY \<equiv> 1044"
abbreviation (input) RIL_UNSOL_LCEDATA_RECV :: int where "RIL_UNSOL_LCEDATA_RECV \<equiv> 1045"
abbreviation (input) RIL_UNSOL_PCO_DATA :: int where "RIL_UNSOL_PCO_DATA \<equiv> 1046"
abbreviation (input) RIL_UNSOL_MODEM_RESTART :: int where "RIL_UNSOL_MODEM_RESTART \<equiv> 1047"
abbreviation (input) RIL_UNSOL_CARRIER_INFO_IMSI_ENCRYPTION :: int where "RIL_UNSOL_CARRIER_INFO_IMSI_ENCRYPTION \<equiv> 1048"

section \<open>Requests of mtk_ril.h\<close>

abbreviation (input) RIL_REQUEST_GET_COLP :: int where "RIL_REQUEST_GET_COLP \<equiv> 2000"
abbreviation (input) RIL_REQUEST_SET_COLP :: int where "RIL_REQUEST_SET_COLP \<equiv> 2001"
abbreviation (input) RIL_REQUEST_GET_COLR :: int where "RIL_REQUEST_GET_COLR \<equiv> 2002"
abbreviation (input) RIL_REQUEST_GET_CCM :: int where "RIL_REQUEST_GET_CCM \<equiv> 2003"
abbreviation (input) RIL_REQUEST_GET_ACM :: int where "RIL_REQUEST_GET_ACM \<equiv> 2004"
abbreviation (input) RIL_REQUEST_GET_ACMMAX :: int where "RIL_REQUEST_GET_ACMMAX \<equiv> 2005"
abbreviation (input) RIL_REQUEST_GET_PPU_AND_CURRENCY :: int where "RIL_REQUEST_GET_PPU_AND_CURRENCY \<equiv> 2006"
abbreviation (input) RIL_REQUEST_SET_ACMMAX :: int where "RIL_REQUEST_SET_ACMMAX \<equiv> 2007"
abbreviation (input) RIL_REQUEST_RESET_ACM :: int where "RIL_REQUEST_RESET_ACM \<equiv> 2008"
abbreviation (input) RIL_REQUEST_SET_PPU_AND_CURRENCY :: int where "RIL_REQUEST_SET_PPU_AND_CURRENCY \<equiv> 2009"
abbreviation (input) RIL_REQUEST_MODEM_POWEROFF :: int where "RIL_REQUEST_MODEM_POWEROFF \<equiv> 2010"
abbreviation (input) RIL_REQUEST_DUAL_SIM_MODE_SWITCH :: int where "RIL_REQUEST_DUAL_SIM_MODE_SWITCH \<equiv> 2011"
abbreviation (input) RIL_REQUEST_QUERY_PHB_STORAGE_INFO :: int where "RIL_REQUEST_QUERY_PHB_STORAGE_INFO \<equiv> 2012"
abbreviation (input) RIL_REQUEST_WRITE_PHB_ENTRY :: int where "RIL_REQUEST_WRITE_PHB_ENTRY \<equiv> 2013"
abbreviation (input) RIL_REQUEST_READ_PHB_ENTRY :: int where "RIL_REQUEST_READ_PHB_ENTRY \<equiv> 2014"
abbreviation (input) RIL_REQUEST_SET_GPRS_CONNECT_TYPE :: int where "RIL_REQUEST_SET_GPRS_CONNECT_TYPE \<equiv> 2015"
abbreviation (input) RIL_REQUEST_SET_GPRS_TRANSFER_TYPE :: int where "RIL_REQUEST_SET_GPRS_TRANSFER_TYPE \<equiv> 2016"
abbreviation (input) RIL_REQUEST_MOBILEREVISION_AND_IMEI :: int where "RIL_REQUEST_MOBILEREVISION_AND_IMEI \<equiv> 2017"
abbreviation (input) RIL_REQUEST_QUERY_SIM_NETWORK_LOCK :: int where "RIL_REQUEST_QUERY_SIM_NETWORK_LOCK \<equiv> 2018"
abbreviation (input) RIL_REQUEST_SET_SIM_NETWORK_LOCK :: int where "RIL_REQUEST_SET_SIM_NETWORK_LOCK \<equiv> 2019"
abbreviation (input) RIL_REQUEST_SET_SCRI :: int where "RIL_REQUEST_SET_SCRI \<equiv> 2020"
abbreviation (input) RIL_REQUEST_BTSIM_CONNECT :: int where "RIL_REQUEST_BTSIM_CONNECT \<equiv> 2021"
abbreviation (input) RIL_REQUEST_BTSIM_DISCONNECT_OR_POWEROFF :: int where "RIL_REQUEST_BTSIM_DISCONNECT_OR_POWEROFF \<equiv> 2022"
abbreviation (input) RIL_REQUEST_BTSIM_POWERON_OR_RESETSIM :: int where "RIL_REQUEST_BTSIM_POWERON_OR_RESETSIM \<equiv> 2023"
abbreviation (input) RIL_REQUEST_BTSIM_TRANSFERAPDU :: int where "RIL_REQUEST_BTSIM_TRANSFERAPDU \<equiv> 2024"
abbreviation (input) RIL_REQUEST_SET_NETWORK_SELECTION_MANUAL_WITH_ACT :: int where "RIL_REQUEST_SET_NETWORK_SELECTION_MANUAL_WITH_ACT \<equiv> 2025"
abbreviation (input) RIL_REQUEST_QUERY_ICCID :: int where "RIL_REQUEST_QUERY_ICCID \<equiv> 2026"
abbreviation (input) RIL_REQUEST_USIM_AUTHENTICATION :: int where "RIL_REQUEST_USIM_AUTHENTICATION \<equiv> 2027"
abbreviation (input) RIL_REQUEST_MODEM_POWERON :: int where "RIL_REQUEST_MODEM_POWERON \<equiv> 2028"
abbreviation (input) RIL_REQUEST_GET_SMS_SIM_MEM_STATUS :: int where "RIL_REQUEST_GET_SMS_SIM_MEM_STATUS \<equiv> 2029"
abbreviation (input) RIL_REQUEST_GET_PHONE_CAPABILITY :: int where "RIL_REQUEST_GET_PHONE_CAPABILITY \<equiv> 2030"
abbreviation (input) RIL_REQUEST_SET_PHONE_CAPABILITY :: int where "RIL_REQUEST_SET_PHONE_CAPABILITY \<equiv> 2031"
abbreviation (input) RIL_REQUEST_GET_POL_CAPABILITY :: int where "RIL_REQUEST_GET_POL_CAPABILITY \<equiv> 2032"
abbreviation (input) RIL_REQUEST_GET_POL_LIST :: int where "RIL_REQUEST_GET_POL_LIST \<equiv> 2033"
abbreviation (input) RIL_REQUEST_SET_POL_ENTRY :: int where "RIL_REQUEST_SET_POL_ENTRY \<equiv> 2034"
abbreviation (input) RIL_REQUEST_QUERY_UPB_CAPABILITY :: int where "RIL_REQUEST_QUERY_UPB_CAPABILITY \<equiv> 2035"
abbreviation (input) RIL_REQUEST_EDIT_UPB_ENTRY :: int where "RIL_REQUEST_EDIT_UPB_ENTRY \<equiv> 2036"
abbreviation (input) RIL_REQUEST_DELETE_UPB_ENTRY :: int where "RIL_REQUEST_DELETE_UPB_ENTRY \<equiv> 2037"
abbreviation (input) RIL_REQUEST_READ_UPB_GAS_LIST :: int where "RIL_REQUEST_READ_UPB_GAS_LIST \<equiv> 2038"
abbreviation (input) RIL_REQUEST_READ_UPB_GRP :: int where "RIL_REQUEST_READ_UPB_GRP \<equiv> 2039"
abbreviation (input) RIL_REQUEST_WRITE_UPB_GRP :: int where "RIL_REQUEST_WRITE_UPB_GRP \<equiv> 2040"
abbreviation (input) RIL_REQUEST_SET_SIM_RECOVERY_ON :: int where "RIL_REQUEST_SET_SIM_RECOVERY_ON \<equiv> 2041"
abbreviation (input) RIL_REQUEST_GET_SIM_RECOVERY_ON :: int where "RIL_REQUEST_GET_SIM_RECOVERY_ON \<equiv> 2042"
abbreviation (input) RIL_REQUEST_SET_TRM :: int where "RIL_REQUEST_SET_TRM \<equiv> 2043"
abbreviation (input) RIL_REQUEST_DETECT_SIM_MISSING :: int where "RIL_REQUEST_DETECT_SIM_MISSING \<equiv> 2044"
abbreviation (input) RIL_REQUEST_GET_CALIBRATION_DATA :: int where "RIL_REQUEST_GET_CALIBRATION_DATA \<equiv> 2045"
abbreviation (input) RIL_REQUEST_GET_PHB_STRING_LENGTH :: int where "RIL_REQUEST_GET_PHB_STRING_LENGTH \<equiv> 2046"
abbreviation (input) RIL_REQUEST_GET_PHB_MEM_STORAGE :: int where "RIL_REQUEST_GET_PHB_MEM_STORAGE \<equiv> 2047"
abbreviation (input) RIL_REQUEST_SET_PHB_MEM_STORAGE :: int where "RIL_REQUEST_SET_PHB_MEM_STORAGE \<equiv> 2048"
abbreviation (input) RIL_REQUEST_READ_PHB_ENTRY_EXT :: int where "RIL_REQUEST_READ_PHB_ENTRY_EXT \<equiv> 2049"
abbreviation (input) RIL_REQUEST_WRITE_PHB_ENTRY_EXT :: int where "RIL_REQUEST_WRITE_PHB_ENTRY_EXT \<equiv> 2050"
abbreviation (input) RIL_REQUEST_GET_SMS_PARAMS :: int where "RIL_REQUEST_GET_SMS_PARAMS \<equiv> 2051"
abbreviation (input) RIL_REQUEST_SET_SMS_PARAMS :: int where "RIL_REQUEST_SET_SMS_PARAMS \<equiv> 2052"
abbreviation (input) RIL_REQUEST_SIM_TRANSMIT_BASIC :: int where "RIL_REQUEST_SIM_TRANSMIT_BASIC \<equiv> 2053"
abbreviation (input) RIL_REQUEST_SIM_TRANSMIT_CHANNEL :: int where "RIL_REQUEST_SIM_TRANSMIT_CHANNEL \<equiv> 2054"
abbreviation (input) RIL_REQUEST_SIM_GET_ATR :: int where "RIL_REQUEST_SIM_GET_ATR \<equiv> 2055"
abbreviation (input) RIL_REQUEST_SET_CB_CHANNEL_CONFIG_INFO :: int where "RIL_REQUEST_SET_CB_CHANNEL_CONFIG_INFO \<equiv> 2056"
abbreviation (input) RIL_REQUEST_SET_CB_LANGUAGE_CONFIG_INFO :: int where "RIL_REQUEST_SET_CB_LANGUAGE_CONFIG_INFO \<equiv> 2057"
abbreviation (input) RIL_REQUEST_GET_CB_CONFIG_INFO :: int where "RIL_REQUEST_GET_CB_CONFIG_INFO \<equiv> 2058"
abbreviation (input) RIL_REQUEST_SET_ALL_CB_LANGUAGE_ON :: int where "RIL_REQUEST_SET_ALL_CB_LANGUAGE_ON \<equiv> 2059"
abbreviation (input) RIL_REQUEST_SET_ETWS :: int where "RIL_REQUEST_SET_ETWS \<equiv> 2060"
abbreviation (input) RIL_REQUEST_SET_FD_MODE :: int where "RIL_REQUEST_SET_FD_MODE \<equiv> 2061"
abbreviation (input) RIL_REQUEST_DETACH_PS :: int where "RIL_REQUEST_DETACH_PS \<equiv> 2062"
abbreviation (input) RIL_REQUEST_SIM_OPEN_CHANNEL_WITH_SW :: int where "RIL_REQUEST_SIM_OPEN_CHANNEL_WITH_SW \<equiv> 2063"
abbreviation (input) RIL_REQUEST_SET_REG_SUSPEND_ENABLED :: int where "RIL_REQUEST_SET_REG_SUSPEND_ENABLED \<equiv> 2064"
abbreviation (input) RIL_REQUEST_RESUME_REGISTRATION :: int where "RIL_REQUEST_RESUME_REGISTRATION \<equiv> 2065"
abbreviation (input) RIL_REQUEST_STORE_MODEM_TYPE :: int where "RIL_REQUEST_STORE_MODEM_TYPE \<equiv> 2066"
abbreviation (input) RIL_REQUEST_QUERY_MODEM_TYPE :: int where "RIL_REQUEST_QUERY_MODEM_TYPE \<equiv> 2067"
abbreviation (input) RIL_REQUEST_SIM_INTERFACE_SWITCH :: int where "RIL_REQUEST_SIM_INTERFACE_SWITCH \<equiv> 2068"
abbreviation (input) RIL_REQUEST_UICC_SELECT_APPLICATION :: int where "RIL_REQUEST_UICC_SELECT_APPLICATION \<equiv> 2069"
abbreviation (input) RIL_REQUEST_UICC_DEACTIVATE_APPLICATION :: int where "RIL_REQUEST_UICC_DEACTIVATE_APPLICATION \<equiv> 2070"
abbreviation (input) RIL_REQUEST_UICC_APPLICATION_IO :: int where "RIL_REQUEST_UICC_APPLICATION_IO \<equiv> 2071"
abbreviation (input) RIL_REQUEST_UICC_AKA_AUTHENTICATE :: int where "RIL_REQUEST_UICC_AKA_AUTHENTICATE \<equiv> 2072"
abbreviation (input) RIL_REQUEST_UICC_GBA_AUTHENTICATE_BOOTSTRAP :: int where "RIL_REQUEST_UICC_GBA_AUTHENTICATE_BOOTSTRAP \<equiv> 2073"
abbreviation (input) RIL_REQUEST_UICC_GBA_AUTHENTICATE_NAF :: int where "RIL_REQUEST_UICC_GBA_AUTHENTICATE_NAF \<equiv> 2074"
abbreviation (input) RIL_REQUEST_STK_EVDL_CALL_BY_AP :: int where "RIL_REQUEST_STK_EVDL_CALL_BY_AP \<equiv> 2075"
abbreviation (input) RIL_REQUEST_GET_FEMTOCELL_LIST :: int where "RIL_REQUEST_GET_FEMTOCELL_LIST \<equiv> 2076"
abbreviation (input) RIL_REQUEST_ABORT_FEMTOCELL_LIST :: int where "RIL_REQUEST_ABORT_FEMTOCELL_LIST \<equiv> 2077"
abbreviation (input) RIL_REQUEST_SELECT_FEMTOCELL :: int where "RIL_REQUEST_SELECT_FEMTOCELL \<equiv> 2078"
abbreviation (input) RIL_REQUEST_SEND_OPLMN :: int where "RIL_REQUEST_SEND_OPLMN \<equiv> 2079"
abbreviation (input) RIL_REQUEST_GET_OPLMN_VERSION :: int where "RIL_REQUEST_GET_OPLMN_VERSION \<equiv> 2080"
abbreviation (input) RIL_REQUEST_ABORT_QUERY_AVAILABLE_NETWORKS :: int where "RIL_REQUEST_ABORT_QUERY_AVAILABLE_NETWORKS \<equiv> 2081"
abbreviation (input) RIL_REQUEST_DIAL_UP_CSD :: int where "RIL_REQUEST_DIAL_UP_CSD \<equiv> 2082"
abbreviation (input) RIL_REQUEST_SET_TELEPHONY_MODE :: int where "RIL_REQUEST_SET_TELEPHONY_MODE \<equiv> 2083"
abbreviation (input) RIL_REQUEST_HANGUP_ALL :: int where "RIL_REQUEST_HANGUP_ALL \<equiv> 2084"
abbreviation (input) RIL_REQUEST_FORCE_RELEASE_CALL :: int where "RIL_REQUEST_FORCE_RELEASE_CALL \<equiv> 2085"
abbreviation (input) RIL_REQUEST_SET_CALL_INDICATION :: int where "RIL_REQUEST_SET_CALL_INDICATION \<equiv> 2086"
abbreviation (input) RIL_REQUEST_EMERGENCY_DIAL :: int where "RIL_REQUEST_EMERGENCY_DIAL \<equiv> 2087"
abbreviation (input) RIL_REQUEST_SET_ECC_SERVICE_CATEGORY :: int where "RIL_REQUEST_SET_ECC_SERVICE_CATEGORY \<equiv> 2088"
abbreviation (input) RIL_REQUEST_SET_ECC_LIST :: int where "RIL_REQUEST_SET_ECC_LIST \<equiv> 2089"

section \<open>Unsolicited responses of mtk_ril.h\<close>

abbreviation (input) RIL_UNSOL_NEIGHBORING_CELL_INFO :: int where "RIL_UNSOL_NEIGHBORING_CELL_INFO \<equiv> 3000"
abbreviation (input) RIL_UNSOL_NETWORK_INFO :: int where "RIL_UNSOL_NETWORK_INFO \<equiv> 3001"
abbreviation (input) RIL_UNSOL_PHB_READY_NOTIFICATION :: int where "RIL_UNSOL_PHB_READY_NOTIFICATION \<equiv> 3002"
abbreviation (input) RIL_UNSOL_SIM_INSERTED_STATUS :: int where "RIL_UNSOL_SIM_INSERTED_STATUS \<equiv> 3003"
abbreviation (input) RIL_UNSOL_RADIO_TEMPORARILY_UNAVAILABLE :: int where "RIL_UNSOL_RADIO_TEMPORARILY_UNAVAILABLE \<equiv> 3004"
abbreviation (input) RIL_UNSOL_ME_SMS_STORAGE_FULL :: int where "RIL_UNSOL_ME_SMS_STORAGE_FULL \<equiv> 3005"
abbreviation (input) RIL_UNSOL_SMS_READY_NOTIFICATION :: int where "RIL_UNSOL_SMS_READY_NOTIFICATION \<equiv> 3006"
abbreviation (input) RIL_UNSOL_SCRI_RESULT :: int where "RIL_UNSOL_SCRI_RESULT \<equiv> 3007"
abbreviation (input) RIL_UNSOL_SIM_MISSING :: int where "RIL_UNSOL_SIM_MISSING \<equiv> 3008"
abbreviation (input) RIL_UNSOL_GPRS_DETACH :: int where "RIL_UNSOL_GPRS_DETACH \<equiv> 3009"
abbreviation (input) RIL_UNSOL_ATCI_RESPONSE :: int where "RIL_UNSOL_ATCI_RESPONSE \<equiv> 3010"
abbreviation (input) RIL_UNSOL_SIM_RECOVERY :: int where "RIL_UNSOL_SIM_RECOVERY \<equiv> 3011"
abbreviation (input) RIL_UNSOL_VIRTUAL_SIM_ON :: int where "RIL_UNSOL_VIRTUAL_SIM_ON \<equiv> 3012"
abbreviation (input) RIL_UNSOL_VIRTUAL_SIM_OFF :: int where "RIL_UNSOL_VIRTUAL_SIM_OFF \<equiv> 3013"
abbreviation (input) RIL_UNSOL_INVALID_SIM :: int where "RIL_UNSOL_INVALID_SIM \<equiv> 3014"
abbreviation (input) RIL_UNSOL_RESPONSE_PS_NETWORK_STATE_CHANGED :: int where "RIL_UNSOL_RESPONSE_PS_NETWORK_STATE_CHANGED \<equiv> 3015"
abbreviation (input) RIL_UNSOL_RESPONSE_ACMT :: int where "RIL_UNSOL_RESPONSE_ACMT \<equiv> 3016"
abbreviation (input) RIL_UNSOL_EF_CSP_PLMN_MODE_BIT :: int where "RIL_UNSOL_EF_CSP_PLMN_MODE_BIT \<equiv> 3017"
abbreviation (input) RIL_UNSOL_IMEI_LOCK :: int where "RIL_UNSOL_IMEI_LOCK \<equiv> 3018"
abbreviation (input) RIL_UNSOL_RESPONSE_MMRR_STATUS_CHANGED :: int where "RIL_UNSOL_RESPONSE_MMRR_STATUS_CHANGED \<equiv> 3019"
abbreviation (input) RIL_UNSOL_SIM_PLUG_OUT :: int where "RIL_UNSOL_SIM_PLUG_OUT \<equiv> 3020"
abbreviation (input) RIL_UNSOL_SIM_PLUG_IN :: int where "RIL_UNSOL_SIM_PLUG_IN \<equiv> 3021"
abbreviation (input) RIL_UNSOL_RESPONSE_ETWS_NOTIFICATION :: int where "RIL_UNSOL_RESPONSE_ETWS_NOTIFICATION \<equiv> 3022"
abbreviation (input) RIL_UNSOL_RESPONSE_PLMN_CHANGED :: int where "RIL_UNSOL_RESPONSE_PLMN_CHANGED \<equiv> 3023"
abbreviation (input) RIL_UNSOL_RESPONSE_REGISTRATION_SUSPENDED :: int where "RIL_UNSOL_RESPONSE_REGISTRATION_SUSPENDED \<equiv> 3024"
abbreviation (input) RIL_UNSOL_STK_EVDL_CALL :: int where "RIL_UNSOL_STK_EVDL_CALL \<equiv> 3025"
abbreviation (input) RIL_UNSOL_DATA_PACKETS_FLUSH :: int where "RIL_UNSOL_DATA_PACKETS_FLUSH \<equiv> 3026"
abbreviation (input) RIL_UNSOL_FEMTOCELL_INFO :: int where "RIL_UNSOL_FEMTOCELL_INFO \<equiv> 3027"
abbreviation (input) RIL_UNSOL_STK_SETUP_MENU_RESET :: int where "RIL_UNSOL_STK_SETUP_MENU_RESET \<equiv> 3028"
abbreviation (input) RIL_UNSOL_APPLICATION_SESSION_ID_CHANGED :: int where "RIL_UNSOL_APPLICATION_SESSION_ID_CHANGED \<equiv> 3029"
abbreviation (input) RIL_UNSOL_ECONF_SRVCC_INDICATION :: int where "RIL_UNSOL_ECONF_SRVCC_INDICATION \<equiv> 3030"
abbreviation (input) RIL_UNSOL_IMS_ENABLE_DONE :: int where "RIL_UNSOL_IMS_ENABLE_DONE \<equiv> 3031"
abbreviation (input) RIL_UNSOL_IMS_DISABLE_DONE :: int where "RIL_UNSOL_IMS_DISABLE_DONE \<equiv> 3032"
abbreviation (input) RIL_UNSOL_IMS_REGISTRATION_INFO :: int where "RIL_UNSOL_IMS_REGISTRATION_INFO \<equiv> 3033"
abbreviation (input) RIL_UNSOL_DEDICATE_BEARER_ACTIVATED :: int where "RIL_UNSOL_DEDICATE_BEARER_ACTIVATED \<equiv> 3034"
abbreviation (input) RIL_UNSOL_DEDICATE_BEARER_MODIFIED :: int where "RIL_UNSOL_DEDICATE_BEARER_MODIFIED \<equiv> 3035"
abbreviation (input) RIL_UNSOL_DEDICATE_BEARER_DEACTIVATED :: int where "RIL_UNSOL_DEDICATE_BEARER_DEACTIVATED \<equiv> 3036"
abbreviation (input) RIL_UNSOL_RAC_UPDATE :: int where "RIL_UNSOL_RAC_UPDATE \<equiv> 3037"
abbreviation (input) RIL_UNSOL_ECONF_RESULT_INDICATION :: int where "RIL_UNSOL_ECONF_RESULT_INDICATION \<equiv> 3038"
abbreviation (input) RIL_UNSOL_MELOCK_NOTIFICATION :: int where "RIL_UNSOL_MELOCK_NOTIFICATION \<equiv> 3039"
abbreviation (input) RIL_UNSOL_CALL_FORWARDING :: int where "RIL_UNSOL_CALL_FORWARDING \<equiv> 3040"
abbreviation (input) RIL_UNSOL_CRSS_NOTIFICATION :: int where "RIL_UNSOL_CRSS_NOTIFICATION \<equiv> 3041"
abbreviation (input) RIL_UNSOL_INCOMING_CALL_INDICATION :: int where "RIL_UNSOL_INCOMING_CALL_INDICATION \<equiv> 3042"
abbreviation (input) RIL_UNSOL_CIPHER_INDICATION :: int where "RIL_UNSOL_CIPHER_INDICATION \<equiv> 3043"
abbreviation (input) RIL_UNSOL_CNAP :: int where "RIL_UNSOL_CNAP \<equiv> 3044"
abbreviation (input) RIL_UNSOL_SIM_COMMON_SLOT_NO_CHANGED :: int where "RIL_UNSOL_SIM_COMMON_SLOT_NO_CHANGED \<equiv> 3045"
abbreviation (input) RIL_UNSOL_DATA_ALLOWED :: int where "RIL_UNSOL_DATA_ALLOWED \<equiv> 3046"
abbreviation (input) RIL_UNSOL_STK_CALL_CTRL :: int where "RIL_UNSOL_STK_CALL_CTRL \<equiv> 3047"
abbreviation (input) RIL_UNSOL_VOLTE_EPS_NETWORK_FEATURE_SUPPORT :: int where "RIL_UNSOL_VOLTE_EPS_NETWORK_FEATURE_SUPPORT \<equiv> 3048"
abbreviation (input) RIL_UNSOL_CALL_INFO_INDICATION :: int where "RIL_UNSOL_CALL_INFO_INDICATION \<equiv> 3049"
abbreviation (input) RIL_UNSOL_VOLTE_EPS_NETWORK_FEATURE_INFO :: int where "RIL_UNSOL_VOLTE_EPS_NETWORK_FEATURE_INFO \<equiv> 3050"
abbreviation (input) RIL_UNSOL_SRVCC_HANDOVER_INFO_INDICATION :: int where "RIL_UNSOL_SRVCC_HANDOVER_INFO_INDICATION \<equiv> 3051"
abbreviation (input) RIL_UNSOL_SPEECH_CODEC_INFO :: int where "RIL_UNSOL_SPEECH_CODEC_INFO \<equiv> 3052"
abbreviation (input) RIL_UNSOL_MD_STATE_CHANGE :: int where "RIL_UNSOL_MD_STATE_CHANGE \<equiv> 3053"
abbreviation (input) RIL_UNSOL_REMOVE_RESTRICT_EUTRAN :: int where "RIL_UNSOL_REMOVE_RESTRICT_EUTRAN \<equiv> 3054"
abbreviation (input) RIL_UNSOL_MO_DATA_BARRING_INFO :: int where "RIL_UNSOL_MO_DATA_BARRING_INFO \<equiv> 3055"
abbreviation (input) RIL_UNSOL_SSAC_BARRING_INFO :: int where "RIL_UNSOL_SSAC_BARRING_INFO \<equiv> 3056"
abbreviation (input) RIL_UNSOL_SIP_CALL_PROGRESS_INDICATOR :: int where "RIL_UNSOL_SIP_CALL_PROGRESS_INDICATOR \<equiv> 3057"
abbreviation (input) RIL_UNSOL_ABNORMAL_EVENT :: int where "RIL_UNSOL_ABNORMAL_EVENT \<equiv> 3058"
abbreviation (input) RIL_UNSOL_EMERGENCY_BEARER_SUPPORT_NOTIFY :: int where "RIL_UNSOL_EMERGENCY_BEARER_SUPPORT_NOTIFY \<equiv> 3059"
abbreviation (input) RIL_UNSOL_INTER_3GPP_IRAT_STATE_CHANGE :: int where "RIL_UNSOL_INTER_3GPP_IRAT_STATE_CHANGE \<equiv> 3060"
abbreviation (input) RIL_UNSOL_LTE_BG_SEARCH_STATUS :: int where "RIL_UNSOL_LTE_BG_SEARCH_STATUS \<equiv> 3061"
abbreviation (input) RIL_UNSOL_GMSS_RAT_CHANGED :: int where "RIL_UNSOL_GMSS_RAT_CHANGED \<equiv> 3062"
abbreviation (input) RIL_UNSOL_CDMA_CARD_TYPE :: int where "RIL_UNSOL_CDMA_CARD_TYPE \<equiv> 3063"
abbreviation (input) RIL_UNSOL_IMS_ENABLE_START :: int where "RIL_UNSOL_IMS_ENABLE_START \<equiv> 3064"
abbreviation (input) RIL_UNSOL_IMS_DISABLE_START :: int where "RIL_UNSOL_IMS_DISABLE_START \<equiv> 3065"
abbreviation (input) RIL_UNSOL_IMSI_REFRESH_DONE :: int where "RIL_UNSOL_IMSI_REFRESH_DONE \<equiv> 3066"
abbreviation (input) RIL_UNSOL_EUSIM_READY :: int where "RIL_UNSOL_EUSIM_READY \<equiv> 3067"
abbreviation (input) RIL_UNSOL_STK_BIP_PROACTIVE_COMMAND :: int where "RIL_UNSOL_STK_BIP_PROACTIVE_COMMAND \<equiv> 3068"
abbreviation (input) RIL_UNSOL_WORLD_MODE_CHANGED :: int where "RIL_UNSOL_WORLD_MODE_CHANGED \<equiv> 3069"
abbreviation (input) RIL_UNSOL_VT_STATUS_INFO :: int where "RIL_UNSOL_VT_STATUS_INFO \<equiv> 3070"
abbreviation (input) RIL_UNSOL_VT_RING_INFO :: int where "RIL_UNSOL_VT_RING_INFO \<equiv> 3071"
abbreviation (input) RIL_UNSOL_VSIM_OPERATION_INDICATION :: int where "RIL_UNSOL_VSIM_OPERATION_INDICATION \<equiv> 3072"
abbreviation (input) RIL_UNSOL_SET_ATTACH_APN :: int where "RIL_UNSOL_SET_ATTACH_APN \<equiv> 3073"
abbreviation (input) RIL_UNSOL_MAL_AT_INFO :: int where "RIL_UNSOL_MAL_AT_INFO \<equiv> 3074"
abbreviation (input) RIL_UNSOL_MAIN_SIM_INFO :: int where "RIL_UNSOL_MAIN_SIM_INFO \<equiv> 3075"

section \<open>Errors\<close>

abbreviation (input) RIL_E_SUCCESS :: int where "RIL_E_SUCCESS \<equiv> 0"
abbreviation (input) RIL_E_RADIO_NOT_AVAILABLE :: int where "RIL_E_RADIO_NOT_AVAILABLE \<equiv> 1"
abbreviation (input) RIL_E_GENERIC_FAILURE :: int where "RIL_E_GENERIC_FAILURE \<equiv> 2"
abbreviation (input) RIL_E_PASSWORD_INCORRECT :: int where "RIL_E_PASSWORD_INCORRECT \<equiv> 3"
abbreviation (input) RIL_E_SIM_PIN2 :: int where "RIL_E_SIM_PIN2 \<equiv> 4"
abbreviation (input) RIL_E_SIM_PUK2 :: int where "RIL_E_SIM_PUK2 \<equiv> 5"
abbreviation (input) RIL_E_REQUEST_NOT_SUPPORTED :: int where "RIL_E_REQUEST_NOT_SUPPORTED \<equiv> 6"
abbreviation (input) RIL_E_CANCELLED :: int where "RIL_E_CANCELLED \<equiv> 7"
abbreviation (input) RIL_E_OP_NOT_ALLOWED_DURING_VOICE_CALL :: int where "RIL_E_OP_NOT_ALLOWED_DURING_VOICE_CALL \<equiv> 8"
abbreviation (input) RIL_E_OP_NOT_ALLOWED_BEFORE_REG_TO_NW :: int where "RIL_E_OP_NOT_ALLOWED_BEFORE_REG_TO_NW \<equiv> 9"
abbreviation (input) RIL_E_SMS_SEND_FAIL_RETRY :: int where "RIL_E_SMS_SEND_FAIL_RETRY \<equiv> 10"
abbreviation (input) RIL_E_SIM_ABSENT :: int where "RIL_E_SIM_ABSENT \<equiv> 11"
abbreviation (input) RIL_E_ILLEGAL_SIM_OR_ME :: int where "RIL_E_ILLEGAL_SIM_OR_ME \<equiv> 15"
abbreviation (input) RIL_E_FDN_CHECK_FAILURE :: int where "RIL_E_FDN_CHECK_FAILURE \<equiv> 14"
abbreviation (input) RIL_E_MISSING_RESOURCE :: int where "RIL_E_MISSING_RESOURCE \<equiv> 16"
abbreviation (input) RIL_E_NO_SUCH_ELEMENT :: int where "RIL_E_NO_SUCH_ELEMENT \<equiv> 17"
abbreviation (input) RIL_E_DIAL_MODIFIED_TO_USSD :: int where "RIL_E_DIAL_MODIFIED_TO_USSD \<equiv> 18"
abbreviation (input) RIL_E_DIAL_MODIFIED_TO_SS :: int where "RIL_E_DIAL_MODIFIED_TO_SS \<equiv> 19"
abbreviation (input) RIL_E_DIAL_MODIFIED_TO_DIAL :: int where "RIL_E_DIAL_MODIFIED_TO_DIAL \<equiv> 20"
abbreviation (input) RIL_E_USSD_MODIFIED_TO_DIAL :: int where "RIL_E_USSD_MODIFIED_TO_DIAL \<equiv> 21"
abbreviation (input) RIL_E_USSD_MODIFIED_TO_SS :: int where "RIL_E_USSD_MODIFIED_TO_SS \<equiv> 22"
abbreviation (input) RIL_E_USSD_MODIFIED_TO_USSD :: int where "RIL_E_USSD_MODIFIED_TO_USSD \<equiv> 23"
abbreviation (input) RIL_E_SS_MODIFIED_TO_DIAL :: int where "RIL_E_SS_MODIFIED_TO_DIAL \<equiv> 24"
abbreviation (input) RIL_E_SS_MODIFIED_TO_USSD :: int where "RIL_E_SS_MODIFIED_TO_USSD \<equiv> 25"
abbreviation (input) RIL_E_SUBSCRIPTION_NOT_SUPPORTED :: int where "RIL_E_SUBSCRIPTION_NOT_SUPPORTED \<equiv> 26"
abbreviation (input) RIL_E_SS_MODIFIED_TO_SS :: int where "RIL_E_SS_MODIFIED_TO_SS \<equiv> 27"
abbreviation (input) RIL_E_LCE_NOT_SUPPORTED :: int where "RIL_E_LCE_NOT_SUPPORTED \<equiv> 36"
abbreviation (input) RIL_E_NO_MEMORY :: int where "RIL_E_NO_MEMORY \<equiv> 37"
abbreviation (input) RIL_E_INTERNAL_ERR :: int where "RIL_E_INTERNAL_ERR \<equiv> 38"
abbreviation (input) RIL_E_SYSTEM_ERR :: int where "RIL_E_SYSTEM_ERR \<equiv> 39"
abbreviation (input) RIL_E_MODEM_ERR :: int where "RIL_E_MODEM_ERR \<equiv> 40"
abbreviation (input) RIL_E_INVALID_STATE :: int where "RIL_E_INVALID_STATE \<equiv> 41"
abbreviation (input) RIL_E_NO_RESOURCES :: int where "RIL_E_NO_RESOURCES \<equiv> 42"
abbreviation (input) RIL_E_SIM_ERR :: int where "RIL_E_SIM_ERR \<equiv> 43"
abbreviation (input) RIL_E_INVALID_ARGUMENTS :: int where "RIL_E_INVALID_ARGUMENTS \<equiv> 44"
abbreviation (input) RIL_E_INVALID_SIM_STATE :: int where "RIL_E_INVALID_SIM_STATE \<equiv> 45"
abbreviation (input) RIL_E_INVALID_MODEM_STATE :: int where "RIL_E_INVALID_MODEM_STATE \<equiv> 46"
abbreviation (input) RIL_E_INVALID_CALL_ID :: int where "RIL_E_INVALID_CALL_ID \<equiv> 47"
abbreviation (input) RIL_E_NO_SMS_TO_ACK :: int where "RIL_E_NO_SMS_TO_ACK \<equiv> 48"
abbreviation (input) RIL_E_NETWORK_ERR :: int where "RIL_E_NETWORK_ERR \<equiv> 49"
abbreviation (input) RIL_E_REQUEST_RATE_LIMITED :: int where "RIL_E_REQUEST_RATE_LIMITED \<equiv> 50"
abbreviation (input) RIL_E_SIM_BUSY :: int where "RIL_E_SIM_BUSY \<equiv> 51"
abbreviation (input) RIL_E_SIM_FULL :: int where "RIL_E_SIM_FULL \<equiv> 52"
abbreviation (input) RIL_E_NETWORK_REJECT :: int where "RIL_E_NETWORK_REJECT \<equiv> 53"
abbreviation (input) RIL_E_OPERATION_NOT_ALLOWED :: int where "RIL_E_OPERATION_NOT_ALLOWED \<equiv> 54"
abbreviation (input) RIL_E_EMPTY_RECORD :: int where "RIL_E_EMPTY_RECORD \<equiv> 55"
abbreviation (input) RIL_E_INVALID_SMS_FORMAT :: int where "RIL_E_INVALID_SMS_FORMAT \<equiv> 56"
abbreviation (input) RIL_E_ENCODING_ERR :: int where "RIL_E_ENCODING_ERR \<equiv> 57"
abbreviation (input) RIL_E_INVALID_SMSC_ADDRESS :: int where "RIL_E_INVALID_SMSC_ADDRESS \<equiv> 58"
abbreviation (input) RIL_E_NO_SUCH_ENTRY :: int where "RIL_E_NO_SUCH_ENTRY \<equiv> 59"
abbreviation (input) RIL_E_NETWORK_NOT_READY :: int where "RIL_E_NETWORK_NOT_READY \<equiv> 60"
abbreviation (input) RIL_E_NOT_PROVISIONED :: int where "RIL_E_NOT_PROVISIONED \<equiv> 61"
abbreviation (input) RIL_E_NO_SUBSCRIPTION :: int where "RIL_E_NO_SUBSCRIPTION \<equiv> 62"
abbreviation (input) RIL_E_NO_NETWORK_FOUND :: int where "RIL_E_NO_NETWORK_FOUND \<equiv> 63"
abbreviation (input) RIL_E_DEVICE_IN_USE :: int where "RIL_E_DEVICE_IN_USE \<equiv> 64"
abbreviation (input) RIL_E_ABORTED :: int where "RIL_E_ABORTED \<equiv> 65"
abbreviation (input) RIL_E_INVALID_RESPONSE :: int where "RIL_E_INVALID_RESPONSE \<equiv> 66"
abbreviation (input) RIL_E_OEM_ERROR_1 :: int where "RIL_E_OEM_ERROR_1 \<equiv> 501"
abbreviation (input) RIL_E_OEM_ERROR_2 :: int where "RIL_E_OEM_ERROR_2 \<equiv> 502"
abbreviation (input) RIL_E_OEM_ERROR_3 :: int where "RIL_E_OEM_ERROR_3 \<equiv> 503"
abbreviation (input) RIL_E_OEM_ERROR_4 :: int where "RIL_E_OEM_ERROR_4 \<equiv> 504"
abbreviation (input) RIL_E_OEM_ERROR_5 :: int where "RIL_E_OEM_ERROR_5 \<equiv> 505"
abbreviation (input) RIL_E_OEM_ERROR_6 :: int where "RIL_E_OEM_ERROR_6 \<equiv> 506"
abbreviation (input) RIL_E_OEM_ERROR_7 :: int where "RIL_E_OEM_ERROR_7 \<equiv> 507"
abbreviation (input) RIL_E_OEM_ERROR_8 :: int where "RIL_E_OEM_ERROR_8 \<equiv> 508"
abbreviation (input) RIL_E_OEM_ERROR_9 :: int where "RIL_E_OEM_ERROR_9 \<equiv> 509"
abbreviation (input) RIL_E_OEM_ERROR_10 :: int where "RIL_E_OEM_ERROR_10 \<equiv> 510"
abbreviation (input) RIL_E_OEM_ERROR_11 :: int where "RIL_E_OEM_ERROR_11 \<equiv> 511"
abbreviation (input) RIL_E_OEM_ERROR_12 :: int where "RIL_E_OEM_ERROR_12 \<equiv> 512"
abbreviation (input) RIL_E_OEM_ERROR_13 :: int where "RIL_E_OEM_ERROR_13 \<equiv> 513"
abbreviation (input) RIL_E_OEM_ERROR_14 :: int where "RIL_E_OEM_ERROR_14 \<equiv> 514"
abbreviation (input) RIL_E_OEM_ERROR_15 :: int where "RIL_E_OEM_ERROR_15 \<equiv> 515"
abbreviation (input) RIL_E_OEM_ERROR_16 :: int where "RIL_E_OEM_ERROR_16 \<equiv> 516"
abbreviation (input) RIL_E_OEM_ERROR_17 :: int where "RIL_E_OEM_ERROR_17 \<equiv> 517"
abbreviation (input) RIL_E_OEM_ERROR_18 :: int where "RIL_E_OEM_ERROR_18 \<equiv> 518"
abbreviation (input) RIL_E_OEM_ERROR_19 :: int where "RIL_E_OEM_ERROR_19 \<equiv> 519"
abbreviation (input) RIL_E_OEM_ERROR_20 :: int where "RIL_E_OEM_ERROR_20 \<equiv> 520"
abbreviation (input) RIL_E_OEM_ERROR_21 :: int where "RIL_E_OEM_ERROR_21 \<equiv> 521"
abbreviation (input) RIL_E_OEM_ERROR_22 :: int where "RIL_E_OEM_ERROR_22 \<equiv> 522"
abbreviation (input) RIL_E_OEM_ERROR_23 :: int where "RIL_E_OEM_ERROR_23 \<equiv> 523"
abbreviation (input) RIL_E_OEM_ERROR_24 :: int where "RIL_E_OEM_ERROR_24 \<equiv> 524"
abbreviation (input) RIL_E_OEM_ERROR_25 :: int where "RIL_E_OEM_ERROR_25 \<equiv> 525"

end
