(* ===== verification/RilTables.thy ===== *)
theory RilTables
  imports RilMacros
begin

text \<open>
  The tables of libril: the command table \<open>s_commands\<close> (\<open>ril_commands.h\<close>), the table of unsolicited
  responses (\<open>ril_unsol_commands.h\<close>), the self-check both registration functions run over them, and
  the naming functions at the end of \<open>ril.cpp\<close>.

  Request numbers and errors are written with the macros of theory \<open>RilMacros\<close>. The second part of the unsolicited table,
  \<open>mtk_ril_unsol_commands.h\<close>, belongs to the vendor tree and is an argument wherever it matters.
\<close>

section \<open>Channels\<close>

definition RIL_URC :: int where "RIL_URC = 0"
definition RIL_CMD_1 :: int where "RIL_CMD_1 = 1"
definition RIL_CMD_2 :: int where "RIL_CMD_2 = 2"
definition RIL_CMD_3 :: int where "RIL_CMD_3 = 3"
definition RIL_CMD_4 :: int where "RIL_CMD_4 = 4"
definition RIL_ATCI :: int where "RIL_ATCI = 5"
definition RIL_CHANNEL_OFFSET :: int where "RIL_CHANNEL_OFFSET = 6"

definition RIL_CMD_PROXY_1 :: int where "RIL_CMD_PROXY_1 = RIL_CMD_3"
definition RIL_CMD_PROXY_2 :: int where "RIL_CMD_PROXY_2 = RIL_CMD_2"
definition RIL_CMD_PROXY_3 :: int where "RIL_CMD_PROXY_3 = RIL_CMD_1"
definition RIL_CMD_PROXY_4 :: int where "RIL_CMD_PROXY_4 = RIL_URC"
definition RIL_CMD_PROXY_5 :: int where "RIL_CMD_PROXY_5 = RIL_CMD_4"
definition RIL_CMD_PROXY_6 :: int where "RIL_CMD_PROXY_6 = RIL_ATCI"

lemmas channel_defs =
  RIL_URC_def RIL_CMD_1_def RIL_CMD_2_def RIL_CMD_3_def RIL_CMD_4_def RIL_ATCI_def RIL_CHANNEL_OFFSET_def
  RIL_CMD_PROXY_1_def RIL_CMD_PROXY_2_def RIL_CMD_PROXY_3_def RIL_CMD_PROXY_4_def RIL_CMD_PROXY_5_def RIL_CMD_PROXY_6_def

definition RIL_REQUEST_VENDOR_BASE :: int where "RIL_REQUEST_VENDOR_BASE = 2000"
definition RIL_UNSOL_RESPONSE_BASE :: int where "RIL_UNSOL_RESPONSE_BASE = 1000"
definition RIL_UNSOL_VENDOR_BASE :: int where "RIL_UNSOL_VENDOR_BASE = 3000"

lemmas base_defs = RIL_REQUEST_VENDOR_BASE_def RIL_UNSOL_RESPONSE_BASE_def RIL_UNSOL_VENDOR_BASE_def

section \<open>Command and response tables\<close>

record command_info =
  requestNumber :: int
  responseFunction :: "string option"
  proxyId :: int

definition cmd :: "int \<Rightarrow> string option \<Rightarrow> int \<Rightarrow> command_info" where
  "cmd n f p = \<lparr>requestNumber = n, responseFunction = f, proxyId = p\<rparr>"

datatype wake_type = DONT_WAKE | WAKE_PARTIAL

record unsol_info =
  unsolNumber :: int
  indFunction :: "string option"
  wakeType :: wake_type

definition unsol :: "int \<Rightarrow> string option \<Rightarrow> wake_type \<Rightarrow> unsol_info" where
  "unsol n f w = \<lparr>unsolNumber = n, indFunction = f, wakeType = w\<rparr>"

text \<open>
  The table of \<open>ril_commands.h\<close>, entry by entry; a response function is named.
\<close>

definition s_commands :: "command_info list" where
  "s_commands = [
     cmd 0 None RIL_CMD_PROXY_3,
     cmd RIL_REQUEST_GET_SIM_STATUS (Some ''getIccCardStatusResponse'') RIL_CMD_PROXY_1,
     cmd RIL_REQUEST_ENTER_SIM_PIN (Some ''supplyIccPinForAppResponse'') RIL_CMD_PROXY_1,
     cmd RIL_REQUEST_ENTER_SIM_PUK (Some ''supplyIccPukForAppResponse'') RIL_CMD_PROXY_1,
     cmd RIL_REQUEST_ENTER_SIM_PIN2 (Some ''supplyIccPin2ForAppResponse'') RIL_CMD_PROXY_1,
     cmd RIL_REQUEST_ENTER_SIM_PUK2 (Some ''supplyIccPuk2ForAppResponse'') RIL_CMD_PROXY_1,
     cmd RIL_REQUEST_CHANGE_SIM_PIN (Some ''changeIccPinForAppResponse'') RIL_CMD_PROXY_1,
     cmd RIL_REQUEST_CHANGE_SIM_PIN2 (Some ''changeIccPin2ForAppResponse'') RIL_CMD_PROXY_1,
     cmd RIL_REQUEST_ENTER_NETWORK_DEPERSONALIZATION (Some ''supplyNetworkDepersonalizationResponse'') RIL_CMD_PROXY_1,
     cmd RIL_REQUEST_GET_CURRENT_CALLS (Some ''getCurrentCallsResponse'') RIL_CMD_PROXY_2,
     cmd RIL_REQUEST_DIAL (Some ''dialResponse'') RIL_CMD_PROXY_2,
     cmd RIL_REQUEST_GET_IMSI (Some ''getIMSIForAppResponse'') RIL_CMD_PROXY_1,
     cmd RIL_REQUEST_HANGUP (Some ''hangupConnectionResponse'') RIL_CMD_PROXY_4,
     cmd RIL_REQUEST_HANGUP_WAITING_OR_BACKGROUND (Some ''hangupWaitingOrBackgroundResponse'') RIL_CMD_PROXY_4,
     cmd RIL_REQUEST_HANGUP_FOREGROUND_RESUME_BACKGROUND (Some ''hangupForegroundResumeBackgroundResponse'') RIL_CMD_PROXY_4,
     cmd RIL_REQUEST_SWITCH_WAITING_OR_HOLDING_AND_ACTIVE (Some ''switchWaitingOrHoldingAndActiveResponse'') RIL_CMD_PROXY_4,
     cmd RIL_REQUEST_CONFERENCE (Some ''conferenceResponse'') RIL_CMD_PROXY_4,
     cmd RIL_REQUEST_UDUB (Some ''rejectCallResponse'') RIL_CMD_PROXY_2,
     cmd RIL_REQUEST_LAST_CALL_FAIL_CAUSE (Some ''getLastCallFailCauseResponse'') RIL_CMD_PROXY_2,
     cmd RIL_REQUEST_SIGNAL_STRENGTH (Some ''getSignalStrengthResponse'') RIL_CMD_PROXY_3,
     cmd RIL_REQUEST_VOICE_REGISTRATION_STATE (Some ''getVoiceRegistrationStateResponse'') RIL_CMD_PROXY_3,
     cmd RIL_REQUEST_DATA_REGISTRATION_STATE (Some ''getDataRegistrationStateResponse'') RIL_CMD_PROXY_3,
     cmd RIL_REQUEST_OPERATOR (Some ''getOperatorResponse'') RIL_CMD_PROXY_3,
     cmd RIL_REQUEST_RADIO_POWER (Some ''setRadioPowerResponse'') RIL_CMD_PROXY_1,
     cmd RIL_REQUEST_DTMF (Some ''sendDtmfResponse'') RIL_CMD_PROXY_2,
     cmd RIL_REQUEST_SEND_SMS (Some ''sendSmsResponse'') RIL_CMD_PROXY_1,
     cmd RIL_REQUEST_SEND_SMS_EXPECT_MORE (Some ''sendSMSExpectMoreResponse'') RIL_CMD_PROXY_1,
     cmd RIL_REQUEST_SETUP_DATA_CALL (Some ''setupDataCallResponse'') RIL_CMD_PROXY_5,
     cmd RIL_REQUEST_SIM_IO (Some ''iccIOForAppResponse'') RIL_CMD_PROXY_1,
     cmd RIL_REQUEST_SEND_USSD (Some ''sendUssdResponse'') RIL_CMD_PROXY_2,
     cmd RIL_REQUEST_CANCEL_USSD (Some ''cancelPendingUssdResponse'') RIL_CMD_PROXY_2,
     cmd RIL_REQUEST_GET_CLIR (Some ''getClirResponse'') RIL_CMD_PROXY_2,
     cmd RIL_REQUEST_SET_CLIR (Some ''setClirResponse'') RIL_CMD_PROXY_2,
     cmd RIL_REQUEST_QUERY_CALL_FORWARD_STATUS (Some ''getCallForwardStatusResponse'') RIL_CMD_PROXY_1,
     cmd RIL_REQUEST_SET_CALL_FORWARD (Some ''setCallForwardResponse'') RIL_CMD_PROXY_2,
     cmd RIL_REQUEST_QUERY_CALL_WAITING (Some ''getCallWaitingResponse'') RIL_CMD_PROXY_1,
     cmd RIL_REQUEST_SET_CALL_WAITING (Some ''setCallWaitingResponse'') RIL_CMD_PROXY_2,
     cmd RIL_REQUEST_SMS_ACKNOWLEDGE (Some ''acknowledgeLastIncomingGsmSmsResponse'') RIL_CMD_PROXY_2,
     cmd RIL_REQUEST_GET_IMEI None RIL_CMD_PROXY_3,
     cmd RIL_REQUEST_GET_IMEISV None RIL_CMD_PROXY_3,
     cmd RIL_REQUEST_ANSWER (Some ''acceptCallResponse'') RIL_CMD_PROXY_2,
     cmd RIL_REQUEST_DEACTIVATE_DATA_CALL (Some ''deactivateDataCallResponse'') RIL_CMD_PROXY_5,
     cmd RIL_REQUEST_QUERY_FACILITY_LOCK (Some ''getFacilityLockForAppResponse'') RIL_CMD_PROXY_1,
     cmd RIL_REQUEST_SET_FACILITY_LOCK (Some ''setFacilityLockForAppResponse'') RIL_CMD_PROXY_1,
     cmd RIL_REQUEST_CHANGE_BARRING_PASSWORD (Some ''setBarringPasswordResponse'') RIL_CMD_PROXY_2,
     cmd RIL_REQUEST_QUERY_NETWORK_SELECTION_MODE (Some ''getNetworkSelectionModeResponse'') RIL_CMD_PROXY_3,
     cmd RIL_REQUEST_SET_NETWORK_SELECTION_AUTOMATIC (Some ''setNetworkSelectionModeAutomaticResponse'') RIL_CMD_PROXY_3,
     cmd RIL_REQUEST_SET_NETWORK_SELECTION_MANUAL (Some ''setNetworkSelectionModeManualResponse'') RIL_CMD_PROXY_3,
     cmd RIL_REQUEST_QUERY_AVAILABLE_NETWORKS (Some ''getAvailableNetworksResponse'') RIL_CMD_PROXY_3,
     cmd RIL_REQUEST_DTMF_START (Some ''startDtmfResponse'') RIL_CMD_PROXY_2,
     cmd RIL_REQUEST_DTMF_STOP (Some ''stopDtmfResponse'') RIL_CMD_PROXY_2,
     cmd RIL_REQUEST_BASEBAND_VERSION (Some ''getBasebandVersionResponse'') RIL_CMD_PROXY_3,
     cmd RIL_REQUEST_SEPARATE_CONNECTION (Some ''separateConnectionResponse'') RIL_CMD_PROXY_4,
     cmd RIL_REQUEST_SET_MUTE (Some ''setMuteResponse'') RIL_CMD_PROXY_2,
     cmd RIL_REQUEST_GET_MUTE (Some ''getMuteResponse'') RIL_CMD_PROXY_2,
     cmd RIL_REQUEST_QUERY_CLIP (Some ''getClipResponse'') RIL_CMD_PROXY_2,
     cmd RIL_REQUEST_LAST_DATA_CALL_FAIL_CAUSE None RIL_CMD_PROXY_5,
     cmd RIL_REQUEST_DATA_CALL_LIST (Some ''getDataCallListResponse'') RIL_CMD_PROXY_5,
     cmd RIL_REQUEST_RESET_RADIO None RIL_CMD_PROXY_1,
     cmd RIL_REQUEST_OEM_HOOK_RAW (Some ''sendRequestRawResponse'') RIL_CMD_PROXY_6,
     cmd RIL_REQUEST_OEM_HOOK_STRINGS (Some ''sendRequestStringsResponse'') RIL_CMD_PROXY_3,
     cmd RIL_REQUEST_SCREEN_STATE (Some ''sendDeviceStateResponse'') RIL_CMD_PROXY_3,
     cmd RIL_REQUEST_SET_SUPP_SVC_NOTIFICATION (Some ''setSuppServiceNotificationsResponse'') RIL_CMD_PROXY_2,
     cmd RIL_REQUEST_WRITE_SMS_TO_SIM (Some ''writeSmsToSimResponse'') RIL_CMD_PROXY_1,
     cmd RIL_REQUEST_DELETE_SMS_ON_SIM (Some ''deleteSmsOnSimResponse'') RIL_CMD_PROXY_1,
     cmd RIL_REQUEST_SET_BAND_MODE (Some ''setBandModeResponse'') RIL_CMD_PROXY_3,
     cmd RIL_REQUEST_QUERY_AVAILABLE_BAND_MODE (Some ''getAvailableBandModesResponse'') RIL_CMD_PROXY_3,
     cmd RIL_REQUEST_STK_GET_PROFILE None RIL_CMD_PROXY_1,
     cmd RIL_REQUEST_STK_SET_PROFILE None RIL_CMD_PROXY_1,
     cmd RIL_REQUEST_STK_SEND_ENVELOPE_COMMAND (Some ''sendEnvelopeResponse'') RIL_CMD_PROXY_1,
     cmd RIL_REQUEST_STK_SEND_TERMINAL_RESPONSE (Some ''sendTerminalResponseToSimResponse'') RIL_CMD_PROXY_1,
     cmd RIL_REQUEST_STK_HANDLE_CALL_SETUP_REQUESTED_FROM_SIM (Some ''handleStkCallSetupRequestFromSimResponse'') RIL_CMD_PROXY_1,
     cmd RIL_REQUEST_EXPLICIT_CALL_TRANSFER (Some ''explicitCallTransferResponse'') RIL_CMD_PROXY_2,
     cmd RIL_REQUEST_SET_PREFERRED_NETWORK_TYPE (Some ''setPreferredNetworkTypeResponse'') RIL_CMD_PROXY_1,
     cmd RIL_REQUEST_GET_PREFERRED_NETWORK_TYPE (Some ''getPreferredNetworkTypeResponse'') RIL_CMD_PROXY_1,
     cmd RIL_REQUEST_GET_NEIGHBORING_CELL_IDS (Some ''getNeighboringCidsResponse'') RIL_CMD_PROXY_4,
     cmd RIL_REQUEST_SET_LOCATION_UPDATES (Some ''setLocationUpdatesResponse'') RIL_CMD_PROXY_3,
     cmd RIL_REQUEST_CDMA_SET_SUBSCRIPTION_SOURCE (Some ''setCdmaSubscriptionSourceResponse'') RIL_CMD_PROXY_3,
     cmd RIL_REQUEST_CDMA_SET_ROAMING_PREFERENCE (Some ''setCdmaRoamingPreferenceResponse'') RIL_CMD_PROXY_3,
     cmd RIL_REQUEST_CDMA_QUERY_ROAMING_PREFERENCE (Some ''getCdmaRoamingPreferenceResponse'') RIL_CMD_PROXY_3,
     cmd RIL_REQUEST_SET_TTY_MODE (Some ''setTTYModeResponse'') RIL_CMD_PROXY_3,
     cmd RIL_REQUEST_QUERY_TTY_MODE (Some ''getTTYModeResponse'') RIL_CMD_PROXY_3,
     cmd RIL_REQUEST_CDMA_SET_PREFERRED_VOICE_PRIVACY_MODE (Some ''setPreferredVoicePrivacyResponse'') RIL_CMD_PROXY_2,
     cmd RIL_REQUEST_CDMA_QUERY_PREFERRED_VOICE_PRIVACY_MODE (Some ''getPreferredVoicePrivacyResponse'') RIL_CMD_PROXY_2,
     cmd RIL_REQUEST_CDMA_FLASH (Some ''sendCDMAFeatureCodeResponse'') RIL_CMD_PROXY_2,
     cmd RIL_REQUEST_CDMA_BURST_DTMF (Some ''sendBurstDtmfResponse'') RIL_CMD_PROXY_2,
     cmd RIL_REQUEST_CDMA_VALIDATE_AND_WRITE_AKEY None RIL_CMD_PROXY_2,
     cmd RIL_REQUEST_CDMA_SEND_SMS (Some ''sendCdmaSmsResponse'') RIL_CMD_PROXY_1,
     cmd RIL_REQUEST_CDMA_SMS_ACKNOWLEDGE (Some ''acknowledgeLastIncomingCdmaSmsResponse'') RIL_CMD_PROXY_1,
     cmd RIL_REQUEST_GSM_GET_BROADCAST_SMS_CONFIG (Some ''getGsmBroadcastConfigResponse'') RIL_CMD_PROXY_2,
     cmd RIL_REQUEST_GSM_SET_BROADCAST_SMS_CONFIG (Some ''setGsmBroadcastConfigResponse'') RIL_CMD_PROXY_1,
     cmd RIL_REQUEST_GSM_SMS_BROADCAST_ACTIVATION (Some ''setGsmBroadcastActivationResponse'') RIL_CMD_PROXY_1,
     cmd RIL_REQUEST_CDMA_GET_BROADCAST_SMS_CONFIG (Some ''getCdmaBroadcastConfigResponse'') RIL_CMD_PROXY_1,
     cmd RIL_REQUEST_CDMA_SET_BROADCAST_SMS_CONFIG (Some ''setCdmaBroadcastConfigResponse'') RIL_CMD_PROXY_1,
     cmd RIL_REQUEST_CDMA_SMS_BROADCAST_ACTIVATION (Some ''setCdmaBroadcastActivationResponse'') RIL_CMD_PROXY_1,
     cmd RIL_REQUEST_CDMA_SUBSCRIPTION (Some ''getCDMASubscriptionResponse'') RIL_CMD_PROXY_1,
     cmd RIL_REQUEST_CDMA_WRITE_SMS_TO_RUIM (Some ''writeSmsToRuimResponse'') RIL_CMD_PROXY_1,
     cmd RIL_REQUEST_CDMA_DELETE_SMS_ON_RUIM (Some ''deleteSmsOnRuimResponse'') RIL_CMD_PROXY_1,
     cmd RIL_REQUEST_DEVICE_IDENTITY (Some ''getDeviceIdentityResponse'') RIL_CMD_PROXY_3,
     cmd RIL_REQUEST_EXIT_EMERGENCY_CALLBACK_MODE (Some ''exitEmergencyCallbackModeResponse'') RIL_CMD_PROXY_2,
     cmd RIL_REQUEST_GET_SMSC_ADDRESS (Some ''getSmscAddressResponse'') RIL_CMD_PROXY_2,
     cmd RIL_REQUEST_SET_SMSC_ADDRESS (Some ''setSmscAddressResponse'') RIL_CMD_PROXY_2,
     cmd RIL_REQUEST_REPORT_SMS_MEMORY_STATUS (Some ''reportSmsMemoryStatusResponse'') RIL_CMD_PROXY_1,
     cmd RIL_REQUEST_REPORT_STK_SERVICE_IS_RUNNING (Some ''reportStkServiceIsRunningResponse'') RIL_CMD_PROXY_1,
     cmd RIL_REQUEST_CDMA_GET_SUBSCRIPTION_SOURCE (Some ''getCdmaSubscriptionSourceResponse'') RIL_CMD_PROXY_1,
     cmd RIL_REQUEST_ISIM_AUTHENTICATION (Some ''requestIsimAuthenticationResponse'') RIL_CMD_PROXY_1,
     cmd RIL_REQUEST_ACKNOWLEDGE_INCOMING_GSM_SMS_WITH_PDU (Some ''acknowledgeIncomingGsmSmsWithPduResponse'') RIL_CMD_PROXY_1,
     cmd RIL_REQUEST_STK_SEND_ENVELOPE_WITH_STATUS (Some ''sendEnvelopeWithStatusResponse'') RIL_CMD_PROXY_2,
     cmd RIL_REQUEST_VOICE_RADIO_TECH (Some ''getVoiceRadioTechnologyResponse'') RIL_CMD_PROXY_3,
     cmd RIL_REQUEST_GET_CELL_INFO_LIST (Some ''getCellInfoListResponse'') RIL_CMD_PROXY_2,
     cmd RIL_REQUEST_SET_UNSOL_CELL_INFO_LIST_RATE (Some ''setCellInfoListRateResponse'') RIL_CMD_PROXY_3,
     cmd RIL_REQUEST_SET_INITIAL_ATTACH_APN (Some ''setInitialAttachApnResponse'') RIL_CMD_PROXY_1,
     cmd RIL_REQUEST_IMS_REGISTRATION_STATE (Some ''getImsRegistrationStateResponse'') RIL_CMD_PROXY_3,
     cmd RIL_REQUEST_IMS_SEND_SMS (Some ''sendImsSmsResponse'') RIL_CMD_PROXY_1,
     cmd RIL_REQUEST_SIM_TRANSMIT_APDU_BASIC (Some ''iccTransmitApduBasicChannelResponse'') RIL_CMD_PROXY_1,
     cmd RIL_REQUEST_SIM_OPEN_CHANNEL (Some ''iccOpenLogicalChannelResponse'') RIL_CMD_PROXY_1,
     cmd RIL_REQUEST_SIM_CLOSE_CHANNEL (Some ''iccCloseLogicalChannelResponse'') RIL_CMD_PROXY_1,
     cmd RIL_REQUEST_SIM_TRANSMIT_APDU_CHANNEL (Some ''iccTransmitApduLogicalChannelResponse'') RIL_CMD_PROXY_1,
     cmd RIL_REQUEST_NV_READ_ITEM (Some ''nvReadItemResponse'') RIL_CMD_PROXY_4,
     cmd RIL_REQUEST_NV_WRITE_ITEM (Some ''nvWriteItemResponse'') RIL_CMD_PROXY_4,
     cmd RIL_REQUEST_NV_WRITE_CDMA_PRL (Some ''nvWriteCdmaPrlResponse'') RIL_CMD_PROXY_4,
     cmd RIL_REQUEST_NV_RESET_CONFIG (Some ''nvResetConfigResponse'') RIL_CMD_PROXY_4,
     cmd RIL_REQUEST_SET_UICC_SUBSCRIPTION (Some ''setUiccSubscriptionResponse'') RIL_CMD_PROXY_1,
     cmd RIL_REQUEST_ALLOW_DATA (Some ''setDataAllowedResponse'') RIL_CMD_PROXY_5,
     cmd RIL_REQUEST_GET_HARDWARE_CONFIG (Some ''getHardwareConfigResponse'') RIL_CMD_PROXY_1,
     cmd RIL_REQUEST_SIM_AUTHENTICATION (Some ''requestIccSimAuthenticationResponse'') RIL_CMD_PROXY_3,
     cmd RIL_REQUEST_GET_DC_RT_INFO None RIL_CMD_PROXY_1,
     cmd RIL_REQUEST_SET_DC_RT_INFO_RATE None RIL_CMD_PROXY_1,
     cmd RIL_REQUEST_SET_DATA_PROFILE (Some ''setDataProfileResponse'') RIL_CMD_PROXY_1,
     cmd RIL_REQUEST_SHUTDOWN (Some ''requestShutdownResponse'') RIL_CMD_PROXY_1,
     cmd RIL_REQUEST_GET_RADIO_CAPABILITY (Some ''getRadioCapabilityResponse'') RIL_CMD_PROXY_1,
     cmd RIL_REQUEST_SET_RADIO_CAPABILITY (Some ''setRadioCapabilityResponse'') RIL_CMD_PROXY_1,
     cmd RIL_REQUEST_START_LCE (Some ''startLceServiceResponse'') RIL_CMD_PROXY_5,
     cmd RIL_REQUEST_STOP_LCE (Some ''stopLceServiceResponse'') RIL_CMD_PROXY_5,
     cmd RIL_REQUEST_PULL_LCEDATA (Some ''pullLceDataResponse'') RIL_CMD_PROXY_5,
     cmd RIL_REQUEST_GET_ACTIVITY_INFO (Some ''getModemActivityInfoResponse'') RIL_CMD_PROXY_1,
     cmd RIL_REQUEST_SET_CARRIER_RESTRICTIONS (Some ''setAllowedCarriersResponse'') RIL_CMD_PROXY_4,
     cmd RIL_REQUEST_GET_CARRIER_RESTRICTIONS (Some ''getAllowedCarriersResponse'') RIL_CMD_PROXY_4,
     cmd RIL_REQUEST_SEND_DEVICE_STATE (Some ''sendDeviceStateResponse'') RIL_CMD_PROXY_3,
     cmd RIL_REQUEST_SET_UNSOLICITED_RESPONSE_FILTER (Some ''setIndicationFilterResponse'') RIL_CMD_PROXY_3,
     cmd RIL_REQUEST_SET_SIM_CARD_POWER (Some ''setSimCardPowerResponse'') RIL_CMD_PROXY_1]"

text \<open>
  The table of \<open>ril_unsol_commands.h\<close>.
\<close>

definition aosp_unsolResponses :: "unsol_info list" where
  "aosp_unsolResponses = [
     unsol RIL_UNSOL_RESPONSE_RADIO_STATE_CHANGED (Some ''radioStateChangedInd'') WAKE_PARTIAL,
     unsol RIL_UNSOL_RESPONSE_CALL_STATE_CHANGED (Some ''callStateChangedInd'') WAKE_PARTIAL,
     unsol RIL_UNSOL_RESPONSE_VOICE_NETWORK_STATE_CHANGED (Some ''networkStateChangedInd'') WAKE_PARTIAL,
     unsol RIL_UNSOL_RESPONSE_NEW_SMS (Some ''newSmsInd'') WAKE_PARTIAL,
     unsol RIL_UNSOL_RESPONSE_NEW_SMS_STATUS_REPORT (Some ''newSmsStatusReportInd'') WAKE_PARTIAL,
     unsol RIL_UNSOL_RESPONSE_NEW_SMS_ON_SIM (Some ''newSmsOnSimInd'') WAKE_PARTIAL,
     unsol RIL_UNSOL_ON_USSD (Some ''onUssdInd'') WAKE_PARTIAL,
     unsol RIL_UNSOL_ON_USSD_REQUEST (Some ''onUssdInd'') DONT_WAKE,
     unsol RIL_UNSOL_NITZ_TIME_RECEIVED (Some ''nitzTimeReceivedInd'') WAKE_PARTIAL,
     unsol RIL_UNSOL_SIGNAL_STRENGTH (Some ''currentSignalStrengthInd'') DONT_WAKE,
     unsol RIL_UNSOL_DATA_CALL_LIST_CHANGED (Some ''dataCallListChangedInd'') WAKE_PARTIAL,
     unsol RIL_UNSOL_SUPP_SVC_NOTIFICATION (Some ''suppSvcNotifyInd'') WAKE_PARTIAL,
     unsol RIL_UNSOL_STK_SESSION_END (Some ''stkSessionEndInd'') WAKE_PARTIAL,
     unsol RIL_UNSOL_STK_PROACTIVE_COMMAND (Some ''stkProactiveCommandInd'') WAKE_PARTIAL,
     unsol RIL_UNSOL_STK_EVENT_NOTIFY (Some ''stkEventNotifyInd'') WAKE_PARTIAL,
     unsol RIL_UNSOL_STK_CALL_SETUP (Some ''stkCallSetupInd'') WAKE_PARTIAL,
     unsol RIL_UNSOL_SIM_SMS_STORAGE_FULL (Some ''simSmsStorageFullInd'') WAKE_PARTIAL,
     unsol RIL_UNSOL_SIM_REFRESH (Some ''simRefreshInd'') WAKE_PARTIAL,
     unsol RIL_UNSOL_CALL_RING (Some ''callRingInd'') WAKE_PARTIAL,
     unsol RIL_UNSOL_RESPONSE_SIM_STATUS_CHANGED (Some ''simStatusChangedInd'') WAKE_PARTIAL,
     unsol RIL_UNSOL_RESPONSE_CDMA_NEW_SMS (Some ''cdmaNewSmsInd'') WAKE_PARTIAL,
     unsol RIL_UNSOL_RESPONSE_NEW_BROADCAST_SMS (Some ''newBroadcastSmsInd'') WAKE_PARTIAL,
     unsol RIL_UNSOL_CDMA_RUIM_SMS_STORAGE_FULL (Some ''cdmaRuimSmsStorageFullInd'') WAKE_PARTIAL,
     unsol RIL_UNSOL_RESTRICTED_STATE_CHANGED (Some ''restrictedStateChangedInd'') WAKE_PARTIAL,
     unsol RIL_UNSOL_ENTER_EMERGENCY_CALLBACK_MODE (Some ''enterEmergencyCallbackModeInd'') WAKE_PARTIAL,
     unsol RIL_UNSOL_CDMA_CALL_WAITING (Some ''cdmaCallWaitingInd'') WAKE_PARTIAL,
     unsol RIL_UNSOL_CDMA_OTA_PROVISION_STATUS (Some ''cdmaOtaProvisionStatusInd'') WAKE_PARTIAL,
     unsol RIL_UNSOL_CDMA_INFO_REC (Some ''cdmaInfoRecInd'') WAKE_PARTIAL,
     unsol RIL_UNSOL_OEM_HOOK_RAW (Some ''oemHookRawInd'') WAKE_PARTIAL,
     unsol RIL_UNSOL_RINGBACK_TONE (Some ''indicateRingbackToneInd'') WAKE_PARTIAL,
     unsol RIL_UNSOL_RESEND_INCALL_MUTE (Some ''resendIncallMuteInd'') WAKE_PARTIAL,
     unsol RIL_UNSOL_CDMA_SUBSCRIPTION_SOURCE_CHANGED (Some ''cdmaSubscriptionSourceChangedInd'') WAKE_PARTIAL,
     unsol RIL_UNSOL_CDMA_PRL_CHANGED (Some ''cdmaPrlChangedInd'') WAKE_PARTIAL,
     unsol RIL_UNSOL_EXIT_EMERGENCY_CALLBACK_MODE (Some ''exitEmergencyCallbackModeInd'') WAKE_PARTIAL,
     unsol RIL_UNSOL_RIL_CONNECTED (Some ''rilConnectedInd'') WAKE_PARTIAL,
     unsol RIL_UNSOL_VOICE_RADIO_TECH_CHANGED (Some ''voiceRadioTechChangedInd'') WAKE_PARTIAL,
     unsol RIL_UNSOL_CELL_INFO_LIST (Some ''cellInfoListInd'') WAKE_PARTIAL,
     unsol RIL_UNSOL_RESPONSE_IMS_NETWORK_STATE_CHANGED (Some ''imsNetworkStateChangedInd'') WAKE_PARTIAL,
     unsol RIL_UNSOL_UICC_SUBSCRIPTION_STATUS_CHANGED (Some ''subscriptionStatusChangedInd'') WAKE_PARTIAL,
     unsol RIL_UNSOL_SRVCC_STATE_NOTIFY (Some ''srvccStateNotifyInd'') WAKE_PARTIAL,
     unsol RIL_UNSOL_HARDWARE_CONFIG_CHANGED (Some ''hardwareConfigChangedInd'') WAKE_PARTIAL,
     unsol RIL_UNSOL_DC_RT_INFO_CHANGED None WAKE_PARTIAL,
     unsol RIL_UNSOL_RADIO_CAPABILITY (Some ''radioCapabilityIndicationInd'') WAKE_PARTIAL,
     unsol RIL_UNSOL_ON_SS (Some ''onSupplementaryServiceIndicationInd'') WAKE_PARTIAL,
     unsol RIL_UNSOL_STK_CC_ALPHA_NOTIFY (Some ''stkCallControlAlphaNotifyInd'') WAKE_PARTIAL,
     unsol RIL_UNSOL_LCEDATA_RECV (Some ''lceDataInd'') WAKE_PARTIAL,
     unsol RIL_UNSOL_PCO_DATA (Some ''pcoDataInd'') WAKE_PARTIAL,
     unsol RIL_UNSOL_MODEM_RESTART (Some ''modemResetInd'') WAKE_PARTIAL]"

section \<open>The self-check at registration\<close>

text \<open>
  One loop of the self-check over the numbers of a table: AOSP entry \<open>i\<close> must have number
  \<open>base + i\<close>; the first vendor entry fixes the start of the vendor part, and vendor entry \<open>i\<close> must
  have number \<open>vendor + i - start\<close>. A failing \<open>assert\<close> is \<open>None\<close>, else the start is returned.
\<close>

fun self_check :: "int \<Rightarrow> int \<Rightarrow> int list \<Rightarrow> int \<Rightarrow> int \<Rightarrow> int option" where
  "self_check base vendor [] i start = Some start"
| "self_check base vendor (r # rs) i start =
     (if r < vendor then
        (if i + base = r then self_check base vendor rs (i + 1) start else None)
      else
        (let start = (if start = 0 then i else start) in
         if i + vendor - start = r then self_check base vendor rs (i + 1) start else None))"

section \<open>Names\<close>

text \<open>
  The cases of \<open>requestToString\<close>: solicited requests of \<open>ril.h\<close>,
\<close>

definition requestNames_aosp :: "(int \<times> string) list" where
  "requestNames_aosp = [
     (RIL_REQUEST_GET_SIM_STATUS, ''GET_SIM_STATUS''),
     (RIL_REQUEST_ENTER_SIM_PIN, ''ENTER_SIM_PIN''),
     (RIL_REQUEST_ENTER_SIM_PUK, ''ENTER_SIM_PUK''),
     (RIL_REQUEST_ENTER_SIM_PIN2, ''ENTER_SIM_PIN2''),
     (RIL_REQUEST_ENTER_SIM_PUK2, ''ENTER_SIM_PUK2''),
     (RIL_REQUEST_CHANGE_SIM_PIN, ''CHANGE_SIM_PIN''),
     (RIL_REQUEST_CHANGE_SIM_PIN2, ''CHANGE_SIM_PIN2''),
     (RIL_REQUEST_ENTER_NETWORK_DEPERSONALIZATION, ''ENTER_NETWORK_DEPERSONALIZATION''),
     (RIL_REQUEST_GET_CURRENT_CALLS, ''GET_CURRENT_CALLS''),
     (RIL_REQUEST_DIAL, ''DIAL''),
     (RIL_REQUEST_GET_IMSI, ''GET_IMSI''),
     (RIL_REQUEST_HANGUP, ''HANGUP''),
     (RIL_REQUEST_HANGUP_WAITING_OR_BACKGROUND, ''HANGUP_WAITING_OR_BACKGROUND''),
     (RIL_REQUEST_HANGUP_FOREGROUND_RESUME_BACKGROUND, ''HANGUP_FOREGROUND_RESUME_BACKGROUND''),
     (RIL_REQUEST_SWITCH_WAITING_OR_HOLDING_AND_ACTIVE, ''SWITCH_WAITING_OR_HOLDING_AND_ACTIVE''),
     (RIL_REQUEST_CONFERENCE, ''CONFERENCE''),
     (RIL_REQUEST_UDUB, ''UDUB''),
     (RIL_REQUEST_LAST_CALL_FAIL_CAUSE, ''LAST_CALL_FAIL_CAUSE''),
     (RIL_REQUEST_SIGNAL_STRENGTH, ''SIGNAL_STRENGTH''),
     (RIL_REQUEST_VOICE_REGISTRATION_STATE, ''VOICE_REGISTRATION_STATE''),
     (RIL_REQUEST_DATA_REGISTRATION_STATE, ''DATA_REGISTRATION_STATE''),
     (RIL_REQUEST_OPERATOR, ''OPERATOR''),
     (RIL_REQUEST_RADIO_POWER, ''RADIO_POWER''),
     (RIL_REQUEST_DTMF, ''DTMF''),
     (RIL_REQUEST_SEND_SMS, ''SEND_SMS''),
     (RIL_REQUEST_SEND_SMS_EXPECT_MORE, ''SEND_SMS_EXPECT_MORE''),
     (RIL_REQUEST_SETUP_DATA_CALL, ''SETUP_DATA_CALL''),
     (RIL_REQUEST_SIM_IO, ''SIM_IO''),
     (RIL_REQUEST_SEND_USSD, ''SEND_USSD''),
     (RIL_REQUEST_CANCEL_USSD, ''CANCEL_USSD''),
     (RIL_REQUEST_GET_CLIR, ''GET_CLIR''),
     (RIL_REQUEST_SET_CLIR, ''SET_CLIR''),
     (RIL_REQUEST_QUERY_CALL_FORWARD_STATUS, ''QUERY_CALL_FORWARD_STATUS''),
     (RIL_REQUEST_SET_CALL_FORWARD, ''SET_CALL_FORWARD''),
     (RIL_REQUEST_QUERY_CALL_WAITING, ''QUERY_CALL_WAITING''),
     (RIL_REQUEST_SET_CALL_WAITING, ''SET_CALL_WAITING''),
     (RIL_REQUEST_SMS_ACKNOWLEDGE, ''SMS_ACKNOWLEDGE''),
     (RIL_REQUEST_GET_IMEI, ''GET_IMEI''),
     (RIL_REQUEST_GET_IMEISV, ''GET_IMEISV''),
     (RIL_REQUEST_ANSWER, ''ANSWER''),
     (RIL_REQUEST_DEACTIVATE_DATA_CALL, ''DEACTIVATE_DATA_CALL''),
     (RIL_REQUEST_QUERY_FACILITY_LOCK, ''QUERY_FACILITY_LOCK''),
     (RIL_REQUEST_SET_FACILITY_LOCK, ''SET_FACILITY_LOCK''),
     (RIL_REQUEST_CHANGE_BARRING_PASSWORD, ''CHANGE_BARRING_PASSWORD''),
     (RIL_REQUEST_QUERY_NETWORK_SELECTION_MODE, ''QUERY_NETWORK_SELECTION_MODE''),
     (RIL_REQUEST_SET_NETWORK_SELECTION_AUTOMATIC, ''SET_NETWORK_SELECTION_AUTOMATIC''),
     (RIL_REQUEST_SET_NETWORK_SELECTION_MANUAL, ''SET_NETWORK_SELECTION_MANUAL''),
     (RIL_REQUEST_QUERY_AVAILABLE_NETWORKS, ''QUERY_AVAILABLE_NETWORKS''),
     (RIL_REQUEST_DTMF_START, ''DTMF_START''),
     (RIL_REQUEST_DTMF_STOP, ''DTMF_STOP''),
     (RIL_REQUEST_BASEBAND_VERSION, ''BASEBAND_VERSION''),
     (RIL_REQUEST_SEPARATE_CONNECTION, ''SEPARATE_CONNECTION''),
     (RIL_REQUEST_SET_MUTE, ''SET_MUTE''),
     (RIL_REQUEST_GET_MUTE, ''GET_MUTE''),
     (RIL_REQUEST_QUERY_CLIP, ''QUERY_CLIP''),
     (RIL_REQUEST_LAST_DATA_CALL_FAIL_CAUSE, ''LAST_DATA_CALL_FAIL_CAUSE''),
     (RIL_REQUEST_DATA_CALL_LIST, ''DATA_CALL_LIST''),
     (RIL_REQUEST_RESET_RADIO, ''RESET_RADIO''),
     (RIL_REQUEST_OEM_HOOK_RAW, ''OEM_HOOK_RAW''),
     (RIL_REQUEST_OEM_HOOK_STRINGS, ''OEM_HOOK_STRINGS''),
     (RIL_REQUEST_SCREEN_STATE, ''SCREEN_STATE''),
     (RIL_REQUEST_SET_SUPP_SVC_NOTIFICATION, ''SET_SUPP_SVC_NOTIFICATION''),
     (RIL_REQUEST_WRITE_SMS_TO_SIM, ''WRITE_SMS_TO_SIM''),
     (RIL_REQUEST_DELETE_SMS_ON_SIM, ''DELETE_SMS_ON_SIM''),
     (RIL_REQUEST_SET_BAND_MODE, ''SET_BAND_MODE''),
     (RIL_REQUEST_QUERY_AVAILABLE_BAND_MODE, ''QUERY_AVAILABLE_BAND_MODE''),
     (RIL_REQUEST_STK_GET_PROFILE, ''STK_GET_PROFILE''),
     (RIL_REQUEST_STK_SET_PROFILE, ''STK_SET_PROFILE''),
     (RIL_REQUEST_STK_SEND_ENVELOPE_COMMAND, ''STK_SEND_ENVELOPE_COMMAND''),
     (RIL_REQUEST_STK_SEND_TERMINAL_RESPONSE, ''STK_SEND_TERMINAL_RESPONSE''),
     (RIL_REQUEST_STK_HANDLE_CALL_SETUP_REQUESTED_FROM_SIM, ''STK_HANDLE_CALL_SETUP_REQUESTED_FROM_SIM''),
     (RIL_REQUEST_EXPLICIT_CALL_TRANSFER, ''EXPLICIT_CALL_TRANSFER''),
     (RIL_REQUEST_SET_PREFERRED_NETWORK_TYPE, ''SET_PREFERRED_NETWORK_TYPE''),
     (RIL_REQUEST_GET_PREFERRED_NETWORK_TYPE, ''GET_PREFERRED_NETWORK_TYPE''),
     (RIL_REQUEST_GET_NEIGHBORING_CELL_IDS, ''GET_NEIGHBORING_CELL_IDS''),
     (RIL_REQUEST_SET_LOCATION_UPDATES, ''SET_LOCATION_UPDATES''),
     (RIL_REQUEST_CDMA_SET_SUBSCRIPTION_SOURCE, ''CDMA_SET_SUBSCRIPTION_SOURCE''),
     (RIL_REQUEST_CDMA_SET_ROAMING_PREFERENCE, ''CDMA_SET_ROAMING_PREFERENCE''),
     (RIL_REQUEST_CDMA_QUERY_ROAMING_PREFERENCE, ''CDMA_QUERY_ROAMING_PREFERENCE''),
     (RIL_REQUEST_SET_TTY_MODE, ''SET_TTY_MODE''),
     (RIL_REQUEST_QUERY_TTY_MODE, ''QUERY_TTY_MODE''),
     (RIL_REQUEST_CDMA_SET_PREFERRED_VOICE_PRIVACY_MODE, ''CDMA_SET_PREFERRED_VOICE_PRIVACY_MODE''),
     (RIL_REQUEST_CDMA_QUERY_PREFERRED_VOICE_PRIVACY_MODE, ''CDMA_QUERY_PREFERRED_VOICE_PRIVACY_MODE''),
     (RIL_REQUEST_CDMA_FLASH, ''CDMA_FLASH''),
     (RIL_REQUEST_CDMA_BURST_DTMF, ''CDMA_BURST_DTMF''),
     (RIL_REQUEST_CDMA_VALIDATE_AND_WRITE_AKEY, ''CDMA_VALIDATE_AND_WRITE_AKEY''),
     (RIL_REQUEST_CDMA_SEND_SMS, ''CDMA_SEND_SMS''),
     (RIL_REQUEST_CDMA_SMS_ACKNOWLEDGE, ''CDMA_SMS_ACKNOWLEDGE''),
     (RIL_REQUEST_GSM_GET_BROADCAST_SMS_CONFIG, ''GSM_GET_BROADCAST_SMS_CONFIG''),
     (RIL_REQUEST_GSM_SET_BROADCAST_SMS_CONFIG, ''GSM_SET_BROADCAST_SMS_CONFIG''),
     (RIL_REQUEST_GSM_SMS_BROADCAST_ACTIVATION, ''GSM_SMS_BROADCAST_ACTIVATION''),
     (RIL_REQUEST_CDMA_GET_BROADCAST_SMS_CONFIG, ''CDMA_GET_BROADCAST_SMS_CONFIG''),
     (RIL_REQUEST_CDMA_SET_BROADCAST_SMS_CONFIG, ''CDMA_SET_BROADCAST_SMS_CONFIG''),
     (RIL_REQUEST_CDMA_SMS_BROADCAST_ACTIVATION, ''CDMA_SMS_BROADCAST_ACTIVATION''),
     (RIL_REQUEST_CDMA_SUBSCRIPTION, ''CDMA_SUBSCRIPTION''),
     (RIL_REQUEST_CDMA_WRITE_SMS_TO_RUIM, ''CDMA_WRITE_SMS_TO_RUIM''),
     (RIL_REQUEST_CDMA_DELETE_SMS_ON_RUIM, ''CDMA_DELETE_SMS_ON_RUIM''),
     (RIL_REQUEST_DEVICE_IDENTITY, ''DEVICE_IDENTITY''),
     (RIL_REQUEST_EXIT_EMERGENCY_CALLBACK_MODE, ''EXIT_EMERGENCY_CALLBACK_MODE''),
     (RIL_REQUEST_GET_SMSC_ADDRESS, ''GET_SMSC_ADDRESS''),
     (RIL_REQUEST_SET_SMSC_ADDRESS, ''SET_SMSC_ADDRESS''),
     (RIL_REQUEST_REPORT_SMS_MEMORY_STATUS, ''REPORT_SMS_MEMORY_STATUS''),
     (RIL_REQUEST_REPORT_STK_SERVICE_IS_RUNNING, ''REPORT_STK_SERVICE_IS_RUNNING''),
     (RIL_REQUEST_CDMA_GET_SUBSCRIPTION_SOURCE, ''CDMA_GET_SUBSCRIPTION_SOURCE''),
     (RIL_REQUEST_ISIM_AUTHENTICATION, ''ISIM_AUTHENTICATION''),
     (RIL_REQUEST_ACKNOWLEDGE_INCOMING_GSM_SMS_WITH_PDU, ''ACKNOWLEDGE_INCOMING_GSM_SMS_WITH_PDU''),
     (RIL_REQUEST_STK_SEND_ENVELOPE_WITH_STATUS, ''STK_SEND_ENVELOPE_WITH_STATUS''),
     (RIL_REQUEST_VOICE_RADIO_TECH, ''VOICE_RADIO_TECH''),
     (RIL_REQUEST_GET_CELL_INFO_LIST, ''GET_CELL_INFO_LIST''),
     (RIL_REQUEST_SET_UNSOL_CELL_INFO_LIST_RATE, ''SET_UNSOL_CELL_INFO_LIST_RATE''),
     (RIL_REQUEST_SET_INITIAL_ATTACH_APN, ''SET_INITIAL_ATTACH_APN''),
     (RIL_REQUEST_IMS_REGISTRATION_STATE, ''IMS_REGISTRATION_STATE''),
     (RIL_REQUEST_IMS_SEND_SMS, ''IMS_SEND_SMS''),
     (RIL_REQUEST_SIM_TRANSMIT_APDU_BASIC, ''SIM_TRANSMIT_APDU_BASIC''),
     (RIL_REQUEST_SIM_OPEN_CHANNEL, ''SIM_OPEN_CHANNEL''),
     (RIL_REQUEST_SIM_CLOSE_CHANNEL, ''SIM_CLOSE_CHANNEL''),
     (RIL_REQUEST_SIM_TRANSMIT_APDU_CHANNEL, ''SIM_TRANSMIT_APDU_CHANNEL''),
     (RIL_REQUEST_NV_READ_ITEM, ''NV_READ_ITEM''),
     (RIL_REQUEST_NV_WRITE_ITEM, ''NV_WRITE_ITEM''),
     (RIL_REQUEST_NV_WRITE_CDMA_PRL, ''NV_WRITE_CDMA_PRL''),
     (RIL_REQUEST_NV_RESET_CONFIG, ''NV_RESET_CONFIG''),
     (RIL_REQUEST_SET_UICC_SUBSCRIPTION, ''SET_UICC_SUBSCRIPTION''),
     (RIL_REQUEST_ALLOW_DATA, ''ALLOW_DATA''),
     (RIL_REQUEST_GET_HARDWARE_CONFIG, ''GET_HARDWARE_CONFIG''),
     (RIL_REQUEST_SIM_AUTHENTICATION, ''SIM_AUTHENTICATION''),
     (RIL_REQUEST_GET_DC_RT_INFO, ''GET_DC_RT_INFO''),
     (RIL_REQUEST_SET_DC_RT_INFO_RATE, ''SET_DC_RT_INFO_RATE''),
     (RIL_REQUEST_SET_DATA_PROFILE, ''SET_DATA_PROFILE''),
     (RIL_REQUEST_SHUTDOWN, ''SHUTDOWN''),
     (RIL_REQUEST_GET_RADIO_CAPABILITY, ''GET_RADIO_CAPABILITY''),
     (RIL_REQUEST_SET_RADIO_CAPABILITY, ''SET_RADIO_CAPABILITY''),
     (RIL_REQUEST_START_LCE, ''START_LCE''),
     (RIL_REQUEST_STOP_LCE, ''STOP_LCE''),
     (RIL_REQUEST_PULL_LCEDATA, ''PULL_LCEDATA''),
     (RIL_REQUEST_GET_ACTIVITY_INFO, ''GET_ACTIVITY_INFO''),
     (RIL_REQUEST_SET_CARRIER_RESTRICTIONS, ''SET_CARRIER_RESTRICTIONS''),
     (RIL_REQUEST_GET_CARRIER_RESTRICTIONS, ''GET_CARRIER_RESTRICTIONS''),
     (RIL_REQUEST_SET_CARRIER_INFO_IMSI_ENCRYPTION, ''SET_CARRIER_INFO_IMSI_ENCRYPTION''),
     (RIL_RESPONSE_ACKNOWLEDGEMENT, ''RESPONSE_ACKNOWLEDGEMENT'')]"

text \<open>
  its unsolicited responses,
\<close>

definition requestNames_unsol :: "(int \<times> string) list" where
  "requestNames_unsol = [
     (RIL_UNSOL_RESPONSE_RADIO_STATE_CHANGED, ''UNSOL_RESPONSE_RADIO_STATE_CHANGED''),
     (RIL_UNSOL_RESPONSE_CALL_STATE_CHANGED, ''UNSOL_RESPONSE_CALL_STATE_CHANGED''),
     (RIL_UNSOL_RESPONSE_VOICE_NETWORK_STATE_CHANGED, ''UNSOL_RESPONSE_VOICE_NETWORK_STATE_CHANGED''),
     (RIL_UNSOL_RESPONSE_NEW_SMS, ''UNSOL_RESPONSE_NEW_SMS''),
     (RIL_UNSOL_RESPONSE_NEW_SMS_STATUS_REPORT, ''UNSOL_RESPONSE_NEW_SMS_STATUS_REPORT''),
     (RIL_UNSOL_RESPONSE_NEW_SMS_ON_SIM, ''UNSOL_RESPONSE_NEW_SMS_ON_SIM''),
     (RIL_UNSOL_ON_USSD, ''UNSOL_ON_USSD''),
     (RIL_UNSOL_ON_USSD_REQUEST, ''UNSOL_ON_USSD_REQUEST''),
     (RIL_UNSOL_NITZ_TIME_RECEIVED, ''UNSOL_NITZ_TIME_RECEIVED''),
     (RIL_UNSOL_SIGNAL_STRENGTH, ''UNSOL_SIGNAL_STRENGTH''),
     (RIL_UNSOL_DATA_CALL_LIST_CHANGED, ''UNSOL_DATA_CALL_LIST_CHANGED''),
     (RIL_UNSOL_SUPP_SVC_NOTIFICATION, ''UNSOL_SUPP_SVC_NOTIFICATION''),
     (RIL_UNSOL_STK_SESSION_END, ''UNSOL_STK_SESSION_END''),
     (RIL_UNSOL_STK_PROACTIVE_COMMAND, ''UNSOL_STK_PROACTIVE_COMMAND''),
     (RIL_UNSOL_STK_EVENT_NOTIFY, ''UNSOL_STK_EVENT_NOTIFY''),
     (RIL_UNSOL_STK_CALL_SETUP, ''UNSOL_STK_CALL_SETUP''),
     (RIL_UNSOL_SIM_SMS_STORAGE_FULL, ''UNSOL_SIM_SMS_STORAGE_FULL''),
     (RIL_UNSOL_SIM_REFRESH, ''UNSOL_SIM_REFRESH''),
     (RIL_UNSOL_CALL_RING, ''UNSOL_CALL_RING''),
     (RIL_UNSOL_RESPONSE_SIM_STATUS_CHANGED, ''UNSOL_RESPONSE_SIM_STATUS_CHANGED''),
     (RIL_UNSOL_RESPONSE_CDMA_NEW_SMS, ''UNSOL_RESPONSE_CDMA_NEW_SMS''),
     (RIL_UNSOL_RESPONSE_NEW_BROADCAST_SMS, ''UNSOL_RESPONSE_NEW_BROADCAST_SMS''),
     (RIL_UNSOL_CDMA_RUIM_SMS_STORAGE_FULL, ''UNSOL_CDMA_RUIM_SMS_STORAGE_FULL''),
     (RIL_UNSOL_RESTRICTED_STATE_CHANGED, ''UNSOL_RESTRICTED_STATE_CHANGED''),
     (RIL_UNSOL_ENTER_EMERGENCY_CALLBACK_MODE, ''UNSOL_ENTER_EMERGENCY_CALLBACK_MODE''),
     (RIL_UNSOL_CDMA_CALL_WAITING, ''UNSOL_CDMA_CALL_WAITING''),
     (RIL_UNSOL_CDMA_OTA_PROVISION_STATUS, ''UNSOL_CDMA_OTA_PROVISION_STATUS''),
     (RIL_UNSOL_CDMA_INFO_REC, ''UNSOL_CDMA_INFO_REC''),
     (RIL_UNSOL_OEM_HOOK_RAW, ''UNSOL_OEM_HOOK_RAW''),
     (RIL_UNSOL_RINGBACK_TONE, ''UNSOL_RINGBACK_TONE''),
     (RIL_UNSOL_RESEND_INCALL_MUTE, ''UNSOL_RESEND_INCALL_MUTE''),
     (RIL_UNSOL_CDMA_SUBSCRIPTION_SOURCE_CHANGED, ''UNSOL_CDMA_SUBSCRIPTION_SOURCE_CHANGED''),
     (RIL_UNSOL_CDMA_PRL_CHANGED, ''UNSOL_CDMA_PRL_CHANGED''),
     (RIL_UNSOL_EXIT_EMERGENCY_CALLBACK_MODE, ''UNSOL_EXIT_EMERGENCY_CALLBACK_MODE''),
     (RIL_UNSOL_RIL_CONNECTED, ''UNSOL_RIL_CONNECTED''),
     (RIL_UNSOL_VOICE_RADIO_TECH_CHANGED, ''UNSOL_VOICE_RADIO_TECH_CHANGED''),
     (RIL_UNSOL_CELL_INFO_LIST, ''UNSOL_CELL_INFO_LIST''),
     (RIL_UNSOL_RESPONSE_IMS_NETWORK_STATE_CHANGED, ''UNSOL_RESPONSE_IMS_NETWORK_STATE_CHANGED''),
     (RIL_UNSOL_UICC_SUBSCRIPTION_STATUS_CHANGED, ''UNSOL_UICC_SUBSCRIPTION_STATUS_CHANGED''),
     (RIL_UNSOL_SRVCC_STATE_NOTIFY, ''UNSOL_SRVCC_STATE_NOTIFY''),
     (RIL_UNSOL_HARDWARE_CONFIG_CHANGED, ''UNSOL_HARDWARE_CONFIG_CHANGED''),
     (RIL_UNSOL_DC_RT_INFO_CHANGED, ''UNSOL_DC_RT_INFO_CHANGED''),
     (RIL_UNSOL_RADIO_CAPABILITY, ''UNSOL_RADIO_CAPABILITY''),
     (RIL_UNSOL_ON_SS, ''UNSOL_ON_SS''),
     (RIL_UNSOL_STK_CC_ALPHA_NOTIFY, ''UNSOL_STK_CC_ALPHA_NOTIFY''),
     (RIL_UNSOL_LCEDATA_RECV, ''UNSOL_LCEDATA_RECV''),
     (RIL_UNSOL_PCO_DATA, ''UNSOL_PCO_DATA''),
     (RIL_UNSOL_MODEM_RESTART, ''UNSOL_MODEM_RESTART''),
     (RIL_UNSOL_CARRIER_INFO_IMSI_ENCRYPTION, ''UNSOL_CARRIER_INFO_IMSI_ENCRYPTION'')]"

text \<open>
  the requests of \<open>mtk_ril.h\<close>,
\<close>

definition requestNames_mtk :: "(int \<times> string) list" where
  "requestNames_mtk = [
     (RIL_REQUEST_GET_COLP, ''RIL_REQUEST_GET_COLP''),
     (RIL_REQUEST_SET_COLP, ''RIL_REQUEST_SET_COLP''),
     (RIL_REQUEST_GET_COLR, ''RIL_REQUEST_GET_COLR''),
     (RIL_REQUEST_GET_CCM, ''RIL_REQUEST_GET_CCM''),
     (RIL_REQUEST_GET_ACM, ''RIL_REQUEST_GET_ACM''),
     (RIL_REQUEST_GET_ACMMAX, ''RIL_REQUEST_GET_ACMMAX''),
     (RIL_REQUEST_GET_PPU_AND_CURRENCY, ''RIL_REQUEST_GET_PPU_AND_CURRENCY''),
     (RIL_REQUEST_SET_ACMMAX, ''RIL_REQUEST_SET_ACMMAX''),
     (RIL_REQUEST_RESET_ACM, ''RIL_REQUEST_RESET_ACM''),
     (RIL_REQUEST_SET_PPU_AND_CURRENCY, ''RIL_REQUEST_SET_PPU_AND_CURRENCY''),
     (RIL_REQUEST_MODEM_POWEROFF, ''RIL_REQUEST_MODEM_POWEROFF''),
     (RIL_REQUEST_DUAL_SIM_MODE_SWITCH, ''RIL_REQUEST_DUAL_SIM_MODE_SWITCH''),
     (RIL_REQUEST_QUERY_PHB_STORAGE_INFO, ''RIL_REQUEST_QUERY_PHB_STORAGE_INFO''),
     (RIL_REQUEST_WRITE_PHB_ENTRY, ''RIL_REQUEST_WRITE_PHB_ENTRY''),
     (RIL_REQUEST_READ_PHB_ENTRY, ''RIL_REQUEST_READ_PHB_ENTRY''),
     (RIL_REQUEST_SET_GPRS_CONNECT_TYPE, ''RIL_REQUEST_SET_GPRS_CONNECT_TYPE''),
     (RIL_REQUEST_SET_GPRS_TRANSFER_TYPE, ''RIL_REQUEST_SET_GPRS_TRANSFER_TYPE''),
     (RIL_REQUEST_MOBILEREVISION_AND_IMEI, ''RIL_REQUEST_MOBILEREVISION_AND_IMEI''),
     (RIL_REQUEST_QUERY_SIM_NETWORK_LOCK, ''RIL_REQUEST_QUERY_SIM_NETWORK_LOCK''),
     (RIL_REQUEST_SET_SIM_NETWORK_LOCK, ''RIL_REQUEST_SET_SIM_NETWORK_LOCK''),
     (RIL_REQUEST_SET_SCRI, ''RIL_REQUEST_SET_SCRI''),
     (RIL_REQUEST_BTSIM_CONNECT, ''RIL_REQUEST_BTSIM_CONNECT''),
     (RIL_REQUEST_BTSIM_DISCONNECT_OR_POWEROFF, ''RIL_REQUEST_BTSIM_DISCONNECT_OR_POWEROFF''),
     (RIL_REQUEST_BTSIM_POWERON_OR_RESETSIM, ''RIL_REQUEST_BTSIM_POWERON_OR_RESETSIM''),
     (RIL_REQUEST_BTSIM_TRANSFERAPDU, ''RIL_REQUEST_BTSIM_TRANSFERAPDU''),
     (RIL_REQUEST_SET_NETWORK_SELECTION_MANUAL_WITH_ACT, ''RIL_REQUEST_SET_NETWORK_SELECTION_MANUAL_WITH_ACT''),
     (RIL_REQUEST_QUERY_ICCID, ''RIL_REQUEST_QUERY_ICCID''),
     (RIL_REQUEST_USIM_AUTHENTICATION, ''RIL_REQUEST_USIM_AUTHENTICATION''),
     (RIL_REQUEST_MODEM_POWERON, ''RIL_REQUEST_MODEM_POWERON''),
     (RIL_REQUEST_GET_SMS_SIM_MEM_STATUS, ''RIL_REQUEST_GET_SMS_SIM_MEM_STATUS''),
     (RIL_REQUEST_GET_PHONE_CAPABILITY, ''RIL_REQUEST_GET_PHONE_CAPABILITY''),
     (RIL_REQUEST_SET_PHONE_CAPABILITY, ''RIL_REQUEST_SET_PHONE_CAPABILITY''),
     (RIL_REQUEST_GET_POL_CAPABILITY, ''RIL_REQUEST_GET_POL_CAPABILITY''),
     (RIL_REQUEST_GET_POL_LIST, ''RIL_REQUEST_GET_POL_LIST''),
     (RIL_REQUEST_SET_POL_ENTRY, ''RIL_REQUEST_SET_POL_ENTRY''),
     (RIL_REQUEST_QUERY_UPB_CAPABILITY, ''RIL_REQUEST_QUERY_UPB_CAPABILITY''),
     (RIL_REQUEST_EDIT_UPB_ENTRY, ''RIL_REQUEST_EDIT_UPB_ENTRY''),
     (RIL_REQUEST_DELETE_UPB_ENTRY, ''RIL_REQUEST_DELETE_UPB_ENTRY''),
     (RIL_REQUEST_READ_UPB_GAS_LIST, ''RIL_REQUEST_READ_UPB_GAS_LIST''),
     (RIL_REQUEST_READ_UPB_GRP, ''RIL_REQUEST_READ_UPB_GRP''),
     (RIL_REQUEST_WRITE_UPB_GRP, ''RIL_REQUEST_WRITE_UPB_GRP''),
     (RIL_REQUEST_SET_SIM_RECOVERY_ON, ''RIL_REQUEST_SET_SIM_RECOVERY_ON''),
     (RIL_REQUEST_GET_SIM_RECOVERY_ON, ''RIL_REQUEST_GET_SIM_RECOVERY_ON''),
     (RIL_REQUEST_SET_TRM, ''RIL_REQUEST_SET_TRM''),
     (RIL_REQUEST_DETECT_SIM_MISSING, ''RIL_REQUEST_DETECT_SIM_MISSING''),
     (RIL_REQUEST_GET_CALIBRATION_DATA, ''RIL_REQUEST_GET_CALIBRATION_DATA''),
     (RIL_REQUEST_GET_PHB_STRING_LENGTH, ''RIL_REQUEST_GET_PHB_STRING_LENGTH''),
     (RIL_REQUEST_GET_PHB_MEM_STORAGE, ''RIL_REQUEST_GET_PHB_MEM_STORAGE''),
     (RIL_REQUEST_SET_PHB_MEM_STORAGE, ''RIL_REQUEST_SET_PHB_MEM_STORAGE''),
     (RIL_REQUEST_READ_PHB_ENTRY_EXT, ''RIL_REQUEST_READ_PHB_ENTRY_EXT''),
     (RIL_REQUEST_WRITE_PHB_ENTRY_EXT, ''RIL_REQUEST_WRITE_PHB_ENTRY_EXT''),
     (RIL_REQUEST_GET_SMS_PARAMS, ''RIL_REQUEST_GET_SMS_PARAMS''),
     (RIL_REQUEST_SET_SMS_PARAMS, ''RIL_REQUEST_SET_SMS_PARAMS''),
     (RIL_REQUEST_SIM_TRANSMIT_BASIC, ''RIL_REQUEST_SIM_TRANSMIT_BASIC''),
     (RIL_REQUEST_SIM_TRANSMIT_CHANNEL, ''RIL_REQUEST_SIM_TRANSMIT_CHANNEL''),
     (RIL_REQUEST_SIM_GET_ATR, ''RIL_REQUEST_SIM_GET_ATR''),
     (RIL_REQUEST_SET_CB_CHANNEL_CONFIG_INFO, ''RIL_REQUEST_SET_CB_CHANNEL_CONFIG_INFO''),
     (RIL_REQUEST_SET_CB_LANGUAGE_CONFIG_INFO, ''RIL_REQUEST_SET_CB_LANGUAGE_CONFIG_INFO''),
     (RIL_REQUEST_GET_CB_CONFIG_INFO, ''RIL_REQUEST_GET_CB_CONFIG_INFO''),
     (RIL_REQUEST_SET_ALL_CB_LANGUAGE_ON, ''RIL_REQUEST_SET_ALL_CB_LANGUAGE_ON''),
     (RIL_REQUEST_SET_ETWS, ''RIL_REQUEST_SET_ETWS''),
     (RIL_REQUEST_SET_FD_MODE, ''RIL_REQUEST_SET_FD_MODE''),
     (RIL_REQUEST_DETACH_PS, ''RIL_REQUEST_DETACH_PS''),
     (RIL_REQUEST_SIM_OPEN_CHANNEL_WITH_SW, ''RIL_REQUEST_SIM_OPEN_CHANNEL_WITH_SW''),
     (RIL_REQUEST_SET_REG_SUSPEND_ENABLED, ''RIL_REQUEST_SET_REG_SUSPEND_ENABLED''),
     (RIL_REQUEST_RESUME_REGISTRATION, ''RIL_REQUEST_RESUME_REGISTRATION''),
     (RIL_REQUEST_STORE_MODEM_TYPE, ''RIL_REQUEST_STORE_MODEM_TYPE''),
     (RIL_REQUEST_QUERY_MODEM_TYPE, ''RIL_REQUEST_QUERY_MODEM_TYPE''),
     (RIL_REQUEST_SIM_INTERFACE_SWITCH, ''RIL_REQUEST_SIM_INTERFACE_SWITCH''),
     (RIL_REQUEST_UICC_SELECT_APPLICATION, ''RIL_REQUEST_UICC_SELECT_APPLICATION''),
     (RIL_REQUEST_UICC_DEACTIVATE_APPLICATION, ''RIL_REQUEST_UICC_DEACTIVATE_APPLICATION''),
     (RIL_REQUEST_UICC_APPLICATION_IO, ''RIL_REQUEST_UICC_APPLICATION_IO''),
     (RIL_REQUEST_UICC_AKA_AUTHENTICATE, ''RIL_REQUEST_UICC_AKA_AUTHENTICATE''),
     (RIL_REQUEST_UICC_GBA_AUTHENTICATE_BOOTSTRAP, ''RIL_REQUEST_UICC_GBA_AUTHENTICATE_BOOTSTRAP''),
     (RIL_REQUEST_UICC_GBA_AUTHENTICATE_NAF, ''RIL_REQUEST_UICC_GBA_AUTHENTICATE_NAF''),
     (RIL_REQUEST_STK_EVDL_CALL_BY_AP, ''RIL_REQUEST_STK_EVDL_CALL_BY_AP''),
     (RIL_REQUEST_GET_FEMTOCELL_LIST, ''RIL_REQUEST_GET_FEMTOCELL_LIST''),
     (RIL_REQUEST_ABORT_FEMTOCELL_LIST, ''RIL_REQUEST_ABORT_FEMTOCELL_LIST''),
     (RIL_REQUEST_SELECT_FEMTOCELL, ''RIL_REQUEST_SELECT_FEMTOCELL''),
     (RIL_REQUEST_SEND_OPLMN, ''RIL_REQUEST_SEND_OPLMN''),
     (RIL_REQUEST_GET_OPLMN_VERSION, ''RIL_REQUEST_GET_OPLMN_VERSION''),
     (RIL_REQUEST_ABORT_QUERY_AVAILABLE_NETWORKS, ''RIL_REQUEST_ABORT_QUERY_AVAILABLE_NETWORKS''),
     (RIL_REQUEST_DIAL_UP_CSD, ''RIL_REQUEST_DIAL_UP_CSD''),
     (RIL_REQUEST_SET_TELEPHONY_MODE, ''RIL_REQUEST_SET_TELEPHONY_MODE''),
     (RIL_REQUEST_HANGUP_ALL, ''RIL_REQUEST_HANGUP_ALL''),
     (RIL_REQUEST_FORCE_RELEASE_CALL, ''RIL_REQUEST_FORCE_RELEASE_CALL''),
     (RIL_REQUEST_SET_CALL_INDICATION, ''RIL_REQUEST_SET_CALL_INDICATION''),
     (RIL_REQUEST_EMERGENCY_DIAL, ''RIL_REQUEST_EMERGENCY_DIAL''),
     (RIL_REQUEST_SET_ECC_SERVICE_CATEGORY, ''RIL_REQUEST_SET_ECC_SERVICE_CATEGORY''),
     (RIL_REQUEST_SET_ECC_LIST, ''RIL_REQUEST_SET_ECC_LIST'')]"

text \<open>
  and its unsolicited responses.
\<close>

definition requestNames_mtk_unsol :: "(int \<times> string) list" where
  "requestNames_mtk_unsol = [
     (RIL_UNSOL_NEIGHBORING_CELL_INFO, ''RIL_UNSOL_NEIGHBORING_CELL_INFO''),
     (RIL_UNSOL_NETWORK_INFO, ''RIL_UNSOL_NETWORK_INFO''),
     (RIL_UNSOL_PHB_READY_NOTIFICATION, ''RIL_UNSOL_PHB_READY_NOTIFICATION''),
     (RIL_UNSOL_SIM_INSERTED_STATUS, ''RIL_UNSOL_SIM_INSERTED_STATUS''),
     (RIL_UNSOL_RADIO_TEMPORARILY_UNAVAILABLE, ''RIL_UNSOL_RADIO_TEMPORARILY_UNAVAILABLE''),
     (RIL_UNSOL_ME_SMS_STORAGE_FULL, ''RIL_UNSOL_ME_SMS_STORAGE_FULL''),
     (RIL_UNSOL_SMS_READY_NOTIFICATION, ''RIL_UNSOL_SMS_READY_NOTIFICATION''),
     (RIL_UNSOL_SCRI_RESULT, ''RIL_UNSOL_SCRI_RESULT''),
     (RIL_UNSOL_SIM_MISSING, ''RIL_UNSOL_SIM_MISSING''),
     (RIL_UNSOL_GPRS_DETACH, ''RIL_UNSOL_GPRS_DETACH''),
     (RIL_UNSOL_ATCI_RESPONSE, ''RIL_UNSOL_ATCI_RESPONSE''),
     (RIL_UNSOL_SIM_RECOVERY, ''RIL_UNSOL_SIM_RECOVERY''),
     (RIL_UNSOL_VIRTUAL_SIM_ON, ''RIL_UNSOL_VIRTUAL_SIM_ON''),
     (RIL_UNSOL_VIRTUAL_SIM_OFF, ''RIL_UNSOL_VIRTUAL_SIM_OFF''),
     (RIL_UNSOL_INVALID_SIM, ''RIL_UNSOL_INVALID_SIM''),
     (RIL_UNSOL_RESPONSE_PS_NETWORK_STATE_CHANGED, ''RIL_UNSOL_RESPONSE_PS_NETWORK_STATE_CHANGED''),
     (RIL_UNSOL_RESPONSE_ACMT, ''RIL_UNSOL_RESPONSE_ACMT''),
     (RIL_UNSOL_EF_CSP_PLMN_MODE_BIT, ''RIL_UNSOL_EF_CSP_PLMN_MODE_BIT''),
     (RIL_UNSOL_IMEI_LOCK, ''RIL_UNSOL_IMEI_LOCK''),
     (RIL_UNSOL_RESPONSE_MMRR_STATUS_CHANGED, ''RIL_UNSOL_RESPONSE_MMRR_STATUS_CHANGED''),
     (RIL_UNSOL_SIM_PLUG_OUT, ''RIL_UNSOL_SIM_PLUG_OUT''),
     (RIL_UNSOL_SIM_PLUG_IN, ''RIL_UNSOL_SIM_PLUG_IN''),
     (RIL_UNSOL_RESPONSE_ETWS_NOTIFICATION, ''RIL_UNSOL_RESPONSE_ETWS_NOTIFICATION''),
     (RIL_UNSOL_RESPONSE_PLMN_CHANGED, ''RIL_UNSOL_RESPONSE_PLMN_CHANGED''),
     (RIL_UNSOL_RESPONSE_REGISTRATION_SUSPENDED, ''RIL_UNSOL_RESPONSE_REGISTRATION_SUSPENDED''),
     (RIL_UNSOL_STK_EVDL_CALL, ''RIL_UNSOL_STK_EVDL_CALL''),
     (RIL_UNSOL_DATA_PACKETS_FLUSH, ''RIL_UNSOL_DATA_PACKETS_FLUSH''),
     (RIL_UNSOL_FEMTOCELL_INFO, ''RIL_UNSOL_FEMTOCELL_INFO''),
     (RIL_UNSOL_STK_SETUP_MENU_RESET, ''RIL_UNSOL_STK_SETUP_MENU_RESET''),
     (RIL_UNSOL_APPLICATION_SESSION_ID_CHANGED, ''RIL_UNSOL_APPLICATION_SESSION_ID_CHANGED''),
     (RIL_UNSOL_ECONF_SRVCC_INDICATION, ''RIL_UNSOL_ECONF_SRVCC_INDICATION''),
     (RIL_UNSOL_IMS_ENABLE_DONE, ''RIL_UNSOL_IMS_ENABLE_DONE''),
     (RIL_UNSOL_IMS_DISABLE_DONE, ''RIL_UNSOL_IMS_DISABLE_DONE''),
     (RIL_UNSOL_IMS_REGISTRATION_INFO, ''RIL_UNSOL_IMS_REGISTRATION_INFO''),
     (RIL_UNSOL_DEDICATE_BEARER_ACTIVATED, ''RIL_UNSOL_DEDICATE_BEARER_ACTIVATED''),
     (RIL_UNSOL_DEDICATE_BEARER_MODIFIED, ''RIL_UNSOL_DEDICATE_BEARER_MODIFIED''),
     (RIL_UNSOL_DEDICATE_BEARER_DEACTIVATED, ''RIL_UNSOL_DEDICATE_BEARER_DEACTIVATED''),
     (RIL_UNSOL_RAC_UPDATE, ''RIL_UNSOL_RAC_UPDATE''),
     (RIL_UNSOL_ECONF_RESULT_INDICATION, ''RIL_UNSOL_ECONF_RESULT_INDICATION''),
     (RIL_UNSOL_MELOCK_NOTIFICATION, ''RIL_UNSOL_MELOCK_NOTIFICATION''),
     (RIL_UNSOL_CALL_FORWARDING, ''RIL_UNSOL_CALL_FORWARDING''),
     (RIL_UNSOL_CRSS_NOTIFICATION, ''RIL_UNSOL_CRSS_NOTIFICATION''),
     (RIL_UNSOL_INCOMING_CALL_INDICATION, ''RIL_UNSOL_INCOMING_CALL_INDICATION''),
     (RIL_UNSOL_CIPHER_INDICATION, ''RIL_UNSOL_CIPHER_INDICATION''),
     (RIL_UNSOL_CNAP, ''RIL_UNSOL_CNAP''),
     (RIL_UNSOL_SIM_COMMON_SLOT_NO_CHANGED, ''RIL_UNSOL_SIM_COMMON_SLOT_NO_CHANGED''),
     (RIL_UNSOL_DATA_ALLOWED, ''RIL_UNSOL_DATA_ALLOWED''),
     (RIL_UNSOL_STK_CALL_CTRL, ''RIL_UNSOL_STK_CALL_CTRL''),
     (RIL_UNSOL_VOLTE_EPS_NETWORK_FEATURE_SUPPORT, ''RIL_UNSOL_VOLTE_EPS_NETWORK_FEATURE_SUPPORT''),
     (RIL_UNSOL_CALL_INFO_INDICATION, ''RIL_UNSOL_CALL_INFO_INDICATION''),
     (RIL_UNSOL_VOLTE_EPS_NETWORK_FEATURE_INFO, ''RIL_UNSOL_VOLTE_EPS_NETWORK_FEATURE_INFO''),
     (RIL_UNSOL_SRVCC_HANDOVER_INFO_INDICATION, ''RIL_UNSOL_SRVCC_HANDOVER_INFO_INDICATION''),
     (RIL_UNSOL_SPEECH_CODEC_INFO, ''RIL_UNSOL_SPEECH_CODEC_INFO''),
     (RIL_UNSOL_MD_STATE_CHANGE, ''RIL_UNSOL_MD_STATE_CHANGE''),
     (RIL_UNSOL_REMOVE_RESTRICT_EUTRAN, ''RIL_UNSOL_REMOVE_RESTRICT_EUTRAN''),
     (RIL_UNSOL_MO_DATA_BARRING_INFO, ''RIL_UNSOL_MO_DATA_BARRING_INFO''),
     (RIL_UNSOL_SSAC_BARRING_INFO, ''RIL_UNSOL_SSAC_BARRING_INFO''),
     (RIL_UNSOL_SIP_CALL_PROGRESS_INDICATOR, ''RIL_UNSOL_SIP_CALL_PROGRESS_INDICATOR''),
     (RIL_UNSOL_ABNORMAL_EVENT, ''RIL_UNSOL_ABNORMAL_EVENT''),
     (RIL_UNSOL_EMERGENCY_BEARER_SUPPORT_NOTIFY, ''RIL_UNSOL_EMERGENCY_BEARER_SUPPORT_NOTIFY''),
     (RIL_UNSOL_INTER_3GPP_IRAT_STATE_CHANGE, ''RIL_UNSOL_INTER_3GPP_IRAT_STATE_CHANGE''),
     (RIL_UNSOL_LTE_BG_SEARCH_STATUS, ''RIL_UNSOL_LTE_BG_SEARCH_STATUS''),
     (RIL_UNSOL_GMSS_RAT_CHANGED, ''RIL_UNSOL_GMSS_RAT_CHANGED''),
     (RIL_UNSOL_CDMA_CARD_TYPE, ''RIL_UNSOL_CDMA_CARD_TYPE''),
     (RIL_UNSOL_IMS_ENABLE_START, ''RIL_UNSOL_IMS_ENABLE_START''),
     (RIL_UNSOL_IMS_DISABLE_START, ''RIL_UNSOL_IMS_DISABLE_START''),
     (RIL_UNSOL_IMSI_REFRESH_DONE, ''RIL_UNSOL_IMSI_REFRESH_DONE''),
     (RIL_UNSOL_EUSIM_READY, ''RIL_UNSOL_EUSIM_READY''),
     (RIL_UNSOL_STK_BIP_PROACTIVE_COMMAND, ''RIL_UNSOL_STK_BIP_PROACTIVE_COMMAND''),
     (RIL_UNSOL_WORLD_MODE_CHANGED, ''RIL_UNSOL_WORLD_MODE_CHANGED''),
     (RIL_UNSOL_VT_STATUS_INFO, ''RIL_UNSOL_VT_STATUS_INFO''),
     (RIL_UNSOL_VT_RING_INFO, ''RIL_UNSOL_VT_RING_INFO''),
     (RIL_UNSOL_VSIM_OPERATION_INDICATION, ''RIL_UNSOL_VSIM_OPERATION_INDICATION''),
     (RIL_UNSOL_SET_ATTACH_APN, ''RIL_UNSOL_SET_ATTACH_APN''),
     (RIL_UNSOL_MAL_AT_INFO, ''RIL_UNSOL_MAL_AT_INFO''),
     (RIL_UNSOL_MAIN_SIM_INFO, ''RIL_UNSOL_MAIN_SIM_INFO'')]"

definition requestToString :: "int \<Rightarrow> string" where
  "requestToString request =
     (case map_of (requestNames_aosp @ requestNames_unsol @ requestNames_mtk @ requestNames_mtk_unsol) request of
        Some s \<Rightarrow> s | None \<Rightarrow> ''<unknown request>'')"

text \<open>
  The cases of \<open>failCauseToString\<close>; \<open>FEATURE_MULTIMODE_ANDROID\<close> is not defined.
\<close>

definition failCauseNames :: "(int \<times> string) list" where
  "failCauseNames = [
     (RIL_E_SUCCESS, ''E_SUCCESS''),
     (RIL_E_RADIO_NOT_AVAILABLE, ''E_RADIO_NOT_AVAILABLE''),
     (RIL_E_GENERIC_FAILURE, ''E_GENERIC_FAILURE''),
     (RIL_E_PASSWORD_INCORRECT, ''E_PASSWORD_INCORRECT''),
     (RIL_E_SIM_PIN2, ''E_SIM_PIN2''),
     (RIL_E_SIM_PUK2, ''E_SIM_PUK2''),
     (RIL_E_REQUEST_NOT_SUPPORTED, ''E_REQUEST_NOT_SUPPORTED''),
     (RIL_E_CANCELLED, ''E_CANCELLED''),
     (RIL_E_OP_NOT_ALLOWED_DURING_VOICE_CALL, ''E_OP_NOT_ALLOWED_DURING_VOICE_CALL''),
     (RIL_E_OP_NOT_ALLOWED_BEFORE_REG_TO_NW, ''E_OP_NOT_ALLOWED_BEFORE_REG_TO_NW''),
     (RIL_E_SMS_SEND_FAIL_RETRY, ''E_SMS_SEND_FAIL_RETRY''),
     (RIL_E_SIM_ABSENT, ''E_SIM_ABSENT''),
     (RIL_E_ILLEGAL_SIM_OR_ME, ''E_ILLEGAL_SIM_OR_ME''),
     (RIL_E_FDN_CHECK_FAILURE, ''E_FDN_CHECK_FAILURE''),
     (RIL_E_MISSING_RESOURCE, ''E_MISSING_RESOURCE''),
     (RIL_E_NO_SUCH_ELEMENT, ''E_NO_SUCH_ELEMENT''),
     (RIL_E_DIAL_MODIFIED_TO_USSD, ''E_DIAL_MODIFIED_TO_USSD''),
     (RIL_E_DIAL_MODIFIED_TO_SS, ''E_DIAL_MODIFIED_TO_SS''),
     (RIL_E_DIAL_MODIFIED_TO_DIAL, ''E_DIAL_MODIFIED_TO_DIAL''),
     (RIL_E_USSD_MODIFIED_TO_DIAL, ''E_USSD_MODIFIED_TO_DIAL''),
     (RIL_E_USSD_MODIFIED_TO_SS, ''E_USSD_MODIFIED_TO_SS''),
     (RIL_E_USSD_MODIFIED_TO_USSD, ''E_USSD_MODIFIED_TO_USSD''),
     (RIL_E_SS_MODIFIED_TO_DIAL, ''E_SS_MODIFIED_TO_DIAL''),
     (RIL_E_SS_MODIFIED_TO_USSD, ''E_SS_MODIFIED_TO_USSD''),
     (RIL_E_SUBSCRIPTION_NOT_SUPPORTED, ''E_SUBSCRIPTION_NOT_SUPPORTED''),
     (RIL_E_SS_MODIFIED_TO_SS, ''E_SS_MODIFIED_TO_SS''),
     (RIL_E_LCE_NOT_SUPPORTED, ''E_LCE_NOT_SUPPORTED''),
     (RIL_E_NO_MEMORY, ''E_NO_MEMORY''),
     (RIL_E_INTERNAL_ERR, ''E_INTERNAL_ERR''),
     (RIL_E_SYSTEM_ERR, ''E_SYSTEM_ERR''),
     (RIL_E_MODEM_ERR, ''E_MODEM_ERR''),
     (RIL_E_INVALID_STATE, ''E_INVALID_STATE''),
     (RIL_E_NO_RESOURCES, ''E_NO_RESOURCES''),
     (RIL_E_SIM_ERR, ''E_SIM_ERR''),
     (RIL_E_INVALID_ARGUMENTS, ''E_INVALID_ARGUMENTS''),
     (RIL_E_INVALID_SIM_STATE, ''E_INVALID_SIM_STATE''),
     (RIL_E_INVALID_MODEM_STATE, ''E_INVALID_MODEM_STATE''),
     (RIL_E_INVALID_CALL_ID, ''E_INVALID_CALL_ID''),
     (RIL_E_NO_SMS_TO_ACK, ''E_NO_SMS_TO_ACK''),
     (RIL_E_NETWORK_ERR, ''E_NETWORK_ERR''),
     (RIL_E_REQUEST_RATE_LIMITED, ''E_REQUEST_RATE_LIMITED''),
     (RIL_E_SIM_BUSY, ''E_SIM_BUSY''),
     (RIL_E_SIM_FULL, ''E_SIM_FULL''),
     (RIL_E_NETWORK_REJECT, ''E_NETWORK_REJECT''),
     (RIL_E_OPERATION_NOT_ALLOWED, ''E_OPERATION_NOT_ALLOWED''),
     (RIL_E_EMPTY_RECORD, ''E_EMPTY_RECORD''),
     (RIL_E_INVALID_SMS_FORMAT, ''E_INVALID_SMS_FORMAT''),
     (RIL_E_ENCODING_ERR, ''E_ENCODING_ERR''),
     (RIL_E_INVALID_SMSC_ADDRESS, ''E_INVALID_SMSC_ADDRESS''),
     (RIL_E_NO_SUCH_ENTRY, ''E_NO_SUCH_ENTRY''),
     (RIL_E_NETWORK_NOT_READY, ''E_NETWORK_NOT_READY''),
     (RIL_E_NOT_PROVISIONED, ''E_NOT_PROVISIONED''),
     (RIL_E_NO_SUBSCRIPTION, ''E_NO_SUBSCRIPTION''),
     (RIL_E_NO_NETWORK_FOUND, ''E_NO_NETWORK_FOUND''),
     (RIL_E_DEVICE_IN_USE, ''E_DEVICE_IN_USE''),
     (RIL_E_ABORTED, ''E_ABORTED''),
     (RIL_E_INVALID_RESPONSE, ''INVALID_RESPONSE''),
     (RIL_E_OEM_ERROR_1, ''E_OEM_ERROR_1''),
     (RIL_E_OEM_ERROR_2, ''E_OEM_ERROR_2''),
     (RIL_E_OEM_ERROR_3, ''E_OEM_ERROR_3''),
     (RIL_E_OEM_ERROR_4, ''E_OEM_ERROR_4''),
     (RIL_E_OEM_ERROR_5, ''E_OEM_ERROR_5''),
     (RIL_E_OEM_ERROR_6, ''E_OEM_ERROR_6''),
     (RIL_E_OEM_ERROR_7, ''E_OEM_ERROR_7''),
     (RIL_E_OEM_ERROR_8, ''E_OEM_ERROR_8''),
     (RIL_E_OEM_ERROR_9, ''E_OEM_ERROR_9''),
     (RIL_E_OEM_ERROR_10, ''E_OEM_ERROR_10''),
     (RIL_E_OEM_ERROR_11, ''E_OEM_ERROR_11''),
     (RIL_E_OEM_ERROR_12, ''E_OEM_ERROR_12''),
     (RIL_E_OEM_ERROR_13, ''E_OEM_ERROR_13''),
     (RIL_E_OEM_ERROR_14, ''E_OEM_ERROR_14''),
     (RIL_E_OEM_ERROR_15, ''E_OEM_ERROR_15''),
     (RIL_E_OEM_ERROR_16, ''E_OEM_ERROR_16''),
     (RIL_E_OEM_ERROR_17, ''E_OEM_ERROR_17''),
     (RIL_E_OEM_ERROR_18, ''E_OEM_ERROR_18''),
     (RIL_E_OEM_ERROR_19, ''E_OEM_ERROR_19''),
     (RIL_E_OEM_ERROR_20, ''E_OEM_ERROR_20''),
     (RIL_E_OEM_ERROR_21, ''E_OEM_ERROR_21''),
     (RIL_E_OEM_ERROR_22, ''E_OEM_ERROR_22''),
     (RIL_E_OEM_ERROR_23, ''E_OEM_ERROR_23''),
     (RIL_E_OEM_ERROR_24, ''E_OEM_ERROR_24''),
     (RIL_E_OEM_ERROR_25, ''E_OEM_ERROR_25'')]"

definition failCauseToString :: "int \<Rightarrow> string" where
  "failCauseToString e = (case map_of failCauseNames e of Some s \<Rightarrow> s | None \<Rightarrow> ''<unknown error>'')"

definition radioStateToString :: "int \<Rightarrow> string" where
  "radioStateToString s =
     (if s = 0 then ''RADIO_OFF'' else if s = 1 then ''RADIO_UNAVAILABLE'' else if s = 10 then ''RADIO_ON''
      else ''<unknown state>'')"

definition callStateToString :: "int \<Rightarrow> string" where
  "callStateToString s =
     (if s = 0 then ''ACTIVE'' else if s = 1 then ''HOLDING'' else if s = 2 then ''DIALING''
      else if s = 3 then ''ALERTING'' else if s = 4 then ''INCOMING'' else if s = 5 then ''WAITING''
      else ''<unknown state>'')"

definition rilSocketIdToString :: "int \<Rightarrow> string" where
  "rilSocketIdToString socket_id =
     (if socket_id = 0 then ''RIL_SOCKET_1'' else if socket_id = 1 then ''RIL_SOCKET_2'' else ''not a valid RIL'')"

text \<open>\<open>RILChannelId\<close> is an enumeration without negative values, so \<open>%\<close> is \<open>mod\<close>.\<close>

definition proxyString :: "int \<Rightarrow> string" where
  "proxyString cid =
     (let i = cid mod 6 in
      if i = RIL_URC then ''PROXY_4'' else if i = RIL_CMD_1 then ''PROXY_3'' else if i = RIL_CMD_2 then ''PROXY_2''
      else if i = RIL_CMD_3 then ''PROXY_1'' else if i = RIL_CMD_4 then ''PROXY_5'' else if i = RIL_ATCI then ''PROXY_6''
      else ''ERROR'')"

section \<open>What the tables contain\<close>

lemma s_commands_numbers: "map requestNumber s_commands = [0..140]"
  by code_simp

lemma aosp_unsol_numbers: "map unsolNumber aosp_unsolResponses = [1000..1047]"
  by code_simp

lemma s_commands_length: "length s_commands = 141"
  by code_simp

lemma s_commands_nth: "k < 141 \<Longrightarrow> requestNumber (s_commands ! k) = int k"
  using arg_cong [OF s_commands_numbers, of "\<lambda>xs. xs ! k"] by (simp add: s_commands_length)

lemma s_commands_proxies: "list_all (\<lambda>c. 0 \<le> proxyId c \<and> proxyId c < RIL_CHANNEL_OFFSET) s_commands"
  by code_simp

lemma proxyId_range: "k < 141 \<Longrightarrow> 0 \<le> proxyId (s_commands ! k) \<and> proxyId (s_commands ! k) < 6"
  using s_commands_proxies by (simp add: list_all_length s_commands_length RIL_CHANNEL_OFFSET_def)

lemma name_keys_aosp: "map fst requestNames_aosp = [1..137] @ [141, 800]"
  by code_simp

lemma name_keys_unsol: "map fst requestNames_unsol = [1000..1048]"
  by code_simp

lemma name_keys_mtk: "map fst requestNames_mtk = [2000..2089]"
  by code_simp

lemma name_keys_mtk_unsol: "map fst requestNames_mtk_unsol = [3000..3075]"
  by code_simp

end
