(* ===== verification/RilChannels.thy ===== *)
theory RilChannels
  imports RilTables
begin

text \<open>
  Channels and threads of libril (\<open>ril.cpp\<close>): the table of recent threads (\<open>addThreadPid\<close>), the
  channel of the request a thread is dispatching (\<open>forgeSetDispatchChannel\<close>), the answer libril gives
  to the vendor's \<open>RIL_myProxyIdByThread\<close>, the per-channel mutexes, and the queues that hand expired
  proxy timers to one worker per channel.

  A thread is its \<open>pthread_self\<close>, an integer that is not 0. \<open>RIL_queryMyProxyIdByThread\<close> and the
  properties of the system are arguments. Queue nodes are records in a heap whose address 0 is \<open>NULL\<close>;
  the queues themselves are arrays of head and tail pointers, as in the code.
\<close>

section \<open>The table of threads\<close>

definition MAX_RIL_CHANNELS :: nat where "MAX_RIL_CHANNELS = 12"

record ThreadProxyId =
  tp_cid :: int
  tp_pthread :: int

definition no_thread :: ThreadProxyId where
  "no_thread = \<lparr>tp_cid = 0, tp_pthread = 0\<rparr>"

text \<open>The first loop of \<open>addThreadPid\<close>: the index of the entry to replace.\<close>

function thread_slot :: "ThreadProxyId list \<Rightarrow> int \<Rightarrow> nat \<Rightarrow> nat" where
  "thread_slot tp tid i =
     (if i < MAX_RIL_CHANNELS \<and> tp_pthread (tp ! i) \<noteq> 0 \<and> tp_pthread (tp ! i) \<noteq> tid
      then thread_slot tp tid (i + 1) else i)"
  by pat_completeness auto
termination
  by (relation "measure (\<lambda>(_, _, i). MAX_RIL_CHANNELS - i)") auto

declare thread_slot.simps [simp del]

text \<open>The second loop: every entry above index \<open>j\<close> moves down by one.\<close>

fun shift_threads :: "nat \<Rightarrow> ThreadProxyId list \<Rightarrow> ThreadProxyId list" where
  "shift_threads 0 tp = tp"
| "shift_threads (Suc j) tp = shift_threads j (tp[Suc j := tp ! j])"

definition addThreadPid :: "int \<Rightarrow> int \<Rightarrow> ThreadProxyId list \<Rightarrow> ThreadProxyId list" where
  "addThreadPid cid tid tp =
     (let i = thread_slot tp tid 0;
          i = (if i = MAX_RIL_CHANNELS then MAX_RIL_CHANNELS - 1 else i);
          tp = shift_threads i tp
      in tp[0 := \<lparr>tp_cid = cid, tp_pthread = tid\<rparr>])"

section \<open>The channel a thread is dispatching\<close>

type_synonym properties = "string \<Rightarrow> string"

definition property_get :: "properties \<Rightarrow> string \<Rightarrow> string \<Rightarrow> string" where
  "property_get props key def = (if props key = [] then def else props key)"

record channel_state =
  threadPid :: "ThreadProxyId list"
  dispatchChannelKey :: "int \<Rightarrow> int"
  s_ctxfixArmed :: int

text \<open>The thread-specific value is \<open>cid + 1\<close>; 0 is an unset key.\<close>

definition forgeGetDispatchChannel :: "int \<Rightarrow> channel_state \<Rightarrow> int" where
  "forgeGetDispatchChannel self st =
     (if dispatchChannelKey st self = 0 then - 1 else dispatchChannelKey st self - 1)"

definition forgeSetDispatchChannel :: "int \<Rightarrow> int \<Rightarrow> channel_state \<Rightarrow> channel_state" where
  "forgeSetDispatchChannel self cid st =
     st\<lparr>dispatchChannelKey := (dispatchChannelKey st)(self := cid + 1)\<rparr>"

definition forgeCtxfixArmed :: "properties \<Rightarrow> channel_state \<Rightarrow> bool \<times> channel_state" where
  "forgeCtxfixArmed props st =
     (if s_ctxfixArmed st \<noteq> 0 then (s_ctxfixArmed st > 0, st)
      else if property_get props ''persist.m681.ril.ctxfix'' [] = ''force'' then (True, st\<lparr>s_ctxfixArmed := 1\<rparr>)
      else if property_get props ''persist.m681.ril.ctxfix'' [] = ''off'' then (False, st\<lparr>s_ctxfixArmed := - 1\<rparr>)
      else if property_get props ''mtk.md1.status'' [] = ''ready'' then (True, st\<lparr>s_ctxfixArmed := 1\<rparr>)
      else (False, st))"

text \<open>
  The lookup loop of \<open>RIL_myProxyIdByThread\<close> tests an entry before the bound: the index it stops at,
  or \<open>None\<close> when it reads the entry past the end of the table.
\<close>

function find_thread :: "ThreadProxyId list \<Rightarrow> int \<Rightarrow> nat \<Rightarrow> nat option" where
  "find_thread tp self i =
     (if i \<ge> MAX_RIL_CHANNELS then None
      else if tp_pthread (tp ! i) \<noteq> self then find_thread tp self (i + 1) else Some i)"
  by pat_completeness auto
termination
  by (relation "measure (\<lambda>(_, _, i). MAX_RIL_CHANNELS - i)") auto

declare find_thread.simps [simp del]

text \<open>
  \<open>RIL_myProxyIdByThread\<close>: the channel found in the table is dropped; what is returned is the answer
  \<open>query\<close> of librilmtk or, when that is no channel, the channel being dispatched.
\<close>

definition RIL_myProxyIdByThread :: "properties \<Rightarrow> int \<Rightarrow> int \<Rightarrow> channel_state \<Rightarrow> int \<times> channel_state" where
  "RIL_myProxyIdByThread props query self st =
     (let dispatchChannelId = forgeGetDispatchChannel self st in
      if (query < 0 \<or> query \<ge> int MAX_RIL_CHANNELS) \<and> dispatchChannelId \<ge> 0 then
        (case forgeCtxfixArmed props st of
           (armed, st) \<Rightarrow> (if armed then dispatchChannelId else query, st))
      else (query, st))"

text \<open>
  A request buffer with its format \<open>BUF_FMTS\<close>: the pointers the format says it holds, 0 being \<open>NULL\<close>.
  An array of pointers is the list of its \<open>buflen / sizeof\<close> elements; a data profile is its own
  address and its four strings.
\<close>

datatype buffer =
    FMT_IGNORE
  | FMT_VOID
  | FMT_INTS
  | FMT_STR nat
  | FMT_STRS "nat list"
  | FMT_CallFWST nat
  | FMT_IccAPDU nat
  | FMT_SIMIO nat nat nat nat
  | FMT_WrSMSSIM nat nat
  | FMT_RAW
  | FMT_AttchAPN nat nat nat nat nat
  | FMT_ImsSms nat nat nat
  | FMT_SIMAUTH nat nat
  | FMT_DATAPROF "(nat \<times> nat \<times> nat \<times> nat \<times> nat) list"

text \<open>The addresses that are freed, in order.\<close>

definition memsetAndFreeStrings :: "nat list \<Rightarrow> nat list" where
  "memsetAndFreeStrings ptrs = filter (\<lambda>ptr. ptr \<noteq> 0) ptrs"

fun clearPendingBuffer :: "buffer \<Rightarrow> nat list" where
  "clearPendingBuffer FMT_INTS = []"
| "clearPendingBuffer (FMT_STR pString) = memsetAndFreeStrings [pString]"
| "clearPendingBuffer (FMT_STRS pStrings) = concat (map (\<lambda>p. memsetAndFreeStrings [p]) pStrings)"
| "clearPendingBuffer (FMT_CallFWST number) = memsetAndFreeStrings [number]"
| "clearPendingBuffer (FMT_IccAPDU adata) = memsetAndFreeStrings [adata]"
| "clearPendingBuffer (FMT_SIMIO path iodata pin2 aidPtr) = memsetAndFreeStrings [path, iodata, pin2, aidPtr]"
| "clearPendingBuffer (FMT_WrSMSSIM smsc pdu) = memsetAndFreeStrings [smsc, pdu]"
| "clearPendingBuffer (FMT_AttchAPN apn protocol username password operatorNumeric) =
     memsetAndFreeStrings [apn, protocol, username, password, operatorNumeric]"
| "clearPendingBuffer (FMT_ImsSms pStrings s0 s1) = memsetAndFreeStrings [s0, s1] @ [pStrings]"
| "clearPendingBuffer (FMT_SIMAUTH authData aid) = memsetAndFreeStrings [authData, aid]"
| "clearPendingBuffer (FMT_DATAPROF profiles) =
     concat (map (\<lambda>(dp, apn, protocol, user, password). memsetAndFreeStrings [apn, protocol, user, password] @ [dp]) profiles)"
| "clearPendingBuffer FMT_VOID = []"
| "clearPendingBuffer FMT_RAW = []"
| "clearPendingBuffer FMT_IGNORE = []"

text \<open>
  \<open>my_enqueue\<close> without \<open>RIL_CHANNEL_QUEUING\<close>: the vendor's \<open>onRequest\<close> runs on the caller's thread
  with the request's channel published; the buffer is cleaned up unless its format is \<open>FMT_IGNORE\<close>.
\<close>

definition my_enqueue :: "(channel_state \<Rightarrow> channel_state) \<Rightarrow> buffer \<Rightarrow> int \<Rightarrow> int \<Rightarrow> channel_state \<Rightarrow> channel_state \<times> nat list" where
  "my_enqueue onRequest buf cid self st =
     (let savedChannelId = forgeGetDispatchChannel self st;
          st = forgeSetDispatchChannel self cid st;
          st = onRequest st;
          st = forgeSetDispatchChannel self savedChannelId st
      in (st, if buf \<noteq> FMT_IGNORE then clearPendingBuffer buf else []))"

section \<open>Channel mutexes\<close>

definition MTK_CHANNEL_COUNT :: int where "MTK_CHANNEL_COUNT = 24"

definition mtkChannelIndex :: "int \<Rightarrow> int" where
  "mtkChannelIndex cid = (if cid < 0 then 0 else cid mod MTK_CHANNEL_COUNT)"

section \<open>Proxy jobs\<close>

record proxy_job =
  job_cb :: nat
  job_param :: nat
  job_ch :: nat
  job_next :: nat

record proxy_state =
  jobs :: "nat \<Rightarrow> proxy_job"
  s_proxyQHead :: "nat list"
  s_proxyQTail :: "nat list"
  s_proxyWorkerUp :: "bool list"

definition proxy_init :: proxy_state where
  "proxy_init = \<lparr>jobs = (\<lambda>_. \<lparr>job_cb = 0, job_param = 0, job_ch = 0, job_next = 0\<rparr>),
     s_proxyQHead = replicate 24 0, s_proxyQTail = replicate 24 0, s_proxyWorkerUp = replicate 24 False\<rparr>"

text \<open>\<open>RIL_requestProxyTimedCallbackMtk\<close> once \<open>calloc\<close> has returned the address \<open>job\<close>.\<close>

definition make_job :: "nat \<Rightarrow> nat \<Rightarrow> nat \<Rightarrow> int \<Rightarrow> proxy_state \<Rightarrow> proxy_state" where
  "make_job job cb param proxy st =
     st\<lparr>jobs := (jobs st)(job := \<lparr>job_cb = cb, job_param = param, job_ch = nat (mtkChannelIndex proxy), job_next = 0\<rparr>)\<rparr>"

text \<open>\<open>created\<close> says whether \<open>pthread_create\<close> would succeed.\<close>

definition mtkProxyTimerFired :: "bool \<Rightarrow> nat \<Rightarrow> proxy_state \<Rightarrow> proxy_state" where
  "mtkProxyTimerFired created job st =
     (let ch = job_ch (jobs st job);
          h = (jobs st)(job := (jobs st job)\<lparr>job_next := 0\<rparr>);
          tail = s_proxyQTail st ! ch;
          st = (if tail \<noteq> 0 then st\<lparr>jobs := h(tail := (h tail)\<lparr>job_next := job\<rparr>)\<rparr>
                else st\<lparr>jobs := h, s_proxyQHead := (s_proxyQHead st)[ch := job]\<rparr>);
          st = st\<lparr>s_proxyQTail := (s_proxyQTail st)[ch := job]\<rparr>
      in if \<not> s_proxyWorkerUp st ! ch \<and> created
         then st\<lparr>s_proxyWorkerUp := (s_proxyWorkerUp st)[ch := True]\<rparr> else st)"

text \<open>One turn of \<open>mtkProxyWorker\<close>: \<open>None\<close> while it waits, else the job it runs under the channel mutex and frees.\<close>

definition mtkProxyWorker :: "nat \<Rightarrow> proxy_state \<Rightarrow> (nat \<times> proxy_state) option" where
  "mtkProxyWorker ch st =
     (let job = s_proxyQHead st ! ch in
      if job = 0 then None
      else
        let st = st\<lparr>s_proxyQHead := (s_proxyQHead st)[ch := job_next (jobs st job)]\<rparr>;
            st = (if s_proxyQHead st ! ch = 0 then st\<lparr>s_proxyQTail := (s_proxyQTail st)[ch := 0]\<rparr> else st)
        in Some (job, st))"

section \<open>The table of threads as a cache\<close>

text \<open>
  The abstract table: the threads in use, most recent first. A table is well formed when its entries in
  use come first and name distinct threads.
\<close>

definition threads :: "ThreadProxyId list \<Rightarrow> ThreadProxyId list" where
  "threads tp = takeWhile (\<lambda>t. tp_pthread t \<noteq> 0) tp"

definition threads_ok :: "ThreadProxyId list \<Rightarrow> bool" where
  "threads_ok tp \<longleftrightarrow> length tp = MAX_RIL_CHANNELS \<and> distinct (map tp_pthread (threads tp))
     \<and> list_all (\<lambda>t. tp_pthread t = 0) (dropWhile (\<lambda>t. tp_pthread t \<noteq> 0) tp)"

definition remember :: "ThreadProxyId \<Rightarrow> ThreadProxyId list \<Rightarrow> ThreadProxyId list" where
  "remember t ts = take MAX_RIL_CHANNELS (t # filter (\<lambda>u. tp_pthread u \<noteq> tp_pthread t) ts)"

lemma thread_slot_takeWhile:
  assumes "length tp = MAX_RIL_CHANNELS" "i \<le> MAX_RIL_CHANNELS"
  shows "thread_slot tp tid i = i + length (takeWhile (\<lambda>t. tp_pthread t \<noteq> 0 \<and> tp_pthread t \<noteq> tid) (drop i tp))"
  using assms
proof (induction tp tid i rule: thread_slot.induct)
  case (1 tp tid i)
  show ?case
  proof (cases "i < MAX_RIL_CHANNELS")
    case True
    then have "drop i tp = tp ! i # drop (Suc i) tp" using "1.prems" by (simp add: Cons_nth_drop_Suc)
    then show ?thesis using 1 True by (subst thread_slot.simps) simp
  next
    case False
    then show ?thesis using "1.prems" by (subst thread_slot.simps) simp
  qed
qed

lemma shift_threads_length [simp]: "length (shift_threads j tp) = length tp"
  by (induction j tp rule: shift_threads.induct) simp_all

lemma shift_threads_nth:
  "j < length tp \<Longrightarrow> k < length tp \<Longrightarrow>
     shift_threads j tp ! k = (if 0 < k \<and> k \<le> j then tp ! (k - 1) else tp ! k)"
proof (induction j tp rule: shift_threads.induct)
  case (1 tp)
  then show ?case by simp
next
  case (2 j tp)
  then show ?case by (cases "k = Suc j") (auto simp: nth_list_update)
qed

lemma shift_threads_front:
  assumes "j < length tp"
  shows "(shift_threads j tp)[0 := t] = t # take j tp @ drop (Suc j) tp"
proof (rule nth_equalityI)
  show "length ((shift_threads j tp)[0 := t]) = length (t # take j tp @ drop (Suc j) tp)"
    using assms by simp
next
  fix k assume "k < length ((shift_threads j tp)[0 := t])"
  then show "(shift_threads j tp)[0 := t] ! k = (t # take j tp @ drop (Suc j) tp) ! k"
    using assms by (cases k) (simp_all add: shift_threads_nth nth_append)
qed

text \<open>A table splits at the entry that \<open>addThreadPid\<close> replaces.\<close>

lemma addThreadPid_split:
  assumes "length tp = MAX_RIL_CHANNELS"
    and xs_def: "xs = takeWhile (\<lambda>t. tp_pthread t \<noteq> 0 \<and> tp_pthread t \<noteq> tid) tp"
  shows "addThreadPid cid tid tp =
     \<lparr>tp_cid = cid, tp_pthread = tid\<rparr> # (if xs = tp then butlast tp else xs @ drop (Suc (length xs)) tp)"
proof -
  have slot: "thread_slot tp tid 0 = length xs"
    using thread_slot_takeWhile [OF assms(1), of 0] by (simp add: xs_def)
  have tw: "take (length xs) tp = xs" unfolding xs_def by (metis takeWhile_eq_take)
  have le: "length xs \<le> MAX_RIL_CHANNELS" unfolding xs_def using assms(1) by (metis length_takeWhile_le)
  show ?thesis
  proof (cases "xs = tp")
    case True
    then have "addThreadPid cid tid tp =
        \<lparr>tp_cid = cid, tp_pthread = tid\<rparr> # take (MAX_RIL_CHANNELS - 1) tp @ drop MAX_RIL_CHANNELS tp"
      using shift_threads_front [of "MAX_RIL_CHANNELS - 1" tp] assms(1) slot
      by (simp add: addThreadPid_def MAX_RIL_CHANNELS_def)
    then show ?thesis using True assms(1) by (simp add: butlast_conv_take)
  next
    case False
    then have lt: "length xs < MAX_RIL_CHANNELS" using tw le assms(1) by (metis le_neq_implies_less order_refl take_all)
    then show ?thesis
      using shift_threads_front [of "length xs" tp] assms(1) slot tw False by (simp add: addThreadPid_def)
  qed
qed

lemma threads_append:
  "list_all (\<lambda>t. tp_pthread t \<noteq> 0) ys \<Longrightarrow> list_all (\<lambda>t. tp_pthread t = 0) zs \<Longrightarrow>
     threads (ys @ zs) = ys \<and> dropWhile (\<lambda>t. tp_pthread t \<noteq> 0) (ys @ zs) = zs"
  by (cases zs) (auto simp: threads_def list_all_iff takeWhile_append dropWhile_append)

lemma threads_ok_iff:
  "threads_ok tp \<longleftrightarrow> (\<exists>ys zs. tp = ys @ zs \<and> length ys + length zs = MAX_RIL_CHANNELS \<and> distinct (map tp_pthread ys)
     \<and> list_all (\<lambda>t. tp_pthread t \<noteq> 0) ys \<and> list_all (\<lambda>t. tp_pthread t = 0) zs)"
proof
  assume ok: "threads_ok tp"
  have "tp = threads tp @ dropWhile (\<lambda>t. tp_pthread t \<noteq> 0) tp" by (simp add: threads_def)
  moreover have "list_all (\<lambda>t. tp_pthread t \<noteq> 0) (threads tp)"
    by (auto simp: threads_def list_all_iff dest: set_takeWhileD)
  ultimately show "\<exists>ys zs. tp = ys @ zs \<and> length ys + length zs = MAX_RIL_CHANNELS \<and> distinct (map tp_pthread ys)
     \<and> list_all (\<lambda>t. tp_pthread t \<noteq> 0) ys \<and> list_all (\<lambda>t. tp_pthread t = 0) zs"
    using ok unfolding threads_ok_def by (metis length_append)
next
  assume "\<exists>ys zs. tp = ys @ zs \<and> length ys + length zs = MAX_RIL_CHANNELS \<and> distinct (map tp_pthread ys)
     \<and> list_all (\<lambda>t. tp_pthread t \<noteq> 0) ys \<and> list_all (\<lambda>t. tp_pthread t = 0) zs"
  then show "threads_ok tp" by (auto simp: threads_ok_def threads_append)
qed

lemma threads_okI:
  assumes "tp = ys @ zs" "length ys + length zs = MAX_RIL_CHANNELS" "distinct (map tp_pthread ys)"
    "list_all (\<lambda>t. tp_pthread t \<noteq> 0) ys" "list_all (\<lambda>t. tp_pthread t = 0) zs"
  shows "threads_ok tp \<and> threads tp = ys"
  using assms threads_append [OF assms(4,5)] by (auto simp: threads_ok_iff)

lemma filter_other: "tid \<notin> tp_pthread ` set ys \<Longrightarrow> filter (\<lambda>u. tp_pthread u \<noteq> tid) ys = ys"
  by (auto simp: filter_id_conv)

lemma addThreadPid_new:
  assumes "length ys + length zs = MAX_RIL_CHANNELS" "tid \<noteq> 0" "tid \<notin> tp_pthread ` set ys"
    "list_all (\<lambda>t. tp_pthread t \<noteq> 0) ys" "list_all (\<lambda>t. tp_pthread t = 0) zs"
  shows "addThreadPid cid tid (ys @ zs) =
     \<lparr>tp_cid = cid, tp_pthread = tid\<rparr> # take (MAX_RIL_CHANNELS - 1) ys @ tl zs"
proof -
  have tw: "ys = takeWhile (\<lambda>t. tp_pthread t \<noteq> 0 \<and> tp_pthread t \<noteq> tid) (ys @ zs)"
  proof -
    have "takeWhile (\<lambda>t. tp_pthread t \<noteq> 0 \<and> tp_pthread t \<noteq> tid) (ys @ zs)
        = ys @ takeWhile (\<lambda>t. tp_pthread t \<noteq> 0 \<and> tp_pthread t \<noteq> tid) zs"
      using assms(3,4) by (intro takeWhile_append2) (auto simp: list_all_iff)
    moreover have "takeWhile (\<lambda>t. tp_pthread t \<noteq> 0 \<and> tp_pthread t \<noteq> tid) zs = []"
      using assms(5) by (cases zs) auto
    ultimately show ?thesis by simp
  qed
  have "length (ys @ zs) = MAX_RIL_CHANNELS" using assms(1) by simp
  from addThreadPid_split [OF this tw] show ?thesis
    using assms(1) by (cases zs) (auto simp: butlast_conv_take MAX_RIL_CHANNELS_def)
qed

lemma addThreadPid_known:
  assumes "length (xs @ u # vs) + length zs = MAX_RIL_CHANNELS" "tp_pthread u = tid" "tid \<notin> tp_pthread ` set xs"
    "list_all (\<lambda>t. tp_pthread t \<noteq> 0) (xs @ u # vs)"
  shows "addThreadPid cid tid ((xs @ u # vs) @ zs) = \<lparr>tp_cid = cid, tp_pthread = tid\<rparr> # (xs @ vs) @ zs"
proof -
  have "tp_pthread t \<noteq> tid" if "t \<in> set xs" for t using that assms(3) by blast
  then have tw: "xs = takeWhile (\<lambda>t. tp_pthread t \<noteq> 0 \<and> tp_pthread t \<noteq> tid) ((xs @ u # vs) @ zs)"
    using assms(2,4) by (simp add: list_all_iff takeWhile_append)
  have "length ((xs @ u # vs) @ zs) = MAX_RIL_CHANNELS" using assms(1) by simp
  from addThreadPid_split [OF this tw] show ?thesis by simp
qed

lemma addThreadPid_refines_aux:
  assumes "threads_ok tp" "tid \<noteq> 0"
  shows "threads_ok (addThreadPid cid tid tp) \<and>
    threads (addThreadPid cid tid tp) = remember \<lparr>tp_cid = cid, tp_pthread = tid\<rparr> (threads tp)"
proof -
  obtain ys zs where tp: "tp = ys @ zs" and len: "length ys + length zs = MAX_RIL_CHANNELS"
    and dist: "distinct (map tp_pthread ys)" and nz: "list_all (\<lambda>t. tp_pthread t \<noteq> 0) ys"
    and z: "list_all (\<lambda>t. tp_pthread t = 0) zs"
    using assms(1) by (auto simp: threads_ok_iff)
  let ?t = "\<lparr>tp_cid = cid, tp_pthread = tid\<rparr>"
  have ths: "threads tp = ys" using threads_append [OF nz z] tp by simp
  show ?thesis
  proof (cases "tid \<in> tp_pthread ` set ys")
    case False
    let ?ys = "?t # take (MAX_RIL_CHANNELS - 1) ys"
    have add: "addThreadPid cid tid tp = ?ys @ tl zs"
      using addThreadPid_new [OF len assms(2) False nz z] tp by simp
    have nz': "list_all (\<lambda>t. tp_pthread t \<noteq> 0) ?ys" and z': "list_all (\<lambda>t. tp_pthread t = 0) (tl zs)"
      using nz z assms(2) by (auto simp: list_all_iff dest: in_set_takeD list.set_sel(2))
        (metis list.sel(2) list.set_sel(2))
    have dist': "distinct (map tp_pthread ?ys)"
      using dist False by (auto simp: take_map [symmetric] dest: in_set_takeD)
    have len': "length ?ys + length (tl zs) = MAX_RIL_CHANNELS"
      using len by (cases zs) (auto simp: MAX_RIL_CHANNELS_def)
    have "filter (\<lambda>u. tp_pthread u \<noteq> tid) ys = ys" using filter_other [OF False] .
    then have "remember ?t ys = ?ys" by (simp add: remember_def MAX_RIL_CHANNELS_def)
    then show ?thesis using threads_okI [OF add len' dist' nz' z'] ths by simp
  next
    case True
    then obtain u where u: "u \<in> set ys" "tp_pthread u = tid" by blast
    then obtain xs vs where ys: "ys = xs @ u # vs" and xs: "u \<notin> set xs" by (meson split_list_first)
    have notin: "tid \<notin> tp_pthread ` set xs" "tid \<notin> tp_pthread ` set vs" using dist ys u by auto
    have add: "addThreadPid cid tid tp = (?t # xs @ vs) @ zs"
      using addThreadPid_known [of xs u vs zs tid cid] len ys u notin nz tp by simp
    have nz': "list_all (\<lambda>t. tp_pthread t \<noteq> 0) (?t # xs @ vs)" using nz ys assms(2) by simp
    have "filter (\<lambda>w. tp_pthread w \<noteq> tid) ys = xs @ vs"
      using notin [THEN filter_other] ys u by simp
    then have "remember ?t ys = ?t # xs @ vs" using len ys by (simp add: remember_def)
    moreover have "distinct (map tp_pthread (?t # xs @ vs))" using dist ys notin by auto
    ultimately show ?thesis using threads_okI [OF add _ _ nz' z] ths len ys by simp
  qed
qed

section \<open>Proxy queues as lists\<close>

text \<open>\<open>qpath h a xs\<close>: following \<open>next\<close> from \<open>a\<close> visits the jobs \<open>xs\<close> and ends in \<open>NULL\<close>.\<close>

fun qpath :: "(nat \<Rightarrow> proxy_job) \<Rightarrow> nat \<Rightarrow> nat list \<Rightarrow> bool" where
  "qpath h a [] \<longleftrightarrow> a = 0"
| "qpath h a (x # xs) \<longleftrightarrow> a = x \<and> x \<noteq> 0 \<and> qpath h (job_next (h x)) xs"

definition queue_at :: "proxy_state \<Rightarrow> nat \<Rightarrow> nat list \<Rightarrow> bool" where
  "queue_at st ch xs \<longleftrightarrow> qpath (jobs st) (s_proxyQHead st ! ch) xs
     \<and> s_proxyQTail st ! ch = (if xs = [] then 0 else last xs)"

lemma qpath_update_other: "x \<notin> set xs \<Longrightarrow> qpath (h(x := j)) a xs \<longleftrightarrow> qpath h a xs"
  by (induction xs arbitrary: a) auto

lemma qpath_nonzero: "qpath h a xs \<Longrightarrow> 0 \<notin> set xs"
  by (induction xs arbitrary: a) auto

lemma qpath_snoc:
  "qpath h a xs \<Longrightarrow> distinct xs \<Longrightarrow> xs \<noteq> [] \<Longrightarrow> job \<notin> set xs \<Longrightarrow> job \<noteq> 0 \<Longrightarrow> job_next (h job) = 0 \<Longrightarrow>
     qpath (h(last xs := (h (last xs))\<lparr>job_next := job\<rparr>)) a (xs @ [job])"
proof (induction xs arbitrary: a)
  case (Cons x xs)
  show ?case
  proof (cases "xs = []")
    case False
    then have "x \<noteq> last xs" using Cons.prems by auto
    then show ?thesis using Cons False by simp
  qed (use Cons.prems in simp)
qed simp

definition proxy_inv :: "proxy_state \<Rightarrow> nat set \<Rightarrow> nat set \<Rightarrow> (nat \<Rightarrow> nat list) \<Rightarrow> bool" where
  "proxy_inv st live waiting q \<longleftrightarrow>
     length (s_proxyQHead st) = 24 \<and> length (s_proxyQTail st) = 24 \<and> length (s_proxyWorkerUp st) = 24 \<and>
     0 \<notin> live \<and> waiting \<subseteq> live \<and> (\<forall>w \<in> waiting. job_ch (jobs st w) < 24) \<and>
     (\<forall>ch < 24. queue_at st ch (q ch) \<and> distinct (q ch) \<and> set (q ch) \<subseteq> live - waiting \<and>
        (\<forall>x \<in> set (q ch). job_ch (jobs st x) = ch))"

lemma mtkChannelIndex_range: "0 \<le> mtkChannelIndex cid \<and> mtkChannelIndex cid < 24"
  by (simp add: mtkChannelIndex_def MTK_CHANNEL_COUNT_def)

lemma queue_at_other:
  "x \<notin> set xs \<Longrightarrow> queue_at (st\<lparr>jobs := (jobs st)(x := j)\<rparr>) ch xs \<longleftrightarrow> queue_at st ch xs"
  by (simp add: queue_at_def qpath_update_other)

lemma proxy_inv_make_job:
  assumes inv: "proxy_inv st live waiting q" and job: "job \<notin> live" "job \<noteq> 0"
  shows "proxy_inv (make_job job cb param proxy st) (insert job live) (insert job waiting) q"
proof -
  have out: "job \<notin> set (q ch)" if "ch < 24" for ch using inv job that by (auto simp: proxy_inv_def)
  have "job \<notin> waiting" using inv job by (auto simp: proxy_inv_def)
  moreover have "nat (mtkChannelIndex proxy) < 24" using mtkChannelIndex_range [of proxy] by linarith
  moreover have "queue_at (make_job job cb param proxy st) ch (q ch)" if "ch < 24" for ch
    using inv that out [OF that] by (simp add: make_job_def queue_at_other proxy_inv_def)
  ultimately show ?thesis
    using inv job out unfolding proxy_inv_def by (auto simp: make_job_def subset_eq)
qed

lemma fired_queue:
  assumes "queue_at st ch xs" "distinct xs" "job \<notin> set xs" "job \<noteq> 0" "job_ch (jobs st job) = ch"
    "ch < length (s_proxyQHead st)" "ch < length (s_proxyQTail st)"
  shows "queue_at (mtkProxyTimerFired created job st) ch (xs @ [job])"
proof -
  let ?h = "(jobs st)(job := (jobs st job)\<lparr>job_next := 0\<rparr>)"
  have path: "qpath ?h (s_proxyQHead st ! ch) xs"
    using assms(1,3) by (simp add: queue_at_def qpath_update_other)
  have tail: "s_proxyQTail st ! ch = (if xs = [] then 0 else last xs)" using assms(1) by (simp add: queue_at_def)
  show ?thesis
  proof (cases "xs = []")
    case True
    then show ?thesis using assms tail by (simp add: mtkProxyTimerFired_def queue_at_def Let_def)
  next
    case False
    then have "last xs \<noteq> 0" "last xs \<noteq> job" using qpath_nonzero [OF path] assms(3) by (metis last_in_set)+
    moreover have "qpath (?h(last xs := (?h (last xs))\<lparr>job_next := job\<rparr>)) (s_proxyQHead st ! ch) (xs @ [job])"
      using qpath_snoc [OF path assms(2) False assms(3,4)] by simp
    ultimately show ?thesis
      using assms tail False by (simp add: mtkProxyTimerFired_def queue_at_def Let_def)
  qed
qed

lemma fired_other:
  assumes "queue_at st ch' xs" "ch' \<noteq> job_ch (jobs st job)" "job \<notin> set xs" "s_proxyQTail st ! job_ch (jobs st job) \<notin> set xs"
  shows "queue_at (mtkProxyTimerFired created job st) ch' xs"
  using assms by (auto simp: mtkProxyTimerFired_def queue_at_def Let_def qpath_update_other)

lemma fired_job_ch [simp]: "job_ch (jobs (mtkProxyTimerFired created job st) x) = job_ch (jobs st x)"
  by (simp add: mtkProxyTimerFired_def Let_def)

lemma fired_lengths [simp]:
  "length (s_proxyQHead (mtkProxyTimerFired created job st)) = length (s_proxyQHead st)"
  "length (s_proxyQTail (mtkProxyTimerFired created job st)) = length (s_proxyQTail st)"
  "length (s_proxyWorkerUp (mtkProxyTimerFired created job st)) = length (s_proxyWorkerUp st)"
  by (simp_all add: mtkProxyTimerFired_def Let_def)

lemma queued_job_ch: "proxy_inv st live waiting q \<Longrightarrow> ch < 24 \<Longrightarrow> x \<in> set (q ch) \<Longrightarrow> job_ch (jobs st x) = ch"
  by (simp add: proxy_inv_def)

lemma proxy_inv_fired:
  assumes inv: "proxy_inv st live waiting q" and job: "job \<in> waiting" and ch: "ch = job_ch (jobs st job)"
  shows "proxy_inv (mtkProxyTimerFired created job st) live (waiting - {job}) (q(ch := q ch @ [job]))"
proof -
  have lt: "ch < 24" using inv job ch by (simp add: proxy_inv_def)
  have nz: "job \<noteq> 0" using inv job unfolding proxy_inv_def by (metis subsetD)
  have out: "job \<notin> set (q c)" if "c < 24" for c using inv job that by (auto simp: proxy_inv_def)
  have tail: "s_proxyQTail st ! ch \<notin> set (q c)" if "c < 24" "c \<noteq> ch" for c
  proof
    assume mem: "s_proxyQTail st ! ch \<in> set (q c)"
    have "queue_at st c (q c)" "queue_at st ch (q ch)" using inv that(1) lt by (simp_all add: proxy_inv_def)
    then have "0 \<notin> set (q c)" "s_proxyQTail st ! ch = (if q ch = [] then 0 else last (q ch))"
      by (auto simp: queue_at_def dest: qpath_nonzero)
    then have "s_proxyQTail st ! ch \<in> set (q ch)" using mem by (auto split: if_splits)
    then show False using queued_job_ch [OF inv that(1) mem] queued_job_ch [OF inv lt] that(2) by simp
  qed
  have "queue_at (mtkProxyTimerFired created job st) c ((q(ch := q ch @ [job])) c)" if "c < 24" for c
  proof (cases "c = ch")
    case True
    have "queue_at st ch (q ch)" "distinct (q ch)" "ch < length (s_proxyQHead st)" "ch < length (s_proxyQTail st)"
      using inv lt unfolding proxy_inv_def by simp_all
    from fired_queue [OF this(1,2) out [OF lt] nz ch [symmetric] this(3,4)] show ?thesis
      using True by (simp only: fun_upd_same)
  next
    case False
    have "queue_at st c (q c)" using inv that by (simp add: proxy_inv_def)
    from fired_other [OF this False [unfolded ch] out [OF that]] tail [OF that False] show ?thesis
      using False ch by simp
  qed
  moreover have "distinct ((q(ch := q ch @ [job])) c) \<and> set ((q(ch := q ch @ [job])) c) \<subseteq> live - (waiting - {job})
      \<and> (\<forall>x \<in> set ((q(ch := q ch @ [job])) c). job_ch (jobs st x) = c)" if "c < 24" for c
  proof -
    have "distinct (q c)" "set (q c) \<subseteq> live - waiting" using inv that by (simp_all add: proxy_inv_def)
    moreover have "job \<in> live" using inv job unfolding proxy_inv_def by blast
    ultimately show ?thesis
      using out [OF that] queued_job_ch [OF inv that] ch [symmetric] by (cases "c = ch") auto
  qed
  ultimately show ?thesis using inv unfolding proxy_inv_def by (simp del: fun_upd_apply) blast
qed

lemma proxy_inv_work:
  assumes inv: "proxy_inv st live waiting q" and ch: "ch < 24" and work: "mtkProxyWorker ch st = Some (job, st')"
  shows "q ch = job # tl (q ch)" "jobs st' = jobs st" "proxy_inv st' (live - {job}) waiting (q(ch := tl (q ch)))"
proof -
  have qa: "queue_at st ch (q ch)" and dist: "distinct (q ch)" using inv ch by (simp_all add: proxy_inv_def)
  have job: "job = s_proxyQHead st ! ch" "job \<noteq> 0"
    using work by (auto simp: mtkProxyWorker_def Let_def split: if_splits)
  then obtain xs where xs: "q ch = job # xs" using qa by (cases "q ch") (auto simp: queue_at_def)
  then show "q ch = job # tl (q ch)" by simp
  show "jobs st' = jobs st" using work by (auto simp: mtkProxyWorker_def Let_def split: if_splits)
  have path: "qpath (jobs st) (job_next (jobs st job)) xs" and tail: "s_proxyQTail st ! ch = last (job # xs)"
    using qa xs by (simp_all add: queue_at_def)
  have "job_next (jobs st job) = 0 \<longleftrightarrow> xs = []" using path by (cases xs) auto
  then have st': "st' = st\<lparr>s_proxyQHead := (s_proxyQHead st)[ch := job_next (jobs st job)],
      s_proxyQTail := (if xs = [] then (s_proxyQTail st)[ch := 0] else s_proxyQTail st)\<rparr>"
    using work job inv ch by (auto simp: mtkProxyWorker_def Let_def proxy_inv_def split: if_splits)
  have "queue_at st' c ((q(ch := xs)) c)" if "c < 24" for c
    using inv that path tail ch by (auto simp: st' queue_at_def proxy_inv_def)
  moreover have "job \<notin> set (q c)" if "c < 24" "c \<noteq> ch" for c
    using queued_job_ch [OF inv that(1)] queued_job_ch [OF inv ch, of job] xs that(2) by auto
  moreover have "job \<notin> waiting" using inv ch xs by (auto simp: proxy_inv_def)
  moreover have "set xs \<subseteq> live - waiting" "\<forall>x \<in> set xs. job_ch (jobs st x) = ch"
    using inv ch xs unfolding proxy_inv_def by (metis insert_subset list.simps(15), metis list.set_intros(2))
  ultimately show "proxy_inv st' (live - {job}) waiting (q(ch := tl (q ch)))"
    using inv ch xs dist unfolding proxy_inv_def by (auto simp: st')
qed

section \<open>Runs of the proxy queues\<close>

text \<open>
  Requests, expiring timers and worker turns in any order. \<open>live\<close> are the jobs \<open>calloc\<close> has handed out
  and no worker has freed, \<open>waiting\<close> those whose timer has not expired; \<open>fired\<close> and \<open>called\<close> record, per
  channel, the callbacks whose timers have expired and those a worker has called.
\<close>

definition job_call :: "proxy_state \<Rightarrow> nat \<Rightarrow> nat \<times> nat" where
  "job_call st job = (job_cb (jobs st job), job_param (jobs st job))"

type_synonym calls_by_channel = "nat \<Rightarrow> (nat \<times> nat) list"

inductive proxy_run :: "proxy_state \<Rightarrow> nat set \<Rightarrow> nat set \<Rightarrow> calls_by_channel \<Rightarrow> calls_by_channel \<Rightarrow> bool" where
  start: "proxy_run proxy_init {} {} (\<lambda>_. []) (\<lambda>_. [])"
| request: "proxy_run st live waiting fired called \<Longrightarrow> job \<notin> live \<Longrightarrow> job \<noteq> 0 \<Longrightarrow>
     proxy_run (make_job job cb param proxy st) (insert job live) (insert job waiting) fired called"
| fire: "proxy_run st live waiting fired called \<Longrightarrow> job \<in> waiting \<Longrightarrow> ch = job_ch (jobs st job) \<Longrightarrow>
     proxy_run (mtkProxyTimerFired created job st) live (waiting - {job})
       (fired(ch := fired ch @ [job_call st job])) called"
| turn: "proxy_run st live waiting fired called \<Longrightarrow> ch < 24 \<Longrightarrow> s_proxyWorkerUp st ! ch \<Longrightarrow>
     mtkProxyWorker ch st = Some (job, st') \<Longrightarrow>
     proxy_run st' (live - {job}) waiting fired (called(ch := called ch @ [job_call st job]))"

lemma fired_job_call [simp]: "job_call (mtkProxyTimerFired created job st) x = job_call st x"
  by (simp add: job_call_def mtkProxyTimerFired_def Let_def)

lemma proxy_run_queues:
  "proxy_run st live waiting fired called \<Longrightarrow>
     \<exists>q. proxy_inv st live waiting q \<and> (\<forall>ch < 24. fired ch = called ch @ map (job_call st) (q ch))"
proof (induction rule: proxy_run.induct)
  case start
  show ?case
    by (rule exI [of _ "\<lambda>_. []"]) (simp add: proxy_inv_def proxy_init_def queue_at_def)
next
  case (request st live waiting fired called job cb param proxy)
  then obtain q where q: "proxy_inv st live waiting q" "\<forall>ch < 24. fired ch = called ch @ map (job_call st) (q ch)" by blast
  have "map (job_call (make_job job cb param proxy st)) (q ch) = map (job_call st) (q ch)" if "ch < 24" for ch
    using q(1) request.hyps(2) that by (auto simp: proxy_inv_def job_call_def make_job_def)
  then show ?case using proxy_inv_make_job [OF q(1) request.hyps(2,3)] q(2) by (intro exI [of _ q]) simp
next
  case (fire st live waiting fired called job ch created)
  then obtain q where q: "proxy_inv st live waiting q" "\<forall>ch < 24. fired ch = called ch @ map (job_call st) (q ch)" by blast
  have "\<forall>c < 24. (fired(ch := fired ch @ [job_call st job])) c =
      called c @ map (job_call (mtkProxyTimerFired created job st)) ((q(ch := q ch @ [job])) c)"
    using q(2) by simp
  then show ?case using proxy_inv_fired [OF q(1) fire.hyps(2,3)] by blast
next
  case (turn st live waiting fired called ch job st')
  then obtain q where q: "proxy_inv st live waiting q" "\<forall>ch < 24. fired ch = called ch @ map (job_call st) (q ch)" by blast
  note w = proxy_inv_work [OF q(1) turn.hyps(2,4)]
  have "job_call st' = job_call st" using w(2) by (simp add: job_call_def fun_eq_iff)
  moreover have "fired ch = (called ch @ [job_call st job]) @ map (job_call st) (tl (q ch))"
    using q(2) turn.hyps(2) w(1) by (metis append.assoc append_Cons append_Nil list.simps(9))
  ultimately have "\<forall>c < 24. fired c = (called(ch := called ch @ [job_call st job])) c
      @ map (job_call st') ((q(ch := tl (q ch))) c)"
    using q(2) by (metis fun_upd_apply)
  then show ?case using w(3) by blast
qed

lemma worker_waits_iff: "proxy_inv st live waiting q \<Longrightarrow> ch < 24 \<Longrightarrow> mtkProxyWorker ch st = None \<longleftrightarrow> q ch = []"
  by (cases "q ch") (auto simp: proxy_inv_def queue_at_def mtkProxyWorker_def Let_def)

text \<open>A thread that is not in the table makes the lookup read past its end.\<close>

lemma find_thread_unknown:
  "\<forall>k. i \<le> k \<longrightarrow> k < MAX_RIL_CHANNELS \<longrightarrow> tp_pthread (tp ! k) \<noteq> self \<Longrightarrow> find_thread tp self i = None"
proof (induction tp self i rule: find_thread.induct)
  case (1 tp self i)
  then show ?case by (subst find_thread.simps) simp
qed

lemma dispatch_restored:
  "dispatchChannelKey (fst (my_enqueue onRequest buf cid self st)) self = dispatchChannelKey st self"
  by (simp add: my_enqueue_def forgeSetDispatchChannel_def forgeGetDispatchChannel_def Let_def)

section \<open>Properties\<close>

text \<open>
  \<open>addThreadPid\<close> implements a cache of the twelve most recent threads: from a table
  whose entries in use come first and name distinct threads, it gives such a table again, in which the
  calling thread is first with its new channel, every other thread keeps its place in the order, and
  only when twelve others are known is the oldest forgotten.
\<close>

theorem addThreadPid_recent:
  assumes "threads_ok tp" "tid \<noteq> 0"
  shows "threads_ok (addThreadPid cid tid tp) \<and>
    threads (addThreadPid cid tid tp) =
      take 12 (\<lparr>tp_cid = cid, tp_pthread = tid\<rparr> # filter (\<lambda>t. tp_pthread t \<noteq> tid) (threads tp))"
  using addThreadPid_refines_aux [OF assms] by (simp add: remember_def MAX_RIL_CHANNELS_def)

lemma addThreadPid_recent_witness:
  "threads (addThreadPid 3 77 (\<lparr>tp_cid = 1, tp_pthread = 50\<rparr> # \<lparr>tp_cid = 2, tp_pthread = 77\<rparr> # replicate 10 no_thread)) =
     [\<lparr>tp_cid = 3, tp_pthread = 77\<rparr>, \<lparr>tp_cid = 1, tp_pthread = 50\<rparr>]"
proof -
  have "threads_ok (\<lparr>tp_cid = 1, tp_pthread = 50\<rparr> # \<lparr>tp_cid = 2, tp_pthread = 77\<rparr> # replicate 10 no_thread)"
    by (simp add: threads_ok_def threads_def MAX_RIL_CHANNELS_def no_thread_def numeral_eq_Suc)
  from addThreadPid_recent [OF this, of 77 3] show ?thesis
    by (simp add: threads_def no_thread_def numeral_eq_Suc)
qed

text \<open>
  C24 (safety). Proxy callbacks run in order: whatever the interleaving of requests, expiring timers and
  workers, the callbacks the worker of a channel has run are an initial part of those whose timers
  expired on that channel, in that order and each once; the worker waits exactly when none is left, and
  otherwise takes the first that is left.
\<close>

theorem proxy_jobs_in_order:
  assumes "proxy_run st live waiting fired called" "ch < 24"
  shows "\<exists>rest. fired ch = called ch @ rest \<and> (mtkProxyWorker ch st = None \<longleftrightarrow> rest = []) \<and>
    (\<forall>job st'. mtkProxyWorker ch st = Some (job, st') \<longrightarrow> job_call st job = hd rest)"
proof -
  obtain q where q: "proxy_inv st live waiting q" "fired ch = called ch @ map (job_call st) (q ch)"
    using proxy_run_queues [OF assms(1)] assms(2) by blast
  have "job_call st job = hd (map (job_call st) (q ch))" if "mtkProxyWorker ch st = Some (job, st')" for job st'
    using proxy_inv_work(1) [OF q(1) assms(2) that] by (metis list.sel(1) list.simps(9))
  then show ?thesis using q(2) worker_waits_iff [OF q(1) assms(2)] by auto
qed

lemma proxy_jobs_in_order_witness:
  "mtkProxyWorker 3 (mtkProxyTimerFired True 9 (make_job 9 6 7 3 proxy_init)) \<noteq> None"
proof -
  have run: "proxy_run (make_job 9 6 7 3 proxy_init) {9} {9} (\<lambda>_. []) (\<lambda>_. [])"
    using proxy_run.request [OF proxy_run.start, of 9 6 7 3] by simp
  have ch: "3 = job_ch (jobs (make_job 9 6 7 3 proxy_init) 9)" by (simp add: make_job_def mtkChannelIndex_def MTK_CHANNEL_COUNT_def)
  have "job_call (make_job 9 6 7 3 proxy_init) 9 = (6, 7)" by (simp add: job_call_def make_job_def)
  then show ?thesis using proxy_jobs_in_order [OF proxy_run.fire [OF run _ ch, of True], of 3] by auto
qed

text \<open>
  While \<open>my_enqueue\<close> dispatches a request on a thread that librilmtk does not know,
  \<open>RIL_myProxyIdByThread\<close> answers the channel of that request once the fallback is armed, and
  otherwise what librilmtk says; when \<open>my_enqueue\<close> returns, the thread's dispatch channel is what it
  was before, whatever the vendor's \<open>onRequest\<close> did to it.
\<close>

theorem dispatch_channel_scoped:
  assumes "cid \<ge> 0"
  shows "forgeGetDispatchChannel self (fst (my_enqueue onRequest buf cid self st)) = forgeGetDispatchChannel self st \<and>
    fst (RIL_myProxyIdByThread props query self (forgeSetDispatchChannel self cid st)) =
      (if query \<notin> {0..<12} \<and> fst (forgeCtxfixArmed props st) then cid else query)"
proof -
  have armed: "fst (forgeCtxfixArmed props (forgeSetDispatchChannel self cid st)) = fst (forgeCtxfixArmed props st)"
    by (simp add: forgeCtxfixArmed_def forgeSetDispatchChannel_def)
  have "forgeGetDispatchChannel self (forgeSetDispatchChannel self cid st) = cid"
    using assms by (simp add: forgeGetDispatchChannel_def forgeSetDispatchChannel_def)
  then show ?thesis
    using assms armed dispatch_restored [of onRequest buf cid self st]
    by (auto simp: RIL_myProxyIdByThread_def forgeGetDispatchChannel_def MAX_RIL_CHANNELS_def split: prod.splits)
qed

lemma dispatch_channel_scoped_witness:
  "fst (RIL_myProxyIdByThread (\<lambda>k. if k = ''mtk.md1.status'' then ''ready'' else []) (- 1) 77
     (forgeSetDispatchChannel 77 9 \<lparr>threadPid = [], dispatchChannelKey = (\<lambda>_. 0), s_ctxfixArmed = 0\<rparr>)) = 9"
  using dispatch_channel_scoped [of 9 77 id FMT_VOID "\<lparr>threadPid = [], dispatchChannelKey = (\<lambda>_. 0), s_ctxfixArmed = 0\<rparr>"
    "\<lambda>k. if k = ''mtk.md1.status'' then ''ready'' else []" "- 1"]
  by (simp add: forgeCtxfixArmed_def property_get_def)

end
