(* ===== verification/RilRequests.thy ===== *)
theory RilRequests
  imports RilChannels Mal
begin

text \<open>
  The request side of libril (\<open>ril.cpp\<close>): the lists of pending requests, acknowledgements and
  completions, the wake lock with its timeouts, unsolicited responses and registration.

  A \<open>RIL_Token\<close> is the address of a \<open>RequestInfo\<close>; \<open>requests\<close> and \<open>timed\<close> are the heaps of
  \<open>RequestInfo\<close> and \<open>UserCallbackInfo\<close>, where \<open>None\<close> is memory that is not allocated. A list linked by
  \<open>p_next\<close> is the list of its addresses. An operation that reads or writes memory that is not
  allocated, indexes past a table or fails an \<open>assert\<close> returns \<open>None\<close>. The addresses \<open>calloc\<close> returns
  are arguments, 0 when it fails. What the HIDL service, the power driver and librilmtk are told is
  recorded in \<open>radio_calls\<close>, \<open>wake_lock\<close> and \<open>enqueued\<close>.
\<close>

section \<open>State\<close>

record request_info =
  ri_client :: nat
  ri_token :: int
  ri_pCI :: command_info
  ri_cancelled :: bool
  ri_local :: bool
  ri_socket_id :: int
  ri_wasAckSent :: bool
  ri_cid :: int

datatype timed_callback = WakeTimeoutCallback | OtherCallback nat

record user_callback =
  uc_callback :: timed_callback
  uc_param :: nat
  uc_relative :: "int \<times> int"
  uc_cid :: u32

record ril_identity =
  imei :: "u8 list option"
  imeisv :: "u8 list option"
  esnHex :: "u8 list option"
  meidHex :: "u8 list option"

datatype payload = Bytes "u8 list option" | Identity ril_identity

datatype radio_call =
    AcknowledgeRequest int int
  | Response string int int int u32 payload
  | Indication string int int "u8 list"

record ril =
  version :: int
  s_registerCalled :: bool
  serviceRegistered :: bool
  malServer :: bool
  mtk_command_start :: int
  mtk_unsol_start :: int
  requests :: "nat \<rightharpoonup> request_info"
  s_pendingRequests :: "nat list"
  s_pendingRequests_socket2 :: "nat list"
  Device_ID :: "ril_identity list"
  s_prevEcopsData :: "u8 list option list"
  wake_lock :: bool
  s_wakelock_count :: int
  timed :: "nat \<rightharpoonup> user_callback"
  s_last_wake_timeout_info :: nat
  enqueued :: "nat list"
  s_lastNITZTimeData :: "u8 list option"
  channels :: channel_state
  mal_server :: mal
  radio_calls :: "radio_call list"
  property_sets :: "(string \<times> string) list"

definition RESPONSE_SOLICITED :: int where "RESPONSE_SOLICITED = 0"
definition RESPONSE_UNSOLICITED :: int where "RESPONSE_UNSOLICITED = 1"
definition RESPONSE_SOLICITED_ACK_EXP :: int where "RESPONSE_SOLICITED_ACK_EXP = 3"
definition RESPONSE_UNSOLICITED_ACK_EXP :: int where "RESPONSE_UNSOLICITED_ACK_EXP = 4"
definition SOCKET_1 :: int where "SOCKET_1 = 0"
definition SOCKET_2 :: int where "SOCKET_2 = 1"
definition RIL_VERSION_MIN :: int where "RIL_VERSION_MIN = 6"

section \<open>Pending requests\<close>

text \<open>The hook both list operations set up: the list of the request's socket.\<close>

definition pending :: "int \<Rightarrow> ril \<Rightarrow> nat list" where
  "pending socket_id st = (if socket_id = SOCKET_2 then s_pendingRequests_socket2 st else s_pendingRequests st)"

definition set_pending :: "int \<Rightarrow> nat list \<Rightarrow> ril \<Rightarrow> ril" where
  "set_pending socket_id l st =
     (if socket_id = SOCKET_2 then st\<lparr>s_pendingRequests_socket2 := l\<rparr> else st\<lparr>s_pendingRequests := l\<rparr>)"

definition command_index :: "int \<Rightarrow> int \<Rightarrow> int" where
  "command_index start request =
     (if request < RIL_REQUEST_VENDOR_BASE then request else request - RIL_REQUEST_VENDOR_BASE + start)"

definition addRequestToList :: "nat \<Rightarrow> int \<Rightarrow> int \<Rightarrow> int \<Rightarrow> ril \<Rightarrow> (nat \<times> ril) option" where
  "addRequestToList pRI serial slotId request st =
     (if pRI = 0 then Some (0, st)
      else
        let i = command_index (mtk_command_start st) request in
        if i < 0 \<or> i \<ge> int (length s_commands) then None
        else
          let pCI = s_commands ! nat i;
              cid = (if slotId > SOCKET_1 then proxyId pCI + RIL_CHANNEL_OFFSET else proxyId pCI);
              r = \<lparr>ri_client = 0, ri_token = serial, ri_pCI = pCI, ri_cancelled = False, ri_local = (serial = - 1),
                   ri_socket_id = slotId, ri_wasAckSent = False, ri_cid = cid\<rparr>;
              st = st\<lparr>requests := (requests st)(pRI \<mapsto> r)\<rparr>
          in Some (pRI, set_pending slotId (pRI # pending slotId st) st))"

definition checkAndDequeueRequestInfoIfAck :: "nat \<Rightarrow> bool \<Rightarrow> ril \<Rightarrow> (bool \<times> ril) option" where
  "checkAndDequeueRequestInfoIfAck pRI isAck st =
     (if pRI = 0 then Some (False, st)
      else case requests st pRI of None \<Rightarrow> None
      | Some r \<Rightarrow>
          if pRI \<in> set (pending (ri_socket_id r) st) then
            Some (True,
              if isAck then st\<lparr>requests := (requests st)(pRI \<mapsto> r\<lparr>ri_wasAckSent := True\<rparr>)\<rparr>
              else set_pending (ri_socket_id r) (remove1 pRI (pending (ri_socket_id r) st)) st)
          else Some (False, st))"

definition call_radio :: "radio_call \<Rightarrow> ril \<Rightarrow> ril" where
  "call_radio c st = st\<lparr>radio_calls := radio_calls st @ [c]\<rparr>"

definition RIL_onRequestAck :: "nat \<Rightarrow> ril \<Rightarrow> ril option" where
  "RIL_onRequestAck t st =
     (case checkAndDequeueRequestInfoIfAck t True st of
        None \<Rightarrow> None
      | Some (found, st) \<Rightarrow>
          if \<not> found then Some st
          else case requests st t of None \<Rightarrow> None
            | Some r \<Rightarrow>
                Some (if \<not> ri_cancelled r then call_radio (AcknowledgeRequest (ri_socket_id r) (ri_token r)) st else st))"

section \<open>The wake lock\<close>

definition TIMEVAL_WAKE_TIMEOUT :: "int \<times> int" where "TIMEVAL_WAKE_TIMEOUT = (0, 200000)"

text \<open>\<open>internalRequestTimedCallback\<close> on thread \<open>self\<close>: the address of the callback record, 0 for \<open>NULL\<close>.\<close>

definition internalRequestTimedCallback ::
  "nat \<Rightarrow> int \<Rightarrow> timed_callback \<Rightarrow> nat \<Rightarrow> (int \<times> int) option \<Rightarrow> int \<Rightarrow> ril \<Rightarrow> nat \<times> ril" where
  "internalRequestTimedCallback p_info self callback param relativeTime cid st =
     (if p_info = 0 then (0, st)
      else
        let rel = (case relativeTime of None \<Rightarrow> (0, 0) | Some t \<Rightarrow> t);
            ch = channels st;
            ch = (if cid > - 1 then ch\<lparr>threadPid := addThreadPid cid self (threadPid ch)\<rparr> else ch)
        in (p_info, st\<lparr>timed := (timed st)(p_info \<mapsto>
              \<lparr>uc_callback = callback, uc_param = param, uc_relative = rel, uc_cid = of_int cid\<rparr>), channels := ch\<rparr>))"

text \<open>\<open>s_last_wake_timeout_info->userParam = (void *) 1\<close>, guarded by the test for \<open>NULL\<close>.\<close>

definition cancel_last_timeout :: "ril \<Rightarrow> ril option" where
  "cancel_last_timeout st =
     (if s_last_wake_timeout_info st = 0 then Some st
      else case timed st (s_last_wake_timeout_info st) of None \<Rightarrow> None
        | Some u \<Rightarrow> Some (st\<lparr>timed := (timed st)(s_last_wake_timeout_info st \<mapsto> u\<lparr>uc_param := 1\<rparr>)\<rparr>))"

definition grabPartialWakeLock :: "nat \<Rightarrow> ril \<Rightarrow> ril option" where
  "grabPartialWakeLock fresh st =
     (if version st \<ge> 13 then
        let st = st\<lparr>wake_lock := True\<rparr> in
        case internalRequestTimedCallback fresh 0 WakeTimeoutCallback 0 (Some TIMEVAL_WAKE_TIMEOUT) (- 1) st of
          (p_info, st) \<Rightarrow>
            if p_info = 0 then Some (st\<lparr>wake_lock := False\<rparr>)
            else map_option (\<lambda>st. st\<lparr>s_last_wake_timeout_info := p_info\<rparr>)
                   (cancel_last_timeout (st\<lparr>s_wakelock_count := s_wakelock_count st + 1\<rparr>))
      else Some (st\<lparr>wake_lock := True\<rparr>))"

definition releaseWakeLock :: "ril \<Rightarrow> ril option" where
  "releaseWakeLock st =
     (if version st \<ge> 13 then
        if s_wakelock_count st > 1 then Some (st\<lparr>s_wakelock_count := s_wakelock_count st - 1\<rparr>)
        else cancel_last_timeout (st\<lparr>s_wakelock_count := 0, wake_lock := False\<rparr>)
      else Some (st\<lparr>wake_lock := False\<rparr>))"

definition wakeTimeoutCallback :: "nat \<Rightarrow> ril \<Rightarrow> ril option" where
  "wakeTimeoutCallback param st =
     (if version st \<ge> 13 then
        Some (if param = 0 then st\<lparr>s_wakelock_count := 0, wake_lock := False\<rparr> else st)
      else if param = 0 then releaseWakeLock st else Some st)"

text \<open>
  \<open>userTimerCallback\<close>: \<open>RILChannelId\<close> is an unsigned 32-bit enumeration, so \<open>cid\<close> is compared unsigned.
  The callback is handed to librilmtk, or run here and its record freed.
\<close>

definition userTimerCallback :: "nat \<Rightarrow> ril \<Rightarrow> ril option" where
  "userTimerCallback p_info st =
     (case timed st p_info of None \<Rightarrow> None
      | Some u \<Rightarrow>
          if uc_cid u \<ge> of_int RIL_URC then Some (st\<lparr>enqueued := enqueued st @ [p_info]\<rparr>)
          else
            map_option (\<lambda>st.
                let st = (if s_last_wake_timeout_info st \<noteq> 0 \<and> s_last_wake_timeout_info st = p_info
                          then st\<lparr>s_last_wake_timeout_info := 0\<rparr> else st)
                in st\<lparr>timed := (timed st)(p_info := None)\<rparr>)
              (case uc_callback u of WakeTimeoutCallback \<Rightarrow> wakeTimeoutCallback (uc_param u) st
               | OtherCallback _ \<Rightarrow> Some st))"

section \<open>Completion\<close>

record ril_env =
  env_props :: properties
  env_mal :: mal_env
  env_ret :: "radio_call \<Rightarrow> int"
  env_vendorUnsol :: "unsol_info list"

definition mtkDevIdEmuEnabled :: "properties \<Rightarrow> bool" where
  "mtkDevIdEmuEnabled props \<longleftrightarrow> take 1 (property_get props ''persist.vendor.ril.mtk_devid_emu'' ''0'') = ''1''"

definition in_sockets :: "int \<Rightarrow> bool" where
  "in_sockets i \<longleftrightarrow> 0 \<le> i \<and> i < 2"

definition strdup :: "u8 list option \<Rightarrow> u8 list option" where
  "strdup = map_option (takeWhile (\<lambda>b. b \<noteq> 0))"

text \<open>A locally issued request: the answer to \<open>GET_IMEI\<close> or \<open>GET_IMEISV\<close> is kept, any other dropped.\<close>

definition complete_local :: "request_info \<Rightarrow> u8 list option \<Rightarrow> ril \<Rightarrow> ril option" where
  "complete_local r response st =
     (let i = ri_socket_id r; n = requestNumber (ri_pCI r) in
      if n = RIL_REQUEST_GET_IMEI then
        (if in_sockets i then Some (st\<lparr>Device_ID := (Device_ID st)[nat i := (Device_ID st ! nat i)\<lparr>imei := strdup response\<rparr>]\<rparr>)
         else None)
      else if n = RIL_REQUEST_GET_IMEISV then
        (if in_sockets i then Some (st\<lparr>Device_ID := (Device_ID st)[nat i := (Device_ID st ! nat i)\<lparr>imeisv := strdup response\<rparr>]\<rparr>)
         else None)
      else Some st)"

text \<open>The override of \<open>DEVICE_IDENTITY\<close>: the error and payload that are sent.\<close>

definition override_identity :: "ril_env \<Rightarrow> request_info \<Rightarrow> u32 \<Rightarrow> u8 list option \<Rightarrow> ril \<Rightarrow> (u32 \<times> payload) option" where
  "override_identity env r e response st =
     (if requestNumber (ri_pCI r) = RIL_REQUEST_DEVICE_IDENTITY \<and> mtkDevIdEmuEnabled (env_props env) then
        (if in_sockets (ri_socket_id r) then Some (0, Identity (Device_ID st ! nat (ri_socket_id r))) else None)
      else Some (e, Bytes response))"

definition clear_ecops :: "request_info \<Rightarrow> ril \<Rightarrow> ril option" where
  "clear_ecops r st =
     (if requestNumber (ri_pCI r) = RIL_REQUEST_RESUME_REGISTRATION then
        (if in_sockets (ri_socket_id r) then Some (st\<lparr>s_prevEcopsData := (s_prevEcopsData st)[nat (ri_socket_id r) := None]\<rparr>)
         else None)
      else Some st)"

definition answer_request :: "nat \<Rightarrow> request_info \<Rightarrow> u32 \<Rightarrow> payload \<Rightarrow> ril \<Rightarrow> ril option" where
  "answer_request fresh r e data st =
     (if ri_cancelled r then Some st
      else
        let ackExp = (version st \<ge> 13 \<and> ri_wasAckSent r) in
        map_option (\<lambda>st. case responseFunction (ri_pCI r) of
              None \<Rightarrow> st
            | Some f \<Rightarrow> call_radio (Response f (ri_socket_id r)
                  (if ackExp then RESPONSE_SOLICITED_ACK_EXP else RESPONSE_SOLICITED) (ri_token r) e data) st)
          (if ackExp then grabPartialWakeLock fresh st else Some st))"

definition RIL_onRequestComplete :: "ril_env \<Rightarrow> nat \<Rightarrow> nat \<Rightarrow> u32 \<Rightarrow> u8 list option \<Rightarrow> ril \<Rightarrow> ril option" where
  "RIL_onRequestComplete env fresh t s_e s_response st =
     (case malClaim t (mal_server st) of
        Some malSlot \<Rightarrow> Some (st\<lparr>mal_server := malComplete (env_mal env) malSlot s_e s_response (mal_server st)\<rparr>)
      | None \<Rightarrow>
          case checkAndDequeueRequestInfoIfAck t False st of
            None \<Rightarrow> None
          | Some (found, st) \<Rightarrow>
              if \<not> found then Some st
              else case requests st t of None \<Rightarrow> None
                | Some r \<Rightarrow>
                    map_option (\<lambda>st. st\<lparr>requests := (requests st)(t := None)\<rparr>)
                      (if ri_local r then complete_local r s_response st
                       else case override_identity env r s_e s_response st of
                           None \<Rightarrow> None
                         | Some (e, data) \<Rightarrow> Option.bind (clear_ecops r st) (answer_request fresh r e data)))"

section \<open>Unsolicited responses\<close>

definition unsol_table :: "ril_env \<Rightarrow> unsol_info list" where
  "unsol_table env = aosp_unsolResponses @ env_vendorUnsol env"

definition unsol_index :: "int \<Rightarrow> int \<Rightarrow> int" where
  "unsol_index start unsolResponse =
     (if unsolResponse < RIL_UNSOL_VENDOR_BASE then unsolResponse - RIL_UNSOL_RESPONSE_BASE
      else unsolResponse - RIL_UNSOL_VENDOR_BASE + start)"

text \<open>
  The call of the indication: what it returns (0 when there is no function) and the recorded call.
\<close>

definition call_indication :: "ril_env \<Rightarrow> unsol_info \<Rightarrow> int \<Rightarrow> int \<Rightarrow> u8 list \<Rightarrow> ril \<Rightarrow> int \<times> ril" where
  "call_indication env u soc_id responseType data st =
     (case indFunction u of None \<Rightarrow> (0, st)
      | Some f \<Rightarrow> let c = Indication f soc_id responseType data in (env_ret env c, call_radio c st))"

text \<open>Before version 13 the timeout that releases the lock is set here; \<open>False\<close> is \<open>goto error_exit\<close>.\<close>

definition schedule_timeout :: "nat \<Rightarrow> bool \<Rightarrow> ril \<Rightarrow> (bool \<times> ril) option" where
  "schedule_timeout fresh shouldScheduleTimeout st =
     (if version st < 13 \<and> shouldScheduleTimeout then
        case internalRequestTimedCallback fresh 0 WakeTimeoutCallback 0 (Some TIMEVAL_WAKE_TIMEOUT) (- 1) st of
          (p_info, st) \<Rightarrow>
            if p_info = 0 then Some (False, st)
            else map_option (\<lambda>st. (True, st\<lparr>s_last_wake_timeout_info := p_info\<rparr>)) (cancel_last_timeout st)
      else Some (True, st))"

definition send_unsolResponse :: "ril_env \<Rightarrow> nat \<Rightarrow> bool \<Rightarrow> int \<Rightarrow> u8 list \<Rightarrow> int \<Rightarrow> ril \<Rightarrow> ril option" where
  "send_unsolResponse env fresh nitz_alloc unsolResponse data socket_id st =
     (let i = unsol_index (mtk_unsol_start st) unsolResponse in
      if i < 0 then Some st
      else if unsolResponse > RIL_UNSOL_VENDOR_BASE + 80 then Some st
      else if i \<ge> int (length (unsol_table env)) then None
      else
        let u = unsol_table env ! nat i;
            shouldScheduleTimeout = (wakeType u = WAKE_PARTIAL);
            responseType = (if version st \<ge> 13 \<and> wakeType u = WAKE_PARTIAL
                            then RESPONSE_UNSOLICITED_ACK_EXP else RESPONSE_UNSOLICITED) in
        case (if shouldScheduleTimeout then grabPartialWakeLock fresh st else Some st) of
          None \<Rightarrow> None
        | Some st \<Rightarrow>
            (case call_indication env u socket_id responseType data st of (ret, st) \<Rightarrow>
              (case schedule_timeout fresh shouldScheduleTimeout st of
                None \<Rightarrow> None
              | Some (scheduled, st) \<Rightarrow>
                  if \<not> scheduled then (if shouldScheduleTimeout then releaseWakeLock st else Some st)
                  else if ret \<noteq> 0 \<and> unsolResponse = RIL_UNSOL_NITZ_TIME_RECEIVED then
                    (if nitz_alloc then Some (st\<lparr>s_lastNITZTimeData := Some data\<rparr>)
                     else
                       (let st = st\<lparr>s_lastNITZTimeData := None\<rparr> in
                        if shouldScheduleTimeout then releaseWakeLock st else Some st))
                  else Some st)))"

definition ignored_unsol :: "int \<Rightarrow> bool" where
  "ignored_unsol n \<longleftrightarrow> n \<in> {RIL_UNSOL_MAL_AT_INFO, RIL_UNSOL_MAIN_SIM_INFO, RIL_UNSOL_DATA_ALLOWED,
     RIL_UNSOL_PHB_READY_NOTIFICATION, RIL_UNSOL_GPRS_DETACH, RIL_UNSOL_CRSS_NOTIFICATION,
     RIL_UNSOL_RESPONSE_PLMN_CHANGED, RIL_UNSOL_VOLTE_EPS_NETWORK_FEATURE_SUPPORT,
     RIL_UNSOL_EMERGENCY_BEARER_SUPPORT_NOTIFY, RIL_UNSOL_SMS_READY_NOTIFICATION, RIL_UNSOL_CALL_FORWARDING}"

definition RIL_onUnsolicitedResponseSocket :: "ril_env \<Rightarrow> nat \<Rightarrow> bool \<Rightarrow> int \<Rightarrow> u8 list \<Rightarrow> int \<Rightarrow> ril \<Rightarrow> ril option" where
  "RIL_onUnsolicitedResponseSocket env fresh nitz_alloc unsolResponse data socket_id st =
     (if \<not> s_registerCalled st then Some st
      else if ignored_unsol unsolResponse then Some st
      else send_unsolResponse env fresh nitz_alloc unsolResponse data socket_id st)"

text \<open>\<open>RIL_MDStateChange\<close>: the state, as the four bytes of an \<open>int\<close>, to both sockets.\<close>

definition RIL_MDStateChange :: "ril_env \<Rightarrow> nat \<Rightarrow> nat \<Rightarrow> u8 list \<Rightarrow> ril \<Rightarrow> ril option" where
  "RIL_MDStateChange env fresh fresh' state st =
     Option.bind (RIL_onUnsolicitedResponseSocket env fresh True RIL_UNSOL_MD_STATE_CHANGE state SOCKET_1 st)
       (RIL_onUnsolicitedResponseSocket env fresh' True RIL_UNSOL_MD_STATE_CHANGE state (SOCKET_1 + 1))"

definition resendLastNITZTimeData :: "ril_env \<Rightarrow> int \<Rightarrow> ril \<Rightarrow> ril" where
  "resendLastNITZTimeData env socket_id st =
     (case s_lastNITZTimeData st of None \<Rightarrow> st
      | Some data \<Rightarrow>
          let c = Indication ''nitzTimeReceivedInd'' socket_id
                    (if version st \<ge> 13 then RESPONSE_UNSOLICITED_ACK_EXP else RESPONSE_UNSOLICITED) data;
              st = call_radio c st
          in if env_ret env c = 0 then st\<lparr>s_lastNITZTimeData := None\<rparr> else st)"

definition property_set :: "string \<Rightarrow> string \<Rightarrow> ril \<Rightarrow> ril" where
  "property_set key val st = st\<lparr>property_sets := property_sets st @ [(key, val)]\<rparr>"

text \<open>
  \<open>onNewCommandConnect\<close> from the moment \<open>gsm.ril.init\<close> reads 1; \<open>getVersion\<close> is the vendor's version
  string, \<open>None\<close> when it has no such function, \<open>rilVer\<close> the bytes of the version number.
\<close>

definition onNewCommandConnect :: "ril_env \<Rightarrow> nat \<Rightarrow> nat \<Rightarrow> u8 list \<Rightarrow> string option \<Rightarrow> int \<Rightarrow> ril \<Rightarrow> ril option" where
  "onNewCommandConnect env fresh fresh' rilVer getVersion socket_id st =
     map_option (\<lambda>st.
         let st = (if s_lastNITZTimeData st \<noteq> None then resendLastNITZTimeData env socket_id st else st);
             st = (case getVersion of
                     Some v \<Rightarrow> property_set ''gsm.version.ril-impl'' v st
                   | None \<Rightarrow> property_set ''gsm.version.ril-impl'' ''unavailable'' st)
         in if property_get (env_props env) ''ril.muxreport'' [] = [] \<and> socket_id = SOCKET_2 then
              property_set ''ril.muxreport'' ''0''
                (property_set ''ctl.start'' ''muxreport-daemon''
                  (property_set ''ril.mux.report.case'' ''2''
                    (property_set ''gsm.ril.init'' ''0'' st)))
            else st)
       (Option.bind (RIL_onUnsolicitedResponseSocket env fresh True RIL_UNSOL_RIL_CONNECTED rilVer socket_id st)
         (RIL_onUnsolicitedResponseSocket env fresh' True RIL_UNSOL_RESPONSE_RADIO_STATE_CHANGED [] socket_id))"

section \<open>The initial attach APN\<close>

text \<open>
  \<open>isInitialAttachAPN\<close> against the cached parameters \<open>iaProperty\<close>. \<open>sprintf\<close> writes into 184 bytes
  (\<open>None\<close> when the text does not fit); with a password the code calls \<open>printf\<close> with the still empty
  buffer as its format, which leaves the buffer empty. \<open>None\<close> for the password is \<open>NULL\<close>.
\<close>

definition isInitialAttachAPN ::
  "properties \<Rightarrow> string \<Rightarrow> string \<Rightarrow> string \<Rightarrow> int \<Rightarrow> string \<Rightarrow> string option \<Rightarrow> bool option" where
  "isInitialAttachAPN props iaProperty requestedApn protocol authType username password =
     (if iaProperty = [] then Some False
      else
        let apnParameter =
              (if password = None \<or> password = Some [] then
                 property_get props ''ril.iccid.sim1'' [] @ '','' @ protocol @ '','' @ to_string authType @ '','' @
                 username @ '',0,'' @ requestedApn
               else [])
        in if length apnParameter \<ge> 184 then None
           else Some (apnParameter = iaProperty \<or> requestedApn = ''ctnet''))"

lemma isInitialAttachAPN_with_password:
  "iaProperty \<noteq> [] \<Longrightarrow> password \<noteq> [] \<Longrightarrow>
     isInitialAttachAPN props iaProperty requestedApn protocol authType username (Some password) = Some (requestedApn = ''ctnet'')"
  by (simp add: isInitialAttachAPN_def)

section \<open>Registration\<close>

text \<open>
  What both registration functions share: the guards on the callbacks (\<open>None\<close> is \<open>NULL\<close>, else the
  version they state), the reset of the thread table, and the self-check of both tables.
\<close>

definition register_tables :: "ril_env \<Rightarrow> int option \<Rightarrow> ril \<Rightarrow> (bool \<times> ril) option" where
  "register_tables env callbacks st =
     (case callbacks of None \<Rightarrow> Some (False, st)
      | Some v \<Rightarrow>
          if v < RIL_VERSION_MIN then Some (False, st)
          else if s_registerCalled st then Some (False, st)
          else
            let st = st\<lparr>version := v, s_registerCalled := True,
                        channels := (channels st)\<lparr>threadPid := replicate MAX_RIL_CHANNELS no_thread\<rparr>\<rparr> in
            case self_check 0 RIL_REQUEST_VENDOR_BASE (map requestNumber s_commands) 0 (mtk_command_start st) of
              None \<Rightarrow> None
            | Some cs \<Rightarrow>
                case self_check RIL_UNSOL_RESPONSE_BASE RIL_UNSOL_VENDOR_BASE (map unsolNumber (unsol_table env)) 0 (mtk_unsol_start st) of
                  None \<Rightarrow> None
                | Some us \<Rightarrow> Some (True, st\<lparr>mtk_command_start := cs, mtk_unsol_start := us, serviceRegistered := True\<rparr>))"

definition RIL_registerSocket :: "ril_env \<Rightarrow> int option \<Rightarrow> ril \<Rightarrow> ril option" where
  "RIL_registerSocket env callbacks st = map_option snd (register_tables env callbacks st)"

definition RIL_register :: "ril_env \<Rightarrow> int option \<Rightarrow> ril \<Rightarrow> ril option" where
  "RIL_register env callbacks st =
     map_option (\<lambda>(ok, st). if ok then st\<lparr>malServer := True\<rparr> else st) (register_tables env callbacks st)"

definition ril_init :: ril where
  "ril_init = \<lparr>version = 0, s_registerCalled = False, serviceRegistered = False, malServer = False,
     mtk_command_start = 0, mtk_unsol_start = 0, requests = Map.empty, s_pendingRequests = [],
     s_pendingRequests_socket2 = [],
     Device_ID = replicate 2 \<lparr>imei = None, imeisv = None, esnHex = None, meidHex = None\<rparr>,
     s_prevEcopsData = [None, None], wake_lock = False, s_wakelock_count = 0, timed = Map.empty,
     s_last_wake_timeout_info = 0, enqueued = [], s_lastNITZTimeData = None,
     channels = \<lparr>threadPid = replicate MAX_RIL_CHANNELS no_thread, dispatchChannelKey = (\<lambda>_. 0), s_ctxfixArmed = 0\<rparr>,
     mal_server = mal_init, radio_calls = [], property_sets = []\<rparr>"

end
