(* ===== verification/RilCorrect.thy ===== *)
theory RilCorrect
  imports RilRequests
begin

text \<open>
  Correctness of the request side of libril: the tables and their self-check, names in the log, the
  life of a request from \<open>addRequestToList\<close> to its completion, and the wake lock.
\<close>

section \<open>Tables\<close>

lemma self_check_aosp:
  "\<forall>k < length rs. rs ! k = base + i + int k \<and> rs ! k < vendor \<Longrightarrow>
     self_check base vendor (rs @ vs) i start = self_check base vendor vs (i + int (length rs)) start"
proof (induction rs arbitrary: i)
  case (Cons r rs)
  have "\<forall>k < length rs. rs ! k = base + (i + 1) + int k \<and> rs ! k < vendor"
    using Cons.prems by (force dest: spec [of _ "Suc k" for k])
  then have "self_check base vendor (rs @ vs) (i + 1) start = self_check base vendor vs (i + 1 + int (length rs)) start"
    by (rule Cons.IH)
  moreover have "r = base + i" "r < vendor" using spec [OF Cons.prems, of 0] by simp_all
  ultimately show ?case by (simp add: ac_simps)
qed simp

lemma self_check_vendor:
  "0 < start \<Longrightarrow> start \<le> i \<Longrightarrow> \<forall>k < length vs. vs ! k = vendor + i - start + int k \<Longrightarrow>
     self_check base vendor vs i start = Some start"
proof (induction vs arbitrary: i)
  case (Cons v vs)
  have "\<forall>k < length vs. vs ! k = vendor + (i + 1) - start + int k"
    using Cons.prems by (force dest: spec [of _ "Suc k" for k])
  then show ?case using Cons.IH [of "i + 1"] Cons.prems by (auto simp: Let_def)
qed simp

lemma self_check_first_vendor:
  "0 < i \<Longrightarrow> \<forall>k < length vs. vs ! k = vendor + int k \<Longrightarrow>
     self_check base vendor vs i 0 = Some (if vs = [] then 0 else i)"
proof (cases vs)
  case (Cons v ws)
  assume "0 < i" and nums: "\<forall>k < length vs. vs ! k = vendor + int k"
  have "\<forall>k < length ws. ws ! k = vendor + (i + 1) - i + int k"
    using nums Cons by (force dest: spec [of _ "Suc k" for k])
  then show ?thesis using self_check_vendor [of i "i + 1" ws vendor base] \<open>0 < i\<close> nums Cons by (auto simp: Let_def)
qed simp

text \<open>What \<open>mtk_ril_unsol_commands.h\<close> promises: its entries are numbered from \<open>RIL_UNSOL_VENDOR_BASE\<close> on.\<close>

definition vendor_numbered :: "ril_env \<Rightarrow> bool" where
  "vendor_numbered env \<longleftrightarrow> map unsolNumber (env_vendorUnsol env) =
     map (\<lambda>k. RIL_UNSOL_VENDOR_BASE + int k) [0..<length (env_vendorUnsol env)]"

lemma vendor_numbered_nth:
  "vendor_numbered env \<Longrightarrow> k < length (env_vendorUnsol env) \<Longrightarrow> unsolNumber (env_vendorUnsol env ! k) = RIL_UNSOL_VENDOR_BASE + int k"
  unfolding vendor_numbered_def by (drule arg_cong [of _ _ "\<lambda>xs. xs ! k"]) simp

lemma aosp_unsol_length: "length aosp_unsolResponses = 48"
  by code_simp

lemma aosp_unsol_nth: "k < 48 \<Longrightarrow> unsolNumber (aosp_unsolResponses ! k) = 1000 + int k"
  using arg_cong [OF aosp_unsol_numbers, of "\<lambda>xs. xs ! k"]
  by (simp add: aosp_unsol_length nth_upto del: upto_rec_numeral)

lemma command_table_check: "self_check 0 RIL_REQUEST_VENDOR_BASE (map requestNumber s_commands) 0 0 = Some 0"
  using self_check_aosp [of "map requestNumber s_commands" 0 0 RIL_REQUEST_VENDOR_BASE "[]" 0]
  by (simp add: s_commands_length s_commands_nth RIL_REQUEST_VENDOR_BASE_def)

lemma unsol_table_check:
  assumes "vendor_numbered env"
  shows "self_check RIL_UNSOL_RESPONSE_BASE RIL_UNSOL_VENDOR_BASE (map unsolNumber (unsol_table env)) 0 0 =
     Some (if env_vendorUnsol env = [] then 0 else 48)"
proof -
  have "self_check RIL_UNSOL_RESPONSE_BASE RIL_UNSOL_VENDOR_BASE (map unsolNumber (env_vendorUnsol env)) 48 0 =
      Some (if env_vendorUnsol env = [] then 0 else 48)"
    using self_check_first_vendor [of 48 "map unsolNumber (env_vendorUnsol env)" RIL_UNSOL_VENDOR_BASE]
      vendor_numbered_nth [OF assms] by simp
  then show ?thesis
    using self_check_aosp [of "map unsolNumber aosp_unsolResponses" RIL_UNSOL_RESPONSE_BASE 0 RIL_UNSOL_VENDOR_BASE]
    by (simp add: unsol_table_def aosp_unsol_length aosp_unsol_nth RIL_UNSOL_RESPONSE_BASE_def RIL_UNSOL_VENDOR_BASE_def)
qed

lemma registerSocket_first:
  assumes "vendor_numbered env" "RIL_VERSION_MIN \<le> v" "\<not> s_registerCalled st" "mtk_command_start st = 0" "mtk_unsol_start st = 0"
  shows "RIL_registerSocket env (Some v) st = Some (st\<lparr>version := v, s_registerCalled := True,
     channels := (channels st)\<lparr>threadPid := replicate MAX_RIL_CHANNELS no_thread\<rparr>, mtk_command_start := 0,
     mtk_unsol_start := (if env_vendorUnsol env = [] then 0 else 48), serviceRegistered := True\<rparr>)"
  using assms command_table_check unsol_table_check [OF assms(1)]
  by (simp add: RIL_registerSocket_def register_tables_def)

lemma unsol_lookup:
  assumes "vendor_numbered env"
    and "n \<in> {1000..1047} \<or> n \<in> {3000..<3000 + int (length (env_vendorUnsol env))}"
    and start: "start = (if env_vendorUnsol env = [] then 0 else 48)"
  shows "0 \<le> unsol_index start n \<and> unsol_index start n < int (length (unsol_table env)) \<and>
     unsolNumber (unsol_table env ! nat (unsol_index start n)) = n"
proof (cases "n \<in> {1000..1047}")
  case True
  then have "unsol_index start n = n - 1000" by (simp add: unsol_index_def base_defs)
  moreover have "nat (n - 1000) < 48" "1000 + int (nat (n - 1000)) = n" using True by auto
  ultimately show ?thesis using aosp_unsol_nth [of "nat (n - 1000)"] True
    by (simp add: unsol_table_def nth_append aosp_unsol_length)
next
  case False
  define k where "k = nat (n - 3000)"
  have k: "n = 3000 + int k" "k < length (env_vendorUnsol env)" using assms(2) False by (auto simp: k_def)
  then have "start = 48" using start by auto
  then have "unsol_index start n = int (48 + k)" using k by (simp add: unsol_index_def base_defs)
  then show ?thesis using vendor_numbered_nth [OF assms(1) k(2)] k
    by (simp add: unsol_table_def nth_append aosp_unsol_length RIL_UNSOL_VENDOR_BASE_def del: of_nat_add)
qed

section \<open>Names\<close>

lemma names_known:
  "list_all (\<lambda>e. snd e \<noteq> ''<unknown request>'') requestNames_aosp"
  "list_all (\<lambda>e. snd e \<noteq> ''<unknown request>'') requestNames_unsol"
  "list_all (\<lambda>e. snd e \<noteq> ''<unknown request>'') requestNames_mtk"
  "list_all (\<lambda>e. snd e \<noteq> ''<unknown request>'') requestNames_mtk_unsol"
  by code_simp+

lemma requestToString_unknown_iff:
  "requestToString n = ''<unknown request>'' \<longleftrightarrow>
     n \<notin> {1..137} \<union> {141, 800} \<union> {1000..1048} \<union> {2000..2089} \<union> {3000..3075}"
proof -
  let ?names = "requestNames_aosp @ requestNames_unsol @ requestNames_mtk @ requestNames_mtk_unsol"
  have keys: "fst ` set ?names = {1..137} \<union> {141, 800} \<union> {1000..1048} \<union> {2000..2089} \<union> {3000..3075}"
  proof -
    have "set (map fst requestNames_aosp) = {1..137} \<union> {141, 800}"
      by (simp only: name_keys_aosp set_append set_upto list.set)
    moreover have "set (map fst requestNames_unsol) = {1000..1048}" by (simp only: name_keys_unsol set_upto)
    moreover have "set (map fst requestNames_mtk) = {2000..2089}" by (simp only: name_keys_mtk set_upto)
    moreover have "set (map fst requestNames_mtk_unsol) = {3000..3075}" by (simp only: name_keys_mtk_unsol set_upto)
    ultimately show ?thesis by (simp only: set_append image_Un set_map Un_assoc)
  qed
  have "s \<noteq> ''<unknown request>''" if "map_of ?names n = Some s" for s
  proof -
    have "(n, s) \<in> set ?names" using that by (rule map_of_SomeD)
    then show ?thesis using names_known unfolding list_all_iff by auto
  qed
  then have "requestToString n = ''<unknown request>'' \<longleftrightarrow> map_of ?names n = None"
    unfolding requestToString_def by (cases "map_of ?names n") (simp_all only: option.case option.distinct simp_thms)
  then show ?thesis unfolding map_of_eq_None_iff keys .
qed

section \<open>The wake lock\<close>

text \<open>
  \<open>wake_ok\<close>: the record \<open>s_last_wake_timeout_info\<close> points to is still allocated.
\<close>

definition wake_ok :: "ril \<Rightarrow> bool" where
  "wake_ok st \<longleftrightarrow> s_last_wake_timeout_info st = 0 \<or> timed st (s_last_wake_timeout_info st) \<noteq> None"

text \<open>What the wake-lock operations leave alone.\<close>

definition same_requests :: "ril \<Rightarrow> ril \<Rightarrow> bool" where
  "same_requests st st' \<longleftrightarrow> requests st' = requests st \<and> s_pendingRequests st' = s_pendingRequests st
     \<and> s_pendingRequests_socket2 st' = s_pendingRequests_socket2 st \<and> Device_ID st' = Device_ID st
     \<and> mal_server st' = mal_server st"

lemma same_requests_refl [simp]: "same_requests st st"
  by (simp add: same_requests_def)

lemma same_requests_trans: "same_requests a b \<Longrightarrow> same_requests b c \<Longrightarrow> same_requests a c"
  by (simp add: same_requests_def)

lemma cancel_last_timeout_ok:
  "wake_ok st \<Longrightarrow> \<exists>st'. cancel_last_timeout st = Some st' \<and> same_requests st st' \<and> radio_calls st' = radio_calls st
     \<and> wake_lock st' = wake_lock st \<and> s_wakelock_count st' = s_wakelock_count st \<and> version st' = version st
     \<and> wake_ok st' \<and> dom (timed st') = dom (timed st)"
  by (auto simp: cancel_last_timeout_def wake_ok_def same_requests_def split: option.splits)

lemma cancel_last_timeout_frame:
  "cancel_last_timeout st = Some st' \<Longrightarrow> same_requests st st' \<and> radio_calls st' = radio_calls st"
  by (auto simp: cancel_last_timeout_def same_requests_def split: if_splits option.splits)

lemma grab_frame:
  "grabPartialWakeLock fresh st = Some st' \<Longrightarrow> same_requests st st' \<and> radio_calls st' = radio_calls st"
  by (auto simp: grabPartialWakeLock_def internalRequestTimedCallback_def same_requests_def Let_def
      split: if_splits dest!: cancel_last_timeout_frame)

lemma release_frame:
  "releaseWakeLock st = Some st' \<Longrightarrow> same_requests st st' \<and> radio_calls st' = radio_calls st"
  by (auto simp: releaseWakeLock_def same_requests_def split: if_splits dest!: cancel_last_timeout_frame)

lemma wake_ok_alloc:
  "wake_ok st \<Longrightarrow> wake_ok (st\<lparr>wake_lock := b, timed := (timed st)(p \<mapsto> u), channels := c, s_wakelock_count := n\<rparr>)"
  by (auto simp: wake_ok_def)

lemma grab_succeeds:
  assumes "wake_ok st"
  shows "\<exists>st'. grabPartialWakeLock fresh st = Some st'"
  using assms
  by (auto simp: grabPartialWakeLock_def internalRequestTimedCallback_def cancel_last_timeout_def wake_ok_def Let_def
      split: option.splits)

text \<open>With version 13 and memory to spare, the kernel lock is held exactly while the count is positive.\<close>

definition wake_inv :: "ril \<Rightarrow> bool" where
  "wake_inv st \<longleftrightarrow> version st \<ge> 13 \<and> wake_ok st \<and> 0 \<le> s_wakelock_count st \<and> (wake_lock st \<longleftrightarrow> 0 < s_wakelock_count st)"

lemma wake_inv_grab:
  assumes "wake_inv st" "fresh \<noteq> 0"
  shows "\<exists>st'. grabPartialWakeLock fresh st = Some st' \<and> wake_inv st' \<and> s_wakelock_count st' = s_wakelock_count st + 1
     \<and> s_last_wake_timeout_info st' = fresh"
proof -
  let ?u = "\<lparr>uc_callback = WakeTimeoutCallback, uc_param = 0, uc_relative = TIMEVAL_WAKE_TIMEOUT, uc_cid = of_int (- 1)\<rparr>"
  let ?st = "st\<lparr>wake_lock := True, timed := (timed st)(fresh \<mapsto> ?u), channels := channels st,
    s_wakelock_count := s_wakelock_count st + 1\<rparr>"
  have "wake_ok ?st" using assms by (intro wake_ok_alloc) (simp add: wake_inv_def)
  from cancel_last_timeout_ok [OF this] obtain st' where st': "cancel_last_timeout ?st = Some st'"
    "wake_lock st'" "s_wakelock_count st' = s_wakelock_count st + 1" "version st' = version st"
    "dom (timed st') = insert fresh (dom (timed st))" by auto
  then have "grabPartialWakeLock fresh st = Some (st'\<lparr>s_last_wake_timeout_info := fresh\<rparr>)"
    using assms by (simp add: grabPartialWakeLock_def internalRequestTimedCallback_def wake_inv_def)
  moreover have "wake_inv (st'\<lparr>s_last_wake_timeout_info := fresh\<rparr>)"
    using st' assms by (auto simp: wake_inv_def wake_ok_def dom_def)
  ultimately show ?thesis using st' by simp
qed

lemma wake_inv_release:
  assumes "wake_inv st"
  shows "\<exists>st'. releaseWakeLock st = Some st' \<and> wake_inv st' \<and> s_wakelock_count st' = max 0 (s_wakelock_count st - 1)"
proof (cases "s_wakelock_count st > 1")
  case True
  then show ?thesis using assms by (auto simp: releaseWakeLock_def wake_inv_def wake_ok_def)
next
  case False
  have "wake_ok (st\<lparr>s_wakelock_count := 0, wake_lock := False\<rparr>)" using assms by (simp add: wake_inv_def wake_ok_def)
  from cancel_last_timeout_ok [OF this] show ?thesis using assms False
    by (auto simp: releaseWakeLock_def wake_inv_def)
qed

lemma wake_inv_timeout:
  "wake_inv st \<Longrightarrow> \<exists>st'. wakeTimeoutCallback param st = Some st' \<and> wake_inv st' \<and>
     s_wakelock_count st' = (if param = 0 then 0 else s_wakelock_count st)"
  by (simp add: wakeTimeoutCallback_def wake_inv_def wake_ok_def)

text \<open>The unsigned comparison is always true: libril never runs a timed callback nor forgets it.\<close>

lemma userTimerCallback_hands_over:
  "timed st p = Some u \<Longrightarrow> userTimerCallback p st = Some (st\<lparr>enqueued := enqueued st @ [p]\<rparr>)"
  by (simp add: userTimerCallback_def RIL_URC_def)

lemma stale_wake_timeout:
  "version st \<ge> 13 \<Longrightarrow> fresh \<noteq> 0 \<Longrightarrow> s_last_wake_timeout_info st \<noteq> 0 \<Longrightarrow> s_last_wake_timeout_info st \<noteq> fresh \<Longrightarrow>
     timed st (s_last_wake_timeout_info st) = None \<Longrightarrow> grabPartialWakeLock fresh st = None"
  by (simp add: grabPartialWakeLock_def internalRequestTimedCallback_def cancel_last_timeout_def)

section \<open>The life of a request\<close>

text \<open>
  The request heap holds exactly the pending requests, each on the list of its socket and there once.
\<close>

definition lists_ok :: "(nat \<rightharpoonup> request_info) \<Rightarrow> nat list \<Rightarrow> nat list \<Rightarrow> bool" where
  "lists_ok req p1 p2 \<longleftrightarrow> distinct p1 \<and> distinct p2 \<and> req 0 = None
     \<and> (\<forall>t. t \<in> set p1 \<longleftrightarrow> (\<exists>r. req t = Some r \<and> ri_socket_id r \<noteq> SOCKET_2))
     \<and> (\<forall>t. t \<in> set p2 \<longleftrightarrow> (\<exists>r. req t = Some r \<and> ri_socket_id r = SOCKET_2))"

definition request_inv :: "ril \<Rightarrow> bool" where
  "request_inv st \<longleftrightarrow> lists_ok (requests st) (s_pendingRequests st) (s_pendingRequests_socket2 st)"

lemma lists_ok_add:
  "lists_ok req p1 p2 \<Longrightarrow> req t = None \<Longrightarrow> t \<noteq> 0 \<Longrightarrow>
     lists_ok (req(t \<mapsto> r)) (if ri_socket_id r = SOCKET_2 then p1 else t # p1) (if ri_socket_id r = SOCKET_2 then t # p2 else p2)"
  unfolding lists_ok_def by auto

lemma lists_ok_ack:
  "lists_ok req p1 p2 \<Longrightarrow> req t = Some r \<Longrightarrow> ri_socket_id r' = ri_socket_id r \<Longrightarrow> lists_ok (req(t \<mapsto> r')) p1 p2"
  unfolding lists_ok_def by (cases "t = 0") auto

lemma lists_ok_remove:
  "lists_ok req p1 p2 \<Longrightarrow> req t = Some r \<Longrightarrow>
     lists_ok (req(t := None)) (if ri_socket_id r = SOCKET_2 then p1 else remove1 t p1)
       (if ri_socket_id r = SOCKET_2 then remove1 t p2 else p2)"
  unfolding lists_ok_def by auto

lemma lists_ok_dom: "lists_ok req p1 p2 \<Longrightarrow> dom req = set p1 \<union> set p2 \<and> set p1 \<inter> set p2 = {}"
  unfolding lists_ok_def by auto

lemma request_inv_same: "same_requests st st' \<Longrightarrow> request_inv st \<Longrightarrow> request_inv st'"
  by (simp add: same_requests_def request_inv_def)

lemma request_inv_init: "request_inv ril_init"
  by (simp add: request_inv_def lists_ok_def ril_init_def)

lemma request_inv_add:
  assumes "request_inv st" "requests st pRI = None" "addRequestToList pRI serial slotId request st = Some (p, st')"
  shows "request_inv st'"
proof (cases "pRI = 0")
  case True
  then show ?thesis using assms by (simp add: addRequestToList_def)
next
  case False
  let ?i = "command_index (mtk_command_start st) request"
  let ?pCI = "s_commands ! nat ?i"
  let ?r = "\<lparr>ri_client = 0, ri_token = serial, ri_pCI = ?pCI, ri_cancelled = False, ri_local = (serial = - 1),
     ri_socket_id = slotId, ri_wasAckSent = False,
     ri_cid = (if slotId > SOCKET_1 then proxyId ?pCI + RIL_CHANNEL_OFFSET else proxyId ?pCI)\<rparr>"
  have "st' = set_pending slotId (pRI # pending slotId st) (st\<lparr>requests := (requests st)(pRI \<mapsto> ?r)\<rparr>)"
    using assms(3) False by (auto simp: addRequestToList_def Let_def pending_def split: if_splits)
  then show ?thesis
    using lists_ok_add [of "requests st" "s_pendingRequests st" "s_pendingRequests_socket2 st" pRI ?r] assms(1,2) False
    by (cases "slotId = SOCKET_2") (simp_all add: request_inv_def set_pending_def pending_def)
qed

lemma request_inv_pending:
  "request_inv st \<Longrightarrow> requests st t = Some r \<Longrightarrow> t \<noteq> 0 \<and> t \<in> set (pending (ri_socket_id r) st)"
  unfolding request_inv_def lists_ok_def pending_def by (cases "t = 0") auto

lemma ack_pending:
  assumes "request_inv st" "requests st t = Some r"
  shows "RIL_onRequestAck t st =
     Some (let st = st\<lparr>requests := (requests st)(t \<mapsto> r\<lparr>ri_wasAckSent := True\<rparr>)\<rparr> in
           if ri_cancelled r then st else call_radio (AcknowledgeRequest (ri_socket_id r) (ri_token r)) st)"
  using request_inv_pending [OF assms] assms
  by (simp add: RIL_onRequestAck_def checkAndDequeueRequestInfoIfAck_def)

lemma request_inv_ack:
  assumes inv: "request_inv st" and ack: "RIL_onRequestAck t st = Some st'"
  shows "request_inv st'"
proof (cases "requests st t")
  case None
  then have "st' = st"
    using ack inv by (cases "t = 0") (auto simp: RIL_onRequestAck_def checkAndDequeueRequestInfoIfAck_def)
  then show ?thesis using inv by simp
next
  case (Some r)
  have "lists_ok ((requests st)(t \<mapsto> r\<lparr>ri_wasAckSent := True\<rparr>)) (s_pendingRequests st) (s_pendingRequests_socket2 st)"
    using inv Some by (intro lists_ok_ack [of _ _ _ t r]) (simp_all add: request_inv_def)
  then show ?thesis using ack ack_pending [OF inv Some]
    by (auto simp: request_inv_def call_radio_def Let_def split: if_splits)
qed

text \<open>The completion of a pending request, after the list operation.\<close>

definition dequeued :: "nat \<Rightarrow> request_info \<Rightarrow> ril \<Rightarrow> ril" where
  "dequeued t r st = set_pending (ri_socket_id r) (remove1 t (pending (ri_socket_id r) st)) st"

definition complete_found :: "ril_env \<Rightarrow> nat \<Rightarrow> request_info \<Rightarrow> u32 \<Rightarrow> u8 list option \<Rightarrow> ril \<Rightarrow> ril option" where
  "complete_found env fresh r e response st =
     (if ri_local r then complete_local r response st
      else case override_identity env r e response st of
          None \<Rightarrow> None
        | Some (e, data) \<Rightarrow> Option.bind (clear_ecops r st) (answer_request fresh r e data))"

lemma dequeued_simps [simp]:
  "requests (dequeued t r st) = requests st" "radio_calls (dequeued t r st) = radio_calls st"
  "version (dequeued t r st) = version st" "mal_server (dequeued t r st) = mal_server st"
  "Device_ID (dequeued t r st) = Device_ID st" "wake_ok (dequeued t r st) = wake_ok st"
  by (simp_all add: dequeued_def set_pending_def wake_ok_def)

lemma complete_pending:
  assumes "request_inv st" "requests st t = Some r" "malClaim t (mal_server st) = None"
  shows "RIL_onRequestComplete env fresh t e response st =
     map_option (\<lambda>st. st\<lparr>requests := (requests st)(t := None)\<rparr>) (complete_found env fresh r e response (dequeued t r st))"
proof -
  have "checkAndDequeueRequestInfoIfAck t False st = Some (True, dequeued t r st)"
    using request_inv_pending [OF assms(1,2)] assms(2) by (simp add: checkAndDequeueRequestInfoIfAck_def dequeued_def)
  then show ?thesis using assms(2,3) by (simp add: RIL_onRequestComplete_def complete_found_def)
qed

lemma complete_found_frame:
  "complete_found env fresh r e response st = Some st' \<Longrightarrow>
     requests st' = requests st \<and> s_pendingRequests st' = s_pendingRequests st \<and>
     s_pendingRequests_socket2 st' = s_pendingRequests_socket2 st \<and> mal_server st' = mal_server st"
  by (auto simp: complete_found_def complete_local_def override_identity_def clear_ecops_def answer_request_def Let_def
      call_radio_def same_requests_def split: if_splits option.splits dest!: grab_frame)

lemma request_inv_complete:
  assumes inv: "request_inv st" and r: "requests st t = Some r" and mal: "malClaim t (mal_server st) = None"
    and st': "RIL_onRequestComplete env fresh t e response st = Some st'"
  shows "request_inv st' \<and> requests st' = (requests st)(t := None) \<and> mal_server st' = mal_server st"
proof -
  obtain st1 where st1: "complete_found env fresh r e response (dequeued t r st) = Some st1"
      "st' = st1\<lparr>requests := (requests st1)(t := None)\<rparr>"
    using st' complete_pending [OF inv r mal] by auto
  note frame = complete_found_frame [OF st1(1)]
  have "lists_ok ((requests st)(t := None)) (s_pendingRequests (dequeued t r st)) (s_pendingRequests_socket2 (dequeued t r st))"
    using lists_ok_remove [of "requests st" "s_pendingRequests st" "s_pendingRequests_socket2 st" t r] inv r
    by (simp add: request_inv_def dequeued_def set_pending_def pending_def split: if_splits)
  then show ?thesis using st1(2) frame by (simp add: request_inv_def)
qed

lemma request_inv_complete_any:
  assumes inv: "request_inv st" and st': "RIL_onRequestComplete env fresh t e response st = Some st'"
  shows "request_inv st'"
proof (cases "malClaim t (mal_server st)")
  case (Some slot)
  then show ?thesis using inv st' by (auto simp: RIL_onRequestComplete_def request_inv_def)
next
  case mal: None
  show ?thesis
  proof (cases "requests st t")
    case None
    then have "st' = st"
      using st' mal inv by (cases "t = 0") (auto simp: RIL_onRequestComplete_def checkAndDequeueRequestInfoIfAck_def)
    then show ?thesis using inv by simp
  next
    case (Some r)
    then show ?thesis using request_inv_complete [OF inv Some mal st'] by simp
  qed
qed

lemma completed_token_faults:
  assumes "requests st t = None" "t \<noteq> 0" "malClaim t (mal_server st) = None"
  shows "RIL_onRequestComplete env fresh t e response st = None" "RIL_onRequestAck t st = None"
  using assms by (simp_all add: RIL_onRequestComplete_def RIL_onRequestAck_def checkAndDequeueRequestInfoIfAck_def)

text \<open>What the framework is sent for a request that is neither local nor cancelled.\<close>

definition expected_answer :: "ril_env \<Rightarrow> request_info \<Rightarrow> u32 \<Rightarrow> u8 list option \<Rightarrow> ril \<Rightarrow> radio_call list" where
  "expected_answer env r e response st =
     (let emulated = (requestNumber (ri_pCI r) = RIL_REQUEST_DEVICE_IDENTITY \<and> mtkDevIdEmuEnabled (env_props env)) in
      case responseFunction (ri_pCI r) of None \<Rightarrow> []
      | Some f \<Rightarrow> [Response f (ri_socket_id r)
            (if version st \<ge> 13 \<and> ri_wasAckSent r then RESPONSE_SOLICITED_ACK_EXP else RESPONSE_SOLICITED) (ri_token r)
            (if emulated then 0 else e)
            (if emulated then Identity (Device_ID st ! nat (ri_socket_id r)) else Bytes response)])"

lemma answer_request_ok:
  assumes "wake_ok st" "\<not> ri_cancelled r"
  shows "\<exists>st'. answer_request fresh r e data st = Some st' \<and> radio_calls st' = radio_calls st @
    (case responseFunction (ri_pCI r) of None \<Rightarrow> [] | Some f \<Rightarrow> [Response f (ri_socket_id r)
       (if version st \<ge> 13 \<and> ri_wasAckSent r then RESPONSE_SOLICITED_ACK_EXP else RESPONSE_SOLICITED) (ri_token r) e data])"
proof -
  obtain st1 where st1: "grabPartialWakeLock fresh st = Some st1" using grab_succeeds [OF assms(1)] by blast
  then show ?thesis using grab_frame [OF st1] assms(2)
    by (auto simp: answer_request_def call_radio_def Let_def split: option.splits)
qed

lemma clear_ecops_ok:
  "wake_ok st \<Longrightarrow> in_sockets (ri_socket_id r) \<Longrightarrow> \<exists>st'. clear_ecops r st = Some st' \<and> wake_ok st' \<and>
     radio_calls st' = radio_calls st \<and> version st' = version st"
  by (simp add: clear_ecops_def wake_ok_def)

lemma complete_found_answers:
  assumes "wake_ok st" "\<not> ri_local r" "\<not> ri_cancelled r" "in_sockets (ri_socket_id r)"
  shows "\<exists>st'. complete_found env fresh r e response st = Some st' \<and>
     radio_calls st' = radio_calls st @ expected_answer env r e response st"
proof -
  obtain st1 where st1: "clear_ecops r st = Some st1" "wake_ok st1" "radio_calls st1 = radio_calls st"
      "version st1 = version st"
    using clear_ecops_ok [OF assms(1,4)] by blast
  obtain e' d where o: "override_identity env r e response st = Some (e', d)"
      "expected_answer env r e response st = (case responseFunction (ri_pCI r) of None \<Rightarrow> []
         | Some f \<Rightarrow> [Response f (ri_socket_id r)
             (if version st \<ge> 13 \<and> ri_wasAckSent r then RESPONSE_SOLICITED_ACK_EXP else RESPONSE_SOLICITED) (ri_token r) e' d])"
    using assms(4) by (cases "requestNumber (ri_pCI r) = RIL_REQUEST_DEVICE_IDENTITY \<and> mtkDevIdEmuEnabled (env_props env)")
      (auto simp: override_identity_def expected_answer_def Let_def)
  show ?thesis using answer_request_ok [OF st1(2) assms(3), of fresh e' d] st1 o assms(2)
    by (auto simp: complete_found_def)
qed

section \<open>Runs of the request side\<close>

lemma same_requests_fields [simp]:
  "same_requests st (st\<lparr>s_lastNITZTimeData := x\<rparr>)" "same_requests st (call_radio c st)"
  "same_requests st (st\<lparr>s_last_wake_timeout_info := p\<rparr>)" "same_requests st (st\<lparr>enqueued := q\<rparr>)"
  "same_requests st (st\<lparr>timed := m\<rparr>)" "same_requests st (st\<lparr>timed := m, channels := c'\<rparr>)"
  by (simp_all add: same_requests_def call_radio_def)

lemma indication_frame: "call_indication env u s ty data st = (ret, st') \<Longrightarrow> same_requests st st'"
  by (auto simp: call_indication_def Let_def split: option.splits)

lemma schedule_frame: "schedule_timeout fresh b st = Some (ok, st') \<Longrightarrow> same_requests st st'"
  by (auto simp: schedule_timeout_def internalRequestTimedCallback_def Let_def same_requests_def
      split: if_splits dest!: cancel_last_timeout_frame)

lemma send_unsol_frame:
  assumes "send_unsolResponse env fresh nitz n data socket st = Some st'"
  shows "same_requests st st'"
proof (cases "st' = st")
  case False
  let ?u = "unsol_table env ! nat (unsol_index (mtk_unsol_start st) n)"
  let ?ty = "if version st \<ge> 13 \<and> wakeType ?u = WAKE_PARTIAL then RESPONSE_UNSOLICITED_ACK_EXP else RESPONSE_UNSOLICITED"
  obtain st1 where st1: "(if wakeType ?u = WAKE_PARTIAL then grabPartialWakeLock fresh st else Some st) = Some st1"
    using assms False by (auto simp: send_unsolResponse_def Let_def split: if_splits option.splits)
  obtain ret st2 where st2: "call_indication env ?u socket ?ty data st1 = (ret, st2)" by (meson surj_pair)
  obtain ok st3 where st3: "schedule_timeout fresh (wakeType ?u = WAKE_PARTIAL) st2 = Some (ok, st3)"
    using assms False st1 st2 by (auto simp: send_unsolResponse_def Let_def split: if_splits option.splits)
  have "same_requests st st1" using st1 grab_frame by (auto split: if_splits)
  then have "same_requests st st3"
    using indication_frame [OF st2] schedule_frame [OF st3] same_requests_trans by blast
  moreover have "same_requests st3 st'"
  proof -
    have "st' = st3 \<or> releaseWakeLock st3 = Some st' \<or> (\<exists>x. st' = st3\<lparr>s_lastNITZTimeData := x\<rparr>)
        \<or> releaseWakeLock (st3\<lparr>s_lastNITZTimeData := None\<rparr>) = Some st'"
      using assms False st1 st2 st3
      by (simp add: send_unsolResponse_def Let_def split: if_splits) auto
    then show ?thesis
      using release_frame same_requests_trans same_requests_fields(1) by (metis same_requests_refl)
  qed
  ultimately show ?thesis by (rule same_requests_trans)
qed simp

inductive ril_run :: "ril_env \<Rightarrow> ril \<Rightarrow> bool" for env where
  start: "ril_run env ril_init"
| register: "ril_run env st \<Longrightarrow> RIL_registerSocket env callbacks st = Some st' \<Longrightarrow> ril_run env st'"
| add: "ril_run env st \<Longrightarrow> requests st pRI = None \<Longrightarrow> addRequestToList pRI serial slotId request st = Some (p, st') \<Longrightarrow>
     ril_run env st'"
| ack: "ril_run env st \<Longrightarrow> RIL_onRequestAck t st = Some st' \<Longrightarrow> ril_run env st'"
| complete: "ril_run env st \<Longrightarrow> RIL_onRequestComplete env fresh t e response st = Some st' \<Longrightarrow> ril_run env st'"
| unsolicited: "ril_run env st \<Longrightarrow> RIL_onUnsolicitedResponseSocket env fresh nitz n data socket st = Some st' \<Longrightarrow>
     ril_run env st'"
| released: "ril_run env st \<Longrightarrow> releaseWakeLock st = Some st' \<Longrightarrow> ril_run env st'"
| timer: "ril_run env st \<Longrightarrow> userTimerCallback p st = Some st' \<Longrightarrow> ril_run env st'"
| timeout: "ril_run env st \<Longrightarrow> wakeTimeoutCallback param st = Some st' \<Longrightarrow> ril_run env st'"
| consumed: "ril_run env st \<Longrightarrow> p \<in> set (enqueued st) \<Longrightarrow>
     ril_run env (st\<lparr>timed := (timed st)(p := None), enqueued := remove1 p (enqueued st)\<rparr>)"

lemma register_frame: "RIL_registerSocket env callbacks st = Some st' \<Longrightarrow> same_requests st st'"
  by (auto simp: RIL_registerSocket_def register_tables_def same_requests_def Let_def split: option.splits if_splits)

lemma timeout_frame: "wakeTimeoutCallback param st = Some st' \<Longrightarrow> same_requests st st'"
  by (auto simp: wakeTimeoutCallback_def same_requests_def split: if_splits dest!: release_frame)

lemma timer_frame: "userTimerCallback p st = Some st' \<Longrightarrow> same_requests st st'"
  by (cases "timed st p") (auto simp: userTimerCallback_hands_over, simp add: userTimerCallback_def)

lemma unsolicited_frame: "RIL_onUnsolicitedResponseSocket env fresh nitz n data socket st = Some st' \<Longrightarrow> same_requests st st'"
  by (auto simp: RIL_onUnsolicitedResponseSocket_def split: if_splits dest: send_unsol_frame)

lemma ril_run_inv: "ril_run env st \<Longrightarrow> request_inv st"
proof (induction rule: ril_run.induct)
  case (consumed st p)
  then show ?case by (simp add: request_inv_def)
qed (blast intro: request_inv_init request_inv_add request_inv_ack request_inv_complete_any request_inv_same
  register_frame unsolicited_frame timer_frame timeout_frame release_frame [THEN conjunct1])+

section \<open>Wake-lock histories\<close>

datatype wake_op = Grab nat | Release | Timeout nat

fun wake_step :: "wake_op \<Rightarrow> ril \<Rightarrow> ril option" where
  "wake_step (Grab fresh) st = grabPartialWakeLock fresh st"
| "wake_step Release st = releaseWakeLock st"
| "wake_step (Timeout param) st = wakeTimeoutCallback param st"

fun wake_run :: "wake_op list \<Rightarrow> ril \<Rightarrow> ril option" where
  "wake_run [] st = Some st"
| "wake_run (x # xs) st = Option.bind (wake_step x st) (wake_run xs)"

text \<open>The abstract counter.\<close>

fun count_step :: "wake_op \<Rightarrow> int \<Rightarrow> int" where
  "count_step (Grab _) c = c + 1"
| "count_step Release c = max 0 (c - 1)"
| "count_step (Timeout param) c = (if param = 0 then 0 else c)"

lemma wake_step_refines:
  "wake_inv st \<Longrightarrow> x \<noteq> Grab 0 \<Longrightarrow>
     \<exists>st'. wake_step x st = Some st' \<and> wake_inv st' \<and> s_wakelock_count st' = count_step x (s_wakelock_count st)"
proof (cases x)
  case (Grab fresh)
  then show "wake_inv st \<Longrightarrow> x \<noteq> Grab 0 \<Longrightarrow> ?thesis" using wake_inv_grab [of st fresh] by auto
qed (use wake_inv_release [of st] wake_inv_timeout [of st] in auto)

lemma wake_run_refines:
  "wake_inv st \<Longrightarrow> Grab 0 \<notin> set ops \<Longrightarrow>
     \<exists>st'. wake_run ops st = Some st' \<and> wake_inv st' \<and> s_wakelock_count st' = fold count_step ops (s_wakelock_count st)"
proof (induction ops arbitrary: st)
  case (Cons x xs)
  then obtain st1 where st1: "wake_step x st = Some st1" "wake_inv st1" "s_wakelock_count st1 = count_step x (s_wakelock_count st)"
    using wake_step_refines [of st x] by auto
  show ?case using Cons.IH [OF st1(2)] Cons.prems(2) st1 by auto
qed simp

section \<open>Properties\<close>

text \<open>
  C23 (type). Registering libril with callbacks of a supported version never trips the self-check, and
  afterwards every solicited request 0 to 140, every AOSP unsolicited response and every vendor
  unsolicited response leads by its number to the entry that has this number, inside the table; a
  second registration changes nothing. The entries of the vendor's header are assumed to be numbered
  consecutively from \<open>RIL_UNSOL_VENDOR_BASE\<close>.
\<close>

theorem tables_indexed_by_number:
  assumes "vendor_numbered env" "RIL_VERSION_MIN \<le> v"
  shows "\<exists>st. RIL_registerSocket env (Some v) ril_init = Some st \<and> RIL_registerSocket env (Some v') st = Some st \<and>
    (\<forall>request \<in> {0..140}.
       requestNumber (s_commands ! nat (command_index (mtk_command_start st) request)) = request \<and>
       command_index (mtk_command_start st) request \<in> {0..<int (length s_commands)}) \<and>
    (\<forall>n \<in> {1000..1047} \<union> {3000..<3000 + int (length (env_vendorUnsol env))}.
       unsolNumber (unsol_table env ! nat (unsol_index (mtk_unsol_start st) n)) = n \<and>
       unsol_index (mtk_unsol_start st) n \<in> {0..<int (length (unsol_table env))})"
proof -
  obtain st where st: "RIL_registerSocket env (Some v) ril_init = Some st" "s_registerCalled st"
      "mtk_command_start st = 0" "mtk_unsol_start st = (if env_vendorUnsol env = [] then 0 else 48)"
    using registerSocket_first [OF assms, of ril_init] by (auto simp: ril_init_def)
  moreover have "RIL_registerSocket env (Some v') st = Some st"
    using st(2) by (cases "v' < RIL_VERSION_MIN") (simp_all add: RIL_registerSocket_def register_tables_def)
  moreover have "requestNumber (s_commands ! nat (command_index 0 request)) = request \<and>
      command_index 0 request \<in> {0..<int (length s_commands)}" if "request \<in> {0..140}" for request
  proof -
    have "nat request < 141" using that by auto
    from s_commands_nth [OF this] show ?thesis using that by (simp add: command_index_def base_defs s_commands_length)
  qed
  moreover have "unsolNumber (unsol_table env ! nat (unsol_index (mtk_unsol_start st) n)) = n \<and>
      unsol_index (mtk_unsol_start st) n \<in> {0..<int (length (unsol_table env))}"
    if "n \<in> {1000..1047} \<union> {3000..<3000 + int (length (env_vendorUnsol env))}" for n
    using unsol_lookup [OF assms(1) that [unfolded Un_iff] st(4)] by simp
  ultimately show ?thesis by auto
qed

definition sample_env :: ril_env where
  "sample_env = \<lparr>env_props = (\<lambda>_. []),
     env_mal = \<lparr>env_malloc = (\<lambda>_. True), env_write = (\<lambda>_. []), env_sizeof_RequestInfo = 40\<rparr>,
     env_ret = (\<lambda>_. 0), env_vendorUnsol = [unsol 3000 None WAKE_PARTIAL, unsol 3001 None DONT_WAKE]\<rparr>"

lemma sample_env_numbered: "vendor_numbered sample_env"
  by (simp add: vendor_numbered_def sample_env_def unsol_def RIL_UNSOL_VENDOR_BASE_def)

lemma tables_indexed_by_number_witness:
  "\<exists>st. RIL_registerSocket sample_env (Some 10) ril_init = Some st \<and>
     unsolNumber (unsol_table sample_env ! nat (unsol_index (mtk_unsol_start st) 3001)) = 3001"
  using tables_indexed_by_number [OF sample_env_numbered, of 10 10]
  by (force simp: RIL_VERSION_MIN_def sample_env_def)

text \<open>
  The log names every request of the command table but four, and every AOSP
  unsolicited response: \<open>requestToString\<close> knows no name for entry 0 and for the requests 138, 139
  and 140 (\<open>SEND_DEVICE_STATE\<close>, \<open>SET_UNSOLICITED_RESPONSE_FILTER\<close>, \<open>SET_SIM_CARD_POWER\<close>), which the
  table serves.
\<close>

theorem requestToString_gaps:
  "{n \<in> requestNumber ` set s_commands. requestToString n = ''<unknown request>''} = {0, 138, 139, 140} \<and>
   {n \<in> unsolNumber ` set aosp_unsolResponses. requestToString n = ''<unknown request>''} = {}"
proof -
  have "requestNumber ` set s_commands = {0..140}"
    using s_commands_numbers by (metis set_map set_upto)
  moreover have "unsolNumber ` set aosp_unsolResponses = {1000..1047}"
    using aosp_unsol_numbers by (metis set_map set_upto)
  ultimately show ?thesis unfolding requestToString_unknown_iff by auto
qed

text \<open>
  C21 (invariant). However requests are added, acknowledged and completed, unsolicited responses sent,
  timers fired and wake locks released, the request records that are allocated are exactly those on the
  two pending lists, no request is on a list twice or on both, and each is on the list of its socket.
\<close>

theorem pending_requests_exact:
  assumes "ril_run env st"
  shows "dom (requests st) = set (s_pendingRequests st @ s_pendingRequests_socket2 st) \<and>
    distinct (s_pendingRequests st @ s_pendingRequests_socket2 st) \<and>
    (\<forall>t \<in> set (s_pendingRequests_socket2 st). ri_socket_id (the (requests st t)) = SOCKET_2) \<and>
    (\<forall>t \<in> set (s_pendingRequests st). ri_socket_id (the (requests st t)) \<noteq> SOCKET_2)"
proof -
  have ok: "lists_ok (requests st) (s_pendingRequests st) (s_pendingRequests_socket2 st)"
    using ril_run_inv [OF assms] by (simp add: request_inv_def)
  then show ?thesis using lists_ok_dom [OF ok] by (auto simp: lists_ok_def)
qed

lemma added_run:
  "\<exists>p st. addRequestToList 8 7 1 1 ril_init = Some (p, st) \<and> ril_run sample_env st \<and> requests st 8 \<noteq> None \<and>
     radio_calls st = [] \<and> wake_ok st \<and> mal_server st = mal_init \<and>
     the (requests st 8) = \<lparr>ri_client = 0, ri_token = 7, ri_pCI = s_commands ! 1, ri_cancelled = False, ri_local = False,
       ri_socket_id = 1, ri_wasAckSent = False, ri_cid = 9\<rparr>"
proof -
  have "proxyId (s_commands ! 1) = 3" by code_simp
  then obtain st where st: "addRequestToList 8 7 1 1 ril_init = Some (8, st)" "requests st 8 \<noteq> None"
      "radio_calls st = []" "wake_ok st" "mal_server st = mal_init"
      "the (requests st 8) = \<lparr>ri_client = 0, ri_token = 7, ri_pCI = s_commands ! 1, ri_cancelled = False, ri_local = False,
         ri_socket_id = 1, ri_wasAckSent = False, ri_cid = 9\<rparr>"
    by (simp add: addRequestToList_def command_index_def base_defs s_commands_length ril_init_def set_pending_def
        pending_def Let_def SOCKET_1_def SOCKET_2_def wake_ok_def RIL_CHANNEL_OFFSET_def)
  moreover have "requests ril_init 8 = None" by (simp add: ril_init_def)
  ultimately show ?thesis using ril_run.add [OF ril_run.start] by metis
qed

lemma pending_requests_exact_witness:
  "\<exists>p st. addRequestToList 8 7 1 1 ril_init = Some (p, st) \<and> 8 \<in> dom (requests st) \<and>
     8 \<in> set (s_pendingRequests st @ s_pendingRequests_socket2 st)"
proof -
  obtain p st where st: "addRequestToList 8 7 1 1 ril_init = Some (p, st)" "ril_run sample_env st" "requests st 8 \<noteq> None"
    using added_run by blast
  then have "8 \<in> dom (requests st)" by auto
  then show ?thesis using st(1) pending_requests_exact [OF st(2)] by (metis (no_types))
qed

text \<open>The completion of a pending request that is neither local nor cancelled.\<close>

lemma complete_answers:
  assumes inv: "request_inv st" and r: "requests st t = Some r" and mal: "malClaim t (mal_server st) = None" and "wake_ok st"
    and "\<not> ri_local r" "\<not> ri_cancelled r" "in_sockets (ri_socket_id r)"
  shows "\<exists>st'. RIL_onRequestComplete env fresh t e response st = Some st' \<and>
    radio_calls st' = radio_calls st @ expected_answer env r e response st \<and>
    requests st' = (requests st)(t := None) \<and>
    RIL_onRequestComplete env fresh' t e' response' st' = None \<and> RIL_onRequestAck t st' = None"
proof -
  have nz: "t \<noteq> 0" using request_inv_pending [OF inv r] by simp
  have ans: "expected_answer env r e response (dequeued t r st) = expected_answer env r e response st"
    unfolding expected_answer_def dequeued_simps ..
  obtain st1 where st1: "complete_found env fresh r e response (dequeued t r st) = Some st1"
      "radio_calls st1 = radio_calls st @ expected_answer env r e response st"
    using complete_found_answers [of "dequeued t r st" r env fresh e response] assms(4-) ans by auto
  define st' where "st' = st1\<lparr>requests := (requests st1)(t := None)\<rparr>"
  have fin: "RIL_onRequestComplete env fresh t e response st = Some st'"
    using complete_pending [OF inv r mal] st1 by (simp add: st'_def)
  moreover have "requests st' = (requests st)(t := None)" "mal_server st' = mal_server st"
    using request_inv_complete [OF inv r mal fin] by simp_all
  moreover have "radio_calls st' = radio_calls st @ expected_answer env r e response st" using st1 by (simp add: st'_def)
  ultimately show ?thesis using completed_token_faults [of st' t] nz mal by simp
qed

text \<open>
  C20 (safety). In every reachable state, completing a pending request that is neither local nor
  cancelled returns without a fault, frees exactly its record and calls the framework once: with the
  entry's response function, the request's serial and the vendor's error and payload (or the cached
  identity when the emulation is on), as a response that wants an acknowledgement exactly when one was
  sent before. A second completion or acknowledgement of the token reads freed memory. The request must
  not belong to the MAL server, and the last wake timeout must still be allocated.
\<close>

theorem completion_answers_once:
  assumes "ril_run env st" "requests st t = Some r" "malClaim t (mal_server st) = None" "wake_ok st"
    and "\<not> ri_local r" "\<not> ri_cancelled r" "in_sockets (ri_socket_id r)"
  shows "\<exists>st'. RIL_onRequestComplete env fresh t e response st = Some st' \<and>
    radio_calls st' = radio_calls st @ expected_answer env r e response st \<and>
    requests st' = (requests st)(t := None) \<and> ril_run env st' \<and>
    RIL_onRequestComplete env fresh' t e' response' st' = None \<and> RIL_onRequestAck t st' = None"
  using complete_answers [OF ril_run_inv [OF assms(1)] assms(2-7)] ril_run.complete [OF assms(1)] by blast

lemma completion_answers_once_witness:
  "\<exists>p st st'. addRequestToList 8 7 1 1 ril_init = Some (p, st) \<and>
     RIL_onRequestComplete sample_env 0 8 0 None st = Some st' \<and> requests st' 8 = None \<and>
     radio_calls st' = [Response ''getIccCardStatusResponse'' 1 0 7 0 (Bytes None)]"
proof -
  obtain p st where st: "addRequestToList 8 7 1 1 ril_init = Some (p, st)" "ril_run sample_env st" "requests st 8 \<noteq> None"
      "radio_calls st = []" "wake_ok st" "mal_server st = mal_init"
      "the (requests st 8) = \<lparr>ri_client = 0, ri_token = 7, ri_pCI = s_commands ! 1, ri_cancelled = False, ri_local = False,
         ri_socket_id = 1, ri_wasAckSent = False, ri_cid = 9\<rparr>"
    using added_run by blast
  have r: "requests st 8 = Some \<lparr>ri_client = 0, ri_token = 7, ri_pCI = s_commands ! 1, ri_cancelled = False, ri_local = False,
         ri_socket_id = 1, ri_wasAckSent = False, ri_cid = 9\<rparr>"
    using st(3,7) by (cases "requests st 8") auto
  have mal: "malClaim 8 (mal_server st) = None" using st(6) by (simp only:) code_simp
  have "s_commands ! 1 = cmd 1 (Some ''getIccCardStatusResponse'') RIL_CMD_PROXY_1" by code_simp
  then show ?thesis
    using completion_answers_once [OF st(2) r mal st(5), of 0 0 None 0 0 None] st(1,4)
    by (auto simp: in_sockets_def expected_answer_def cmd_def RESPONSE_SOLICITED_def)
qed

text \<open>
  C22 (refinement). With RIL version 13 and memory for the timeout records, every sequence of grabs,
  releases and timeouts runs without a fault and implements a counter: a grab adds one, a release takes
  one down to no less than 0, a timeout that was not cancelled sets it to 0; and the kernel's wake lock
  is held exactly while the count is positive.
\<close>

theorem wake_lock_counter:
  assumes "version st \<ge> 13" "wake_ok st" "0 \<le> s_wakelock_count st" "wake_lock st \<longleftrightarrow> 0 < s_wakelock_count st"
    and "Grab 0 \<notin> set ops"
  shows "\<exists>st'. wake_run ops st = Some st' \<and> s_wakelock_count st' = fold count_step ops (s_wakelock_count st) \<and>
    (wake_lock st' \<longleftrightarrow> 0 < fold count_step ops (s_wakelock_count st))"
proof -
  have "wake_inv st" using assms by (simp add: wake_inv_def)
  from wake_run_refines [OF this assms(5)] show ?thesis by (auto simp: wake_inv_def)
qed

lemma wake_lock_counter_witness:
  "\<exists>st'. wake_run [Grab 5, Grab 6, Release, Timeout 1] (ril_init\<lparr>version := 13\<rparr>) = Some st' \<and> s_wakelock_count st' = 1 \<and> wake_lock st'"
  using wake_lock_counter [of "ril_init\<lparr>version := 13\<rparr>" "[Grab 5, Grab 6, Release, Timeout 1]"]
  by (auto simp: ril_init_def wake_ok_def)

end
