(* ===== verification/RilDispatch.thy ===== *)
theory RilDispatch
  imports RilCorrect
begin

text \<open>
  The request half of the radio service (\<open>ril_service.cpp\<close>, first part): copying HIDL arguments to C
  memory and handing requests to the vendor's RIL through \<open>my_enqueue\<close>.

  The heap of C memory maps an address to what was allocated there; an array of \<open>n\<close> structures takes
  \<open>n\<close> addresses of which only the first can be freed. Whether the allocation at an address succeeds is
  an argument, as are the vendor's \<open>onRequest\<close> (its effect on the channel state), the thread, the
  properties and two constants of the HIDL interface. An operation that frees or uses memory that is not allocated returns \<open>None\<close>. What the vendor
  is handed is recorded in \<open>vendor_calls\<close>, strings by their contents.
\<close>

section \<open>State\<close>

datatype cell = Text string | Ints "int list" | Pointers "nat list" | Structs nat

datatype vendor_data =
    No_data
  | A_string "string option"
  | The_strings "string option list"
  | The_ints "int list"
  | Raw_bytes "u8 list"
  | Struct "int list" "string option list"
  | Structs_of "(int list \<times> string option list) list"

record vendor_call =
  vc_request :: int
  vc_data :: vendor_data
  vc_token :: nat
  vc_socket :: int

record service_env =
  sv_calloc :: "nat \<Rightarrow> bool"
  sv_onRequest :: "channel_state \<Rightarrow> channel_state"
  sv_self :: int
  sv_props :: properties
  sv_ApnTypes_IMS :: int
  sv_LOW_DATA_EXPECTED :: int

record service =
  sv_ril :: ril
  sv_heap :: "nat \<rightharpoonup> cell"
  sv_fresh :: nat
  vendor_calls :: "vendor_call list"
  dataCallCids :: "int list"

section \<open>Memory\<close>

text \<open>\<open>calloc\<close> of \<open>n\<close> elements: the address, 0 when it fails.\<close>

definition calloc_n :: "service_env \<Rightarrow> nat \<Rightarrow> cell \<Rightarrow> service \<Rightarrow> nat \<times> service" where
  "calloc_n env n c st =
     (let a = sv_fresh st; st = st\<lparr>sv_fresh := a + max 1 n\<rparr> in
      if sv_calloc env a then (a, st\<lparr>sv_heap := (sv_heap st)(a \<mapsto> c)\<rparr>) else (0, st))"

abbreviation calloc :: "service_env \<Rightarrow> cell \<Rightarrow> service \<Rightarrow> nat \<times> service" where
  "calloc env \<equiv> calloc_n env 1"

fun free_all :: "nat list \<Rightarrow> service \<Rightarrow> service option" where
  "free_all [] st = Some st"
| "free_all (a # as) st =
     (if sv_heap st a = None then None else free_all as (st\<lparr>sv_heap := (sv_heap st)(a := None)\<rparr>))"

text \<open>The C string at an address, \<open>None\<close> for \<open>NULL\<close>.\<close>

definition text_at :: "service \<Rightarrow> nat \<Rightarrow> string option" where
  "text_at st p = (if p = 0 then None else case sv_heap st p of Some (Text s) \<Rightarrow> Some s | _ \<Rightarrow> Some [])"

section \<open>Requests\<close>

text \<open>\<open>addRequestToList\<close> with its own allocation: the token, 0 for \<open>NULL\<close>.\<close>

definition new_request :: "service_env \<Rightarrow> int \<Rightarrow> int \<Rightarrow> int \<Rightarrow> service \<Rightarrow> (nat \<times> service) option" where
  "new_request env serial slotId request st =
     (let a = sv_fresh st in
      map_option (\<lambda>(pRI, ril). (pRI, st\<lparr>sv_fresh := Suc a, sv_ril := ril\<rparr>))
        (addRequestToList (if sv_calloc env a then a else 0) serial slotId request (sv_ril st)))"

definition sendErrorResponse :: "nat \<Rightarrow> u32 \<Rightarrow> service \<Rightarrow> service option" where
  "sendErrorResponse pRI err st =
     (case requests (sv_ril st) pRI of None \<Rightarrow> None
      | Some r \<Rightarrow>
          (case responseFunction (ri_pCI r) of None \<Rightarrow> None
           | Some f \<Rightarrow> Some (st\<lparr>sv_ril := call_radio (Response f (ri_socket_id r) RESPONSE_SOLICITED (ri_token r) err (Bytes None)) (sv_ril st)\<rparr>)))"

text \<open>
  \<open>my_enqueue\<close> on the service's state: the vendor's \<open>onRequest\<close> gets the request, then the buffer is
  cleaned up according to its format.
\<close>

definition enqueue :: "service_env \<Rightarrow> int \<Rightarrow> vendor_data \<Rightarrow> buffer \<Rightarrow> nat \<Rightarrow> service \<Rightarrow> service option" where
  "enqueue env request data buf pRI st =
     (case requests (sv_ril st) pRI of None \<Rightarrow> None
      | Some r \<Rightarrow>
          (case my_enqueue (sv_onRequest env) buf (ri_cid r) (sv_self env) (channels (sv_ril st)) of
             (ch, freed) \<Rightarrow>
               free_all freed (st\<lparr>sv_ril := (sv_ril st)\<lparr>channels := ch\<rparr>,
                 vendor_calls := vendor_calls st @
                   [\<lparr>vc_request = request, vc_data = data, vc_token = pRI, vc_socket = ri_socket_id r\<rparr>]\<rparr>)))"

definition ignoreBF :: "nat \<Rightarrow> service \<Rightarrow> bool" where
  "ignoreBF pRI st \<longleftrightarrow> (case requests (sv_ril st) pRI of None \<Rightarrow> True
     | Some r \<Rightarrow> proxyId (ri_pCI r) \<noteq> RIL_CMD_PROXY_1 \<and> proxyId (ri_pCI r) \<noteq> RIL_CMD_PROXY_3)"

text \<open>\<open>copyHidlStringToRil\<close>: whether it succeeded and the pointer.\<close>

definition copyHidlStringToRil :: "service_env \<Rightarrow> bool \<Rightarrow> nat \<Rightarrow> string \<Rightarrow> service \<Rightarrow> (bool \<times> nat \<times> service) option" where
  "copyHidlStringToRil env allowEmpty pRI src st =
     (if src = [] \<and> \<not> allowEmpty then Some (True, 0, st)
      else case calloc env (Text (c_str src)) st of
          (dest, st) \<Rightarrow>
            if dest = 0 then map_option (\<lambda>st. (False, 0, st)) (sendErrorResponse pRI RIL_E_NO_MEMORY st)
            else Some (True, dest, st))"

text \<open>Copies in a row, up to the first that fails: whether all succeeded, and the pointers copied.\<close>

fun copy_strings :: "service_env \<Rightarrow> bool \<Rightarrow> nat \<Rightarrow> string list \<Rightarrow> service \<Rightarrow> (bool \<times> nat list \<times> service) option" where
  "copy_strings env allowEmpty pRI [] st = Some (True, [], st)"
| "copy_strings env allowEmpty pRI (s # ss) st =
     (case copyHidlStringToRil env allowEmpty pRI s st of None \<Rightarrow> None
      | Some (ok, p, st) \<Rightarrow>
          if \<not> ok then Some (False, [], st)
          else map_option (\<lambda>(ok, ps, st). (ok, p # ps, st)) (copy_strings env allowEmpty pRI ss st))"

text \<open>
  The pattern of the hand-written requests: copy the strings one after the other, and when one fails free
  those copied before it and return.
\<close>

definition with_strings ::
  "service_env \<Rightarrow> nat \<Rightarrow> string list \<Rightarrow> (nat list \<Rightarrow> service \<Rightarrow> service option) \<Rightarrow> service \<Rightarrow> service option" where
  "with_strings env pRI strs k st =
     (case copy_strings env False pRI strs st of None \<Rightarrow> None
      | Some (ok, ps, st) \<Rightarrow> if ok then k ps st else free_all (memsetAndFreeStrings ps) st)"

definition with_request ::
  "service_env \<Rightarrow> int \<Rightarrow> int \<Rightarrow> int \<Rightarrow> (nat \<Rightarrow> service \<Rightarrow> service option) \<Rightarrow> service \<Rightarrow> service option" where
  "with_request env serial slotId request k st =
     (case new_request env serial slotId request st of None \<Rightarrow> None
      | Some (pRI, st) \<Rightarrow> if pRI = 0 then Some st else k pRI st)"

section \<open>Dispatch\<close>

definition dispatchVoid :: "service_env \<Rightarrow> int \<Rightarrow> int \<Rightarrow> int \<Rightarrow> service \<Rightarrow> service option" where
  "dispatchVoid env serial slotId request =
     with_request env serial slotId request (enqueue env request No_data FMT_VOID)"

definition dispatchString :: "service_env \<Rightarrow> int \<Rightarrow> int \<Rightarrow> int \<Rightarrow> string \<Rightarrow> service \<Rightarrow> service option" where
  "dispatchString env serial slotId request str =
     with_request env serial slotId request (\<lambda>pRI st.
       case copyHidlStringToRil env False pRI (c_str str) st of None \<Rightarrow> None
       | Some (ok, pString, st) \<Rightarrow>
           if \<not> ok then Some st
           else if ignoreBF pRI st then
             Option.bind (enqueue env request (A_string (text_at st pString)) FMT_IGNORE pRI st) (free_all (memsetAndFreeStrings [pString]))
           else enqueue env request (A_string (text_at st pString)) (FMT_STR pString) pRI st)"

text \<open>
  The body that \<open>dispatchStringsV\<close> and \<open>dispatchStrings\<close> on a vector share: the array of pointers, the
  copies, and the two ways to hand them over.
\<close>

definition dispatch_copies :: "service_env \<Rightarrow> int \<Rightarrow> bool \<Rightarrow> string list \<Rightarrow> nat \<Rightarrow> service \<Rightarrow> service option" where
  "dispatch_copies env request allowEmpty strs pRI st =
     (case calloc env (Pointers []) st of (pStrings, st) \<Rightarrow>
        if pStrings = 0 then sendErrorResponse pRI RIL_E_NO_MEMORY st
        else case copy_strings env allowEmpty pRI strs st of None \<Rightarrow> None
          | Some (ok, ps, st) \<Rightarrow>
              if \<not> ok then free_all (memsetAndFreeStrings ps @ [pStrings]) st
              else if ignoreBF pRI st then
                Option.bind (enqueue env request (The_strings (map (text_at st) ps)) FMT_IGNORE pRI st)
                  (free_all (memsetAndFreeStrings ps @ [pStrings]))
              else enqueue env request (The_strings (map (text_at st) ps)) (FMT_STRS ps) pRI st)"

definition dispatchStringsV :: "service_env \<Rightarrow> int \<Rightarrow> int \<Rightarrow> int \<Rightarrow> bool \<Rightarrow> string list \<Rightarrow> service \<Rightarrow> service option" where
  "dispatchStringsV env serial slotId request allowEmpty strs =
     with_request env serial slotId request (dispatch_copies env request allowEmpty (map c_str strs))"

definition dispatchStrings :: "service_env \<Rightarrow> int \<Rightarrow> int \<Rightarrow> int \<Rightarrow> string list \<Rightarrow> service \<Rightarrow> service option" where
  "dispatchStrings env serial slotId request strs = dispatchStringsV env serial slotId request False strs"

definition dispatchStringsKeepEmpty :: "service_env \<Rightarrow> int \<Rightarrow> int \<Rightarrow> int \<Rightarrow> string list \<Rightarrow> service \<Rightarrow> service option" where
  "dispatchStringsKeepEmpty env serial slotId request strs = dispatchStringsV env serial slotId request True strs"

definition dispatchStrings_vec :: "service_env \<Rightarrow> int \<Rightarrow> int \<Rightarrow> int \<Rightarrow> string list \<Rightarrow> service \<Rightarrow> service option" where
  "dispatchStrings_vec env serial slotId request data =
     with_request env serial slotId request (dispatch_copies env request False data)"

definition dispatchInts :: "service_env \<Rightarrow> int \<Rightarrow> int \<Rightarrow> int \<Rightarrow> int list \<Rightarrow> service \<Rightarrow> service option" where
  "dispatchInts env serial slotId request ints =
     with_request env serial slotId request (\<lambda>pRI st.
       case calloc env (Ints ints) st of (pInts, st) \<Rightarrow>
         if pInts = 0 then sendErrorResponse pRI RIL_E_NO_MEMORY st
         else if ignoreBF pRI st then Option.bind (enqueue env request (The_ints ints) FMT_IGNORE pRI st) (free_all [pInts])
         else enqueue env request (The_ints ints) FMT_INTS pRI st)"

record CallForwardInfo =
  cf_status :: int
  cf_reason :: int
  cf_serviceClass :: int
  cf_toa :: int
  cf_number :: string
  cf_timeSeconds :: int

definition dispatchCallForwardStatus :: "service_env \<Rightarrow> int \<Rightarrow> int \<Rightarrow> int \<Rightarrow> CallForwardInfo \<Rightarrow> service \<Rightarrow> service option" where
  "dispatchCallForwardStatus env serial slotId request callInfo =
     with_request env serial slotId request (\<lambda>pRI.
       with_strings env pRI [cf_number callInfo] (\<lambda>ps st.
         let cf = Struct [cf_status callInfo, cf_reason callInfo, cf_serviceClass callInfo, cf_toa callInfo, cf_timeSeconds callInfo]
                    (map (text_at st) ps) in
         if ignoreBF pRI st then Option.bind (enqueue env request cf FMT_IGNORE pRI st) (free_all (memsetAndFreeStrings ps))
         else enqueue env request cf (FMT_CallFWST (hd ps)) pRI st))"

definition dispatchRaw :: "service_env \<Rightarrow> int \<Rightarrow> int \<Rightarrow> int \<Rightarrow> u8 list \<Rightarrow> service \<Rightarrow> service option" where
  "dispatchRaw env serial slotId request rawBytes =
     with_request env serial slotId request (enqueue env request (Raw_bytes rawBytes) FMT_IGNORE)"

record SimApdu =
  apdu_sessionId :: int
  apdu_cla :: int
  apdu_instruction :: int
  apdu_p1 :: int
  apdu_p2 :: int
  apdu_p3 :: int
  apdu_data :: string

definition dispatchIccApdu :: "service_env \<Rightarrow> int \<Rightarrow> int \<Rightarrow> int \<Rightarrow> SimApdu \<Rightarrow> service \<Rightarrow> service option" where
  "dispatchIccApdu env serial slotId request m =
     with_request env serial slotId request (\<lambda>pRI.
       with_strings env pRI [apdu_data m] (\<lambda>ps st.
         enqueue env request (Struct [apdu_sessionId m, apdu_cla m, apdu_instruction m, apdu_p1 m, apdu_p2 m, apdu_p3 m]
           (map (text_at st) ps)) (FMT_IccAPDU (hd ps)) pRI st))"

text \<open>A request answered with an error right away.\<close>

definition refuse :: "service_env \<Rightarrow> int \<Rightarrow> int \<Rightarrow> int \<Rightarrow> u32 \<Rightarrow> service \<Rightarrow> service option" where
  "refuse env serial slotId request err =
     with_request env serial slotId request (\<lambda>pRI. sendErrorResponse pRI err)"

end
