(* ===== verification/RilDispatchCorrect.thy ===== *)
theory RilDispatchCorrect
  imports RilDispatch
begin

text \<open>
  What dispatching a request guarantees whatever allocations fail: the request is forwarded to the vendor
  once or refused with one error response, and no copy of a string outlives it.
\<close>

section \<open>Memory\<close>

definition service_ok :: "service \<Rightarrow> bool" where
  "service_ok st \<longleftrightarrow> 0 < sv_fresh st \<and> (\<forall>a \<ge> sv_fresh st. sv_heap st a = None \<and> requests (sv_ril st) a = None)
     \<and> sv_heap st 0 = None \<and> mtk_command_start (sv_ril st) = 0"

text \<open>\<open>st'\<close> holds exactly the allocations \<open>as\<close> more than \<open>st\<close>.\<close>

definition owns :: "nat list \<Rightarrow> service \<Rightarrow> service \<Rightarrow> bool" where
  "owns as st st' \<longleftrightarrow> distinct as \<and> set as \<subseteq> dom (sv_heap st') \<and> (\<forall>a \<in> set as. sv_fresh st \<le> a)
     \<and> sv_heap st' |` (- set as) = sv_heap st \<and> sv_fresh st \<le> sv_fresh st'"

lemma restrict_all [simp]: "m |` UNIV = m"
  by (simp add: restrict_map_def)

lemma owns_refl [simp]: "owns [] st st"
  by (simp add: owns_def)

lemma owns_trans:
  assumes "owns as st st1" "owns bs st1 st2" "service_ok st1"
  shows "owns (as @ bs) st st2"
proof -
  have bs: "b \<notin> set as \<and> sv_fresh st \<le> b" if "b \<in> set bs" for b
  proof -
    have "sv_fresh st1 \<le> b" using assms(2) that by (simp add: owns_def)
    then have "sv_heap st1 b = None" using assms(3) by (simp add: service_ok_def)
    then show ?thesis using assms(1) \<open>sv_fresh st1 \<le> b\<close> by (auto simp: owns_def)
  qed
  have heap2: "sv_heap st2 a = sv_heap st1 a" if "a \<notin> set bs" for a
    using assms(2) that unfolding owns_def by (metis ComplI restrict_in)
  have "sv_heap st2 |` (- set (as @ bs)) = sv_heap st"
  proof
    fix a
    show "(sv_heap st2 |` (- set (as @ bs))) a = sv_heap st a"
    proof (cases "a \<in> set bs")
      case True
      have "sv_heap st1 a = None" using assms(2,3) True by (auto simp: owns_def service_ok_def)
      then have "sv_heap st a = None" using assms(1) unfolding owns_def by (metis restrict_map_def)
      then show ?thesis using True by simp
    next
      case False
      have "sv_heap st a = (sv_heap st1 |` (- set as)) a" using assms(1) by (simp add: owns_def)
      then show ?thesis using heap2 [OF False] False by (simp add: restrict_map_def)
    qed
  qed
  moreover have "set as \<subseteq> dom (sv_heap st2)"
    using assms(1) heap2 bs unfolding owns_def by (metis domIff subset_iff)
  moreover have "distinct (as @ bs)" using assms(1,2) bs by (auto simp: owns_def)
  moreover have "\<forall>a \<in> set (as @ bs). sv_fresh st \<le> a" using assms(1) bs by (auto simp: owns_def)
  ultimately show ?thesis using assms(1,2) by (simp add: owns_def)
qed

lemma free_all_owned:
  assumes "distinct as" "set as \<subseteq> dom (sv_heap st)"
  shows "free_all as st = Some (st\<lparr>sv_heap := sv_heap st |` (- set as)\<rparr>)"
  using assms
proof (induction as arbitrary: st)
  case Nil
  then show ?case by (simp add: restrict_map_def)
next
  case (Cons a as)
  let ?st = "st\<lparr>sv_heap := (sv_heap st)(a := None)\<rparr>"
  have "set as \<subseteq> dom (sv_heap ?st)" using Cons.prems by auto
  moreover have "sv_heap ?st |` (- set as) = sv_heap st |` (- set (a # as))" by (auto simp: restrict_map_def)
  ultimately show ?case using Cons by auto
qed

lemma free_owned:
  assumes "owns as st st'"
  shows "free_all as st' = Some (st'\<lparr>sv_heap := sv_heap st\<rparr>)"
  using assms free_all_owned [of as st'] by (simp add: owns_def)

lemma calloc_spec:
  assumes "service_ok st" "calloc_n env n c st = (a, st')"
  shows "service_ok st'" "sv_ril st' = sv_ril st" "vendor_calls st' = vendor_calls st" "dataCallCids st' = dataCallCids st"
    "a = 0 \<Longrightarrow> sv_heap st' = sv_heap st \<and> sv_fresh st \<le> sv_fresh st'"
    "a \<noteq> 0 \<Longrightarrow> owns [a] st st' \<and> sv_heap st' a = Some c \<and> requests (sv_ril st) a = None"
  using assms by (auto simp: calloc_n_def service_ok_def owns_def Let_def restrict_map_def split: if_splits)

section \<open>Requests\<close>

text \<open>The requests that have an answer: all but the reserved entry and those without a response function.\<close>

definition served :: "int \<Rightarrow> bool" where
  "served request \<longleftrightarrow> 0 \<le> request \<and> request < 141 \<and> responseFunction (s_commands ! nat request) \<noteq> None"

lemma served_index: "served request \<Longrightarrow> nat request < 141"
  by (auto simp: served_def nat_less_iff)

lemma unserved_numbers:
  "map requestNumber (filter (\<lambda>c. responseFunction c = None) s_commands) = [0, 38, 39, 56, 58, 67, 68, 86, 126, 127]"
  by (simp add: s_commands_def cmd_def)

text \<open>A request that is known to the service: it sits in the heap with an entry that has a response function.\<close>

definition known :: "nat \<Rightarrow> request_info \<Rightarrow> service \<Rightarrow> bool" where
  "known pRI r st \<longleftrightarrow> requests (sv_ril st) pRI = Some r \<and> responseFunction (ri_pCI r) \<noteq> None"

text \<open>What stays as it was: the requests, their lists and the tables.\<close>

definition same_lists :: "service \<Rightarrow> service \<Rightarrow> bool" where
  "same_lists st st' \<longleftrightarrow> requests (sv_ril st') = requests (sv_ril st) \<and> s_pendingRequests (sv_ril st') = s_pendingRequests (sv_ril st)
     \<and> s_pendingRequests_socket2 (sv_ril st') = s_pendingRequests_socket2 (sv_ril st)
     \<and> mtk_command_start (sv_ril st') = mtk_command_start (sv_ril st) \<and> version (sv_ril st') = version (sv_ril st)
     \<and> dataCallCids st' = dataCallCids st \<and> mal_server (sv_ril st') = mal_server (sv_ril st)
     \<and> s_last_wake_timeout_info (sv_ril st') = s_last_wake_timeout_info (sv_ril st) \<and> timed (sv_ril st') = timed (sv_ril st)"

definition forwarded :: "int \<Rightarrow> nat \<Rightarrow> request_info \<Rightarrow> service \<Rightarrow> service \<Rightarrow> bool" where
  "forwarded request pRI r st st' \<longleftrightarrow> radio_calls (sv_ril st') = radio_calls (sv_ril st)
     \<and> (\<exists>data. vendor_calls st' = vendor_calls st @ [\<lparr>vc_request = request, vc_data = data, vc_token = pRI, vc_socket = ri_socket_id r\<rparr>])"

definition refused :: "request_info \<Rightarrow> service \<Rightarrow> service \<Rightarrow> bool" where
  "refused r st st' \<longleftrightarrow> vendor_calls st' = vendor_calls st
     \<and> (\<exists>err. radio_calls (sv_ril st') = radio_calls (sv_ril st) @
          [Response (the (responseFunction (ri_pCI r))) (ri_socket_id r) RESPONSE_SOLICITED (ri_token r) err (Bytes None)] \<and> err \<noteq> 0)"

text \<open>Nothing is freed that was there before, and what is left behind are no texts.\<close>

definition no_text_left :: "service \<Rightarrow> service \<Rightarrow> bool" where
  "no_text_left st st' \<longleftrightarrow> (\<forall>a. sv_heap st' a = sv_heap st a \<or> (\<exists>c. sv_heap st' a = Some c \<and> sv_fresh st \<le> a \<and> (\<forall>s. c \<noteq> Text s)))
     \<and> sv_fresh st \<le> sv_fresh st'"

definition finished :: "int \<Rightarrow> nat \<Rightarrow> request_info \<Rightarrow> service \<Rightarrow> service \<Rightarrow> bool" where
  "finished request pRI r st st' \<longleftrightarrow> service_ok st' \<and> same_lists st st' \<and> no_text_left st st'
     \<and> (forwarded request pRI r st st' \<or> refused r st st')"

lemma no_text_left_same: "sv_heap st' = sv_heap st \<Longrightarrow> sv_fresh st \<le> sv_fresh st' \<Longrightarrow> no_text_left st st'"
  by (simp add: no_text_left_def)

lemma sendErrorResponse_spec:
  assumes "known pRI r st"
  obtains f where "responseFunction (ri_pCI r) = Some f"
    "sendErrorResponse pRI err st = Some (st\<lparr>sv_ril := call_radio (Response f (ri_socket_id r) RESPONSE_SOLICITED (ri_token r) err (Bytes None)) (sv_ril st)\<rparr>)"
  using assms by (auto simp: known_def sendErrorResponse_def)

lemma call_radio_fields [simp]:
  "requests (call_radio c ril) = requests ril" "s_pendingRequests (call_radio c ril) = s_pendingRequests ril"
  "s_pendingRequests_socket2 (call_radio c ril) = s_pendingRequests_socket2 ril"
  "mtk_command_start (call_radio c ril) = mtk_command_start ril" "version (call_radio c ril) = version ril"
  "channels (call_radio c ril) = channels ril"
  "radio_calls (call_radio c ril) = radio_calls ril @ [c]"
  "mal_server (call_radio c ril) = mal_server ril" "s_last_wake_timeout_info (call_radio c ril) = s_last_wake_timeout_info ril"
  "timed (call_radio c ril) = timed ril"
  by (simp_all add: call_radio_def)

lemma servedI:
  assumes "0 \<le> request" "request < 141" "request \<notin> {0, 38, 39, 56, 58, 67, 68, 86, 126, 127}"
  shows "served request"
proof (rule ccontr)
  assume "\<not> served request"
  then have none: "responseFunction (s_commands ! nat request) = None" using assms by (simp add: served_def)
  have lt: "nat request < 141" using assms by simp
  then have "s_commands ! nat request \<in> set (filter (\<lambda>c. responseFunction c = None) s_commands)"
    using none by (simp add: s_commands_length)
  then have "requestNumber (s_commands ! nat request) \<in> set (map requestNumber (filter (\<lambda>c. responseFunction c = None) s_commands))"
    by (metis image_eqI set_map)
  then show False using assms(1,3) s_commands_nth [OF lt] unfolding unserved_numbers by simp
qed

lemma copy_spec:
  assumes "service_ok st" "known pRI r st"
  obtains ok p st' where "copyHidlStringToRil env ae pRI src st = Some (ok, p, st')"
    "service_ok st'" "vendor_calls st' = vendor_calls st" "dataCallCids st' = dataCallCids st"
    "owns (memsetAndFreeStrings [p]) st st'" "p \<noteq> 0 \<longrightarrow> sv_heap st' p = Some (Text (c_str src))"
    "ok \<longrightarrow> sv_ril st' = sv_ril st \<and> (p = 0 \<longleftrightarrow> src = [] \<and> \<not> ae)"
    "\<not> ok \<longrightarrow> p = 0 \<and> sv_ril st' = call_radio (Response (the (responseFunction (ri_pCI r))) (ri_socket_id r) RESPONSE_SOLICITED (ri_token r)
        RIL_E_NO_MEMORY (Bytes None)) (sv_ril st)"
proof (cases "src = [] \<and> \<not> ae")
  case True
  then show ?thesis using assms that [of True 0 st] by (simp add: copyHidlStringToRil_def memsetAndFreeStrings_def)
next
  case False
  obtain a st1 where alloc: "calloc env (Text (c_str src)) st = (a, st1)" by fastforce
  note c = calloc_spec [OF assms(1) alloc]
  show ?thesis
  proof (cases "a = 0")
    case True
    have "known pRI r st1" using assms(2) c(2) by (simp add: known_def)
    then obtain f where f: "responseFunction (ri_pCI r) = Some f"
      "sendErrorResponse pRI RIL_E_NO_MEMORY st1 = Some (st1\<lparr>sv_ril := call_radio (Response f (ri_socket_id r) RESPONSE_SOLICITED (ri_token r) RIL_E_NO_MEMORY (Bytes None)) (sv_ril st1)\<rparr>)"
      by (rule sendErrorResponse_spec)
    let ?st = "st1\<lparr>sv_ril := call_radio (Response f (ri_socket_id r) RESPONSE_SOLICITED (ri_token r) RIL_E_NO_MEMORY (Bytes None)) (sv_ril st1)\<rparr>"
    have "copyHidlStringToRil env ae pRI src st = Some (False, 0, ?st)"
      using False alloc True f unfolding copyHidlStringToRil_def by simp
    moreover have "service_ok ?st" using c(1) by (simp add: service_ok_def)
    moreover have "owns [] st ?st" using c(5) True by (simp add: owns_def)
    ultimately show ?thesis using that [of False 0 ?st] c(2,3,4) f(1) by (simp add: memsetAndFreeStrings_def)
  next
    case a: False
    have "copyHidlStringToRil env ae pRI src st = Some (True, a, st1)"
      using False alloc a unfolding copyHidlStringToRil_def by simp
    then show ?thesis using that [of True a st1] c a False by (simp add: memsetAndFreeStrings_def)
  qed
qed

text \<open>The strings the vendor is to see: an empty one is \<open>NULL\<close> unless it is kept.\<close>

definition ril_string :: "bool \<Rightarrow> string \<Rightarrow> string option" where
  "ril_string ae s = (if s = [] \<and> \<not> ae then None else Some (c_str s))"

lemma memsetAndFreeStrings_Cons: "memsetAndFreeStrings (p # ps) = memsetAndFreeStrings [p] @ memsetAndFreeStrings ps"
  by (simp add: memsetAndFreeStrings_def)

lemma memsetAndFreeStrings_concat: "concat (map (\<lambda>p. memsetAndFreeStrings [p]) ps) = memsetAndFreeStrings ps"
  by (induction ps) (simp_all add: memsetAndFreeStrings_def)

lemma owns_text:
  assumes "owns as st st'" "sv_heap st p = Some c" "service_ok st"
  shows "sv_heap st' p = Some c"
proof -
  have "p \<notin> set as" using assms by (force simp: owns_def service_ok_def)
  then show ?thesis using assms(1,2) unfolding owns_def by (metis ComplI restrict_in)
qed

lemma copies_spec:
  assumes "service_ok st" "known pRI r st"
  obtains ok ps st' where "copy_strings env ae pRI strs st = Some (ok, ps, st')"
    "service_ok st'" "vendor_calls st' = vendor_calls st" "dataCallCids st' = dataCallCids st"
    "owns (memsetAndFreeStrings ps) st st'"
    "ok \<longrightarrow> sv_ril st' = sv_ril st \<and> map (text_at st') ps = map (ril_string ae) strs"
    "\<not> ok \<longrightarrow> sv_ril st' = call_radio (Response (the (responseFunction (ri_pCI r))) (ri_socket_id r) RESPONSE_SOLICITED (ri_token r)
        RIL_E_NO_MEMORY (Bytes None)) (sv_ril st)"
  using assms
proof (induction strs arbitrary: st thesis)
  case Nil
  then show ?case by (simp add: memsetAndFreeStrings_def)
next
  case (Cons s ss)
  obtain ok p st1 where one: "copyHidlStringToRil env ae pRI s st = Some (ok, p, st1)"
    "service_ok st1" "vendor_calls st1 = vendor_calls st" "dataCallCids st1 = dataCallCids st"
    "owns (memsetAndFreeStrings [p]) st st1" "p \<noteq> 0 \<longrightarrow> sv_heap st1 p = Some (Text (c_str s))"
    "ok \<longrightarrow> sv_ril st1 = sv_ril st \<and> (p = 0 \<longleftrightarrow> s = [] \<and> \<not> ae)"
    "\<not> ok \<longrightarrow> p = 0 \<and> sv_ril st1 = call_radio (Response (the (responseFunction (ri_pCI r))) (ri_socket_id r) RESPONSE_SOLICITED (ri_token r)
        RIL_E_NO_MEMORY (Bytes None)) (sv_ril st)"
    using Cons.prems(2,3) by (rule copy_spec)
  show ?case
  proof (cases ok)
    case False
    then show ?thesis using Cons.prems(1) [of False "[]" st1] one by (simp add: memsetAndFreeStrings_def)
  next
    case True
    have "known pRI r st1" using Cons.prems(3) one(7) True by (simp add: known_def)
    with one(2) obtain ok' ps st2 where more: "copy_strings env ae pRI ss st1 = Some (ok', ps, st2)"
      "service_ok st2" "vendor_calls st2 = vendor_calls st1" "dataCallCids st2 = dataCallCids st1"
      "owns (memsetAndFreeStrings ps) st1 st2"
      "ok' \<longrightarrow> sv_ril st2 = sv_ril st1 \<and> map (text_at st2) ps = map (ril_string ae) ss"
      "\<not> ok' \<longrightarrow> sv_ril st2 = call_radio (Response (the (responseFunction (ri_pCI r))) (ri_socket_id r) RESPONSE_SOLICITED (ri_token r)
          RIL_E_NO_MEMORY (Bytes None)) (sv_ril st1)"
      by (rule Cons.IH [rotated])
    have "owns (memsetAndFreeStrings (p # ps)) st st2"
      using owns_trans [OF one(5) more(5) one(2)] by (subst memsetAndFreeStrings_Cons)
    moreover have "text_at st2 p = ril_string ae s"
      using one(6,7) True owns_text [OF more(5) _ one(2), of p] by (auto simp: text_at_def ril_string_def)
    ultimately show ?thesis
      using Cons.prems(1) [of ok' "p # ps" st2] one more True by simp
  qed
qed

section \<open>Handing over\<close>

text \<open>\<open>st1\<close> is \<open>st\<close> with the allocations \<open>as\<close>; nothing else has happened.\<close>

definition prepared :: "nat list \<Rightarrow> service \<Rightarrow> service \<Rightarrow> bool" where
  "prepared as st st1 \<longleftrightarrow> service_ok st1 \<and> owns as st st1 \<and> sv_ril st1 = sv_ril st \<and> vendor_calls st1 = vendor_calls st
     \<and> dataCallCids st1 = dataCallCids st"

lemma prepared_refl: "service_ok st \<Longrightarrow> prepared [] st st"
  by (simp add: prepared_def)

lemma prepared_trans: "prepared as st st1 \<Longrightarrow> prepared bs st1 st2 \<Longrightarrow> prepared (as @ bs) st st2"
  using owns_trans by (auto simp: prepared_def)

lemma prepared_known: "prepared as st st1 \<Longrightarrow> known pRI r st1 \<longleftrightarrow> known pRI r st"
  by (simp add: prepared_def known_def)

definition buffer_frees :: "buffer \<Rightarrow> nat list" where
  "buffer_frees buf = (if buf \<noteq> FMT_IGNORE then clearPendingBuffer buf else [])"

lemma enqueue_spec:
  assumes "known pRI r st" "owns (buffer_frees buf) st0 st" "service_ok st"
  obtains st' where "enqueue env request data buf pRI st = Some st'"
    "sv_heap st' = sv_heap st0" "sv_fresh st' = sv_fresh st" "same_lists st st'" "radio_calls (sv_ril st') = radio_calls (sv_ril st)"
    "vendor_calls st' = vendor_calls st @ [\<lparr>vc_request = request, vc_data = data, vc_token = pRI, vc_socket = ri_socket_id r\<rparr>]"
proof -
  obtain ch where ch: "my_enqueue (sv_onRequest env) buf (ri_cid r) (sv_self env) (channels (sv_ril st)) = (ch, buffer_frees buf)"
    by (simp add: my_enqueue_def buffer_frees_def Let_def)
  let ?st = "st\<lparr>sv_ril := (sv_ril st)\<lparr>channels := ch\<rparr>,
      vendor_calls := vendor_calls st @ [\<lparr>vc_request = request, vc_data = data, vc_token = pRI, vc_socket = ri_socket_id r\<rparr>]\<rparr>"
  have "owns (buffer_frees buf) st0 ?st" using assms(2) by (simp add: owns_def)
  from free_owned [OF this] have "enqueue env request data buf pRI st = Some (?st\<lparr>sv_heap := sv_heap st0\<rparr>)"
    using assms(1) ch by (simp add: enqueue_def known_def)
  then show ?thesis by (rule that) (simp_all add: same_lists_def)
qed

lemma service_ok_restored:
  assumes "service_ok st" "sv_heap st' = sv_heap st0" "sv_fresh st' = sv_fresh st" "same_lists st st'"
    "service_ok st0" "sv_fresh st0 \<le> sv_fresh st"
  shows "service_ok st'"
  using assms by (auto simp: service_ok_def same_lists_def)

text \<open>A hand-over whose buffer frees all copies.\<close>

lemma enqueue_finished:
  assumes "service_ok st" "known pRI r st" "prepared (buffer_frees buf) st st1"
  shows "\<exists>st'. enqueue env request data buf pRI st1 = Some st' \<and> finished request pRI r st st'"
proof -
  have st1: "service_ok st1" "owns (buffer_frees buf) st st1" using assms(3) by (simp_all add: prepared_def)
  obtain st' where st': "enqueue env request data buf pRI st1 = Some st'"
    "sv_heap st' = sv_heap st" "sv_fresh st' = sv_fresh st1" "same_lists st1 st'" "radio_calls (sv_ril st') = radio_calls (sv_ril st1)"
    "vendor_calls st' = vendor_calls st1 @ [\<lparr>vc_request = request, vc_data = data, vc_token = pRI, vc_socket = ri_socket_id r\<rparr>]"
    using enqueue_spec [of pRI r st1 buf st] prepared_known [OF assms(3)] assms(2) st1 by blast
  have le: "sv_fresh st \<le> sv_fresh st1" using st1(2) by (simp add: owns_def)
  have "service_ok st'" by (rule service_ok_restored [OF st1(1) st'(2,3,4) assms(1) le])
  then show ?thesis using st' assms(3) le
    by (auto simp: finished_def forwarded_def prepared_def same_lists_def intro: no_text_left_same)
qed

text \<open>A hand-over that keeps the copies, which are freed afterwards.\<close>

lemma enqueue_free_finished:
  assumes "service_ok st" "known pRI r st" "prepared as st st1"
  shows "\<exists>st'. Option.bind (enqueue env request data FMT_IGNORE pRI st1) (free_all as) = Some st' \<and> finished request pRI r st st'"
proof -
  have st1: "service_ok st1" "owns as st st1" using assms(3) by (simp_all add: prepared_def)
  have k: "known pRI r st1" using prepared_known [OF assms(3)] assms(2) by simp
  have o: "owns (buffer_frees FMT_IGNORE) st1 st1" by (simp add: buffer_frees_def)
  obtain st2 where st2: "enqueue env request data FMT_IGNORE pRI st1 = Some st2"
    "sv_heap st2 = sv_heap st1" "sv_fresh st2 = sv_fresh st1" "same_lists st1 st2" "radio_calls (sv_ril st2) = radio_calls (sv_ril st1)"
    "vendor_calls st2 = vendor_calls st1 @ [\<lparr>vc_request = request, vc_data = data, vc_token = pRI, vc_socket = ri_socket_id r\<rparr>]"
    by (rule enqueue_spec [OF k o st1(1)])
  have le: "sv_fresh st \<le> sv_fresh st1" using st1(2) by (simp add: owns_def)
  have "owns as st st2" using st1(2) st2(2,3) by (simp add: owns_def)
  note free = free_owned [OF this]
  let ?st = "st2\<lparr>sv_heap := sv_heap st\<rparr>"
  have "same_lists st1 ?st" using st2(4) by (simp add: same_lists_def)
  then have "service_ok ?st" using service_ok_restored [OF st1(1) _ _ _ assms(1) le, of ?st] st2 by simp
  then show ?thesis using st2 free assms(3) le
    by (auto simp: finished_def forwarded_def prepared_def same_lists_def intro: no_text_left_same)
qed

lemma RIL_E_NO_MEMORY_nonzero: "RIL_E_NO_MEMORY \<noteq> (0 :: u32)"
  by (simp add: RIL_E_NO_MEMORY_def)

lemma error_finished:
  assumes "service_ok st" "known pRI r st" "service_ok st1" "sv_heap st1 = sv_heap st" "sv_fresh st \<le> sv_fresh st1"
    "sv_ril st1 = sv_ril st" "vendor_calls st1 = vendor_calls st" "dataCallCids st1 = dataCallCids st" "err \<noteq> 0"
  shows "\<exists>st'. sendErrorResponse pRI err st1 = Some st' \<and> finished request pRI r st st'"
proof -
  have "known pRI r st1" using assms by (simp add: known_def)
  then obtain f where f: "responseFunction (ri_pCI r) = Some f"
    "sendErrorResponse pRI err st1 = Some (st1\<lparr>sv_ril := call_radio (Response f (ri_socket_id r) RESPONSE_SOLICITED (ri_token r) err (Bytes None)) (sv_ril st1)\<rparr>)"
    by (rule sendErrorResponse_spec)
  then show ?thesis using assms
    by (auto simp: finished_def refused_def same_lists_def service_ok_def intro: no_text_left_same)
qed

text \<open>The failure of a copy: what was copied before is freed, and the error has been sent.\<close>

lemma answered_free:
  assumes "service_ok st" "known pRI r st" "owns as st st1" "service_ok st1" "vendor_calls st1 = vendor_calls st" "dataCallCids st1 = dataCallCids st"
    "sv_ril st1 = call_radio (Response (the (responseFunction (ri_pCI r))) (ri_socket_id r) RESPONSE_SOLICITED (ri_token r)
        err (Bytes None)) (sv_ril st)" "err \<noteq> 0"
  shows "\<exists>st'. free_all as st1 = Some st' \<and> finished request pRI r st st'"
proof -
  have le: "sv_fresh st \<le> sv_fresh st1" using assms(3) by (simp add: owns_def)
  have "service_ok (st1\<lparr>sv_heap := sv_heap st\<rparr>)"
    using assms(1,4,7) le by (auto simp: service_ok_def)
  then show ?thesis using free_owned [OF assms(3)] assms le
    by (auto simp: finished_def refused_def same_lists_def intro: no_text_left_same)
qed

lemmas copies_failed = answered_free [OF _ _ _ _ _ _ _ RIL_E_NO_MEMORY_nonzero]

lemma with_strings_finished:
  assumes "service_ok st" "known pRI r st"
    and "\<And>ps st1. prepared (memsetAndFreeStrings ps) st st1 \<Longrightarrow> map (text_at st1) ps = map (ril_string False) strs \<Longrightarrow>
      \<exists>st'. k ps st1 = Some st' \<and> finished request pRI r st st'"
  shows "\<exists>st'. with_strings env pRI strs k st = Some st' \<and> finished request pRI r st st'"
proof -
  obtain ok ps st1 where c: "copy_strings env False pRI strs st = Some (ok, ps, st1)"
    "service_ok st1" "vendor_calls st1 = vendor_calls st" "dataCallCids st1 = dataCallCids st"
    "owns (memsetAndFreeStrings ps) st st1"
    "ok \<longrightarrow> sv_ril st1 = sv_ril st \<and> map (text_at st1) ps = map (ril_string False) strs"
    "\<not> ok \<longrightarrow> sv_ril st1 = call_radio (Response (the (responseFunction (ri_pCI r))) (ri_socket_id r) RESPONSE_SOLICITED (ri_token r)
        RIL_E_NO_MEMORY (Bytes None)) (sv_ril st)"
    by (rule copies_spec [OF assms(1,2)])
  show ?thesis
  proof (cases ok)
    case True
    then show ?thesis using c assms(3) [of ps st1] by (simp add: with_strings_def prepared_def)
  next
    case False
    then show ?thesis using c copies_failed [OF assms(1,2) c(5,2,3,4)] by (simp add: with_strings_def)
  qed
qed

section \<open>Requests as a whole\<close>

text \<open>
  The outcome of a request of the framework with number \<open>request\<close>: nothing at all when not even its record
  could be allocated; else a pending request with the caller's serial, for which either the vendor was called
  once or one error response was sent.
\<close>

text \<open>What the rest of libril relies on: the invariant of the lists, the MAL server and the wake lock are kept.\<close>

definition carried :: "ril \<Rightarrow> ril \<Rightarrow> bool" where
  "carried ril ril' \<longleftrightarrow> (request_inv ril \<longrightarrow> request_inv ril') \<and> mal_server ril' = mal_server ril \<and> (wake_ok ril' \<longleftrightarrow> wake_ok ril)"

text \<open>The record of a request as \<open>addRequestToList\<close> fills it.\<close>

definition new_record :: "int \<Rightarrow> int \<Rightarrow> request_info \<Rightarrow> bool" where
  "new_record serial request r \<longleftrightarrow> ri_pCI r = s_commands ! nat request \<and> responseFunction (ri_pCI r) \<noteq> None \<and> ri_local r = (serial = - 1) \<and> \<not> ri_cancelled r \<and> \<not> ri_wasAckSent r"

definition settled :: "int \<Rightarrow> int \<Rightarrow> int \<Rightarrow> service \<Rightarrow> service \<Rightarrow> bool" where
  "settled request slotId serial st st' \<longleftrightarrow> service_ok st' \<and> no_text_left st st' \<and> version (sv_ril st') = version (sv_ril st) \<and>
     carried (sv_ril st) (sv_ril st') \<and> (sv_ril st' = sv_ril st \<and> vendor_calls st' = vendor_calls st \<or>
      (\<exists>pRI r. requests (sv_ril st) pRI = None \<and> requests (sv_ril st') = (requests (sv_ril st))(pRI \<mapsto> r) \<and>
         pending slotId (sv_ril st') = pRI # pending slotId (sv_ril st) \<and>
         ri_token r = serial \<and> ri_socket_id r = slotId \<and> requestNumber (ri_pCI r) = request \<and> new_record serial request r \<and>
         (forwarded request pRI r st st' \<or> refused r st st')))"

lemma pending_requests_update: "pending slotId (ril\<lparr>requests := q\<rparr>) = pending slotId ril"
  by (simp add: pending_def)

lemma new_request_spec:
  assumes "service_ok st" "served request"
  obtains pRI st1 where "new_request env serial slotId request st = Some (pRI, st1)"
    "service_ok st1" "sv_heap st1 = sv_heap st" "sv_fresh st \<le> sv_fresh st1" "vendor_calls st1 = vendor_calls st" "dataCallCids st1 = dataCallCids st"
    "version (sv_ril st1) = version (sv_ril st)"
    "pRI = 0 \<longrightarrow> sv_ril st1 = sv_ril st"
    "pRI \<noteq> 0 \<longrightarrow> (\<exists>r. known pRI r st1 \<and> requests (sv_ril st) pRI = None \<and> requests (sv_ril st1) = (requests (sv_ril st))(pRI \<mapsto> r) \<and>
       pending slotId (sv_ril st1) = pRI # pending slotId (sv_ril st) \<and> radio_calls (sv_ril st1) = radio_calls (sv_ril st) \<and>
       ri_token r = serial \<and> ri_socket_id r = slotId \<and> ri_pCI r = s_commands ! nat request \<and> new_record serial request r)"
    "carried (sv_ril st) (sv_ril st1)"
proof -
  define a where "a = (if sv_calloc env (sv_fresh st) then sv_fresh st else 0)"
  have idx: "command_index 0 request = request" "nat request < length s_commands" "0 \<le> request" "request < 141"
    using assms(2) served_index [OF assms(2)] by (simp_all add: served_def command_index_def base_defs s_commands_length)
  obtain ril where ril: "addRequestToList a serial slotId request (sv_ril st) = Some (a, ril)"
    using idx assms(1) by (cases "a = 0") (auto simp: addRequestToList_def service_ok_def Let_def s_commands_length)
  let ?st = "st\<lparr>sv_fresh := Suc (sv_fresh st), sv_ril := ril\<rparr>"
  have req: "new_request env serial slotId request st = Some (a, ?st)"
    using ril by (simp add: new_request_def a_def Let_def)
  show ?thesis
  proof (cases "a = 0")
    case True
    then have "ril = sv_ril st" using ril by (simp add: addRequestToList_def)
    then show ?thesis using that [OF req] assms(1) True by (simp add: service_ok_def carried_def)
  next
    case False
    then have a: "a = sv_fresh st" by (simp add: a_def split: if_splits)
    then have none: "requests (sv_ril st) a = None" using assms(1) by (simp add: service_ok_def)
    define r where "r = \<lparr>ri_client = 0, ri_token = serial, ri_pCI = s_commands ! nat request, ri_cancelled = False, ri_local = (serial = - 1),
       ri_socket_id = slotId, ri_wasAckSent = False,
       ri_cid = (if slotId > SOCKET_1 then proxyId (s_commands ! nat request) + RIL_CHANNEL_OFFSET else proxyId (s_commands ! nat request))\<rparr>"
    have i: "command_index (mtk_command_start (sv_ril st)) request = request" using idx assms(1) by (simp add: service_ok_def)
    have "ril = set_pending slotId (a # pending slotId (sv_ril st)) ((sv_ril st)\<lparr>requests := (requests (sv_ril st))(a \<mapsto> r)\<rparr>)"
      using ril False idx unfolding addRequestToList_def Let_def i r_def [symmetric]
      by (simp add: s_commands_length pending_requests_update)
    then have rilD: "requests ril = (requests (sv_ril st))(a \<mapsto> r)" "pending slotId ril = a # pending slotId (sv_ril st)"
      "radio_calls ril = radio_calls (sv_ril st)" "mtk_command_start ril = mtk_command_start (sv_ril st)" "version ril = version (sv_ril st)"
      "mal_server ril = mal_server (sv_ril st)" "wake_ok ril = wake_ok (sv_ril st)"
      by (simp_all add: set_pending_def pending_def wake_ok_def)
    have carried: "carried (sv_ril st) ril"
      using request_inv_add [OF _ none ril] rilD(6,7) by (simp add: carried_def)
    have "service_ok ?st" using assms(1) rilD a by (auto simp: service_ok_def)
    moreover have "known a r ?st" using rilD assms(2) by (simp add: known_def r_def served_def)
    moreover have "ri_token r = serial" "ri_socket_id r = slotId" "ri_pCI r = s_commands ! nat request" "new_record serial request r"
      using assms(2) by (simp_all add: r_def new_record_def served_def)
    ultimately have "\<exists>r. known a r ?st \<and> requests (sv_ril st) a = None \<and> requests (sv_ril ?st) = (requests (sv_ril st))(a \<mapsto> r) \<and>
       pending slotId (sv_ril ?st) = a # pending slotId (sv_ril st) \<and> radio_calls (sv_ril ?st) = radio_calls (sv_ril st) \<and>
       ri_token r = serial \<and> ri_socket_id r = slotId \<and> ri_pCI r = s_commands ! nat request \<and> new_record serial request r"
      using rilD none by auto
    then show ?thesis using that [OF req] rilD False carried \<open>service_ok ?st\<close> by simp
  qed
qed

lemma with_request_settled:
  assumes "service_ok st" "served request"
    and "\<And>pRI r st1. service_ok st1 \<Longrightarrow> known pRI r st1 \<Longrightarrow> version (sv_ril st1) = version (sv_ril st) \<Longrightarrow> ri_socket_id r = slotId \<Longrightarrow>
      dataCallCids st1 = dataCallCids st \<Longrightarrow> \<exists>st'. k pRI st1 = Some st' \<and> finished request pRI r st1 st'"
  shows "\<exists>st'. with_request env serial slotId request k st = Some st' \<and> settled request slotId serial st st'"
proof -
  obtain pRI st1 where n: "new_request env serial slotId request st = Some (pRI, st1)"
    "service_ok st1" "sv_heap st1 = sv_heap st" "sv_fresh st \<le> sv_fresh st1" "vendor_calls st1 = vendor_calls st" "dataCallCids st1 = dataCallCids st"
    "version (sv_ril st1) = version (sv_ril st)"
    "pRI = 0 \<longrightarrow> sv_ril st1 = sv_ril st"
    "pRI \<noteq> 0 \<longrightarrow> (\<exists>r. known pRI r st1 \<and> requests (sv_ril st) pRI = None \<and> requests (sv_ril st1) = (requests (sv_ril st))(pRI \<mapsto> r) \<and>
       pending slotId (sv_ril st1) = pRI # pending slotId (sv_ril st) \<and> radio_calls (sv_ril st1) = radio_calls (sv_ril st) \<and>
       ri_token r = serial \<and> ri_socket_id r = slotId \<and> ri_pCI r = s_commands ! nat request \<and> new_record serial request r)"
    "carried (sv_ril st) (sv_ril st1)"
    by (rule new_request_spec [OF assms(1,2)])
  show ?thesis
  proof (cases "pRI = 0")
    case True
    then show ?thesis using n by (simp add: with_request_def settled_def no_text_left_same)
  next
    case False
    then obtain r where r: "known pRI r st1" "requests (sv_ril st) pRI = None" "requests (sv_ril st1) = (requests (sv_ril st))(pRI \<mapsto> r)"
       "pending slotId (sv_ril st1) = pRI # pending slotId (sv_ril st)" "radio_calls (sv_ril st1) = radio_calls (sv_ril st)"
       "ri_token r = serial" "ri_socket_id r = slotId" "ri_pCI r = s_commands ! nat request" "new_record serial request r"
      using n(9) by auto
    obtain st' where st': "k pRI st1 = Some st'" "finished request pRI r st1 st'"
      using assms(3) [OF n(2) r(1) n(7) r(7) n(6)] by auto
    have "requestNumber (ri_pCI r) = request" using assms(2) r(8) s_commands_nth [OF served_index [OF assms(2)]] by (simp add: served_def)
    moreover have "no_text_left st st'" using st'(2) n(3,4) unfolding finished_def no_text_left_def by (metis order_trans)
    moreover have "pending slotId (sv_ril st') = pRI # pending slotId (sv_ril st)"
      using st'(2) r(4) by (simp add: finished_def same_lists_def pending_def split: if_splits)
    moreover have "requests (sv_ril st') = (requests (sv_ril st))(pRI \<mapsto> r)"
      using st'(2) r(3) by (simp add: finished_def same_lists_def)
    moreover have "forwarded request pRI r st st' \<or> refused r st st'"
      using st'(2) n(5) r(5) by (auto simp: finished_def forwarded_def refused_def)
    moreover have "service_ok st'" "version (sv_ril st') = version (sv_ril st)" using st'(2) n(7) by (simp_all add: finished_def same_lists_def)
    moreover have "carried (sv_ril st) (sv_ril st')"
      using st'(2) n(10) by (simp add: finished_def same_lists_def carried_def request_inv_def wake_ok_def)
    ultimately have "settled request slotId serial st st'"
      using r(2,6,7,9) unfolding settled_def by blast
    then show ?thesis using st'(1) n(1) False by (simp add: with_request_def)
  qed
qed

section \<open>The dispatch functions\<close>

lemma dispatchVoid_settled:
  "service_ok st \<Longrightarrow> served request \<Longrightarrow>
    \<exists>st'. dispatchVoid env serial slotId request st = Some st' \<and> settled request slotId serial st st'"
  unfolding dispatchVoid_def
  by (rule with_request_settled, assumption, assumption, rule enqueue_finished)
    (simp_all add: buffer_frees_def prepared_refl)

lemma dispatchRaw_settled:
  "service_ok st \<Longrightarrow> served request \<Longrightarrow>
    \<exists>st'. dispatchRaw env serial slotId request bytes st = Some st' \<and> settled request slotId serial st st'"
  unfolding dispatchRaw_def
  by (rule with_request_settled, assumption, assumption, rule enqueue_finished)
    (simp_all add: buffer_frees_def prepared_refl)

lemma refuse_settled:
  "service_ok st \<Longrightarrow> served request \<Longrightarrow> err \<noteq> 0 \<Longrightarrow>
    \<exists>st'. refuse env serial slotId request err st = Some st' \<and> settled request slotId serial st st'"
  unfolding refuse_def by (rule with_request_settled, assumption, assumption, rule error_finished) simp_all

lemma dispatchString_settled:
  assumes "service_ok st" "served request"
  shows "\<exists>st'. dispatchString env serial slotId request str st = Some st' \<and> settled request slotId serial st st'"
  unfolding dispatchString_def
proof (rule with_request_settled [OF assms])
  fix pRI r st1
  assume st1: "service_ok st1" "known pRI r st1"
  obtain ok p st2 where c: "copyHidlStringToRil env False pRI (c_str str) st1 = Some (ok, p, st2)"
    "service_ok st2" "vendor_calls st2 = vendor_calls st1" "dataCallCids st2 = dataCallCids st1"
    "owns (memsetAndFreeStrings [p]) st1 st2" "p \<noteq> 0 \<longrightarrow> sv_heap st2 p = Some (Text (c_str (c_str str)))"
    "ok \<longrightarrow> sv_ril st2 = sv_ril st1 \<and> (p = 0 \<longleftrightarrow> c_str str = [] \<and> \<not> False)"
    "\<not> ok \<longrightarrow> p = 0 \<and> sv_ril st2 = call_radio (Response (the (responseFunction (ri_pCI r))) (ri_socket_id r) RESPONSE_SOLICITED (ri_token r)
        RIL_E_NO_MEMORY (Bytes None)) (sv_ril st1)"
    by (rule copy_spec [OF st1])
  show "\<exists>st'. (case copyHidlStringToRil env False pRI (c_str str) st1 of None \<Rightarrow> None
       | Some (ok, pString, st) \<Rightarrow>
           if \<not> ok then Some st
           else if ignoreBF pRI st then
             Option.bind (enqueue env request (A_string (text_at st pString)) FMT_IGNORE pRI st) (free_all (memsetAndFreeStrings [pString]))
           else enqueue env request (A_string (text_at st pString)) (FMT_STR pString) pRI st) = Some st' \<and> finished request pRI r st1 st'"
  proof (cases ok)
    case False
    then show ?thesis using copies_failed [OF st1 c(5,2,3,4)] c by (simp add: memsetAndFreeStrings_def)
  next
    case True
    then have p: "prepared (memsetAndFreeStrings [p]) st1 st2" using c by (simp add: prepared_def)
    then have "prepared (buffer_frees (FMT_STR p)) st1 st2" by (simp add: buffer_frees_def)
    then show ?thesis using enqueue_free_finished [OF st1 p] enqueue_finished [OF st1] c(1) True by simp
  qed
qed

text \<open>A hand-over after which some allocation stays behind that is not a text.\<close>

lemma finished_left:
  assumes "service_ok st" "known pRI r st" "prepared [a] st st1" "sv_heap st1 a = Some c" "\<forall>s. c \<noteq> Text s" "finished request pRI r st1 st'"
  shows "finished request pRI r st st'"
proof -
  have "no_text_left st st'"
  proof -
    have "sv_heap st' b = sv_heap st b \<or> (\<exists>c. sv_heap st' b = Some c \<and> sv_fresh st \<le> b \<and> (\<forall>s. c \<noteq> Text s))" for b
    proof (cases "b = a")
      case True
      have "sv_fresh st \<le> a" using assms(3) by (simp add: prepared_def owns_def)
      then show ?thesis using assms(4,5,6) True unfolding finished_def no_text_left_def by metis
    next
      case False
      then have "sv_heap st1 b = sv_heap st b" using assms(3) unfolding prepared_def owns_def
        by (metis (no_types, opaque_lifting) ComplI empty_iff empty_set insertE list.simps(15) restrict_in)
      moreover have "sv_fresh st \<le> sv_fresh st1" using assms(3) by (simp add: prepared_def owns_def)
      ultimately show ?thesis using assms(6) unfolding finished_def no_text_left_def by (metis order_trans)
    qed
    moreover have "sv_fresh st \<le> sv_fresh st'" using assms(3,6) by (simp add: finished_def no_text_left_def prepared_def owns_def)
    ultimately show ?thesis by (simp add: no_text_left_def)
  qed
  then show ?thesis using assms(3,6) by (auto simp: finished_def prepared_def same_lists_def forwarded_def refused_def)
qed

lemma calloc_prepared:
  assumes "service_ok st" "calloc_n env n c st = (a, st1)" "a \<noteq> 0"
  shows "prepared [a] st st1" "sv_heap st1 a = Some c"
  using calloc_spec [OF assms(1,2)] assms(3) by (simp_all add: prepared_def)

lemma no_memory_finished:
  assumes "service_ok st" "known pRI r st" "calloc_n env n c st = (0, st1)"
  shows "\<exists>st'. sendErrorResponse pRI RIL_E_NO_MEMORY st1 = Some st' \<and> finished request pRI r st st'"
  using calloc_spec [OF assms(1,3)] assms(1,2) by (intro error_finished) (simp_all add: RIL_E_NO_MEMORY_nonzero)

lemma dispatchInts_settled:
  assumes "service_ok st" "served request"
  shows "\<exists>st'. dispatchInts env serial slotId request ints st = Some st' \<and> settled request slotId serial st st'"
  unfolding dispatchInts_def
proof (rule with_request_settled [OF assms])
  fix pRI r st1
  assume st1: "service_ok st1" "known pRI r st1"
  obtain a st2 where alloc: "calloc env (Ints ints) st1 = (a, st2)" by fastforce
  show "\<exists>st'. (case calloc env (Ints ints) st1 of (pInts, st) \<Rightarrow>
         if pInts = 0 then sendErrorResponse pRI RIL_E_NO_MEMORY st
         else if ignoreBF pRI st then Option.bind (enqueue env request (The_ints ints) FMT_IGNORE pRI st) (free_all [pInts])
         else enqueue env request (The_ints ints) FMT_INTS pRI st) = Some st' \<and> finished request pRI r st1 st'"
  proof (cases "a = 0")
    case True
    then show ?thesis using no_memory_finished [OF st1] alloc by simp
  next
    case False
    note p = calloc_prepared [OF st1(1) alloc False]
    have ok2: "service_ok st2" "known pRI r st2" using p prepared_known [OF p(1)] st1 by (simp_all add: prepared_def)
    have "\<exists>st'. enqueue env request (The_ints ints) FMT_INTS pRI st2 = Some st' \<and> finished request pRI r st1 st'"
      using enqueue_finished [OF ok2, of FMT_INTS st2] finished_left [OF st1 p] prepared_refl [OF ok2(1)]
      by (fastforce simp: buffer_frees_def)
    then show ?thesis using enqueue_free_finished [OF st1 p(1)] alloc False by simp
  qed
qed

lemma dispatch_copies_finished:
  assumes st: "service_ok st" "known pRI r st"
  shows "\<exists>st'. dispatch_copies env request ae strs pRI st = Some st' \<and> finished request pRI r st st'"
proof -
  obtain a st1 where alloc: "calloc env (Pointers []) st = (a, st1)" by fastforce
  show ?thesis
  proof (cases "a = 0")
    case True
    then show ?thesis using no_memory_finished [OF st] alloc by (simp add: dispatch_copies_def)
  next
    case False
    note p = calloc_prepared [OF st(1) alloc False]
    have st1: "service_ok st1" "known pRI r st1" using p prepared_known [OF p(1)] st by (simp_all add: prepared_def)
    obtain ok ps st2 where c: "copy_strings env ae pRI strs st1 = Some (ok, ps, st2)"
      "service_ok st2" "vendor_calls st2 = vendor_calls st1" "dataCallCids st2 = dataCallCids st1"
      "owns (memsetAndFreeStrings ps) st1 st2"
      "ok \<longrightarrow> sv_ril st2 = sv_ril st1 \<and> map (text_at st2) ps = map (ril_string ae) strs"
      "\<not> ok \<longrightarrow> sv_ril st2 = call_radio (Response (the (responseFunction (ri_pCI r))) (ri_socket_id r) RESPONSE_SOLICITED (ri_token r)
          RIL_E_NO_MEMORY (Bytes None)) (sv_ril st1)"
      by (rule copies_spec [OF st1])
    have "owns ([a] @ memsetAndFreeStrings ps) st st2"
      using p(1) c(5) st1(1) by (intro owns_trans) (simp_all add: prepared_def)
    then have owned: "owns (memsetAndFreeStrings ps @ [a]) st st2" by (auto simp: owns_def)
    have same: "sv_ril st1 = sv_ril st" "vendor_calls st1 = vendor_calls st" "dataCallCids st1 = dataCallCids st" using p by (simp_all add: prepared_def)
    show ?thesis
    proof (cases ok)
      case ok: False
      then have "\<exists>st'. free_all (memsetAndFreeStrings ps @ [a]) st2 = Some st' \<and> finished request pRI r st st'"
        using copies_failed [OF st owned c(2)] c same by simp
      then show ?thesis using alloc False c(1) ok by (simp add: dispatch_copies_def)
    next
      case True
      have all: "prepared (memsetAndFreeStrings ps @ [a]) st st2" using owned c True same by (simp add: prepared_def)
      have "prepared (memsetAndFreeStrings ps) st1 st2" using c True by (simp add: prepared_def)
      then have "prepared (buffer_frees (FMT_STRS ps)) st1 st2" by (simp add: buffer_frees_def memsetAndFreeStrings_concat)
      then have "\<exists>st'. enqueue env request data (FMT_STRS ps) pRI st2 = Some st' \<and> finished request pRI r st st'" for data
        using enqueue_finished [OF st1] finished_left [OF st p] by blast
      then show ?thesis using enqueue_free_finished [OF st all] alloc False c(1) True by (simp add: dispatch_copies_def)
    qed
  qed
qed

lemma dispatchStrings_settled:
  assumes "service_ok st" "served request"
  shows "\<exists>st'. dispatchStrings env serial slotId request strs st = Some st' \<and> settled request slotId serial st st'"
    "\<exists>st'. dispatchStringsKeepEmpty env serial slotId request strs st = Some st' \<and> settled request slotId serial st st'"
    "\<exists>st'. dispatchStrings_vec env serial slotId request strs st = Some st' \<and> settled request slotId serial st st'"
  unfolding dispatchStrings_def dispatchStringsKeepEmpty_def dispatchStrings_vec_def dispatchStringsV_def
  by (rule with_request_settled [OF assms], rule dispatch_copies_finished; assumption)+

lemma single_string: "map f ps = [y] \<Longrightarrow> ps = [hd ps]"
  by (cases ps) auto

lemma dispatchCallForwardStatus_settled:
  assumes "service_ok st" "served request"
  shows "\<exists>st'. dispatchCallForwardStatus env serial slotId request info st = Some st' \<and> settled request slotId serial st st'"
  unfolding dispatchCallForwardStatus_def
proof (rule with_request_settled [OF assms], rule with_strings_finished)
  fix pRI r st1 ps st2
  assume st1: "service_ok st1" "known pRI r st1"
    and p: "prepared (memsetAndFreeStrings ps) st1 st2" "map (text_at st2) ps = map (ril_string False) [cf_number info]"
  have "prepared (buffer_frees (FMT_CallFWST (hd ps))) st1 st2"
    using p(1) single_string [of "text_at st2" ps] p(2) by (simp add: buffer_frees_def)
  then show "\<exists>st'. (let cf = Struct [cf_status info, cf_reason info, cf_serviceClass info, cf_toa info, cf_timeSeconds info] (map (text_at st2) ps) in
         if ignoreBF pRI st2 then Option.bind (enqueue env request cf FMT_IGNORE pRI st2) (free_all (memsetAndFreeStrings ps))
         else enqueue env request cf (FMT_CallFWST (hd ps)) pRI st2) = Some st' \<and> finished request pRI r st1 st'"
    using enqueue_free_finished [OF st1 p(1)] enqueue_finished [OF st1] by (simp add: Let_def)
qed

lemma dispatchIccApdu_settled:
  assumes "service_ok st" "served request"
  shows "\<exists>st'. dispatchIccApdu env serial slotId request m st = Some st' \<and> settled request slotId serial st st'"
  unfolding dispatchIccApdu_def
proof (rule with_request_settled [OF assms], rule with_strings_finished)
  fix pRI r st1 ps st2
  assume st1: "service_ok st1" "known pRI r st1"
    and p: "prepared (memsetAndFreeStrings ps) st1 st2" "map (text_at st2) ps = map (ril_string False) [apdu_data m]"
  have "prepared (buffer_frees (FMT_IccAPDU (hd ps))) st1 st2"
    using p(1) single_string [of "text_at st2" ps] p(2) by (simp add: buffer_frees_def)
  then show "\<exists>st'. enqueue env request (Struct [apdu_sessionId m, apdu_cla m, apdu_instruction m, apdu_p1 m, apdu_p2 m, apdu_p3 m]
           (map (text_at st2) ps)) (FMT_IccAPDU (hd ps)) pRI st2 = Some st' \<and> finished request pRI r st1 st'"
    using enqueue_finished [OF st1] by simp
qed

lemmas dispatch_settled =
  dispatchVoid_settled dispatchRaw_settled refuse_settled dispatchString_settled dispatchInts_settled dispatchStrings_settled
  dispatchCallForwardStatus_settled dispatchIccApdu_settled

end
