(* ===== verification/RilRadio.thy ===== *)
theory RilRadio
  imports RilDispatchCorrect
begin

text \<open>
  The methods of \<open>RadioImpl\<close> and \<open>OemHookImpl\<close> (\<open>ril_service.cpp\<close>) that the framework calls, each by
  its own name: \<open>env\<close> is the surroundings of theory \<open>RilDispatch\<close>, \<open>slotId\<close> the service's \<open>mSlotId\<close>. HIDL
  enumerations are integers; where the code compares one with a constant of the HIDL interface, the
  constant is an argument (\<open>sv_ApnTypes_IMS\<close>, \<open>sv_LOW_DATA_EXPECTED\<close>) or a constructor. A structure the
  vendor is handed is the list of its integers and the list of its strings.
\<close>

section \<open>Plain requests\<close>

definition bool_to_int :: "bool \<Rightarrow> int" where
  "bool_to_int x = (if x then 1 else 0)"

definition flag :: "bool \<Rightarrow> string" where
  "flag b = (if b then ''1'' else ''0'')"

record GsmSmsMessage =
  sms_smscPdu :: string
  sms_pdu :: string

definition getIccCardStatus :: "service_env \<Rightarrow> int \<Rightarrow> int \<Rightarrow> service \<Rightarrow> service option" where
  "getIccCardStatus env slotId serial =
     dispatchVoid env serial slotId RIL_REQUEST_GET_SIM_STATUS"

definition supplyIccPinForApp :: "service_env \<Rightarrow> int \<Rightarrow> int \<Rightarrow> string \<Rightarrow> string \<Rightarrow> service \<Rightarrow> service option" where
  "supplyIccPinForApp env slotId serial pin aid =
     dispatchStrings env serial slotId RIL_REQUEST_ENTER_SIM_PIN [pin, aid]"

definition supplyIccPukForApp :: "service_env \<Rightarrow> int \<Rightarrow> int \<Rightarrow> string \<Rightarrow> string \<Rightarrow> string \<Rightarrow> service \<Rightarrow> service option" where
  "supplyIccPukForApp env slotId serial puk pin aid =
     dispatchStrings env serial slotId RIL_REQUEST_ENTER_SIM_PUK [puk, pin, aid]"

definition supplyIccPin2ForApp :: "service_env \<Rightarrow> int \<Rightarrow> int \<Rightarrow> string \<Rightarrow> string \<Rightarrow> service \<Rightarrow> service option" where
  "supplyIccPin2ForApp env slotId serial pin2 aid =
     dispatchStrings env serial slotId RIL_REQUEST_ENTER_SIM_PIN2 [pin2, aid]"

definition supplyIccPuk2ForApp :: "service_env \<Rightarrow> int \<Rightarrow> int \<Rightarrow> string \<Rightarrow> string \<Rightarrow> string \<Rightarrow> service \<Rightarrow> service option" where
  "supplyIccPuk2ForApp env slotId serial puk2 pin2 aid =
     dispatchStrings env serial slotId RIL_REQUEST_ENTER_SIM_PUK2 [puk2, pin2, aid]"

definition changeIccPinForApp :: "service_env \<Rightarrow> int \<Rightarrow> int \<Rightarrow> string \<Rightarrow> string \<Rightarrow> string \<Rightarrow> service \<Rightarrow> service option" where
  "changeIccPinForApp env slotId serial oldPin newPin aid =
     dispatchStrings env serial slotId RIL_REQUEST_CHANGE_SIM_PIN [oldPin, newPin, aid]"

definition changeIccPin2ForApp :: "service_env \<Rightarrow> int \<Rightarrow> int \<Rightarrow> string \<Rightarrow> string \<Rightarrow> string \<Rightarrow> service \<Rightarrow> service option" where
  "changeIccPin2ForApp env slotId serial oldPin2 newPin2 aid =
     dispatchStrings env serial slotId RIL_REQUEST_CHANGE_SIM_PIN2 [oldPin2, newPin2, aid]"

definition supplyNetworkDepersonalization :: "service_env \<Rightarrow> int \<Rightarrow> int \<Rightarrow> string \<Rightarrow> service \<Rightarrow> service option" where
  "supplyNetworkDepersonalization env slotId serial netPin =
     dispatchStrings env serial slotId RIL_REQUEST_ENTER_NETWORK_DEPERSONALIZATION [netPin]"

definition getCurrentCalls :: "service_env \<Rightarrow> int \<Rightarrow> int \<Rightarrow> service \<Rightarrow> service option" where
  "getCurrentCalls env slotId serial =
     dispatchVoid env serial slotId RIL_REQUEST_GET_CURRENT_CALLS"

definition getImsiForApp :: "service_env \<Rightarrow> int \<Rightarrow> int \<Rightarrow> string \<Rightarrow> service \<Rightarrow> service option" where
  "getImsiForApp env slotId serial aid =
     dispatchStrings env serial slotId RIL_REQUEST_GET_IMSI [aid]"

definition hangup :: "service_env \<Rightarrow> int \<Rightarrow> int \<Rightarrow> int \<Rightarrow> service \<Rightarrow> service option" where
  "hangup env slotId serial gsmIndex =
     dispatchInts env serial slotId RIL_REQUEST_HANGUP [gsmIndex]"

definition hangupWaitingOrBackground :: "service_env \<Rightarrow> int \<Rightarrow> int \<Rightarrow> service \<Rightarrow> service option" where
  "hangupWaitingOrBackground env slotId serial =
     dispatchVoid env serial slotId RIL_REQUEST_HANGUP_WAITING_OR_BACKGROUND"

definition hangupForegroundResumeBackground :: "service_env \<Rightarrow> int \<Rightarrow> int \<Rightarrow> service \<Rightarrow> service option" where
  "hangupForegroundResumeBackground env slotId serial =
     dispatchVoid env serial slotId RIL_REQUEST_HANGUP_FOREGROUND_RESUME_BACKGROUND"

definition switchWaitingOrHoldingAndActive :: "service_env \<Rightarrow> int \<Rightarrow> int \<Rightarrow> service \<Rightarrow> service option" where
  "switchWaitingOrHoldingAndActive env slotId serial =
     dispatchVoid env serial slotId RIL_REQUEST_SWITCH_WAITING_OR_HOLDING_AND_ACTIVE"

definition conference :: "service_env \<Rightarrow> int \<Rightarrow> int \<Rightarrow> service \<Rightarrow> service option" where
  "conference env slotId serial =
     dispatchVoid env serial slotId RIL_REQUEST_CONFERENCE"

definition rejectCall :: "service_env \<Rightarrow> int \<Rightarrow> int \<Rightarrow> service \<Rightarrow> service option" where
  "rejectCall env slotId serial =
     dispatchVoid env serial slotId RIL_REQUEST_UDUB"

definition getLastCallFailCause :: "service_env \<Rightarrow> int \<Rightarrow> int \<Rightarrow> service \<Rightarrow> service option" where
  "getLastCallFailCause env slotId serial =
     dispatchVoid env serial slotId RIL_REQUEST_LAST_CALL_FAIL_CAUSE"

definition getVoiceRegistrationState :: "service_env \<Rightarrow> int \<Rightarrow> int \<Rightarrow> service \<Rightarrow> service option" where
  "getVoiceRegistrationState env slotId serial =
     dispatchVoid env serial slotId RIL_REQUEST_VOICE_REGISTRATION_STATE"

definition getDataRegistrationState :: "service_env \<Rightarrow> int \<Rightarrow> int \<Rightarrow> service \<Rightarrow> service option" where
  "getDataRegistrationState env slotId serial =
     dispatchVoid env serial slotId RIL_REQUEST_DATA_REGISTRATION_STATE"

definition getOperator :: "service_env \<Rightarrow> int \<Rightarrow> int \<Rightarrow> service \<Rightarrow> service option" where
  "getOperator env slotId serial =
     dispatchVoid env serial slotId RIL_REQUEST_OPERATOR"

definition sendDtmf :: "service_env \<Rightarrow> int \<Rightarrow> int \<Rightarrow> string \<Rightarrow> service \<Rightarrow> service option" where
  "sendDtmf env slotId serial s =
     dispatchString env serial slotId RIL_REQUEST_DTMF s"

definition sendSms :: "service_env \<Rightarrow> int \<Rightarrow> int \<Rightarrow> GsmSmsMessage \<Rightarrow> service \<Rightarrow> service option" where
  "sendSms env slotId serial message =
     dispatchStrings env serial slotId RIL_REQUEST_SEND_SMS [sms_smscPdu message, sms_pdu message]"

definition sendSMSExpectMore :: "service_env \<Rightarrow> int \<Rightarrow> int \<Rightarrow> GsmSmsMessage \<Rightarrow> service \<Rightarrow> service option" where
  "sendSMSExpectMore env slotId serial message =
     dispatchStrings env serial slotId RIL_REQUEST_SEND_SMS_EXPECT_MORE [sms_smscPdu message, sms_pdu message]"

definition sendUssd :: "service_env \<Rightarrow> int \<Rightarrow> int \<Rightarrow> string \<Rightarrow> service \<Rightarrow> service option" where
  "sendUssd env slotId serial ussd =
     dispatchString env serial slotId RIL_REQUEST_SEND_USSD ussd"

definition cancelPendingUssd :: "service_env \<Rightarrow> int \<Rightarrow> int \<Rightarrow> service \<Rightarrow> service option" where
  "cancelPendingUssd env slotId serial =
     dispatchVoid env serial slotId RIL_REQUEST_CANCEL_USSD"

definition getClir :: "service_env \<Rightarrow> int \<Rightarrow> int \<Rightarrow> service \<Rightarrow> service option" where
  "getClir env slotId serial =
     dispatchVoid env serial slotId RIL_REQUEST_GET_CLIR"

definition setClir :: "service_env \<Rightarrow> int \<Rightarrow> int \<Rightarrow> int \<Rightarrow> service \<Rightarrow> service option" where
  "setClir env slotId serial status =
     dispatchInts env serial slotId RIL_REQUEST_SET_CLIR [status]"

definition getCallForwardStatus :: "service_env \<Rightarrow> int \<Rightarrow> int \<Rightarrow> CallForwardInfo \<Rightarrow> service \<Rightarrow> service option" where
  "getCallForwardStatus env slotId serial callInfo =
     dispatchCallForwardStatus env serial slotId RIL_REQUEST_QUERY_CALL_FORWARD_STATUS callInfo"

definition setCallForward :: "service_env \<Rightarrow> int \<Rightarrow> int \<Rightarrow> CallForwardInfo \<Rightarrow> service \<Rightarrow> service option" where
  "setCallForward env slotId serial callInfo =
     dispatchCallForwardStatus env serial slotId RIL_REQUEST_SET_CALL_FORWARD callInfo"

definition getCallWaiting :: "service_env \<Rightarrow> int \<Rightarrow> int \<Rightarrow> int \<Rightarrow> service \<Rightarrow> service option" where
  "getCallWaiting env slotId serial serviceClass =
     dispatchInts env serial slotId RIL_REQUEST_QUERY_CALL_WAITING [serviceClass]"

definition setCallWaiting :: "service_env \<Rightarrow> int \<Rightarrow> int \<Rightarrow> bool \<Rightarrow> int \<Rightarrow> service \<Rightarrow> service option" where
  "setCallWaiting env slotId serial enable serviceClass =
     dispatchInts env serial slotId RIL_REQUEST_SET_CALL_WAITING [bool_to_int enable, serviceClass]"

definition acknowledgeLastIncomingGsmSms :: "service_env \<Rightarrow> int \<Rightarrow> int \<Rightarrow> bool \<Rightarrow> int \<Rightarrow> service \<Rightarrow> service option" where
  "acknowledgeLastIncomingGsmSms env slotId serial success cause =
     dispatchInts env serial slotId RIL_REQUEST_SMS_ACKNOWLEDGE [bool_to_int success, cause]"

definition acceptCall :: "service_env \<Rightarrow> int \<Rightarrow> int \<Rightarrow> service \<Rightarrow> service option" where
  "acceptCall env slotId serial =
     dispatchVoid env serial slotId RIL_REQUEST_ANSWER"

definition getFacilityLockForApp :: "service_env \<Rightarrow> int \<Rightarrow> int \<Rightarrow> string \<Rightarrow> string \<Rightarrow> int \<Rightarrow> string \<Rightarrow> service \<Rightarrow> service option" where
  "getFacilityLockForApp env slotId serial facility password serviceClass appId =
     dispatchStrings env serial slotId RIL_REQUEST_QUERY_FACILITY_LOCK [facility, password, to_string serviceClass, appId]"

definition setFacilityLockForApp :: "service_env \<Rightarrow> int \<Rightarrow> int \<Rightarrow> string \<Rightarrow> bool \<Rightarrow> string \<Rightarrow> int \<Rightarrow> string \<Rightarrow> service \<Rightarrow> service option" where
  "setFacilityLockForApp env slotId serial facility lockState password serviceClass appId =
     dispatchStrings env serial slotId RIL_REQUEST_SET_FACILITY_LOCK [facility, flag lockState, password, to_string serviceClass, appId]"

definition setBarringPassword :: "service_env \<Rightarrow> int \<Rightarrow> int \<Rightarrow> string \<Rightarrow> string \<Rightarrow> string \<Rightarrow> service \<Rightarrow> service option" where
  "setBarringPassword env slotId serial facility oldPassword newPassword =
     dispatchStrings env serial slotId RIL_REQUEST_CHANGE_BARRING_PASSWORD [oldPassword, newPassword]"

definition getNetworkSelectionMode :: "service_env \<Rightarrow> int \<Rightarrow> int \<Rightarrow> service \<Rightarrow> service option" where
  "getNetworkSelectionMode env slotId serial =
     dispatchVoid env serial slotId RIL_REQUEST_QUERY_NETWORK_SELECTION_MODE"

definition setNetworkSelectionModeAutomatic :: "service_env \<Rightarrow> int \<Rightarrow> int \<Rightarrow> service \<Rightarrow> service option" where
  "setNetworkSelectionModeAutomatic env slotId serial =
     dispatchVoid env serial slotId RIL_REQUEST_SET_NETWORK_SELECTION_AUTOMATIC"

definition setNetworkSelectionModeManual :: "service_env \<Rightarrow> int \<Rightarrow> int \<Rightarrow> string \<Rightarrow> service \<Rightarrow> service option" where
  "setNetworkSelectionModeManual env slotId serial operatorNumeric =
     dispatchString env serial slotId RIL_REQUEST_SET_NETWORK_SELECTION_MANUAL operatorNumeric"

definition getAvailableNetworks :: "service_env \<Rightarrow> int \<Rightarrow> int \<Rightarrow> service \<Rightarrow> service option" where
  "getAvailableNetworks env slotId serial =
     dispatchVoid env serial slotId RIL_REQUEST_QUERY_AVAILABLE_NETWORKS"

definition stopNetworkScan :: "service_env \<Rightarrow> int \<Rightarrow> int \<Rightarrow> service \<Rightarrow> service option" where
  "stopNetworkScan env slotId serial =
     dispatchVoid env serial slotId RIL_REQUEST_STOP_NETWORK_SCAN"

definition startDtmf :: "service_env \<Rightarrow> int \<Rightarrow> int \<Rightarrow> string \<Rightarrow> service \<Rightarrow> service option" where
  "startDtmf env slotId serial s =
     dispatchString env serial slotId RIL_REQUEST_DTMF_START s"

definition stopDtmf :: "service_env \<Rightarrow> int \<Rightarrow> int \<Rightarrow> service \<Rightarrow> service option" where
  "stopDtmf env slotId serial =
     dispatchVoid env serial slotId RIL_REQUEST_DTMF_STOP"

definition getBasebandVersion :: "service_env \<Rightarrow> int \<Rightarrow> int \<Rightarrow> service \<Rightarrow> service option" where
  "getBasebandVersion env slotId serial =
     dispatchVoid env serial slotId RIL_REQUEST_BASEBAND_VERSION"

definition separateConnection :: "service_env \<Rightarrow> int \<Rightarrow> int \<Rightarrow> int \<Rightarrow> service \<Rightarrow> service option" where
  "separateConnection env slotId serial gsmIndex =
     dispatchInts env serial slotId RIL_REQUEST_SEPARATE_CONNECTION [gsmIndex]"

definition setMute :: "service_env \<Rightarrow> int \<Rightarrow> int \<Rightarrow> bool \<Rightarrow> service \<Rightarrow> service option" where
  "setMute env slotId serial enable =
     dispatchInts env serial slotId RIL_REQUEST_SET_MUTE [bool_to_int enable]"

definition getMute :: "service_env \<Rightarrow> int \<Rightarrow> int \<Rightarrow> service \<Rightarrow> service option" where
  "getMute env slotId serial =
     dispatchVoid env serial slotId RIL_REQUEST_GET_MUTE"

definition getClip :: "service_env \<Rightarrow> int \<Rightarrow> int \<Rightarrow> service \<Rightarrow> service option" where
  "getClip env slotId serial =
     dispatchVoid env serial slotId RIL_REQUEST_QUERY_CLIP"

definition getDataCallList :: "service_env \<Rightarrow> int \<Rightarrow> int \<Rightarrow> service \<Rightarrow> service option" where
  "getDataCallList env slotId serial =
     dispatchVoid env serial slotId RIL_REQUEST_DATA_CALL_LIST"

definition setSuppServiceNotifications :: "service_env \<Rightarrow> int \<Rightarrow> int \<Rightarrow> bool \<Rightarrow> service \<Rightarrow> service option" where
  "setSuppServiceNotifications env slotId serial enable =
     dispatchInts env serial slotId RIL_REQUEST_SET_SUPP_SVC_NOTIFICATION [bool_to_int enable]"

definition deleteSmsOnSim :: "service_env \<Rightarrow> int \<Rightarrow> int \<Rightarrow> int \<Rightarrow> service \<Rightarrow> service option" where
  "deleteSmsOnSim env slotId serial i =
     dispatchInts env serial slotId RIL_REQUEST_DELETE_SMS_ON_SIM [i]"

definition setBandMode :: "service_env \<Rightarrow> int \<Rightarrow> int \<Rightarrow> int \<Rightarrow> service \<Rightarrow> service option" where
  "setBandMode env slotId serial mode =
     dispatchInts env serial slotId RIL_REQUEST_SET_BAND_MODE [mode]"

definition getAvailableBandModes :: "service_env \<Rightarrow> int \<Rightarrow> int \<Rightarrow> service \<Rightarrow> service option" where
  "getAvailableBandModes env slotId serial =
     dispatchVoid env serial slotId RIL_REQUEST_QUERY_AVAILABLE_BAND_MODE"

definition sendEnvelope :: "service_env \<Rightarrow> int \<Rightarrow> int \<Rightarrow> string \<Rightarrow> service \<Rightarrow> service option" where
  "sendEnvelope env slotId serial cmd_text =
     dispatchString env serial slotId RIL_REQUEST_STK_SEND_ENVELOPE_COMMAND cmd_text"

definition sendTerminalResponseToSim :: "service_env \<Rightarrow> int \<Rightarrow> int \<Rightarrow> string \<Rightarrow> service \<Rightarrow> service option" where
  "sendTerminalResponseToSim env slotId serial commandResponse =
     dispatchString env serial slotId RIL_REQUEST_STK_SEND_TERMINAL_RESPONSE commandResponse"

definition handleStkCallSetupRequestFromSim :: "service_env \<Rightarrow> int \<Rightarrow> int \<Rightarrow> bool \<Rightarrow> service \<Rightarrow> service option" where
  "handleStkCallSetupRequestFromSim env slotId serial accept =
     dispatchInts env serial slotId RIL_REQUEST_STK_HANDLE_CALL_SETUP_REQUESTED_FROM_SIM [bool_to_int accept]"

definition explicitCallTransfer :: "service_env \<Rightarrow> int \<Rightarrow> int \<Rightarrow> service \<Rightarrow> service option" where
  "explicitCallTransfer env slotId serial =
     dispatchVoid env serial slotId RIL_REQUEST_EXPLICIT_CALL_TRANSFER"

definition setPreferredNetworkType :: "service_env \<Rightarrow> int \<Rightarrow> int \<Rightarrow> int \<Rightarrow> service \<Rightarrow> service option" where
  "setPreferredNetworkType env slotId serial nwType =
     dispatchInts env serial slotId RIL_REQUEST_SET_PREFERRED_NETWORK_TYPE [nwType]"

definition getPreferredNetworkType :: "service_env \<Rightarrow> int \<Rightarrow> int \<Rightarrow> service \<Rightarrow> service option" where
  "getPreferredNetworkType env slotId serial =
     dispatchVoid env serial slotId RIL_REQUEST_GET_PREFERRED_NETWORK_TYPE"

definition getNeighboringCids :: "service_env \<Rightarrow> int \<Rightarrow> int \<Rightarrow> service \<Rightarrow> service option" where
  "getNeighboringCids env slotId serial =
     dispatchVoid env serial slotId RIL_REQUEST_GET_NEIGHBORING_CELL_IDS"

definition setLocationUpdates :: "service_env \<Rightarrow> int \<Rightarrow> int \<Rightarrow> bool \<Rightarrow> service \<Rightarrow> service option" where
  "setLocationUpdates env slotId serial enable =
     dispatchInts env serial slotId RIL_REQUEST_SET_LOCATION_UPDATES [bool_to_int enable]"

definition setCdmaSubscriptionSource :: "service_env \<Rightarrow> int \<Rightarrow> int \<Rightarrow> int \<Rightarrow> service \<Rightarrow> service option" where
  "setCdmaSubscriptionSource env slotId serial cdmaSub =
     dispatchInts env serial slotId RIL_REQUEST_CDMA_SET_SUBSCRIPTION_SOURCE [cdmaSub]"

definition setCdmaRoamingPreference :: "service_env \<Rightarrow> int \<Rightarrow> int \<Rightarrow> int \<Rightarrow> service \<Rightarrow> service option" where
  "setCdmaRoamingPreference env slotId serial ty =
     dispatchInts env serial slotId RIL_REQUEST_CDMA_SET_ROAMING_PREFERENCE [ty]"

definition getCdmaRoamingPreference :: "service_env \<Rightarrow> int \<Rightarrow> int \<Rightarrow> service \<Rightarrow> service option" where
  "getCdmaRoamingPreference env slotId serial =
     dispatchVoid env serial slotId RIL_REQUEST_CDMA_QUERY_ROAMING_PREFERENCE"

definition setTTYMode :: "service_env \<Rightarrow> int \<Rightarrow> int \<Rightarrow> int \<Rightarrow> service \<Rightarrow> service option" where
  "setTTYMode env slotId serial mode =
     dispatchInts env serial slotId RIL_REQUEST_SET_TTY_MODE [mode]"

definition setPreferredVoicePrivacy :: "service_env \<Rightarrow> int \<Rightarrow> int \<Rightarrow> bool \<Rightarrow> service \<Rightarrow> service option" where
  "setPreferredVoicePrivacy env slotId serial enable =
     dispatchInts env serial slotId RIL_REQUEST_CDMA_SET_PREFERRED_VOICE_PRIVACY_MODE [bool_to_int enable]"

definition getPreferredVoicePrivacy :: "service_env \<Rightarrow> int \<Rightarrow> int \<Rightarrow> service \<Rightarrow> service option" where
  "getPreferredVoicePrivacy env slotId serial =
     dispatchVoid env serial slotId RIL_REQUEST_CDMA_QUERY_PREFERRED_VOICE_PRIVACY_MODE"

definition sendCDMAFeatureCode :: "service_env \<Rightarrow> int \<Rightarrow> int \<Rightarrow> string \<Rightarrow> service \<Rightarrow> service option" where
  "sendCDMAFeatureCode env slotId serial featureCode =
     dispatchString env serial slotId RIL_REQUEST_CDMA_FLASH featureCode"

definition sendBurstDtmf :: "service_env \<Rightarrow> int \<Rightarrow> int \<Rightarrow> string \<Rightarrow> int \<Rightarrow> int \<Rightarrow> service \<Rightarrow> service option" where
  "sendBurstDtmf env slotId serial dtmf on_ms off_ms =
     dispatchStrings env serial slotId RIL_REQUEST_CDMA_BURST_DTMF [dtmf, to_string on_ms, to_string off_ms]"

definition getGsmBroadcastConfig :: "service_env \<Rightarrow> int \<Rightarrow> int \<Rightarrow> service \<Rightarrow> service option" where
  "getGsmBroadcastConfig env slotId serial =
     dispatchVoid env serial slotId RIL_REQUEST_GSM_GET_BROADCAST_SMS_CONFIG"

definition setGsmBroadcastActivation :: "service_env \<Rightarrow> int \<Rightarrow> int \<Rightarrow> bool \<Rightarrow> service \<Rightarrow> service option" where
  "setGsmBroadcastActivation env slotId serial activate =
     dispatchInts env serial slotId RIL_REQUEST_GSM_SMS_BROADCAST_ACTIVATION [bool_to_int (\<not> activate)]"

definition getCdmaBroadcastConfig :: "service_env \<Rightarrow> int \<Rightarrow> int \<Rightarrow> service \<Rightarrow> service option" where
  "getCdmaBroadcastConfig env slotId serial =
     dispatchVoid env serial slotId RIL_REQUEST_CDMA_GET_BROADCAST_SMS_CONFIG"

definition setCdmaBroadcastActivation :: "service_env \<Rightarrow> int \<Rightarrow> int \<Rightarrow> bool \<Rightarrow> service \<Rightarrow> service option" where
  "setCdmaBroadcastActivation env slotId serial activate =
     dispatchInts env serial slotId RIL_REQUEST_CDMA_SMS_BROADCAST_ACTIVATION [bool_to_int (\<not> activate)]"

definition getCDMASubscription :: "service_env \<Rightarrow> int \<Rightarrow> int \<Rightarrow> service \<Rightarrow> service option" where
  "getCDMASubscription env slotId serial =
     dispatchVoid env serial slotId RIL_REQUEST_CDMA_SUBSCRIPTION"

definition deleteSmsOnRuim :: "service_env \<Rightarrow> int \<Rightarrow> int \<Rightarrow> int \<Rightarrow> service \<Rightarrow> service option" where
  "deleteSmsOnRuim env slotId serial i =
     dispatchInts env serial slotId RIL_REQUEST_CDMA_DELETE_SMS_ON_RUIM [i]"

definition exitEmergencyCallbackMode :: "service_env \<Rightarrow> int \<Rightarrow> int \<Rightarrow> service \<Rightarrow> service option" where
  "exitEmergencyCallbackMode env slotId serial =
     dispatchVoid env serial slotId RIL_REQUEST_EXIT_EMERGENCY_CALLBACK_MODE"

definition getSmscAddress :: "service_env \<Rightarrow> int \<Rightarrow> int \<Rightarrow> service \<Rightarrow> service option" where
  "getSmscAddress env slotId serial =
     dispatchVoid env serial slotId RIL_REQUEST_GET_SMSC_ADDRESS"

definition setSmscAddress :: "service_env \<Rightarrow> int \<Rightarrow> int \<Rightarrow> string \<Rightarrow> service \<Rightarrow> service option" where
  "setSmscAddress env slotId serial smsc =
     dispatchString env serial slotId RIL_REQUEST_SET_SMSC_ADDRESS smsc"

definition reportSmsMemoryStatus :: "service_env \<Rightarrow> int \<Rightarrow> int \<Rightarrow> bool \<Rightarrow> service \<Rightarrow> service option" where
  "reportSmsMemoryStatus env slotId serial available =
     dispatchInts env serial slotId RIL_REQUEST_REPORT_SMS_MEMORY_STATUS [bool_to_int available]"

definition reportStkServiceIsRunning :: "service_env \<Rightarrow> int \<Rightarrow> int \<Rightarrow> service \<Rightarrow> service option" where
  "reportStkServiceIsRunning env slotId serial =
     dispatchVoid env serial slotId RIL_REQUEST_REPORT_STK_SERVICE_IS_RUNNING"

definition requestIsimAuthentication :: "service_env \<Rightarrow> int \<Rightarrow> int \<Rightarrow> string \<Rightarrow> service \<Rightarrow> service option" where
  "requestIsimAuthentication env slotId serial challenge =
     dispatchString env serial slotId RIL_REQUEST_ISIM_AUTHENTICATION challenge"

definition acknowledgeIncomingGsmSmsWithPdu :: "service_env \<Rightarrow> int \<Rightarrow> int \<Rightarrow> bool \<Rightarrow> string \<Rightarrow> service \<Rightarrow> service option" where
  "acknowledgeIncomingGsmSmsWithPdu env slotId serial success ackPdu =
     dispatchStrings env serial slotId RIL_REQUEST_ACKNOWLEDGE_INCOMING_GSM_SMS_WITH_PDU [flag success, ackPdu]"

definition sendEnvelopeWithStatus :: "service_env \<Rightarrow> int \<Rightarrow> int \<Rightarrow> string \<Rightarrow> service \<Rightarrow> service option" where
  "sendEnvelopeWithStatus env slotId serial contents =
     dispatchString env serial slotId RIL_REQUEST_STK_SEND_ENVELOPE_WITH_STATUS contents"

definition getVoiceRadioTechnology :: "service_env \<Rightarrow> int \<Rightarrow> int \<Rightarrow> service \<Rightarrow> service option" where
  "getVoiceRadioTechnology env slotId serial =
     dispatchVoid env serial slotId RIL_REQUEST_VOICE_RADIO_TECH"

definition getCellInfoList :: "service_env \<Rightarrow> int \<Rightarrow> int \<Rightarrow> service \<Rightarrow> service option" where
  "getCellInfoList env slotId serial =
     dispatchVoid env serial slotId RIL_REQUEST_GET_CELL_INFO_LIST"

definition setCellInfoListRate :: "service_env \<Rightarrow> int \<Rightarrow> int \<Rightarrow> int \<Rightarrow> service \<Rightarrow> service option" where
  "setCellInfoListRate env slotId serial rate =
     dispatchInts env serial slotId RIL_REQUEST_SET_UNSOL_CELL_INFO_LIST_RATE [rate]"

definition getImsRegistrationState :: "service_env \<Rightarrow> int \<Rightarrow> int \<Rightarrow> service \<Rightarrow> service option" where
  "getImsRegistrationState env slotId serial =
     dispatchVoid env serial slotId RIL_REQUEST_IMS_REGISTRATION_STATE"

definition iccTransmitApduBasicChannel :: "service_env \<Rightarrow> int \<Rightarrow> int \<Rightarrow> SimApdu \<Rightarrow> service \<Rightarrow> service option" where
  "iccTransmitApduBasicChannel env slotId serial message =
     dispatchIccApdu env serial slotId RIL_REQUEST_SIM_TRANSMIT_APDU_BASIC message"

definition iccCloseLogicalChannel :: "service_env \<Rightarrow> int \<Rightarrow> int \<Rightarrow> int \<Rightarrow> service \<Rightarrow> service option" where
  "iccCloseLogicalChannel env slotId serial channelId =
     dispatchInts env serial slotId RIL_REQUEST_SIM_CLOSE_CHANNEL [channelId]"

definition iccTransmitApduLogicalChannel :: "service_env \<Rightarrow> int \<Rightarrow> int \<Rightarrow> SimApdu \<Rightarrow> service \<Rightarrow> service option" where
  "iccTransmitApduLogicalChannel env slotId serial message =
     dispatchIccApdu env serial slotId RIL_REQUEST_SIM_TRANSMIT_APDU_CHANNEL message"

definition nvWriteCdmaPrl :: "service_env \<Rightarrow> int \<Rightarrow> int \<Rightarrow> u8 list \<Rightarrow> service \<Rightarrow> service option" where
  "nvWriteCdmaPrl env slotId serial prl =
     dispatchRaw env serial slotId RIL_REQUEST_NV_WRITE_CDMA_PRL prl"

definition setDataAllowed :: "service_env \<Rightarrow> int \<Rightarrow> int \<Rightarrow> bool \<Rightarrow> service \<Rightarrow> service option" where
  "setDataAllowed env slotId serial allow =
     dispatchInts env serial slotId RIL_REQUEST_ALLOW_DATA [bool_to_int allow]"

definition requestShutdown :: "service_env \<Rightarrow> int \<Rightarrow> int \<Rightarrow> service \<Rightarrow> service option" where
  "requestShutdown env slotId serial =
     dispatchVoid env serial slotId RIL_REQUEST_SHUTDOWN"

definition stopLceService :: "service_env \<Rightarrow> int \<Rightarrow> int \<Rightarrow> service \<Rightarrow> service option" where
  "stopLceService env slotId serial =
     dispatchVoid env serial slotId RIL_REQUEST_STOP_LCE"

definition pullLceData :: "service_env \<Rightarrow> int \<Rightarrow> int \<Rightarrow> service \<Rightarrow> service option" where
  "pullLceData env slotId serial =
     dispatchVoid env serial slotId RIL_REQUEST_PULL_LCEDATA"

definition getModemActivityInfo :: "service_env \<Rightarrow> int \<Rightarrow> int \<Rightarrow> service \<Rightarrow> service option" where
  "getModemActivityInfo env slotId serial =
     dispatchVoid env serial slotId RIL_REQUEST_GET_ACTIVITY_INFO"

definition getAllowedCarriers :: "service_env \<Rightarrow> int \<Rightarrow> int \<Rightarrow> service \<Rightarrow> service option" where
  "getAllowedCarriers env slotId serial =
     dispatchVoid env serial slotId RIL_REQUEST_GET_CARRIER_RESTRICTIONS"

definition sendRequestRaw :: "service_env \<Rightarrow> int \<Rightarrow> int \<Rightarrow> u8 list \<Rightarrow> service \<Rightarrow> service option" where
  "sendRequestRaw env slotId serial data =
     dispatchRaw env serial slotId RIL_REQUEST_OEM_HOOK_RAW data"

definition sendRequestStrings :: "service_env \<Rightarrow> int \<Rightarrow> int \<Rightarrow> string list \<Rightarrow> service \<Rightarrow> service option" where
  "sendRequestStrings env slotId serial data =
     dispatchStrings_vec env serial slotId RIL_REQUEST_OEM_HOOK_STRINGS data"

section \<open>Requests with structures\<close>

definition E_REQUEST_NOT_SUPPORTED :: u32 where "E_REQUEST_NOT_SUPPORTED = of_int RIL_E_REQUEST_NOT_SUPPORTED"
definition E_INVALID_ARGUMENTS :: u32 where "E_INVALID_ARGUMENTS = of_int RIL_E_INVALID_ARGUMENTS"

record UusInfo =
  uus_type :: int
  uus_dcs :: int
  uus_data :: string

record Dial =
  dial_address :: string
  dial_clir :: int
  dial_uusInfo :: "UusInfo list"

text \<open>\<open>dial\<close>: the user-to-user data is copied only when there is some.\<close>

definition dial :: "service_env \<Rightarrow> int \<Rightarrow> int \<Rightarrow> Dial \<Rightarrow> service \<Rightarrow> service option" where
  "dial env slotId serial d =
     with_request env serial slotId RIL_REQUEST_DIAL (\<lambda>pRI.
       with_strings env pRI [dial_address d, (case dial_uusInfo d of [] \<Rightarrow> [] | u # _ \<Rightarrow> uus_data u)] (\<lambda>ps st.
         let uus = (case dial_uusInfo d of [] \<Rightarrow> [] | u # _ \<Rightarrow> [uus_type u, uus_dcs u, int (length (uus_data u))]) in
         Option.bind (enqueue env RIL_REQUEST_DIAL (Struct (dial_clir d # uus) (map (text_at st) ps)) FMT_IGNORE pRI st)
           (free_all (memsetAndFreeStrings ps))))"

definition getSignalStrength :: "service_env \<Rightarrow> int \<Rightarrow> int \<Rightarrow> service \<Rightarrow> service option" where
  "getSignalStrength env slotId serial = refuse env serial slotId RIL_REQUEST_SIGNAL_STRENGTH E_REQUEST_NOT_SUPPORTED"

definition setRadioPower :: "service_env \<Rightarrow> int \<Rightarrow> int \<Rightarrow> bool \<Rightarrow> service \<Rightarrow> service option" where
  "setRadioPower env slotId serial power_on = dispatchInts env serial slotId RIL_REQUEST_RADIO_POWER [bool_to_int power_on]"

record IccIo =
  io_command :: int
  io_fileId :: int
  io_path :: string
  io_p1 :: int
  io_p2 :: int
  io_p3 :: int
  io_data :: string
  io_pin2 :: string
  io_aid :: string

text \<open>
  \<open>iccIOForApp\<close>: a bare MF path is replaced by \<open>NULL\<close> (its copy is not freed), and the length expected
  from \<open>GET RESPONSE\<close> is taken from a property.
\<close>

definition forge_le :: "properties \<Rightarrow> int" where
  "forge_le props = (let v = property_get props ''persist.m681.ril.gr_le'' [] in if v \<noteq> [] then fst (strtoll (c_str v)) else 64)"

definition iccIOForApp :: "service_env \<Rightarrow> int \<Rightarrow> int \<Rightarrow> IccIo \<Rightarrow> service \<Rightarrow> service option" where
  "iccIOForApp env slotId serial io =
     with_request env serial slotId RIL_REQUEST_SIM_IO (\<lambda>pRI st.
       case copyHidlStringToRil env False pRI (io_path io) st of None \<Rightarrow> None
       | Some (ok, path, st) \<Rightarrow>
           if \<not> ok then Some st
           else
             let path = (if path \<noteq> 0 \<and> text_at st path = Some ''3F00'' then 0 else path);
                 p3 = (if io_command io = 0xc0 then forge_le (sv_props env) else io_p3 io)
             in case copy_strings env False pRI [io_data io, io_pin2 io, io_aid io] st of None \<Rightarrow> None
                | Some (ok, ps, st) \<Rightarrow>
                    if \<not> ok then free_all (memsetAndFreeStrings (path # ps)) st
                    else enqueue env RIL_REQUEST_SIM_IO
                           (Struct [io_command io, io_fileId io, io_p1 io, io_p2 io, p3] (map (text_at st) (path # ps)))
                           (FMT_SIMIO path (ps ! 0) (ps ! 1) (ps ! 2)) pRI st)"

record SmsWriteArgs =
  sw_status :: int
  sw_pdu :: string
  sw_smsc :: string

definition writeSmsToSim :: "service_env \<Rightarrow> int \<Rightarrow> int \<Rightarrow> SmsWriteArgs \<Rightarrow> service \<Rightarrow> service option" where
  "writeSmsToSim env slotId serial a =
     with_request env serial slotId RIL_REQUEST_WRITE_SMS_TO_SIM (\<lambda>pRI.
       with_strings env pRI [sw_pdu a, sw_smsc a] (\<lambda>ps st.
         enqueue env RIL_REQUEST_WRITE_SMS_TO_SIM (Struct [sw_status a] (map (text_at st) ps)) (FMT_WrSMSSIM (ps ! 1) (ps ! 0)) pRI st))"

definition getTTYMode :: "service_env \<Rightarrow> int \<Rightarrow> int \<Rightarrow> service \<Rightarrow> service option" where
  "getTTYMode env slotId serial = refuse env serial slotId RIL_REQUEST_QUERY_TTY_MODE E_REQUEST_NOT_SUPPORTED"

record CdmaSmsMessage =
  cs_teleserviceId :: int
  cs_isServicePresent :: bool
  cs_serviceCategory :: int
  cs_digitMode :: int
  cs_numberMode :: int
  cs_numberType :: int
  cs_numberPlan :: int
  cs_digits :: "u8 list"
  cs_subaddressType :: int
  cs_odd :: bool
  cs_subDigits :: "u8 list"
  cs_bearerData :: "u8 list"

definition RIL_CDMA_SMS_ADDRESS_MAX :: nat where "RIL_CDMA_SMS_ADDRESS_MAX = 36"
definition RIL_CDMA_SMS_SUBADDRESS_MAX :: nat where "RIL_CDMA_SMS_SUBADDRESS_MAX = 36"
definition RIL_CDMA_SMS_BEARER_DATA_MAX :: nat where "RIL_CDMA_SMS_BEARER_DATA_MAX = 255"

record RIL_CDMA_SMS_Message =
  rcsm_fields :: "int list"
  number_of_digits :: u8
  rcsm_digits :: "u8 list"
  sub_number_of_digits :: u8
  rcsm_sub_digits :: "u8 list"
  uBearerDataLen :: int
  aBearerData :: "u8 list"

text \<open>
  \<open>constructCdmaSms\<close>: the numbers of digits are bytes, and what is copied is cut to the arrays of the
  structure; \<open>rcsm_digits\<close> and the others are the bytes written.
\<close>

definition constructCdmaSms :: "CdmaSmsMessage \<Rightarrow> RIL_CDMA_SMS_Message" where
  "constructCdmaSms sms =
     (let n = of_nat (length (cs_digits sms)) :: u8; sub = of_nat (length (cs_subDigits sms)) :: u8 in
      \<lparr>rcsm_fields = [cs_teleserviceId sms, bool_to_int (cs_isServicePresent sms), cs_serviceCategory sms, cs_digitMode sms,
         cs_numberMode sms, cs_numberType sms, cs_numberPlan sms, cs_subaddressType sms, bool_to_int (cs_odd sms)],
       number_of_digits = n, rcsm_digits = take (min (unat n) RIL_CDMA_SMS_ADDRESS_MAX) (cs_digits sms),
       sub_number_of_digits = sub, rcsm_sub_digits = take (min (unat sub) RIL_CDMA_SMS_SUBADDRESS_MAX) (cs_subDigits sms),
       uBearerDataLen = int (length (cs_bearerData sms)),
       aBearerData = take (min (length (cs_bearerData sms)) RIL_CDMA_SMS_BEARER_DATA_MAX) (cs_bearerData sms)\<rparr>)"

definition cdma_ints :: "RIL_CDMA_SMS_Message \<Rightarrow> int list" where
  "cdma_ints m = rcsm_fields m @ [uint (number_of_digits m)] @ map uint (rcsm_digits m) @ [uint (sub_number_of_digits m)] @
     map uint (rcsm_sub_digits m) @ [uBearerDataLen m] @ map uint (aBearerData m)"

definition sendCdmaSms :: "service_env \<Rightarrow> int \<Rightarrow> int \<Rightarrow> CdmaSmsMessage \<Rightarrow> service \<Rightarrow> service option" where
  "sendCdmaSms env slotId serial sms =
     with_request env serial slotId RIL_REQUEST_CDMA_SEND_SMS
       (enqueue env RIL_REQUEST_CDMA_SEND_SMS (Struct (cdma_ints (constructCdmaSms sms)) []) FMT_RAW)"

definition acknowledgeLastIncomingCdmaSms :: "service_env \<Rightarrow> int \<Rightarrow> int \<Rightarrow> int \<Rightarrow> int \<Rightarrow> service \<Rightarrow> service option" where
  "acknowledgeLastIncomingCdmaSms env slotId serial errorClass smsCauseCode =
     with_request env serial slotId RIL_REQUEST_CDMA_SMS_ACKNOWLEDGE
       (enqueue env RIL_REQUEST_CDMA_SMS_ACKNOWLEDGE (Struct [errorClass, smsCauseCode] []) FMT_RAW)"

record GsmBroadcastSmsConfigInfo =
  fromServiceId :: int
  toServiceId :: int
  fromCodeScheme :: int
  toCodeScheme :: int
  gsm_selected :: bool

definition setGsmBroadcastConfig :: "service_env \<Rightarrow> int \<Rightarrow> int \<Rightarrow> GsmBroadcastSmsConfigInfo list \<Rightarrow> service \<Rightarrow> service option" where
  "setGsmBroadcastConfig env slotId serial configInfo =
     with_request env serial slotId RIL_REQUEST_GSM_SET_BROADCAST_SMS_CONFIG
       (enqueue env RIL_REQUEST_GSM_SET_BROADCAST_SMS_CONFIG
         (Structs_of (map (\<lambda>c. ([fromServiceId c, toServiceId c, fromCodeScheme c, toCodeScheme c, bool_to_int (gsm_selected c)], [])) configInfo))
         FMT_RAW)"

record CdmaBroadcastSmsConfigInfo =
  serviceCategory :: int
  bc_language :: int
  cdma_selected :: bool

definition setCdmaBroadcastConfig :: "service_env \<Rightarrow> int \<Rightarrow> int \<Rightarrow> CdmaBroadcastSmsConfigInfo list \<Rightarrow> service \<Rightarrow> service option" where
  "setCdmaBroadcastConfig env slotId serial configInfo =
     with_request env serial slotId RIL_REQUEST_CDMA_SET_BROADCAST_SMS_CONFIG
       (enqueue env RIL_REQUEST_CDMA_SET_BROADCAST_SMS_CONFIG
         (Structs_of (map (\<lambda>c. ([serviceCategory c, bc_language c, bool_to_int (cdma_selected c)], [])) configInfo)) FMT_RAW)"

definition writeSmsToRuim :: "service_env \<Rightarrow> int \<Rightarrow> int \<Rightarrow> int \<Rightarrow> CdmaSmsMessage \<Rightarrow> service \<Rightarrow> service option" where
  "writeSmsToRuim env slotId serial status message =
     with_request env serial slotId RIL_REQUEST_CDMA_WRITE_SMS_TO_RUIM
       (enqueue env RIL_REQUEST_CDMA_WRITE_SMS_TO_RUIM (Struct (status # cdma_ints (constructCdmaSms message)) []) FMT_RAW)"

text \<open>\<open>getDeviceIdentity\<close>: with the emulation on, two local requests fetch IMEI and IMEISV first.\<close>

definition getDeviceIdentity :: "service_env \<Rightarrow> int \<Rightarrow> int \<Rightarrow> service \<Rightarrow> service option" where
  "getDeviceIdentity env slotId serial st =
     Option.bind
       (if mtkDevIdEmuEnabled (sv_props env)
        then Option.bind (dispatchVoid env (- 1) slotId RIL_REQUEST_GET_IMEI st) (dispatchVoid env (- 1) slotId RIL_REQUEST_GET_IMEISV)
        else Some st)
       (dispatchVoid env serial slotId RIL_REQUEST_DEVICE_IDENTITY)"

definition getCdmaSubscriptionSource :: "service_env \<Rightarrow> int \<Rightarrow> int \<Rightarrow> service \<Rightarrow> service option" where
  "getCdmaSubscriptionSource env slotId serial = refuse env serial slotId RIL_REQUEST_CDMA_GET_SUBSCRIPTION_SOURCE E_REQUEST_NOT_SUPPORTED"

record ImsSmsMessage =
  ims_tech :: int
  ims_retry :: bool
  ims_messageRef :: int
  ims_cdmaMessage :: "CdmaSmsMessage list"
  ims_gsmMessage :: "GsmSmsMessage list"

definition RADIO_TECH_3GPP :: int where "RADIO_TECH_3GPP = 1"
definition RADIO_TECH_3GPP2 :: int where "RADIO_TECH_3GPP2 = 2"

definition dispatchImsGsmSms :: "service_env \<Rightarrow> ImsSmsMessage \<Rightarrow> nat \<Rightarrow> service \<Rightarrow> service option" where
  "dispatchImsGsmSms env m pRI st =
     (case ims_gsmMessage m of
        [g] \<Rightarrow>
          (case calloc env (Pointers []) st of (pStrings, st) \<Rightarrow>
             if pStrings = 0 then sendErrorResponse pRI RIL_E_NO_MEMORY st
             else case copy_strings env False pRI [sms_smscPdu g, sms_pdu g] st of None \<Rightarrow> None
               | Some (ok, ps, st) \<Rightarrow>
                   if \<not> ok then free_all (memsetAndFreeStrings ps @ [pStrings]) st
                   else enqueue env RIL_REQUEST_IMS_SEND_SMS
                          (Struct [RADIO_TECH_3GPP, bool_to_int (ims_retry m), ims_messageRef m] (map (text_at st) ps))
                          (FMT_ImsSms pStrings (ps ! 0) (ps ! 1)) pRI st)
      | _ \<Rightarrow> sendErrorResponse pRI E_INVALID_ARGUMENTS st)"

definition dispatchImsCdmaSms :: "service_env \<Rightarrow> ImsSmsMessage \<Rightarrow> nat \<Rightarrow> service \<Rightarrow> service option" where
  "dispatchImsCdmaSms env m pRI st =
     (case ims_cdmaMessage m of
        [c] \<Rightarrow> enqueue env RIL_REQUEST_IMS_SEND_SMS
                (Struct ([RADIO_TECH_3GPP2, bool_to_int (ims_retry m), ims_messageRef m] @ cdma_ints (constructCdmaSms c)) []) FMT_RAW pRI st
      | _ \<Rightarrow> sendErrorResponse pRI E_INVALID_ARGUMENTS st)"

definition sendImsSms :: "service_env \<Rightarrow> int \<Rightarrow> int \<Rightarrow> ImsSmsMessage \<Rightarrow> service \<Rightarrow> service option" where
  "sendImsSms env slotId serial m =
     with_request env serial slotId RIL_REQUEST_IMS_SEND_SMS (\<lambda>pRI.
       if RADIO_TECH_3GPP = ims_tech m then dispatchImsGsmSms env m pRI
       else if RADIO_TECH_3GPP2 = ims_tech m then dispatchImsCdmaSms env m pRI
       else sendErrorResponse pRI E_INVALID_ARGUMENTS)"

definition iccOpenLogicalChannel :: "service_env \<Rightarrow> int \<Rightarrow> int \<Rightarrow> string \<Rightarrow> int \<Rightarrow> service \<Rightarrow> service option" where
  "iccOpenLogicalChannel env slotId serial aid p2 = refuse env serial slotId RIL_REQUEST_SIM_OPEN_CHANNEL E_REQUEST_NOT_SUPPORTED"

definition nvReadItem :: "service_env \<Rightarrow> int \<Rightarrow> int \<Rightarrow> int \<Rightarrow> service \<Rightarrow> service option" where
  "nvReadItem env slotId serial itemId =
     with_request env serial slotId RIL_REQUEST_NV_READ_ITEM (enqueue env RIL_REQUEST_NV_READ_ITEM (Struct [itemId] []) FMT_IGNORE)"

definition nvWriteItem :: "service_env \<Rightarrow> int \<Rightarrow> int \<Rightarrow> int \<Rightarrow> string \<Rightarrow> service \<Rightarrow> service option" where
  "nvWriteItem env slotId serial itemId item_value =
     with_request env serial slotId RIL_REQUEST_NV_WRITE_ITEM (\<lambda>pRI.
       with_strings env pRI [item_value] (\<lambda>ps st.
         Option.bind (enqueue env RIL_REQUEST_NV_WRITE_ITEM (Struct [itemId] (map (text_at st) ps)) FMT_IGNORE pRI st)
           (free_all (memsetAndFreeStrings ps))))"

datatype ResetNvType = Reset_RELOAD | Reset_ERASE | Reset_FACTORY_RESET | Reset_other int

definition nvResetConfig :: "service_env \<Rightarrow> int \<Rightarrow> int \<Rightarrow> ResetNvType \<Rightarrow> service \<Rightarrow> service option" where
  "nvResetConfig env slotId serial resetType =
     dispatchInts env serial slotId RIL_REQUEST_NV_RESET_CONFIG
       [case resetType of Reset_RELOAD \<Rightarrow> 1 | Reset_ERASE \<Rightarrow> 2 | Reset_FACTORY_RESET \<Rightarrow> 3 | Reset_other _ \<Rightarrow> - 1]"

definition setUiccSubscription :: "service_env \<Rightarrow> int \<Rightarrow> int \<Rightarrow> int \<Rightarrow> int \<Rightarrow> int \<Rightarrow> int \<Rightarrow> service \<Rightarrow> service option" where
  "setUiccSubscription env slotId serial slot appIndex subType actStatus =
     with_request env serial slotId RIL_REQUEST_SET_UICC_SUBSCRIPTION
       (enqueue env RIL_REQUEST_SET_UICC_SUBSCRIPTION (Struct [slot, appIndex, subType, actStatus] []) FMT_RAW)"

definition getHardwareConfig :: "service_env \<Rightarrow> int \<Rightarrow> int \<Rightarrow> service \<Rightarrow> service option" where
  "getHardwareConfig env slotId serial = refuse env serial slotId RIL_REQUEST_GET_HARDWARE_CONFIG E_REQUEST_NOT_SUPPORTED"

definition requestIccSimAuthentication :: "service_env \<Rightarrow> int \<Rightarrow> int \<Rightarrow> int \<Rightarrow> string \<Rightarrow> string \<Rightarrow> service \<Rightarrow> service option" where
  "requestIccSimAuthentication env slotId serial authContext authData aid =
     with_request env serial slotId RIL_REQUEST_SIM_AUTHENTICATION (\<lambda>pRI.
       with_strings env pRI [authData, aid] (\<lambda>ps st.
         enqueue env RIL_REQUEST_SIM_AUTHENTICATION (Struct [authContext] (map (text_at st) ps)) (FMT_SIMAUTH (ps ! 0) (ps ! 1)) pRI st))"

definition getRadioCapability :: "service_env \<Rightarrow> int \<Rightarrow> int \<Rightarrow> service \<Rightarrow> service option" where
  "getRadioCapability env slotId serial = refuse env serial slotId RIL_REQUEST_GET_RADIO_CAPABILITY E_REQUEST_NOT_SUPPORTED"

record RadioCapability =
  rc_session :: int
  rc_phase :: int
  rc_raf :: int
  rc_status :: int
  rc_logicalModemUuid :: string

definition MAX_UUID_LENGTH :: nat where "MAX_UUID_LENGTH = 64"

definition setRadioCapability :: "service_env \<Rightarrow> int \<Rightarrow> int \<Rightarrow> RadioCapability \<Rightarrow> service \<Rightarrow> service option" where
  "setRadioCapability env slotId serial rc =
     with_request env serial slotId RIL_REQUEST_SET_RADIO_CAPABILITY
       (enqueue env RIL_REQUEST_SET_RADIO_CAPABILITY
         (Struct [rc_session rc, rc_phase rc, rc_raf rc, rc_status rc] [Some (take MAX_UUID_LENGTH (c_str (rc_logicalModemUuid rc)))]) FMT_RAW)"

definition startLceService :: "service_env \<Rightarrow> int \<Rightarrow> int \<Rightarrow> int \<Rightarrow> bool \<Rightarrow> service \<Rightarrow> service option" where
  "startLceService env slotId serial reportInterval pullMode = refuse env serial slotId RIL_REQUEST_START_LCE E_REQUEST_NOT_SUPPORTED"

record Carrier =
  ca_mcc :: string
  ca_mnc :: string
  ca_matchType :: int
  ca_matchData :: string

definition carrier_struct :: "Carrier \<Rightarrow> int list \<times> string option list" where
  "carrier_struct c = ([ca_matchType c], map (\<lambda>s. Some (c_str s)) [ca_mcc c, ca_mnc c, ca_matchData c])"

definition setAllowedCarriers :: "service_env \<Rightarrow> int \<Rightarrow> int \<Rightarrow> bool \<Rightarrow> Carrier list \<Rightarrow> Carrier list \<Rightarrow> service \<Rightarrow> service option" where
  "setAllowedCarriers env slotId serial allAllowed allowed excluded =
     with_request env serial slotId RIL_REQUEST_SET_CARRIER_RESTRICTIONS (\<lambda>pRI st.
       case calloc_n env (length allowed) (Structs (length allowed)) st of (a, st) \<Rightarrow>
         if a = 0 then sendErrorResponse pRI RIL_E_NO_MEMORY st
         else case calloc_n env (length excluded) (Structs (length excluded)) st of (b, st) \<Rightarrow>
           if b = 0 then Option.bind (sendErrorResponse pRI RIL_E_NO_MEMORY st) (free_all [a])
           else Option.bind (enqueue env RIL_REQUEST_SET_CARRIER_RESTRICTIONS
                  (Structs_of (map carrier_struct allowed @ map carrier_struct excluded)) FMT_IGNORE pRI st) (free_all [a, b]))"

text \<open>The refusals below version 15 do not check that the request's record was allocated.\<close>

definition refuse_unchecked :: "service_env \<Rightarrow> int \<Rightarrow> int \<Rightarrow> int \<Rightarrow> service \<Rightarrow> service option" where
  "refuse_unchecked env serial slotId request st =
     Option.bind (new_request env serial slotId request st) (\<lambda>(pRI, st). sendErrorResponse pRI E_REQUEST_NOT_SUPPORTED st)"

definition sendDeviceState :: "service_env \<Rightarrow> int \<Rightarrow> int \<Rightarrow> int \<Rightarrow> bool \<Rightarrow> service \<Rightarrow> service option" where
  "sendDeviceState env slotId serial deviceStateType state st =
     (if version (sv_ril st) < 15 then
        (if deviceStateType = sv_LOW_DATA_EXPECTED env
         then dispatchInts env serial slotId RIL_REQUEST_SCREEN_STATE [bool_to_int (\<not> state)] st
         else refuse_unchecked env serial slotId RIL_REQUEST_SEND_DEVICE_STATE st)
      else dispatchInts env serial slotId RIL_REQUEST_SEND_DEVICE_STATE [deviceStateType, bool_to_int state] st)"

definition setIndicationFilter :: "service_env \<Rightarrow> int \<Rightarrow> int \<Rightarrow> int \<Rightarrow> service \<Rightarrow> service option" where
  "setIndicationFilter env slotId serial indicationFilter st =
     (if version (sv_ril st) < 15 then refuse_unchecked env serial slotId RIL_REQUEST_SET_UNSOLICITED_RESPONSE_FILTER st
      else dispatchInts env serial slotId RIL_REQUEST_SET_UNSOLICITED_RESPONSE_FILTER [indicationFilter] st)"

definition setSimCardPower :: "service_env \<Rightarrow> int \<Rightarrow> int \<Rightarrow> bool \<Rightarrow> service \<Rightarrow> service option" where
  "setSimCardPower env slotId serial powerUp =
     (if powerUp then dispatchVoid env serial slotId RIL_REQUEST_MODEM_POWERON
      else dispatchVoid env serial slotId RIL_REQUEST_MODEM_POWEROFF)"

definition responseAcknowledgement :: "service \<Rightarrow> service option" where
  "responseAcknowledgement st = map_option (\<lambda>ril. st\<lparr>sv_ril := ril\<rparr>) (releaseWakeLock (sv_ril st))"

section \<open>Data calls\<close>

datatype MvnoType = MVNO_IMSI | MVNO_GID | MVNO_SPN | MVNO_NONE | MVNO_other int

definition convertMvnoTypeToString :: "MvnoType \<Rightarrow> string option" where
  "convertMvnoTypeToString t = (case t of MVNO_IMSI \<Rightarrow> Some ''imsi'' | MVNO_GID \<Rightarrow> Some ''gid'' | MVNO_SPN \<Rightarrow> Some ''spn''
     | MVNO_NONE \<Rightarrow> Some [] | MVNO_other _ \<Rightarrow> None)"

record DataProfileInfo =
  dp_profileId :: int
  dp_apn :: string
  dp_protocol :: string
  dp_roamingProtocol :: string
  dp_authType :: int
  dp_user :: string
  dp_password :: string
  dp_type :: int
  dp_maxConnsTime :: int
  dp_maxConns :: int
  dp_waitTime :: int
  dp_enabled :: bool
  dp_apnTypes :: int
  dp_bearerBitmap :: int
  dp_mtu :: int
  dp_mvnoType :: MvnoType
  dp_mvnoMatchData :: string

text \<open>\<open>ims\<close> is the value of \<open>ApnTypes::IMS\<close> in the HIDL interface.\<close>

definition mtkSetupInterface :: "int \<Rightarrow> DataProfileInfo \<Rightarrow> int list \<Rightarrow> int" where
  "mtkSetupInterface ims dp cids =
     (if and (dp_apnTypes dp) ims \<noteq> 0 then 4
      else case filter (\<lambda>intf. intf \<notin> set cids) [0, 1, 2, 3] of [] \<Rightarrow> - 1 | intf # _ \<Rightarrow> intf)"

definition setupDataCall :: "service_env \<Rightarrow> int \<Rightarrow> int \<Rightarrow> int \<Rightarrow> DataProfileInfo \<Rightarrow> bool \<Rightarrow> bool \<Rightarrow> bool \<Rightarrow> service \<Rightarrow> service option" where
  "setupDataCall env slotId serial radioTechnology dp modemCognitive roamingAllowed isRoaming st =
     (if version (sv_ril st) \<ge> 4 \<and> version (sv_ril st) \<le> 14 then
        dispatchStringsKeepEmpty env serial slotId RIL_REQUEST_SETUP_DATA_CALL
          [to_string (radioTechnology + 2), to_string (dp_profileId dp), dp_apn dp, dp_user dp, dp_password dp,
           to_string (dp_authType dp), (if isRoaming then dp_roamingProtocol dp else dp_protocol dp),
           to_string (mtkSetupInterface (sv_ApnTypes_IMS env) dp (dataCallCids st) + 1)] st
      else if version (sv_ril st) \<ge> 15 then
        (case convertMvnoTypeToString (dp_mvnoType dp) of
           None \<Rightarrow> refuse env serial slotId RIL_REQUEST_SETUP_DATA_CALL E_INVALID_ARGUMENTS st
         | Some mvnoTypeStr \<Rightarrow>
             dispatchStrings env serial slotId RIL_REQUEST_SETUP_DATA_CALL
               [to_string (radioTechnology + 2), to_string (dp_profileId dp), dp_apn dp, dp_user dp, dp_password dp,
                to_string (dp_authType dp), dp_protocol dp, dp_roamingProtocol dp, to_string (dp_apnTypes dp),
                to_string (dp_bearerBitmap dp), flag modemCognitive, to_string (dp_mtu dp), mvnoTypeStr, dp_mvnoMatchData dp,
                flag roamingAllowed] st)
      else refuse env serial slotId RIL_REQUEST_SETUP_DATA_CALL E_REQUEST_NOT_SUPPORTED st)"

text \<open>The first entry that holds the value is cleared; nothing happens when there is none.\<close>

fun clear_cid :: "int \<Rightarrow> int list \<Rightarrow> int list" where
  "clear_cid cid [] = []"
| "clear_cid cid (c # cs) = (if c = cid then (- 1) # cs else c # clear_cid cid cs)"

definition deactivateDataCall :: "service_env \<Rightarrow> int \<Rightarrow> int \<Rightarrow> int \<Rightarrow> bool \<Rightarrow> service \<Rightarrow> service option" where
  "deactivateDataCall env slotId serial cid reasonRadioShutDown st =
     dispatchStrings env serial slotId RIL_REQUEST_DEACTIVATE_DATA_CALL [to_string cid, flag reasonRadioShutDown]
       (st\<lparr>dataCallCids := clear_cid cid (dataCallCids st)\<rparr>)"

text \<open>
  The operator number for \<open>setInitialAttachApn\<close>: the part of \<open>gsm.sim.operator.numeric\<close> before the comma
  for slot 0, behind it for the others, where no comma gives \<open>NULL\<close>. A value that does not fit the 32
  bytes of the buffer overruns it (\<open>None\<close>).
\<close>

definition operator_numeric :: "properties \<Rightarrow> int \<Rightarrow> string option option" where
  "operator_numeric props slotId =
     (let v = c_str (property_get props ''gsm.sim.operator.numeric'' []) in
      if length v \<ge> 32 then None
      else if v = [] then Some (Some [])
      else if slotId = 0 then Some (Some (takeWhile (\<lambda>c. c \<noteq> CHR '','') v))
      else if CHR '','' \<in> set v then Some (Some (tl (dropWhile (\<lambda>c. c \<noteq> CHR '','') v)))
      else Some None)"

text \<open>\<open>if (p == NULL) p = calloc(1, sizeof(char))\<close>, unchecked, for the strings one after the other.\<close>

fun fill_nulls :: "service_env \<Rightarrow> nat list \<Rightarrow> service \<Rightarrow> nat list \<times> service" where
  "fill_nulls env [] st = ([], st)"
| "fill_nulls env (p # ps) st =
     (case (if p = 0 then calloc env (Text []) st else (p, st)) of
        (p, st) \<Rightarrow> case fill_nulls env ps st of (ps, st) \<Rightarrow> (p # ps, st))"

definition setInitialAttachApn :: "service_env \<Rightarrow> int \<Rightarrow> int \<Rightarrow> DataProfileInfo \<Rightarrow> bool \<Rightarrow> bool \<Rightarrow> service \<Rightarrow> service option" where
  "setInitialAttachApn env slotId serial dp modemCognitive isRoaming =
     with_request env serial slotId RIL_REQUEST_SET_INITIAL_ATTACH_APN (\<lambda>pRI st.
       if version (sv_ril st) \<le> 14 then
         with_strings env pRI [dp_apn dp, (if isRoaming then dp_roamingProtocol dp else dp_protocol dp), dp_user dp, dp_password dp] (\<lambda>ps st.
           case fill_nulls env ps st of (ps, st) \<Rightarrow>
             (case operator_numeric (sv_props env) slotId of
                None \<Rightarrow> None
              | Some None \<Rightarrow> None
              | Some (Some p) \<Rightarrow>
                  (case calloc env (Text (take 8 p)) st of (operatorNumeric, st) \<Rightarrow>
                     if operatorNumeric = 0 then None
                     else enqueue env RIL_REQUEST_SET_INITIAL_ATTACH_APN
                            (Struct [dp_authType dp, 0] (map (text_at st) (ps @ [operatorNumeric])))
                            (FMT_AttchAPN (ps ! 0) (ps ! 1) (ps ! 2) (ps ! 3) operatorNumeric) pRI st))) st
       else
         with_strings env pRI [dp_apn dp, dp_protocol dp, dp_roamingProtocol dp, dp_user dp, dp_password dp] (\<lambda>ps st.
           case convertMvnoTypeToString (dp_mvnoType dp) of
             None \<Rightarrow> Option.bind (sendErrorResponse pRI E_INVALID_ARGUMENTS st) (free_all (memsetAndFreeStrings ps))
           | Some mvnoType \<Rightarrow>
               (case copyHidlStringToRil env False pRI (dp_mvnoMatchData dp) st of None \<Rightarrow> None
                | Some (ok, m, st) \<Rightarrow>
                    if \<not> ok then free_all (memsetAndFreeStrings ps) st
                    else Option.bind (enqueue env RIL_REQUEST_SET_INITIAL_ATTACH_APN
                           (Struct [dp_authType dp, dp_apnTypes dp, dp_bearerBitmap dp, bool_to_int modemCognitive, dp_mtu dp]
                             (map (text_at st) (ps @ [m]) @ [Some mvnoType])) FMT_IGNORE pRI st)
                         (free_all (memsetAndFreeStrings (ps @ [m]))))) st)"

text \<open>
  The copies of \<open>setDataProfile\<close>, profile by profile: the pointers of each, \<open>NULL\<close> where a copy failed or
  was not reached; the check that ends a profile can send an error of its own.
\<close>

fun copy_profiles ::
  "service_env \<Rightarrow> nat \<Rightarrow> (DataProfileInfo \<Rightarrow> string list) \<Rightarrow> (DataProfileInfo \<Rightarrow> bool) \<Rightarrow> DataProfileInfo list \<Rightarrow> service \<Rightarrow>
     (bool \<times> nat list list \<times> service) option" where
  "copy_profiles env pRI strs valid [] st = Some (True, [], st)"
| "copy_profiles env pRI strs valid (dp # dps) st =
     (case copy_strings env False pRI (strs dp) st of None \<Rightarrow> None
      | Some (ok, ps, st) \<Rightarrow>
          if \<not> ok then Some (False, [ps @ replicate (length (strs dp) - length ps) 0], st)
          else if \<not> valid dp then map_option (\<lambda>st. (False, [ps], st)) (sendErrorResponse pRI E_INVALID_ARGUMENTS st)
          else map_option (\<lambda>(ok, qs, st). (ok, ps # qs, st)) (copy_profiles env pRI strs valid dps st))"

text \<open>\<open>freeSetDataProfileData\<close>: field by field, then the two arrays.\<close>

definition freeSetDataProfileData :: "nat \<Rightarrow> nat list list \<Rightarrow> nat \<Rightarrow> nat \<Rightarrow> service \<Rightarrow> service option" where
  "freeSetDataProfileData numfields qs dataProfiles dataProfilePtrs =
     free_all (concat (map (\<lambda>i. memsetAndFreeStrings (map (\<lambda>q. q ! i) qs)) [0..<numfields]) @ [dataProfiles, dataProfilePtrs])"

definition profile_ints :: "DataProfileInfo \<Rightarrow> int list" where
  "profile_ints dp = [dp_profileId dp, dp_authType dp, dp_type dp, dp_maxConnsTime dp, dp_maxConns dp, dp_waitTime dp, bool_to_int (dp_enabled dp)]"

text \<open>The two arrays of \<open>setDataProfile\<close>; the profiles themselves are elements of the first.\<close>

definition with_profile_arrays :: "service_env \<Rightarrow> nat \<Rightarrow> nat \<Rightarrow> (nat \<Rightarrow> nat \<Rightarrow> service \<Rightarrow> service option) \<Rightarrow> service \<Rightarrow> service option" where
  "with_profile_arrays env pRI num k st =
     (case calloc_n env num (Structs num) st of (dataProfiles, st) \<Rightarrow>
        if dataProfiles = 0 then sendErrorResponse pRI RIL_E_NO_MEMORY st
        else case calloc env (Pointers []) st of (dataProfilePtrs, st) \<Rightarrow>
          if dataProfilePtrs = 0 then Option.bind (free_all [dataProfiles] st) (sendErrorResponse pRI RIL_E_NO_MEMORY)
          else k dataProfiles dataProfilePtrs st)"

definition setDataProfile :: "service_env \<Rightarrow> int \<Rightarrow> int \<Rightarrow> DataProfileInfo list \<Rightarrow> bool \<Rightarrow> service \<Rightarrow> service option" where
  "setDataProfile env slotId serial profiles isRoaming =
     with_request env serial slotId RIL_REQUEST_SET_DATA_PROFILE (\<lambda>pRI st.
       with_profile_arrays env pRI (length profiles) (\<lambda>dataProfiles dataProfilePtrs st.
         if version (sv_ril st) \<le> 14 then
           (case copy_profiles env pRI (\<lambda>dp. [dp_apn dp, (if isRoaming then dp_roamingProtocol dp else dp_protocol dp), dp_user dp, dp_password dp])
                  (\<lambda>_. True) profiles st of None \<Rightarrow> None
            | Some (ok, qs, st) \<Rightarrow>
                if \<not> ok then freeSetDataProfileData 4 qs dataProfiles dataProfilePtrs st
                else enqueue env RIL_REQUEST_SET_DATA_PROFILE
                       (Structs_of (zip (map profile_ints profiles) (map (map (text_at st)) qs)))
                       (FMT_DATAPROF (map (\<lambda>(i, q). (dataProfiles + i, q ! 0, q ! 1, q ! 2, q ! 3)) (enumerate 0 qs))) pRI st)
         else
           (case copy_profiles env pRI
                  (\<lambda>dp. [dp_apn dp, dp_protocol dp, dp_roamingProtocol dp, dp_user dp, dp_password dp, dp_mvnoMatchData dp])
                  (\<lambda>dp. convertMvnoTypeToString (dp_mvnoType dp) \<noteq> None) profiles st of None \<Rightarrow> None
            | Some (ok, qs, st) \<Rightarrow>
                if \<not> ok then freeSetDataProfileData 6 qs dataProfiles dataProfilePtrs st
                else Option.bind (enqueue env RIL_REQUEST_SET_DATA_PROFILE
                       (Structs_of (zip (map (\<lambda>dp. profile_ints dp @ [dp_apnTypes dp, dp_bearerBitmap dp, dp_mtu dp]) profiles)
                          (map2 (\<lambda>q dp. map (text_at st) q @ [convertMvnoTypeToString (dp_mvnoType dp)]) qs profiles))) FMT_IGNORE pRI st)
                     (freeSetDataProfileData 6 qs dataProfiles dataProfilePtrs))) st)"

end
