(* ===== verification/RilFcp.thy ===== *)
theory RilFcp
  imports RilRadio
begin

text \<open>
  The translation of file control parameters (\<open>ril_service.cpp\<close>): \<open>forgeFcpToLegacy\<close> turns the FCP template
  of a UICC into the answer to \<open>GET RESPONSE\<close> of older cards. A read outside the decoded template gives
  \<open>None\<close>; \<open>Some None\<close> is the \<open>NULL\<close> with which the caller passes the answer through. \<open>malloc_ok\<close> says whether
  the last allocation succeeds.
\<close>

section \<open>Definitions\<close>

definition forgeHexNibble :: "char \<Rightarrow> int" where
  "forgeHexNibble c =
     (if CHR ''0'' \<le> c \<and> c \<le> CHR ''9'' then of_char c - 48
      else if CHR ''A'' \<le> c \<and> c \<le> CHR ''F'' then of_char c - 65 + 10
      else if CHR ''a'' \<le> c \<and> c \<le> CHR ''f'' then of_char c - 97 + 10
      else - 1)"

text \<open>The loop that decodes the bytes; \<open>None\<close> when a digit is none.\<close>

fun decode_hex :: "string \<Rightarrow> u8 list option" where
  "decode_hex (h # l # s) =
     (let hi = forgeHexNibble h; lo = forgeHexNibble l in
      if hi < 0 \<or> lo < 0 then None
      else map_option (\<lambda>bs. of_int (or (push_bit 4 hi) lo) # bs) (decode_hex s))"
| "decode_hex _ = Some []"

definition byte_at :: "u8 list \<Rightarrow> nat \<Rightarrow> u8 option" where
  "byte_at buf i = (if i < length buf then Some (buf ! i) else None)"

definition read16 :: "u8 list \<Rightarrow> nat \<Rightarrow> u32 option" where
  "read16 buf i =
     Option.bind (byte_at buf i) (\<lambda>h. map_option (\<lambda>l. or (push_bit 8 (ucast h)) (ucast l)) (byte_at buf (i + 1)))"

record fcp =
  haveSize :: bool
  haveId :: bool
  haveDesc :: bool
  fileSize :: u32
  fileId :: u32
  recLen :: u32
  fcp_struct :: u8

definition fcp_structure :: "u8 \<Rightarrow> u8" where
  "fcp_structure v = (let k = and v 7 in if k = 1 then 0 else if k = 2 then 1 else if k = 6 then 3 else 0)"

text \<open>The \<open>switch\<close> over the tag, for the \<open>len\<close> bytes of the value at \<open>val\<close>.\<close>

definition fcp_tag :: "u8 list \<Rightarrow> u8 \<Rightarrow> nat \<Rightarrow> nat \<Rightarrow> fcp \<Rightarrow> fcp option" where
  "fcp_tag buf tag len val st =
     (if tag = 0x80 then
        (if len \<ge> 2 then map_option (\<lambda>n. st\<lparr>fileSize := n, haveSize := True\<rparr>) (read16 buf (val + len - 2)) else Some st)
      else if tag = 0x83 then
        (if len = 2 then map_option (\<lambda>n. st\<lparr>fileId := n, haveId := True\<rparr>) (read16 buf val) else Some st)
      else if tag = 0x82 then
        (if len \<ge> 1 then
           Option.bind (byte_at buf val) (\<lambda>d.
             let st = st\<lparr>fcp_struct := fcp_structure d\<rparr> in
             Option.bind (if len \<ge> 5 then map_option (\<lambda>n. st\<lparr>recLen := n\<rparr>) (read16 buf (val + 2)) else Some st)
               (\<lambda>st. Some (st\<lparr>haveDesc := True\<rparr>)))
         else Some st)
      else Some st)"

function fcp_loop :: "u8 list \<Rightarrow> nat \<Rightarrow> nat \<Rightarrow> fcp \<Rightarrow> fcp option" where
  "fcp_loop buf fin off st =
     (if off + 2 \<le> fin then
        Option.bind (byte_at buf off) (\<lambda>tag. Option.bind (byte_at buf (off + 1)) (\<lambda>len.
          if off + 2 + unat len > fin then Some st
          else Option.bind (fcp_tag buf tag (unat len) (off + 2) st) (fcp_loop buf fin (off + 2 + unat len))))
      else Some st)"
  by pat_completeness auto
termination by (relation "measure (\<lambda>(buf, fin, off, st). fin - off)") auto

declare fcp_loop.simps [simp del]

text \<open>\<open>%02X\<close> of a byte.\<close>

definition hex_digit :: "nat \<Rightarrow> char" where
  "hex_digit n = ''0123456789ABCDEF'' ! n"

definition hex_byte :: "u8 \<Rightarrow> string" where
  "hex_byte b = [hex_digit (unat b div 16), hex_digit (unat b mod 16)]"

definition legacy_bytes :: "fcp \<Rightarrow> u8 list" where
  "legacy_bytes st =
     [0, 0, ucast (drop_bit 8 (fileSize st)), ucast (fileSize st), ucast (drop_bit 8 (fileId st)), ucast (fileId st),
      4, 0, 0, 0, 0, 1, 2, fcp_struct st, ucast (recLen st)]"

definition fcp_enabled :: "properties \<Rightarrow> bool" where
  "fcp_enabled props \<longleftrightarrow>
     (let v = property_get props ''persist.m681.ril.fcp'' [] in v \<noteq> [] \<and> fst (strtoll (c_str v)) \<noteq> 0)"

definition fcp_none :: fcp where
  "fcp_none = \<lparr>haveSize = False, haveId = False, haveDesc = False, fileSize = 0, fileId = 0, recLen = 0, fcp_struct = 0\<rparr>"

definition forgeFcpToLegacy :: "properties \<Rightarrow> bool \<Rightarrow> string option \<Rightarrow> string option option" where
  "forgeFcpToLegacy props malloc_ok hex =
     (if \<not> fcp_enabled props then Some None
      else case hex of None \<Rightarrow> Some None
      | Some hex \<Rightarrow>
          if length hex < 4 \<or> length hex mod 2 \<noteq> 0 \<or> length hex > 512 then Some None
          else case decode_hex hex of None \<Rightarrow> Some None
          | Some buf \<Rightarrow>
              Option.bind (byte_at buf 0) (\<lambda>first. Option.bind (byte_at buf 1) (\<lambda>second.
                if first \<noteq> 0x62 then Some None
                else if and second 0x80 \<noteq> 0 then Some None
                else
                  map_option (\<lambda>st. if haveSize st \<and> haveId st \<and> haveDesc st \<and> malloc_ok
                      then Some (concat (map hex_byte (legacy_bytes st))) else None)
                    (fcp_loop buf (min (2 + unat second) (length buf)) 2 fcp_none))))"

section \<open>Reading inside the template\<close>

lemma decode_hex_length: "decode_hex s = Some bs \<Longrightarrow> length bs = length s div 2"
  by (induction s arbitrary: bs rule: decode_hex.induct) (auto simp: Let_def split: if_splits)

lemma byte_at_Some: "i < length buf \<Longrightarrow> byte_at buf i = Some (buf ! i)"
  by (simp add: byte_at_def)

lemma read16_Some: "i + 1 < length buf \<Longrightarrow> read16 buf i = Some (or (push_bit 8 (ucast (buf ! i))) (ucast (buf ! (i + 1))))"
  by (simp add: read16_def byte_at_Some)

lemma fcp_tag_total: "val + len \<le> length buf \<Longrightarrow> \<exists>st'. fcp_tag buf tag len val st = Some st'"
  by (simp add: fcp_tag_def byte_at_Some read16_Some Let_def)

lemma fcp_loop_total: "fin \<le> length buf \<Longrightarrow> \<exists>st'. fcp_loop buf fin off st = Some st'"
proof (induction buf fin off st rule: fcp_loop.induct)
  case (1 buf fin off st)
  show ?case
  proof (cases "off + 2 \<le> fin \<and> off + 2 + unat (buf ! (off + 1)) \<le> fin")
    case True
    then have bytes: "byte_at buf off = Some (buf ! off)" "byte_at buf (off + 1) = Some (buf ! (off + 1))"
      using 1(2) by (simp_all add: byte_at_Some)
    obtain st1 where st1: "fcp_tag buf (buf ! off) (unat (buf ! (off + 1))) (off + 2) st = Some st1"
      using fcp_tag_total [of "off + 2" "unat (buf ! (off + 1))" buf "buf ! off" st] True 1(2) by auto
    from 1(1) [OF _ _ _ _ st1, of] bytes True 1(2)
    have "\<exists>st'. fcp_loop buf fin (off + 2 + unat (buf ! (off + 1))) st1 = Some st'" by auto
    then show ?thesis using bytes st1 True by (subst fcp_loop.simps) simp
  next
    case False
    then show ?thesis using 1(2) by (subst fcp_loop.simps) (auto simp: byte_at_Some)
  qed
qed

section \<open>Templates\<close>

text \<open>A template as ISO 7816-4 lays it out: a tag, a length byte and the value, for every object.\<close>

definition tlv :: "u8 \<times> u8 list \<Rightarrow> u8 list" where
  "tlv = (\<lambda>(t, v). t # of_nat (length v) # v)"

definition fcp_template :: "(u8 \<times> u8 list) list \<Rightarrow> u8 list" where
  "fcp_template tlvs = 0x62 # of_nat (length (concat (map tlv tlvs))) # concat (map tlv tlvs)"

definition tlv_step :: "fcp \<Rightarrow> u8 \<times> u8 list \<Rightarrow> fcp" where
  "tlv_step st = (\<lambda>(t, v). the (fcp_tag v t (length v) 0 st))"

lemma byte_at_inner: "i < length v \<Longrightarrow> byte_at (pre @ v @ post) (length pre + i) = byte_at v i"
  by (simp add: byte_at_def nth_append)

lemma read16_inner: "i + 1 < length v \<Longrightarrow> read16 (pre @ v @ post) (length pre + i) = read16 v i"
  using byte_at_inner [of i v pre post] byte_at_inner [of "i + 1" v pre post] by (simp add: read16_def)

lemma fcp_tag_inner: "fcp_tag (pre @ v @ post) t (length v) (length pre) st = Some (tlv_step st (t, v))"
proof -
  have size: "read16 (pre @ v @ post) (length pre + length v - 2) = read16 v (length v - 2)" if "2 \<le> length v"
    using read16_inner [of "length v - 2" v pre post] that by simp
  have id: "read16 (pre @ v @ post) (length pre) = read16 v 0" if "2 \<le> length v"
    using read16_inner [of 0 v pre post] that by simp
  have desc: "byte_at (pre @ v @ post) (length pre) = byte_at v 0" if "1 \<le> length v"
    using byte_at_inner [of 0 v pre post] that by (cases v) simp_all
  have rec: "read16 (pre @ v @ post) (length pre + 2) = read16 v 2" if "5 \<le> length v"
    using read16_inner [of 2 v pre post] that by simp
  have "fcp_tag (pre @ v @ post) t (length v) (length pre) st = fcp_tag v t (length v) 0 st"
    unfolding fcp_tag_def Let_def using size id desc rec by (cases "5 \<le> length v") (simp_all add: not_le numeral_2_eq_2)
  then show ?thesis using fcp_tag_total [of 0 "length v" v t st] by (auto simp: tlv_step_def)
qed

lemma fcp_loop_template:
  "(\<forall>x \<in> set tlvs. length (snd x) < 256) \<Longrightarrow>
    fcp_loop (pre @ concat (map tlv tlvs)) (length pre + length (concat (map tlv tlvs))) (length pre) st = Some (foldl tlv_step st tlvs)"
proof (induction tlvs arbitrary: pre st)
  case Nil
  then show ?case by (subst fcp_loop.simps) simp
next
  case (Cons x tlvs)
  obtain t v where x: "x = (t, v)" by fastforce
  have len: "length v < 256" using Cons.prems x by auto
  then have u: "unat (of_nat (length v) :: u8) = length v" by (simp add: unat_of_nat)
  let ?rest = "concat (map tlv tlvs)"
  let ?buf = "pre @ tlv x @ ?rest"
  have buf: "?buf = (pre @ [t, of_nat (length v)]) @ v @ ?rest" "?buf = (pre @ tlv x) @ ?rest" by (simp_all add: x tlv_def)
  have b: "byte_at ?buf (length pre) = Some t" "byte_at ?buf (length pre + 1) = Some (of_nat (length v))"
    by (simp_all add: byte_at_def x tlv_def nth_append)
  have tag: "fcp_tag ?buf t (length v) (length pre + 2) st = Some (tlv_step st x)"
    using fcp_tag_inner [of "pre @ [t, of_nat (length v)]" v ?rest t st] by (simp add: x tlv_def)
  have rest: "fcp_loop ?buf (length pre + length (tlv x @ ?rest)) (length pre + 2 + length v) (tlv_step st x) = Some (foldl tlv_step (tlv_step st x) tlvs)"
    using Cons.IH [of "pre @ tlv x" "tlv_step st x"] Cons.prems unfolding buf(2) by (simp add: x tlv_def add.assoc)
  have "length (tlv x) = 2 + length v" by (simp add: x tlv_def)
  then show ?case using b tag rest u by (subst fcp_loop.simps) simp
qed

text \<open>Hexadecimal digits and bytes.\<close>

lemma nibble_hex_digit: "n < 16 \<Longrightarrow> forgeHexNibble (hex_digit n) = int n"
proof -
  have "list_all (\<lambda>n. forgeHexNibble (hex_digit n) = int n) [0..<16]" by code_simp
  then show "n < 16 \<Longrightarrow> ?thesis" by (simp add: list_all_iff)
qed

lemma join_nibbles: "of_int (or (push_bit 4 (int (unat b div 16))) (int (unat b mod 16))) = (b :: u8)"
proof -
  have "int (unat b div 16) = drop_bit 4 (uint b)" "int (unat b mod 16) = take_bit 4 (uint b)"
    by (simp_all add: drop_bit_eq_div take_bit_eq_mod zdiv_int zmod_int)
  moreover have "or (push_bit 4 (drop_bit 4 (uint b))) (take_bit 4 (uint b)) = uint b"
    by (rule bit_eqI) (auto simp: bit_simps)
  ultimately show ?thesis by simp
qed

lemma decode_hex_bytes: "decode_hex (concat (map hex_byte bs)) = Some bs"
proof (induction bs)
  case (Cons b bs)
  have "unat b < 2 ^ LENGTH(8)" by (rule unsigned_less)
  then have "unat b div 16 < 16" by simp
  then show ?case using Cons join_nibbles [of b] by (simp add: hex_byte_def Let_def nibble_hex_digit)
qed simp

lemma hex_bytes_length: "length (concat (map hex_byte bs)) = 2 * length bs"
  by (induction bs) (simp_all add: hex_byte_def)

lemma split16:
  "ucast (drop_bit 8 (or (push_bit 8 (ucast h)) (ucast l) :: u32)) = (h :: u8)"
  "ucast (or (push_bit 8 (ucast h)) (ucast l) :: u32) = (l :: u8)"
  by (rule bit_word_eqI, auto simp: bit_simps dest: bit_imp_le_length)+

lemma short_length: "n < 128 \<Longrightarrow> and (of_nat n) 0x80 = (0 :: u8)"
proof -
  have "list_all (\<lambda>n. and (of_nat n) 0x80 = (0 :: u8)) [0..<128]" by code_simp
  then show "n < 128 \<Longrightarrow> ?thesis" by (simp add: list_all_iff)
qed

text \<open>What the objects with distinct tags leave in the parser's variables.\<close>

lemma tlv_step_simps:
  "tlv_step st (0x80, [s1, s0]) = st\<lparr>fileSize := or (push_bit 8 (ucast s1)) (ucast s0), haveSize := True\<rparr>"
  "tlv_step st (0x83, [i1, i0]) = st\<lparr>fileId := or (push_bit 8 (ucast i1)) (ucast i0), haveId := True\<rparr>"
  "tlv_step st (0x82, [d, c, r1, r0, n]) = st\<lparr>fcp_struct := fcp_structure d, recLen := or (push_bit 8 (ucast r1)) (ucast r0), haveDesc := True\<rparr>"
  by (simp_all add: tlv_step_def fcp_tag_def byte_at_def read16_def)

lemma tlv_step_other:
  "t \<noteq> 0x80 \<Longrightarrow> fileSize (tlv_step st (t, v)) = fileSize st \<and> haveSize (tlv_step st (t, v)) = haveSize st"
  "t \<noteq> 0x83 \<Longrightarrow> fileId (tlv_step st (t, v)) = fileId st \<and> haveId (tlv_step st (t, v)) = haveId st"
  "t \<noteq> 0x82 \<Longrightarrow> fcp_struct (tlv_step st (t, v)) = fcp_struct st \<and> recLen (tlv_step st (t, v)) = recLen st \<and> haveDesc (tlv_step st (t, v)) = haveDesc st"
  by (auto simp: tlv_step_def fcp_tag_def byte_at_Some read16_Some Let_def Suc_le_eq)

lemma foldl_field:
  assumes keep: "\<And>st u v. u \<noteq> t \<Longrightarrow> f (tlv_step st (u, v)) = f st" and upd: "\<And>st. f (tlv_step st (t, w)) = y"
  shows "distinct (map fst tlvs) \<Longrightarrow> map_of tlvs t = Some w \<Longrightarrow> f (foldl tlv_step st tlvs) = y"
proof -
  have other: "t \<notin> fst ` set tlvs \<Longrightarrow> f (foldl tlv_step st tlvs) = f st" for tlvs st
    by (induction tlvs arbitrary: st) (auto simp: keep)
  show "distinct (map fst tlvs) \<Longrightarrow> map_of tlvs t = Some w \<Longrightarrow> ?thesis"
    by (induction tlvs arbitrary: st) (auto simp: upd other split: if_splits)
qed

lemma foldl_template:
  assumes "distinct (map fst tlvs)" "map_of tlvs 0x80 = Some [s1, s0]" "map_of tlvs 0x83 = Some [i1, i0]"
    "map_of tlvs 0x82 = Some [d, c, r1, r0, n]"
  shows "foldl tlv_step st tlvs = \<lparr>haveSize = True, haveId = True, haveDesc = True, fileSize = or (push_bit 8 (ucast s1)) (ucast s0),
    fileId = or (push_bit 8 (ucast i1)) (ucast i0), recLen = or (push_bit 8 (ucast r1)) (ucast r0), fcp_struct = fcp_structure d\<rparr>"
proof -
  let ?r = "foldl tlv_step st tlvs"
  have "fileSize ?r = or (push_bit 8 (ucast s1)) (ucast s0)" "haveSize ?r"
    using foldl_field [OF _ _ assms(1,2), of fileSize] foldl_field [OF _ _ assms(1,2), of haveSize True] by (simp_all add: tlv_step_simps tlv_step_other)
  moreover have "fileId ?r = or (push_bit 8 (ucast i1)) (ucast i0)" "haveId ?r"
    using foldl_field [OF _ _ assms(1,3), of fileId] foldl_field [OF _ _ assms(1,3), of haveId True] by (simp_all add: tlv_step_simps tlv_step_other)
  moreover have "recLen ?r = or (push_bit 8 (ucast r1)) (ucast r0)" "haveDesc ?r" "fcp_struct ?r = fcp_structure d"
    using foldl_field [OF _ _ assms(1,4), of recLen] foldl_field [OF _ _ assms(1,4), of haveDesc True] foldl_field [OF _ _ assms(1,4), of fcp_struct]
    by (simp_all add: tlv_step_simps tlv_step_other)
  ultimately show ?thesis by (intro fcp.equality) simp_all
qed

lemma fcp_total:
  "\<exists>r. forgeFcpToLegacy props malloc_ok hex = Some r \<and> (\<forall>s. r = Some s \<longrightarrow> (\<exists>bs. s = concat (map hex_byte bs) \<and> length bs = 15))"
proof -
  have "\<exists>r. forgeFcpToLegacy props malloc_ok (Some hex) = Some r \<and> (\<forall>s. r = Some s \<longrightarrow> (\<exists>bs. s = concat (map hex_byte bs) \<and> length bs = 15))"
    if "fcp_enabled props" "4 \<le> length hex" "length hex mod 2 = 0" "length hex \<le> 512" "decode_hex hex = Some buf" for hex buf
  proof -
    have len: "2 \<le> length buf" using decode_hex_length [OF that(5)] that(2) by simp
    have "0 < length buf" "1 < length buf" using len by linarith+
    then have bytes: "byte_at buf 0 = Some (buf ! 0)" "byte_at buf 1 = Some (buf ! 1)" by (simp_all only: byte_at_Some)
    obtain st where "fcp_loop buf (min (2 + unat (buf ! 1)) (length buf)) 2 fcp_none = Some st"
      using fcp_loop_total [of "min (2 + unat (buf ! 1)) (length buf)" buf 2 fcp_none] by auto
    then have "forgeFcpToLegacy props malloc_ok (Some hex) =
        Some (if buf ! 0 \<noteq> 0x62 \<or> and (buf ! 1) 0x80 \<noteq> 0 \<or> \<not> (haveSize st \<and> haveId st \<and> haveDesc st \<and> malloc_ok) then None
          else Some (concat (map hex_byte (legacy_bytes st))))"
      using that bytes unfolding forgeFcpToLegacy_def by simp
    moreover have "length (legacy_bytes st) = 15" by (simp add: legacy_bytes_def)
    ultimately show ?thesis by auto
  qed
  moreover have "forgeFcpToLegacy props malloc_ok hex = Some None"
    if "\<nexists>h buf. hex = Some h \<and> fcp_enabled props \<and> 4 \<le> length h \<and> length h mod 2 = 0 \<and> length h \<le> 512 \<and> decode_hex h = Some buf"
    using that by (auto simp: forgeFcpToLegacy_def not_less split: option.split)
  ultimately show ?thesis by (metis option.distinct(1) option.sel)
qed

section \<open>Properties\<close>

text \<open>
  C33 (bounds). Whatever the modem answers, \<open>forgeFcpToLegacy\<close> reads only bytes of the decoded template and
  ends; what it returns, if anything, are the 15 bytes of the older layout in hexadecimal.
\<close>

theorem fcp_reads_inside:
  "\<exists>r. forgeFcpToLegacy props malloc_ok hex = Some r \<and> (\<forall>s. r = Some s \<longrightarrow> (\<exists>bs. s = concat (map hex_byte bs) \<and> length bs = 15))"
  by (rule fcp_total)

lemma fcp_reads_inside_witness:
  "\<exists>bs. forgeFcpToLegacy (\<lambda>_. ''1'') True (Some ''620F82054221001C0383026F3A80020054'') = Some (Some (concat (map hex_byte bs))) \<and> length bs = 15"
proof -
  have "forgeFcpToLegacy (\<lambda>_. ''1'') True (Some ''620F82054221001C0383026F3A80020054'') = Some (Some ''000000546F3A04000000000102011C'')"
    by code_simp
  then show ?thesis using fcp_reads_inside [of "\<lambda>_. ''1''" True "Some ''620F82054221001C0383026F3A80020054''"] by simp
qed

text \<open>
  C34 (functional). A template with a two-byte size, a two-byte identifier and a five-byte descriptor, in any
  order and among any other objects, is translated to the older layout: the size in bytes 2 and 3, the
  identifier in 4 and 5, an elementary file that is not invalidated, and in bytes 13 and 14 the structure and
  the record length of the descriptor.
\<close>

theorem fcp_translated:
  assumes "fcp_enabled props" "distinct (map fst tlvs)" "map_of tlvs 0x80 = Some [s1, s0]" "map_of tlvs 0x83 = Some [i1, i0]"
    "map_of tlvs 0x82 = Some [d, c, r1, r0, n]" "length (concat (map tlv tlvs)) < 128"
  shows "forgeFcpToLegacy props True (Some (concat (map hex_byte (fcp_template tlvs)))) =
    Some (Some (concat (map hex_byte [0, 0, s1, s0, i1, i0, 4, 0, 0, 0, 0, 1, 2, fcp_structure d, r0])))"
proof -
  let ?len = "length (concat (map tlv tlvs))"
  have u: "unat (of_nat ?len :: u8) = ?len" using assms(6) by (simp add: unat_of_nat)
  have short: "and (of_nat ?len) 0x80 = (0 :: u8)" by (rule short_length [OF assms(6)])
  have small: "\<forall>x \<in> set tlvs. length (snd x) < 256"
  proof
    fix x assume "x \<in> set tlvs"
    then have "length (tlv x) \<le> ?len" by (auto simp: length_concat intro!: member_le_sum_list)
    then show "length (snd x) < 256" using assms(6) by (cases x) (simp add: tlv_def)
  qed
  have two: "length [0x62 :: u8, of_nat ?len] = 2" by simp
  have loop: "fcp_loop (fcp_template tlvs) (2 + ?len) 2 fcp_none = Some (foldl tlv_step fcp_none tlvs)"
    using fcp_loop_template [OF small, of "[0x62, of_nat ?len]" fcp_none] unfolding two fcp_template_def append_Cons append_Nil .
  have len: "length (fcp_template tlvs) = 2 + ?len" "byte_at (fcp_template tlvs) 0 = Some 0x62"
    "byte_at (fcp_template tlvs) 1 = Some (of_nat ?len)" by (simp_all add: fcp_template_def byte_at_def)
  let ?hex = "concat (map hex_byte (fcp_template tlvs))"
  have hex: "length ?hex = 2 * (2 + ?len)" "decode_hex ?hex = Some (fcp_template tlvs)" by (simp_all only: hex_bytes_length decode_hex_bytes len(1))
  have st: "foldl tlv_step fcp_none tlvs = \<lparr>haveSize = True, haveId = True, haveDesc = True, fileSize = or (push_bit 8 (ucast s1)) (ucast s0),
    fileId = or (push_bit 8 (ucast i1)) (ucast i0), recLen = or (push_bit 8 (ucast r1)) (ucast r0), fcp_struct = fcp_structure d\<rparr>"
    by (rule foldl_template [OF assms(2-5)])
  have bytes: "legacy_bytes (foldl tlv_step fcp_none tlvs) = [0, 0, s1, s0, i1, i0, 4, 0, 0, 0, 0, 1, 2, fcp_structure d, r0]"
    unfolding st legacy_bytes_def by (simp only: fcp.select_convs split16)
  have "haveSize (foldl tlv_step fcp_none tlvs)" "haveId (foldl tlv_step fcp_none tlvs)" "haveDesc (foldl tlv_step fcp_none tlvs)"
    unfolding st by simp_all
  then show ?thesis unfolding bytes [symmetric] using assms(1,6) hex len short u loop by (simp add: forgeFcpToLegacy_def)
qed

definition adn_objects :: "(u8 \<times> u8 list) list" where
  "adn_objects = [(0x82, [0x42, 0x21, 0, 0x1C, 3]), (0x83, [0x6F, 0x3A]), (0xA5, [1]), (0x80, [0, 0x54])]"

lemma fcp_translated_witness:
  "forgeFcpToLegacy (\<lambda>_. ''1'') True (Some (concat (map hex_byte (fcp_template adn_objects)))) =
    Some (Some (concat (map hex_byte [0, 0, 0, 0x54, 0x6F, 0x3A, 4, 0, 0, 0, 0, 1, 2, fcp_structure 0x42, 0x1C])))"
proof (rule fcp_translated [where c = "0x21" and ?r1.0 = "0" and n = "3"])
  show "fcp_enabled (\<lambda>_. ''1'')" by code_simp
  show "length (concat (map tlv adn_objects)) < 128" by (simp add: adn_objects_def tlv_def)
qed (simp_all add: adn_objects_def)

end
