(* ===== verification/RilReplies.thy ===== *)
theory RilReplies
  imports RilFcp
begin

text \<open>
  The response half of the radio service (\<open>ril_service.cpp\<close>): the connection to the framework's callback
  objects and the functions \<open>radio::...Response\<close> that hand the vendor's answers over to them.

  \<open>registration\<close> holds, per slot, whether the callback objects are set and how often they were; the calls made
  on them are recorded in \<open>hidl_calls\<close>. Arguments of the model are whether a transaction reaches the client,
  what other threads do to the registration while \<open>checkReturnStatus\<close> has given up the lock, and the sizes of
  pointers and structures. A vendor's answer is the array (or structure) it points to, \<open>None\<close> for \<open>NULL\<close>, with
  its length in bytes; reading beyond the array gives \<open>None\<close>.
\<close>

section \<open>The connection\<close>

datatype RadioResponseType = SOLICITED | SOLICITED_ACK_EXP

datatype RadioError = Errno u32 | INVALID_RESPONSE

record RadioResponseInfo =
  info_serial :: int
  info_type :: RadioResponseType
  info_error :: RadioError

datatype hidl_arg = H_int int | H_bool bool | H_str string | H_list "hidl_arg list"

record hidl_call =
  hc_slot :: int
  hc_method :: string
  hc_info :: "RadioResponseInfo option"
  hc_args :: "hidl_arg list"

record registration =
  mRadioResponse :: "int \<Rightarrow> bool"
  mRadioIndication :: "int \<Rightarrow> bool"
  mCounterRadio :: "int \<Rightarrow> int"
  mOemHookResponse :: "int \<Rightarrow> bool"
  mOemHookIndication :: "int \<Rightarrow> bool"
  mCounterOemHook :: "int \<Rightarrow> int"

record client =
  reg :: registration
  hidl_calls :: "hidl_call list"

record reply_env =
  transaction_ok :: "nat \<Rightarrow> bool"
  while_unlocked :: "registration \<Rightarrow> registration"
  after_reset :: "registration \<Rightarrow> registration"
  ptr_size :: nat
  sizeof_SIM_IO_Response :: nat
  sizeof_SMS_Response :: nat
  sizeof_Data_Call_Response_v11 :: nat
  sizeof_LastCallFailCauseInfo :: nat
  re_props :: properties
  malloc_ok :: bool
  spn :: "(int \<times> string) list"

definition setResponseFunctions :: "int \<Rightarrow> bool \<Rightarrow> bool \<Rightarrow> registration \<Rightarrow> registration" where
  "setResponseFunctions slotId radioResponseParam radioIndicationParam r =
     r\<lparr>mRadioResponse := (mRadioResponse r)(slotId := radioResponseParam),
       mRadioIndication := (mRadioIndication r)(slotId := radioIndicationParam),
       mCounterRadio := (mCounterRadio r)(slotId := mCounterRadio r slotId + 1)\<rparr>"

definition OemHook_setResponseFunctions :: "int \<Rightarrow> bool \<Rightarrow> bool \<Rightarrow> registration \<Rightarrow> registration" where
  "OemHook_setResponseFunctions slotId oemHookResponseParam oemHookIndicationParam r =
     r\<lparr>mOemHookResponse := (mOemHookResponse r)(slotId := oemHookResponseParam),
       mOemHookIndication := (mOemHookIndication r)(slotId := oemHookIndicationParam),
       mCounterOemHook := (mCounterOemHook r)(slotId := mCounterOemHook r slotId + 1)\<rparr>"

text \<open>
  \<open>checkReturnStatus\<close>: after a failed transaction the callbacks of the slot are reset, unless another thread has
  set them while the lock was free, which the counter tells.
\<close>

definition checkReturnStatus :: "reply_env \<Rightarrow> int \<Rightarrow> bool \<Rightarrow> bool \<Rightarrow> registration \<Rightarrow> registration" where
  "checkReturnStatus env slotId isOk isRadioService r =
     (if isOk then r
      else
        let counter = (if isRadioService then mCounterRadio r slotId else mCounterOemHook r slotId);
            r = while_unlocked env r;
            r = (if counter = (if isRadioService then mCounterRadio r slotId else mCounterOemHook r slotId) then
                   (if isRadioService then
                      r\<lparr>mRadioResponse := (mRadioResponse r)(slotId := False), mRadioIndication := (mRadioIndication r)(slotId := False),
                        mCounterRadio := (mCounterRadio r)(slotId := mCounterRadio r slotId + 1)\<rparr>
                    else
                      r\<lparr>mOemHookResponse := (mOemHookResponse r)(slotId := False), mOemHookIndication := (mOemHookIndication r)(slotId := False),
                        mCounterOemHook := (mCounterOemHook r)(slotId := mCounterOemHook r slotId + 1)\<rparr>)
                 else r)
        in after_reset env r)"

definition isServiceConnected :: "int \<Rightarrow> client \<Rightarrow> bool" where
  "isServiceConnected slotId st = mRadioIndication (reg st) slotId"

text \<open>A call on a callback object and the check of its status.\<close>

definition callback :: "reply_env \<Rightarrow> int \<Rightarrow> bool \<Rightarrow> string \<Rightarrow> RadioResponseInfo option \<Rightarrow> hidl_arg list \<Rightarrow> client \<Rightarrow> client" where
  "callback env slotId isRadioService name info args st =
     st\<lparr>reg := checkReturnStatus env slotId (transaction_ok env (length (hidl_calls st))) isRadioService (reg st),
       hidl_calls := hidl_calls st @ [\<lparr>hc_slot = slotId, hc_method = name, hc_info = info, hc_args = args\<rparr>]\<rparr>"

definition acknowledgeRequest :: "reply_env \<Rightarrow> int \<Rightarrow> int \<Rightarrow> client \<Rightarrow> client" where
  "acknowledgeRequest env slotId serial st =
     (if mRadioResponse (reg st) slotId then callback env slotId True ''acknowledgeRequest'' None [H_int serial] st else st)"

section \<open>Helpers of the responses\<close>

definition populateResponseInfo :: "int \<Rightarrow> int \<Rightarrow> u32 \<Rightarrow> RadioResponseInfo" where
  "populateResponseInfo serial responseType e =
     \<lparr>info_serial = serial, info_type = (if responseType = RESPONSE_SOLICITED_ACK_EXP then SOLICITED_ACK_EXP else SOLICITED),
      info_error = Errno e\<rparr>"

text \<open>\<open>if (e == RIL_E_SUCCESS) responseInfo.error = RadioError::INVALID_RESPONSE\<close>\<close>

definition invalid :: "u32 \<Rightarrow> RadioResponseInfo \<Rightarrow> RadioResponseInfo" where
  "invalid e info = (if e = 0 then info\<lparr>info_error := INVALID_RESPONSE\<rparr> else info)"

text \<open>The frame of a response: the information and the arguments are made only when the client is connected.\<close>

definition reply ::
  "reply_env \<Rightarrow> int \<Rightarrow> bool \<Rightarrow> string \<Rightarrow> (RadioResponseInfo \<times> hidl_arg list) option \<Rightarrow> client \<Rightarrow> client option" where
  "reply env slotId isRadioService name made st =
     (if (if isRadioService then mRadioResponse (reg st) slotId else mOemHookResponse (reg st) slotId)
      then map_option (\<lambda>(info, args). callback env slotId isRadioService name (Some info) args st) made
      else Some st)"

definition read_at :: "'a list \<Rightarrow> nat \<Rightarrow> 'a option" where
  "read_at xs i = (if i < length xs then Some (xs ! i) else None)"

definition responseIntOrEmpty :: "int \<Rightarrow> int \<Rightarrow> u32 \<Rightarrow> int list option \<Rightarrow> nat \<Rightarrow> (RadioResponseInfo \<times> int) option" where
  "responseIntOrEmpty serial responseType e response responseLen =
     (let info = populateResponseInfo serial responseType e in
      if response = None \<and> responseLen = 0 then Some (info, - 1)
      else case response of None \<Rightarrow> Some (invalid e info, - 1)
      | Some p_int \<Rightarrow> if responseLen \<noteq> 4 then Some (invalid e info, - 1) else map_option (\<lambda>n. (info, n)) (read_at p_int 0))"

definition responseInt :: "int \<Rightarrow> int \<Rightarrow> u32 \<Rightarrow> int list option \<Rightarrow> nat \<Rightarrow> (RadioResponseInfo \<times> int) option" where
  "responseInt serial responseType e response responseLen =
     (let info = populateResponseInfo serial responseType e in
      case response of None \<Rightarrow> Some (invalid e info, - 1)
      | Some p_int \<Rightarrow> if responseLen \<noteq> 4 then Some (invalid e info, - 1) else map_option (\<lambda>n. (info, n)) (read_at p_int 0))"

definition convertCharPtrToHidlString :: "string option \<Rightarrow> string" where
  "convertCharPtrToHidlString ptr = (case ptr of None \<Rightarrow> [] | Some s \<Rightarrow> s)"

text \<open>The bodies that many responses share.\<close>

definition void_response :: "reply_env \<Rightarrow> int \<Rightarrow> int \<Rightarrow> int \<Rightarrow> u32 \<Rightarrow> string \<Rightarrow> client \<Rightarrow> client option" where
  "void_response env slotId responseType serial e name = reply env slotId True name (Some (populateResponseInfo serial responseType e, []))"

definition int_response :: "reply_env \<Rightarrow> int \<Rightarrow> int \<Rightarrow> int \<Rightarrow> u32 \<Rightarrow> int list option \<Rightarrow> nat \<Rightarrow> string \<Rightarrow> client \<Rightarrow> client option" where
  "int_response env slotId responseType serial e response responseLen name =
     reply env slotId True name (map_option (\<lambda>(info, n). (info, [H_int n])) (responseInt serial responseType e response responseLen))"

definition int_or_empty_response ::
  "reply_env \<Rightarrow> int \<Rightarrow> int \<Rightarrow> int \<Rightarrow> u32 \<Rightarrow> int list option \<Rightarrow> nat \<Rightarrow> string \<Rightarrow> client \<Rightarrow> client option" where
  "int_or_empty_response env slotId responseType serial e response responseLen name =
     reply env slotId True name (map_option (\<lambda>(info, n). (info, [H_int n])) (responseIntOrEmpty serial responseType e response responseLen))"

definition string_response :: "reply_env \<Rightarrow> int \<Rightarrow> int \<Rightarrow> int \<Rightarrow> u32 \<Rightarrow> string option \<Rightarrow> string \<Rightarrow> client \<Rightarrow> client option" where
  "string_response env slotId responseType serial e response name =
     reply env slotId True name (Some (populateResponseInfo serial responseType e, [H_str (convertCharPtrToHidlString response)]))"

section \<open>Responses without a structure\<close>

definition supplyIccPinForAppResponse :: "reply_env \<Rightarrow> int \<Rightarrow> int \<Rightarrow> int \<Rightarrow> u32 \<Rightarrow> int list option \<Rightarrow> nat \<Rightarrow> client \<Rightarrow> client option" where
  "supplyIccPinForAppResponse env slotId responseType serial e response responseLen = int_or_empty_response env slotId responseType serial e response responseLen ''supplyIccPinForAppResponse''"

definition supplyIccPukForAppResponse :: "reply_env \<Rightarrow> int \<Rightarrow> int \<Rightarrow> int \<Rightarrow> u32 \<Rightarrow> int list option \<Rightarrow> nat \<Rightarrow> client \<Rightarrow> client option" where
  "supplyIccPukForAppResponse env slotId responseType serial e response responseLen = int_or_empty_response env slotId responseType serial e response responseLen ''supplyIccPukForAppResponse''"

definition supplyIccPin2ForAppResponse :: "reply_env \<Rightarrow> int \<Rightarrow> int \<Rightarrow> int \<Rightarrow> u32 \<Rightarrow> int list option \<Rightarrow> nat \<Rightarrow> client \<Rightarrow> client option" where
  "supplyIccPin2ForAppResponse env slotId responseType serial e response responseLen = int_or_empty_response env slotId responseType serial e response responseLen ''supplyIccPin2ForAppResponse''"

definition supplyIccPuk2ForAppResponse :: "reply_env \<Rightarrow> int \<Rightarrow> int \<Rightarrow> int \<Rightarrow> u32 \<Rightarrow> int list option \<Rightarrow> nat \<Rightarrow> client \<Rightarrow> client option" where
  "supplyIccPuk2ForAppResponse env slotId responseType serial e response responseLen = int_or_empty_response env slotId responseType serial e response responseLen ''supplyIccPuk2ForAppResponse''"

definition changeIccPinForAppResponse :: "reply_env \<Rightarrow> int \<Rightarrow> int \<Rightarrow> int \<Rightarrow> u32 \<Rightarrow> int list option \<Rightarrow> nat \<Rightarrow> client \<Rightarrow> client option" where
  "changeIccPinForAppResponse env slotId responseType serial e response responseLen = int_or_empty_response env slotId responseType serial e response responseLen ''changeIccPinForAppResponse''"

definition changeIccPin2ForAppResponse :: "reply_env \<Rightarrow> int \<Rightarrow> int \<Rightarrow> int \<Rightarrow> u32 \<Rightarrow> int list option \<Rightarrow> nat \<Rightarrow> client \<Rightarrow> client option" where
  "changeIccPin2ForAppResponse env slotId responseType serial e response responseLen = int_or_empty_response env slotId responseType serial e response responseLen ''changeIccPin2ForAppResponse''"

definition supplyNetworkDepersonalizationResponse :: "reply_env \<Rightarrow> int \<Rightarrow> int \<Rightarrow> int \<Rightarrow> u32 \<Rightarrow> int list option \<Rightarrow> nat \<Rightarrow> client \<Rightarrow> client option" where
  "supplyNetworkDepersonalizationResponse env slotId responseType serial e response responseLen = int_or_empty_response env slotId responseType serial e response responseLen ''supplyNetworkDepersonalizationResponse''"

definition dialResponse :: "reply_env \<Rightarrow> int \<Rightarrow> int \<Rightarrow> int \<Rightarrow> u32 \<Rightarrow> client \<Rightarrow> client option" where
  "dialResponse env slotId responseType serial e = void_response env slotId responseType serial e ''dialResponse''"

definition getIMSIForAppResponse :: "reply_env \<Rightarrow> int \<Rightarrow> int \<Rightarrow> int \<Rightarrow> u32 \<Rightarrow> string option \<Rightarrow> client \<Rightarrow> client option" where
  "getIMSIForAppResponse env slotId responseType serial e response = string_response env slotId responseType serial e response ''getIMSIForAppResponse''"

definition hangupConnectionResponse :: "reply_env \<Rightarrow> int \<Rightarrow> int \<Rightarrow> int \<Rightarrow> u32 \<Rightarrow> client \<Rightarrow> client option" where
  "hangupConnectionResponse env slotId responseType serial e = void_response env slotId responseType serial e ''hangupConnectionResponse''"

definition hangupWaitingOrBackgroundResponse :: "reply_env \<Rightarrow> int \<Rightarrow> int \<Rightarrow> int \<Rightarrow> u32 \<Rightarrow> client \<Rightarrow> client option" where
  "hangupWaitingOrBackgroundResponse env slotId responseType serial e = void_response env slotId responseType serial e ''hangupWaitingOrBackgroundResponse''"

definition hangupForegroundResumeBackgroundResponse :: "reply_env \<Rightarrow> int \<Rightarrow> int \<Rightarrow> int \<Rightarrow> u32 \<Rightarrow> client \<Rightarrow> client option" where
  "hangupForegroundResumeBackgroundResponse env slotId responseType serial e = void_response env slotId responseType serial e ''hangupWaitingOrBackgroundResponse''"

definition switchWaitingOrHoldingAndActiveResponse :: "reply_env \<Rightarrow> int \<Rightarrow> int \<Rightarrow> int \<Rightarrow> u32 \<Rightarrow> client \<Rightarrow> client option" where
  "switchWaitingOrHoldingAndActiveResponse env slotId responseType serial e = void_response env slotId responseType serial e ''switchWaitingOrHoldingAndActiveResponse''"

definition conferenceResponse :: "reply_env \<Rightarrow> int \<Rightarrow> int \<Rightarrow> int \<Rightarrow> u32 \<Rightarrow> client \<Rightarrow> client option" where
  "conferenceResponse env slotId responseType serial e = void_response env slotId responseType serial e ''conferenceResponse''"

definition rejectCallResponse :: "reply_env \<Rightarrow> int \<Rightarrow> int \<Rightarrow> int \<Rightarrow> u32 \<Rightarrow> client \<Rightarrow> client option" where
  "rejectCallResponse env slotId responseType serial e = void_response env slotId responseType serial e ''rejectCallResponse''"

definition setRadioPowerResponse :: "reply_env \<Rightarrow> int \<Rightarrow> int \<Rightarrow> int \<Rightarrow> u32 \<Rightarrow> client \<Rightarrow> client option" where
  "setRadioPowerResponse env slotId responseType serial e = void_response env slotId responseType serial e ''setRadioPowerResponse''"

definition sendDtmfResponse :: "reply_env \<Rightarrow> int \<Rightarrow> int \<Rightarrow> int \<Rightarrow> u32 \<Rightarrow> client \<Rightarrow> client option" where
  "sendDtmfResponse env slotId responseType serial e = void_response env slotId responseType serial e ''sendDtmfResponse''"

definition sendUssdResponse :: "reply_env \<Rightarrow> int \<Rightarrow> int \<Rightarrow> int \<Rightarrow> u32 \<Rightarrow> client \<Rightarrow> client option" where
  "sendUssdResponse env slotId responseType serial e = void_response env slotId responseType serial e ''sendUssdResponse''"

definition cancelPendingUssdResponse :: "reply_env \<Rightarrow> int \<Rightarrow> int \<Rightarrow> int \<Rightarrow> u32 \<Rightarrow> client \<Rightarrow> client option" where
  "cancelPendingUssdResponse env slotId responseType serial e = void_response env slotId responseType serial e ''cancelPendingUssdResponse''"

definition setClirResponse :: "reply_env \<Rightarrow> int \<Rightarrow> int \<Rightarrow> int \<Rightarrow> u32 \<Rightarrow> client \<Rightarrow> client option" where
  "setClirResponse env slotId responseType serial e = void_response env slotId responseType serial e ''setClirResponse''"

definition setCallForwardResponse :: "reply_env \<Rightarrow> int \<Rightarrow> int \<Rightarrow> int \<Rightarrow> u32 \<Rightarrow> client \<Rightarrow> client option" where
  "setCallForwardResponse env slotId responseType serial e = void_response env slotId responseType serial e ''setCallForwardResponse''"

definition setCallWaitingResponse :: "reply_env \<Rightarrow> int \<Rightarrow> int \<Rightarrow> int \<Rightarrow> u32 \<Rightarrow> client \<Rightarrow> client option" where
  "setCallWaitingResponse env slotId responseType serial e = void_response env slotId responseType serial e ''setCallWaitingResponse''"

definition acknowledgeLastIncomingGsmSmsResponse :: "reply_env \<Rightarrow> int \<Rightarrow> int \<Rightarrow> int \<Rightarrow> u32 \<Rightarrow> client \<Rightarrow> client option" where
  "acknowledgeLastIncomingGsmSmsResponse env slotId responseType serial e = void_response env slotId responseType serial e ''acknowledgeLastIncomingGsmSmsResponse''"

definition acceptCallResponse :: "reply_env \<Rightarrow> int \<Rightarrow> int \<Rightarrow> int \<Rightarrow> u32 \<Rightarrow> client \<Rightarrow> client option" where
  "acceptCallResponse env slotId responseType serial e = void_response env slotId responseType serial e ''acceptCallResponse''"

definition deactivateDataCallResponse :: "reply_env \<Rightarrow> int \<Rightarrow> int \<Rightarrow> int \<Rightarrow> u32 \<Rightarrow> client \<Rightarrow> client option" where
  "deactivateDataCallResponse env slotId responseType serial e = void_response env slotId responseType serial e ''deactivateDataCallResponse''"

definition getFacilityLockForAppResponse :: "reply_env \<Rightarrow> int \<Rightarrow> int \<Rightarrow> int \<Rightarrow> u32 \<Rightarrow> int list option \<Rightarrow> nat \<Rightarrow> client \<Rightarrow> client option" where
  "getFacilityLockForAppResponse env slotId responseType serial e response responseLen = int_response env slotId responseType serial e response responseLen ''getFacilityLockForAppResponse''"

definition setFacilityLockForAppResponse :: "reply_env \<Rightarrow> int \<Rightarrow> int \<Rightarrow> int \<Rightarrow> u32 \<Rightarrow> int list option \<Rightarrow> nat \<Rightarrow> client \<Rightarrow> client option" where
  "setFacilityLockForAppResponse env slotId responseType serial e response responseLen = int_or_empty_response env slotId responseType serial e response responseLen ''setFacilityLockForAppResponse''"

definition setBarringPasswordResponse :: "reply_env \<Rightarrow> int \<Rightarrow> int \<Rightarrow> int \<Rightarrow> u32 \<Rightarrow> client \<Rightarrow> client option" where
  "setBarringPasswordResponse env slotId responseType serial e = void_response env slotId responseType serial e ''setBarringPasswordResponse''"

definition setNetworkSelectionModeAutomaticResponse :: "reply_env \<Rightarrow> int \<Rightarrow> int \<Rightarrow> int \<Rightarrow> u32 \<Rightarrow> client \<Rightarrow> client option" where
  "setNetworkSelectionModeAutomaticResponse env slotId responseType serial e = void_response env slotId responseType serial e ''setNetworkSelectionModeAutomaticResponse''"

definition setNetworkSelectionModeManualResponse :: "reply_env \<Rightarrow> int \<Rightarrow> int \<Rightarrow> int \<Rightarrow> u32 \<Rightarrow> client \<Rightarrow> client option" where
  "setNetworkSelectionModeManualResponse env slotId responseType serial e = void_response env slotId responseType serial e ''setNetworkSelectionModeManualResponse''"

definition startDtmfResponse :: "reply_env \<Rightarrow> int \<Rightarrow> int \<Rightarrow> int \<Rightarrow> u32 \<Rightarrow> client \<Rightarrow> client option" where
  "startDtmfResponse env slotId responseType serial e = void_response env slotId responseType serial e ''startDtmfResponse''"

definition stopDtmfResponse :: "reply_env \<Rightarrow> int \<Rightarrow> int \<Rightarrow> int \<Rightarrow> u32 \<Rightarrow> client \<Rightarrow> client option" where
  "stopDtmfResponse env slotId responseType serial e = void_response env slotId responseType serial e ''stopDtmfResponse''"

definition getBasebandVersionResponse :: "reply_env \<Rightarrow> int \<Rightarrow> int \<Rightarrow> int \<Rightarrow> u32 \<Rightarrow> string option \<Rightarrow> client \<Rightarrow> client option" where
  "getBasebandVersionResponse env slotId responseType serial e response = string_response env slotId responseType serial e response ''getBasebandVersionResponse''"

definition separateConnectionResponse :: "reply_env \<Rightarrow> int \<Rightarrow> int \<Rightarrow> int \<Rightarrow> u32 \<Rightarrow> client \<Rightarrow> client option" where
  "separateConnectionResponse env slotId responseType serial e = void_response env slotId responseType serial e ''separateConnectionResponse''"

definition setMuteResponse :: "reply_env \<Rightarrow> int \<Rightarrow> int \<Rightarrow> int \<Rightarrow> u32 \<Rightarrow> client \<Rightarrow> client option" where
  "setMuteResponse env slotId responseType serial e = void_response env slotId responseType serial e ''setMuteResponse''"

definition getClipResponse :: "reply_env \<Rightarrow> int \<Rightarrow> int \<Rightarrow> int \<Rightarrow> u32 \<Rightarrow> int list option \<Rightarrow> nat \<Rightarrow> client \<Rightarrow> client option" where
  "getClipResponse env slotId responseType serial e response responseLen = int_response env slotId responseType serial e response responseLen ''getClipResponse''"

definition setSuppServiceNotificationsResponse :: "reply_env \<Rightarrow> int \<Rightarrow> int \<Rightarrow> int \<Rightarrow> u32 \<Rightarrow> client \<Rightarrow> client option" where
  "setSuppServiceNotificationsResponse env slotId responseType serial e = void_response env slotId responseType serial e ''setSuppServiceNotificationsResponse''"

definition deleteSmsOnSimResponse :: "reply_env \<Rightarrow> int \<Rightarrow> int \<Rightarrow> int \<Rightarrow> u32 \<Rightarrow> client \<Rightarrow> client option" where
  "deleteSmsOnSimResponse env slotId responseType serial e = void_response env slotId responseType serial e ''deleteSmsOnSimResponse''"

definition setBandModeResponse :: "reply_env \<Rightarrow> int \<Rightarrow> int \<Rightarrow> int \<Rightarrow> u32 \<Rightarrow> client \<Rightarrow> client option" where
  "setBandModeResponse env slotId responseType serial e = void_response env slotId responseType serial e ''setBandModeResponse''"

definition writeSmsToSimResponse :: "reply_env \<Rightarrow> int \<Rightarrow> int \<Rightarrow> int \<Rightarrow> u32 \<Rightarrow> int list option \<Rightarrow> nat \<Rightarrow> client \<Rightarrow> client option" where
  "writeSmsToSimResponse env slotId responseType serial e response responseLen = int_response env slotId responseType serial e response responseLen ''writeSmsToSimResponse''"

definition sendEnvelopeResponse :: "reply_env \<Rightarrow> int \<Rightarrow> int \<Rightarrow> int \<Rightarrow> u32 \<Rightarrow> string option \<Rightarrow> client \<Rightarrow> client option" where
  "sendEnvelopeResponse env slotId responseType serial e response = string_response env slotId responseType serial e response ''sendEnvelopeResponse''"

definition sendTerminalResponseToSimResponse :: "reply_env \<Rightarrow> int \<Rightarrow> int \<Rightarrow> int \<Rightarrow> u32 \<Rightarrow> client \<Rightarrow> client option" where
  "sendTerminalResponseToSimResponse env slotId responseType serial e = void_response env slotId responseType serial e ''sendTerminalResponseToSimResponse''"

definition handleStkCallSetupRequestFromSimResponse :: "reply_env \<Rightarrow> int \<Rightarrow> int \<Rightarrow> int \<Rightarrow> u32 \<Rightarrow> client \<Rightarrow> client option" where
  "handleStkCallSetupRequestFromSimResponse env slotId responseType serial e = void_response env slotId responseType serial e ''handleStkCallSetupRequestFromSimResponse''"

definition explicitCallTransferResponse :: "reply_env \<Rightarrow> int \<Rightarrow> int \<Rightarrow> int \<Rightarrow> u32 \<Rightarrow> client \<Rightarrow> client option" where
  "explicitCallTransferResponse env slotId responseType serial e = void_response env slotId responseType serial e ''explicitCallTransferResponse''"

definition setPreferredNetworkTypeResponse :: "reply_env \<Rightarrow> int \<Rightarrow> int \<Rightarrow> int \<Rightarrow> u32 \<Rightarrow> client \<Rightarrow> client option" where
  "setPreferredNetworkTypeResponse env slotId responseType serial e = void_response env slotId responseType serial e ''setPreferredNetworkTypeResponse''"

definition getPreferredNetworkTypeResponse :: "reply_env \<Rightarrow> int \<Rightarrow> int \<Rightarrow> int \<Rightarrow> u32 \<Rightarrow> int list option \<Rightarrow> nat \<Rightarrow> client \<Rightarrow> client option" where
  "getPreferredNetworkTypeResponse env slotId responseType serial e response responseLen = int_response env slotId responseType serial e response responseLen ''getPreferredNetworkTypeResponse''"

definition setLocationUpdatesResponse :: "reply_env \<Rightarrow> int \<Rightarrow> int \<Rightarrow> int \<Rightarrow> u32 \<Rightarrow> client \<Rightarrow> client option" where
  "setLocationUpdatesResponse env slotId responseType serial e = void_response env slotId responseType serial e ''setLocationUpdatesResponse''"

definition setCdmaSubscriptionSourceResponse :: "reply_env \<Rightarrow> int \<Rightarrow> int \<Rightarrow> int \<Rightarrow> u32 \<Rightarrow> client \<Rightarrow> client option" where
  "setCdmaSubscriptionSourceResponse env slotId responseType serial e = void_response env slotId responseType serial e ''setCdmaSubscriptionSourceResponse''"

definition setCdmaRoamingPreferenceResponse :: "reply_env \<Rightarrow> int \<Rightarrow> int \<Rightarrow> int \<Rightarrow> u32 \<Rightarrow> client \<Rightarrow> client option" where
  "setCdmaRoamingPreferenceResponse env slotId responseType serial e = void_response env slotId responseType serial e ''setCdmaRoamingPreferenceResponse''"

definition getCdmaRoamingPreferenceResponse :: "reply_env \<Rightarrow> int \<Rightarrow> int \<Rightarrow> int \<Rightarrow> u32 \<Rightarrow> int list option \<Rightarrow> nat \<Rightarrow> client \<Rightarrow> client option" where
  "getCdmaRoamingPreferenceResponse env slotId responseType serial e response responseLen = int_response env slotId responseType serial e response responseLen ''getCdmaRoamingPreferenceResponse''"

definition setTTYModeResponse :: "reply_env \<Rightarrow> int \<Rightarrow> int \<Rightarrow> int \<Rightarrow> u32 \<Rightarrow> client \<Rightarrow> client option" where
  "setTTYModeResponse env slotId responseType serial e = void_response env slotId responseType serial e ''setTTYModeResponse''"

definition getTTYModeResponse :: "reply_env \<Rightarrow> int \<Rightarrow> int \<Rightarrow> int \<Rightarrow> u32 \<Rightarrow> int list option \<Rightarrow> nat \<Rightarrow> client \<Rightarrow> client option" where
  "getTTYModeResponse env slotId responseType serial e response responseLen = int_response env slotId responseType serial e response responseLen ''getTTYModeResponse''"

definition setPreferredVoicePrivacyResponse :: "reply_env \<Rightarrow> int \<Rightarrow> int \<Rightarrow> int \<Rightarrow> u32 \<Rightarrow> client \<Rightarrow> client option" where
  "setPreferredVoicePrivacyResponse env slotId responseType serial e = void_response env slotId responseType serial e ''setPreferredVoicePrivacyResponse''"

definition sendCDMAFeatureCodeResponse :: "reply_env \<Rightarrow> int \<Rightarrow> int \<Rightarrow> int \<Rightarrow> u32 \<Rightarrow> client \<Rightarrow> client option" where
  "sendCDMAFeatureCodeResponse env slotId responseType serial e = void_response env slotId responseType serial e ''sendCDMAFeatureCodeResponse''"

definition sendBurstDtmfResponse :: "reply_env \<Rightarrow> int \<Rightarrow> int \<Rightarrow> int \<Rightarrow> u32 \<Rightarrow> client \<Rightarrow> client option" where
  "sendBurstDtmfResponse env slotId responseType serial e = void_response env slotId responseType serial e ''sendBurstDtmfResponse''"

definition acknowledgeLastIncomingCdmaSmsResponse :: "reply_env \<Rightarrow> int \<Rightarrow> int \<Rightarrow> int \<Rightarrow> u32 \<Rightarrow> client \<Rightarrow> client option" where
  "acknowledgeLastIncomingCdmaSmsResponse env slotId responseType serial e = void_response env slotId responseType serial e ''acknowledgeLastIncomingCdmaSmsResponse''"

definition setGsmBroadcastConfigResponse :: "reply_env \<Rightarrow> int \<Rightarrow> int \<Rightarrow> int \<Rightarrow> u32 \<Rightarrow> client \<Rightarrow> client option" where
  "setGsmBroadcastConfigResponse env slotId responseType serial e = void_response env slotId responseType serial e ''setGsmBroadcastConfigResponse''"

definition setGsmBroadcastActivationResponse :: "reply_env \<Rightarrow> int \<Rightarrow> int \<Rightarrow> int \<Rightarrow> u32 \<Rightarrow> client \<Rightarrow> client option" where
  "setGsmBroadcastActivationResponse env slotId responseType serial e = void_response env slotId responseType serial e ''setGsmBroadcastActivationResponse''"

definition setCdmaBroadcastConfigResponse :: "reply_env \<Rightarrow> int \<Rightarrow> int \<Rightarrow> int \<Rightarrow> u32 \<Rightarrow> client \<Rightarrow> client option" where
  "setCdmaBroadcastConfigResponse env slotId responseType serial e = void_response env slotId responseType serial e ''setCdmaBroadcastConfigResponse''"

definition setCdmaBroadcastActivationResponse :: "reply_env \<Rightarrow> int \<Rightarrow> int \<Rightarrow> int \<Rightarrow> u32 \<Rightarrow> client \<Rightarrow> client option" where
  "setCdmaBroadcastActivationResponse env slotId responseType serial e = void_response env slotId responseType serial e ''setCdmaBroadcastActivationResponse''"

definition writeSmsToRuimResponse :: "reply_env \<Rightarrow> int \<Rightarrow> int \<Rightarrow> int \<Rightarrow> u32 \<Rightarrow> int list option \<Rightarrow> nat \<Rightarrow> client \<Rightarrow> client option" where
  "writeSmsToRuimResponse env slotId responseType serial e response responseLen = int_response env slotId responseType serial e response responseLen ''writeSmsToRuimResponse''"

definition deleteSmsOnRuimResponse :: "reply_env \<Rightarrow> int \<Rightarrow> int \<Rightarrow> int \<Rightarrow> u32 \<Rightarrow> client \<Rightarrow> client option" where
  "deleteSmsOnRuimResponse env slotId responseType serial e = void_response env slotId responseType serial e ''deleteSmsOnRuimResponse''"

definition exitEmergencyCallbackModeResponse :: "reply_env \<Rightarrow> int \<Rightarrow> int \<Rightarrow> int \<Rightarrow> u32 \<Rightarrow> client \<Rightarrow> client option" where
  "exitEmergencyCallbackModeResponse env slotId responseType serial e = void_response env slotId responseType serial e ''exitEmergencyCallbackModeResponse''"

definition getSmscAddressResponse :: "reply_env \<Rightarrow> int \<Rightarrow> int \<Rightarrow> int \<Rightarrow> u32 \<Rightarrow> string option \<Rightarrow> client \<Rightarrow> client option" where
  "getSmscAddressResponse env slotId responseType serial e response = string_response env slotId responseType serial e response ''getSmscAddressResponse''"

definition setSmscAddressResponse :: "reply_env \<Rightarrow> int \<Rightarrow> int \<Rightarrow> int \<Rightarrow> u32 \<Rightarrow> client \<Rightarrow> client option" where
  "setSmscAddressResponse env slotId responseType serial e = void_response env slotId responseType serial e ''setSmscAddressResponse''"

definition reportSmsMemoryStatusResponse :: "reply_env \<Rightarrow> int \<Rightarrow> int \<Rightarrow> int \<Rightarrow> u32 \<Rightarrow> client \<Rightarrow> client option" where
  "reportSmsMemoryStatusResponse env slotId responseType serial e = void_response env slotId responseType serial e ''reportSmsMemoryStatusResponse''"

definition reportStkServiceIsRunningResponse :: "reply_env \<Rightarrow> int \<Rightarrow> int \<Rightarrow> int \<Rightarrow> u32 \<Rightarrow> client \<Rightarrow> client option" where
  "reportStkServiceIsRunningResponse env slotId responseType serial e = void_response env slotId responseType serial e ''reportStkServiceIsRunningResponse''"

definition getCdmaSubscriptionSourceResponse :: "reply_env \<Rightarrow> int \<Rightarrow> int \<Rightarrow> int \<Rightarrow> u32 \<Rightarrow> int list option \<Rightarrow> nat \<Rightarrow> client \<Rightarrow> client option" where
  "getCdmaSubscriptionSourceResponse env slotId responseType serial e response responseLen = int_response env slotId responseType serial e response responseLen ''getCdmaSubscriptionSourceResponse''"

definition requestIsimAuthenticationResponse :: "reply_env \<Rightarrow> int \<Rightarrow> int \<Rightarrow> int \<Rightarrow> u32 \<Rightarrow> string option \<Rightarrow> client \<Rightarrow> client option" where
  "requestIsimAuthenticationResponse env slotId responseType serial e response = string_response env slotId responseType serial e response ''requestIsimAuthenticationResponse''"

definition acknowledgeIncomingGsmSmsWithPduResponse :: "reply_env \<Rightarrow> int \<Rightarrow> int \<Rightarrow> int \<Rightarrow> u32 \<Rightarrow> client \<Rightarrow> client option" where
  "acknowledgeIncomingGsmSmsWithPduResponse env slotId responseType serial e = void_response env slotId responseType serial e ''acknowledgeIncomingGsmSmsWithPduResponse''"

definition getVoiceRadioTechnologyResponse :: "reply_env \<Rightarrow> int \<Rightarrow> int \<Rightarrow> int \<Rightarrow> u32 \<Rightarrow> int list option \<Rightarrow> nat \<Rightarrow> client \<Rightarrow> client option" where
  "getVoiceRadioTechnologyResponse env slotId responseType serial e response responseLen = int_response env slotId responseType serial e response responseLen ''getVoiceRadioTechnologyResponse''"

definition setCellInfoListRateResponse :: "reply_env \<Rightarrow> int \<Rightarrow> int \<Rightarrow> int \<Rightarrow> u32 \<Rightarrow> client \<Rightarrow> client option" where
  "setCellInfoListRateResponse env slotId responseType serial e = void_response env slotId responseType serial e ''setCellInfoListRateResponse''"

definition setInitialAttachApnResponse :: "reply_env \<Rightarrow> int \<Rightarrow> int \<Rightarrow> int \<Rightarrow> u32 \<Rightarrow> client \<Rightarrow> client option" where
  "setInitialAttachApnResponse env slotId responseType serial e = void_response env slotId responseType serial e ''setInitialAttachApnResponse''"

definition iccCloseLogicalChannelResponse :: "reply_env \<Rightarrow> int \<Rightarrow> int \<Rightarrow> int \<Rightarrow> u32 \<Rightarrow> client \<Rightarrow> client option" where
  "iccCloseLogicalChannelResponse env slotId responseType serial e = void_response env slotId responseType serial e ''iccCloseLogicalChannelResponse''"

definition nvReadItemResponse :: "reply_env \<Rightarrow> int \<Rightarrow> int \<Rightarrow> int \<Rightarrow> u32 \<Rightarrow> string option \<Rightarrow> client \<Rightarrow> client option" where
  "nvReadItemResponse env slotId responseType serial e response = string_response env slotId responseType serial e response ''nvReadItemResponse''"

definition nvWriteItemResponse :: "reply_env \<Rightarrow> int \<Rightarrow> int \<Rightarrow> int \<Rightarrow> u32 \<Rightarrow> client \<Rightarrow> client option" where
  "nvWriteItemResponse env slotId responseType serial e = void_response env slotId responseType serial e ''nvWriteItemResponse''"

definition nvWriteCdmaPrlResponse :: "reply_env \<Rightarrow> int \<Rightarrow> int \<Rightarrow> int \<Rightarrow> u32 \<Rightarrow> client \<Rightarrow> client option" where
  "nvWriteCdmaPrlResponse env slotId responseType serial e = void_response env slotId responseType serial e ''nvWriteCdmaPrlResponse''"

definition nvResetConfigResponse :: "reply_env \<Rightarrow> int \<Rightarrow> int \<Rightarrow> int \<Rightarrow> u32 \<Rightarrow> client \<Rightarrow> client option" where
  "nvResetConfigResponse env slotId responseType serial e = void_response env slotId responseType serial e ''nvResetConfigResponse''"

definition setUiccSubscriptionResponse :: "reply_env \<Rightarrow> int \<Rightarrow> int \<Rightarrow> int \<Rightarrow> u32 \<Rightarrow> client \<Rightarrow> client option" where
  "setUiccSubscriptionResponse env slotId responseType serial e = void_response env slotId responseType serial e ''setUiccSubscriptionResponse''"

definition setDataAllowedResponse :: "reply_env \<Rightarrow> int \<Rightarrow> int \<Rightarrow> int \<Rightarrow> u32 \<Rightarrow> client \<Rightarrow> client option" where
  "setDataAllowedResponse env slotId responseType serial e = void_response env slotId responseType serial e ''setDataAllowedResponse''"

definition setDataProfileResponse :: "reply_env \<Rightarrow> int \<Rightarrow> int \<Rightarrow> int \<Rightarrow> u32 \<Rightarrow> client \<Rightarrow> client option" where
  "setDataProfileResponse env slotId responseType serial e = void_response env slotId responseType serial e ''setDataProfileResponse''"

definition requestShutdownResponse :: "reply_env \<Rightarrow> int \<Rightarrow> int \<Rightarrow> int \<Rightarrow> u32 \<Rightarrow> client \<Rightarrow> client option" where
  "requestShutdownResponse env slotId responseType serial e = void_response env slotId responseType serial e ''requestShutdownResponse''"

definition setAllowedCarriersResponse :: "reply_env \<Rightarrow> int \<Rightarrow> int \<Rightarrow> int \<Rightarrow> u32 \<Rightarrow> int list option \<Rightarrow> nat \<Rightarrow> client \<Rightarrow> client option" where
  "setAllowedCarriersResponse env slotId responseType serial e response responseLen = int_response env slotId responseType serial e response responseLen ''setAllowedCarriersResponse''"

definition sendDeviceStateResponse :: "reply_env \<Rightarrow> int \<Rightarrow> int \<Rightarrow> int \<Rightarrow> u32 \<Rightarrow> client \<Rightarrow> client option" where
  "sendDeviceStateResponse env slotId responseType serial e = void_response env slotId responseType serial e ''sendDeviceStateResponse''"

definition setIndicationFilterResponse :: "reply_env \<Rightarrow> int \<Rightarrow> int \<Rightarrow> int \<Rightarrow> u32 \<Rightarrow> client \<Rightarrow> client option" where
  "setIndicationFilterResponse env slotId responseType serial e = void_response env slotId responseType serial e ''setIndicationFilterResponse''"

definition setSimCardPowerResponse :: "reply_env \<Rightarrow> int \<Rightarrow> int \<Rightarrow> int \<Rightarrow> u32 \<Rightarrow> client \<Rightarrow> client option" where
  "setSimCardPowerResponse env slotId responseType serial e = void_response env slotId responseType serial e ''setSimCardPowerResponse''"

section \<open>Responses with arrays and structures\<close>

text \<open>Two integers, of which the caller makes the arguments.\<close>

definition two_ints :: "u32 \<Rightarrow> RadioResponseInfo \<Rightarrow> int list option \<Rightarrow> nat \<Rightarrow> hidl_arg list \<Rightarrow> (int \<Rightarrow> int \<Rightarrow> hidl_arg list) \<Rightarrow>
  (RadioResponseInfo \<times> hidl_arg list) option" where
  "two_ints e info response responseLen none args =
     (case response of None \<Rightarrow> Some (invalid e info, none)
      | Some pInt \<Rightarrow>
          if responseLen div 4 \<noteq> 2 then Some (invalid e info, none)
          else Option.bind (read_at pInt 0) (\<lambda>n. map_option (\<lambda>m. (info, args n m)) (read_at pInt 1)))"

definition getClirResponse :: "reply_env \<Rightarrow> int \<Rightarrow> int \<Rightarrow> int \<Rightarrow> u32 \<Rightarrow> int list option \<Rightarrow> nat \<Rightarrow> client \<Rightarrow> client option" where
  "getClirResponse env slotId responseType serial e response responseLen =
     reply env slotId True ''getClirResponse''
       (two_ints e (populateResponseInfo serial responseType e) response responseLen [H_int (- 1), H_int (- 1)] (\<lambda>n m. [H_int n, H_int m]))"

definition getCallWaitingResponse :: "reply_env \<Rightarrow> int \<Rightarrow> int \<Rightarrow> int \<Rightarrow> u32 \<Rightarrow> int list option \<Rightarrow> nat \<Rightarrow> client \<Rightarrow> client option" where
  "getCallWaitingResponse env slotId responseType serial e response responseLen =
     reply env slotId True ''getCallWaitingResponse''
       (two_ints e (populateResponseInfo serial responseType e) response responseLen [H_bool False, H_int (- 1)] (\<lambda>n m. [H_bool (n = 1), H_int m]))"

definition getImsRegistrationStateResponse :: "reply_env \<Rightarrow> int \<Rightarrow> int \<Rightarrow> int \<Rightarrow> u32 \<Rightarrow> int list option \<Rightarrow> nat \<Rightarrow> client \<Rightarrow> client option" where
  "getImsRegistrationStateResponse env slotId responseType serial e response responseLen =
     reply env slotId True ''getImsRegistrationStateResponse''
       (two_ints e (populateResponseInfo serial responseType e) response responseLen [H_bool False, H_int 0] (\<lambda>n m. [H_bool (n = 1), H_int m]))"

text \<open>One integer that stands for a truth value; \<open>fits\<close> is the test of the length.\<close>

definition bool_made :: "u32 \<Rightarrow> RadioResponseInfo \<Rightarrow> int list option \<Rightarrow> bool \<Rightarrow> (RadioResponseInfo \<times> hidl_arg list) option" where
  "bool_made e info response fits =
     (case response of None \<Rightarrow> Some (invalid e info, [H_bool False])
      | Some pInt \<Rightarrow> if \<not> fits then Some (invalid e info, [H_bool False]) else map_option (\<lambda>n. (info, [H_bool (n = 1)])) (read_at pInt 0))"

definition getNetworkSelectionModeResponse :: "reply_env \<Rightarrow> int \<Rightarrow> int \<Rightarrow> int \<Rightarrow> u32 \<Rightarrow> int list option \<Rightarrow> nat \<Rightarrow> client \<Rightarrow> client option" where
  "getNetworkSelectionModeResponse env slotId responseType serial e response responseLen =
     reply env slotId True ''getNetworkSelectionModeResponse'' (bool_made e (populateResponseInfo serial responseType e) response (responseLen = 4))"

definition getMuteResponse :: "reply_env \<Rightarrow> int \<Rightarrow> int \<Rightarrow> int \<Rightarrow> u32 \<Rightarrow> int list option \<Rightarrow> nat \<Rightarrow> client \<Rightarrow> client option" where
  "getMuteResponse env slotId responseType serial e response responseLen =
     reply env slotId True ''getMuteResponse'' (bool_made e (populateResponseInfo serial responseType e) response (responseLen = 4))"

definition getPreferredVoicePrivacyResponse :: "reply_env \<Rightarrow> int \<Rightarrow> int \<Rightarrow> int \<Rightarrow> u32 \<Rightarrow> int list option \<Rightarrow> nat \<Rightarrow> client \<Rightarrow> client option" where
  "getPreferredVoicePrivacyResponse env slotId responseType serial e response responseLen =
     reply env slotId True ''getPreferredVoicePrivacyResponse'' (bool_made e (populateResponseInfo serial responseType e) response (responseLen div 4 = 1))"

text \<open>The first \<open>n\<close> elements of an array.\<close>

definition read_array :: "'a list \<Rightarrow> nat \<Rightarrow> 'a list option" where
  "read_array xs n = (if n \<le> length xs then Some (take n xs) else None)"

definition getAvailableBandModesResponse :: "reply_env \<Rightarrow> int \<Rightarrow> int \<Rightarrow> int \<Rightarrow> u32 \<Rightarrow> int list option \<Rightarrow> nat \<Rightarrow> client \<Rightarrow> client option" where
  "getAvailableBandModesResponse env slotId responseType serial e response responseLen =
     reply env slotId True ''getAvailableBandModesResponse''
       (let info = populateResponseInfo serial responseType e in
        case response of None \<Rightarrow> Some (invalid e info, [H_list []])
        | Some pInt \<Rightarrow>
            if responseLen mod 4 \<noteq> 0 then Some (invalid e info, [H_list []])
            else map_option (\<lambda>ns. (info, [H_list (map H_int ns)])) (read_array pInt (responseLen div 4)))"

text \<open>
  \<open>iccOpenLogicalChannelResponse\<close>: the first integer is the channel, the others are bytes. With a length of 0
  the vector is resized to \<open>- 1\<close>, which fails.
\<close>

definition iccOpenLogicalChannelResponse :: "reply_env \<Rightarrow> int \<Rightarrow> int \<Rightarrow> int \<Rightarrow> u32 \<Rightarrow> int list option \<Rightarrow> nat \<Rightarrow> client \<Rightarrow> client option" where
  "iccOpenLogicalChannelResponse env slotId responseType serial e response responseLen =
     reply env slotId True ''iccOpenLogicalChannelResponse''
       (let info = populateResponseInfo serial responseType e in
        case response of None \<Rightarrow> Some (invalid e info, [H_int (- 1), H_list []])
        | Some pInt \<Rightarrow>
            if responseLen mod 4 \<noteq> 0 then Some (invalid e info, [H_int (- 1), H_list []])
            else case read_array pInt (responseLen div 4) of
                Some (n # ns) \<Rightarrow> Some (info, [H_int n, H_list (map (\<lambda>b. H_int (sint (of_int b :: 8 word))) ns)])
              | _ \<Rightarrow> None)"

definition getDeviceIdentityResponse :: "reply_env \<Rightarrow> int \<Rightarrow> int \<Rightarrow> int \<Rightarrow> u32 \<Rightarrow> string option list option \<Rightarrow> nat \<Rightarrow> client \<Rightarrow> client option" where
  "getDeviceIdentityResponse env slotId responseType serial e response responseLen =
     reply env slotId True ''getDeviceIdentityResponse''
       (let info = populateResponseInfo serial responseType e in
        case response of None \<Rightarrow> Some (invalid e info, replicate 4 (H_str []))
        | Some strings \<Rightarrow>
            if responseLen div ptr_size env \<noteq> 4 then Some (invalid e info, replicate 4 (H_str []))
            else map_option (\<lambda>ss. (info, map (\<lambda>s. H_str (convertCharPtrToHidlString s)) ss)) (read_array strings 4))"

text \<open>\<open>getname\<close> in the table of operator names.\<close>

definition getname :: "(int \<times> string) list \<Rightarrow> int \<Rightarrow> string option" where
  "getname table plmn = map_of table plmn"

text \<open>A string of five or six digits.\<close>

definition is_plmn :: "string option \<Rightarrow> bool" where
  "is_plmn s = (case s of None \<Rightarrow> False | Some s \<Rightarrow> 5 \<le> length s \<and> length s \<le> 6 \<and> list_all isdigit s)"

text \<open>\<open>atoi\<close> is \<open>strtol\<close> cut to an \<open>int\<close>.\<close>

definition atoi :: "string \<Rightarrow> int" where
  "atoi s = signed_take_bit 31 (fst (strtoll s))"

definition operator_names :: "(int \<times> string) list \<Rightarrow> string option list \<Rightarrow> string \<times> string \<times> string" where
  "operator_names table resp =
     (let longName = convertCharPtrToHidlString (resp ! 0);
          shortName = (if length resp > 1 then convertCharPtrToHidlString (resp ! 1) else longName);
          numeric = (if length resp > 2 then convertCharPtrToHidlString (resp ! 2) else []);
          numeric = (if numeric = [] then (case find is_plmn resp of Some s \<Rightarrow> convertCharPtrToHidlString s | None \<Rightarrow> []) else numeric)
      in if numeric \<noteq> [] then
           let longName = (if longName = [] \<or> longName = numeric
                 then (case getname table (atoi numeric) of Some nm \<Rightarrow> nm | None \<Rightarrow> numeric) else longName);
               shortName = (if shortName = [] \<or> shortName = numeric then longName else shortName)
           in (longName, shortName, numeric)
         else (longName, shortName, numeric))"

definition getOperatorResponse :: "reply_env \<Rightarrow> int \<Rightarrow> int \<Rightarrow> int \<Rightarrow> u32 \<Rightarrow> string option list option \<Rightarrow> nat \<Rightarrow> client \<Rightarrow> client option" where
  "getOperatorResponse env slotId responseType serial e response responseLen =
     reply env slotId True ''getOperatorResponse''
       (let info = populateResponseInfo serial responseType e; numStrings = responseLen div ptr_size env in
        case response of None \<Rightarrow> Some (invalid e info, [H_str [], H_str [], H_str []])
        | Some resp \<Rightarrow>
            if numStrings = 0 then Some (invalid e info, [H_str [], H_str [], H_str []])
            else map_option (\<lambda>resp. case operator_names (spn env) resp of (l, s, n) \<Rightarrow> (info, [H_str l, H_str s, H_str n]))
                   (read_array resp numStrings))"

text \<open>
  \<open>convertOperatorStatusToInt\<close>: \<open>strncmp\<close> on nine characters compares the shorter words with their end; a
  \<open>NULL\<close> status is read. The numbers are those of \<open>OperatorStatus\<close>.
\<close>

definition convertOperatorStatusToInt :: "string option \<Rightarrow> int option" where
  "convertOperatorStatusToInt str =
     map_option (\<lambda>s. if s = ''unknown'' then 0 else if take 9 s = ''available'' then 1 else if s = ''current'' then 2
       else if take 9 s = ''forbidden'' then 3 else - 1) str"

text \<open>Four strings for every network; an unknown status makes the whole response invalid.\<close>

fun read_networks :: "u32 \<Rightarrow> RadioResponseInfo \<Rightarrow> string option list \<Rightarrow> (RadioResponseInfo \<times> hidl_arg list) option" where
  "read_networks e info (alphaLong # alphaShort # numeric # status # resp) =
     (case convertOperatorStatusToInt status of None \<Rightarrow> None
      | Some n \<Rightarrow>
          map_option (\<lambda>(info, ns). (info, H_list [H_str (convertCharPtrToHidlString alphaLong), H_str (convertCharPtrToHidlString alphaShort),
              H_str (convertCharPtrToHidlString numeric), H_int (if n = - 1 then 0 else n)] # ns))
            (read_networks e (if n = - 1 then invalid e info else info) resp))"
| "read_networks e info _ = Some (info, [])"

definition getAvailableNetworksResponse :: "reply_env \<Rightarrow> int \<Rightarrow> int \<Rightarrow> int \<Rightarrow> u32 \<Rightarrow> string option list option \<Rightarrow> nat \<Rightarrow> client \<Rightarrow> client option" where
  "getAvailableNetworksResponse env slotId responseType serial e response responseLen =
     reply env slotId True ''getAvailableNetworksResponse''
       (let info = populateResponseInfo serial responseType e in
        case response of None \<Rightarrow> Some (invalid e info, [H_list []])
        | Some resp \<Rightarrow>
            if responseLen mod (4 * ptr_size env) \<noteq> 0 then Some (invalid e info, [H_list []])
            else Option.bind (read_array resp (responseLen div ptr_size env)) (\<lambda>resp.
              map_option (\<lambda>(info, ns). (info, [H_list ns])) (read_networks e info resp)))"

record SIM_IO_Response =
  sw1 :: int
  sw2 :: int
  simResponse :: "string option"

definition responseIccIo :: "reply_env \<Rightarrow> int \<Rightarrow> int \<Rightarrow> u32 \<Rightarrow> SIM_IO_Response option \<Rightarrow> nat \<Rightarrow> (RadioResponseInfo \<times> hidl_arg list) option" where
  "responseIccIo env serial responseType e response responseLen =
     (let info = populateResponseInfo serial responseType e in
      case response of None \<Rightarrow> Some (invalid e info, [H_int 0, H_int 0, H_str []])
      | Some resp \<Rightarrow>
          if responseLen \<noteq> sizeof_SIM_IO_Response env then Some (invalid e info, [H_int 0, H_int 0, H_str []])
          else map_option (\<lambda>forgeLegacy. (info, [H_int (sw1 resp), H_int (sw2 resp),
                 H_str (convertCharPtrToHidlString (if forgeLegacy \<noteq> None then forgeLegacy else simResponse resp))]))
               (forgeFcpToLegacy (re_props env) (malloc_ok env) (simResponse resp)))"

definition iccIOForAppResponse :: "reply_env \<Rightarrow> int \<Rightarrow> int \<Rightarrow> int \<Rightarrow> u32 \<Rightarrow> SIM_IO_Response option \<Rightarrow> nat \<Rightarrow> client \<Rightarrow> client option" where
  "iccIOForAppResponse env slotId responseType serial e response responseLen =
     reply env slotId True ''iccIOForAppResponse'' (responseIccIo env serial responseType e response responseLen)"

definition sendEnvelopeWithStatusResponse :: "reply_env \<Rightarrow> int \<Rightarrow> int \<Rightarrow> int \<Rightarrow> u32 \<Rightarrow> SIM_IO_Response option \<Rightarrow> nat \<Rightarrow> client \<Rightarrow> client option" where
  "sendEnvelopeWithStatusResponse env slotId responseType serial e response responseLen =
     reply env slotId True ''sendEnvelopeWithStatusResponse'' (responseIccIo env serial responseType e response responseLen)"

definition iccTransmitApduBasicChannelResponse :: "reply_env \<Rightarrow> int \<Rightarrow> int \<Rightarrow> int \<Rightarrow> u32 \<Rightarrow> SIM_IO_Response option \<Rightarrow> nat \<Rightarrow> client \<Rightarrow> client option" where
  "iccTransmitApduBasicChannelResponse env slotId responseType serial e response responseLen =
     reply env slotId True ''iccTransmitApduBasicChannelResponse'' (responseIccIo env serial responseType e response responseLen)"

definition iccTransmitApduLogicalChannelResponse :: "reply_env \<Rightarrow> int \<Rightarrow> int \<Rightarrow> int \<Rightarrow> u32 \<Rightarrow> SIM_IO_Response option \<Rightarrow> nat \<Rightarrow> client \<Rightarrow> client option" where
  "iccTransmitApduLogicalChannelResponse env slotId responseType serial e response responseLen =
     reply env slotId True ''iccTransmitApduLogicalChannelResponse'' (responseIccIo env serial responseType e response responseLen)"

definition requestIccSimAuthenticationResponse :: "reply_env \<Rightarrow> int \<Rightarrow> int \<Rightarrow> int \<Rightarrow> u32 \<Rightarrow> SIM_IO_Response option \<Rightarrow> nat \<Rightarrow> client \<Rightarrow> client option" where
  "requestIccSimAuthenticationResponse env slotId responseType serial e response responseLen =
     reply env slotId True ''requestIccSimAuthenticationResponse'' (responseIccIo env serial responseType e response responseLen)"

record SMS_Response =
  messageRef :: int
  ackPDU :: "string option"
  errorCode :: int

definition makeSendSmsResult :: "reply_env \<Rightarrow> int \<Rightarrow> int \<Rightarrow> u32 \<Rightarrow> SMS_Response option \<Rightarrow> nat \<Rightarrow> RadioResponseInfo \<times> hidl_arg list" where
  "makeSendSmsResult env serial responseType e response responseLen =
     (let info = populateResponseInfo serial responseType e in
      case response of None \<Rightarrow> (invalid e info, [H_int 0, H_str [], H_int 0])
      | Some resp \<Rightarrow>
          if responseLen \<noteq> sizeof_SMS_Response env then (invalid e info, [H_int 0, H_str [], H_int 0])
          else (info, [H_int (messageRef resp), H_str (convertCharPtrToHidlString (ackPDU resp)), H_int (errorCode resp)]))"

definition sendSmsResponse :: "reply_env \<Rightarrow> int \<Rightarrow> int \<Rightarrow> int \<Rightarrow> u32 \<Rightarrow> SMS_Response option \<Rightarrow> nat \<Rightarrow> client \<Rightarrow> client option" where
  "sendSmsResponse env slotId responseType serial e response responseLen =
     reply env slotId True ''sendSmsResponse'' (Some (makeSendSmsResult env serial responseType e response responseLen))"

definition sendSMSExpectMoreResponse :: "reply_env \<Rightarrow> int \<Rightarrow> int \<Rightarrow> int \<Rightarrow> u32 \<Rightarrow> SMS_Response option \<Rightarrow> nat \<Rightarrow> client \<Rightarrow> client option" where
  "sendSMSExpectMoreResponse env slotId responseType serial e response responseLen =
     reply env slotId True ''sendSMSExpectMoreResponse'' (Some (makeSendSmsResult env serial responseType e response responseLen))"

definition sendCdmaSmsResponse :: "reply_env \<Rightarrow> int \<Rightarrow> int \<Rightarrow> int \<Rightarrow> u32 \<Rightarrow> SMS_Response option \<Rightarrow> nat \<Rightarrow> client \<Rightarrow> client option" where
  "sendCdmaSmsResponse env slotId responseType serial e response responseLen =
     reply env slotId True ''sendCdmaSmsResponse'' (Some (makeSendSmsResult env serial responseType e response responseLen))"

definition sendImsSmsResponse :: "reply_env \<Rightarrow> int \<Rightarrow> int \<Rightarrow> int \<Rightarrow> u32 \<Rightarrow> SMS_Response option \<Rightarrow> nat \<Rightarrow> client \<Rightarrow> client option" where
  "sendImsSmsResponse env slotId responseType serial e response responseLen =
     reply env slotId True ''sendImsSmsResponse'' (Some (makeSendSmsResult env serial responseType e response responseLen))"

datatype fail_cause = Cause_int "int list" | Cause_info int "string option"

text \<open>\<open>getLastCallFailCauseResponse\<close> tells an integer from a structure by the length alone.\<close>

definition getLastCallFailCauseResponse :: "reply_env \<Rightarrow> int \<Rightarrow> int \<Rightarrow> int \<Rightarrow> u32 \<Rightarrow> fail_cause option \<Rightarrow> nat \<Rightarrow> client \<Rightarrow> client option" where
  "getLastCallFailCauseResponse env slotId responseType serial e response responseLen =
     reply env slotId True ''getLastCallFailCauseResponse''
       (let info = populateResponseInfo serial responseType e in
        case response of None \<Rightarrow> Some (invalid e info, [H_int 0, H_str []])
        | Some cause \<Rightarrow>
            if responseLen = 4 then
              (case cause of Cause_int pInt \<Rightarrow> map_option (\<lambda>n. (info, [H_int n, H_str []])) (read_at pInt 0)
               | Cause_info n _ \<Rightarrow> Some (info, [H_int n, H_str []]))
            else if responseLen = sizeof_LastCallFailCauseInfo env then
              (case cause of Cause_int _ \<Rightarrow> None
               | Cause_info n vendor \<Rightarrow> Some (info, [H_int n, H_str (convertCharPtrToHidlString vendor)]))
            else Some (invalid e info, [H_int 0, H_str []]))"

record CallForward =
  fw_ints :: "int list"
  fw_number :: "string option"
  fw_time :: int

definition getCallForwardStatusResponse :: "reply_env \<Rightarrow> int \<Rightarrow> int \<Rightarrow> int \<Rightarrow> u32 \<Rightarrow> CallForward list option \<Rightarrow> nat \<Rightarrow> client \<Rightarrow> client option" where
  "getCallForwardStatusResponse env slotId responseType serial e response responseLen =
     reply env slotId True ''getCallForwardStatusResponse''
       (let info = populateResponseInfo serial responseType e in
        case response of None \<Rightarrow> Some (invalid e info, [H_list []])
        | Some resp \<Rightarrow>
            if responseLen mod ptr_size env \<noteq> 0 then Some (invalid e info, [H_list []])
            else map_option (\<lambda>fs. (info, [H_list (map (\<lambda>f. H_list (map H_int (fw_ints f) @
                   [H_str (convertCharPtrToHidlString (fw_number f)), H_int (fw_time f)])) fs)]))
                 (read_array resp (responseLen div ptr_size env)))"

definition sendRequestRawResponse :: "reply_env \<Rightarrow> int \<Rightarrow> int \<Rightarrow> int \<Rightarrow> u32 \<Rightarrow> u8 list option \<Rightarrow> nat \<Rightarrow> client \<Rightarrow> client option" where
  "sendRequestRawResponse env slotId responseType serial e response responseLen =
     reply env slotId False ''sendRequestRawResponse''
       (let info = populateResponseInfo serial responseType e in
        case response of None \<Rightarrow> Some (invalid e info, [H_list []])
        | Some bytes \<Rightarrow> map_option (\<lambda>bs. (info, [H_list (map (\<lambda>b. H_int (uint b)) bs)])) (read_array bytes responseLen))"

definition sendRequestStringsResponse :: "reply_env \<Rightarrow> int \<Rightarrow> int \<Rightarrow> int \<Rightarrow> u32 \<Rightarrow> string option list option \<Rightarrow> nat \<Rightarrow> client \<Rightarrow> client option" where
  "sendRequestStringsResponse env slotId responseType serial e response responseLen =
     reply env slotId False ''sendRequestStringsResponse''
       (let info = populateResponseInfo serial responseType e in
        case response of None \<Rightarrow> Some (invalid e info, [H_list []])
        | Some resp \<Rightarrow>
            if responseLen mod ptr_size env \<noteq> 0 then Some (invalid e info, [H_list []])
            else map_option (\<lambda>ss. (info, [H_list (map (\<lambda>s. H_str (convertCharPtrToHidlString s)) ss)]))
                   (read_array resp (responseLen div ptr_size env)))"

end
