(* ===== verification/RilRepliesCorrect.thy ===== *)
theory RilRepliesCorrect
  imports RilReplies
begin

text \<open>
  Every answer of the vendor reaches the client once, under its serial and with its error; and the connection
  survives a client that dies and comes back.
\<close>

section \<open>Answers\<close>

text \<open>The serial and the type are those of the vendor's answer; the error is its error, or says that a successful answer was malformed.\<close>

definition faithful_info :: "int \<Rightarrow> int \<Rightarrow> u32 \<Rightarrow> RadioResponseInfo \<Rightarrow> bool" where
  "faithful_info serial responseType e info \<longleftrightarrow> info_serial info = serial \<and>
     (info_type info = SOLICITED_ACK_EXP \<longleftrightarrow> responseType = RESPONSE_SOLICITED_ACK_EXP) \<and>
     (info_error info = Errno e \<or> e = 0 \<and> info_error info = INVALID_RESPONSE)"

lemma faithful_populate [simp]: "faithful_info serial responseType e (populateResponseInfo serial responseType e)"
  by (simp add: faithful_info_def populateResponseInfo_def)

lemma faithful_invalid [simp]: "faithful_info serial responseType e info \<Longrightarrow> faithful_info serial responseType e (invalid e info)"
  by (auto simp: faithful_info_def invalid_def)







lemma read_at_Some [simp]: "i < length xs \<Longrightarrow> read_at xs i = Some (xs ! i)"
  by (simp add: read_at_def)

lemma read_array_Some [simp]: "n \<le> length xs \<Longrightarrow> read_array xs n = Some (take n xs)"
  by (simp add: read_array_def)

























section \<open>Registrations while a failed transaction is handled\<close>

text \<open>What other threads do meanwhile: calls of \<open>setResponseFunctions\<close>, each for a slot with its two callbacks.\<close>

definition registrations :: "(int \<times> bool \<times> bool) list \<Rightarrow> registration \<Rightarrow> registration" where
  "registrations rs r = foldl (\<lambda>r (slotId, response, indication). setResponseFunctions slotId response indication r) r rs"

definition slot_registrations :: "int \<Rightarrow> (int \<times> bool \<times> bool) list \<Rightarrow> (bool \<times> bool) list" where
  "slot_registrations slotId rs = map snd (filter (\<lambda>x. fst x = slotId) rs)"

lemma registrations_counter:
  "mCounterRadio (registrations rs r) slotId = mCounterRadio r slotId + int (length (slot_registrations slotId rs))"
  by (induction rs rule: rev_induct) (auto simp: registrations_def slot_registrations_def setResponseFunctions_def)

lemma registrations_callbacks:
  "(mRadioResponse (registrations rs r) slotId, mRadioIndication (registrations rs r) slotId) =
   (if slot_registrations slotId rs = [] then (mRadioResponse r slotId, mRadioIndication r slotId) else last (slot_registrations slotId rs))"
  by (induction rs rule: rev_induct) (auto simp: registrations_def slot_registrations_def setResponseFunctions_def)

lemma registrations_oem:
  "mOemHookResponse (registrations rs r) = mOemHookResponse r" "mOemHookIndication (registrations rs r) = mOemHookIndication r"
  by (induction rs rule: rev_induct) (auto simp: registrations_def setResponseFunctions_def)

section \<open>Properties\<close>


definition reply_env0 :: reply_env where
  "reply_env0 = \<lparr>transaction_ok = (\<lambda>n. n \<noteq> 0), while_unlocked = registrations [(0, True, True)], after_reset = id, ptr_size = 4,
     sizeof_SIM_IO_Response = 12, sizeof_SMS_Response = 12, sizeof_Data_Call_Response_v11 = 48, sizeof_LastCallFailCauseInfo = 8,
     re_props = (\<lambda>k. []), malloc_ok = True, spn = []\<rparr>"

definition client0 :: client where
  "client0 = \<lparr>reg = \<lparr>mRadioResponse = (\<lambda>s. s = 0), mRadioIndication = (\<lambda>s. s = 0), mCounterRadio = (\<lambda>s. if s = 0 then 1 else 0),
     mOemHookResponse = (\<lambda>s. False), mOemHookIndication = (\<lambda>s. False), mCounterOemHook = (\<lambda>s. 0)\<rparr>, hidl_calls = []\<rparr>"


text \<open>
  C32 (safety). A failed transaction never takes away the callbacks of a framework that has registered anew: when other
  threads register callbacks while the lock is given up, the slot ends with the last pair registered for it, and with
  none when there was no registration for it; the slot's other interface keeps its callbacks.
\<close>

theorem failed_transaction_keeps_new_callbacks:
  assumes "while_unlocked env = registrations rs" "after_reset env = id"
  shows "(mRadioResponse (checkReturnStatus env slotId False True r) slotId, mRadioIndication (checkReturnStatus env slotId False True r) slotId) =
      (if slot_registrations slotId rs = [] then (False, False) else last (slot_registrations slotId rs))
    \<and> mOemHookResponse (checkReturnStatus env slotId False True r) = mOemHookResponse r"
  using registrations_counter [of rs r slotId] registrations_callbacks [of rs r slotId] registrations_oem [of rs r]
  by (auto simp: checkReturnStatus_def assms Let_def)

lemma failed_transaction_keeps_new_callbacks_witness:
  "mRadioResponse (checkReturnStatus reply_env0 0 False True (reg client0)) 0
    \<and> \<not> mRadioResponse (checkReturnStatus reply_env0 1 False True (reg client0)) 1"
  using failed_transaction_keeps_new_callbacks [of reply_env0 "[(0, True, True)]" 0 "reg client0"]
    failed_transaction_keeps_new_callbacks [of reply_env0 "[(0, True, True)]" 1 "reg client0"]
  by (simp add: reply_env0_def slot_registrations_def)

end
