(* ===== verification/RilRadioCorrect.thy ===== *)
theory RilRadioCorrect
  imports RilRadio
begin

text \<open>
  Every method of the radio service settles its request: it is forwarded to the vendor once or refused
  with one error, and no string copied for it stays in memory. Where the code does not, the lemmas below
  say how.
\<close>

section \<open>Patterns of requests\<close>

text \<open>The order in which allocations are listed does not matter.\<close>

definition same_elements :: "nat list \<Rightarrow> nat list \<Rightarrow> bool" where
  "same_elements as bs \<longleftrightarrow> set as = set bs \<and> length as = length bs"

lemma prepared_perm: "same_elements as bs \<Longrightarrow> prepared as st st1 \<Longrightarrow> prepared bs st st1"
  unfolding prepared_def owns_def same_elements_def by (metis card_distinct distinct_card)

lemma plain_settled:
  assumes "service_ok st" "served request" "buffer_frees buf = []"
  shows "\<exists>st'. with_request env serial slotId request (enqueue env request data buf) st = Some st' \<and> settled request slotId serial st st'"
  by (rule with_request_settled [OF assms(1,2)], rule enqueue_finished) (simp_all add: assms(3) prepared_refl)

lemma raw_frees [simp]: "buffer_frees FMT_RAW = []" "buffer_frees FMT_IGNORE = []" "buffer_frees FMT_VOID = []" "buffer_frees FMT_INTS = []"
  by (simp_all add: buffer_frees_def)

lemma strings_settled_free:
  assumes "service_ok st" "served request"
  shows "\<exists>st'. with_request env serial slotId request (\<lambda>pRI. with_strings env pRI strs (\<lambda>ps st.
      Option.bind (enqueue env request (D ps st) FMT_IGNORE pRI st) (free_all (memsetAndFreeStrings ps)))) st = Some st'
    \<and> settled request slotId serial st st'"
  by (rule with_request_settled [OF assms], rule with_strings_finished, assumption, assumption, rule enqueue_free_finished)

lemma strings_settled_buffer:
  assumes "service_ok st" "served request"
    and "\<And>ps. length ps = length strs \<Longrightarrow> same_elements (memsetAndFreeStrings ps) (buffer_frees (B ps))"
  shows "\<exists>st'. with_request env serial slotId request (\<lambda>pRI. with_strings env pRI strs (\<lambda>ps st.
      enqueue env request (D ps st) (B ps) pRI st)) st = Some st' \<and> settled request slotId serial st st'"
proof (rule with_request_settled [OF assms(1,2)], rule with_strings_finished)
  fix pRI r st1 ps st2
  assume st1: "service_ok st1" "known pRI r st1"
    and p: "prepared (memsetAndFreeStrings ps) st1 st2" "map (text_at st2) ps = map (ril_string False) strs"
  have "length ps = length strs" using p(2) by (metis length_map)
  then have "prepared (buffer_frees (B ps)) st1 st2" using prepared_perm [OF assms(3)] p(1) by blast
  then show "\<exists>st'. enqueue env request (D ps st2) (B ps) pRI st2 = Some st' \<and> finished request pRI r st1 st'"
    by (rule enqueue_finished [OF st1])
qed

lemma length2: "length ps = 2 \<Longrightarrow> ps = [ps ! 0, ps ! 1]"
  by (cases ps; cases "tl ps") (auto simp: numeral_2_eq_2)

lemma length3: "length ps = 3 \<Longrightarrow> ps = [ps ! 0, ps ! 1, ps ! 2]"
  by (cases ps; cases "tl ps"; cases "tl (tl ps)") (auto simp: numeral_3_eq_3)

lemma length4: "length ps = 4 \<Longrightarrow> ps = [ps ! 0, ps ! 1, ps ! 2, ps ! 3]"
  by (cases ps; cases "tl ps"; cases "tl (tl ps)"; cases "tl (tl (tl ps))") (auto simp: numeral_eq_Suc)

lemma two_frees:
  "length ps = 2 \<Longrightarrow> same_elements (memsetAndFreeStrings ps) (buffer_frees (FMT_WrSMSSIM (ps ! 1) (ps ! 0)))"
  "length ps = 2 \<Longrightarrow> same_elements (memsetAndFreeStrings ps) (buffer_frees (FMT_SIMAUTH (ps ! 0) (ps ! 1)))"
proof -
  assume "length ps = 2"
  then obtain a b where "ps = [a, b]" using length2 by blast
  then show "same_elements (memsetAndFreeStrings ps) (buffer_frees (FMT_WrSMSSIM (ps ! 1) (ps ! 0)))"
    "same_elements (memsetAndFreeStrings ps) (buffer_frees (FMT_SIMAUTH (ps ! 0) (ps ! 1)))"
    by (auto simp: same_elements_def buffer_frees_def memsetAndFreeStrings_def)
qed

section \<open>Requests of their own\<close>

lemma error_free_finished:
  assumes "service_ok st" "known pRI r st" "prepared as st st1" "err \<noteq> 0"
  shows "\<exists>st'. Option.bind (sendErrorResponse pRI err st1) (free_all as) = Some st' \<and> finished request pRI r st st'"
proof -
  have "known pRI r st1" using prepared_known [OF assms(3)] assms(2) by simp
  then obtain f where f: "responseFunction (ri_pCI r) = Some f"
    "sendErrorResponse pRI err st1 = Some (st1\<lparr>sv_ril := call_radio (Response f (ri_socket_id r) RESPONSE_SOLICITED (ri_token r) err (Bytes None)) (sv_ril st1)\<rparr>)"
    by (rule sendErrorResponse_spec)
  let ?st = "st1\<lparr>sv_ril := call_radio (Response f (ri_socket_id r) RESPONSE_SOLICITED (ri_token r) err (Bytes None)) (sv_ril st1)\<rparr>"
  have "owns as st ?st" using assms(3) by (simp add: prepared_def owns_def)
  note free = free_owned [OF this]
  have le: "sv_fresh st \<le> sv_fresh st1" using assms(3) by (simp add: prepared_def owns_def)
  have "finished request pRI r st (?st\<lparr>sv_heap := sv_heap st\<rparr>)"
    using assms f le unfolding finished_def refused_def same_lists_def prepared_def
    by (auto simp: service_ok_def intro: no_text_left_same)
  then show ?thesis using f(2) free by simp
qed

lemma copies_prepared:
  assumes "service_ok st" "known pRI r st"
  obtains (failed) ps st1 where "copy_strings env ae pRI strs st = Some (False, ps, st1)" "owns (memsetAndFreeStrings ps) st st1"
      "service_ok st1" "vendor_calls st1 = vendor_calls st" "dataCallCids st1 = dataCallCids st"
      "sv_ril st1 = call_radio (Response (the (responseFunction (ri_pCI r))) (ri_socket_id r) RESPONSE_SOLICITED (ri_token r)
        RIL_E_NO_MEMORY (Bytes None)) (sv_ril st)"
  | (copied) ps st1 where "copy_strings env ae pRI strs st = Some (True, ps, st1)" "prepared (memsetAndFreeStrings ps) st st1" "length ps = length strs"
proof -
  obtain ok ps st1 where c: "copy_strings env ae pRI strs st = Some (ok, ps, st1)"
    "service_ok st1" "vendor_calls st1 = vendor_calls st" "dataCallCids st1 = dataCallCids st"
    "owns (memsetAndFreeStrings ps) st st1"
    "ok \<longrightarrow> sv_ril st1 = sv_ril st \<and> map (text_at st1) ps = map (ril_string ae) strs"
    "\<not> ok \<longrightarrow> sv_ril st1 = call_radio (Response (the (responseFunction (ri_pCI r))) (ri_socket_id r) RESPONSE_SOLICITED (ri_token r)
        RIL_E_NO_MEMORY (Bytes None)) (sv_ril st)"
    by (rule copies_spec [OF assms])
  show ?thesis
  proof (cases ok)
    case True
    moreover have "length ps = length strs" using c(6) True by (metis length_map)
    ultimately show ?thesis using c copied [of ps st1] by (simp add: prepared_def)
  next
    case False
    then show ?thesis using c failed [of ps st1] by simp
  qed
qed

lemma failed_after:
  assumes st: "service_ok st" "known pRI r st" and p: "prepared as st st1"
    and f: "owns bs st1 st2" "service_ok st2" "vendor_calls st2 = vendor_calls st1" "dataCallCids st2 = dataCallCids st1"
      "sv_ril st2 = call_radio (Response (the (responseFunction (ri_pCI r))) (ri_socket_id r) RESPONSE_SOLICITED (ri_token r)
        RIL_E_NO_MEMORY (Bytes None)) (sv_ril st1)"
    and cs: "same_elements (as @ bs) cs"
  shows "\<exists>st'. free_all cs st2 = Some st' \<and> finished request pRI r st st'"
proof -
  have "owns (as @ bs) st st2" using owns_trans f(1) p by (auto simp: prepared_def)
  then have "owns cs st st2" using cs unfolding owns_def same_elements_def by (metis card_distinct distinct_card)
  then show ?thesis using copies_failed [OF st _ f(2)] f p by (simp add: prepared_def)
qed

lemma same_elements_refl [simp]: "same_elements as as"
  by (simp add: same_elements_def)

lemma same_elements_swap: "same_elements (as @ bs) (bs @ as)"
  by (auto simp: same_elements_def)

text \<open>A copied string in front of others.\<close>

lemma copy_prepared:
  assumes "service_ok st" "known pRI r st"
  obtains (failed) st1 where "copyHidlStringToRil env ae pRI src st = Some (False, 0, st1)" "finished request pRI r st st1"
      "owns [] st st1" "service_ok st1" "vendor_calls st1 = vendor_calls st" "dataCallCids st1 = dataCallCids st"
      "sv_ril st1 = call_radio (Response (the (responseFunction (ri_pCI r))) (ri_socket_id r) RESPONSE_SOLICITED (ri_token r)
        RIL_E_NO_MEMORY (Bytes None)) (sv_ril st)"
  | (copied) p st1 where "copyHidlStringToRil env ae pRI src st = Some (True, p, st1)" "prepared (memsetAndFreeStrings [p]) st st1"
      "text_at st1 p = ril_string ae src"
proof -
  obtain ok p st1 where c: "copyHidlStringToRil env ae pRI src st = Some (ok, p, st1)"
    "service_ok st1" "vendor_calls st1 = vendor_calls st" "dataCallCids st1 = dataCallCids st"
    "owns (memsetAndFreeStrings [p]) st st1" "p \<noteq> 0 \<longrightarrow> sv_heap st1 p = Some (Text (c_str src))"
    "ok \<longrightarrow> sv_ril st1 = sv_ril st \<and> (p = 0 \<longleftrightarrow> src = [] \<and> \<not> ae)"
    "\<not> ok \<longrightarrow> p = 0 \<and> sv_ril st1 = call_radio (Response (the (responseFunction (ri_pCI r))) (ri_socket_id r) RESPONSE_SOLICITED (ri_token r)
        RIL_E_NO_MEMORY (Bytes None)) (sv_ril st)"
    by (rule copy_spec [OF assms])
  show ?thesis
  proof (cases ok)
    case True
    then show ?thesis using c copied [of p st1] by (auto simp: prepared_def text_at_def ril_string_def)
  next
    case False
    then have "owns [] st st1" using c(5,8) by (simp add: memsetAndFreeStrings_def)
    moreover have "finished request pRI r st st1"
      using copies_failed [OF assms \<open>owns [] st st1\<close> c(2,3,4)] c(8) False by simp
    ultimately show ?thesis using c False failed [of st1] by simp
  qed
qed

lemma iccIOForApp_settled:
  assumes "service_ok st" "c_str (io_path io) \<noteq> ''3F00''"
  shows "\<exists>st'. iccIOForApp env slotId serial io st = Some st' \<and> settled RIL_REQUEST_SIM_IO slotId serial st st'"
proof -
  have served: "served RIL_REQUEST_SIM_IO" by (rule servedI) simp_all
  show ?thesis unfolding iccIOForApp_def
  proof (rule with_request_settled [OF assms(1) served], goal_cases)
    case (1 pRI r st1)
    note st1 = 1(1,2)
    show ?case
    proof (rule copy_prepared [OF st1, of env False "io_path io"])
      fix st2
      assume "copyHidlStringToRil env False pRI (io_path io) st1 = Some (False, 0, st2)" "finished RIL_REQUEST_SIM_IO pRI r st1 st2"
      then show ?thesis by simp
    next
      fix path st2
      assume path: "copyHidlStringToRil env False pRI (io_path io) st1 = Some (True, path, st2)"
        "prepared (memsetAndFreeStrings [path]) st1 st2" "text_at st2 path = ril_string False (io_path io)"
      have keep: "(if path \<noteq> 0 \<and> text_at st2 path = Some ''3F00'' then 0 else path) = path"
        using path(3) assms(2) by (simp add: ril_string_def)
      have st2: "service_ok st2" "known pRI r st2" using path(2) prepared_known [OF path(2)] st1 by (simp_all add: prepared_def)
      show ?thesis
      proof (rule copies_prepared [OF st2, of env False "[io_data io, io_pin2 io, io_aid io]"])
        fix ps st3
        assume f: "copy_strings env False pRI [io_data io, io_pin2 io, io_aid io] st2 = Some (False, ps, st3)" "owns (memsetAndFreeStrings ps) st2 st3"
          "service_ok st3" "vendor_calls st3 = vendor_calls st2" "dataCallCids st3 = dataCallCids st2"
          "sv_ril st3 = call_radio (Response (the (responseFunction (ri_pCI r))) (ri_socket_id r) RESPONSE_SOLICITED (ri_token r)
            RIL_E_NO_MEMORY (Bytes None)) (sv_ril st2)"
        have "\<exists>st'. free_all (memsetAndFreeStrings (path # ps)) st3 = Some st' \<and> finished RIL_REQUEST_SIM_IO pRI r st1 st'"
          by (rule failed_after [OF st1 path(2) f(2-6)]) (simp add: memsetAndFreeStrings_Cons [of path ps])
        then show ?thesis unfolding path(1) option.case prod.case Let_def keep f(1) by simp
      next
        fix ps st3
        assume c: "copy_strings env False pRI [io_data io, io_pin2 io, io_aid io] st2 = Some (True, ps, st3)"
          "prepared (memsetAndFreeStrings ps) st2 st3" "length ps = length [io_data io, io_pin2 io, io_aid io]"
        have ps: "[path, ps ! 0, ps ! 1, ps ! 2] = path # ps" using length3 [of ps] c(3) by simp
        have "buffer_frees (FMT_SIMIO path (ps ! 0) (ps ! 1) (ps ! 2)) = memsetAndFreeStrings [path, ps ! 0, ps ! 1, ps ! 2]"
          by (simp add: buffer_frees_def)
        then have "prepared (buffer_frees (FMT_SIMIO path (ps ! 0) (ps ! 1) (ps ! 2))) st1 st3"
          using prepared_trans [OF path(2) c(2)] unfolding ps memsetAndFreeStrings_Cons [of path ps] by simp
        then show ?thesis unfolding path(1) option.case prod.case Let_def keep c(1) using enqueue_finished [OF st1] by simp
      qed
    qed
  qed
qed

lemma E_nonzero [simp]: "E_REQUEST_NOT_SUPPORTED \<noteq> 0" "E_INVALID_ARGUMENTS \<noteq> 0" "RIL_E_NO_MEMORY \<noteq> (0 :: u32)"
  by (simp_all add: E_REQUEST_NOT_SUPPORTED_def E_INVALID_ARGUMENTS_def RIL_E_NO_MEMORY_def)

lemma error_now_finished:
  assumes "service_ok st" "known pRI r st" "err \<noteq> 0"
  shows "\<exists>st'. sendErrorResponse pRI err st = Some st' \<and> finished request pRI r st st'"
  using assms by (intro error_finished) simp_all

lemma dispatchImsGsmSms_finished:
  assumes st: "service_ok st" "known pRI r st"
  shows "\<exists>st'. dispatchImsGsmSms env m pRI st = Some st' \<and> finished RIL_REQUEST_IMS_SEND_SMS pRI r st st'"
proof (cases "\<exists>gsm. ims_gsmMessage m = [gsm]")
  case False
  then have "dispatchImsGsmSms env m pRI st = sendErrorResponse pRI E_INVALID_ARGUMENTS st"
    by (auto simp: dispatchImsGsmSms_def split: list.split)
  then show ?thesis using error_now_finished [OF st] by simp
next
  case True
  then obtain gsm where g: "ims_gsmMessage m = [gsm]" ..
  obtain a st1 where alloc: "calloc env (Pointers []) st = (a, st1)" by fastforce
  show ?thesis
  proof (cases "a = 0")
    case True
    then show ?thesis using no_memory_finished [OF st] alloc g by (simp add: dispatchImsGsmSms_def)
  next
    case False
    note p = calloc_prepared [OF st(1) alloc False]
    have st1: "service_ok st1" "known pRI r st1" using p prepared_known [OF p(1)] st by (simp_all add: prepared_def)
    show ?thesis
    proof (rule copies_prepared [OF st1, of env False "[sms_smscPdu gsm, sms_pdu gsm]"])
      fix ps st3
      assume f: "copy_strings env False pRI [sms_smscPdu gsm, sms_pdu gsm] st1 = Some (False, ps, st3)" "owns (memsetAndFreeStrings ps) st1 st3"
        "service_ok st3" "vendor_calls st3 = vendor_calls st1" "dataCallCids st3 = dataCallCids st1"
        "sv_ril st3 = call_radio (Response (the (responseFunction (ri_pCI r))) (ri_socket_id r) RESPONSE_SOLICITED (ri_token r)
          RIL_E_NO_MEMORY (Bytes None)) (sv_ril st1)"
      have "\<exists>st'. free_all (memsetAndFreeStrings ps @ [a]) st3 = Some st' \<and> finished RIL_REQUEST_IMS_SEND_SMS pRI r st st'"
        by (rule failed_after [OF st p(1) f(2-6) same_elements_swap])
      then show ?thesis using alloc False g f(1) by (simp add: dispatchImsGsmSms_def)
    next
      fix ps st3
      assume c: "copy_strings env False pRI [sms_smscPdu gsm, sms_pdu gsm] st1 = Some (True, ps, st3)"
        "prepared (memsetAndFreeStrings ps) st1 st3" "length ps = length [sms_smscPdu gsm, sms_pdu gsm]"
      have "buffer_frees (FMT_ImsSms a (ps ! 0) (ps ! 1)) = memsetAndFreeStrings ps @ [a]"
        using length2 [of ps] c(3) by (simp add: buffer_frees_def)
      then have "prepared (buffer_frees (FMT_ImsSms a (ps ! 0) (ps ! 1))) st st3"
        using prepared_perm [OF same_elements_swap prepared_trans [OF p(1) c(2)]] by simp
      from enqueue_finished [OF st this] show ?thesis using alloc False g c(1) by (simp add: dispatchImsGsmSms_def)
    qed
  qed
qed

lemma sendImsSms_settled:
  assumes "service_ok st"
  shows "\<exists>st'. sendImsSms env slotId serial m st = Some st' \<and> settled RIL_REQUEST_IMS_SEND_SMS slotId serial st st'"
proof -
  have served: "served RIL_REQUEST_IMS_SEND_SMS" by (rule servedI) simp_all
  have cdma: "\<exists>st'. dispatchImsCdmaSms env m pRI st1 = Some st' \<and> finished RIL_REQUEST_IMS_SEND_SMS pRI r st1 st'"
    if "service_ok st1" "known pRI r st1" for pRI r st1
    using enqueue_finished [OF that, of FMT_RAW st1] error_now_finished [OF that] prepared_refl [OF that(1)]
    by (simp add: dispatchImsCdmaSms_def split: list.split)
  show ?thesis unfolding sendImsSms_def
    by (rule with_request_settled [OF assms served]) (simp add: dispatchImsGsmSms_finished cdma error_now_finished)
qed

lemma setAllowedCarriers_settled:
  assumes "service_ok st"
  shows "\<exists>st'. setAllowedCarriers env slotId serial all al ex st = Some st' \<and> settled RIL_REQUEST_SET_CARRIER_RESTRICTIONS slotId serial st st'"
proof -
  have served: "served RIL_REQUEST_SET_CARRIER_RESTRICTIONS" by (rule servedI) simp_all
  show ?thesis unfolding setAllowedCarriers_def
  proof (rule with_request_settled [OF assms served], goal_cases)
    case (1 pRI r st1)
    note st1 = 1(1,2)
    obtain a st2 where a: "calloc_n env (length al) (Structs (length al)) st1 = (a, st2)" by fastforce
    obtain b st3 where b: "calloc_n env (length ex) (Structs (length ex)) st2 = (b, st3)" by fastforce
    show ?case
    proof (cases "a = 0")
      case True
      then show ?thesis using no_memory_finished [OF st1] a by simp
    next
      case False
      note p = calloc_prepared [OF st1(1) a False]
      have st2: "service_ok st2" "known pRI r st2" using p prepared_known [OF p(1)] st1 by (simp_all add: prepared_def)
      show ?thesis
      proof (cases "b = 0")
        case True
        have "prepared [] st2 st3" using calloc_spec [OF st2(1) b] True by (simp add: prepared_def owns_def)
        from prepared_trans [OF p(1) this] have "prepared [a] st1 st3" by simp
        from error_free_finished [OF st1 this E_nonzero(3)] show ?thesis using a b False True by simp
      next
        case b': False
        have "prepared [a, b] st1 st3" using prepared_trans [OF p(1) calloc_prepared(1) [OF st2(1) b b']] by simp
        from enqueue_free_finished [OF st1 this] show ?thesis using a b False b' by simp
      qed
    qed
  qed
qed

lemma fill_nulls_prepared:
  "service_ok st \<Longrightarrow> fill_nulls env ps st = (ps', st') \<Longrightarrow>
    \<exists>more. prepared more st st' \<and> same_elements (memsetAndFreeStrings ps @ more) (memsetAndFreeStrings ps') \<and> length ps' = length ps"
proof (induction ps arbitrary: st ps' st')
  case Nil
  then show ?case using prepared_refl by (intro exI [of _ "[]"]) simp
next
  case (Cons p ps)
  obtain q st1 where q: "(if p = 0 then calloc env (Text []) st else (p, st)) = (q, st1)" by fastforce
  obtain qs st2 where qs: "fill_nulls env ps st1 = (qs, st2)" by fastforce
  have res: "ps' = q # qs" "st' = st2" using Cons.prems(2) q qs by (auto simp: case_prod_beta split: if_splits)
  have "\<exists>new. prepared new st st1 \<and> same_elements (memsetAndFreeStrings [p] @ new) (memsetAndFreeStrings [q])"
  proof (cases "p = 0")
    case True
    then have alloc: "calloc env (Text []) st = (q, st1)" using q by simp
    show ?thesis
    proof (cases "q = 0")
      case True
      then have "prepared [] st st1" using calloc_spec [OF Cons.prems(1) alloc] by (simp add: prepared_def owns_def)
      then show ?thesis using \<open>p = 0\<close> True by (intro exI [of _ "[]"]) (simp add: memsetAndFreeStrings_def)
    next
      case False
      then show ?thesis using calloc_prepared [OF Cons.prems(1) alloc False] \<open>p = 0\<close>
        by (intro exI [of _ "[q]"]) (simp add: memsetAndFreeStrings_def)
    qed
  next
    case False
    then show ?thesis using q prepared_refl [OF Cons.prems(1)] by (intro exI [of _ "[]"]) simp
  qed
  then obtain new where new: "prepared new st st1" "same_elements (memsetAndFreeStrings [p] @ new) (memsetAndFreeStrings [q])" by auto
  then have "service_ok st1" by (simp add: prepared_def)
  from Cons.IH [OF this qs] obtain more where more: "prepared more st1 st2"
    "same_elements (memsetAndFreeStrings ps @ more) (memsetAndFreeStrings qs)" "length qs = length ps" by auto
  have "prepared (new @ more) st st2" by (rule prepared_trans [OF new(1) more(1)])
  moreover have "same_elements (memsetAndFreeStrings (p # ps) @ new @ more) (memsetAndFreeStrings (q # qs))"
    using new(2) more(2) unfolding memsetAndFreeStrings_Cons [of p ps] memsetAndFreeStrings_Cons [of q qs]
    by (auto simp: same_elements_def)
  ultimately show ?case using more(3) res by auto
qed

lemma setInitialAttachApn_settled:
  assumes "service_ok st"
    and usable: "version (sv_ril st) \<le> 14 \<longrightarrow> (\<forall>a. sv_calloc env a) \<and> (\<exists>p. operator_numeric (sv_props env) slotId = Some (Some p))"
  shows "\<exists>st'. setInitialAttachApn env slotId serial dp mc isRoaming st = Some st' \<and> settled RIL_REQUEST_SET_INITIAL_ATTACH_APN slotId serial st st'"
proof -
  have served: "served RIL_REQUEST_SET_INITIAL_ATTACH_APN" by (rule servedI) simp_all
  show ?thesis unfolding setInitialAttachApn_def
  proof (rule with_request_settled [OF assms(1) served], goal_cases)
    case (1 pRI r st1)
    note st1 = 1(1,2)
    show ?case
    proof (cases "version (sv_ril st) \<le> 14")
      case True
      then obtain num where num: "operator_numeric (sv_props env) slotId = Some (Some num)" and mem: "\<And>a. sv_calloc env a" using usable by auto
      show ?thesis unfolding 1(3) if_P [OF True]
      proof (rule with_strings_finished [OF st1], goal_cases)
        case (1 ps st2)
        obtain qs st3 where qs: "fill_nulls env ps st2 = (qs, st3)" by fastforce
        obtain a st4 where a: "calloc env (Text (take 8 num)) st3 = (a, st4)" by fastforce
        have "service_ok st2" using 1(1) by (simp add: prepared_def)
        from fill_nulls_prepared [OF this qs] obtain more where more: "prepared more st2 st3"
          "same_elements (memsetAndFreeStrings ps @ more) (memsetAndFreeStrings qs)" "length qs = length ps" by auto
        have p3: "prepared (memsetAndFreeStrings qs) st1 st3" by (rule prepared_perm [OF more(2) prepared_trans [OF 1(1) more(1)]])
        then have ok3: "service_ok st3" by (simp add: prepared_def)
        have "a \<noteq> 0" using a mem ok3 by (auto simp: calloc_n_def service_ok_def Let_def split: if_splits)
        have "length ps = 4" using arg_cong [OF 1(2), of length] by simp
        then have eq: "[qs ! 0, qs ! 1, qs ! 2, qs ! 3] = qs" using length4 [of qs] more(3) by simp
        have "buffer_frees (FMT_AttchAPN (qs ! 0) (qs ! 1) (qs ! 2) (qs ! 3) a) = memsetAndFreeStrings ([qs ! 0, qs ! 1, qs ! 2, qs ! 3] @ [a])"
          by (simp add: buffer_frees_def)
        then have "buffer_frees (FMT_AttchAPN (qs ! 0) (qs ! 1) (qs ! 2) (qs ! 3) a) = memsetAndFreeStrings qs @ [a]"
          unfolding eq using \<open>a \<noteq> 0\<close> by (simp add: memsetAndFreeStrings_def)
        then have "prepared (buffer_frees (FMT_AttchAPN (qs ! 0) (qs ! 1) (qs ! 2) (qs ! 3) a)) st1 st4"
          using prepared_trans [OF p3 calloc_prepared(1) [OF ok3 a \<open>a \<noteq> 0\<close>]] by simp
        from enqueue_finished [OF st1 this] show ?case using qs num a \<open>a \<noteq> 0\<close> by simp
      qed
    next
      case False
      show ?thesis unfolding 1(3) if_not_P [OF False]
      proof (rule with_strings_finished [OF st1], goal_cases)
        case (1 ps st2)
        have st2: "service_ok st2" "known pRI r st2" using 1(1) prepared_known [OF 1(1)] st1 by (simp_all add: prepared_def)
        show ?case
        proof (cases "convertMvnoTypeToString (dp_mvnoType dp)")
          case None
          then show ?thesis using error_free_finished [OF st1 1(1) E_nonzero(2)] by simp
        next
          case (Some mvno)
          show ?thesis
          proof (rule copy_prepared [OF st2, of env False "dp_mvnoMatchData dp"])
            fix st3
            assume f: "copyHidlStringToRil env False pRI (dp_mvnoMatchData dp) st2 = Some (False, 0, st3)"
              "owns [] st2 st3" "service_ok st3" "vendor_calls st3 = vendor_calls st2" "dataCallCids st3 = dataCallCids st2"
              "sv_ril st3 = call_radio (Response (the (responseFunction (ri_pCI r))) (ri_socket_id r) RESPONSE_SOLICITED (ri_token r)
                RIL_E_NO_MEMORY (Bytes None)) (sv_ril st2)"
            have "\<exists>st'. free_all (memsetAndFreeStrings ps) st3 = Some st' \<and> finished RIL_REQUEST_SET_INITIAL_ATTACH_APN pRI r st1 st'"
              by (rule failed_after [OF st1 1(1) f(2-6)]) simp
            then show ?thesis using Some f(1) by simp
          next
            fix m st3
            assume c: "copyHidlStringToRil env False pRI (dp_mvnoMatchData dp) st2 = Some (True, m, st3)" "prepared (memsetAndFreeStrings [m]) st2 st3"
            have "prepared (memsetAndFreeStrings (ps @ [m])) st1 st3"
              using prepared_trans [OF 1(1) c(2)] by (simp add: memsetAndFreeStrings_def)
            from enqueue_free_finished [OF st1 this] show ?thesis using Some c(1) by simp
          qed
        qed
      qed
    qed
  qed
qed

text \<open>The copies of \<open>setDataProfile\<close>, and the order in which its helper frees them.\<close>

lemma copy_strings_length: "copy_strings env ae pRI strs st = Some (ok, ps, st') \<Longrightarrow> length ps \<le> length strs"
  by (induction strs arbitrary: st ps) (auto split: option.splits if_splits)

lemma free_zeros [simp]: "memsetAndFreeStrings (ps @ replicate n 0) = memsetAndFreeStrings ps"
  by (simp add: memsetAndFreeStrings_def)

lemma copy_profiles_spec:
  assumes "service_ok st" "known pRI r st" "\<And>dp. length (strs dp) = n"
  obtains ok qs st1 where "copy_profiles env pRI strs valid dps st = Some (ok, qs, st1)" "service_ok st1" "vendor_calls st1 = vendor_calls st"
    "dataCallCids st1 = dataCallCids st" "owns (memsetAndFreeStrings (concat qs)) st st1" "\<forall>q \<in> set qs. length q = n"
    "ok \<longrightarrow> sv_ril st1 = sv_ril st \<and> length qs = length dps"
    "\<not> ok \<longrightarrow> (\<exists>err. err \<noteq> 0 \<and> sv_ril st1 = call_radio (Response (the (responseFunction (ri_pCI r))) (ri_socket_id r) RESPONSE_SOLICITED (ri_token r)
        err (Bytes None)) (sv_ril st))"
  using assms(1,2)
proof (induction dps arbitrary: st thesis)
  case Nil
  show ?case by (rule Nil(1) [of True "[]" st]) (use Nil(2) in \<open>simp_all add: memsetAndFreeStrings_def\<close>)
next
  case (Cons dp dps)
  show ?case
  proof (rule copies_prepared [OF Cons.prems(2,3), of env False "strs dp"])
    fix ps st1
    assume f: "copy_strings env False pRI (strs dp) st = Some (False, ps, st1)" "owns (memsetAndFreeStrings ps) st st1"
      "service_ok st1" "vendor_calls st1 = vendor_calls st" "dataCallCids st1 = dataCallCids st"
      "sv_ril st1 = call_radio (Response (the (responseFunction (ri_pCI r))) (ri_socket_id r) RESPONSE_SOLICITED (ri_token r)
        RIL_E_NO_MEMORY (Bytes None)) (sv_ril st)"
    have "length ps \<le> n" using copy_strings_length [OF f(1)] assms(3) by simp
    then show ?thesis by (intro Cons.prems(1) [of False "[ps @ replicate (length (strs dp) - length ps) 0]" st1])
      (use f assms(3) in \<open>auto intro: exI [of _ RIL_E_NO_MEMORY]\<close>)
  next
    fix ps st1
    assume c: "copy_strings env False pRI (strs dp) st = Some (True, ps, st1)" "prepared (memsetAndFreeStrings ps) st st1"
      "length ps = length (strs dp)"
    have st1: "service_ok st1" "known pRI r st1" using c(2) prepared_known [OF c(2)] Cons.prems(3) by (simp_all add: prepared_def)
    show ?thesis
    proof (cases "valid dp")
      case False
      obtain f where f: "responseFunction (ri_pCI r) = Some f"
        "sendErrorResponse pRI E_INVALID_ARGUMENTS st1 =
          Some (st1\<lparr>sv_ril := call_radio (Response f (ri_socket_id r) RESPONSE_SOLICITED (ri_token r) E_INVALID_ARGUMENTS (Bytes None)) (sv_ril st1)\<rparr>)"
        by (rule sendErrorResponse_spec [OF st1(2)])
      let ?st = "st1\<lparr>sv_ril := call_radio (Response f (ri_socket_id r) RESPONSE_SOLICITED (ri_token r) E_INVALID_ARGUMENTS (Bytes None)) (sv_ril st1)\<rparr>"
      have "copy_profiles env pRI strs valid (dp # dps) st = Some (False, [ps], ?st)" using c(1) False f(2) by simp
      then show ?thesis
        by (rule Cons.prems(1)) (use c f(1) assms(3) in \<open>auto simp: prepared_def owns_def service_ok_def intro: exI [of _ E_INVALID_ARGUMENTS]\<close>)
    next
      case True
      show ?thesis
      proof (rule Cons.IH [OF _ st1])
        fix ok qs st2
        assume i: "copy_profiles env pRI strs valid dps st1 = Some (ok, qs, st2)" "service_ok st2" "vendor_calls st2 = vendor_calls st1"
          "dataCallCids st2 = dataCallCids st1" "owns (memsetAndFreeStrings (concat qs)) st1 st2" "\<forall>q \<in> set qs. length q = n"
          "ok \<longrightarrow> sv_ril st2 = sv_ril st1 \<and> length qs = length dps"
          "\<not> ok \<longrightarrow> (\<exists>err. err \<noteq> 0 \<and> sv_ril st2 = call_radio (Response (the (responseFunction (ri_pCI r))) (ri_socket_id r) RESPONSE_SOLICITED (ri_token r)
            err (Bytes None)) (sv_ril st1))"
        have same: "sv_ril st1 = sv_ril st" "vendor_calls st1 = vendor_calls st" "dataCallCids st1 = dataCallCids st"
          "owns (memsetAndFreeStrings ps) st st1" using c(2) by (simp_all add: prepared_def)
        have "owns (memsetAndFreeStrings (concat (ps # qs))) st st2"
          using owns_trans [OF same(4) i(5) st1(1)] by (simp add: memsetAndFreeStrings_def)
        then show ?thesis by (intro Cons.prems(1) [of ok "ps # qs" st2]) (use c i same assms(3) True in auto)
      qed
    qed
  qed
qed

lemma length_free: "length (memsetAndFreeStrings q) = (\<Sum>i\<leftarrow>[0..<length q]. if q ! i \<noteq> 0 then 1 else 0)"
proof -
  have "length (filter (\<lambda>p. p \<noteq> 0) q) = (\<Sum>p\<leftarrow>q. if p \<noteq> 0 then 1 else 0)" by (induction q) simp_all
  also have "\<dots> = (\<Sum>p\<leftarrow>map ((!) q) [0..<length q]. if p \<noteq> 0 then 1 else 0)" by (simp only: map_nth)
  finally show ?thesis by (simp add: memsetAndFreeStrings_def comp_def)
qed

lemma free_columns:
  assumes "\<forall>q \<in> set qs. length q = n"
  shows "same_elements (memsetAndFreeStrings (concat qs)) (concat (map (\<lambda>i. memsetAndFreeStrings (map (\<lambda>q. q ! i) qs)) [0..<n]))"
proof -
  have elems: "set (memsetAndFreeStrings (concat qs)) = set (concat (map (\<lambda>i. memsetAndFreeStrings (map (\<lambda>q. q ! i) qs)) [0..<n]))"
    using assms by (fastforce simp: memsetAndFreeStrings_def in_set_conv_nth)
  have "length (memsetAndFreeStrings (concat qs)) = (\<Sum>i\<leftarrow>[0..<n]. length (memsetAndFreeStrings (map (\<lambda>q. q ! i) qs)))"
    using assms
  proof (induction qs)
    case Nil
    then show ?case by (simp add: memsetAndFreeStrings_def)
  next
    case (Cons q qs)
    have "length (memsetAndFreeStrings (concat (q # qs))) = length (memsetAndFreeStrings q) + length (memsetAndFreeStrings (concat qs))"
      by (simp add: memsetAndFreeStrings_def)
    also have "\<dots> = (\<Sum>i\<leftarrow>[0..<n]. (if q ! i \<noteq> 0 then 1 else 0) + length (memsetAndFreeStrings (map (\<lambda>q. q ! i) qs)))"
      using Cons unfolding length_free [of q] by (simp add: sum_list_addf)
    also have "(\<lambda>i. (if q ! i \<noteq> 0 then 1 else 0) + length (memsetAndFreeStrings (map (\<lambda>q. q ! i) qs))) =
        (\<lambda>i. length (memsetAndFreeStrings (map (\<lambda>q. q ! i) (q # qs))))"
      by (simp add: memsetAndFreeStrings_def fun_eq_iff)
    finally show ?case .
  qed
  then show ?thesis using elems by (simp add: same_elements_def length_concat comp_def)
qed

text \<open>A hand-over that frees some of the copies and leaves the other allocations behind.\<close>

lemma enqueue_left:
  assumes st: "service_ok st" "known pRI r st" and p: "prepared (as @ bs) st st1" "same_elements as (buffer_frees buf)"
    and bs: "\<forall>b \<in> set bs. \<exists>c. sv_heap st1 b = Some c \<and> (\<forall>s. c \<noteq> Text s)"
  shows "\<exists>st'. enqueue env request data buf pRI st1 = Some st' \<and> finished request pRI r st st'"
proof -
  let ?st0 = "st\<lparr>sv_heap := sv_heap st1 |` (- set as)\<rparr>"
  have ok: "service_ok st1" and own: "owns (as @ bs) st st1" using p by (simp_all add: prepared_def)
  have heap: "sv_heap st1 |` (- set (as @ bs)) = sv_heap st" and le: "sv_fresh st \<le> sv_fresh st1"
    and fresh: "\<And>x. x \<in> set (as @ bs) \<Longrightarrow> sv_fresh st \<le> x" using own by (simp_all add: owns_def)
  have "owns as ?st0 st1" using own by (simp add: owns_def)
  then have "owns (buffer_frees buf) ?st0 st1" using p(2) unfolding owns_def same_elements_def by (metis card_distinct distinct_card)
  moreover have "known pRI r st1" using prepared_known [OF p(1)] st(2) by simp
  ultimately obtain st' where st': "enqueue env request data buf pRI st1 = Some st'"
    "sv_heap st' = sv_heap ?st0" "sv_fresh st' = sv_fresh st1" "same_lists st1 st'" "radio_calls (sv_ril st') = radio_calls (sv_ril st1)"
    "vendor_calls st' = vendor_calls st1 @ [\<lparr>vc_request = request, vc_data = data, vc_token = pRI, vc_socket = ri_socket_id r\<rparr>]"
    using enqueue_spec ok by blast
  have "service_ok st'" using st'(2,3,4) ok by (auto simp: service_ok_def same_lists_def restrict_map_def)
  moreover have "sv_heap st' x = sv_heap st x \<or> (\<exists>c. sv_heap st' x = Some c \<and> sv_fresh st \<le> x \<and> (\<forall>s. c \<noteq> Text s))" for x
  proof (cases "x \<in> set (as @ bs)")
    case True
    then show ?thesis using st'(2) bs fresh [OF True] st(1) by (cases "x \<in> set as") (auto simp: service_ok_def)
  next
    case False
    then show ?thesis using st'(2) fun_cong [OF heap, of x] by simp
  qed
  ultimately show ?thesis using st' p(1) le by (auto simp: finished_def forwarded_def prepared_def same_lists_def no_text_left_def)
qed

lemma owns_perm: "same_elements as bs \<Longrightarrow> owns as st st1 \<Longrightarrow> owns bs st st1"
  unfolding owns_def same_elements_def by (metis card_distinct distinct_card)

lemma owns_keeps: "owns as st st1 \<Longrightarrow> sv_heap st a = Some c \<Longrightarrow> sv_heap st1 a = Some c"
  unfolding owns_def by (metis option.distinct(1) restrict_map_def)

lemma profile_arrays_finished:
  assumes st: "service_ok st" "known pRI r st"
    and k: "\<And>a b st1. prepared [a, b] st st1 \<Longrightarrow> sv_heap st1 a = Some (Structs num) \<Longrightarrow> sv_heap st1 b = Some (Pointers []) \<Longrightarrow>
      \<exists>st'. k a b st1 = Some st' \<and> finished request pRI r st st'"
  shows "\<exists>st'. with_profile_arrays env pRI num k st = Some st' \<and> finished request pRI r st st'"
proof -
  obtain a st1 where a: "calloc_n env num (Structs num) st = (a, st1)" by fastforce
  obtain b st2 where b: "calloc env (Pointers []) st1 = (b, st2)" by fastforce
  consider "a = 0" | "a \<noteq> 0" "b = 0" | "a \<noteq> 0" "b \<noteq> 0" by blast
  then show ?thesis
  proof cases
    case 1
    then show ?thesis using no_memory_finished [OF st] a by (simp add: with_profile_arrays_def)
  next
    case 2
    note p = calloc_prepared [OF st(1) a 2(1)]
    then have "service_ok st1" by (simp add: prepared_def)
    note q = calloc_spec [OF this b]
    have o: "owns [a] st st2" using p(1) q 2(2) by (auto simp: prepared_def owns_def)
    have le: "sv_fresh st \<le> sv_fresh st2" using o by (simp add: owns_def)
    have ok: "service_ok (st2\<lparr>sv_heap := sv_heap st\<rparr>)" using st(1) q le by (auto simp: service_ok_def)
    have "\<exists>st'. sendErrorResponse pRI RIL_E_NO_MEMORY (st2\<lparr>sv_heap := sv_heap st\<rparr>) = Some st' \<and> finished request pRI r st st'"
      by (rule error_finished [OF st ok]) (use p(1) q le in \<open>simp_all add: prepared_def\<close>)
    then show ?thesis using a b 2 free_owned [OF o] by (simp add: with_profile_arrays_def)
  next
    case 3
    note p = calloc_prepared [OF st(1) a 3(1)]
    then have ok: "service_ok st1" by (simp add: prepared_def)
    note q = calloc_prepared [OF ok b 3(2)]
    have "sv_heap st2 a = Some (Structs num)" using owns_keeps [of "[b]" st1 st2] p(2) q(1) by (simp add: prepared_def)
    moreover have "prepared [a, b] st st2" using prepared_trans [OF p(1) q(1)] by simp
    ultimately show ?thesis using k [of a b st2] q(2) a b 3 by (simp add: with_profile_arrays_def)
  qed
qed

lemma profiles_copied:
  assumes st: "service_ok st" "known pRI r st" and p: "prepared [a, b] st st1" and n: "\<And>dp. length (strs dp) = n"
  obtains (failed) qs st2 where "copy_profiles env pRI strs valid dps st1 = Some (False, qs, st2)"
      "\<exists>st'. freeSetDataProfileData n qs a b st2 = Some st' \<and> finished request pRI r st st'"
  | (copied) qs st2 where "copy_profiles env pRI strs valid dps st1 = Some (True, qs, st2)"
      "length qs = length dps" "\<forall>q \<in> set qs. length q = n" "owns (memsetAndFreeStrings (concat qs)) st1 st2"
      "prepared (memsetAndFreeStrings (concat qs) @ [a, b]) st st2"
proof -
  have st1: "service_ok st1" "known pRI r st1" using p prepared_known [OF p] st by (simp_all add: prepared_def)
  have same: "sv_ril st1 = sv_ril st" "vendor_calls st1 = vendor_calls st" "dataCallCids st1 = dataCallCids st" "owns [a, b] st st1"
    using p by (simp_all add: prepared_def)
  obtain ok qs st2 where c: "copy_profiles env pRI strs valid dps st1 = Some (ok, qs, st2)" "service_ok st2" "vendor_calls st2 = vendor_calls st1"
    "dataCallCids st2 = dataCallCids st1" "owns (memsetAndFreeStrings (concat qs)) st1 st2" "\<forall>q \<in> set qs. length q = n"
    "ok \<longrightarrow> sv_ril st2 = sv_ril st1 \<and> length qs = length dps"
    "\<not> ok \<longrightarrow> (\<exists>err. err \<noteq> 0 \<and> sv_ril st2 = call_radio (Response (the (responseFunction (ri_pCI r))) (ri_socket_id r) RESPONSE_SOLICITED (ri_token r)
        err (Bytes None)) (sv_ril st1))"
    by (rule copy_profiles_spec [OF st1 n])
  have own: "owns (memsetAndFreeStrings (concat qs) @ [a, b]) st st2"
    by (rule owns_perm [OF same_elements_swap owns_trans [OF same(4) c(5) st1(1)]])
  show ?thesis
  proof (cases ok)
    case True
    then show ?thesis using c own same by (intro copied [of qs st2]) (simp_all add: prepared_def)
  next
    case False
    then obtain err where err: "err \<noteq> 0" "sv_ril st2 = call_radio (Response (the (responseFunction (ri_pCI r))) (ri_socket_id r) RESPONSE_SOLICITED (ri_token r)
        err (Bytes None)) (sv_ril st)" using c(8) same by auto
    have "same_elements (memsetAndFreeStrings (concat qs) @ [a, b])
        (concat (map (\<lambda>i. memsetAndFreeStrings (map (\<lambda>q. q ! i) qs)) [0..<n]) @ [a, b])"
      using free_columns [OF c(6)] unfolding same_elements_def by simp
    from answered_free [OF st owns_perm [OF this own] c(2) _ _ err(2,1)] show ?thesis
      using c(1,3,4) same False by (intro failed [of qs st2]) (simp_all add: freeSetDataProfileData_def)
  qed
qed

lemma setDataProfile_settled:
  assumes "service_ok st" "version (sv_ril st) \<le> 14 \<longrightarrow> length profiles \<le> 1"
  shows "\<exists>st'. setDataProfile env slotId serial profiles isRoaming st = Some st' \<and> settled RIL_REQUEST_SET_DATA_PROFILE slotId serial st st'"
proof -
  have served: "served RIL_REQUEST_SET_DATA_PROFILE" by (rule servedI) simp_all
  show ?thesis unfolding setDataProfile_def
  proof (rule with_request_settled [OF assms(1) served], goal_cases)
    case (1 pRI r st1)
    note st1 = 1(1,2) and v = 1(3)
    show ?case
    proof (rule profile_arrays_finished [OF st1], goal_cases)
      case (1 a b st2)
      have v2: "version (sv_ril st2) = version (sv_ril st)" using 1(1) v by (simp add: prepared_def)
      show ?case
      proof (cases "version (sv_ril st) \<le> 14")
        case True
        let ?strs = "\<lambda>dp. [dp_apn dp, if isRoaming then dp_roamingProtocol dp else dp_protocol dp, dp_user dp, dp_password dp]"
        show ?thesis
        proof (rule profiles_copied [OF st1 1(1), of ?strs 4 env "\<lambda>_. True" profiles])
          fix qs st3
          assume c: "copy_profiles env pRI ?strs (\<lambda>_. True) profiles st2 = Some (True, qs, st3)" "length qs = length profiles"
            "\<forall>q \<in> set qs. length q = 4" "owns (memsetAndFreeStrings (concat qs)) st2 st3"
            "prepared (memsetAndFreeStrings (concat qs) @ [a, b]) st1 st3"
          let ?buf = "FMT_DATAPROF (map (\<lambda>(i, q). (a + i, q ! 0, q ! 1, q ! 2, q ! 3)) (enumerate 0 qs))"
          have ab: "sv_heap st3 a = Some (Structs (length profiles))" "sv_heap st3 b = Some (Pointers [])" using owns_keeps [OF c(4)] 1 by simp_all
          have "\<exists>st'. enqueue env RIL_REQUEST_SET_DATA_PROFILE data ?buf pRI st3 = Some st' \<and> finished RIL_REQUEST_SET_DATA_PROFILE pRI r st1 st'" for data
          proof (cases qs)
            case Nil
            then have "buffer_frees ?buf = []" "memsetAndFreeStrings (concat qs) = []" by (simp_all add: buffer_frees_def memsetAndFreeStrings_def)
            then show ?thesis using enqueue_left [OF st1, of "[]" "[a, b]" st3 ?buf] c(5) ab by simp
          next
            case (Cons q qs')
            then have q: "qs = [q]" using c(2) assms(2) True by (cases qs') simp_all
            then have "q = [q ! 0, q ! 1, q ! 2, q ! 3]" using c(3) length4 by simp
            then have "memsetAndFreeStrings [q ! 0, q ! 1, q ! 2, q ! 3] = memsetAndFreeStrings (concat qs)" using q by simp
            then have frees: "same_elements (memsetAndFreeStrings (concat qs) @ [a]) (buffer_frees ?buf)" using q by (simp add: buffer_frees_def)
            have "prepared ((memsetAndFreeStrings (concat qs) @ [a]) @ [b]) st1 st3" using c(5) by simp
            from enqueue_left [OF st1 this frees] show ?thesis using ab by simp
          qed
          then show ?thesis using c(1) v2 True by simp
        qed (simp_all add: v2 True)
      next
        case False
        let ?strs = "\<lambda>dp. [dp_apn dp, dp_protocol dp, dp_roamingProtocol dp, dp_user dp, dp_password dp, dp_mvnoMatchData dp]"
        let ?valid = "\<lambda>dp. convertMvnoTypeToString (dp_mvnoType dp) \<noteq> None"
        show ?thesis
        proof (rule profiles_copied [OF st1 1(1), of ?strs 6 env ?valid profiles])
          fix qs st3
          assume c: "copy_profiles env pRI ?strs ?valid profiles st2 = Some (True, qs, st3)" "length qs = length profiles"
            "\<forall>q \<in> set qs. length q = 6" "owns (memsetAndFreeStrings (concat qs)) st2 st3"
            "prepared (memsetAndFreeStrings (concat qs) @ [a, b]) st1 st3"
          have "same_elements (memsetAndFreeStrings (concat qs) @ [a, b])
              (concat (map (\<lambda>i. memsetAndFreeStrings (map (\<lambda>q. q ! i) qs)) [0..<6]) @ [a, b])"
            using free_columns [OF c(3)] unfolding same_elements_def by simp
          from enqueue_free_finished [OF st1 prepared_perm [OF this c(5)]] show ?thesis
            unfolding v2 if_not_P [OF False] c(1) option.case prod.case freeSetDataProfileData_def by simp
        qed (simp_all add: v2 False)
      qed
    qed
  qed
qed

end
