(* ===== verification/RilRadioMethods.thy ===== *)
theory RilRadioMethods
  imports RilRadioCorrect
begin

text \<open>
  The methods of the radio service as one relation, and what a client that calls them one after the other
  can rely on. \<open>radio_method env v slotId serial request m\<close>: \<open>m\<close> is a call of the service of slot \<open>slotId\<close>
  with the given serial, for which the vendor's RIL of version \<open>v\<close> gets \<open>request\<close>. The conditions exclude the
  calls that go wrong: they are the subject of the last section.
\<close>

section \<open>The methods\<close>






section \<open>Sessions\<close>


text \<open>The state of the service when it is registered with a RIL of version \<open>v\<close>.\<close>

definition service_init :: "int \<Rightarrow> service" where
  "service_init v = \<lparr>sv_ril = ril_init\<lparr>version := v\<rparr>, sv_heap = Map.empty, sv_fresh = 1, vendor_calls = [], dataCallCids = replicate 5 (- 1)\<rparr>"

lemma service_init_ok [simp]: "service_ok (service_init v)" "version (sv_ril (service_init v)) = v"
  by (simp_all add: service_init_def service_ok_def ril_init_def)





section \<open>What the vendor is handed\<close>

lemma free_all_fields: "free_all as st = Some st' \<Longrightarrow> vendor_calls st' = vendor_calls st \<and> sv_ril st' = sv_ril st"
  by (induction as arbitrary: st) (auto split: if_splits)

lemma enqueue_vendor:
  assumes "enqueue env request data buf pRI st = Some st'" "known pRI r st"
  shows "vendor_calls st' = vendor_calls st @ [\<lparr>vc_request = request, vc_data = data, vc_token = pRI, vc_socket = ri_socket_id r\<rparr>]
    \<and> radio_calls (sv_ril st') = radio_calls (sv_ril st)"
  using assms free_all_fields by (fastforce simp: enqueue_def known_def split: prod.splits)

lemma copy_strings_memory:
  assumes "\<And>a. sv_calloc env a"
  shows "0 < sv_fresh st \<Longrightarrow> \<exists>ps st1. copy_strings env ae pRI strs st = Some (True, ps, st1)"
proof (induction strs arbitrary: st)
  case Nil
  then show ?case by simp
next
  case (Cons s strs)
  obtain p st1 where p: "copyHidlStringToRil env ae pRI s st = Some (True, p, st1)" "0 < sv_fresh st1"
    using Cons.prems assms that by (cases "s = [] \<and> \<not> ae") (simp_all add: copyHidlStringToRil_def calloc_n_def Let_def)
  then show ?case using Cons.IH [of st1] by auto
qed

lemma dispatch_copies_vendor:
  assumes "service_ok st" "known pRI r st" and mem: "\<And>a. sv_calloc env a"
  shows "\<exists>st'. dispatch_copies env request ae strs pRI st = Some st' \<and> radio_calls (sv_ril st') = radio_calls (sv_ril st) \<and>
    vendor_calls st' = vendor_calls st @
      [\<lparr>vc_request = request, vc_data = The_strings (map (ril_string ae) strs), vc_token = pRI, vc_socket = ri_socket_id r\<rparr>]"
proof -
  obtain st' where st': "dispatch_copies env request ae strs pRI st = Some st'"
    using dispatch_copies_finished [OF assms(1,2)] by blast
  obtain a st1 where a: "calloc env (Pointers []) st = (a, st1)" by fastforce
  have "a \<noteq> 0" using a mem assms(1) by (auto simp: calloc_n_def service_ok_def Let_def)
  note p = calloc_prepared [OF assms(1) a this]
  have st1: "service_ok st1" "known pRI r st1" using p prepared_known [OF p(1)] assms by (simp_all add: prepared_def)
  obtain ok ps st2 where c: "copy_strings env ae pRI strs st1 = Some (ok, ps, st2)" "vendor_calls st2 = vendor_calls st1"
    "ok \<longrightarrow> sv_ril st2 = sv_ril st1 \<and> map (text_at st2) ps = map (ril_string ae) strs"
    by (rule copies_spec [OF st1])
  have ok: "ok" using copy_strings_memory [OF mem, of st1 ae pRI strs] c(1) st1(1) by (auto simp: service_ok_def)
  then have st2: "known pRI r st2" "map (text_at st2) ps = map (ril_string ae) strs"
    "vendor_calls st2 = vendor_calls st" "radio_calls (sv_ril st2) = radio_calls (sv_ril st)"
    using c st1(2) p(1) by (simp_all add: known_def prepared_def)
  obtain st3 buf where "enqueue env request (The_strings (map (ril_string ae) strs)) buf pRI st2 = Some st3"
    "vendor_calls st' = vendor_calls st3" "sv_ril st' = sv_ril st3"
    using st' a \<open>a \<noteq> 0\<close> c(1) ok st2(2) free_all_fields
    by (fastforce simp: dispatch_copies_def bind_eq_Some_conv split: if_splits)
  then show ?thesis using st' enqueue_vendor [OF _ st2(1)] st2(3,4) by simp
qed

lemma with_request_vendor:
  assumes "service_ok st" "served request" and mem: "\<And>a. sv_calloc env a"
    and k: "\<And>r st1. service_ok st1 \<Longrightarrow> known (sv_fresh st) r st1 \<Longrightarrow> \<exists>st'. k (sv_fresh st) st1 = Some st' \<and>
      radio_calls (sv_ril st') = radio_calls (sv_ril st1) \<and>
      vendor_calls st' = vendor_calls st1 @ [\<lparr>vc_request = request, vc_data = data, vc_token = sv_fresh st, vc_socket = ri_socket_id r\<rparr>]"
  shows "\<exists>st'. with_request env serial slotId request k st = Some st' \<and> radio_calls (sv_ril st') = radio_calls (sv_ril st) \<and>
    vendor_calls st' = vendor_calls st @ [\<lparr>vc_request = request, vc_data = data, vc_token = sv_fresh st, vc_socket = slotId\<rparr>]"
proof -
  obtain pRI st1 where n: "new_request env serial slotId request st = Some (pRI, st1)" "service_ok st1" "vendor_calls st1 = vendor_calls st"
    "pRI \<noteq> 0 \<longrightarrow> (\<exists>r. known pRI r st1 \<and> requests (sv_ril st) pRI = None \<and> requests (sv_ril st1) = (requests (sv_ril st))(pRI \<mapsto> r) \<and>
       pending slotId (sv_ril st1) = pRI # pending slotId (sv_ril st) \<and> radio_calls (sv_ril st1) = radio_calls (sv_ril st) \<and>
       ri_token r = serial \<and> ri_socket_id r = slotId \<and> ri_pCI r = s_commands ! nat request \<and> new_record serial request r)"
    by (rule new_request_spec [OF assms(1,2)])
  have pos: "0 < sv_fresh st" using assms(1) by (simp add: service_ok_def)
  have pRI: "pRI = sv_fresh st" using n(1) mem by (auto simp: new_request_def addRequestToList_def Let_def split: if_splits)
  then obtain r where r: "known (sv_fresh st) r st1" "radio_calls (sv_ril st1) = radio_calls (sv_ril st)" "ri_socket_id r = slotId"
    using n(4) pos by auto
  from k [OF n(2) r(1)] show ?thesis using n(1,3) pRI pos r(2,3) by (auto simp: with_request_def)
qed

section \<open>Properties\<close>


definition memory :: service_env where
  "memory = \<lparr>sv_calloc = (\<lambda>_. True), sv_onRequest = id, sv_self = 0, sv_props = (\<lambda>_. []), sv_ApnTypes_IMS = 64, sv_LOW_DATA_EXPECTED = 2\<rparr>"




text \<open>
  C30 (functional). With memory available, the vendor gets the framework's strings unchanged and in order, cut
  at a NUL as C strings are, an empty one as \<open>NULL\<close> in \<open>dispatchStrings\<close> and as an empty string in
  \<open>dispatchStringsKeepEmpty\<close>; no response is sent.
\<close>

theorem strings_reach_vendor:
  assumes "service_ok st" "served request" "\<And>a. sv_calloc env a"
  shows "\<exists>st'. dispatchStringsV env serial slotId request allowEmpty strs st = Some st' \<and> radio_calls (sv_ril st') = radio_calls (sv_ril st) \<and>
    vendor_calls st' = vendor_calls st @
      [\<lparr>vc_request = request, vc_data = The_strings (map (\<lambda>s. if c_str s = [] \<and> \<not> allowEmpty then None else Some (c_str s)) strs),
        vc_token = sv_fresh st, vc_socket = slotId\<rparr>]"
proof -
  have eq: "map (\<lambda>s. if c_str s = [] \<and> \<not> allowEmpty then None else Some (c_str s)) strs = map (ril_string allowEmpty) (map c_str strs)"
    by (simp add: ril_string_def c_str_def)
  show ?thesis unfolding dispatchStringsV_def eq
    by (rule with_request_vendor [OF assms], rule dispatch_copies_vendor [OF _ _ assms(3)])
qed

lemma strings_reach_vendor_witness:
  "\<exists>st'. dispatchStringsV memory 7 0 RIL_REQUEST_ENTER_SIM_PIN False [''1234'', []] (service_init 11) = Some st' \<and>
    vendor_calls st' = [\<lparr>vc_request = RIL_REQUEST_ENTER_SIM_PIN, vc_data = The_strings [Some ''1234'', None], vc_token = 1, vc_socket = 0\<rparr>]"
proof -
  have "served RIL_REQUEST_ENTER_SIM_PIN" by (rule servedI) simp_all
  moreover have "\<And>a. sv_calloc memory a" by (simp add: memory_def)
  ultimately have "\<exists>st'. dispatchStringsV memory 7 0 RIL_REQUEST_ENTER_SIM_PIN False [''1234'', []] (service_init 11) = Some st' \<and>
      radio_calls (sv_ril st') = radio_calls (sv_ril (service_init 11)) \<and> vendor_calls st' = vendor_calls (service_init 11) @
      [\<lparr>vc_request = RIL_REQUEST_ENTER_SIM_PIN,
        vc_data = The_strings (map (\<lambda>s. if c_str s = [] \<and> \<not> False then None else Some (c_str s)) [''1234'', []]),
        vc_token = sv_fresh (service_init 11), vc_socket = 0\<rparr>]"
    by (intro strings_reach_vendor service_init_ok)
  moreover have "c_str ''1234'' = ''1234''" "c_str [] = []" by (simp_all add: c_str_def)
  ultimately show ?thesis by (auto simp: service_init_def)
qed

section \<open>Calls that go wrong\<close>

text \<open>The record of \<open>setSimCardPower\<close> takes its entry, and with it its response function, from the table of standard requests.\<close>

lemma setSimCardPower_answers_dial:
  assumes "sv_calloc env 1"
  shows "\<exists>st' r. setSimCardPower env slotId serial powerUp (service_init v) = Some st' \<and> requests (sv_ril st') 1 = Some r \<and>
    responseFunction (ri_pCI r) = Some (if powerUp then ''iccIOForAppResponse'' else ''dialResponse'')"
  using assms
  by (simp add: setSimCardPower_def dispatchVoid_def with_request_def new_request_def addRequestToList_def service_init_def ril_init_def
      command_index_def s_commands_length Let_def set_pending_def pending_def enqueue_def my_enqueue_def s_commands_def cmd_def base_defs)

text \<open>\<open>stopNetworkScan\<close> asks for an entry behind the end of the table.\<close>

lemma stopNetworkScan_out_of_table:
  "service_ok st \<Longrightarrow> sv_calloc env (sv_fresh st) \<Longrightarrow> stopNetworkScan env slotId serial st = None"
  by (simp add: stopNetworkScan_def dispatchVoid_def with_request_def new_request_def addRequestToList_def service_ok_def command_index_def
      s_commands_length Let_def base_defs)

text \<open>Below version 15 the refusals use the record without checking that it could be allocated.\<close>

lemma refusal_without_record:
  assumes "service_ok st" "\<not> sv_calloc env (sv_fresh st)" "requests (sv_ril st) 0 = None" "version (sv_ril st) < 15"
  shows "setIndicationFilter env slotId serial indications st = None"
    "kind \<noteq> sv_LOW_DATA_EXPECTED env \<Longrightarrow> sendDeviceState env slotId serial kind state st = None"
  using assms
  by (simp_all add: setIndicationFilter_def sendDeviceState_def refuse_unchecked_def new_request_def addRequestToList_def
      sendErrorResponse_def service_ok_def Let_def)

text \<open>
  Two data profiles: the buffer is freed profile by profile, and the second is no allocation of its own. A
  slot other than the first without an operator of its own: \<open>strncpy\<close> reads \<open>NULL\<close>. A bare MF path: its copy
  stays.
\<close>

definition no_profile :: DataProfileInfo where
  "no_profile = \<lparr>dp_profileId = 0, dp_apn = [], dp_protocol = [], dp_roamingProtocol = [], dp_authType = 0, dp_user = [], dp_password = [],
     dp_type = 0, dp_maxConnsTime = 0, dp_maxConns = 0, dp_waitTime = 0, dp_enabled = True, dp_apnTypes = 0, dp_bearerBitmap = 0, dp_mtu = 0,
     dp_mvnoType = MVNO_NONE, dp_mvnoMatchData = []\<rparr>"

lemmas radio_run =
  with_request_def new_request_def addRequestToList_def service_init_def ril_init_def command_index_def s_commands_length Let_def
  set_pending_def pending_def enqueue_def my_enqueue_def base_defs memory_def calloc_n_def copyHidlStringToRil_def with_strings_def
  text_at_def ignoreBF_def memsetAndFreeStrings_def

lemma two_profiles_free_inside: "setDataProfile memory slotId serial [no_profile, no_profile] roaming (service_init 11) = None"
  by (simp add: setDataProfile_def with_profile_arrays_def no_profile_def radio_run)

lemma attach_apn_without_operator:
  "setInitialAttachApn (memory\<lparr>sv_props := (\<lambda>_. ''25001'')\<rparr>) 1 serial no_profile cognitive roaming (service_init 11) = None"
  by (simp add: setInitialAttachApn_def operator_numeric_def property_get_def no_profile_def radio_run c_str_def)

definition mf_io :: IccIo where
  "mf_io = \<lparr>io_command = 176, io_fileId = 0, io_path = ''3F00'', io_p1 = 0, io_p2 = 0, io_p3 = 0, io_data = [], io_pin2 = [], io_aid = []\<rparr>"

lemma mf_path_stays: "map_option (\<lambda>st. sv_heap st 2) (iccIOForApp memory slotId serial mf_io (service_init 11)) = Some (Some (Text ''3F00''))"
  by (simp add: iccIOForApp_def mf_io_def radio_run c_str_def)

end
