(* ===== verification/RilData.thy ===== *)
theory RilData
  imports RilRepliesCorrect RilRadioMethods
begin

text \<open>
  Data calls (\<open>ril_service.cpp\<close>): the interfaces in use (\<open>dataCallCids\<close>), from the choice in
  \<open>mtkSetupInterface\<close> over the vendor's answer in \<open>setupDataCallResponse\<close> to \<open>deactivateDataCall\<close>, and the
  network devices the answer configures. Whether a device exists, a socket can be opened, a device is up and an
  address is valid are arguments; the \<open>ioctl\<close>s are recorded.
\<close>

section \<open>Network devices\<close>

datatype net_op = SIOCSIFADDR string string | SIOCSIFNETMASK string string | SIOCSIFMTU string int | SIOCSIFFLAGS_UP string

record net_env =
  iface_exists :: "string \<Rightarrow> bool"
  socket_ok :: bool
  iface_flags :: "string \<Rightarrow> bool option"
  inet_pton_ok :: "string \<Rightarrow> bool"

definition IFNAMSIZ :: nat where "IFNAMSIZ = 16"

text \<open>\<open>strncpy(ifr.ifr_name, ifname, IFNAMSIZ - 1)\<close>\<close>

abbreviation ifr_name :: "string \<Rightarrow> string" where
  "ifr_name ifname \<equiv> take (IFNAMSIZ - 1) ifname"

definition first_address :: "string \<Rightarrow> string" where
  "first_address addresses = take 63 (takeWhile (\<lambda>c. c \<noteq> CHR '' '' \<and> c \<noteq> CHR ''/'') addresses)"

definition forgeIfaceAddr :: "net_env \<Rightarrow> string \<Rightarrow> string \<Rightarrow> int \<Rightarrow> net_op list" where
  "forgeIfaceAddr net ifname addresses mtu =
     (if ifname = [] \<or> addresses = [] \<or> first_address addresses = [] \<or> \<not> socket_ok net \<or> \<not> inet_pton_ok net (first_address addresses) then []
      else [SIOCSIFADDR (ifr_name ifname) (first_address addresses), SIOCSIFNETMASK (ifr_name ifname) ''255.255.255.255''] @
        (if mtu > 0 then [SIOCSIFMTU (ifr_name ifname) mtu] else []))"

text \<open>\<open>iface_flags\<close>: whether the device is up, \<open>None\<close> when the flags cannot be read.\<close>

definition forgeIfaceUp :: "net_env \<Rightarrow> string \<Rightarrow> net_op list" where
  "forgeIfaceUp net ifname =
     (if ifname = [] \<or> \<not> socket_ok net then []
      else case iface_flags net (ifr_name ifname) of None \<Rightarrow> [] | Some True \<Rightarrow> [] | Some False \<Rightarrow> [SIOCSIFFLAGS_UP (ifr_name ifname)])"

section \<open>Data calls\<close>

record Data_Call_Response =
  dc_status :: int
  dc_suggestedRetryTime :: int
  dc_cid :: int
  dc_active :: int
  dc_type :: "string option"
  dc_ifname :: "string option"
  dc_addresses :: "string option"
  dc_dnses :: "string option"
  dc_gateways :: "string option"
  dc_pcscf :: "string option"
  dc_mtu :: int

record SetupDataCallResult =
  dr_status :: int
  dr_suggestedRetryTime :: int
  dr_cid :: int
  dr_active :: int
  dr_type :: string
  dr_ifname :: string
  dr_addresses :: string
  dr_dnses :: string
  dr_gateways :: string
  dr_pcscf :: string
  dr_mtu :: int

text \<open>The kernel calls the devices \<open>ccmni\<close> and a number, the vendor \<open>ccemni\<close>.\<close>

definition convert_ifname :: "net_env \<Rightarrow> string option \<Rightarrow> string" where
  "convert_ifname net vif =
     (case vif of None \<Rightarrow> []
      | Some s \<Rightarrow>
          let mapped = take (IFNAMSIZ - 1) (''ccmni'' @ drop 6 s) in
          if take 6 s = ''ccemni'' \<and> iface_exists net mapped then mapped else s)"

definition convertRilDataCallToHal :: "net_env \<Rightarrow> Data_Call_Response \<Rightarrow> SetupDataCallResult" where
  "convertRilDataCallToHal net dc =
     \<lparr>dr_status = dc_status dc, dr_suggestedRetryTime = dc_suggestedRetryTime dc, dr_cid = dc_cid dc, dr_active = dc_active dc,
      dr_type = convertCharPtrToHidlString (dc_type dc), dr_ifname = convert_ifname net (dc_ifname dc),
      dr_addresses = convertCharPtrToHidlString (dc_addresses dc), dr_dnses = convertCharPtrToHidlString (dc_dnses dc),
      dr_gateways = convertCharPtrToHidlString (dc_gateways dc), dr_pcscf = convertCharPtrToHidlString (dc_pcscf dc), dr_mtu = dc_mtu dc\<rparr>"

definition data_args :: "SetupDataCallResult \<Rightarrow> hidl_arg" where
  "data_args r = H_list ([H_int (dr_status r), H_int (dr_suggestedRetryTime r), H_int (dr_cid r), H_int (dr_active r)] @
     map H_str [dr_type r, dr_ifname r, dr_addresses r, dr_dnses r, dr_gateways r, dr_pcscf r] @ [H_int (dr_mtu r)])"

text \<open>The first free entry of \<open>dataCallCids\<close> takes the interface; a full array stays as it is.\<close>

fun store_cid :: "int \<Rightarrow> int list \<Rightarrow> int list" where
  "store_cid cid [] = []"
| "store_cid cid (c # cs) = (if c = - 1 then cid # cs else c # store_cid cid cs)"

definition mapped_ifname :: "int \<Rightarrow> string" where
  "mapped_ifname cid = take (IFNAMSIZ - 1) (''ccmni'' @ to_string cid)"

text \<open>The value of \<open>DataCallFailCause::ERROR_UNSPECIFIED\<close> is an argument.\<close>

definition failed_result :: "int \<Rightarrow> SetupDataCallResult" where
  "failed_result unspecified = \<lparr>dr_status = unspecified, dr_suggestedRetryTime = 0, dr_cid = 0, dr_active = 0, dr_type = [], dr_ifname = [],
     dr_addresses = [], dr_dnses = [], dr_gateways = [], dr_pcscf = [], dr_mtu = 0\<rparr>"

record data_state =
  ds_client :: client
  ds_cids :: "int list"
  net_ops :: "net_op list"

definition setupDataCallResponse ::
  "reply_env \<Rightarrow> net_env \<Rightarrow> int \<Rightarrow> int \<Rightarrow> int \<Rightarrow> int \<Rightarrow> u32 \<Rightarrow> Data_Call_Response option \<Rightarrow> nat \<Rightarrow> data_state \<Rightarrow> data_state" where
  "setupDataCallResponse env net unspecified slotId responseType serial e response responseLen st =
     (if \<not> mRadioResponse (reg (ds_client st)) slotId then st
      else
        let info = populateResponseInfo serial responseType e;
            send = (\<lambda>info result st. st\<lparr>ds_client := callback env slotId True ''setupDataCallResponse'' (Some info) [data_args result] (ds_client st)\<rparr>)
        in if response = None \<or> responseLen < sizeof_Data_Call_Response_v11 env then send (invalid e info) (failed_result unspecified) st
           else
             let result = convertRilDataCallToHal net (the response);
                 mapped = mapped_ifname (dr_cid result);
                 found = iface_exists net mapped;
                 result = (if found then result\<lparr>dr_ifname := mapped\<rparr> else result);
                 ops = (if found then forgeIfaceUp net mapped @ forgeIfaceAddr net mapped (dr_addresses result) (if dr_mtu result > 0 then dr_mtu result else 1500)
                        else [])
             in send info result (st\<lparr>net_ops := net_ops st @ ops, ds_cids := store_cid (dr_cid result) (ds_cids st)\<rparr>))"

definition getDataCallListResponse ::
  "reply_env \<Rightarrow> net_env \<Rightarrow> int \<Rightarrow> int \<Rightarrow> int \<Rightarrow> u32 \<Rightarrow> Data_Call_Response list option \<Rightarrow> nat \<Rightarrow> client \<Rightarrow> client option" where
  "getDataCallListResponse env net slotId responseType serial e response responseLen =
     reply env slotId True ''getDataCallListResponse''
       (let info = populateResponseInfo serial responseType e in
        case response of None \<Rightarrow> Some (invalid e info, [H_list []])
        | Some dcs \<Rightarrow>
            if responseLen mod sizeof_Data_Call_Response_v11 env \<noteq> 0 then Some (invalid e info, [H_list []])
            else map_option (\<lambda>dcs. (info, [H_list (map (\<lambda>dc. data_args (convertRilDataCallToHal net dc)) dcs)]))
                   (read_array dcs (responseLen div sizeof_Data_Call_Response_v11 env)))"

section \<open>The pool of interfaces\<close>

text \<open>The interfaces in use.\<close>

definition used :: "int list \<Rightarrow> int set" where
  "used cids = set cids - {- 1}"



lemma mtkSetupInterface_cases:
  "mtkSetupInterface ims dp cids = (if and (dp_apnTypes dp) ims \<noteq> 0 then 4 else if {0..3} \<subseteq> used cids then - 1 else Min ({0..3} - used cids))"
proof -
  have upto: "{0..3 :: int} = {0, 1, 2, 3}" by auto
  show ?thesis unfolding mtkSetupInterface_def upto used_def by (auto simp: Min_insert2 insert_Diff_if)
qed



lemma store_cid_length [simp]: "length (store_cid cid cids) = length cids"
  by (induction cids) auto

lemma clear_cid_length [simp]: "length (clear_cid cid cids) = length cids"
  by (induction cids) auto






section \<open>The pool as an interface\<close>




section \<open>Properties\<close>


definition plain_profile :: DataProfileInfo where
  "plain_profile = \<lparr>dp_profileId = 0, dp_apn = ''internet'', dp_protocol = ''IP'', dp_roamingProtocol = ''IP'', dp_authType = 0, dp_user = [],
     dp_password = [], dp_type = 0, dp_maxConnsTime = 0, dp_maxConns = 0, dp_waitTime = 0, dp_enabled = True, dp_apnTypes = 1,
     dp_bearerBitmap = 0, dp_mtu = 1400, dp_mvnoType = MVNO_NONE, dp_mvnoMatchData = []\<rparr>"


text \<open>
  A set-up of an ordinary data call on a RIL of version 4 to 14 reaches the vendor with the
  number of the least free interface, plus one, as its eighth string, behind the APN, the user and the password of
  the profile as they are, empty ones included.
\<close>

theorem setup_asks_for_free_interface:
  assumes "service_ok st" "\<And>a. sv_calloc env a" "4 \<le> version (sv_ril st)" "version (sv_ril st) \<le> 14"
    "and (dp_apnTypes dp) (sv_ApnTypes_IMS env) = 0" "\<not> {0..3} \<subseteq> used (dataCallCids st)"
  shows "\<exists>st'. setupDataCall env slotId serial tech dp cognitive allowed roaming st = Some st' \<and>
    vendor_calls st' = vendor_calls st @ [\<lparr>vc_request = RIL_REQUEST_SETUP_DATA_CALL, vc_data = The_strings (map (\<lambda>s. Some (c_str s))
      [to_string (tech + 2), to_string (dp_profileId dp), dp_apn dp, dp_user dp, dp_password dp, to_string (dp_authType dp),
       if roaming then dp_roamingProtocol dp else dp_protocol dp, to_string (Min ({0..3} - used (dataCallCids st)) + 1)]),
      vc_token = sv_fresh st, vc_socket = slotId\<rparr>]"
proof -
  have served: "served RIL_REQUEST_SETUP_DATA_CALL" by (rule servedI) simp_all
  have keep: "map (ril_string True) (map c_str ss) = map (\<lambda>s. Some (c_str s)) ss" for ss by (simp add: ril_string_def c_str_def)
  have "\<exists>st'. dispatchStringsKeepEmpty env serial slotId RIL_REQUEST_SETUP_DATA_CALL ss st = Some st' \<and> radio_calls (sv_ril st') = radio_calls (sv_ril st) \<and>
      vendor_calls st' = vendor_calls st @ [\<lparr>vc_request = RIL_REQUEST_SETUP_DATA_CALL, vc_data = The_strings (map (\<lambda>s. Some (c_str s)) ss),
        vc_token = sv_fresh st, vc_socket = slotId\<rparr>]" for ss
    unfolding dispatchStringsKeepEmpty_def dispatchStringsV_def keep [symmetric]
    by (rule with_request_vendor [OF assms(1) served assms(2)], rule dispatch_copies_vendor [OF _ _ assms(2)])
  then show ?thesis using assms(3-6) mtkSetupInterface_cases [of "sv_ApnTypes_IMS env" dp "dataCallCids st"]
    unfolding setupDataCall_def by fastforce
qed

lemma setup_asks_for_free_interface_witness:
  "\<exists>st'. setupDataCall memory 0 5 12 plain_profile True True False (service_init 11) = Some st' \<and>
    vendor_calls st' = [\<lparr>vc_request = RIL_REQUEST_SETUP_DATA_CALL, vc_data = The_strings (map (\<lambda>s. Some (c_str s))
      [to_string 14, to_string 0, ''internet'', [], [], to_string 0, ''IP'', to_string 1]), vc_token = 1, vc_socket = 0\<rparr>]"
proof -
  have u: "used (dataCallCids (service_init 11)) = {}" by (auto simp: used_def service_init_def)
  have start: "vendor_calls (service_init 11) = []" "sv_fresh (service_init 11) = 1" "version (sv_ril (service_init 11)) = 11"
    by (simp_all add: service_init_def)
  have plain: "and (dp_apnTypes plain_profile) (sv_ApnTypes_IMS memory) = 0" by (simp add: memory_def plain_profile_def)
  have free: "\<not> {0..3} \<subseteq> used (dataCallCids (service_init 11))" "Min {0..3 :: int} = 0"
    by (simp add: u) (rule Min_eqI, auto)
  have "\<And>a. sv_calloc memory a" by (simp add: memory_def)
  from setup_asks_for_free_interface [OF service_init_ok(1) this _ _ plain free(1), of 0 5 12 True True False]
  show ?thesis by (simp add: start u free(2)) (simp add: plain_profile_def)
qed

section \<open>A set-up that fails\<close>

text \<open>
  The interface is recorded whatever the status of the answer is: after a failed set-up it counts as in use
  although there is no call to deactivate.
\<close>

lemma failed_setup_takes_interface:
  assumes "mRadioResponse (reg (ds_client st)) slotId" "sizeof_Data_Call_Response_v11 env \<le> responseLen"
  shows "ds_cids (setupDataCallResponse env net unspecified slotId responseType serial e (Some dc) responseLen st) = store_cid (dc_cid dc) (ds_cids st)"
  using assms by (simp add: setupDataCallResponse_def convertRilDataCallToHal_def Let_def)

end
