(* ===== verification/RilIndications.thy ===== *)
theory RilIndications
  imports RilData
begin

text \<open>
  The indications of the radio service (\<open>ril_service.cpp\<close>): the functions \<open>radio::...Ind\<close> that pass unsolicited
  messages of the vendor on to the framework's \<open>mRadioIndication\<close>, the ones that answer the modem with a request of
  their own (incoming calls, suspended registration, attach APN), and the memory of the last radio capability.

  \<open>indicate\<close> is their frame: nothing happens when no callback is set for the slot; else the payload is checked and
  converted. A payload is \<open>None\<close> when making it reads outside the vendor's data, \<open>Some None\<close> when the check drops
  it. \<open>phone\<close> joins the states that the vendor's own indications change.
\<close>

section \<open>The frame\<close>

datatype RadioIndicationType = UNSOLICITED | UNSOLICITED_ACK_EXP

definition convertIntToRadioIndicationType :: "int \<Rightarrow> RadioIndicationType" where
  "convertIntToRadioIndicationType indicationType = (if indicationType = RESPONSE_UNSOLICITED then UNSOLICITED else UNSOLICITED_ACK_EXP)"

definition ind_arg :: "int \<Rightarrow> hidl_arg" where
  "ind_arg indicationType = H_int (case convertIntToRadioIndicationType indicationType of UNSOLICITED \<Rightarrow> 0 | UNSOLICITED_ACK_EXP \<Rightarrow> 1)"

type_synonym ind_payload = "hidl_arg list option option"

definition indicate :: "reply_env \<Rightarrow> int \<Rightarrow> bool \<Rightarrow> int \<Rightarrow> string \<Rightarrow> ind_payload \<Rightarrow> client \<Rightarrow> client option" where
  "indicate env slotId isRadioService indicationType name payload st =
     (if (if isRadioService then mRadioIndication (reg st) slotId else mOemHookIndication (reg st) slotId)
      then map_option (\<lambda>args. case args of None \<Rightarrow> st
             | Some args \<Rightarrow> callback env slotId isRadioService name None (ind_arg indicationType # args) st) payload
      else Some st)"

definition string_payload :: "string option \<Rightarrow> nat \<Rightarrow> ind_payload" where
  "string_payload response responseLen = Some (case response of None \<Rightarrow> None | Some s \<Rightarrow> if responseLen = 0 then None else Some [H_str s])"

definition int_payload :: "int list option \<Rightarrow> nat \<Rightarrow> ind_payload" where
  "int_payload response responseLen =
     (case response of None \<Rightarrow> Some None
      | Some p \<Rightarrow> if responseLen \<noteq> 4 then Some None else map_option (\<lambda>n. Some [H_int n]) (read_at p 0))"

definition bool_payload :: "int list option \<Rightarrow> nat \<Rightarrow> ind_payload" where
  "bool_payload response responseLen =
     (case response of None \<Rightarrow> Some None
      | Some p \<Rightarrow> if responseLen \<noteq> 4 then Some None else map_option (\<lambda>n. Some [H_bool (n \<noteq> 0)]) (read_at p 0))"

definition H_bytes :: "u8 list \<Rightarrow> hidl_arg" where
  "H_bytes bs = H_list (map (\<lambda>b. H_int (uint b)) bs)"

definition bytes_payload :: "u8 list option \<Rightarrow> nat \<Rightarrow> ind_payload" where
  "bytes_payload response responseLen =
     (case response of None \<Rightarrow> Some None
      | Some bs \<Rightarrow> if responseLen = 0 then Some None else map_option (\<lambda>bs. Some [H_bytes bs]) (read_array bs responseLen))"

text \<open>A structure of \<open>sz\<close> bytes, which only its length identifies.\<close>

definition struct_payload :: "nat \<Rightarrow> ('a \<Rightarrow> hidl_arg list) \<Rightarrow> 'a option \<Rightarrow> nat \<Rightarrow> ind_payload" where
  "struct_payload sz conv response responseLen =
     Some (case response of None \<Rightarrow> None | Some r \<Rightarrow> if responseLen \<noteq> sz then None else Some (conv r))"

section \<open>Indications without a structure\<close>

definition callStateChangedInd :: "reply_env \<Rightarrow> int \<Rightarrow> int \<Rightarrow> client \<Rightarrow> client option" where
  "callStateChangedInd env slotId indicationType = indicate env slotId True indicationType ''callStateChanged'' (Some (Some []))"

definition networkStateChangedInd :: "reply_env \<Rightarrow> int \<Rightarrow> int \<Rightarrow> client \<Rightarrow> client option" where
  "networkStateChangedInd env slotId indicationType = indicate env slotId True indicationType ''networkStateChanged'' (Some (Some []))"

definition stkSessionEndInd :: "reply_env \<Rightarrow> int \<Rightarrow> int \<Rightarrow> client \<Rightarrow> client option" where
  "stkSessionEndInd env slotId indicationType = indicate env slotId True indicationType ''stkSessionEnd'' (Some (Some []))"

definition simSmsStorageFullInd :: "reply_env \<Rightarrow> int \<Rightarrow> int \<Rightarrow> client \<Rightarrow> client option" where
  "simSmsStorageFullInd env slotId indicationType = indicate env slotId True indicationType ''simSmsStorageFull'' (Some (Some []))"

definition simStatusChangedInd :: "reply_env \<Rightarrow> int \<Rightarrow> int \<Rightarrow> client \<Rightarrow> client option" where
  "simStatusChangedInd env slotId indicationType = indicate env slotId True indicationType ''simStatusChanged'' (Some (Some []))"

definition cdmaRuimSmsStorageFullInd :: "reply_env \<Rightarrow> int \<Rightarrow> int \<Rightarrow> client \<Rightarrow> client option" where
  "cdmaRuimSmsStorageFullInd env slotId indicationType = indicate env slotId True indicationType ''cdmaRuimSmsStorageFull'' (Some (Some []))"

definition enterEmergencyCallbackModeInd :: "reply_env \<Rightarrow> int \<Rightarrow> int \<Rightarrow> client \<Rightarrow> client option" where
  "enterEmergencyCallbackModeInd env slotId indicationType = indicate env slotId True indicationType ''enterEmergencyCallbackMode'' (Some (Some []))"

definition resendIncallMuteInd :: "reply_env \<Rightarrow> int \<Rightarrow> int \<Rightarrow> client \<Rightarrow> client option" where
  "resendIncallMuteInd env slotId indicationType = indicate env slotId True indicationType ''resendIncallMute'' (Some (Some []))"

definition exitEmergencyCallbackModeInd :: "reply_env \<Rightarrow> int \<Rightarrow> int \<Rightarrow> client \<Rightarrow> client option" where
  "exitEmergencyCallbackModeInd env slotId indicationType = indicate env slotId True indicationType ''exitEmergencyCallbackMode'' (Some (Some []))"

definition rilConnectedInd :: "reply_env \<Rightarrow> int \<Rightarrow> int \<Rightarrow> client \<Rightarrow> client option" where
  "rilConnectedInd env slotId indicationType = indicate env slotId True indicationType ''rilConnected'' (Some (Some []))"

definition imsNetworkStateChangedInd :: "reply_env \<Rightarrow> int \<Rightarrow> int \<Rightarrow> client \<Rightarrow> client option" where
  "imsNetworkStateChangedInd env slotId indicationType = indicate env slotId True indicationType ''imsNetworkStateChanged'' (Some (Some []))"

definition stkProactiveCommandInd :: "reply_env \<Rightarrow> int \<Rightarrow> int \<Rightarrow> string option \<Rightarrow> nat \<Rightarrow> client \<Rightarrow> client option" where
  "stkProactiveCommandInd env slotId indicationType response responseLen = indicate env slotId True indicationType ''stkProactiveCommand'' (string_payload response responseLen)"

definition stkEventNotifyInd :: "reply_env \<Rightarrow> int \<Rightarrow> int \<Rightarrow> string option \<Rightarrow> nat \<Rightarrow> client \<Rightarrow> client option" where
  "stkEventNotifyInd env slotId indicationType response responseLen = indicate env slotId True indicationType ''stkEventNotify'' (string_payload response responseLen)"

definition stkCallControlAlphaNotifyInd :: "reply_env \<Rightarrow> int \<Rightarrow> int \<Rightarrow> string option \<Rightarrow> nat \<Rightarrow> client \<Rightarrow> client option" where
  "stkCallControlAlphaNotifyInd env slotId indicationType response responseLen = indicate env slotId True indicationType ''stkCallControlAlphaNotify'' (string_payload response responseLen)"

definition modemResetInd :: "reply_env \<Rightarrow> int \<Rightarrow> int \<Rightarrow> string option \<Rightarrow> nat \<Rightarrow> client \<Rightarrow> client option" where
  "modemResetInd env slotId indicationType response responseLen = indicate env slotId True indicationType ''modemReset'' (string_payload response responseLen)"

definition newSmsOnSimInd :: "reply_env \<Rightarrow> int \<Rightarrow> int \<Rightarrow> int list option \<Rightarrow> nat \<Rightarrow> client \<Rightarrow> client option" where
  "newSmsOnSimInd env slotId indicationType response responseLen = indicate env slotId True indicationType ''newSmsOnSim'' (int_payload response responseLen)"

definition stkCallSetupInd :: "reply_env \<Rightarrow> int \<Rightarrow> int \<Rightarrow> int list option \<Rightarrow> nat \<Rightarrow> client \<Rightarrow> client option" where
  "stkCallSetupInd env slotId indicationType response responseLen = indicate env slotId True indicationType ''stkCallSetup'' (int_payload response responseLen)"

definition restrictedStateChangedInd :: "reply_env \<Rightarrow> int \<Rightarrow> int \<Rightarrow> int list option \<Rightarrow> nat \<Rightarrow> client \<Rightarrow> client option" where
  "restrictedStateChangedInd env slotId indicationType response responseLen = indicate env slotId True indicationType ''restrictedStateChanged'' (int_payload response responseLen)"

definition cdmaOtaProvisionStatusInd :: "reply_env \<Rightarrow> int \<Rightarrow> int \<Rightarrow> int list option \<Rightarrow> nat \<Rightarrow> client \<Rightarrow> client option" where
  "cdmaOtaProvisionStatusInd env slotId indicationType response responseLen = indicate env slotId True indicationType ''cdmaOtaProvisionStatus'' (int_payload response responseLen)"

definition cdmaSubscriptionSourceChangedInd :: "reply_env \<Rightarrow> int \<Rightarrow> int \<Rightarrow> int list option \<Rightarrow> nat \<Rightarrow> client \<Rightarrow> client option" where
  "cdmaSubscriptionSourceChangedInd env slotId indicationType response responseLen = indicate env slotId True indicationType ''cdmaSubscriptionSourceChanged'' (int_payload response responseLen)"

definition cdmaPrlChangedInd :: "reply_env \<Rightarrow> int \<Rightarrow> int \<Rightarrow> int list option \<Rightarrow> nat \<Rightarrow> client \<Rightarrow> client option" where
  "cdmaPrlChangedInd env slotId indicationType response responseLen = indicate env slotId True indicationType ''cdmaPrlChanged'' (int_payload response responseLen)"

definition voiceRadioTechChangedInd :: "reply_env \<Rightarrow> int \<Rightarrow> int \<Rightarrow> int list option \<Rightarrow> nat \<Rightarrow> client \<Rightarrow> client option" where
  "voiceRadioTechChangedInd env slotId indicationType response responseLen = indicate env slotId True indicationType ''voiceRadioTechChanged'' (int_payload response responseLen)"

definition srvccStateNotifyInd :: "reply_env \<Rightarrow> int \<Rightarrow> int \<Rightarrow> int list option \<Rightarrow> nat \<Rightarrow> client \<Rightarrow> client option" where
  "srvccStateNotifyInd env slotId indicationType response responseLen = indicate env slotId True indicationType ''srvccStateNotify'' (int_payload response responseLen)"

definition indicateRingbackToneInd :: "reply_env \<Rightarrow> int \<Rightarrow> int \<Rightarrow> int list option \<Rightarrow> nat \<Rightarrow> client \<Rightarrow> client option" where
  "indicateRingbackToneInd env slotId indicationType response responseLen = indicate env slotId True indicationType ''indicateRingbackTone'' (bool_payload response responseLen)"

definition subscriptionStatusChangedInd :: "reply_env \<Rightarrow> int \<Rightarrow> int \<Rightarrow> int list option \<Rightarrow> nat \<Rightarrow> client \<Rightarrow> client option" where
  "subscriptionStatusChangedInd env slotId indicationType response responseLen = indicate env slotId True indicationType ''subscriptionStatusChanged'' (bool_payload response responseLen)"

definition newBroadcastSmsInd :: "reply_env \<Rightarrow> int \<Rightarrow> int \<Rightarrow> u8 list option \<Rightarrow> nat \<Rightarrow> client \<Rightarrow> client option" where
  "newBroadcastSmsInd env slotId indicationType response responseLen =
     indicate env slotId True indicationType ''newBroadcastSms'' (bytes_payload response responseLen)"

definition oemHookRawInd :: "reply_env \<Rightarrow> int \<Rightarrow> int \<Rightarrow> u8 list option \<Rightarrow> nat \<Rightarrow> client \<Rightarrow> client option" where
  "oemHookRawInd env slotId indicationType response responseLen =
     indicate env slotId False indicationType ''oemHookRaw'' (bytes_payload response responseLen)"

text \<open>\<open>onStateRequest\<close> and \<open>elapsedRealtime\<close> are arguments.\<close>

definition radioStateChangedInd :: "reply_env \<Rightarrow> (int \<Rightarrow> int) \<Rightarrow> int \<Rightarrow> int \<Rightarrow> client \<Rightarrow> client option" where
  "radioStateChangedInd env onStateRequest slotId indicationType =
     indicate env slotId True indicationType ''radioStateChanged'' (Some (Some [H_int (onStateRequest slotId)]))"

definition nitzTimeReceivedInd :: "reply_env \<Rightarrow> int \<Rightarrow> int \<Rightarrow> int \<Rightarrow> string option \<Rightarrow> nat \<Rightarrow> client \<Rightarrow> client option" where
  "nitzTimeReceivedInd env elapsedRealtime slotId indicationType response responseLen =
     indicate env slotId True indicationType ''nitzTimeReceived''
       (map_option (map_option (\<lambda>args. args @ [H_int elapsedRealtime])) (string_payload response responseLen))"

section \<open>Short messages\<close>

definition INVALID_HEX_CHAR :: u8 where "INVALID_HEX_CHAR = 16"

definition hexCharToInt :: "u8 \<Rightarrow> u8" where
  "hexCharToInt c =
     (if c \<ge> 48 \<and> c \<le> 57 then c - 48
      else if c \<ge> 65 \<and> c \<le> 70 then c - 65 + 10
      else if c \<ge> 97 \<and> c \<le> 102 then c - 97 + 10
      else INVALID_HEX_CHAR)"

text \<open>
  The loop of \<open>convertHexStringToBytes\<close>: every byte is stored twice, in the first and in the second half of the
  buffer. \<open>None\<close>: an access outside the text or the buffer; \<open>Some None\<close>: an invalid character, \<open>NULL\<close>.
\<close>

function hex_loop :: "u8 list \<Rightarrow> nat \<Rightarrow> nat \<Rightarrow> u8 list \<Rightarrow> u8 list option option" where
  "hex_loop hexString responseLen i bytes =
     (if i < responseLen then
        Option.bind (byte_at hexString i) (\<lambda>c1. Option.bind (byte_at hexString (i + 1)) (\<lambda>c2.
          let hexChar1 = hexCharToInt c1; hexChar2 = hexCharToInt c2; b = or (push_bit 4 hexChar1) hexChar2 in
          if hexChar1 = INVALID_HEX_CHAR \<or> hexChar2 = INVALID_HEX_CHAR then Some None
          else if i div 2 < length bytes \<and> (responseLen + i) div 2 < length bytes
            then hex_loop hexString responseLen (i + 2) (bytes[i div 2 := b, (responseLen + i) div 2 := b])
          else None))
      else Some (Some bytes))"
  by pat_completeness auto
termination by (relation "measure (\<lambda>(hexString, responseLen, i, bytes). responseLen - i)") auto

declare hex_loop.simps [simp del]

definition convertHexStringToBytes :: "bool \<Rightarrow> u8 list \<Rightarrow> nat \<Rightarrow> u8 list option option" where
  "convertHexStringToBytes calloc_ok response responseLen =
     (if responseLen mod 2 \<noteq> 0 then Some None
      else if \<not> calloc_ok then Some None
      else hex_loop response responseLen 0 (replicate responseLen 0))"

text \<open>The text of the message is a C string: \<open>strlen\<close>, not the length given, tells where it ends.\<close>

definition pdu_payload :: "bool \<Rightarrow> u8 list option \<Rightarrow> nat \<Rightarrow> ind_payload" where
  "pdu_payload calloc_ok response responseLen =
     (case response of None \<Rightarrow> Some None
      | Some st \<Rightarrow>
          if responseLen = 0 then Some None
          else let pdu_len = length st in
            map_option (map_option (\<lambda>bytes. [H_bytes (take (pdu_len div 2) bytes)])) (convertHexStringToBytes calloc_ok st pdu_len))"

definition newSmsInd :: "reply_env \<Rightarrow> bool \<Rightarrow> int \<Rightarrow> int \<Rightarrow> u8 list option \<Rightarrow> nat \<Rightarrow> client \<Rightarrow> client option" where
  "newSmsInd env calloc_ok slotId indicationType response responseLen =
     indicate env slotId True indicationType ''newSms'' (pdu_payload calloc_ok response responseLen)"

definition newSmsStatusReportInd :: "reply_env \<Rightarrow> bool \<Rightarrow> int \<Rightarrow> int \<Rightarrow> u8 list option \<Rightarrow> nat \<Rightarrow> client \<Rightarrow> client option" where
  "newSmsStatusReportInd env calloc_ok slotId indicationType response responseLen =
     indicate env slotId True indicationType ''newSmsStatusReport'' (pdu_payload calloc_ok response responseLen)"

section \<open>Indications with strings and structures\<close>

text \<open>
  \<open>onUssdInd\<close>: only the mode is mandatory. A release (mode 2) that carries text is handed over as a notification
  (mode 0), since the framework drops the text of a release.
\<close>

definition ussd_payload :: "nat \<Rightarrow> string option list option \<Rightarrow> nat \<Rightarrow> ind_payload" where
  "ussd_payload ptr response responseLen =
     (case response of None \<Rightarrow> Some None
      | Some strings \<Rightarrow>
          let numStrings = responseLen div ptr in
          if responseLen mod ptr \<noteq> 0 \<or> numStrings < 1 then Some None
          else Option.bind (read_at strings 0) (\<lambda>mode. case mode of None \<Rightarrow> Some None
          | Some mode \<Rightarrow>
              Option.bind (if numStrings \<ge> 2 then read_at strings 1 else Some None) (\<lambda>msg.
                let msg = convertCharPtrToHidlString msg; modeType = atoi mode;
                    modeType = (if modeType = 2 \<and> msg \<noteq> [] then 0 else modeType)
                in Some (Some [H_int modeType, H_str msg]))))"

definition onUssdInd :: "reply_env \<Rightarrow> int \<Rightarrow> int \<Rightarrow> string option list option \<Rightarrow> nat \<Rightarrow> client \<Rightarrow> client option" where
  "onUssdInd env slotId indicationType response responseLen =
     indicate env slotId True indicationType ''onUssd'' (ussd_payload (ptr_size env) response responseLen)"

record LTE_SignalStrength =
  lte_signalStrength :: int
  lte_rsrp :: int
  lte_rsrq :: int
  lte_rssnr :: int
  lte_cqi :: int

record SignalStrength =
  gw_signalStrength :: int
  gw_bitErrorRate :: int
  cdma_dbm :: int
  cdma_ecio :: int
  evdo_dbm :: int
  evdo_ecio :: int
  evdo_signalNoiseRatio :: int
  lte :: LTE_SignalStrength

definition INT_MAX :: int where "INT_MAX = 2147483647"

definition fixup_lte :: "LTE_SignalStrength \<Rightarrow> LTE_SignalStrength" where
  "fixup_lte l =
     \<lparr>lte_signalStrength = (if lte_signalStrength l = - 1 then 99 else lte_signalStrength l),
      lte_rsrp = (if lte_rsrp l = - 1 then INT_MAX else if lte_rsrp l < - 1 then - lte_rsrp l else lte_rsrp l),
      lte_rsrq = (if lte_rsrq l = - 1 then INT_MAX else lte_rsrq l),
      lte_rssnr = lte_rssnr l,
      lte_cqi = (if lte_cqi l = - 1 then INT_MAX else lte_cqi l)\<rparr>"

definition convertRilSignalStrengthToHal :: "SignalStrength \<Rightarrow> hidl_arg" where
  "convertRilSignalStrengthToHal s =
     (let l = fixup_lte (lte s) in
      H_list (map H_int [gw_signalStrength s, gw_bitErrorRate s, cdma_dbm s, cdma_ecio s, evdo_dbm s, evdo_ecio s, evdo_signalNoiseRatio s,
        lte_signalStrength l, lte_rsrp l, lte_rsrq l, lte_rssnr l, lte_cqi l]))"

text \<open>The size of \<open>RIL_SignalStrength_v8\<close>, which holds all fields read.\<close>

definition sizeof_SignalStrength_v8 :: nat where "sizeof_SignalStrength_v8 = 52"

definition no_signal :: hidl_arg where
  "no_signal = H_list (replicate 12 (H_int 0))"

definition currentSignalStrengthInd :: "reply_env \<Rightarrow> int \<Rightarrow> int \<Rightarrow> SignalStrength option \<Rightarrow> nat \<Rightarrow> client \<Rightarrow> client option" where
  "currentSignalStrengthInd env slotId indicationType response responseLen =
     indicate env slotId True indicationType ''currentSignalStrength''
       (Some (case response of None \<Rightarrow> None
         | Some s \<Rightarrow> if responseLen < sizeof_SignalStrength_v8 then None else Some [convertRilSignalStrengthToHal s]))"

definition getSignalStrengthResponse ::
  "reply_env \<Rightarrow> int \<Rightarrow> int \<Rightarrow> int \<Rightarrow> u32 \<Rightarrow> SignalStrength option \<Rightarrow> nat \<Rightarrow> client \<Rightarrow> client option" where
  "getSignalStrengthResponse env slotId responseType serial e response responseLen =
     reply env slotId True ''getSignalStrengthResponse''
       (let info = populateResponseInfo serial responseType e in
        Some (case response of None \<Rightarrow> (invalid e info, [no_signal])
         | Some s \<Rightarrow> if responseLen < sizeof_SignalStrength_v8 then (invalid e info, [no_signal])
             else (info, [convertRilSignalStrengthToHal s])))"

definition dataCallListChangedInd :: "reply_env \<Rightarrow> net_env \<Rightarrow> int \<Rightarrow> int \<Rightarrow> Data_Call_Response list option \<Rightarrow> nat \<Rightarrow> client \<Rightarrow> client option" where
  "dataCallListChangedInd env net slotId indicationType response responseLen =
     indicate env slotId True indicationType ''dataCallListChanged''
       (if response = None \<and> responseLen \<noteq> 0 \<or> responseLen mod sizeof_Data_Call_Response_v11 env \<noteq> 0 then Some None
        else map_option (\<lambda>dcs. Some [H_list (map (\<lambda>dc. data_args (convertRilDataCallToHal net dc)) dcs)])
               (read_array (case_option [] id response) (responseLen div sizeof_Data_Call_Response_v11 env)))"

record SuppSvcNotification =
  notificationType :: int
  ssn_code :: int
  ssn_index :: int
  ssn_type :: int
  ssn_number :: "string option"

definition suppSvcNotifyInd :: "reply_env \<Rightarrow> nat \<Rightarrow> int \<Rightarrow> int \<Rightarrow> SuppSvcNotification option \<Rightarrow> nat \<Rightarrow> client \<Rightarrow> client option" where
  "suppSvcNotifyInd env sz slotId indicationType response responseLen =
     indicate env slotId True indicationType ''suppSvcNotify''
       (struct_payload sz (\<lambda>ssn. [H_list [H_bool (notificationType ssn \<noteq> 0), H_int (ssn_code ssn), H_int (ssn_index ssn), H_int (ssn_type ssn),
          H_str (convertCharPtrToHidlString (ssn_number ssn))]]) response responseLen)"

record SimRefreshResponse =
  refresh_result :: int
  ef_id :: int
  refresh_aid :: "string option"

definition simRefreshInd :: "reply_env \<Rightarrow> nat \<Rightarrow> int \<Rightarrow> int \<Rightarrow> SimRefreshResponse option \<Rightarrow> nat \<Rightarrow> client \<Rightarrow> client option" where
  "simRefreshInd env sz slotId indicationType response responseLen =
     indicate env slotId True indicationType ''simRefresh''
       (struct_payload sz (\<lambda>r. [H_list [H_int (refresh_result r), H_int (ef_id r), H_str (convertCharPtrToHidlString (refresh_aid r))]])
          response responseLen)"

record CDMA_SignalInfoRecord =
  isPresent :: int
  signalType :: int
  alertPitch :: int
  cdma_signal :: int

definition convertRilCdmaSignalInfoRecordToHal :: "CDMA_SignalInfoRecord \<Rightarrow> hidl_arg" where
  "convertRilCdmaSignalInfoRecordToHal r =
     H_list [H_bool (isPresent r \<noteq> 0), H_int (signalType r), H_int (alertPitch r), H_int (cdma_signal r)]"

definition callRingInd :: "reply_env \<Rightarrow> nat \<Rightarrow> int \<Rightarrow> int \<Rightarrow> CDMA_SignalInfoRecord option \<Rightarrow> nat \<Rightarrow> client \<Rightarrow> client option" where
  "callRingInd env sz slotId indicationType response responseLen =
     indicate env slotId True indicationType ''callRing''
       (case response of
          None \<Rightarrow> Some (Some [H_bool True, H_list [H_bool False, H_int 0, H_int 0, H_int 0]])
        | Some r \<Rightarrow>
            if responseLen = 0 then Some (Some [H_bool True, H_list [H_bool False, H_int 0, H_int 0, H_int 0]])
            else struct_payload sz (\<lambda>r. [H_bool False, convertRilCdmaSignalInfoRecordToHal r]) (Some r) responseLen)"

record CDMA_CallWaiting =
  cw_number :: "string option"
  cw_numberPresentation :: int
  cw_name :: "string option"
  cw_signal :: CDMA_SignalInfoRecord
  cw_number_type :: int
  cw_number_plan :: int

definition cdmaCallWaitingInd :: "reply_env \<Rightarrow> nat \<Rightarrow> int \<Rightarrow> int \<Rightarrow> CDMA_CallWaiting option \<Rightarrow> nat \<Rightarrow> client \<Rightarrow> client option" where
  "cdmaCallWaitingInd env sz slotId indicationType response responseLen =
     indicate env slotId True indicationType ''cdmaCallWaiting''
       (struct_payload sz (\<lambda>w. [H_list [H_str (convertCharPtrToHidlString (cw_number w)), H_int (cw_numberPresentation w),
          H_str (convertCharPtrToHidlString (cw_name w)), convertRilCdmaSignalInfoRecordToHal (cw_signal w),
          H_int (cw_number_type w), H_int (cw_number_plan w)]]) response responseLen)"

record LceDataInfo =
  last_hop_capacity_kbps :: int
  confidence_level :: int
  lce_suspended :: int

definition convertRilLceDataInfoToHal :: "LceDataInfo \<Rightarrow> hidl_arg" where
  "convertRilLceDataInfoToHal l = H_list [H_int (last_hop_capacity_kbps l), H_int (confidence_level l), H_bool (lce_suspended l \<noteq> 0)]"

definition lceDataInd :: "reply_env \<Rightarrow> nat \<Rightarrow> int \<Rightarrow> int \<Rightarrow> LceDataInfo option \<Rightarrow> nat \<Rightarrow> client \<Rightarrow> client option" where
  "lceDataInd env sz slotId indicationType response responseLen =
     indicate env slotId True indicationType ''lceData''
       (struct_payload sz (\<lambda>l. [convertRilLceDataInfoToHal l]) response responseLen)"

record PCO_Data =
  pco_cid :: int
  bearer_proto :: "string option"
  pco_id :: int
  pco_contents :: "u8 list"

text \<open>The contents are the \<open>contents_length\<close> bytes the structure points to.\<close>

definition pcoDataInd :: "reply_env \<Rightarrow> nat \<Rightarrow> int \<Rightarrow> int \<Rightarrow> PCO_Data option \<Rightarrow> nat \<Rightarrow> client \<Rightarrow> client option" where
  "pcoDataInd env sz slotId indicationType response responseLen =
     indicate env slotId True indicationType ''pcoData''
       (struct_payload sz (\<lambda>p. [H_list [H_int (pco_cid p), H_str (convertCharPtrToHidlString (bearer_proto p)), H_int (pco_id p), H_bytes (pco_contents p)]])
          response responseLen)"

section \<open>Radio capability\<close>

record RIL_RadioCapability =
  rc_session :: int
  rc_phase :: int
  rc_rat :: int
  rc_logicalModemUuid :: string
  rc_status :: int

definition convertRilRadioCapabilityToHal :: "RIL_RadioCapability \<Rightarrow> hidl_arg" where
  "convertRilRadioCapabilityToHal rc = H_list [H_int (rc_session rc), H_int (rc_phase rc), H_int (rc_rat rc), H_str (rc_logicalModemUuid rc), H_int (rc_status rc)]"

definition no_capability :: hidl_arg where
  "no_capability = H_list [H_int 0, H_int 0, H_int 0, H_str [], H_int 0]"

text \<open>\<open>lastRadioCapability\<close>: the payload where \<open>s_lastRadioCapabilityValid\<close> is set.\<close>

record phone =
  ph_service :: service
  ph_client :: client
  lastRadioCapability :: "int \<Rightarrow> RIL_RadioCapability option"

definition SIM_SLOTS :: int where "SIM_SLOTS = 2"

definition radioCapabilityIndicationInd :: "reply_env \<Rightarrow> nat \<Rightarrow> int \<Rightarrow> int \<Rightarrow> RIL_RadioCapability option \<Rightarrow> nat \<Rightarrow> phone \<Rightarrow> phone" where
  "radioCapabilityIndicationInd env sz slotId indicationType response responseLen st =
     (if \<not> mRadioIndication (reg (ph_client st)) slotId then st
      else case response of None \<Rightarrow> st
      | Some rc \<Rightarrow>
          if responseLen \<noteq> sz then st
          else let st = (if 0 \<le> slotId \<and> slotId < SIM_SLOTS then st\<lparr>lastRadioCapability := (lastRadioCapability st)(slotId := Some rc)\<rparr> else st) in
            st\<lparr>ph_client := callback env slotId True ''radioCapabilityIndication'' None [ind_arg indicationType, convertRilRadioCapabilityToHal rc] (ph_client st)\<rparr>)"

definition responseRadioCapability ::
  "nat \<Rightarrow> int \<Rightarrow> int \<Rightarrow> int \<Rightarrow> u32 \<Rightarrow> RIL_RadioCapability option \<Rightarrow> nat \<Rightarrow> (int \<Rightarrow> RIL_RadioCapability option) \<Rightarrow> RadioResponseInfo \<times> hidl_arg" where
  "responseRadioCapability sz slotId serial responseType e response responseLen lastRC =
     (let info = populateResponseInfo serial responseType e in
      if response = None \<or> responseLen < sz then
        (case (if 0 \<le> slotId \<and> slotId < SIM_SLOTS then lastRC slotId else None) of
           Some rc \<Rightarrow> (info\<lparr>info_error := Errno 0\<rparr>, convertRilRadioCapabilityToHal rc)
         | None \<Rightarrow> (invalid e info, no_capability))
      else (info, convertRilRadioCapabilityToHal (the response)))"

definition capability_response ::
  "reply_env \<Rightarrow> nat \<Rightarrow> int \<Rightarrow> int \<Rightarrow> int \<Rightarrow> u32 \<Rightarrow> RIL_RadioCapability option \<Rightarrow> nat \<Rightarrow> string \<Rightarrow> phone \<Rightarrow> phone" where
  "capability_response env sz slotId responseType serial e response responseLen name st =
     (if mRadioResponse (reg (ph_client st)) slotId then
        (case responseRadioCapability sz slotId serial responseType e response responseLen (lastRadioCapability st) of
           (info, rc) \<Rightarrow> st\<lparr>ph_client := callback env slotId True name (Some info) [rc] (ph_client st)\<rparr>)
      else st)"

definition getRadioCapabilityResponse :: "reply_env \<Rightarrow> nat \<Rightarrow> int \<Rightarrow> int \<Rightarrow> int \<Rightarrow> u32 \<Rightarrow> RIL_RadioCapability option \<Rightarrow> nat \<Rightarrow> phone \<Rightarrow> phone" where
  "getRadioCapabilityResponse env sz slotId responseType serial e response responseLen =
     capability_response env sz slotId responseType serial e response responseLen ''getRadioCapabilityResponse''"

definition setRadioCapabilityResponse :: "reply_env \<Rightarrow> nat \<Rightarrow> int \<Rightarrow> int \<Rightarrow> int \<Rightarrow> u32 \<Rightarrow> RIL_RadioCapability option \<Rightarrow> nat \<Rightarrow> phone \<Rightarrow> phone" where
  "setRadioCapabilityResponse env sz slotId responseType serial e response responseLen =
     capability_response env sz slotId responseType serial e response responseLen ''setRadioCapabilityResponse''"

section \<open>Indications that answer the modem\<close>

text \<open>A request of the service itself: its serial number is \<open>- 1\<close>.\<close>

definition send_ints :: "service_env \<Rightarrow> int \<Rightarrow> int \<Rightarrow> int list \<Rightarrow> phone \<Rightarrow> phone option" where
  "send_ints senv slotId request ints st = map_option (\<lambda>sv. st\<lparr>ph_service := sv\<rparr>) (dispatchInts senv (- 1) slotId request ints (ph_service st))"

definition notify :: "reply_env \<Rightarrow> int \<Rightarrow> int \<Rightarrow> string \<Rightarrow> phone \<Rightarrow> phone" where
  "notify env slotId indicationType name st = st\<lparr>ph_client := callback env slotId True name None [ind_arg indicationType] (ph_client st)\<rparr>"

definition registrationSuspendInd :: "service_env \<Rightarrow> int \<Rightarrow> int list option \<Rightarrow> nat \<Rightarrow> phone \<Rightarrow> phone option" where
  "registrationSuspendInd senv slotId response responseLen st =
     (if \<not> mRadioIndication (reg (ph_client st)) slotId then Some st
      else case response of None \<Rightarrow> Some st
      | Some p_int \<Rightarrow>
          if responseLen < 4 then Some st
          else Option.bind (read_at p_int 0) (\<lambda>v. send_ints senv slotId RIL_REQUEST_RESUME_REGISTRATION [v] st))"

text \<open>
  \<open>incomingCallInd\<close>: eight bytes are the vendor's VoLTE capability message, which is only logged. The model keeps
  strings as the payload; those of a message of eight bytes are not looked at.
\<close>

definition incomingCallInd :: "reply_env \<Rightarrow> service_env \<Rightarrow> int \<Rightarrow> int \<Rightarrow> string option list option \<Rightarrow> nat \<Rightarrow> phone \<Rightarrow> phone option" where
  "incomingCallInd env senv slotId indicationType response responseLen st =
     (if \<not> mRadioIndication (reg (ph_client st)) slotId then Some st
      else case response of None \<Rightarrow> Some st
      | Some strings \<Rightarrow>
          if responseLen = 2 * 4 then Some st
          else if responseLen < 5 * ptr_size env then Some st
          else Option.bind (read_at strings 0) (\<lambda>s0. Option.bind (read_at strings 3) (\<lambda>s3. Option.bind (read_at strings 4) (\<lambda>s4.
            case (s0, s3, s4) of
              (Some s0, Some s3, Some s4) \<Rightarrow>
                map_option (notify env slotId indicationType ''callStateChanged'')
                  (send_ints senv slotId RIL_REQUEST_SET_CALL_INDICATION [atoi s3, atoi s0, atoi s4] st)
            | _ \<Rightarrow> Some st))))"

text \<open>The length is a number of pointers in some messages and a length in bytes in others.\<close>

definition call_fields :: "nat \<Rightarrow> nat \<Rightarrow> nat" where
  "call_fields ptr responseLen = (if responseLen \<ge> ptr \<and> responseLen mod ptr = 0 then responseLen div ptr else responseLen)"

definition callind_mode :: "service_env \<Rightarrow> int" where
  "callind_mode senv = (let v = property_get (sv_props senv) ''persist.m681.ril.callind_mode'' [] in if v \<noteq> [] then atoi (c_str v) else 1)"

definition forgeEcpiInd :: "reply_env \<Rightarrow> service_env \<Rightarrow> int \<Rightarrow> string option list option \<Rightarrow> nat \<Rightarrow> phone \<Rightarrow> phone option" where
  "forgeEcpiInd env senv slotId response responseLen st =
     (case response of None \<Rightarrow> Some st
      | Some strings \<Rightarrow>
          let nfields = call_fields (ptr_size env) responseLen in
          if nfields < 10 \<or> nfields > 32 then Some st
          else Option.bind (read_at strings 0) (\<lambda>s0. case s0 of None \<Rightarrow> Some st
          | Some callId \<Rightarrow>
              Option.bind (read_at strings 1) (\<lambda>s1.
                if s1 \<noteq> Some ''133'' then Some st
                else Option.bind (read_at strings (nfields - 1)) (\<lambda>seq.
                  send_ints senv slotId RIL_REQUEST_SET_CALL_INDICATION
                    [callind_mode senv, atoi callId, case seq of None \<Rightarrow> 0 | Some s \<Rightarrow> atoi s] st))))"

text \<open>
  \<open>callInfoInd\<close> reads the array behind \<open>NULL\<close> and \<open>NULL\<close> strings too; these accesses are faults of the model.
\<close>

definition callInfoInd :: "reply_env \<Rightarrow> service_env \<Rightarrow> int \<Rightarrow> int \<Rightarrow> string option list option \<Rightarrow> nat \<Rightarrow> phone \<Rightarrow> phone option" where
  "callInfoInd env senv slotId indicationType response responseLen st =
     (if \<not> mRadioIndication (reg (ph_client st)) slotId then Some st
      else
        let strings = case_option [] id response; nfields = call_fields (ptr_size env) responseLen in
        Option.bind
          (if nfields \<ge> 2 then
             Option.bind (read_at strings 0) (\<lambda>s0. case s0 of None \<Rightarrow> Some st
             | Some callId \<Rightarrow>
                 Option.bind (read_at strings 1) (\<lambda>s1.
                   if s1 \<noteq> Some ''133'' then Some st
                   else Option.bind (if nfields \<ge> 10 \<and> nfields \<le> 32 then read_at strings (nfields - 1) else Some None) (\<lambda>seq.
                     send_ints senv slotId RIL_REQUEST_SET_CALL_INDICATION
                       [callind_mode senv, atoi callId, case seq of None \<Rightarrow> 0 | Some s \<Rightarrow> atoi s] st)))
           else Some st)
          (\<lambda>st. if responseLen \<ge> 2 then
                   Option.bind (read_at strings 1) (\<lambda>s1. case s1 of None \<Rightarrow> None
                   | Some s \<Rightarrow> Some (if s = ''129'' then notify env slotId indicationType ''callStateChanged'' st else st))
                 else Some st))"

definition psNetworkStateChangedInd :: "reply_env \<Rightarrow> int \<Rightarrow> int \<Rightarrow> int list option \<Rightarrow> nat \<Rightarrow> phone \<Rightarrow> phone option" where
  "psNetworkStateChangedInd env slotId indicationType response responseLen st =
     (if \<not> mRadioIndication (reg (ph_client st)) slotId then Some st
      else case response of None \<Rightarrow> Some st
      | Some p_int \<Rightarrow>
          if responseLen < 4 then Some st
          else map_option (\<lambda>v. if v = 4 then notify env slotId indicationType ''networkStateChanged'' st else st) (read_at p_int 0))"

text \<open>\<open>setAttachApnInd\<close>: an attach APN of five empty strings, whose allocations are not checked.\<close>

definition setAttachApnInd :: "service_env \<Rightarrow> int \<Rightarrow> phone \<Rightarrow> phone option" where
  "setAttachApnInd senv slotId st =
     (if \<not> mRadioIndication (reg (ph_client st)) slotId then Some st
      else map_option (\<lambda>sv. st\<lparr>ph_service := sv\<rparr>)
        (with_request senv (- 1) slotId RIL_REQUEST_SET_INITIAL_ATTACH_APN (\<lambda>pRI sv.
           case fill_nulls senv (replicate 5 0) sv of (ps, sv) \<Rightarrow>
             Option.bind (enqueue senv RIL_REQUEST_SET_INITIAL_ATTACH_APN (Struct [0, 0] (map (text_at sv) ps)) FMT_IGNORE pRI sv)
               (free_all (memsetAndFreeStrings ps))) (ph_service st)))"

end
