(* ===== verification/RilIndicationsCorrect.thy ===== *)
theory RilIndicationsCorrect
  imports RilIndications
begin

text \<open>
  What the indications guarantee: a short message reaches the framework byte for byte and its conversion stays inside
  its buffers, an incoming call is acknowledged to the modem exactly once, an unusable answer about the radio
  capability is replaced by the capability last indicated, and the text of a USSD release is not lost.
\<close>

section \<open>Hexadecimal text\<close>

definition hex_codes :: "u8 list \<Rightarrow> u8 list" where
  "hex_codes bs = concat (map (\<lambda>b. map of_char (hex_byte b)) bs)"

lemma hexCharToInt_digit: "n < 16 \<Longrightarrow> hexCharToInt (of_char (hex_digit n)) = of_nat n"
proof -
  have "list_all (\<lambda>n. hexCharToInt (of_char (hex_digit n)) = of_nat n) [0..<16]" by code_simp
  then show "n < 16 \<Longrightarrow> ?thesis" by (simp add: list_all_iff)
qed

lemma hexCharToInt_valid: "n < 16 \<Longrightarrow> hexCharToInt (of_char (hex_digit n)) \<noteq> INVALID_HEX_CHAR"
proof -
  have "list_all (\<lambda>n. hexCharToInt (of_char (hex_digit n)) \<noteq> INVALID_HEX_CHAR) [0..<16]" by code_simp
  then show "n < 16 \<Longrightarrow> ?thesis" by (simp add: list_all_iff)
qed

lemma join_hex_chars: "or (push_bit 4 (of_nat (unat b div 16))) (of_nat (unat b mod 16)) = (b :: u8)"
proof -
  have "unat b div 16 = unat (drop_bit 4 b)" "unat b mod 16 = unat (take_bit 4 b)"
    by (simp_all add: drop_bit_eq_div take_bit_eq_mod unat_div unat_mod)
  moreover have "or (push_bit 4 (drop_bit 4 b)) (take_bit 4 b) = b"
    by (rule bit_word_eqI) (auto simp: bit_simps)
  ultimately show ?thesis by simp
qed

lemma length_hex_codes [simp]: "length (hex_codes bs) = 2 * length bs"
  by (induction bs) (simp_all add: hex_codes_def hex_byte_def)

lemma hex_codes_nth:
  "k < length bs \<Longrightarrow> hex_codes bs ! (2 * k) = of_char (hex_digit (unat (bs ! k) div 16)) \<and>
    hex_codes bs ! (2 * k + 1) = of_char (hex_digit (unat (bs ! k) mod 16))"
proof (induction bs arbitrary: k)
  case (Cons b bs)
  then show ?case by (cases k) (simp_all add: hex_codes_def hex_byte_def)
qed simp

text \<open>One half of the buffer after \<open>k\<close> bytes.\<close>

definition filled :: "nat \<Rightarrow> u8 list \<Rightarrow> u8 list" where
  "filled k bs = take k bs @ replicate (length bs - k) 0"

lemma length_filled [simp]: "k \<le> length bs \<Longrightarrow> length (filled k bs) = length bs"
  by (simp add: filled_def)

lemma filled_update: "k < length bs \<Longrightarrow> (filled k bs)[k := bs ! k] = filled (Suc k) bs"
proof -
  assume k: "k < length bs"
  then have "replicate (length bs - k) (0 :: u8) = 0 # replicate (length bs - Suc k) 0"
    by (simp flip: replicate_Suc add: Suc_diff_Suc)
  then show ?thesis using k by (simp add: filled_def list_update_append take_Suc_conv_app_nth)
qed

lemma hex_loop_filled:
  "k \<le> length bs \<Longrightarrow> hex_loop (hex_codes bs) (2 * length bs) (2 * k) (filled k bs @ filled k bs) = Some (Some (bs @ bs))"
proof (induction k rule: inc_induct)
  case base
  then show ?case by (simp add: hex_loop.simps filled_def)
next
  case (step k)
  let ?b = "bs ! k"
  have "unat ?b < 2 ^ LENGTH(8)" by (rule unsigned_less)
  then have d: "unat ?b div 16 < 16" "unat ?b mod 16 < 16" by simp_all
  have two: "(filled k bs @ filled k bs)[k := ?b, length bs + k := ?b] = filled (Suc k) bs @ filled (Suc k) bs"
    using step.hyps filled_update [of k bs] by (simp add: list_update_append)
  have "(2 * length bs + 2 * k) div 2 = length bs + k" by simp
  then show ?case
    using step hex_codes_nth [of k bs] hexCharToInt_digit hexCharToInt_valid d two
    by (subst hex_loop.simps) (simp add: byte_at_def Let_def join_hex_chars)
qed

lemma convert_hex_codes: "convertHexStringToBytes True (hex_codes bs) (2 * length bs) = Some (Some (bs @ bs))"
  using hex_loop_filled [of 0 bs] by (simp add: convertHexStringToBytes_def filled_def mult_2 replicate_add)

lemma hex_loop_inside:
  "length hexString = n \<Longrightarrow> even n \<Longrightarrow> even i \<Longrightarrow> length bytes = n \<Longrightarrow>
    \<exists>r. hex_loop hexString n i bytes = Some r \<and> (\<forall>bs. r = Some bs \<longrightarrow> length bs = n)"
proof (induction hexString n i bytes rule: hex_loop.induct)
  case (1 hexString n i bytes)
  have "Suc i < n" "i div 2 < n" "(n + i) div 2 < n" if "i < n" using that 1(3,4) by presburger+
  then show ?case using 1 by (subst hex_loop.simps) (auto simp: byte_at_def Let_def)
qed

lemma convert_inside:
  "\<exists>r. convertHexStringToBytes calloc_ok s (length s) = Some r \<and> (\<forall>bs. r = Some bs \<longrightarrow> length bs = length s)"
  using hex_loop_inside [of s "length s" 0 "replicate (length s) 0"] by (auto simp: convertHexStringToBytes_def)

section \<open>Requests of the service itself\<close>

text \<open>
  A vendor request with memory available: the vendor gets the integers, and the request is local, so that its answer
  is not passed to the framework.
\<close>

lemma dispatchInts_vendor:
  assumes ok: "service_ok st" and mem: "\<And>a. sv_calloc env a" and range: "2000 \<le> request" "request < 2141"
  shows "\<exists>st' r. dispatchInts env (- 1) slotId request ints st = Some st' \<and> requests (sv_ril st') (sv_fresh st) = Some r \<and> ri_local r \<and>
    vendor_calls st' = vendor_calls st @ [\<lparr>vc_request = request, vc_data = The_ints ints, vc_token = sv_fresh st, vc_socket = slotId\<rparr>]"
proof -
  let ?pRI = "sv_fresh st"
  have start: "mtk_command_start (sv_ril st) = 0" "?pRI \<noteq> 0" using ok by (simp_all add: service_ok_def)
  have index: "command_index 0 request = request - 2000" using range by (simp add: command_index_def base_defs)
  have "\<exists>ril r. addRequestToList ?pRI (- 1) slotId request (sv_ril st) = Some (?pRI, ril) \<and> requests ril ?pRI = Some r \<and>
      ri_local r \<and> ri_socket_id r = slotId"
    using start range by (auto simp: addRequestToList_def index s_commands_length Let_def set_pending_def)
  then obtain ril r where new: "addRequestToList ?pRI (- 1) slotId request (sv_ril st) = Some (?pRI, ril)" "requests ril ?pRI = Some r"
    "ri_local r" "ri_socket_id r = slotId" by blast
  show ?thesis using new start mem
    by (simp add: dispatchInts_def with_request_def new_request_def calloc_n_def enqueue_def my_enqueue_def Let_def)
qed

text \<open>The five allocations of \<open>setAttachApnInd\<close> may fail: its request settles all the same.\<close>

lemma setAttachApn_settled:
  assumes "service_ok (ph_service st)" "mRadioIndication (reg (ph_client st)) slotId"
  shows "\<exists>st'. setAttachApnInd senv slotId st = Some st' \<and>
    settled RIL_REQUEST_SET_INITIAL_ATTACH_APN slotId (- 1) (ph_service st) (ph_service st') \<and> ph_client st' = ph_client st"
proof -
  have served: "served RIL_REQUEST_SET_INITIAL_ATTACH_APN" by (rule servedI) simp_all
  have "\<exists>sv'. with_request senv (- 1) slotId RIL_REQUEST_SET_INITIAL_ATTACH_APN (\<lambda>pRI sv.
        case fill_nulls senv (replicate 5 0) sv of (ps, sv) \<Rightarrow>
          Option.bind (enqueue senv RIL_REQUEST_SET_INITIAL_ATTACH_APN (Struct [0, 0] (map (text_at sv) ps)) FMT_IGNORE pRI sv)
            (free_all (memsetAndFreeStrings ps))) (ph_service st) = Some sv' \<and>
      settled RIL_REQUEST_SET_INITIAL_ATTACH_APN slotId (- 1) (ph_service st) sv'"
  proof (rule with_request_settled [OF assms(1) served])
    fix pRI r sv
    assume sv: "service_ok sv" "known pRI r sv"
    obtain ps sv1 where fill: "fill_nulls senv (replicate 5 0) sv = (ps, sv1)" by fastforce
    obtain as where as: "prepared as sv sv1" "same_elements (memsetAndFreeStrings (replicate 5 0) @ as) (memsetAndFreeStrings ps)"
      using fill_nulls_prepared [OF sv(1) fill] by blast
    then have "prepared (memsetAndFreeStrings ps) sv sv1" using prepared_perm by (simp add: memsetAndFreeStrings_def)
    from enqueue_free_finished [OF sv this] show "\<exists>st'. (case fill_nulls senv (replicate 5 0) sv of (ps, sv) \<Rightarrow>
        Option.bind (enqueue senv RIL_REQUEST_SET_INITIAL_ATTACH_APN (Struct [0, 0] (map (text_at sv) ps)) FMT_IGNORE pRI sv)
          (free_all (memsetAndFreeStrings ps))) = Some st' \<and> finished RIL_REQUEST_SET_INITIAL_ATTACH_APN pRI r sv st'"
      by (simp add: fill)
  qed
  then show ?thesis using assms(2) by (auto simp: setAttachApnInd_def)
qed

section \<open>Radio capability\<close>

text \<open>An indication: its slot, its type, the payload and its length.\<close>

type_synonym capability_ind = "int \<times> int \<times> RIL_RadioCapability option \<times> nat"

definition indicated :: "reply_env \<Rightarrow> nat \<Rightarrow> capability_ind list \<Rightarrow> phone \<Rightarrow> phone" where
  "indicated env sz inds st = foldl (\<lambda>st (slotId, indicationType, response, responseLen).
     radioCapabilityIndicationInd env sz slotId indicationType response responseLen st) st inds"

definition usable :: "nat \<Rightarrow> int \<Rightarrow> capability_ind list \<Rightarrow> RIL_RadioCapability list" where
  "usable sz slotId inds = [rc. (s, t, Some rc, len) \<leftarrow> inds, s = slotId \<and> len = sz]"

lemma callback_ok [simp]:
  "transaction_ok env (length (hidl_calls c)) \<Longrightarrow> reg (callback env slotId isRadioService name info args c) = reg c"
  by (simp add: callback_def checkReturnStatus_def)

lemma indicated_reg:
  assumes "\<And>n. transaction_ok env n"
  shows "reg (ph_client (indicated env sz inds st)) = reg (ph_client st)"
  using assms by (induction inds rule: rev_induct)
    (auto simp: indicated_def radioCapabilityIndicationInd_def Let_def split: option.splits)

lemma indicated_last:
  assumes "\<And>n. transaction_ok env n" "mRadioIndication (reg (ph_client st)) slotId" "0 \<le> slotId" "slotId < SIM_SLOTS"
  shows "lastRadioCapability (indicated env sz inds st) slotId =
    (if usable sz slotId inds = [] then lastRadioCapability st slotId else Some (last (usable sz slotId inds)))"
proof (induction inds rule: rev_induct)
  case (snoc x inds)
  have "reg (ph_client (indicated env sz inds st)) = reg (ph_client st)" by (rule indicated_reg [OF assms(1)])
  then show ?case using snoc assms(2-4)
    by (cases x) (auto simp: indicated_def usable_def radioCapabilityIndicationInd_def Let_def split: option.splits)
qed (simp add: indicated_def usable_def)

section \<open>Smaller facts\<close>

text \<open>The text of a USSD message is handed over unless the mode is missing, and never under mode 2.\<close>

lemma ussd_text_kept:
  assumes "0 < ptr" "strings ! 0 = Some mode" "strings ! 1 = Some msg" "2 \<le> length strings"
  shows "\<exists>m. ussd_payload ptr (Some strings) (ptr * length strings) = Some (Some [H_int m, H_str msg]) \<and> (msg \<noteq> [] \<longrightarrow> m \<noteq> 2) \<and>
    (atoi mode \<noteq> 2 \<longrightarrow> m = atoi mode)"
  using assms by (auto simp: ussd_payload_def read_at_def convertCharPtrToHidlString_def Let_def)

text \<open>The remapping of the LTE values changes nothing when applied again, although it works in the vendor's memory.\<close>

lemma fixup_lte_idempotent: "fixup_lte (fixup_lte l) = fixup_lte l"
  by (simp add: fixup_lte_def INT_MAX_def)

text \<open>A failed request to set the capability is reported as a success once a capability was indicated.\<close>

lemma failed_set_reported_as_success:
  assumes "lastRadioCapability st slotId = Some rc" "0 \<le> slotId" "slotId < SIM_SLOTS"
  shows "info_error (fst (responseRadioCapability sz slotId serial responseType e None 0 (lastRadioCapability st))) = Errno 0"
  using assms by (simp add: responseRadioCapability_def Let_def)

lemma call_info_null_faults:
  "mRadioIndication (reg (ph_client st)) slotId \<Longrightarrow> responseLen \<ge> 2 \<Longrightarrow> callInfoInd env senv slotId indicationType None responseLen st = None"
  by (simp add: callInfoInd_def read_at_def Let_def)

section \<open>Properties\<close>

text \<open>
  C37 (roundtrip). A short message reaches the framework byte for byte: when the vendor passes the hexadecimal text of
  the bytes \<open>bs\<close> and memory is available, \<open>newSmsInd\<close> makes one call with exactly \<open>bs\<close>. Whatever the text is, its
  conversion reads and writes only inside the text and the buffer.
\<close>

theorem sms_pdu_roundtrip:
  assumes "mRadioIndication (reg st) slotId" "bs \<noteq> []"
  shows "newSmsInd env True slotId indicationType (Some (hex_codes bs)) (2 * length bs + 1) st =
      Some (callback env slotId True ''newSms'' None [ind_arg indicationType, H_bytes bs] st)
    \<and> (\<exists>r. convertHexStringToBytes calloc_ok s (length s) = Some r)"
  using assms convert_hex_codes [of bs] convert_inside [of calloc_ok s]
  by (auto simp: newSmsInd_def indicate_def pdu_payload_def Let_def)

lemma sms_pdu_roundtrip_witness:
  "newSmsInd reply_env0 True 0 RESPONSE_UNSOLICITED (Some (hex_codes [0x07, 0x91, 0xAF])) 7 client0 =
      Some (callback reply_env0 0 True ''newSms'' None [ind_arg RESPONSE_UNSOLICITED, H_bytes [0x07, 0x91, 0xAF]] client0)
    \<and> (\<exists>r. convertHexStringToBytes True [48, 71] 2 = Some r)"
  using sms_pdu_roundtrip [of client0 0 "[0x07, 0x91, 0xAF]" reply_env0 RESPONSE_UNSOLICITED True "[48, 71]"]
  by (simp add: client0_def eval_nat_numeral)

text \<open>
  C36 (functional). An incoming call is acknowledged to the modem exactly once: on a call message of \<open>n\<close> fields, 10 to
  32, in state 133, \<open>callInfoInd\<close> sends one \<open>SET_CALL_INDICATION\<close> with the configured mode, the call's number and the
  sequence number of the last field, for the slot and as a request of the service itself; the framework is not called.
\<close>

theorem incoming_call_acknowledged:
  assumes "service_ok (ph_service st)" "\<And>a. sv_calloc senv a" "mRadioIndication (reg (ph_client st)) slotId" "0 < ptr_size env"
    and n: "10 \<le> n" "n \<le> 32" "n = length strings"
    and fields: "strings ! 0 = Some callId" "strings ! 1 = Some ''133''" "strings ! (n - 1) = Some seq"
  shows "\<exists>st' r. callInfoInd env senv slotId indicationType (Some strings) (n * ptr_size env) st = Some st' \<and>
    vendor_calls (ph_service st') = vendor_calls (ph_service st) @
      [\<lparr>vc_request = RIL_REQUEST_SET_CALL_INDICATION, vc_data = The_ints [callind_mode senv, atoi callId, atoi seq],
        vc_token = sv_fresh (ph_service st), vc_socket = slotId\<rparr>]
    \<and> requests (sv_ril (ph_service st')) (sv_fresh (ph_service st)) = Some r \<and> ri_local r \<and> ph_client st' = ph_client st"
proof -
  have fields_n: "call_fields (ptr_size env) (n * ptr_size env) = n" "2 \<le> n * ptr_size env"
    using assms(4) n mult_le_mono [of 2 n 1 "ptr_size env"] by (simp_all add: call_fields_def)
  have "strings \<noteq> []" using n by auto
  obtain sv' r where "dispatchInts senv (- 1) slotId RIL_REQUEST_SET_CALL_INDICATION [callind_mode senv, atoi callId, atoi seq] (ph_service st) = Some sv'"
    "requests (sv_ril sv') (sv_fresh (ph_service st)) = Some r" "ri_local r"
    "vendor_calls sv' = vendor_calls (ph_service st) @ [\<lparr>vc_request = RIL_REQUEST_SET_CALL_INDICATION,
       vc_data = The_ints [callind_mode senv, atoi callId, atoi seq], vc_token = sv_fresh (ph_service st), vc_socket = slotId\<rparr>]"
    using dispatchInts_vendor [OF assms(1,2), of RIL_REQUEST_SET_CALL_INDICATION slotId "[callind_mode senv, atoi callId, atoi seq]"] by auto
  then show ?thesis using assms(3) n fields fields_n \<open>strings \<noteq> []\<close>
    by (simp add: callInfoInd_def send_ints_def read_at_def Let_def)
qed

definition phone0 :: phone where
  "phone0 = \<lparr>ph_service = service_init 11, ph_client = client0, lastRadioCapability = (\<lambda>s. None)\<rparr>"

definition ecpi :: "string option list" where
  "ecpi = [Some ''1'', Some ''133'', Some ''0'', Some ''1'', Some ''0'', Some ''0'', Some ''5551'', Some ''129'', None, Some ''42'']"

lemma incoming_call_acknowledged_witness:
  "\<exists>st' r. callInfoInd reply_env0 memory 0 RESPONSE_UNSOLICITED (Some ecpi) (10 * 4) phone0 = Some st' \<and>
    vendor_calls (ph_service st') = [\<lparr>vc_request = RIL_REQUEST_SET_CALL_INDICATION, vc_data = The_ints [callind_mode memory, atoi ''1'', atoi ''42''],
        vc_token = 1, vc_socket = 0\<rparr>] \<and> requests (sv_ril (ph_service st')) 1 = Some r \<and> ri_local r \<and> ph_client st' = client0"
proof -
  have start: "ph_service phone0 = service_init 11" "ph_client phone0 = client0" "mRadioIndication (reg client0) 0" "ptr_size reply_env0 = 4"
    "vendor_calls (service_init 11) = []" "sv_fresh (service_init 11) = 1"
    by (simp_all add: phone0_def client0_def reply_env0_def service_init_def)
  have ok: "service_ok (ph_service phone0)" by (simp add: start(1))
  have mem: "\<And>a. sv_calloc memory a" by (simp add: memory_def)
  have fields: "10 = length ecpi" "ecpi ! 0 = Some ''1''" "ecpi ! 1 = Some ''133''" "ecpi ! (10 - 1) = Some ''42''" by (simp_all add: ecpi_def)
  show ?thesis
    using incoming_call_acknowledged [OF ok mem _ _ _ _ fields, of 0 reply_env0 RESPONSE_UNSOLICITED] start(3) unfolding start by simp
qed

text \<open>
  An answer about the radio capability that is missing or too short is replaced by the capability the
  vendor last indicated for the slot, without an error; when it never indicated one, the framework gets the error, or
  \<open>INVALID_RESPONSE\<close> when there is none. A usable answer is passed on as it is.
\<close>

theorem capability_substituted:
  assumes "\<And>n. transaction_ok env n" "mRadioIndication (reg (ph_client st)) slotId" "mRadioResponse (reg (ph_client st)) slotId"
    "0 \<le> slotId" "slotId < SIM_SLOTS" "lastRadioCapability st slotId = None"
  shows "let st1 = indicated env sz inds st; info = populateResponseInfo serial responseType e; usable_answer = (response \<noteq> None \<and> sz \<le> responseLen) in
    getRadioCapabilityResponse env sz slotId responseType serial e response responseLen st1 =
      st1\<lparr>ph_client := callback env slotId True ''getRadioCapabilityResponse''
        (Some (if usable_answer then info else if usable sz slotId inds \<noteq> [] then info\<lparr>info_error := Errno 0\<rparr> else invalid e info))
        [if usable_answer then convertRilRadioCapabilityToHal (the response)
         else if usable sz slotId inds \<noteq> [] then convertRilRadioCapabilityToHal (last (usable sz slotId inds)) else no_capability]
        (ph_client st1)\<rparr>"
  using indicated_reg [OF assms(1), where sz = sz and inds = inds and st = st] indicated_last [OF assms(1,2,4,5), where sz = sz and inds = inds] assms(3-6)
  by (auto simp: getRadioCapabilityResponse_def capability_response_def responseRadioCapability_def Let_def)

definition good_env :: reply_env where
  "good_env = reply_env0\<lparr>transaction_ok := (\<lambda>n. True)\<rparr>"

definition lte_capability :: RIL_RadioCapability where
  "lte_capability = \<lparr>rc_session = 1, rc_phase = 0, rc_rat = 16384, rc_logicalModemUuid = ''modem_0'', rc_status = 1\<rparr>"

lemma capability_substituted_witness:
  "let st1 = indicated good_env 84 [(0, RESPONSE_UNSOLICITED, Some lte_capability, 84)] phone0 in
    getRadioCapabilityResponse good_env 84 0 RESPONSE_SOLICITED 9 2 None 0 st1 =
      st1\<lparr>ph_client := callback good_env 0 True ''getRadioCapabilityResponse'' (Some ((populateResponseInfo 9 RESPONSE_SOLICITED 2)\<lparr>info_error := Errno 0\<rparr>))
        [convertRilRadioCapabilityToHal lte_capability] (ph_client st1)\<rparr>"
proof -
  have ok: "\<And>n. transaction_ok good_env n" by (simp add: good_env_def)
  have at: "mRadioIndication (reg (ph_client phone0)) 0" "mRadioResponse (reg (ph_client phone0)) 0" "(0 :: int) \<le> 0" "0 < SIM_SLOTS"
    "lastRadioCapability phone0 0 = None" by (simp_all add: phone0_def client0_def SIM_SLOTS_def)
  show ?thesis
    using capability_substituted [OF ok at, of 84 "[(0, RESPONSE_UNSOLICITED, Some lte_capability, 84)]" 9 RESPONSE_SOLICITED 2 None 0]
    by (simp add: usable_def Let_def)
qed

end
