(* ===== verification/RilStatus.thy ===== *)
theory RilStatus
  imports RilIndicationsCorrect
begin

text \<open>
  The responses of the radio service that carry structures (\<open>ril_service.cpp\<close>): network registration with the
  identity of the cell, the card and its applications, calls, broadcast configuration, hardware, link capacity,
  modem activity and carriers; and the CDMA short message.

  A vendor's union is a datatype. Where a response is an array of pointers, its elements are the structures pointed
  to. The lengths of structures are arguments \<open>sz\<close>.
\<close>

section \<open>Identity of a cell\<close>

datatype RIL_CellIdentity =
    Cell_gsm int int int int int int
  | Cell_wcdma int int int int int int
  | Cell_cdma int int int int int
  | Cell_lte int int int int int int
  | Cell_tdscdma int int int int int
  | Cell_other int

datatype RIL_CellInfoType =
    RIL_CELL_INFO_TYPE_NONE | RIL_CELL_INFO_TYPE_GSM | RIL_CELL_INFO_TYPE_CDMA | RIL_CELL_INFO_TYPE_LTE | RIL_CELL_INFO_TYPE_WCDMA
  | RIL_CELL_INFO_TYPE_TD_SCDMA

definition getCellInfoTypeRadioTechnology :: "string option \<Rightarrow> RIL_CellInfoType" where
  "getCellInfoTypeRadioTechnology rat =
     (case rat of None \<Rightarrow> RIL_CELL_INFO_TYPE_NONE
      | Some s \<Rightarrow>
          let radioTech = atoi s in
          if radioTech \<in> {1, 2, 16} then RIL_CELL_INFO_TYPE_GSM
          else if radioTech \<in> {3, 9, 10, 11, 15} then RIL_CELL_INFO_TYPE_WCDMA
          else if radioTech \<in> {4, 5, 6, 7, 8, 12, 13} then RIL_CELL_INFO_TYPE_CDMA
          else if radioTech \<in> {14, 19} then RIL_CELL_INFO_TYPE_LTE
          else if radioTech = 17 then RIL_CELL_INFO_TYPE_TD_SCDMA
          else RIL_CELL_INFO_TYPE_NONE)"

text \<open>The type and the five vectors, of which at most one has an element.\<close>

definition cell_args :: "int \<Rightarrow> hidl_arg list \<Rightarrow> hidl_arg list \<Rightarrow> hidl_arg list \<Rightarrow> hidl_arg list \<Rightarrow> hidl_arg list \<Rightarrow> hidl_arg" where
  "cell_args kind gsm wcdma cdma tdscdma lteCells = H_list [H_int kind, H_list gsm, H_list wcdma, H_list cdma, H_list tdscdma, H_list lteCells]"

definition fillCellIdentityResponse :: "RIL_CellIdentity \<Rightarrow> hidl_arg" where
  "fillCellIdentityResponse c =
     (case c of
        Cell_gsm mcc mnc lac cid arfcn bsic \<Rightarrow>
          cell_args 1 [H_list ([H_str (to_string mcc), H_str (to_string mnc)] @ map H_int [lac, cid, arfcn, bsic])] [] [] [] []
      | Cell_wcdma mcc mnc lac cid psc uarfcn \<Rightarrow>
          cell_args 4 [] [H_list ([H_str (to_string mcc), H_str (to_string mnc)] @ map H_int [lac, cid, psc, uarfcn])] [] [] []
      | Cell_cdma networkId systemId basestationId longitude latitude \<Rightarrow>
          cell_args 2 [] [] [H_list (map H_int [networkId, systemId, basestationId, longitude, latitude])] [] []
      | Cell_lte mcc mnc ci pci tac earfcn \<Rightarrow>
          cell_args 3 [] [] [] [] [H_list ([H_str (to_string mcc), H_str (to_string mnc)] @ map H_int [ci, pci, tac, earfcn])]
      | Cell_tdscdma mcc mnc lac cid cpid \<Rightarrow>
          cell_args 5 [] [] [] [H_list ([H_str (to_string mcc), H_str (to_string mnc)] @ map H_int [lac, cid, cpid])] []
      | Cell_other t \<Rightarrow> cell_args t [] [] [] [] [])"

text \<open>\<open>strtol(s, NULL, 16)\<close>: blanks, a sign, \<open>0x\<close> before a digit, digits; the value is cut to an \<open>int\<close>.\<close>

definition hex_value :: "string \<Rightarrow> int" where
  "hex_value = foldl (\<lambda>v c. 16 * v + forgeHexNibble c) 0"

definition is_hex :: "char \<Rightarrow> bool" where
  "is_hex c \<longleftrightarrow> forgeHexNibble c \<ge> 0"

definition strtol16 :: "string \<Rightarrow> int" where
  "strtol16 s =
     (let t = dropWhile isspace s;
          neg = (t \<noteq> [] \<and> hd t = CHR ''-'');
          u = (if t \<noteq> [] \<and> (hd t = CHR ''-'' \<or> hd t = CHR ''+'') then tl t else t);
          u = (if length u \<ge> 3 \<and> (take 2 u = ''0x'' \<or> take 2 u = ''0X'') \<and> is_hex (u ! 2) then drop 2 u else u);
          v = hex_value (takeWhile is_hex u);
          v = (if neg then - v else v)
      in clamp v INT64_MIN INT64_MAX)"

definition convertResponseStringEntryToInt :: "string option list \<Rightarrow> nat \<Rightarrow> nat \<Rightarrow> int option" where
  "convertResponseStringEntryToInt response index numStrings =
     (if numStrings > index then map_option (\<lambda>s. case s of None \<Rightarrow> - 1 | Some s \<Rightarrow> signed_take_bit 31 (strtol16 s)) (read_at response index)
      else Some (- 1))"

text \<open>
  The identity from the strings of an answer: all fields not filled are \<open>- 1\<close> (\<open>memset\<close>), the byte of a GSM cell 255.
\<close>

definition fillCellIdentityFromVoiceRegStateResponseString :: "nat \<Rightarrow> string option list \<Rightarrow> hidl_arg option" where
  "fillCellIdentityFromVoiceRegStateResponseString numStrings response =
     Option.bind (read_at response 3) (\<lambda>rat.
       let entry = (\<lambda>i. convertResponseStringEntryToInt response i numStrings) in
       map_option fillCellIdentityResponse
         (case getCellInfoTypeRadioTechnology rat of
            RIL_CELL_INFO_TYPE_GSM \<Rightarrow> Option.bind (entry 1) (\<lambda>lac. map_option (\<lambda>cid. Cell_gsm (- 1) (- 1) lac cid (- 1) 255) (entry 2))
          | RIL_CELL_INFO_TYPE_WCDMA \<Rightarrow>
              Option.bind (entry 1) (\<lambda>lac. Option.bind (entry 2) (\<lambda>cid. map_option (\<lambda>psc. Cell_wcdma (- 1) (- 1) lac cid psc (- 1)) (entry 14)))
          | RIL_CELL_INFO_TYPE_TD_SCDMA \<Rightarrow> Option.bind (entry 1) (\<lambda>lac. map_option (\<lambda>cid. Cell_tdscdma (- 1) (- 1) lac cid (- 1)) (entry 2))
          | RIL_CELL_INFO_TYPE_CDMA \<Rightarrow>
              Option.bind (entry 4) (\<lambda>base. Option.bind (entry 5) (\<lambda>longitude. Option.bind (entry 6) (\<lambda>latitude.
                Option.bind (entry 8) (\<lambda>sys. map_option (\<lambda>net. Cell_cdma net sys base longitude latitude) (entry 9)))))
          | RIL_CELL_INFO_TYPE_LTE \<Rightarrow> Option.bind (entry 1) (\<lambda>tac. map_option (\<lambda>ci. Cell_lte (- 1) (- 1) ci (- 1) tac (- 1)) (entry 2))
          | RIL_CELL_INFO_TYPE_NONE \<Rightarrow> Some (Cell_other 0)))"

definition fillCellIdentityFromDataRegStateResponseString :: "nat \<Rightarrow> string option list \<Rightarrow> hidl_arg option" where
  "fillCellIdentityFromDataRegStateResponseString numStrings response =
     Option.bind (read_at response 3) (\<lambda>rat.
       let entry = (\<lambda>i. convertResponseStringEntryToInt response i numStrings) in
       map_option fillCellIdentityResponse
         (case getCellInfoTypeRadioTechnology rat of
            RIL_CELL_INFO_TYPE_GSM \<Rightarrow> Option.bind (entry 1) (\<lambda>lac. map_option (\<lambda>cid. Cell_gsm (- 1) (- 1) lac cid (- 1) 255) (entry 2))
          | RIL_CELL_INFO_TYPE_WCDMA \<Rightarrow> Option.bind (entry 1) (\<lambda>lac. map_option (\<lambda>cid. Cell_wcdma (- 1) (- 1) lac cid (- 1) (- 1)) (entry 2))
          | RIL_CELL_INFO_TYPE_TD_SCDMA \<Rightarrow> Option.bind (entry 1) (\<lambda>lac. map_option (\<lambda>cid. Cell_tdscdma (- 1) (- 1) lac cid (- 1)) (entry 2))
          | RIL_CELL_INFO_TYPE_LTE \<Rightarrow>
              Option.bind (entry 6) (\<lambda>tac. Option.bind (entry 7) (\<lambda>pci. map_option (\<lambda>ci. Cell_lte (- 1) (- 1) ci pci tac (- 1)) (entry 8)))
          | RIL_CELL_INFO_TYPE_CDMA \<Rightarrow> Some (Cell_cdma (- 1) (- 1) (- 1) (- 1) (- 1))
          | RIL_CELL_INFO_TYPE_NONE \<Rightarrow> Some (Cell_other 0)))"

section \<open>Registration\<close>

text \<open>An answer: strings up to version 14 of the RIL, a structure from 15 on; taking one for the other is a fault of the model.\<close>

datatype reg_response = Reg_strings "string option list" | Reg_struct "int list" RIL_CellIdentity

definition ATOI_NULL_HANDLED_DEF :: "string option \<Rightarrow> int \<Rightarrow> int" where
  "ATOI_NULL_HANDLED_DEF x d = (case x of None \<Rightarrow> d | Some s \<Rightarrow> atoi s)"

definition ATOI_NULL_HANDLED :: "string option \<Rightarrow> int" where
  "ATOI_NULL_HANDLED x = ATOI_NULL_HANDLED_DEF x (- 1)"

definition no_voice_reg :: hidl_arg where
  "no_voice_reg = H_list (map H_int (replicate 7 0) @ [cell_args 0 [] [] [] [] []])"

definition voice_reg_strings :: "nat \<Rightarrow> string option list \<Rightarrow> hidl_arg option" where
  "voice_reg_strings numStrings resp =
     (let entry = (\<lambda>i d. if numStrings > 4 then map_option (\<lambda>s. ATOI_NULL_HANDLED_DEF s d) (read_at resp i) else Some d) in
      Option.bind (read_at resp 0) (\<lambda>s0. Option.bind (read_at resp 3) (\<lambda>s3.
      Option.bind (entry 7 0) (\<lambda>css. Option.bind (entry 10 (- 1)) (\<lambda>roaming. Option.bind (entry 11 0) (\<lambda>prl.
      Option.bind (entry 12 0) (\<lambda>dflt. Option.bind (entry 13 0) (\<lambda>denial.
        map_option (\<lambda>cell. H_list (map H_int [ATOI_NULL_HANDLED_DEF s0 4, ATOI_NULL_HANDLED s3, css, roaming, prl, dflt, denial] @ [cell]))
          (fillCellIdentityFromVoiceRegStateResponseString numStrings resp)))))))))"

definition getVoiceRegistrationStateResponse ::
  "reply_env \<Rightarrow> int \<Rightarrow> nat \<Rightarrow> int \<Rightarrow> int \<Rightarrow> int \<Rightarrow> u32 \<Rightarrow> reg_response option \<Rightarrow> nat \<Rightarrow> client \<Rightarrow> client option" where
  "getVoiceRegistrationStateResponse env ril_version sz slotId responseType serial e response responseLen =
     reply env slotId True ''getVoiceRegistrationStateResponse''
       (let info = populateResponseInfo serial responseType e; numStrings = responseLen div ptr_size env in
        case response of None \<Rightarrow> Some (invalid e info, [no_voice_reg])
        | Some (Reg_strings resp) \<Rightarrow>
            if ril_version > 14 then (if responseLen \<noteq> sz then Some (invalid e info, [no_voice_reg]) else None)
            else if numStrings < 4 then Some (invalid e info, [no_voice_reg])
            else map_option (\<lambda>r. (info, [r])) (voice_reg_strings numStrings resp)
        | Some (Reg_struct ints cell) \<Rightarrow>
            if ril_version \<le> 14 then (if numStrings < 4 then Some (invalid e info, [no_voice_reg]) else None)
            else if responseLen \<noteq> sz then Some (invalid e info, [no_voice_reg])
            else Some (info, [H_list (map H_int ints @ [fillCellIdentityResponse cell])]))"

definition no_data_reg :: hidl_arg where
  "no_data_reg = H_list (map H_int (replicate 4 0) @ [cell_args 0 [] [] [] [] []])"

text \<open>Technologies from 128 on are the vendor's own and reported as \<open>HSPAP\<close> (15).\<close>

definition data_reg_strings :: "nat \<Rightarrow> string option list \<Rightarrow> hidl_arg option" where
  "data_reg_strings numStrings resp =
     (let entry = (\<lambda>i d d0. if numStrings > 4 then map_option (\<lambda>s. ATOI_NULL_HANDLED_DEF s d) (read_at resp i) else Some d0) in
      Option.bind (read_at resp 0) (\<lambda>s0. Option.bind (read_at resp 3) (\<lambda>s3.
        let rat = ATOI_NULL_HANDLED_DEF s3 0; rat = (if rat \<ge> 128 then 15 else rat) in
        Option.bind (entry 4 (- 1) (- 1)) (\<lambda>denied. Option.bind (entry 5 1 1) (\<lambda>maxDataCalls.
          map_option (\<lambda>cell. H_list (map H_int [ATOI_NULL_HANDLED_DEF s0 4, rat, denied, maxDataCalls] @ [cell]))
            (fillCellIdentityFromDataRegStateResponseString numStrings resp))))))"

definition getDataRegistrationStateResponse ::
  "reply_env \<Rightarrow> int \<Rightarrow> nat \<Rightarrow> int \<Rightarrow> int \<Rightarrow> int \<Rightarrow> u32 \<Rightarrow> reg_response option \<Rightarrow> nat \<Rightarrow> client \<Rightarrow> client option" where
  "getDataRegistrationStateResponse env ril_version sz slotId responseType serial e response responseLen =
     reply env slotId True ''getDataRegistrationStateResponse''
       (let info = populateResponseInfo serial responseType e; numStrings = responseLen div ptr_size env in
        case response of None \<Rightarrow> Some (invalid e info, [no_data_reg])
        | Some (Reg_strings resp) \<Rightarrow>
            if ril_version > 14 then (if responseLen \<noteq> sz then Some (invalid e info, [no_data_reg]) else None)
            else if numStrings \<notin> {4, 6, 11} then Some (invalid e info, [no_data_reg])
            else map_option (\<lambda>r. (info, [r])) (data_reg_strings numStrings resp)
        | Some (Reg_struct ints cell) \<Rightarrow>
            if ril_version \<le> 14 then (if numStrings \<notin> {4, 6, 11} then Some (invalid e info, [no_data_reg]) else None)
            else if responseLen \<noteq> sz then Some (invalid e info, [no_data_reg])
            else Some (info, [H_list (map H_int ints @ [fillCellIdentityResponse cell])]))"

section \<open>Card, calls and lists\<close>

text \<open>A structure of \<open>sz\<close> bytes; \<open>none\<close> is what the client gets when there is none.\<close>

definition struct_made :: "nat \<Rightarrow> int \<Rightarrow> int \<Rightarrow> u32 \<Rightarrow> hidl_arg \<Rightarrow> ('a \<Rightarrow> hidl_arg option) \<Rightarrow> 'a option \<Rightarrow> nat \<Rightarrow> (RadioResponseInfo \<times> hidl_arg list) option" where
  "struct_made sz serial responseType e none conv response responseLen =
     (let info = populateResponseInfo serial responseType e in
      case response of None \<Rightarrow> Some (invalid e info, [none])
      | Some r \<Rightarrow> if responseLen \<noteq> sz then Some (invalid e info, [none]) else map_option (\<lambda>a. (info, [a])) (conv r))"

text \<open>An array of elements of \<open>sz\<close> bytes, whole ones only.\<close>

definition array_made :: "nat \<Rightarrow> int \<Rightarrow> int \<Rightarrow> u32 \<Rightarrow> ('a \<Rightarrow> hidl_arg option) \<Rightarrow> 'a list option \<Rightarrow> nat \<Rightarrow> (RadioResponseInfo \<times> hidl_arg list) option" where
  "array_made sz serial responseType e conv response responseLen =
     (let info = populateResponseInfo serial responseType e in
      case response of None \<Rightarrow> Some (invalid e info, [H_list []])
      | Some rs \<Rightarrow>
          if responseLen mod sz \<noteq> 0 then Some (invalid e info, [H_list []])
          else Option.bind (read_array rs (responseLen div sz)) (\<lambda>rs.
            map_option (\<lambda>as. (info, [H_list as])) (those (map conv rs))))"

record AppStatus =
  app_type :: int
  app_state :: int
  perso_substate :: int
  aid_ptr :: "string option"
  app_label_ptr :: "string option"
  pin1_replaced :: int
  pin1 :: int
  pin2 :: int

definition app_args :: "AppStatus \<Rightarrow> hidl_arg" where
  "app_args a = H_list [H_int (app_type a), H_int (app_state a), H_int (perso_substate a), H_str (convertCharPtrToHidlString (aid_ptr a)),
     H_str (convertCharPtrToHidlString (app_label_ptr a)), H_int (pin1_replaced a), H_int (pin1 a), H_int (pin2 a)]"

record CardStatus =
  card_state :: int
  universal_pin_state :: int
  gsm_umts_subscription_app_index :: int
  cdma_subscription_app_index :: int
  ims_subscription_app_index :: int
  num_applications :: nat
  applications :: "AppStatus list"

text \<open>
  \<open>applications\<close> is the array of the structure, of eight elements; \<open>num_applications\<close> is not compared with its
  length.
\<close>

definition getIccCardStatusResponse :: "reply_env \<Rightarrow> nat \<Rightarrow> int \<Rightarrow> int \<Rightarrow> int \<Rightarrow> u32 \<Rightarrow> CardStatus option \<Rightarrow> nat \<Rightarrow> client \<Rightarrow> client option" where
  "getIccCardStatusResponse env sz slotId responseType serial e response responseLen =
     reply env slotId True ''getIccCardStatusResponse''
       (struct_made sz serial responseType e (H_list (map H_int (replicate 5 0) @ [H_list []]))
         (\<lambda>c. map_option (\<lambda>apps. H_list (map H_int [card_state c, universal_pin_state c, gsm_umts_subscription_app_index c,
              cdma_subscription_app_index c, ims_subscription_app_index c] @ [H_list (map app_args apps)]))
            (read_array (applications c) (num_applications c))) response responseLen)"

record RIL_Call =
  call_state :: int
  call_index :: int
  call_toa :: int
  call_flags :: "int list"
  call_number :: "string option"
  call_numberPresentation :: int
  call_name :: "string option"
  call_namePresentation :: int
  call_uusInfo :: "(int \<times> int \<times> string option) option"

text \<open>
  \<open>getCurrentCallsResponse\<close>; \<open>call_flags\<close> are \<open>isMpty\<close>, \<open>isMT\<close>, \<open>als\<close>, \<open>isVoice\<close> and \<open>isVoicePrivacy\<close>. User-to-user
  data is written to the first element of an empty vector, which is a fault of the model.
\<close>

definition call_args :: "RIL_Call \<Rightarrow> hidl_arg option" where
  "call_args c =
     (case call_uusInfo c of Some (_, _, Some _) \<Rightarrow> None
      | _ \<Rightarrow> Some (H_list (map H_int ([call_state c, call_index c, call_toa c] @ call_flags c) @
          [H_str (convertCharPtrToHidlString (call_number c)), H_int (call_numberPresentation c),
           H_str (convertCharPtrToHidlString (call_name c)), H_int (call_namePresentation c), H_list []])))"

definition getCurrentCallsResponse :: "reply_env \<Rightarrow> int \<Rightarrow> int \<Rightarrow> int \<Rightarrow> u32 \<Rightarrow> RIL_Call list option \<Rightarrow> nat \<Rightarrow> client \<Rightarrow> client option" where
  "getCurrentCallsResponse env slotId responseType serial e response responseLen =
     reply env slotId True ''getCurrentCallsResponse'' (array_made (ptr_size env) serial responseType e call_args response responseLen)"

record NeighboringCell =
  nb_cid :: "string option"
  nb_rssi :: int

definition getNeighboringCidsResponse :: "reply_env \<Rightarrow> int \<Rightarrow> int \<Rightarrow> int \<Rightarrow> u32 \<Rightarrow> NeighboringCell list option \<Rightarrow> nat \<Rightarrow> client \<Rightarrow> client option" where
  "getNeighboringCidsResponse env slotId responseType serial e response responseLen =
     reply env slotId True ''getNeighboringCidsResponse''
       (array_made (ptr_size env) serial responseType e
         (\<lambda>c. Some (H_list [H_str (convertCharPtrToHidlString (nb_cid c)), H_int (nb_rssi c)])) response responseLen)"

record GSM_BroadcastSmsConfigInfo =
  gsm_ids :: "int list"
  gsm_selected :: int

definition getGsmBroadcastConfigResponse ::
  "reply_env \<Rightarrow> int \<Rightarrow> int \<Rightarrow> int \<Rightarrow> u32 \<Rightarrow> GSM_BroadcastSmsConfigInfo list option \<Rightarrow> nat \<Rightarrow> client \<Rightarrow> client option" where
  "getGsmBroadcastConfigResponse env slotId responseType serial e response responseLen =
     reply env slotId True ''getGsmBroadcastConfigResponse''
       (array_made (ptr_size env) serial responseType e
         (\<lambda>c. Some (H_list (map H_int (gsm_ids c) @ [H_bool (gsm_selected c = 1)]))) response responseLen)"

record CDMA_BroadcastSmsConfigInfo =
  service_category :: int
  cdma_language :: int
  cdma_selected :: int

definition getCdmaBroadcastConfigResponse ::
  "reply_env \<Rightarrow> int \<Rightarrow> int \<Rightarrow> int \<Rightarrow> u32 \<Rightarrow> CDMA_BroadcastSmsConfigInfo list option \<Rightarrow> nat \<Rightarrow> client \<Rightarrow> client option" where
  "getCdmaBroadcastConfigResponse env slotId responseType serial e response responseLen =
     reply env slotId True ''getCdmaBroadcastConfigResponse''
       (array_made (ptr_size env) serial responseType e
         (\<lambda>c. Some (H_list [H_int (service_category c), H_int (cdma_language c), H_bool (cdma_selected c = 1)])) response responseLen)"

definition getCDMASubscriptionResponse :: "reply_env \<Rightarrow> int \<Rightarrow> int \<Rightarrow> int \<Rightarrow> u32 \<Rightarrow> string option list option \<Rightarrow> nat \<Rightarrow> client \<Rightarrow> client option" where
  "getCDMASubscriptionResponse env slotId responseType serial e response responseLen =
     reply env slotId True ''getCDMASubscriptionResponse''
       (let info = populateResponseInfo serial responseType e in
        case response of None \<Rightarrow> Some (invalid e info, replicate 5 (H_str []))
        | Some strings \<Rightarrow>
            if responseLen div ptr_size env \<noteq> 5 then Some (invalid e info, replicate 5 (H_str []))
            else map_option (\<lambda>ss. (info, map (\<lambda>s. H_str (convertCharPtrToHidlString s)) ss)) (read_array strings 5))"

section \<open>Hardware, link capacity, activity, carriers\<close>

datatype hardware_cfg = Modem_cfg int int int int | Sim_cfg string | Other_cfg int

record HardwareConfig =
  hw_uuid :: string
  hw_state :: int
  hw_cfg :: hardware_cfg

definition hardware_args :: "HardwareConfig \<Rightarrow> hidl_arg" where
  "hardware_args c =
     (case hw_cfg c of
        Modem_cfg rat maxVoice maxData maxStandby \<Rightarrow>
          H_list [H_int 0, H_str (hw_uuid c), H_int (hw_state c), H_list [H_list (map H_int [rat, maxVoice, maxData, maxStandby])], H_list []]
      | Sim_cfg modemUuid \<Rightarrow> H_list [H_int 1, H_str (hw_uuid c), H_int (hw_state c), H_list [], H_list [H_str modemUuid]]
      | Other_cfg t \<Rightarrow> H_list [H_int t, H_str (hw_uuid c), H_int (hw_state c), H_list [], H_list []])"

definition getHardwareConfigResponse :: "reply_env \<Rightarrow> nat \<Rightarrow> int \<Rightarrow> int \<Rightarrow> int \<Rightarrow> u32 \<Rightarrow> HardwareConfig list option \<Rightarrow> nat \<Rightarrow> client \<Rightarrow> client option" where
  "getHardwareConfigResponse env sz slotId responseType serial e response responseLen =
     reply env slotId True ''getHardwareConfigResponse''
       (array_made sz serial responseType e (\<lambda>c. Some (hardware_args c)) response responseLen)"

definition hardwareConfigChangedInd :: "reply_env \<Rightarrow> nat \<Rightarrow> int \<Rightarrow> int \<Rightarrow> HardwareConfig list option \<Rightarrow> nat \<Rightarrow> client \<Rightarrow> client option" where
  "hardwareConfigChangedInd env sz slotId indicationType response responseLen =
     indicate env slotId True indicationType ''hardwareConfigChanged''
       (case response of None \<Rightarrow> Some None
        | Some cs \<Rightarrow> if responseLen mod sz \<noteq> 0 then Some None
            else map_option (\<lambda>cs. Some [H_list (map hardware_args cs)]) (read_array cs (responseLen div sz)))"

record LceStatusInfo =
  lce_status :: int
  actual_interval_ms :: int

definition responseLceStatusInfo ::
  "nat \<Rightarrow> int \<Rightarrow> int \<Rightarrow> u32 \<Rightarrow> LceStatusInfo option \<Rightarrow> nat \<Rightarrow> (RadioResponseInfo \<times> hidl_arg list) option" where
  "responseLceStatusInfo sz serial responseType e response responseLen =
     struct_made sz serial responseType e (H_list [H_int 0, H_int 0])
       (\<lambda>l. Some (H_list [H_int (lce_status l), H_int (take_bit 8 (actual_interval_ms l))])) response responseLen"

definition startLceServiceResponse :: "reply_env \<Rightarrow> nat \<Rightarrow> int \<Rightarrow> int \<Rightarrow> int \<Rightarrow> u32 \<Rightarrow> LceStatusInfo option \<Rightarrow> nat \<Rightarrow> client \<Rightarrow> client option" where
  "startLceServiceResponse env sz slotId responseType serial e response responseLen =
     reply env slotId True ''startLceServiceResponse'' (responseLceStatusInfo sz serial responseType e response responseLen)"

definition stopLceServiceResponse :: "reply_env \<Rightarrow> nat \<Rightarrow> int \<Rightarrow> int \<Rightarrow> int \<Rightarrow> u32 \<Rightarrow> LceStatusInfo option \<Rightarrow> nat \<Rightarrow> client \<Rightarrow> client option" where
  "stopLceServiceResponse env sz slotId responseType serial e response responseLen =
     reply env slotId True ''stopLceServiceResponse'' (responseLceStatusInfo sz serial responseType e response responseLen)"

definition pullLceDataResponse :: "reply_env \<Rightarrow> nat \<Rightarrow> int \<Rightarrow> int \<Rightarrow> int \<Rightarrow> u32 \<Rightarrow> LceDataInfo option \<Rightarrow> nat \<Rightarrow> client \<Rightarrow> client option" where
  "pullLceDataResponse env sz slotId responseType serial e response responseLen =
     reply env slotId True ''pullLceDataResponse''
       (struct_made sz serial responseType e (H_list [H_int 0, H_int 0, H_bool False]) (\<lambda>l. Some (convertRilLceDataInfoToHal l)) response responseLen)"

record ActivityStatsInfo =
  sleep_mode_time_ms :: int
  idle_mode_time_ms :: int
  tx_mode_time_ms :: "int list"
  rx_mode_time_ms :: int

definition RIL_NUM_TX_POWER_LEVELS :: nat where "RIL_NUM_TX_POWER_LEVELS = 5"

text \<open>An answer of another size is not an error here: the client gets zeros.\<close>

definition getModemActivityInfoResponse :: "reply_env \<Rightarrow> nat \<Rightarrow> int \<Rightarrow> int \<Rightarrow> int \<Rightarrow> u32 \<Rightarrow> ActivityStatsInfo option \<Rightarrow> nat \<Rightarrow> client \<Rightarrow> client option" where
  "getModemActivityInfoResponse env sz slotId responseType serial e response responseLen =
     reply env slotId True ''getModemActivityInfoResponse''
       (let info = populateResponseInfo serial responseType e;
            zeros = H_list [H_int 0, H_int 0, H_list (replicate RIL_NUM_TX_POWER_LEVELS (H_int 0)), H_int 0] in
        case response of None \<Rightarrow> Some (info, [zeros])
        | Some a \<Rightarrow>
            if responseLen \<noteq> sz then Some (info, [zeros])
            else map_option (\<lambda>tx. (info, [H_list [H_int (sleep_mode_time_ms a), H_int (idle_mode_time_ms a), H_list (map H_int tx), H_int (rx_mode_time_ms a)]]))
                   (read_array (tx_mode_time_ms a) RIL_NUM_TX_POWER_LEVELS))"

record RIL_Carrier =
  ca_mcc :: "string option"
  ca_mnc :: "string option"
  ca_match_type :: int
  ca_match_data :: "string option"

definition carrier_args :: "RIL_Carrier \<Rightarrow> hidl_arg" where
  "carrier_args c = H_list [H_str (convertCharPtrToHidlString (ca_mcc c)), H_str (convertCharPtrToHidlString (ca_mnc c)), H_int (ca_match_type c),
     H_str (convertCharPtrToHidlString (ca_match_data c))]"

record CarrierRestrictions =
  len_allowed_carriers :: nat
  len_excluded_carriers :: nat
  allowed_carriers :: "RIL_Carrier list"
  excluded_carriers :: "RIL_Carrier list"

definition getAllowedCarriersResponse :: "reply_env \<Rightarrow> nat \<Rightarrow> int \<Rightarrow> int \<Rightarrow> int \<Rightarrow> u32 \<Rightarrow> CarrierRestrictions option \<Rightarrow> nat \<Rightarrow> client \<Rightarrow> client option" where
  "getAllowedCarriersResponse env sz slotId responseType serial e response responseLen =
     reply env slotId True ''getAllowedCarriersResponse''
       (let info = populateResponseInfo serial responseType e; none = H_list [H_list [], H_list []] in
        case response of None \<Rightarrow> Some (info, [H_bool True, none])
        | Some cr \<Rightarrow>
            if responseLen \<noteq> sz then Some (invalid e info, [H_bool True, none])
            else Option.bind (read_array (allowed_carriers cr) (len_allowed_carriers cr)) (\<lambda>as.
              map_option (\<lambda>xs. (info, [H_bool (\<not> (len_allowed_carriers cr > 0 \<or> len_excluded_carriers cr > 0)),
                  H_list [H_list (map carrier_args as), H_list (map carrier_args xs)]]))
                (read_array (excluded_carriers cr) (len_excluded_carriers cr))))"

section \<open>Lemmas\<close>

lemma entry_total:
  "numStrings \<le> length resp \<Longrightarrow> \<exists>n. convertResponseStringEntryToInt resp i numStrings = Some n"
  by (auto simp: convertResponseStringEntryToInt_def read_at_def)

lemma bind_total: "\<exists>x. m = Some x \<Longrightarrow> (\<And>x. \<exists>y. f x = Some y) \<Longrightarrow> \<exists>y. Option.bind m f = Some y"
  by auto

lemma map_option_total: "\<exists>x. m = Some x \<Longrightarrow> \<exists>y. map_option f m = Some y"
  by auto

lemma data_cell_total:
  assumes "numStrings \<le> length resp" "4 \<le> numStrings"
  shows "\<exists>c. fillCellIdentityFromDataRegStateResponseString numStrings resp = Some c"
proof -
  have "read_at resp 3 = Some (resp ! 3)" using assms by (simp add: read_at_def)
  then show ?thesis unfolding fillCellIdentityFromDataRegStateResponseString_def Let_def
    by (cases "getCellInfoTypeRadioTechnology (resp ! 3)") (auto intro!: bind_total map_option_total entry_total [OF assms(1)])
qed

lemma data_reg_total:
  assumes "numStrings \<in> {4, 6, 11}" "numStrings \<le> length resp"
  shows "\<exists>state rat denied calls cell. data_reg_strings numStrings resp = Some (H_list [H_int state, H_int rat, H_int denied, H_int calls, cell]) \<and>
    rat < 128 \<and> fillCellIdentityFromDataRegStateResponseString numStrings resp = Some cell"
proof -
  obtain cell where cell: "fillCellIdentityFromDataRegStateResponseString numStrings resp = Some cell"
    using data_cell_total [of numStrings resp] assms by auto
  have "read_at resp 0 = Some (resp ! 0)" "read_at resp 3 = Some (resp ! 3)" using assms by (auto simp: read_at_def)
  moreover have "read_at resp 4 = Some (resp ! 4)" "read_at resp 5 = Some (resp ! 5)" if "4 < numStrings" using assms that by (auto simp: read_at_def)
  ultimately show ?thesis using cell by (auto simp: data_reg_strings_def Let_def)
qed

section \<open>Where the code goes wrong\<close>

text \<open>With five to thirteen strings the voice answer is read beyond its end.\<close>

lemma voice_reg_reads_beyond:
  assumes "4 < length resp" "length resp < 14"
  shows "voice_reg_strings (length resp) resp = None"
proof -
  have "read_at resp 13 = None" using assms by (simp add: read_at_def)
  then show ?thesis using assms by (auto simp: voice_reg_strings_def Let_def Option.bind_eq_None_conv)
qed

text \<open>A vendor technology is reported as \<open>HSPAP\<close>, but its cell is taken from the number as it came and is lost.\<close>

lemma vendor_technology_loses_cell:
  assumes "resp ! 3 = Some s" "128 \<le> atoi s" "4 \<le> numStrings" "numStrings \<le> length resp"
  shows "fillCellIdentityFromDataRegStateResponseString numStrings resp = Some (cell_args 0 [] [] [] [] [])"
  using assms by (simp add: fillCellIdentityFromDataRegStateResponseString_def getCellInfoTypeRadioTechnology_def read_at_def Let_def
      fillCellIdentityResponse_def)

lemma call_with_uus_faults:
  "call_uusInfo c = Some (t, d, Some u) \<Longrightarrow> 0 < ptr_size env \<Longrightarrow> mRadioResponse (reg st) slotId \<Longrightarrow>
    getCurrentCallsResponse env slotId responseType serial e (Some [c]) (ptr_size env) st = None"
  by (simp add: getCurrentCallsResponse_def reply_def array_made_def Let_def read_array_def call_args_def)

section \<open>Properties\<close>

text \<open>
  C38 (error). An answer about data registration is judged by the number of its strings: with 4, 6 or 11 it is read
  without leaving the array, whatever the strings hold or which of them are missing, and the technology reported is
  below 128, never one of the vendor's own; with any other number the client gets an empty result, and
  \<open>INVALID_RESPONSE\<close> unless the request has failed anyway.
\<close>

theorem data_registration_checked:
  assumes "ril_version \<le> 14" "mRadioResponse (reg st) slotId" "0 < ptr_size env" "responseLen div ptr_size env \<le> length resp"
  shows "if responseLen div ptr_size env \<in> {4, 6, 11}
    then \<exists>state rat denied calls cell. rat < 128 \<and>
      getDataRegistrationStateResponse env ril_version sz slotId responseType serial e (Some (Reg_strings resp)) responseLen st =
        Some (callback env slotId True ''getDataRegistrationStateResponse'' (Some (populateResponseInfo serial responseType e))
          [H_list [H_int state, H_int rat, H_int denied, H_int calls, cell]] st)
    else getDataRegistrationStateResponse env ril_version sz slotId responseType serial e (Some (Reg_strings resp)) responseLen st =
        Some (callback env slotId True ''getDataRegistrationStateResponse'' (Some (invalid e (populateResponseInfo serial responseType e)))
          [no_data_reg] st)"
proof (cases "responseLen div ptr_size env \<in> {4, 6, 11}")
  case True
  then show ?thesis using data_reg_total [OF True assms(4)] assms(1,2)
    by (fastforce simp: getDataRegistrationStateResponse_def reply_def Let_def)
next
  case False
  then show ?thesis using assms(1,2) by (simp add: getDataRegistrationStateResponse_def reply_def Let_def)
qed

definition reg_answer :: "string option list" where
  "reg_answer = [Some ''1'', Some ''1A2B'', None, Some ''14'']"

lemma data_registration_checked_witness:
  "\<exists>state rat denied calls cell. rat < 128 \<and>
      getDataRegistrationStateResponse reply_env0 11 0 0 RESPONSE_SOLICITED 3 0 (Some (Reg_strings reg_answer)) 16 client0 =
        Some (callback reply_env0 0 True ''getDataRegistrationStateResponse'' (Some (populateResponseInfo 3 RESPONSE_SOLICITED 0))
          [H_list [H_int state, H_int rat, H_int denied, H_int calls, cell]] client0)"
proof -
  have env: "ptr_size reply_env0 = 4" "mRadioResponse (reg client0) 0" "length reg_answer = 4"
    by (simp_all add: reply_env0_def client0_def reg_answer_def)
  show ?thesis
    using data_registration_checked [of 11 client0 0 reply_env0 16 reg_answer 0 RESPONSE_SOLICITED 3 0] by (simp add: env)
qed

end
