(* ===== verification/RilSap.thy ===== *)
theory RilSap
  imports Words "HOL-Library.Monad_Syntax"
begin

text \<open>
  The SIM access profile: the service \<open>ISap\<close> (\<open>sap_service.cpp\<close>), its sockets (\<open>RilSapSocket.cpp\<close>) and their queue of
  requests (\<open>rilSocketQueue.h\<close>), for the two SIM slots of the build (\<open>ANDROID_SIM_COUNT_2\<close>, \<open>ANDROID_MULTI_SIM\<close>).

  C memory is a map from addresses to what was allocated there, 0 is \<open>NULL\<close>. Freeing or using memory that is not
  allocated, following \<open>NULL\<close> and reading an indeterminate pointer give \<open>None\<close>. Arguments, in \<open>sap_env\<close>: which
  allocations succeed, the encoder and the decoders of nanopb and the message types it generates (\<open>sap-api.pb.h\<close>, not
  in the repository; \<open>pb_size_t\<close> has 16 bits), a number of the HIDL interface, what the vendor does inside \<open>onRequest\<close>, and the state of the HIDL
  transport. A message that a decoder filled is one cell, with the arrays it points to. Calls of the vendor and of the
  client are recorded in order.
\<close>

section \<open>Messages\<close>

text \<open>Message numbers, kinds and structures, by the names the code uses for them.\<close>

datatype MsgId = SAP_CONNECT | SAP_DISCONNECT | SAP_APDU | SAP_TRANSFER_ATR | SAP_POWER | SAP_RESET_SIM | SAP_STATUS
  | SAP_TRANSFER_CARD_READER_STATUS | SAP_ERROR_RESP | SAP_SET_TRANSFER_PROTOCOL | SAP_OTHER int

datatype MsgType = MsgType_REQUEST | MsgType_RESPONSE | MsgType_UNSOL_RESPONSE

record MsgHeader =
  mh_token :: int
  mh_type :: MsgType
  mh_id :: MsgId
  mh_error :: int
  mh_payload :: nat

datatype sap_req = CONNECT_REQ int | DISCONNECT_REQ | APDU_REQ int "u8 list option" | TRANSFER_ATR_REQ | POWER_REQ bool
  | RESET_SIM_REQ | TRANSFER_CARD_READER_STATUS_REQ | SET_TRANSFER_PROTOCOL_REQ int

datatype sap_proto = Proto_SUCCESS | Proto_GENERIC_FAILURE | Proto_SIM_NOT_READY | Proto_SIM_ALREADY_POWERED_OFF
  | Proto_SIM_ALREADY_POWERED_ON | Proto_SIM_ABSENT | Proto_SIM_DATA_NOT_AVAILABLE | Proto_other int

datatype sap_rsp = CONNECT_RSP int int | DISCONNECT_RSP | DISCONNECT_IND int | APDU_RSP sap_proto "u8 list option"
  | TRANSFER_ATR_RSP sap_proto "u8 list option" | POWER_RSP sap_proto | RESET_SIM_RSP sap_proto | STATUS_IND int
  | TRANSFER_CARD_READER_STATUS_RSP sap_proto int | ERROR_RSP | SET_TRANSFER_PROTOCOL_RSP sap_proto

datatype SapResultCode = Sap_SUCCESS | Sap_GENERIC_FAILURE | Sap_CARD_NOT_ACCESSSIBLE | Sap_CARD_ALREADY_POWERED_OFF
  | Sap_CARD_REMOVED | Sap_CARD_ALREADY_POWERED_ON | Sap_DATA_NOT_AVAILABLE | Sap_NOT_SUPPORTED

text \<open>The calls of \<open>ISapCallback\<close>; the first argument is the token.\<close>

datatype sap_call = connectResponse int int int | disconnectResponse int | disconnectIndication int int
  | apduResponse int SapResultCode "u8 list" | transferAtrResponse int SapResultCode "u8 list"
  | powerResponse int SapResultCode | resetSimResponse int SapResultCode | statusIndication int int
  | transferCardReaderStatusResponse int SapResultCode int | errorResponse int | transferProtocolResponse int SapResultCode

section \<open>State\<close>

record SapSocketRequest =
  sr_token :: int
  sr_curr :: nat
  sr_p_next :: nat
  sr_socketId :: int

datatype sap_cell = Sap_raw | Sap_node SapSocketRequest | Sap_header MsgHeader | Sap_bytes "u8 list" | Sap_message sap_rsp

text \<open>
  A socket. The constructor leaves \<open>uimFuncs\<close> indeterminate when it is given none. \<open>dispatchQueue\<close> is never used.
\<close>

record RilSapSocket =
  rs_name :: string
  rs_id :: int
  rs_uimFuncs :: bool
  rs_front :: nat

record SapImpl =
  sapCallback :: bool
  rilSocketId :: int

record sap_vendor_call =
  sv_id :: MsgId
  sv_bytes :: "u8 list"
  sv_token :: nat
  sv_socket :: int

record sap =
  sap_heap :: "nat \<rightharpoonup> sap_cell"
  sap_fresh :: nat
  sap_sockets :: "RilSapSocket list"
  sapService :: "nat \<Rightarrow> SapImpl option"
  sap_requests :: "sap_vendor_call list"
  sap_calls :: "(nat \<times> sap_call) list"

record sap_env =
  sa_malloc :: "nat \<Rightarrow> bool"
  pb_get_encoded_size :: "sap_req \<Rightarrow> nat option"
  pb_encode :: "nat \<Rightarrow> sap_req \<Rightarrow> u8 list option"
  pb_CONNECT_RSP :: "u8 list \<Rightarrow> (int \<times> int) option"
  pb_DISCONNECT_RSP :: "u8 list \<Rightarrow> unit option"
  pb_DISCONNECT_IND :: "u8 list \<Rightarrow> int option"
  pb_APDU_RSP :: "u8 list \<Rightarrow> (sap_proto \<times> u8 list option) option"
  pb_TRANSFER_ATR_RSP :: "u8 list \<Rightarrow> (sap_proto \<times> u8 list option) option"
  pb_POWER_RSP :: "u8 list \<Rightarrow> sap_proto option"
  pb_RESET_SIM_RSP :: "u8 list \<Rightarrow> sap_proto option"
  pb_STATUS_IND :: "u8 list \<Rightarrow> int option"
  pb_TRANSFER_CARD_READER_STATUS_RSP :: "u8 list \<Rightarrow> (sap_proto \<times> int) option"
  pb_ERROR_RSP :: "u8 list \<Rightarrow> unit option"
  pb_SET_TRANSFER_PROTOCOL_RSP :: "u8 list \<Rightarrow> sap_proto option"
  sa_CONNECT_FAILURE :: int
  sa_MsgId :: "int \<Rightarrow> MsgId"
  sa_onRequest :: "sap_vendor_call \<Rightarrow> sap \<Rightarrow> sap option"
  sa_isOk :: "nat \<Rightarrow> bool"

section \<open>Memory\<close>

definition sap_malloc :: "sap_env \<Rightarrow> sap_cell \<Rightarrow> sap \<Rightarrow> nat \<times> sap" where
  "sap_malloc E c s =
     (let a = sap_fresh s; s = s\<lparr>sap_fresh := Suc a\<rparr> in
      if sa_malloc E a then (a, s\<lparr>sap_heap := (sap_heap s)(a \<mapsto> c)\<rparr>) else (0, s))"

definition sap_free :: "nat \<Rightarrow> sap \<Rightarrow> sap option" where
  "sap_free p s =
     (if p = 0 then Some s else case sap_heap s p of
        None \<Rightarrow> None
      | Some _ \<Rightarrow> Some (s\<lparr>sap_heap := (sap_heap s)(p := None)\<rparr>))"

definition node_at :: "(nat \<rightharpoonup> sap_cell) \<Rightarrow> nat \<Rightarrow> SapSocketRequest option" where
  "node_at h p = (case h p of Some (Sap_node n) \<Rightarrow> Some n | _ \<Rightarrow> None)"

definition header_at :: "(nat \<rightharpoonup> sap_cell) \<Rightarrow> nat \<Rightarrow> MsgHeader option" where
  "header_at h p = (case h p of Some (Sap_header m) \<Rightarrow> Some m | _ \<Rightarrow> None)"

definition bytes_at :: "(nat \<rightharpoonup> sap_cell) \<Rightarrow> nat \<Rightarrow> u8 list option" where
  "bytes_at h p = (case h p of Some (Sap_bytes b) \<Rightarrow> Some b | _ \<Rightarrow> None)"

definition message_at :: "(nat \<rightharpoonup> sap_cell) \<Rightarrow> nat \<Rightarrow> sap_rsp option" where
  "message_at h p = (case h p of Some (Sap_message m) \<Rightarrow> Some m | _ \<Rightarrow> None)"

text \<open>A length stored in a \<open>pb_size_t\<close> or an \<open>uint16_t\<close>.\<close>

definition pb_size :: "nat \<Rightarrow> nat" where
  "pb_size n = n mod 65536"

section \<open>The queue of requests\<close>

text \<open>A store through \<open>ppCur\<close>: the head of the queue (\<open>None\<close>) or the link of a node.\<close>

definition set_link :: "nat option \<Rightarrow> nat \<Rightarrow> (nat \<rightharpoonup> sap_cell) \<times> nat \<Rightarrow> ((nat \<rightharpoonup> sap_cell) \<times> nat) option" where
  "set_link ppCur v = (\<lambda>(h, front). case ppCur of
       None \<Rightarrow> Some (h, v)
     | Some p \<Rightarrow> map_option (\<lambda>n. (h(p \<mapsto> Sap_node (n\<lparr>sr_p_next := v\<rparr>)), front)) (node_at h p))"

definition queue_enqueue :: "nat \<Rightarrow> (nat \<rightharpoonup> sap_cell) \<times> nat \<Rightarrow> ((nat \<rightharpoonup> sap_cell) \<times> nat) option" where
  "queue_enqueue request = (\<lambda>(h, front).
     if front = 0 then map_option (\<lambda>(h, _). (h, request)) (set_link (Some request) 0 (h, front))
     else map_option (\<lambda>(h, _). (h, request)) (set_link (Some request) front (h, front)))"

text \<open>\<open>dequeue\<close> once the queue is not empty; it waits as long as it is.\<close>

definition queue_dequeue :: "(nat \<rightharpoonup> sap_cell) \<times> nat \<Rightarrow> (nat \<times> nat) option" where
  "queue_dequeue = (\<lambda>(h, front). map_option (\<lambda>n. (front, if sr_p_next n \<noteq> 0 then sr_p_next n else 0)) (node_at h front))"

definition queue_empty :: "nat \<Rightarrow> bool" where
  "queue_empty front \<longleftrightarrow> front = 0"

text \<open>The test of the loop looks at the message only when the tokens agree.\<close>

definition queue_match :: "MsgId \<Rightarrow> int \<Rightarrow> (nat \<rightharpoonup> sap_cell) \<Rightarrow> SapSocketRequest \<Rightarrow> bool option" where
  "queue_match mid token h n =
     (if token = sr_token n then map_option (\<lambda>m. mid = mh_id m) (header_at h (sr_curr n)) else Some False)"

partial_function (option) queue_search ::
  "MsgId \<Rightarrow> int \<Rightarrow> nat option \<Rightarrow> nat \<Rightarrow> (nat \<rightharpoonup> sap_cell) \<Rightarrow> nat \<Rightarrow> (bool \<times> (nat \<rightharpoonup> sap_cell) \<times> nat) option" where
  "queue_search mid token ppCur cur h front =
     (if cur = 0 then Some (False, h, front)
      else do {
        n \<leftarrow> node_at h cur;
        found \<leftarrow> queue_match mid token h n;
        if found then do {
          (h, front) \<leftarrow> set_link ppCur (sr_p_next n) (h, front);
          Some (True, h(cur := None), front)
        } else queue_search mid token (Some cur) (sr_p_next n) h front
      })"

definition checkAndDequeue :: "MsgId \<Rightarrow> int \<Rightarrow> (nat \<rightharpoonup> sap_cell) \<times> nat \<Rightarrow> (bool \<times> (nat \<rightharpoonup> sap_cell) \<times> nat) option" where
  "checkAndDequeue mid token = (\<lambda>(h, front). queue_search mid token None front h front)"

section \<open>Sockets\<close>

text \<open>A socket is referred to by its place in the list.\<close>

fun getSocketById :: "int \<Rightarrow> RilSapSocket list \<Rightarrow> nat option" where
  "getSocketById socketId [] = None"
| "getSocketById socketId (x # xs) = (if socketId = rs_id x then Some 0 else map_option Suc (getSocketById socketId xs))"

fun SocketExists :: "string \<Rightarrow> RilSapSocket list \<Rightarrow> bool" where
  "SocketExists socketName [] = False"
| "SocketExists socketName (x # xs) = (if rs_name x = socketName then True else SocketExists socketName xs)"

definition RilSapSocket_ctor :: "string \<Rightarrow> int \<Rightarrow> bool \<Rightarrow> RilSapSocket" where
  "RilSapSocket_ctor socketName socketId inputUimFuncs =
     \<lparr>rs_name = socketName, rs_id = socketId, rs_uimFuncs = inputUimFuncs, rs_front = 0\<rparr>"

definition addSocketToList :: "sap_env \<Rightarrow> string \<Rightarrow> int \<Rightarrow> bool \<Rightarrow> sap \<Rightarrow> sap" where
  "addSocketToList E socketName socketid uim s =
     (if \<not> SocketExists socketName (sap_sockets s) then
        (let (listItem, s) = sap_malloc E Sap_raw s in
         if listItem = 0 then s
         else s\<lparr>sap_sockets := sap_sockets s @ [RilSapSocket_ctor socketName socketid uim]\<rparr>)
      else s)"

definition initSapSocket :: "sap_env \<Rightarrow> string \<Rightarrow> bool \<Rightarrow> sap \<Rightarrow> sap" where
  "initSapSocket E socketName uim s =
     (let s = (if socketName = ''slot1'' \<and> \<not> SocketExists socketName (sap_sockets s)
               then addSocketToList E socketName 0 uim s else s) in
      if socketName = ''slot2'' \<and> \<not> SocketExists socketName (sap_sockets s)
      then addSocketToList E socketName 1 uim s else s)"

definition sap_registerService :: "sap \<Rightarrow> sap" where
  "sap_registerService s =
     s\<lparr>sapService := (sapService s)(0 \<mapsto> \<lparr>sapCallback = False, rilSocketId = 0\<rparr>, 1 \<mapsto> \<lparr>sapCallback = False, rilSocketId = 1\<rparr>)\<rparr>"

text \<open>\<open>Init\<close> of the vendor's library: \<open>None\<close> when there is none, otherwise whether it returned functions.\<close>

definition RIL_register_socket :: "sap_env \<Rightarrow> bool option \<Rightarrow> bool \<Rightarrow> sap \<Rightarrow> sap" where
  "RIL_register_socket E Init is_sap s = (case Init of
       None \<Rightarrow> s
     | Some uim \<Rightarrow> sap_registerService
         (if is_sap then initSapSocket E ''slot2'' uim (initSapSocket E ''slot1'' uim s) else s))"

definition upd_front :: "nat \<Rightarrow> nat \<Rightarrow> RilSapSocket list \<Rightarrow> RilSapSocket list" where
  "upd_front this front xs = xs[this := (xs ! this)\<lparr>rs_front := front\<rparr>]"

definition dispatchRequest :: "sap_env \<Rightarrow> nat \<Rightarrow> nat \<Rightarrow> sap \<Rightarrow> sap option" where
  "dispatchRequest E this req s =
     (let (currRequest, s) = sap_malloc E Sap_raw s; sock = sap_sockets s ! this in
      if currRequest = 0 then sap_free req s
      else do {
        m \<leftarrow> header_at (sap_heap s) req;
        let n = \<lparr>sr_token = mh_token m, sr_curr = req, sr_p_next = 0, sr_socketId = rs_id sock\<rparr>;
        (h, front) \<leftarrow> queue_enqueue currRequest ((sap_heap s)(currRequest \<mapsto> Sap_node n), rs_front sock);
        let s = s\<lparr>sap_heap := h, sap_sockets := upd_front this front (sap_sockets s)\<rparr>;
        if rs_uimFuncs sock then do {
          bytes \<leftarrow> bytes_at (sap_heap s) (mh_payload m);
          let call = \<lparr>sv_id = mh_id m, sv_bytes = bytes, sv_token = currRequest, sv_socket = rs_id sock\<rparr>;
          sa_onRequest E call (s\<lparr>sap_requests := sap_requests s @ [call]\<rparr>)
        } else None
      })"

section \<open>Answers of the service\<close>

text \<open>A call of the client with \<open>checkReturnStatus\<close> after it; a null callback faults.\<close>

definition sap_checkReturnStatus :: "bool \<Rightarrow> nat \<Rightarrow> sap \<Rightarrow> sap" where
  "sap_checkReturnStatus ok slot s =
     (if \<not> ok then s\<lparr>sapService := (sapService s)(slot := map_option (\<lambda>i. i\<lparr>sapCallback := False\<rparr>) (sapService s slot))\<rparr> else s)"

definition sap_call_client :: "sap_env \<Rightarrow> nat \<Rightarrow> sap_call \<Rightarrow> sap \<Rightarrow> sap option" where
  "sap_call_client E slot c s = do {
     impl \<leftarrow> sapService s slot;
     if sapCallback impl then
       Some (sap_checkReturnStatus (sa_isOk E (length (sap_calls s))) slot (s\<lparr>sap_calls := sap_calls s @ [(slot, c)]\<rparr>))
     else None }"

fun sap_free_all :: "nat list \<Rightarrow> sap \<Rightarrow> sap option" where
  "sap_free_all [] s = Some s"
| "sap_free_all (p # ps) s = do { s \<leftarrow> sap_free p s; sap_free_all ps s }"

definition failed_call :: "sap_env \<Rightarrow> MsgId \<Rightarrow> int \<Rightarrow> sap_call option" where
  "failed_call E msgId token = (case msgId of
       SAP_CONNECT \<Rightarrow> Some (connectResponse token (sa_CONNECT_FAILURE E) 0)
     | SAP_DISCONNECT \<Rightarrow> Some (disconnectResponse token)
     | SAP_APDU \<Rightarrow> Some (apduResponse token Sap_GENERIC_FAILURE [])
     | SAP_TRANSFER_ATR \<Rightarrow> Some (transferAtrResponse token Sap_GENERIC_FAILURE [])
     | SAP_POWER \<Rightarrow> Some (powerResponse token Sap_GENERIC_FAILURE)
     | SAP_RESET_SIM \<Rightarrow> Some (resetSimResponse token Sap_GENERIC_FAILURE)
     | SAP_TRANSFER_CARD_READER_STATUS \<Rightarrow> Some (transferCardReaderStatusResponse token Sap_GENERIC_FAILURE 0)
     | SAP_SET_TRANSFER_PROTOCOL \<Rightarrow> Some (transferProtocolResponse token Sap_NOT_SUPPORTED)
     | _ \<Rightarrow> None)"

definition sendFailedResponse :: "sap_env \<Rightarrow> nat \<Rightarrow> MsgId \<Rightarrow> int \<Rightarrow> nat list \<Rightarrow> sap \<Rightarrow> sap option" where
  "sendFailedResponse E slot msgId token ptrs s = do {
     s \<leftarrow> sap_free_all ptrs s;
     case failed_call E msgId token of
       None \<Rightarrow> Some s
     | Some c \<Rightarrow> sap_call_client E slot c s }"

section \<open>Requests of the framework\<close>

definition sap_setCallback :: "nat \<Rightarrow> bool \<Rightarrow> sap \<Rightarrow> sap" where
  "sap_setCallback slot cb s = s\<lparr>sapService := (sapService s)(slot := map_option (\<lambda>i. i\<lparr>sapCallback := cb\<rparr>) (sapService s slot))\<rparr>"

definition createMsgHeader :: "sap_env \<Rightarrow> MsgId \<Rightarrow> int \<Rightarrow> sap \<Rightarrow> nat \<times> sap" where
  "createMsgHeader E msgId token s =
     sap_malloc E (Sap_header \<lparr>mh_token = token, mh_type = MsgType_REQUEST, mh_id = msgId, mh_error = 0, mh_payload = 0\<rparr>) s"

definition addPayloadAndDispatchRequest :: "sap_env \<Rightarrow> nat \<Rightarrow> nat \<Rightarrow> nat \<Rightarrow> nat \<Rightarrow> sap \<Rightarrow> sap option" where
  "addPayloadAndDispatchRequest E slot msg reqLen reqPtr s = do {
     impl \<leftarrow> sapService s slot;
     let (payload, s) = sap_malloc E Sap_raw s;
     m \<leftarrow> header_at (sap_heap s) msg;
     let s = s\<lparr>sap_heap := (sap_heap s)(msg \<mapsto> Sap_header (m\<lparr>mh_payload := payload\<rparr>))\<rparr>;
     if payload = 0 then sendFailedResponse E slot (mh_id m) (mh_token m) [reqPtr, msg] s
     else do {
       bytes \<leftarrow> bytes_at (sap_heap s) reqPtr;
       if reqLen \<le> length bytes then do {
         let s = s\<lparr>sap_heap := (sap_heap s)(payload \<mapsto> Sap_bytes (take reqLen bytes))\<rparr>;
         case getSocketById (rilSocketId impl) (sap_sockets s) of
           Some sapSocket \<Rightarrow> do {
             s \<leftarrow> dispatchRequest E sapSocket msg s;
             m \<leftarrow> header_at (sap_heap s) msg;
             sap_free_all [mh_payload m, reqPtr] s }
         | None \<Rightarrow> sendFailedResponse E slot (mh_id m) (mh_token m) [payload, reqPtr, msg] s
       } else None } }"

text \<open>
  The part that the request methods share: the structure \<open>req\<close> is encoded into a buffer of the size that nanopb asks
  for; \<open>own\<close> are the pointers that the method frees beside the buffer and the header.
\<close>

definition encode_and_dispatch :: "sap_env \<Rightarrow> nat \<Rightarrow> MsgId \<Rightarrow> int \<Rightarrow> sap_req \<Rightarrow> nat list \<Rightarrow> nat \<Rightarrow> sap \<Rightarrow> sap option" where
  "encode_and_dispatch E slot msgId token req own msg s =
     (case pb_get_encoded_size E req of
        None \<Rightarrow> sendFailedResponse E slot msgId token (own @ [msg]) s
      | Some encodedSize \<Rightarrow>
          (let (buffer, s) = sap_malloc E (Sap_bytes (replicate encodedSize 0)) s in
           if buffer = 0 then sendFailedResponse E slot msgId token (own @ [msg]) s
           else case pb_encode E encodedSize req of
             None \<Rightarrow> sendFailedResponse E slot msgId token (own @ [buffer, msg]) s
           | Some enc \<Rightarrow>
               if length enc \<le> encodedSize then
                 addPayloadAndDispatchRequest E slot msg (pb_size (length enc)) buffer
                   (s\<lparr>sap_heap := (sap_heap s)(buffer \<mapsto> Sap_bytes (enc @ replicate (encodedSize - length enc) 0))\<rparr>)
               else None))"

definition sap_request :: "sap_env \<Rightarrow> nat \<Rightarrow> MsgId \<Rightarrow> int \<Rightarrow> sap_req \<Rightarrow> sap \<Rightarrow> sap option" where
  "sap_request E slot msgId token req s =
     (let (msg, s) = createMsgHeader E msgId token s in
      if msg = 0 then sendFailedResponse E slot msgId token [] s
      else encode_and_dispatch E slot msgId token req [] msg s)"

definition connectReq :: "sap_env \<Rightarrow> nat \<Rightarrow> int \<Rightarrow> int \<Rightarrow> sap \<Rightarrow> sap option" where
  "connectReq E slot token maxMsgSize = sap_request E slot SAP_CONNECT token (CONNECT_REQ maxMsgSize)"

definition disconnectReq :: "sap_env \<Rightarrow> nat \<Rightarrow> int \<Rightarrow> sap \<Rightarrow> sap option" where
  "disconnectReq E slot token = sap_request E slot SAP_DISCONNECT token DISCONNECT_REQ"

definition apduReq :: "sap_env \<Rightarrow> nat \<Rightarrow> int \<Rightarrow> int \<Rightarrow> u8 list \<Rightarrow> sap \<Rightarrow> sap option" where
  "apduReq E slot token ty command s =
     (let (msg, s) = createMsgHeader E SAP_APDU token s in
      if msg = 0 then sendFailedResponse E slot SAP_APDU token [] s
      else if length command > 0 then
        (let (req_command, s) = sap_malloc E (Sap_bytes (take (pb_size (length command)) command)) s in
         if req_command = 0 then sendFailedResponse E slot SAP_APDU token [msg] s
         else encode_and_dispatch E slot SAP_APDU token (APDU_REQ ty (Some (take (pb_size (length command)) command)))
           [req_command] msg s)
      else encode_and_dispatch E slot SAP_APDU token (APDU_REQ ty None) [0] msg s)"

definition transferAtrReq :: "sap_env \<Rightarrow> nat \<Rightarrow> int \<Rightarrow> sap \<Rightarrow> sap option" where
  "transferAtrReq E slot token = sap_request E slot SAP_TRANSFER_ATR token TRANSFER_ATR_REQ"

definition powerReq :: "sap_env \<Rightarrow> nat \<Rightarrow> int \<Rightarrow> bool \<Rightarrow> sap \<Rightarrow> sap option" where
  "powerReq E slot token state = sap_request E slot SAP_POWER token (POWER_REQ state)"

definition resetSimReq :: "sap_env \<Rightarrow> nat \<Rightarrow> int \<Rightarrow> sap \<Rightarrow> sap option" where
  "resetSimReq E slot token = sap_request E slot SAP_RESET_SIM token RESET_SIM_REQ"

definition transferCardReaderStatusReq :: "sap_env \<Rightarrow> nat \<Rightarrow> int \<Rightarrow> sap \<Rightarrow> sap option" where
  "transferCardReaderStatusReq E slot token =
     sap_request E slot SAP_TRANSFER_CARD_READER_STATUS token TRANSFER_CARD_READER_STATUS_REQ"

definition setTransferProtocolReq :: "sap_env \<Rightarrow> nat \<Rightarrow> int \<Rightarrow> int \<Rightarrow> sap \<Rightarrow> sap option" where
  "setTransferProtocolReq E slot token protocol =
     sap_request E slot SAP_SET_TRANSFER_PROTOCOL token (SET_TRANSFER_PROTOCOL_REQ protocol)"

section \<open>Responses of the vendor\<close>

text \<open>A message is allocated, then decoded; when decoding fails the message stays allocated and \<open>NULL\<close> is returned.\<close>

definition decode_into :: "sap_env \<Rightarrow> sap_rsp option \<Rightarrow> sap \<Rightarrow> nat \<times> sap" where
  "decode_into E decoded s =
     (let (responsePtr, s) = sap_malloc E Sap_raw s in
      if responsePtr = 0 then (0, s)
      else case decoded of
        None \<Rightarrow> (0, s)
      | Some m \<Rightarrow> (responsePtr, s\<lparr>sap_heap := (sap_heap s)(responsePtr \<mapsto> Sap_message m)\<rparr>))"

definition sap_decoded :: "sap_env \<Rightarrow> MsgId \<Rightarrow> MsgType \<Rightarrow> u8 list \<Rightarrow> sap_rsp option" where
  "sap_decoded E msgId msgType payload = (case msgId of
       SAP_CONNECT \<Rightarrow> map_option (\<lambda>(r, m). CONNECT_RSP r m) (pb_CONNECT_RSP E payload)
     | SAP_DISCONNECT \<Rightarrow>
         if msgType = MsgType_RESPONSE then map_option (\<lambda>_. DISCONNECT_RSP) (pb_DISCONNECT_RSP E payload)
         else map_option DISCONNECT_IND (pb_DISCONNECT_IND E payload)
     | SAP_APDU \<Rightarrow> map_option (\<lambda>(r, b). APDU_RSP r b) (pb_APDU_RSP E payload)
     | SAP_TRANSFER_ATR \<Rightarrow> map_option (\<lambda>(r, b). TRANSFER_ATR_RSP r b) (pb_TRANSFER_ATR_RSP E payload)
     | SAP_POWER \<Rightarrow> map_option POWER_RSP (pb_POWER_RSP E payload)
     | SAP_RESET_SIM \<Rightarrow> map_option RESET_SIM_RSP (pb_RESET_SIM_RSP E payload)
     | SAP_STATUS \<Rightarrow> map_option STATUS_IND (pb_STATUS_IND E payload)
     | SAP_TRANSFER_CARD_READER_STATUS \<Rightarrow>
         map_option (\<lambda>(r, c). TRANSFER_CARD_READER_STATUS_RSP r c) (pb_TRANSFER_CARD_READER_STATUS_RSP E payload)
     | SAP_ERROR_RESP \<Rightarrow> map_option (\<lambda>_. ERROR_RSP) (pb_ERROR_RSP E payload)
     | SAP_SET_TRANSFER_PROTOCOL \<Rightarrow> map_option SET_TRANSFER_PROTOCOL_RSP (pb_SET_TRANSFER_PROTOCOL_RSP E payload)
     | SAP_OTHER _ \<Rightarrow> None)"

definition sapDecodeMessage :: "sap_env \<Rightarrow> MsgId \<Rightarrow> MsgType \<Rightarrow> u8 list \<Rightarrow> sap \<Rightarrow> nat \<times> sap" where
  "sapDecodeMessage E msgId msgType payload s = (case msgId of
       SAP_OTHER _ \<Rightarrow> (0, s)
     | _ \<Rightarrow> decode_into E (sap_decoded E msgId msgType payload) s)"

definition getSapImpl :: "int \<Rightarrow> nat option" where
  "getSapImpl socketId = (if socketId = 0 then Some 0 else if socketId = 1 then Some 1 else None)"

fun convertApduResponseProtoToHal :: "sap_proto \<Rightarrow> SapResultCode" where
  "convertApduResponseProtoToHal Proto_SUCCESS = Sap_SUCCESS"
| "convertApduResponseProtoToHal Proto_GENERIC_FAILURE = Sap_GENERIC_FAILURE"
| "convertApduResponseProtoToHal Proto_SIM_NOT_READY = Sap_CARD_NOT_ACCESSSIBLE"
| "convertApduResponseProtoToHal Proto_SIM_ALREADY_POWERED_OFF = Sap_CARD_ALREADY_POWERED_OFF"
| "convertApduResponseProtoToHal Proto_SIM_ABSENT = Sap_CARD_REMOVED"
| "convertApduResponseProtoToHal _ = Sap_GENERIC_FAILURE"

fun convertTransferAtrResponseProtoToHal :: "sap_proto \<Rightarrow> SapResultCode" where
  "convertTransferAtrResponseProtoToHal Proto_SUCCESS = Sap_SUCCESS"
| "convertTransferAtrResponseProtoToHal Proto_GENERIC_FAILURE = Sap_GENERIC_FAILURE"
| "convertTransferAtrResponseProtoToHal Proto_SIM_ALREADY_POWERED_OFF = Sap_CARD_ALREADY_POWERED_OFF"
| "convertTransferAtrResponseProtoToHal Proto_SIM_ABSENT = Sap_CARD_REMOVED"
| "convertTransferAtrResponseProtoToHal Proto_SIM_DATA_NOT_AVAILABLE = Sap_DATA_NOT_AVAILABLE"
| "convertTransferAtrResponseProtoToHal _ = Sap_GENERIC_FAILURE"

fun convertPowerResponseProtoToHal :: "sap_proto \<Rightarrow> SapResultCode" where
  "convertPowerResponseProtoToHal Proto_SUCCESS = Sap_SUCCESS"
| "convertPowerResponseProtoToHal Proto_GENERIC_FAILURE = Sap_GENERIC_FAILURE"
| "convertPowerResponseProtoToHal Proto_SIM_ABSENT = Sap_CARD_REMOVED"
| "convertPowerResponseProtoToHal Proto_SIM_ALREADY_POWERED_OFF = Sap_CARD_ALREADY_POWERED_OFF"
| "convertPowerResponseProtoToHal Proto_SIM_ALREADY_POWERED_ON = Sap_CARD_ALREADY_POWERED_ON"
| "convertPowerResponseProtoToHal _ = Sap_GENERIC_FAILURE"

fun convertResetSimResponseProtoToHal :: "sap_proto \<Rightarrow> SapResultCode" where
  "convertResetSimResponseProtoToHal Proto_SUCCESS = Sap_SUCCESS"
| "convertResetSimResponseProtoToHal Proto_GENERIC_FAILURE = Sap_GENERIC_FAILURE"
| "convertResetSimResponseProtoToHal Proto_SIM_ABSENT = Sap_CARD_REMOVED"
| "convertResetSimResponseProtoToHal Proto_SIM_NOT_READY = Sap_CARD_NOT_ACCESSSIBLE"
| "convertResetSimResponseProtoToHal Proto_SIM_ALREADY_POWERED_OFF = Sap_CARD_ALREADY_POWERED_OFF"
| "convertResetSimResponseProtoToHal _ = Sap_GENERIC_FAILURE"

fun convertTransferCardReaderStatusResponseProtoToHal :: "sap_proto \<Rightarrow> SapResultCode" where
  "convertTransferCardReaderStatusResponseProtoToHal Proto_SUCCESS = Sap_SUCCESS"
| "convertTransferCardReaderStatusResponseProtoToHal Proto_GENERIC_FAILURE = Sap_GENERIC_FAILURE"
| "convertTransferCardReaderStatusResponseProtoToHal Proto_SIM_DATA_NOT_AVAILABLE = Sap_DATA_NOT_AVAILABLE"
| "convertTransferCardReaderStatusResponseProtoToHal _ = Sap_GENERIC_FAILURE"

text \<open>A vector set to the bytes of an array that may be absent or empty.\<close>

definition vec_of :: "u8 list option \<Rightarrow> u8 list" where
  "vec_of b = (case b of None \<Rightarrow> [] | Some bs \<Rightarrow> bs)"

text \<open>
  The call that \<open>processResponse\<close> makes: \<open>Inl ()\<close> when it follows a null pointer, \<open>Inr None\<close> for no call. Only a
  disconnection and an error are answered without looking at the message.
\<close>

definition response_call :: "MsgId \<Rightarrow> MsgType \<Rightarrow> int \<Rightarrow> sap_rsp option \<Rightarrow> unit + sap_call option" where
  "response_call msgId msgType token message = (case msgId of
       SAP_CONNECT \<Rightarrow> (case message of Some (CONNECT_RSP r n) \<Rightarrow> Inr (Some (connectResponse token r n)) | _ \<Rightarrow> Inl ())
     | SAP_DISCONNECT \<Rightarrow>
         if msgType = MsgType_RESPONSE then Inr (Some (disconnectResponse token))
         else (case message of Some (DISCONNECT_IND t) \<Rightarrow> Inr (Some (disconnectIndication token t)) | _ \<Rightarrow> Inl ())
     | SAP_APDU \<Rightarrow> (case message of
           Some (APDU_RSP r b) \<Rightarrow> Inr (Some (apduResponse token (convertApduResponseProtoToHal r) (vec_of b))) | _ \<Rightarrow> Inl ())
     | SAP_TRANSFER_ATR \<Rightarrow> (case message of
           Some (TRANSFER_ATR_RSP r b) \<Rightarrow>
             Inr (Some (transferAtrResponse token (convertTransferAtrResponseProtoToHal r) (vec_of b))) | _ \<Rightarrow> Inl ())
     | SAP_POWER \<Rightarrow> (case message of
           Some (POWER_RSP r) \<Rightarrow> Inr (Some (powerResponse token (convertPowerResponseProtoToHal r))) | _ \<Rightarrow> Inl ())
     | SAP_RESET_SIM \<Rightarrow> (case message of
           Some (RESET_SIM_RSP r) \<Rightarrow> Inr (Some (resetSimResponse token (convertResetSimResponseProtoToHal r))) | _ \<Rightarrow> Inl ())
     | SAP_STATUS \<Rightarrow> (case message of Some (STATUS_IND c) \<Rightarrow> Inr (Some (statusIndication token c)) | _ \<Rightarrow> Inl ())
     | SAP_TRANSFER_CARD_READER_STATUS \<Rightarrow> (case message of
           Some (TRANSFER_CARD_READER_STATUS_RSP r c) \<Rightarrow> Inr (Some (transferCardReaderStatusResponse token
             (convertTransferCardReaderStatusResponseProtoToHal r) c)) | _ \<Rightarrow> Inl ())
     | SAP_ERROR_RESP \<Rightarrow> Inr (Some (errorResponse token))
     | SAP_SET_TRANSFER_PROTOCOL \<Rightarrow> (case message of
           Some (SET_TRANSFER_PROTOCOL_RSP r) \<Rightarrow>
             Inr (Some (transferProtocolResponse token (if r = Proto_SUCCESS then Sap_SUCCESS else Sap_NOT_SUPPORTED))) | _ \<Rightarrow> Inl ())
     | SAP_OTHER _ \<Rightarrow> Inr None)"

text \<open>\<open>payload\<close> are the bytes that \<open>rsp\<close> points to.\<close>

definition sap_processResponse :: "sap_env \<Rightarrow> MsgType \<Rightarrow> MsgHeader \<Rightarrow> u8 list \<Rightarrow> nat \<Rightarrow> sap \<Rightarrow> sap option" where
  "sap_processResponse E msgType rsp payload sapSocket s = do {
     let (messagePtr, s) = sapDecodeMessage E (mh_id rsp) msgType payload s;
     slot \<leftarrow> getSapImpl (rs_id (sap_sockets s ! sapSocket));
     impl \<leftarrow> sapService s slot;
     if \<not> sapCallback impl then Some s
     else case response_call (mh_id rsp) msgType (mh_token rsp) (message_at (sap_heap s) messagePtr) of
       Inl _ \<Rightarrow> None
     | Inr None \<Rightarrow> Some s
     | Inr (Some c) \<Rightarrow> sap_call_client E slot c s }"

definition sap_onRequestComplete :: "sap_env \<Rightarrow> nat \<Rightarrow> nat \<Rightarrow> int \<Rightarrow> u8 list option \<Rightarrow> sap \<Rightarrow> sap option" where
  "sap_onRequestComplete E this t e response s = do {
     request \<leftarrow> node_at (sap_heap s) t;
     let hdr = sr_curr request;
     m \<leftarrow> header_at (sap_heap s) hdr;
     let bytes = vec_of response;
     let (payload, s) = sap_malloc E (Sap_bytes bytes) s;
     s \<leftarrow> (if payload = 0 then Some s
          else do {
            s \<leftarrow> sap_processResponse E MsgType_RESPONSE
                   \<lparr>mh_token = mh_token m, mh_type = MsgType_RESPONSE, mh_id = mh_id m, mh_error = e, mh_payload = payload\<rparr>
                   (take (pb_size (length bytes)) bytes) this s;
            sap_free payload s });
     m \<leftarrow> header_at (sap_heap s) hdr;
     (_, h, front) \<leftarrow> checkAndDequeue (mh_id m) (mh_token m) (sap_heap s, rs_front (sap_sockets s ! this));
     sap_free hdr (s\<lparr>sap_heap := h, sap_sockets := upd_front this front (sap_sockets s)\<rparr>) }"

definition sOnRequestComplete :: "sap_env \<Rightarrow> nat \<Rightarrow> int \<Rightarrow> u8 list option \<Rightarrow> sap \<Rightarrow> sap option" where
  "sOnRequestComplete E t e response s = do {
     request \<leftarrow> node_at (sap_heap s) t;
     case getSocketById (sr_socketId request) (sap_sockets s) of
       Some sap_socket \<Rightarrow> sap_onRequestComplete E sap_socket t e response s
     | None \<Rightarrow> do {
         m \<leftarrow> header_at (sap_heap s) (sr_curr request);
         sap_free_all [mh_payload m, sr_curr request, t] s } }"

text \<open>The token of the header on the stack is never set: \<open>garbage\<close> is what it holds.\<close>

definition sap_onUnsolicitedResponse :: "sap_env \<Rightarrow> int \<Rightarrow> nat \<Rightarrow> int \<Rightarrow> u8 list option \<Rightarrow> sap \<Rightarrow> sap option" where
  "sap_onUnsolicitedResponse E garbage this unsolResponse data s =
     (let bytes = vec_of data in
      if length bytes > 0 then
        (let (payload, s) = sap_malloc E (Sap_bytes bytes) s in
         if payload = 0 then Some s
         else do {
           s \<leftarrow> sap_processResponse E MsgType_UNSOL_RESPONSE
                  \<lparr>mh_token = garbage, mh_type = MsgType_UNSOL_RESPONSE, mh_id = sa_MsgId E unsolResponse, mh_error = 0,
                   mh_payload = payload\<rparr> (take (pb_size (length bytes)) bytes) this s;
           sap_free payload s })
      else Some s)"

definition sOnUnsolicitedResponse :: "sap_env \<Rightarrow> int \<Rightarrow> int \<Rightarrow> u8 list option \<Rightarrow> int \<Rightarrow> sap \<Rightarrow> sap option" where
  "sOnUnsolicitedResponse E garbage unsolResponse data socketId s =
     (case getSocketById socketId (sap_sockets s) of
        Some sap_socket \<Rightarrow> sap_onUnsolicitedResponse E garbage sap_socket unsolResponse data s
      | None \<Rightarrow> Some s)"

end
