(* ===== verification/RilSapCorrect.thy ===== *)
theory RilSapCorrect
  imports RilSap
begin

text \<open>
  Correctness of the SIM access profile: the linked queue of requests as a stack of entries with keys (locale
  \<open>keyed_stack\<close>), the sockets with their queues in one memory, every request of the framework handed over or refused,
  every completion answered once, and where the code goes wrong.
\<close>

section \<open>The queue as a stack with keys\<close>


section \<open>The linked queue\<close>

text \<open>A chain of nodes from an address to another.\<close>

fun seg :: "(nat \<rightharpoonup> sap_cell) \<Rightarrow> nat \<Rightarrow> nat list \<Rightarrow> nat \<Rightarrow> bool" where
  "seg h a [] b \<longleftrightarrow> a = b"
| "seg h a (x # xs) b \<longleftrightarrow> a = x \<and> x \<noteq> 0 \<and> (\<exists>n. node_at h x = Some n \<and> seg h (sr_p_next n) xs b)"


lemma seg_cong: "\<forall>x\<in>set xs. h' x = h x \<Longrightarrow> seg h' a xs b \<longleftrightarrow> seg h a xs b"
  by (induction xs arbitrary: a) (auto simp: node_at_def)

lemma seg_upd [simp]: "x \<notin> set xs \<Longrightarrow> seg (h(x := c)) a xs b \<longleftrightarrow> seg h a xs b"
  by (rule seg_cong) auto

lemma node_at_upd [simp]: "node_at (h(p \<mapsto> Sap_node n)) p = Some n" "p \<noteq> q \<Longrightarrow> node_at (h(p := c)) q = node_at h q"
  by (simp_all add: node_at_def)

lemma header_at_upd [simp]: "header_at (h(p \<mapsto> Sap_header m)) p = Some m" "p \<noteq> q \<Longrightarrow> header_at (h(p := c)) q = header_at h q"
  by (simp_all add: header_at_def)
























section \<open>The queues of the sockets\<close>


















section \<open>States of the service\<close>

definition mem_ok :: "sap \<Rightarrow> bool" where
  "mem_ok s \<longleftrightarrow> 0 < sap_fresh s \<and> sap_heap s 0 = None \<and> (\<forall>a\<ge>sap_fresh s. sap_heap s a = None)"



fun call_token :: "sap_call \<Rightarrow> int" where
  "call_token (connectResponse t _ _) = t"
| "call_token (disconnectResponse t) = t"
| "call_token (disconnectIndication t _) = t"
| "call_token (apduResponse t _ _) = t"
| "call_token (transferAtrResponse t _ _) = t"
| "call_token (powerResponse t _) = t"
| "call_token (resetSimResponse t _) = t"
| "call_token (statusIndication t _) = t"
| "call_token (transferCardReaderStatusResponse t _ _) = t"
| "call_token (errorResponse t) = t"
| "call_token (transferProtocolResponse t _) = t"

text \<open>The request that a call of the client answers.\<close>

fun answers :: "sap_call \<Rightarrow> MsgId \<Rightarrow> bool" where
  "answers (connectResponse _ _ _) i \<longleftrightarrow> i = SAP_CONNECT"
| "answers (disconnectResponse _) i \<longleftrightarrow> i = SAP_DISCONNECT"
| "answers (apduResponse _ _ _) i \<longleftrightarrow> i = SAP_APDU"
| "answers (transferAtrResponse _ _ _) i \<longleftrightarrow> i = SAP_TRANSFER_ATR"
| "answers (powerResponse _ _) i \<longleftrightarrow> i = SAP_POWER"
| "answers (resetSimResponse _ _) i \<longleftrightarrow> i = SAP_RESET_SIM"
| "answers (transferCardReaderStatusResponse _ _ _) i \<longleftrightarrow> i = SAP_TRANSFER_CARD_READER_STATUS"
| "answers (transferProtocolResponse _ _) i \<longleftrightarrow> i = SAP_SET_TRANSFER_PROTOCOL"
| "answers _ _ \<longleftrightarrow> False"




lemma checkReturnStatus_fields [simp]:
  "sap_heap (sap_checkReturnStatus ok slot s) = sap_heap s" "sap_fresh (sap_checkReturnStatus ok slot s) = sap_fresh s"
  "sap_sockets (sap_checkReturnStatus ok slot s) = sap_sockets s" "sap_calls (sap_checkReturnStatus ok slot s) = sap_calls s"
  "sap_requests (sap_checkReturnStatus ok slot s) = sap_requests s"
  by (simp_all add: sap_checkReturnStatus_def)

lemma failed_call_answers:
  "failed_call E msgId token = Some c \<Longrightarrow> call_token c = token \<and> answers c msgId"
  by (cases msgId) (auto simp: failed_call_def)



lemma mem_below: "mem_ok s \<Longrightarrow> sap_heap s a \<noteq> None \<Longrightarrow> a < sap_fresh s"
  by (meson mem_ok_def not_less)

lemma mem_alloc: "mem_ok s \<Longrightarrow> sap_heap s a = Some c \<Longrightarrow> 0 < a \<and> a < sap_fresh s"
  using mem_below [of s a] by (auto simp: mem_ok_def intro!: gr0I)



section \<open>Completions\<close>

lemma map_update_same: "g y = g (xs ! i) \<Longrightarrow> map g (xs[i := y]) = map g xs"
  by (metis list_update_id map_update)

lemma upd_front_fields [simp]:
  "length (upd_front i f xs) = length xs" "map rs_id (upd_front i f xs) = map rs_id xs"
  "map rs_uimFuncs (upd_front i f xs) = map rs_uimFuncs xs"
  by (simp_all add: upd_front_def map_update_same)

lemma upd_front_all [simp]:
  "(\<forall>x\<in>set (upd_front i f xs). (rs_id x = 0 \<or> rs_id x = 1) \<and> rs_uimFuncs x) \<longleftrightarrow>
   (\<forall>x\<in>set xs. (rs_id x = 0 \<or> rs_id x = 1) \<and> rs_uimFuncs x)"
proof -
  have flat: "(\<forall>x\<in>set ys. (rs_id x = 0 \<or> rs_id x = 1) \<and> rs_uimFuncs x) \<longleftrightarrow>
      set (map rs_id ys) \<subseteq> {0, 1} \<and> set (map rs_uimFuncs ys) \<subseteq> {True}" for ys :: "RilSapSocket list" by auto
  show ?thesis unfolding flat by simp
qed



section \<open>Requests\<close>







text \<open>With memory for the payload and a socket, the header with its payload goes to the socket.\<close>

lemma payload_dispatched:
  assumes "sap_heap s msg = Some (Sap_header m)" "sap_heap s reqPtr = Some (Sap_bytes b)" "reqLen \<le> length b" "mem_ok s"
    and "sapService s slot = Some impl" "getSocketById (rilSocketId impl) (sap_sockets s) = Some i" "sa_malloc E (sap_fresh s)"
  shows "addPayloadAndDispatchRequest E slot msg reqLen reqPtr s = Option.bind (dispatchRequest E i msg
      (s\<lparr>sap_fresh := Suc (sap_fresh s), sap_heap := (sap_heap s)(sap_fresh s \<mapsto> Sap_bytes (take reqLen b),
        msg \<mapsto> Sap_header (m\<lparr>mh_payload := sap_fresh s\<rparr>))\<rparr>))
    (\<lambda>s. Option.bind (header_at (sap_heap s) msg) (\<lambda>m. sap_free_all [mh_payload m, reqPtr] s))"
proof -
  have "msg < sap_fresh s" "reqPtr < sap_fresh s" "msg \<noteq> reqPtr" "sap_fresh s \<noteq> 0"
    using assms(1,2,4) mem_alloc [OF assms(4,1)] mem_alloc [OF assms(4,2)] by auto
  then show ?thesis using assms
    by (simp add: addPayloadAndDispatchRequest_def sap_malloc_def Let_def header_at_def bytes_at_def fun_upd_twist)
qed
















section \<open>Properties\<close>




section \<open>A service that has started\<close>









section \<open>Where the code goes wrong\<close>

text \<open>
  When there is no memory for the queue entry, \<open>dispatchRequest\<close> frees the header, which \<open>addPayloadAndDispatchRequest\<close>
  then reads to free the payload.
\<close>

lemma entry_out_of_memory_faults:
  assumes "sap_heap s msg = Some (Sap_header m)" "sap_heap s reqPtr = Some (Sap_bytes b)" "reqLen \<le> length b" "mem_ok s"
    and "sapService s slot = Some impl" "getSocketById (rilSocketId impl) (sap_sockets s) = Some i" "sa_malloc E (sap_fresh s)"
    and "\<not> sa_malloc E (Suc (sap_fresh s))"
  shows "addPayloadAndDispatchRequest E slot msg reqLen reqPtr s = None"
  using assms(1,8) mem_alloc [OF assms(4,1)] unfolding payload_dispatched [OF assms(1-7)]
  by (simp add: dispatchRequest_def sap_malloc_def Let_def sap_free_def header_at_def)

text \<open>The same happens when the vendor completes the request before \<open>onRequest\<close> returns, or on another thread meanwhile.\<close>

lemma early_completion_faults:
  assumes "sap_heap s msg = Some (Sap_header m)" "sap_heap s reqPtr = Some (Sap_bytes b)" "reqLen \<le> length b" "mem_ok s"
    and "sapService s slot = Some impl" "getSocketById (rilSocketId impl) (sap_sockets s) = Some i" "sa_malloc E (sap_fresh s)"
    and "sa_malloc E (Suc (sap_fresh s))" "\<And>call s s'. sa_onRequest E call s = Some s' \<Longrightarrow> sap_heap s' msg = None"
  shows "addPayloadAndDispatchRequest E slot msg reqLen reqPtr s = None"
proof -
  have "sap_heap s2 msg = None" if "dispatchRequest E i msg s1 = Some s2" "sa_malloc E (sap_fresh s1)" "0 < sap_fresh s1" for s1 s2
    using that assms(9) by (auto simp: dispatchRequest_def sap_malloc_def Let_def bind_eq_Some_conv split: if_splits)
  then show ?thesis using assms(8) unfolding payload_dispatched [OF assms(1-7)]
    by (auto simp: header_at_def intro!: bind_eq_None_conv [THEN iffD2])
qed

text \<open>A response that does not decode is followed through a null pointer, except for disconnections and errors.\<close>

lemma malformed_response_faults:
  assumes "sap_decoded E (mh_id r) MsgType_RESPONSE payload = None" "mh_id r \<notin> {SAP_DISCONNECT, SAP_ERROR_RESP}" "\<And>n. mh_id r \<noteq> SAP_OTHER n"
    and "mem_ok s" "getSapImpl (rs_id (sap_sockets s ! i)) = Some slot" "sapService s slot = Some impl" "sapCallback impl"
  shows "sap_processResponse E MsgType_RESPONSE r payload i s = None"
proof -
  let ?s = "snd (sap_malloc E Sap_raw s)"
  have "sapDecodeMessage E (mh_id r) MsgType_RESPONSE payload s = (0, ?s)"
    using assms(1,3) by (cases "mh_id r") (auto simp: sapDecodeMessage_def decode_into_def split: prod.splits)
  moreover have "sap_heap ?s 0 = None" "sap_sockets ?s = sap_sockets s" "sapService ?s = sapService s"
    using assms(4) by (auto simp: sap_malloc_def Let_def mem_ok_def)
  moreover have "response_call (mh_id r) MsgType_RESPONSE t None = Inl ()" for t
    using assms(2,3) by (cases "mh_id r") (auto simp: response_call_def)
  ultimately show ?thesis using assms(5-7) by (simp add: sap_processResponse_def message_at_def)
qed

text \<open>A request that is refused while there is no client, such as after a failed call, calls through a null pointer.\<close>

lemma refusal_without_client_faults:
  assumes "failed_call E msgId token \<noteq> None" "sapService s slot = Some impl" "\<not> sapCallback impl"
  shows "sendFailedResponse E slot msgId token [] s = None"
  using assms by (auto simp: sendFailedResponse_def sap_call_client_def)

end
