(* ===== verification/Hwc.thy ===== *)
theory Hwc
  imports Words
begin

text \<open>
  The hardware composer (\<open>hwcomposer/forge_hwc.c\<close>): session set-up, the choice of overlay planes in
  \<open>prepare\<close>, the submission of a frame in \<open>set\<close> with its fences, the vsync thread and the queries.

  Gralloc, the display driver, \<open>poll\<close> and the properties are arguments (\<open>gralloc\<close>, \<open>disp\<close>,
  \<open>hwc_props\<close>). A buffer handle is a number, 0 being \<open>NULL\<close>. Fences are file descriptors; the calls of
  \<open>close\<close> an operation makes are returned in order. The counters are kept for \<open>dump\<close> only and are not
  wrapped.
\<close>

section \<open>Data\<close>

record hwc_rect =
  r_left :: int
  r_top :: int
  r_right :: int
  r_bottom :: int

datatype composition = HWC_FRAMEBUFFER | HWC_OVERLAY | HWC_FRAMEBUFFER_TARGET | Other_composition nat

record hwc_layer =
  compositionType :: composition
  l_skip :: bool
  l_handle :: nat
  l_transform :: int
  l_blending :: int
  sourceCropi :: hwc_rect
  displayFrame :: hwc_rect
  acquireFenceFd :: int
  releaseFenceFd :: int

definition HWC_BLENDING_NONE :: int where "HWC_BLENDING_NONE = 0x0100"
definition HWC_BLENDING_PREMULT :: int where "HWC_BLENDING_PREMULT = 0x0105"
definition HWC_BLENDING_COVERAGE :: int where "HWC_BLENDING_COVERAGE = 0x0405"

definition DISP_FORMAT_RGB565 :: int where "DISP_FORMAT_RGB565 = 1 * 256 + 2"
definition DISP_FORMAT_RGBA8888 :: int where "DISP_FORMAT_RGBA8888 = 6 * 256 + 4"
definition DISP_FORMAT_BGRA8888 :: int where "DISP_FORMAT_BGRA8888 = 7 * 256 + 4"
definition DISP_FORMAT_RGBX8888 :: int where "DISP_FORMAT_RGBX8888 = 11 * 256 + 4"

datatype alpha_type = DISP_ALPHA_ONE | DISP_ALPHA_SRC | DISP_ALPHA_SRC_INVERT

type_synonym u16 = "16 word"

text \<open>The device: \<open>struct forge_hwc\<close> without its locks, library handles and probe counters.\<close>

record forge_hwc =
  session :: int
  session_ok :: bool
  hwc_width :: int
  hwc_height :: int
  vsync_period_ns :: int
  xdpi_1000 :: int
  ydpi_1000 :: int
  vsync_on :: bool
  hwc_stop :: bool
  hwc_procs :: bool
  frames :: nat
  prepare_fail :: nat
  trigger_fail :: nat
  acquire_timeouts :: nat
  acq_presignaled :: nat
  acq_waited :: nat
  acq_nofence :: nat
  acq_wait_us_max :: nat
  acq_wait_us_total :: nat
  last_buff_idx :: int
  last_pf_idx :: int
  fmt_override :: int
  ovl_frames :: nat
  gles_frames :: nat
  promoted_total :: nat
  last_novl :: nat
  last_fbt_used :: bool

record fhwc_plane =
  p_handle :: nat
  p_acquire :: int
  p_fmt :: int
  p_blending :: int
  p_sx :: u16
  p_sy :: u16
  p_sw :: u16
  p_sh :: u16
  p_tx :: u16
  p_ty :: u16
  p_release :: int

record disp_input_config =
  c_layer_id :: nat
  c_enable :: bool
  c_src_fmt :: int
  c_next_buff_idx :: int
  c_pitch :: u16
  c_sx :: u16
  c_sy :: u16
  c_sw :: u16
  c_sh :: u16
  c_tx :: u16
  c_ty :: u16
  c_tw :: u16
  c_th :: u16
  c_frm_sequence :: nat
  c_alpha_enable :: bool
  c_sur_aen :: bool
  c_src_alpha :: alpha_type
  c_dst_alpha :: alpha_type
  c_alpha :: nat

text \<open>
  \<open>gralloc_extra_query\<close>, \<open>None\<close> for a failing query, and the handle's own descriptors.
\<close>

record gralloc =
  ge_query :: bool
  ge_ion_fd :: "nat \<Rightarrow> int option"
  ge_stride :: "nat \<Rightarrow> int option"
  ge_format :: "nat \<Rightarrow> int option"
  handle_fds :: "nat \<Rightarrow> int list"

text \<open>
  The driver: \<open>poll\<close> without and with a timeout (its result once it is not interrupted) and the time
  waited, and the ioctls; \<open>None\<close> and \<open>False\<close> are failures.
\<close>

record disp =
  k_poll :: "int \<Rightarrow> int"
  k_wait :: "int \<Rightarrow> int"
  k_wait_us :: "int \<Rightarrow> nat"
  k_calloc :: bool
  k_prepare :: "nat \<Rightarrow> int \<Rightarrow> (int \<times> int) option"
  k_present :: "(int \<times> int) option"
  k_set_input :: "disp_input_config list \<Rightarrow> bool"
  k_trigger :: "int \<Rightarrow> bool"

type_synonym hwc_props = "string \<Rightarrow> string"

definition atoi :: "string \<Rightarrow> int" where
  "atoi s = fst (strtoll (c_str s))"

definition prop_int :: "hwc_props \<Rightarrow> string \<Rightarrow> int \<Rightarrow> int" where
  "prop_int props name dflt = (if props name \<noteq> [] then atoi (props name) else dflt)"

section \<open>Session\<close>

record session_info =
  displayWidth :: int
  displayHeight :: int
  vsyncFPS :: int
  physicalWidthUm :: int
  physicalHeightUm :: int

definition period_of :: "int \<Rightarrow> int" where
  "period_of fps = (if fps > 1000 then (100000000000 div fps) mod 2 ^ 32
     else if fps \<noteq> 0 then 1000000000 div fps else 16666666)"

text \<open>
  \<open>engine_open_session\<close>: \<open>create\<close> is the session id or \<open>None\<close> when the ioctl fails, \<open>info\<close> what
  \<open>GET_SESSION_INFO\<close> returns. \<open>False\<close> is an error return.
\<close>

definition engine_open_session :: "hwc_props \<Rightarrow> int option \<Rightarrow> session_info option \<Rightarrow> forge_hwc \<Rightarrow> bool \<times> forge_hwc" where
  "engine_open_session props create info hwc =
     (case create of None \<Rightarrow> (False, hwc)
      | Some sid \<Rightarrow>
          let hwc = hwc\<lparr>session := sid\<rparr> in
          case info of None \<Rightarrow> (False, hwc)
          | Some i \<Rightarrow>
              let hwc = hwc\<lparr>hwc_width := displayWidth i, hwc_height := displayHeight i,
                            vsync_period_ns := period_of (vsyncFPS i)\<rparr>;
                  hwc = (if physicalWidthUm i \<noteq> 0 \<and> physicalHeightUm i \<noteq> 0 then
                           hwc\<lparr>xdpi_1000 := (displayWidth i * 25400000 div physicalWidthUm i) mod 2 ^ 32,
                               ydpi_1000 := (displayHeight i * 25400000 div physicalHeightUm i) mod 2 ^ 32\<rparr>
                         else hwc);
                  dens = (prop_int props ''ro.sf.lcd_density'' 320 * 1000) mod 2 ^ 32;
                  hwc = (if xdpi_1000 hwc = 0 then hwc\<lparr>xdpi_1000 := dens, ydpi_1000 := dens\<rparr> else hwc)
              in (True, hwc\<lparr>session_ok := True\<rparr>))"

section \<open>Planes\<close>

definition map_hal_format :: "int \<Rightarrow> int" where
  "map_hal_format hal_fmt =
     (if hal_fmt = 1 then DISP_FORMAT_RGBA8888 else if hal_fmt = 2 then DISP_FORMAT_RGBX8888
      else if hal_fmt = 4 then DISP_FORMAT_RGB565 else if hal_fmt = 5 then DISP_FORMAT_BGRA8888 else 0)"

definition fill_blending :: "int \<Rightarrow> disp_input_config \<Rightarrow> disp_input_config" where
  "fill_blending blending c =
     (if blending = HWC_BLENDING_PREMULT then
        c\<lparr>c_alpha_enable := True, c_sur_aen := True, c_src_alpha := DISP_ALPHA_ONE, c_dst_alpha := DISP_ALPHA_SRC_INVERT\<rparr>
      else if blending = HWC_BLENDING_COVERAGE then
        c\<lparr>c_alpha_enable := True, c_sur_aen := True, c_src_alpha := DISP_ALPHA_SRC, c_dst_alpha := DISP_ALPHA_SRC_INVERT\<rparr>
      else
        c\<lparr>c_alpha_enable := False, c_sur_aen := False, c_src_alpha := DISP_ALPHA_ONE, c_dst_alpha := DISP_ALPHA_ONE\<rparr>)
     \<lparr>c_alpha := 0xff\<rparr>"

text \<open>\<open>layer_fits_overlay\<close>: the format of the plane, or 0 for a layer that is left to GLES.\<close>

definition layer_fits_overlay :: "gralloc \<Rightarrow> forge_hwc \<Rightarrow> hwc_layer \<Rightarrow> int" where
  "layer_fits_overlay g hwc l =
     (let s = sourceCropi l; d = displayFrame l;
          sw = r_right s - r_left s; sh = r_bottom s - r_top s;
          dw = r_right d - r_left d; dh = r_bottom d - r_top d in
      if l_skip l then 0
      else if l_handle l = 0 then 0
      else if l_transform l \<noteq> 0 then 0
      else if l_blending l \<noteq> HWC_BLENDING_NONE \<and> l_blending l \<noteq> HWC_BLENDING_PREMULT \<and> l_blending l \<noteq> HWC_BLENDING_COVERAGE then 0
      else if sw \<le> 0 \<or> sh \<le> 0 \<or> sw \<noteq> dw \<or> sh \<noteq> dh then 0
      else if r_left s < 0 \<or> r_top s < 0 then 0
      else if r_left d < 0 \<or> r_top d < 0 \<or> r_right d > hwc_width hwc \<or> r_bottom d > hwc_height hwc then 0
      else if \<not> ge_query g then 0
      else case ge_format g (l_handle l) of None \<Rightarrow> 0 | Some hal_fmt \<Rightarrow> map_hal_format hal_fmt)"

section \<open>prepare\<close>

definition is_target :: "hwc_layer \<Rightarrow> bool" where
  "is_target l \<longleftrightarrow> compositionType l = HWC_FRAMEBUFFER_TARGET"

text \<open>The second loop of \<open>fhwc_prepare\<close>, from the top of the list: the layers that fit until one does not.\<close>

fun top_run :: "gralloc \<Rightarrow> forge_hwc \<Rightarrow> hwc_layer list \<Rightarrow> nat" where
  "top_run g hwc [] = 0"
| "top_run g hwc (l # ls) =
     (if is_target l then top_run g hwc ls
      else if layer_fits_overlay g hwc l = 0 then 0
      else Suc (top_run g hwc ls))"

definition plane_budget :: "hwc_props \<Rightarrow> nat \<Rightarrow> nat \<Rightarrow> nat" where
  "plane_budget props run nlayers =
     (let budget = (if run = nlayers \<and> nlayers > 0 \<and> nlayers \<le> 4 then nlayers else if run < 3 then run else 3);
          maxp = nat (prop_int props ''debug.forgehwc.maxplanes'' 4)
      in if budget > maxp then maxp else budget)"

text \<open>The last loop: \<open>n\<close> counts the layers that are not the target.\<close>

fun mark_layers :: "nat \<Rightarrow> nat \<Rightarrow> nat \<Rightarrow> hwc_layer list \<Rightarrow> hwc_layer list" where
  "mark_layers first_ovl budget n [] = []"
| "mark_layers first_ovl budget n (l # ls) =
     (if is_target l then l # mark_layers first_ovl budget n ls
      else l\<lparr>compositionType := (if n \<ge> first_ovl \<and> budget > 0 then HWC_OVERLAY else HWC_FRAMEBUFFER)\<rparr>
             # mark_layers first_ovl budget (Suc n) ls)"

definition fhwc_prepare :: "hwc_props \<Rightarrow> gralloc \<Rightarrow> forge_hwc \<Rightarrow> hwc_layer list \<Rightarrow> hwc_layer list" where
  "fhwc_prepare props g hwc layers =
     (let nlayers = length (filter (\<lambda>l. \<not> is_target l) layers);
          run = (if prop_int props ''debug.forgehwc.overlays'' 1 \<noteq> 0 then top_run g hwc (rev layers) else 0);
          budget = plane_budget props run nlayers
      in mark_layers (nlayers - budget) budget 0 layers)"

section \<open>Submission\<close>

definition engine_wait_fence :: "disp \<Rightarrow> int \<Rightarrow> forge_hwc \<Rightarrow> forge_hwc" where
  "engine_wait_fence k fd hwc =
     (if fd < 0 then hwc
      else if k_wait k fd = 0 then hwc\<lparr>acquire_timeouts := acquire_timeouts hwc + 1\<rparr> else hwc)"

text \<open>The first loop of \<open>engine_submit\<close>: every acquire fence is waited for and closed.\<close>

fun consume_fences :: "disp \<Rightarrow> fhwc_plane list \<Rightarrow> forge_hwc \<Rightarrow> forge_hwc \<times> fhwc_plane list \<times> int list" where
  "consume_fences k [] hwc = (hwc, [], [])"
| "consume_fences k (p # ps) hwc =
     (let fd = p_acquire p;
          hwc = (if fd \<ge> 0 then
                   if k_poll k fd > 0 then hwc\<lparr>acq_presignaled := acq_presignaled hwc + 1\<rparr>
                   else
                     let hwc = engine_wait_fence k fd (hwc\<lparr>acq_waited := acq_waited hwc + 1\<rparr>); us = k_wait_us k fd in
                     hwc\<lparr>acq_wait_us_total := acq_wait_us_total hwc + us, acq_wait_us_max := max (acq_wait_us_max hwc) us\<rparr>
                 else hwc\<lparr>acq_nofence := acq_nofence hwc + 1\<rparr>)
      in case consume_fences k ps hwc of
           (hwc, ps, closed) \<Rightarrow>
             (hwc, p\<lparr>p_acquire := - 1, p_release := - 1\<rparr> # ps, (if fd \<ge> 0 then [fd] else []) @ closed))"

definition blank_config :: "nat \<Rightarrow> disp_input_config" where
  "blank_config i = \<lparr>c_layer_id = i, c_enable = False, c_src_fmt = 0, c_next_buff_idx = 0, c_pitch = 0,
     c_sx = 0, c_sy = 0, c_sw = 0, c_sh = 0, c_tx = 0, c_ty = 0, c_tw = 0, c_th = 0, c_frm_sequence = 0,
     c_alpha_enable = False, c_sur_aen = False, c_src_alpha = DISP_ALPHA_ONE, c_dst_alpha = DISP_ALPHA_ONE, c_alpha = 0\<rparr>"

definition plane_ion_fd :: "gralloc \<Rightarrow> nat \<Rightarrow> int" where
  "plane_ion_fd g h =
     (let fd = (if ge_query g then (case ge_ion_fd g h of None \<Rightarrow> - 1 | Some fd \<Rightarrow> fd) else - 1)
      in if fd < 0 \<and> handle_fds g h \<noteq> [] then hd (handle_fds g h) else fd)"

definition plane_stride :: "gralloc \<Rightarrow> forge_hwc \<Rightarrow> nat \<Rightarrow> int" where
  "plane_stride g hwc h =
     (if ge_query g then (case ge_stride g h of None \<Rightarrow> hwc_width hwc | Some s \<Rightarrow> s) else hwc_width hwc)"

text \<open>One plane: the driver's buffer and the layer's configuration, or a disabled layer.\<close>

definition config_plane :: "disp \<Rightarrow> gralloc \<Rightarrow> nat \<Rightarrow> fhwc_plane \<Rightarrow> forge_hwc \<Rightarrow> forge_hwc \<times> fhwc_plane \<times> disp_input_config" where
  "config_plane k g i p hwc =
     (let ion_fd = plane_ion_fd g (p_handle p); stride_px = plane_stride g hwc (p_handle p) in
      if ion_fd < 0 then (hwc, p, blank_config i)
      else case k_prepare k i ion_fd of
          None \<Rightarrow> (hwc\<lparr>prepare_fail := prepare_fail hwc + 1\<rparr>, p, blank_config i)
        | Some (index, fence) \<Rightarrow>
            (hwc\<lparr>last_buff_idx := index\<rparr>, p\<lparr>p_release := fence\<rparr>,
             fill_blending (p_blending p)
               ((blank_config i)\<lparr>c_enable := True, c_src_fmt := p_fmt p, c_next_buff_idx := index,
                  c_pitch := of_int stride_px, c_sx := p_sx p, c_sy := p_sy p, c_sw := p_sw p, c_sh := p_sh p,
                  c_tx := p_tx p, c_ty := p_ty p, c_tw := p_sw p, c_th := p_sh p, c_frm_sequence := frames hwc\<rparr>)))"

fun config_planes :: "disp \<Rightarrow> gralloc \<Rightarrow> nat \<Rightarrow> fhwc_plane list \<Rightarrow> forge_hwc \<Rightarrow>
    forge_hwc \<times> fhwc_plane list \<times> disp_input_config list" where
  "config_planes k g i [] hwc = (hwc, [], map blank_config [i..<4])"
| "config_planes k g i (p # ps) hwc =
     (case config_plane k g i p hwc of
        (hwc, p, c) \<Rightarrow> case config_planes k g (Suc i) ps hwc of (hwc, ps, cs) \<Rightarrow> (hwc, p # ps, c # cs))"

record submit_result =
  s_ok :: bool
  s_hwc :: forge_hwc
  s_planes :: "fhwc_plane list"
  s_retire :: int
  s_closed :: "int list"
  s_input :: "disp_input_config list option"

definition release_fds :: "fhwc_plane list \<Rightarrow> int list" where
  "release_fds ps = filter (\<lambda>fd. fd \<ge> 0) (map p_release ps)"

text \<open>
  \<open>engine_submit\<close>: the frame reaches the panel only when both \<open>SET_INPUT_BUFFER\<close> and
  \<open>TRIGGER_SESSION\<close> succeed; otherwise every fence obtained is closed.
\<close>

definition engine_submit :: "disp \<Rightarrow> gralloc \<Rightarrow> fhwc_plane list \<Rightarrow> forge_hwc \<Rightarrow> submit_result" where
  "engine_submit k g planes hwc =
     (if length planes > 4 then
        \<lparr>s_ok = False, s_hwc = hwc, s_planes = planes, s_retire = - 1, s_closed = [], s_input = None\<rparr>
      else
        case consume_fences k planes hwc of (hwc, planes, closed) \<Rightarrow>
          if \<not> k_calloc k then
            \<lparr>s_ok = False, s_hwc = hwc, s_planes = planes, s_retire = - 1, s_closed = closed, s_input = None\<rparr>
          else
            case config_planes k g 0 planes hwc of (hwc, planes, input) \<Rightarrow>
              let present = (case k_present k of None \<Rightarrow> (- 1, 2 ^ 32 - 1) | Some pf \<Rightarrow> pf);
                  hwc = hwc\<lparr>last_pf_idx := snd present\<rparr>;
                  ok_input = k_set_input k input;
                  ok = (ok_input \<and> k_trigger k (snd present));
                  hwc = (if ok_input \<and> \<not> ok then hwc\<lparr>trigger_fail := trigger_fail hwc + 1\<rparr> else hwc)
              in if ok then
                   \<lparr>s_ok = True, s_hwc = hwc\<lparr>frames := frames hwc + 1, last_novl := length planes\<rparr>,
                    s_planes = planes, s_retire = fst present, s_closed = closed, s_input = Some input\<rparr>
                 else
                   \<lparr>s_ok = False, s_hwc = hwc, s_planes = map (\<lambda>p. if p_release p \<ge> 0 then p\<lparr>p_release := - 1\<rparr> else p) planes,
                    s_retire = - 1,
                    s_closed = closed @ (if fst present \<ge> 0 then [fst present] else []) @ release_fds planes,
                    s_input = Some input\<rparr>)"

section \<open>set\<close>

definition target_plane :: "forge_hwc \<Rightarrow> hwc_layer \<Rightarrow> fhwc_plane" where
  "target_plane hwc fbt = \<lparr>p_handle = l_handle fbt, p_acquire = acquireFenceFd fbt,
     p_fmt = (if fmt_override hwc \<noteq> 0 then fmt_override hwc else DISP_FORMAT_RGBA8888), p_blending = 0,
     p_sx = 0, p_sy = 0, p_sw = of_int (hwc_width hwc), p_sh = of_int (hwc_height hwc), p_tx = 0, p_ty = 0, p_release = 0\<rparr>"

definition overlay_plane :: "int \<Rightarrow> hwc_layer \<Rightarrow> fhwc_plane" where
  "overlay_plane fmt l =
     (let s = sourceCropi l in
      \<lparr>p_handle = l_handle l, p_acquire = acquireFenceFd l, p_fmt = fmt, p_blending = l_blending l,
       p_sx = of_int (r_left s), p_sy = of_int (r_top s), p_sw = of_int (r_right s - r_left s), p_sh = of_int (r_bottom s - r_top s),
       p_tx = of_int (r_left (displayFrame l)), p_ty = of_int (r_top (displayFrame l)), p_release = 0\<rparr>)"

text \<open>
  The loop over the promoted layers from index \<open>i\<close> on, with \<open>n\<close> planes taken: the planes with the index
  of their layer, and the indices of layers that no longer fit.
\<close>

fun collect_planes :: "gralloc \<Rightarrow> forge_hwc \<Rightarrow> nat \<Rightarrow> nat \<Rightarrow> hwc_layer list \<Rightarrow> (nat \<times> fhwc_plane) list \<times> nat list" where
  "collect_planes g hwc i n [] = ([], [])"
| "collect_planes g hwc i n (l # ls) =
     (if n \<ge> 4 then ([], [])
      else if compositionType l \<noteq> HWC_OVERLAY then collect_planes g hwc (Suc i) n ls
      else let fmt = layer_fits_overlay g hwc l in
        if fmt = 0 then (case collect_planes g hwc (Suc i) n ls of (ps, ds) \<Rightarrow> (ps, i # ds))
        else (case collect_planes g hwc (Suc i) (Suc n) ls of (ps, ds) \<Rightarrow> ((i, overlay_plane fmt l) # ps, ds)))"

text \<open>\<open>if (fd >= 0) { close(fd); fd = -1; }\<close> on the acquire fence of layer \<open>i\<close>.\<close>

definition close_acquire :: "nat \<Rightarrow> hwc_layer list \<times> int list \<Rightarrow> hwc_layer list \<times> int list" where
  "close_acquire i = (\<lambda>(layers, closed).
     if acquireFenceFd (layers ! i) \<ge> 0
     then (layers[i := (layers ! i)\<lparr>acquireFenceFd := - 1\<rparr>], closed @ [acquireFenceFd (layers ! i)])
     else (layers, closed))"

definition target_index :: "hwc_layer list \<Rightarrow> nat option" where
  "target_index layers = (case filter (\<lambda>i. is_target (layers ! i)) [0..<length layers] of [] \<Rightarrow> None | is \<Rightarrow> Some (last is))"

record set_result =
  f_hwc :: forge_hwc
  f_layers :: "hwc_layer list"
  f_retire :: int
  f_closed :: "int list"
  f_submit :: "submit_result option"

text \<open>The layers after submission: the fences of the planes, for the layers they came from.\<close>

definition store_fences :: "(nat \<times> fhwc_plane) list \<Rightarrow> hwc_layer list \<Rightarrow> hwc_layer list" where
  "store_fences src layers =
     fold (\<lambda>(i, p) ls. ls[i := (ls ! i)\<lparr>acquireFenceFd := - 1, releaseFenceFd := p_release p\<rparr>]) src layers"

definition gles_used :: "hwc_layer list \<Rightarrow> bool" where
  "gles_used layers \<longleftrightarrow> list_ex (\<lambda>l. compositionType l = HWC_FRAMEBUFFER) layers"

text \<open>
  The planes of a frame with the indices of their layers, bottom first: the target when something was
  left to GLES, then the promoted layers; and the indices of promoted layers that no longer fit.
\<close>

definition plan_frame :: "gralloc \<Rightarrow> forge_hwc \<Rightarrow> hwc_layer list \<Rightarrow> (nat \<times> fhwc_plane) list \<times> nat list" where
  "plan_frame g hwc layers =
     (let t = the (target_index layers);
          first = (if gles_used layers then [(t, target_plane hwc (layers ! t))] else []) in
      case collect_planes g hwc 0 (length first) layers of (ovl, dropped) \<Rightarrow> (first @ ovl, dropped))"

definition fhwc_set :: "disp \<Rightarrow> gralloc \<Rightarrow> forge_hwc \<Rightarrow> hwc_layer list \<Rightarrow> set_result" where
  "fhwc_set k g hwc layers =
     (let fbt = target_index layers; gles = gles_used layers in
      if gles \<and> (fbt = None \<or> l_handle (layers ! the fbt) = 0) then
        (case (case fbt of None \<Rightarrow> (layers, []) | Some t \<Rightarrow> close_acquire t (layers, [])) of
           (layers, closed) \<Rightarrow> \<lparr>f_hwc = hwc, f_layers = layers, f_retire = - 1, f_closed = closed, f_submit = None\<rparr>)
      else
        case plan_frame g hwc layers of (src, dropped) \<Rightarrow>
          case fold close_acquire (dropped @ (if \<not> gles \<and> fbt \<noteq> None then [the fbt] else [])) (layers, []) of
            (layers, closed) \<Rightarrow>
              if src = [] then \<lparr>f_hwc = hwc, f_layers = layers, f_retire = - 1, f_closed = closed, f_submit = None\<rparr>
              else
                let r = engine_submit k g (map snd src) hwc;
                    layers = store_fences (zip (map fst src) (s_planes r)) layers;
                    promoted = length src - (if gles then 1 else 0);
                    hwc = (s_hwc r)\<lparr>last_fbt_used := gles\<rparr>;
                    hwc = (if promoted > 0 then hwc\<lparr>ovl_frames := ovl_frames hwc + 1, promoted_total := promoted_total hwc + promoted\<rparr>
                           else hwc\<lparr>gles_frames := gles_frames hwc + 1\<rparr>)
                in \<lparr>f_hwc = hwc, f_layers = layers, f_retire = s_retire r, f_closed = closed @ s_closed r, f_submit = Some r\<rparr>)"

section \<open>Events and queries\<close>

definition EINVAL_hwc :: int where "EINVAL_hwc = - 22"
definition ENODEV_hwc :: int where "ENODEV_hwc = - 19"

definition fhwc_event_control :: "int \<Rightarrow> bool \<Rightarrow> bool \<Rightarrow> forge_hwc \<Rightarrow> int \<times> forge_hwc" where
  "fhwc_event_control dsp is_vsync enabled hwc =
     (if dsp \<noteq> 0 \<or> \<not> is_vsync then (EINVAL_hwc, hwc) else (0, hwc\<lparr>vsync_on := enabled\<rparr>))"

text \<open>\<open>fhwc_blank\<close>: \<open>fb\<close> is \<open>None\<close> without a frame buffer, else the driver (0 or a negative errno) by power-down flag.\<close>

definition fhwc_blank :: "(bool \<Rightarrow> int) option \<Rightarrow> int \<Rightarrow> bool \<Rightarrow> int" where
  "fhwc_blank fb dsp blank =
     (if dsp \<noteq> 0 then EINVAL_hwc else case fb of None \<Rightarrow> ENODEV_hwc | Some ioctl \<Rightarrow> if ioctl blank < 0 then ioctl blank else 0)"

datatype hwc_query = Background_Layer_Supported | Display_Types_Supported | Vsync_Period | Other_query nat

definition fhwc_query :: "hwc_query \<Rightarrow> forge_hwc \<Rightarrow> int option" where
  "fhwc_query what hwc =
     (case what of Background_Layer_Supported \<Rightarrow> Some 0 | Display_Types_Supported \<Rightarrow> Some 1
      | Vsync_Period \<Rightarrow> Some (vsync_period_ns hwc) | Other_query _ \<Rightarrow> None)"

text \<open>\<open>fhwc_get_display_configs\<close>: the configurations written for a capacity, or an error.\<close>

definition fhwc_get_display_configs :: "int \<Rightarrow> nat \<Rightarrow> nat list option" where
  "fhwc_get_display_configs dsp numConfigs = (if dsp \<noteq> 0 then None else Some (if numConfigs > 0 then [0] else []))"

datatype hwc_attribute = Attr_VSYNC_PERIOD | Attr_WIDTH | Attr_HEIGHT | Attr_DPI_X | Attr_DPI_Y | Attr_other nat

fun attribute_value :: "forge_hwc \<Rightarrow> hwc_attribute \<Rightarrow> int" where
  "attribute_value hwc Attr_VSYNC_PERIOD = vsync_period_ns hwc"
| "attribute_value hwc Attr_WIDTH = hwc_width hwc"
| "attribute_value hwc Attr_HEIGHT = hwc_height hwc"
| "attribute_value hwc Attr_DPI_X = xdpi_1000 hwc"
| "attribute_value hwc Attr_DPI_Y = ydpi_1000 hwc"
| "attribute_value hwc (Attr_other _) = 0"

definition fhwc_get_display_attributes :: "int \<Rightarrow> int \<Rightarrow> hwc_attribute list \<Rightarrow> forge_hwc \<Rightarrow> int list option" where
  "fhwc_get_display_attributes dsp config attributes hwc =
     (if dsp \<noteq> 0 \<or> config \<noteq> 0 then None else Some (map (attribute_value hwc) attributes))"

text \<open>
  One turn of the vsync thread while vsync is on: \<open>vs\<close> is the time stamp of \<open>WAIT_FOR_VSYNC\<close> (\<open>None\<close>
  when it fails), \<open>now\<close> the monotonic clock. The result is the last time stamp, the time stamp reported
  if any, and the number of pauses of 16666 us.
\<close>

definition vsync_turn :: "int option \<Rightarrow> int \<Rightarrow> int \<Rightarrow> forge_hwc \<Rightarrow> int \<times> int option \<times> nat" where
  "vsync_turn vs now last_ts hwc =
     (case vs of None \<Rightarrow> (last_ts, None, 1)
      | Some vsync_ts \<Rightarrow>
          let ts = (if vsync_ts = 0 then now else vsync_ts); pauses = (if vsync_ts = 0 then 1 else 0) in
          if ts = last_ts then (last_ts, None, pauses + 1)
          else (ts, if vsync_on hwc \<and> hwc_procs hwc then Some ts else None, pauses))"

definition fhwc_register_procs :: "bool \<Rightarrow> forge_hwc \<Rightarrow> forge_hwc" where
  "fhwc_register_procs procs hwc = hwc\<lparr>hwc_procs := procs\<rparr>"

section \<open>Opening and closing\<close>

definition hwc_zero :: forge_hwc where
  "hwc_zero = \<lparr>session = 0, session_ok = False, hwc_width = 0, hwc_height = 0, vsync_period_ns = 0, xdpi_1000 = 0, ydpi_1000 = 0,
     vsync_on = False, hwc_stop = False, hwc_procs = False, frames = 0, prepare_fail = 0, trigger_fail = 0, acquire_timeouts = 0,
     acq_presignaled = 0, acq_waited = 0, acq_nofence = 0, acq_wait_us_max = 0, acq_wait_us_total = 0, last_buff_idx = 0,
     last_pf_idx = 0, fmt_override = 0, ovl_frames = 0, gles_frames = 0, promoted_total = 0, last_novl = 0, last_fbt_used = False\<rparr>"

text \<open>
  \<open>fhwc_open\<close>: the descriptors \<open>open\<close> returns (negative on failure), the session, and whether the
  vsync thread starts. The result is the device, \<open>None\<close> on an error, and the descriptors closed.
\<close>

definition fhwc_open :: "hwc_props \<Rightarrow> bool \<Rightarrow> bool \<Rightarrow> int \<Rightarrow> int \<Rightarrow> int option \<Rightarrow> session_info option \<Rightarrow> bool \<Rightarrow> forge_hwc option \<times> int list" where
  "fhwc_open props name_ok calloc_ok disp_fd fb_fd create info thread_ok =
     (if \<not> name_ok then (None, [])
      else if \<not> calloc_ok then (None, [])
      else if disp_fd < 0 then (None, [])
      else case engine_open_session props create info hwc_zero of
          (False, _) \<Rightarrow> (None, (if fb_fd \<ge> 0 then [fb_fd] else []) @ [disp_fd])
        | (True, hwc) \<Rightarrow>
            if \<not> thread_ok then (None, disp_fd # (if fb_fd \<ge> 0 then [fb_fd] else []))
            else (Some (hwc\<lparr>fmt_override := prop_int props ''debug.forgehwc.fmt'' 0\<rparr>), []))"

text \<open>\<open>fhwc_close\<close>: whether the session is destroyed, and the descriptors closed.\<close>

definition fhwc_close :: "int \<Rightarrow> int \<Rightarrow> forge_hwc \<Rightarrow> bool \<times> int list" where
  "fhwc_close fb_fd disp_fd hwc =
     (session_ok hwc, (if fb_fd \<ge> 0 then [fb_fd] else []) @ (if disp_fd \<ge> 0 then [disp_fd] else []))"

end
