(* ===== verification/HwcCorrect.thy ===== *)
theory HwcCorrect
  imports Hwc
begin

text \<open>
  Correctness of the hardware composer: what \<open>prepare\<close> promotes, that the planes of a frame show what
  composing all layers in order would show, that they stay on the panel, and that every fence is closed
  exactly once.
\<close>

section \<open>What prepare promotes\<close>

abbreviation real_layers :: "hwc_layer list \<Rightarrow> hwc_layer list" where
  "real_layers ls \<equiv> filter (\<lambda>l. \<not> is_target l) ls"

abbreviation fits :: "gralloc \<Rightarrow> forge_hwc \<Rightarrow> hwc_layer \<Rightarrow> bool" where
  "fits g hwc l \<equiv> layer_fits_overlay g hwc l \<noteq> 0"

abbreviation overlay :: "hwc_layer \<Rightarrow> hwc_layer" where
  "overlay l \<equiv> l\<lparr>compositionType := HWC_OVERLAY\<rparr>"

abbreviation gles :: "hwc_layer \<Rightarrow> hwc_layer" where
  "gles l \<equiv> l\<lparr>compositionType := HWC_FRAMEBUFFER\<rparr>"

lemma fits_composition [simp]: "layer_fits_overlay g hwc (l\<lparr>compositionType := c\<rparr>) = layer_fits_overlay g hwc l"
  unfolding layer_fits_overlay_def by (simp cong: if_cong option.case_cong)

lemma fitsD:
  assumes "fits g hwc l"
  shows "l_handle l \<noteq> 0" "l_transform l = 0" "l_blending l \<in> {HWC_BLENDING_NONE, HWC_BLENDING_PREMULT, HWC_BLENDING_COVERAGE}"
    "r_left (sourceCropi l) < r_right (sourceCropi l)" "r_top (sourceCropi l) < r_bottom (sourceCropi l)"
    "r_right (sourceCropi l) - r_left (sourceCropi l) = r_right (displayFrame l) - r_left (displayFrame l)"
    "r_bottom (sourceCropi l) - r_top (sourceCropi l) = r_bottom (displayFrame l) - r_top (displayFrame l)"
    "0 \<le> r_left (sourceCropi l)" "0 \<le> r_top (sourceCropi l)"
    "0 \<le> r_left (displayFrame l)" "0 \<le> r_top (displayFrame l)"
    "r_right (displayFrame l) \<le> hwc_width hwc" "r_bottom (displayFrame l) \<le> hwc_height hwc"
  using assms unfolding layer_fits_overlay_def Let_def by (simp_all split: if_splits)

lemma top_run_takeWhile: "top_run g hwc ls = length (takeWhile (fits g hwc) (real_layers ls))"
  by (induction ls) simp_all

definition prepare_budget :: "hwc_props \<Rightarrow> gralloc \<Rightarrow> forge_hwc \<Rightarrow> hwc_layer list \<Rightarrow> nat" where
  "prepare_budget props g hwc layers =
     plane_budget props (if prop_int props ''debug.forgehwc.overlays'' 1 \<noteq> 0 then top_run g hwc (rev layers) else 0)
       (length (real_layers layers))"

lemma prepare_budget_le_run:
  "prepare_budget props g hwc layers \<le> length (takeWhile (fits g hwc) (rev (real_layers layers)))"
  by (auto simp: prepare_budget_def plane_budget_def top_run_takeWhile rev_filter Let_def)

lemma prepare_budget_le: "prepare_budget props g hwc layers \<le> length (real_layers layers)"
  using prepare_budget_le_run [of props g hwc layers] length_takeWhile_le [of "fits g hwc" "rev (real_layers layers)"]
  by simp

lemma prepare_planes_le:
  "prepare_budget props g hwc layers < length (real_layers layers) \<Longrightarrow> prepare_budget props g hwc layers \<le> 3"
  "prepare_budget props g hwc layers \<le> 4"
  by (auto simp: prepare_budget_def plane_budget_def Let_def)

lemma promoted_fit:
  "l \<in> set (drop (length (real_layers layers) - prepare_budget props g hwc layers) (real_layers layers)) \<Longrightarrow> fits g hwc l"
proof -
  let ?b = "prepare_budget props g hwc layers" and ?r = "real_layers layers"
  assume "l \<in> set (drop (length ?r - ?b) ?r)"
  then have "l \<in> set (take ?b (rev ?r))" by (simp add: take_rev)
  moreover have "take ?b (rev ?r) = take ?b (takeWhile (fits g hwc) (rev ?r))"
    using prepare_budget_le_run [of props g hwc layers] by (metis takeWhile_eq_take take_take min.absorb1)
  ultimately show ?thesis by (metis in_set_takeD set_takeWhileD)
qed

text \<open>The layers after \<open>prepare\<close>, target left out: a GLES part below, the promoted layers above.\<close>

lemma mark_layers_real:
  "b > 0 \<Longrightarrow> real_layers (mark_layers f b n ls) = map gles (take (f - n) (real_layers ls)) @ map overlay (drop (f - n) (real_layers ls))"
  "real_layers (mark_layers f 0 n ls) = map gles (real_layers ls)"
proof -
  show "b > 0 \<Longrightarrow> real_layers (mark_layers f b n ls) = map gles (take (f - n) (real_layers ls)) @ map overlay (drop (f - n) (real_layers ls))"
  proof (induction ls arbitrary: n)
    case (Cons l ls)
    show ?case
    proof (cases "f - n")
      case 0
      then show ?thesis using Cons by (simp add: is_target_def)
    next
      case (Suc k)
      then have "f - Suc n = k" "\<not> f \<le> n" by simp_all
      then show ?thesis using Cons Suc by (simp add: is_target_def)
    qed
  qed simp
  show "real_layers (mark_layers f 0 n ls) = map gles (real_layers ls)"
    by (induction ls arbitrary: n) (auto simp: is_target_def)
qed

lemma prepare_real:
  assumes "b = prepare_budget props g hwc layers" "r = real_layers layers"
  shows "real_layers (fhwc_prepare props g hwc layers) =
     map gles (take (length r - b) r) @ map overlay (drop (length r - b) r)"
proof -
  have "fhwc_prepare props g hwc layers = mark_layers (length r - b) b 0 layers"
    using assms by (simp add: fhwc_prepare_def prepare_budget_def Let_def)
  then show ?thesis using assms mark_layers_real(1) [of b "length r - b" 0 layers] mark_layers_real(2) [of "length r - b" 0 layers]
    by (cases "b = 0") simp_all
qed

lemma mark_layers_nth:
  "length (mark_layers f b n ls) = length ls"
  "i < length ls \<Longrightarrow> is_target (mark_layers f b n ls ! i) = is_target (ls ! i)"
  "i < length ls \<Longrightarrow> is_target (ls ! i) \<Longrightarrow> mark_layers f b n ls ! i = ls ! i"
  by (induction ls arbitrary: n i; force simp: is_target_def nth_Cons split: nat.splits)+

lemma prepare_target_index: "target_index (fhwc_prepare props g hwc layers) = target_index layers"
proof -
  have "filter (\<lambda>i. is_target (fhwc_prepare props g hwc layers ! i)) [0..<length (fhwc_prepare props g hwc layers)] =
      filter (\<lambda>i. is_target (layers ! i)) [0..<length layers]"
    by (rule filter_cong) (auto simp: fhwc_prepare_def Let_def mark_layers_nth)
  then show ?thesis by (simp only: target_index_def)
qed

section \<open>The planes of a frame\<close>

abbreviation is_overlay :: "hwc_layer \<Rightarrow> bool" where
  "is_overlay l \<equiv> compositionType l = HWC_OVERLAY"

abbreviation is_gles :: "hwc_layer \<Rightarrow> bool" where
  "is_gles l \<equiv> compositionType l = HWC_FRAMEBUFFER"

abbreviation plane_of :: "gralloc \<Rightarrow> forge_hwc \<Rightarrow> hwc_layer \<Rightarrow> fhwc_plane" where
  "plane_of g hwc l \<equiv> overlay_plane (layer_fits_overlay g hwc l) l"

lemma collect_planes_snd:
  "map snd (fst (collect_planes g hwc i n ls)) =
     map (plane_of g hwc) (take (4 - n) (filter (\<lambda>l. is_overlay l \<and> fits g hwc l) ls))"
proof (induction ls arbitrary: i n)
  case (Cons l ls)
  show ?case
  proof (cases "n \<ge> 4")
    case False
    then have "4 - n = Suc (4 - Suc n)" by simp
    then show ?thesis using False by (simp add: Let_def case_prod_beta Cons del: diff_Suc_eq_diff_pred)
  qed simp
qed simp

lemma collect_planes_fst:
  "map fst (fst (collect_planes g hwc i n ls)) =
     take (4 - n) (map fst (filter (\<lambda>(j, l). is_overlay l \<and> fits g hwc l) (enumerate i ls)))"
proof (induction ls arbitrary: i n)
  case (Cons l ls)
  show ?case
  proof (cases "n \<ge> 4")
    case False
    then have "4 - n = Suc (4 - Suc n)" by simp
    then show ?thesis using False by (simp add: Let_def case_prod_beta Cons del: diff_Suc_eq_diff_pred)
  qed simp
qed simp

lemma collect_planes_dropped:
  "list_all (\<lambda>l. is_overlay l \<longrightarrow> fits g hwc l) ls \<Longrightarrow> snd (collect_planes g hwc i n ls) = []"
  by (induction ls arbitrary: i n) (auto simp: Let_def case_prod_beta)

lemma plane_of_composition [simp]: "overlay_plane f (l\<lparr>compositionType := c\<rparr>) = overlay_plane f l"
  by (simp add: overlay_plane_def)

lemma filter_real:
  "(\<And>l. P l \<Longrightarrow> \<not> is_target l) \<Longrightarrow> filter P ls = filter P (real_layers ls)"
  by (induction ls) auto

lemma prepare_parts:
  assumes "b = prepare_budget props g hwc layers" "r = real_layers layers"
  shows "filter is_overlay (fhwc_prepare props g hwc layers) = map overlay (drop (length r - b) r)"
    and "filter is_gles (fhwc_prepare props g hwc layers) = map gles (take (length r - b) r)"
    and "gles_used (fhwc_prepare props g hwc layers) \<longleftrightarrow> b < length r"
proof -
  have *: "filter P (fhwc_prepare props g hwc layers) = filter P (real_layers (fhwc_prepare props g hwc layers))"
    if "P = is_overlay \<or> P = is_gles" for P
    using that by (intro filter_real) (auto simp: is_target_def)
  show 1: "filter is_overlay (fhwc_prepare props g hwc layers) = map overlay (drop (length r - b) r)"
    unfolding * [of is_overlay, OF disjI1, OF refl] prepare_real [OF assms] by (simp add: filter_map o_def filter_empty_conv)
  show 2: "filter is_gles (fhwc_prepare props g hwc layers) = map gles (take (length r - b) r)"
    unfolding * [of is_gles, OF disjI2, OF refl] prepare_real [OF assms] by (simp add: filter_map o_def filter_empty_conv)
  have "gles_used (fhwc_prepare props g hwc layers) \<longleftrightarrow> filter is_gles (fhwc_prepare props g hwc layers) \<noteq> []"
    by (simp add: gles_used_def list_ex_iff filter_empty_conv)
  also have "\<dots> \<longleftrightarrow> b < length r" unfolding 2 using assms prepare_budget_le [of props g hwc layers] by auto
  finally show "gles_used (fhwc_prepare props g hwc layers) \<longleftrightarrow> b < length r" .
qed

lemma prepare_overlays_fit:
  assumes "l \<in> set (fhwc_prepare props g hwc layers)" "is_overlay l"
  shows "fits g hwc l"
proof -
  have "l \<in> set (filter is_overlay (fhwc_prepare props g hwc layers))" using assms by simp
  then obtain l' where "l = overlay l'"
    "l' \<in> set (drop (length (real_layers layers) - prepare_budget props g hwc layers) (real_layers layers))"
    unfolding prepare_parts(1) [OF refl refl] by auto
  then show ?thesis using promoted_fit by simp
qed

lemma prepare_overlays:
  "filter (\<lambda>l. is_overlay l \<and> fits g hwc l) (fhwc_prepare props g hwc layers) = filter is_overlay (fhwc_prepare props g hwc layers)"
  by (rule filter_cong [OF refl]) (use prepare_overlays_fit in blast)

lemma prepare_few_overlays:
  "length (filter is_overlay (fhwc_prepare props g hwc layers)) \<le> 4 - (if gles_used (fhwc_prepare props g hwc layers) then 1 else 0)"
  unfolding prepare_parts [OF refl refl]
  using prepare_planes_le [of props g hwc layers] prepare_budget_le [of props g hwc layers] by auto

lemma plan_prepared:
  assumes "target_index layers = Some t" and L_def: "L = fhwc_prepare props g hwc layers"
  shows "map snd (fst (plan_frame g hwc L)) =
      (if gles_used L then [target_plane hwc (L ! t)] else []) @ map (plane_of g hwc) (filter is_overlay L)"
    and "snd (plan_frame g hwc L) = []"
proof -
  have t: "target_index L = Some t" using assms by (simp add: prepare_target_index)
  have "take (4 - (if gles_used L then 1 else 0)) (filter is_overlay L) = filter is_overlay L"
    unfolding L_def by (rule take_all) (rule prepare_few_overlays)
  then show "map snd (fst (plan_frame g hwc L)) =
      (if gles_used L then [target_plane hwc (L ! t)] else []) @ map (plane_of g hwc) (filter is_overlay L)"
    by (cases "gles_used L")
      (simp_all add: plan_frame_def t case_prod_beta collect_planes_snd prepare_overlays [of g hwc props layers, folded L_def] del: take_all_iff)
  show "snd (plan_frame g hwc L) = []"
    using prepare_overlays_fit [of _ props g hwc layers]
    by (simp add: plan_frame_def Let_def case_prod_beta collect_planes_dropped list_all_iff L_def)
qed

lemma target_indexD:
  assumes "target_index layers = Some t"
  shows "t < length layers" "is_target (layers ! t)"
proof -
  have "t \<in> set (filter (\<lambda>i. is_target (layers ! i)) [0..<length layers])"
    using assms last_in_set [of "filter (\<lambda>i. is_target (layers ! i)) [0..<length layers]"]
    by (cases "filter (\<lambda>i. is_target (layers ! i)) [0..<length layers]") (simp_all add: target_index_def del: set_filter last.simps)
  then show "t < length layers" "is_target (layers ! t)" by auto
qed

lemma fold_draw_composition:
  "(\<And>l c. draw (l\<lparr>compositionType := c\<rparr>) = draw l) \<Longrightarrow> fold draw (map (\<lambda>l. l\<lparr>compositionType := c\<rparr>) ls) = fold draw ls"
  by (simp add: fold_map o_def)

lemma fhwc_set_submits:
  assumes "target_index L = Some t" "gles_used L \<Longrightarrow> l_handle (L ! t) \<noteq> 0" "fst (plan_frame g hwc L) \<noteq> []"
  shows "f_submit (fhwc_set k g hwc L) = Some (engine_submit k g (map snd (fst (plan_frame g hwc L))) hwc)"
  using assms by (auto simp: fhwc_set_def Let_def case_prod_beta)

section \<open>The frame shows every layer\<close>

text \<open>
  C25 (equivalence). A frame taken through \<open>prepare\<close> and \<open>set\<close> shows exactly what composing all its layers in
  order would: the planes \<open>set\<close> hands to \<open>engine_submit\<close>, blended bottom to top, give the same
  picture as drawing every layer but the target bottom to top, and there are at most four of them. Assumed of
  the parties outside: GLES draws the layers left to it into the target (\<open>gles_target\<close>), the overlay engine
  blends a plane that \<open>layer_fits_overlay\<close> accepts like GLES would (\<open>overlay_engine\<close>), and the
  composition type does not change how a layer looks.
\<close>

theorem prepare_set_shows_all_layers:
  fixes draw :: "hwc_layer \<Rightarrow> 'img \<Rightarrow> 'img" and hw :: "fhwc_plane \<Rightarrow> 'img \<Rightarrow> 'img"
  assumes target: "target_index layers = Some t" "l_handle (layers ! t) \<noteq> 0" "real_layers layers \<noteq> []"
    and L: "L = fhwc_prepare props g hwc layers"
    and same_look: "\<And>l c. draw (l\<lparr>compositionType := c\<rparr>) = draw l"
    and overlay_engine: "\<And>l. fits g hwc l \<Longrightarrow> hw (plane_of g hwc l) = draw l"
    and gles_target: "hw (target_plane hwc (layers ! t)) clear = fold draw (filter is_gles L) clear"
  shows "\<exists>planes. f_submit (fhwc_set k g hwc L) = Some (engine_submit k g planes hwc) \<and>
    length planes \<le> 4 \<and> fold hw planes clear = fold draw (real_layers layers) clear"
proof -
  define r where "r = real_layers layers"
  define b where "b = prepare_budget props g hwc layers"
  define planes where "planes = map snd (fst (plan_frame g hwc L))"
  note parts = prepare_parts [of b props g hwc layers r, OF b_def r_def, folded L]
  have t: "target_index L = Some t" "L ! t = layers ! t"
    using target target_indexD [of layers t] L by (simp_all add: prepare_target_index) (simp add: fhwc_prepare_def Let_def mark_layers_nth)
  have planes: "planes = (if b < length r then [target_plane hwc (layers ! t)] else []) @ map (plane_of g hwc) (drop (length r - b) r)"
    using plan_prepared(1) [OF target(1) L] parts t by (simp add: planes_def L o_def)
  then have "planes \<noteq> []" using target(3) by (auto simp: r_def)
  then have "f_submit (fhwc_set k g hwc L) = Some (engine_submit k g planes hwc)"
    using fhwc_set_submits [of L t] t target(2) by (simp add: planes_def)
  moreover have "length planes \<le> 4"
    using planes prepare_planes_le [of props g hwc layers] prepare_budget_le [of props g hwc layers] by (auto simp: b_def r_def)
  moreover have "fold hw planes clear = fold draw r clear"
  proof -
    have "map hw (map (plane_of g hwc) (drop (length r - b) r)) = map draw (drop (length r - b) r)"
      using promoted_fit [of _ layers props g hwc] overlay_engine by (auto simp: r_def b_def)
    then have top: "fold hw (map (plane_of g hwc) (drop (length r - b) r)) = fold draw (drop (length r - b) r)"
      by (metis (no_types, lifting) fold_map id_comp comp_id fold_cong)
    have bottom: "fold hw (if b < length r then [target_plane hwc (layers ! t)] else []) clear = fold draw (take (length r - b) r) clear"
      using gles_target fold_draw_composition [of draw HWC_FRAMEBUFFER, OF same_look] by (auto simp: parts)
    show ?thesis unfolding planes fold_append o_apply bottom top
      by (metis append_take_drop_id comp_apply fold_append)
  qed
  ultimately show ?thesis by (auto simp: r_def)
qed

text \<open>A device, buffers and layers the properties are tried on: layer 2 is scaled, so layers 1 and 2 go to GLES.\<close>

definition demo_hwc :: forge_hwc where
  "demo_hwc = hwc_zero\<lparr>hwc_width := 720, hwc_height := 1280, session_ok := True\<rparr>"

definition demo_gralloc :: gralloc where
  "demo_gralloc = \<lparr>ge_query = True, ge_ion_fd = (\<lambda>h. Some (100 + int h)), ge_stride = (\<lambda>_. Some 736), ge_format = (\<lambda>_. Some 1), handle_fds = (\<lambda>_. [])\<rparr>"

definition demo_layer :: "nat \<Rightarrow> int \<Rightarrow> hwc_layer" where
  "demo_layer h w = \<lparr>compositionType = HWC_FRAMEBUFFER, l_skip = False, l_handle = h, l_transform = 0, l_blending = HWC_BLENDING_PREMULT,
     sourceCropi = \<lparr>r_left = 0, r_top = 0, r_right = w, r_bottom = 10\<rparr>,
     displayFrame = \<lparr>r_left = 5, r_top = 5, r_right = 25, r_bottom = 15\<rparr>, acquireFenceFd = 10 + int h, releaseFenceFd = - 1\<rparr>"

definition demo_layers :: "hwc_layer list" where
  "demo_layers = [demo_layer 1 20, demo_layer 2 30, demo_layer 3 20, demo_layer 4 20,
     (demo_layer 9 20)\<lparr>compositionType := HWC_FRAMEBUFFER_TARGET\<rparr>]"

definition demo_disp :: "bool \<Rightarrow> disp" where
  "demo_disp ok = \<lparr>k_poll = (\<lambda>fd. 1), k_wait = (\<lambda>fd. 1), k_wait_us = (\<lambda>fd. 0), k_calloc = True,
     k_prepare = (\<lambda>i fd. Some (int i, 200 + int i)), k_present = Some (50, 7), k_set_input = (\<lambda>_. True), k_trigger = (\<lambda>_. ok)\<rparr>"

lemmas demo_defs = demo_layers_def demo_layer_def demo_gralloc_def demo_hwc_def

lemma demo_fits: "fits demo_gralloc demo_hwc (demo_layer h w) \<longleftrightarrow> h \<noteq> 0 \<and> w = 20"
  by (simp add: layer_fits_overlay_def demo_defs hwc_zero_def map_hal_format_def DISP_FORMAT_RGBA8888_def Let_def)

lemma demo_target: "target_index demo_layers = Some 4"
  by (simp add: target_index_def demo_layers_def demo_layer_def is_target_def upt_rec)

lemma demo_prepare:
  "fhwc_prepare (\<lambda>_. []) demo_gralloc demo_hwc demo_layers =
     [demo_layer 1 20, demo_layer 2 30, overlay (demo_layer 3 20), overlay (demo_layer 4 20),
      (demo_layer 9 20)\<lparr>compositionType := HWC_FRAMEBUFFER_TARGET\<rparr>]"
proof -
  have [simp]: "is_target (demo_layer h w) = False" "is_target ((demo_layer h w)\<lparr>compositionType := HWC_FRAMEBUFFER_TARGET\<rparr>)"
    "gles (demo_layer h w) = demo_layer h w" for h w
    by (simp_all add: is_target_def demo_layer_def)
  show ?thesis
    using demo_fits [of 3 20] demo_fits [of 4 20] demo_fits [of 2 30]
    by (simp add: fhwc_prepare_def demo_layers_def plane_budget_def prop_int_def)
qed

text \<open>A picture is the list of what was drawn; buffer 9 is the target and shows what GLES drew into it.\<close>

theorem prepare_set_shows_all_layers_witness:
  "\<exists>planes. f_submit (fhwc_set (demo_disp True) demo_gralloc demo_hwc (fhwc_prepare (\<lambda>_. []) demo_gralloc demo_hwc demo_layers)) =
      Some (engine_submit (demo_disp True) demo_gralloc planes demo_hwc) \<and>
    length planes \<le> 4 \<and>
    fold (\<lambda>p img. img @ (if p_handle p = 9 \<and> p_blending p = 0 then [1, 2] else [p_handle p])) planes [] = [1, 2, 3, 4]"
proof -
  have draw: "fold (\<lambda>l img. img @ [l_handle l]) (real_layers demo_layers) [] = [1, 2, 3, 4]"
    "real_layers demo_layers \<noteq> []" "l_handle (demo_layers ! 4) \<noteq> 0"
    by (simp_all add: demo_layers_def demo_layer_def is_target_def)
  have gles: "filter is_gles (fhwc_prepare (\<lambda>_. []) demo_gralloc demo_hwc demo_layers) = [demo_layer 1 20, demo_layer 2 30]"
    unfolding demo_prepare by (simp add: demo_layer_def)
  have engine: "(\<lambda>img. img @ (if p_handle (plane_of demo_gralloc demo_hwc l) = 9 \<and> p_blending (plane_of demo_gralloc demo_hwc l) = 0
      then [1, 2] else [p_handle (plane_of demo_gralloc demo_hwc l)])) = (\<lambda>img. img @ [l_handle l])"
    if "fits demo_gralloc demo_hwc l" for l
    using fitsD(3) [OF that] by (auto simp: overlay_plane_def Let_def HWC_BLENDING_NONE_def HWC_BLENDING_PREMULT_def HWC_BLENDING_COVERAGE_def)
  have target: "p_handle (target_plane demo_hwc (demo_layers ! 4)) = 9" "p_blending (target_plane demo_hwc (demo_layers ! 4)) = 0"
    by (simp_all add: target_plane_def demo_layers_def demo_layer_def)
  show ?thesis
    using prepare_set_shows_all_layers [where k = "demo_disp True" and hw = "\<lambda>p img. img @ (if p_handle p = 9 \<and> p_blending p = 0 then [1, 2] else [p_handle p])"
        and draw = "\<lambda>l img. img @ [l_handle l]" and clear = "[]", OF demo_target draw(3,2) refl _ engine, of "\<lambda>_. []"]
    unfolding draw(1) gles target by (simp add: demo_layer_def)
qed

section \<open>Fences\<close>

lemma consume_fences_result:
  "snd (consume_fences k ps hwc) = (map (\<lambda>p. p\<lparr>p_acquire := - 1, p_release := - 1\<rparr>) ps, filter (\<lambda>fd. fd \<ge> 0) (map p_acquire ps))"
  by (induction ps arbitrary: hwc) (simp_all add: Let_def case_prod_beta)

text \<open>The release fence the driver gives for plane \<open>i\<close>, and all the fences it gives for a frame.\<close>

definition plane_fence :: "disp \<Rightarrow> gralloc \<Rightarrow> nat \<times> fhwc_plane \<Rightarrow> int" where
  "plane_fence k g = (\<lambda>(i, p). let fd = plane_ion_fd g (p_handle p) in
     if fd < 0 then - 1 else case k_prepare k i fd of None \<Rightarrow> - 1 | Some (_, fence) \<Rightarrow> fence)"

definition plane_fences :: "disp \<Rightarrow> gralloc \<Rightarrow> fhwc_plane list \<Rightarrow> int list" where
  "plane_fences k g planes = map (plane_fence k g) (enumerate 0 planes)"

definition present_fence :: "disp \<Rightarrow> int" where
  "present_fence k = (case k_present k of None \<Rightarrow> - 1 | Some (fd, _) \<Rightarrow> fd)"

lemma config_plane_release:
  "p_release p = - 1 \<Longrightarrow> p_release (fst (snd (config_plane k g i p hwc))) = plane_fence k g (i, p)"
  by (simp add: config_plane_def plane_fence_def Let_def split: option.split prod.split)

lemma config_planes_release:
  "list_all (\<lambda>p. p_release p = - 1) ps \<Longrightarrow>
    map p_release (fst (snd (config_planes k g i ps hwc))) = map (plane_fence k g) (enumerate i ps)"
proof (induction ps arbitrary: i hwc)
  case (Cons p ps)
  then show ?case using config_plane_release [of p k g i hwc] by (simp add: case_prod_beta)
qed simp

lemma plane_fence_cong: "p_handle p = p_handle q \<Longrightarrow> plane_fence k g (i, p) = plane_fence k g (i, q)"
  by (simp add: plane_fence_def)

lemma enumerate_map: "enumerate i (map f xs) = map (\<lambda>(j, x). (j, f x)) (enumerate i xs)"
  by (induction xs arbitrary: i) simp_all

text \<open>Every acquire fence is closed; the driver's fences are handed over when the frame is shown, else closed.\<close>

lemma engine_submit_fences:
  assumes "length planes \<le> 4" and r: "r = engine_submit k g planes hwc"
  shows "s_closed r = filter (\<lambda>fd. fd \<ge> 0) (map p_acquire planes) @
      (if s_ok r \<or> \<not> k_calloc k then [] else filter (\<lambda>fd. fd \<ge> 0) (present_fence k # plane_fences k g planes))"
    and "s_retire r = (if s_ok r then present_fence k else - 1)"
    and "map p_release (s_planes r) = (if s_ok r then plane_fences k g planes
      else if k_calloc k then map (\<lambda>fd. if fd \<ge> 0 then - 1 else fd) (plane_fences k g planes)
      else map (\<lambda>_. - 1) planes)"
    and "length (s_planes r) = length planes"
proof -
  define ps where "ps = map (\<lambda>p. p\<lparr>p_acquire := - 1, p_release := - 1\<rparr>) planes"
  obtain hwc1 where consume: "consume_fences k planes hwc = (hwc1, ps, filter (\<lambda>fd. fd \<ge> 0) (map p_acquire planes))"
    using consume_fences_result [of k planes hwc] by (metis ps_def prod.collapse)
  obtain hwc2 qs input where config: "config_planes k g 0 ps hwc1 = (hwc2, qs, input)" by (rule prod_cases3)
  have "map p_release qs = map (plane_fence k g) (enumerate 0 ps)"
    using config_planes_release [of ps k g 0 hwc1] config by (simp add: ps_def list_all_iff)
  then have release: "map p_release qs = plane_fences k g planes"
    by (simp add: plane_fences_def ps_def enumerate_map plane_fence_def case_prod_beta Let_def)
  then have len: "length qs = length planes" by (metis length_map length_enumerate plane_fences_def)
  have fail: "map p_release (map (\<lambda>p. if p_release p \<ge> 0 then p\<lparr>p_release := - 1\<rparr> else p) qs) =
      map (\<lambda>fd. if fd \<ge> 0 then - 1 else fd) (map p_release qs)"
    by simp
  have present: "fst (case k_present k of None \<Rightarrow> (- 1, 2 ^ 32 - 1) | Some pf \<Rightarrow> pf) = present_fence k"
    by (simp add: present_fence_def split: option.split prod.split)
  note defs = r engine_submit_def consume config Let_def present release_fds_def release
  show "s_closed r = filter (\<lambda>fd. fd \<ge> 0) (map p_acquire planes) @
      (if s_ok r \<or> \<not> k_calloc k then [] else filter (\<lambda>fd. fd \<ge> 0) (present_fence k # plane_fences k g planes))"
    using assms(1) by (simp add: defs)
  show "s_retire r = (if s_ok r then present_fence k else - 1)"
    using assms(1) by (simp add: defs)
  show "map p_release (s_planes r) = (if s_ok r then plane_fences k g planes
      else if k_calloc k then map (\<lambda>fd. if fd \<ge> 0 then - 1 else fd) (plane_fences k g planes)
      else map (\<lambda>_. - 1) planes)"
    using assms(1) fail by (simp add: defs) (simp add: ps_def o_def)
  show "length (s_planes r) = length planes"
    using assms(1) len by (simp add: defs) (simp add: ps_def)
qed

text \<open>The layers a frame is made of: the target when GLES was used, and the promoted ones.\<close>

definition shown_layers :: "nat \<Rightarrow> hwc_layer list \<Rightarrow> nat list" where
  "shown_layers t L = (if gles_used L then [t] else []) @ filter (\<lambda>j. is_overlay (L ! j)) [0..<length L]"

lemma enumerate_filter_fst:
  "map fst (filter (\<lambda>(j, l). P l) (enumerate 0 ls)) = filter (\<lambda>j. P (ls ! j)) [0..<length ls]"
proof -
  have "map fst (filter (\<lambda>(j, l). P l) (enumerate 0 ls)) = map fst (filter (\<lambda>x. P (ls ! fst x)) (enumerate 0 ls))"
    by (intro arg_cong [of _ _ "map fst"] filter_cong [OF refl]) (auto simp: in_set_enumerate_eq)
  also have "\<dots> = filter (\<lambda>j. P (ls ! j)) (map fst (enumerate 0 ls))"
    unfolding filter_map by (simp add: o_def)
  finally show ?thesis by simp
qed

lemma map_nth_filter: "map ((!) L) (filter (\<lambda>j. P (L ! j)) [0..<length L]) = filter P L"
  using filter_map [of P "(!) L" "[0..<length L]"] by (simp add: map_nth o_def)

lemma plan_prepared_layers:
  assumes "target_index layers = Some t" and L: "L = fhwc_prepare props g hwc layers"
  shows "map fst (fst (plan_frame g hwc L)) = shown_layers t L"
proof -
  let ?n = "if gles_used L then 1 else 0 :: nat"
  have t: "target_index L = Some t" using assms by (simp add: prepare_target_index)
  have "filter (\<lambda>j. is_overlay (L ! j) \<and> fits g hwc (L ! j)) [0..<length L] = filter (\<lambda>j. is_overlay (L ! j)) [0..<length L]"
    by (rule filter_cong [OF refl]) (use prepare_overlays_fit [of _ props g hwc layers, folded L] nth_mem [of _ L] in auto)
  moreover have "length (filter (\<lambda>j. is_overlay (L ! j)) [0..<length L]) \<le> 4 - ?n"
    using prepare_few_overlays [of props g hwc layers, folded L] arg_cong [OF map_nth_filter [of L is_overlay], of length]
    by simp
  ultimately show ?thesis
    by (cases "gles_used L") (simp_all add: plan_frame_def t case_prod_beta collect_planes_fst enumerate_filter_fst shown_layers_def)
qed

lemma shown_layers_distinct:
  assumes "target_index layers = Some t" "L = fhwc_prepare props g hwc layers"
  shows "distinct (shown_layers t L)" "set (shown_layers t L) \<subseteq> {..<length L}"
proof -
  have "target_index L = Some t" using assms by (simp add: prepare_target_index)
  then show "distinct (shown_layers t L)" "set (shown_layers t L) \<subseteq> {..<length L}"
    using target_indexD [of L t] by (auto simp: shown_layers_def is_target_def)
qed

lemma store_fences_length [simp]: "length (store_fences src ls) = length ls"
  by (induction src arbitrary: ls) (auto simp: store_fences_def)

lemma store_fences_other: "j \<notin> fst ` set src \<Longrightarrow> store_fences src ls ! j = ls ! j"
  by (induction src arbitrary: ls) (auto simp: store_fences_def)

lemma store_fences_nth:
  "distinct js \<Longrightarrow> length ps = length js \<Longrightarrow> set js \<subseteq> {..<length ls} \<Longrightarrow> m < length js \<Longrightarrow>
    store_fences (zip js ps) ls ! (js ! m) = (ls ! (js ! m))\<lparr>acquireFenceFd := - 1, releaseFenceFd := p_release (ps ! m)\<rparr>"
proof (induction js ps arbitrary: ls m rule: list_induct2')
  case (4 j js p ps)
  let ?ls = "ls[j := (ls ! j)\<lparr>acquireFenceFd := - 1, releaseFenceFd := p_release p\<rparr>]"
  have step: "store_fences (zip (j # js) (p # ps)) ls = store_fences (zip js ps) ?ls" by (simp add: store_fences_def)
  show ?case
  proof (cases m)
    case 0
    have "j \<notin> fst ` set (zip js ps)" using 4 by (auto dest: set_zip_leftD)
    then show ?thesis using 4 0 step by (simp add: store_fences_other)
  next
    case (Suc m')
    then have "js ! m' \<noteq> j" using 4 by auto
    then show ?thesis using 4 Suc step by simp
  qed
qed auto

text \<open>\<open>set\<close> on a prepared frame with a usable target, in terms of \<open>engine_submit\<close>.\<close>

lemma fhwc_set_prepared:
  assumes t: "target_index layers = Some t" "gles_used L \<longrightarrow> l_handle (layers ! t) \<noteq> 0"
    and L: "L = fhwc_prepare props g hwc layers"
    and unused: "(L1, c) = (if gles_used L then (L, []) else close_acquire t (L, []))"
    and r: "r = engine_submit k g (map snd (fst (plan_frame g hwc L))) hwc"
  shows "shown_layers t L = [] \<Longrightarrow> f_layers (fhwc_set k g hwc L) = L1 \<and> f_closed (fhwc_set k g hwc L) = c \<and>
      f_submit (fhwc_set k g hwc L) = None \<and> f_retire (fhwc_set k g hwc L) = - 1"
    and "shown_layers t L \<noteq> [] \<Longrightarrow> f_layers (fhwc_set k g hwc L) = store_fences (zip (shown_layers t L) (s_planes r)) L1 \<and>
      f_closed (fhwc_set k g hwc L) = c @ s_closed r \<and> f_submit (fhwc_set k g hwc L) = Some r \<and> f_retire (fhwc_set k g hwc L) = s_retire r"
proof -
  have tL: "target_index L = Some t" "L ! t = layers ! t"
    using t target_indexD [of layers t] L by (simp_all add: prepare_target_index) (simp add: fhwc_prepare_def Let_def mark_layers_nth)
  obtain src where plan: "plan_frame g hwc L = (src, [])"
    using plan_prepared(2) [OF t(1) L] by (metis prod.collapse)
  have src: "map fst src = shown_layers t L" "src = [] \<longleftrightarrow> shown_layers t L = []"
    using plan_prepared_layers [OF t(1) L] plan map_is_Nil_conv [of fst src] by simp_all
  have usable: "\<not> (gles_used L \<and> (target_index L = None \<or> l_handle (L ! the (target_index L)) = 0))"
    using tL t(2) by auto
  have rest: "fold close_acquire ([] @ (if \<not> gles_used L \<and> target_index L \<noteq> None then [the (target_index L)] else [])) (L, []) = (L1, c)"
    using unused tL by (simp split: if_splits)
  note set_def = fhwc_set_def Let_def if_not_P [OF usable] plan prod.case rest
  show "shown_layers t L = [] \<Longrightarrow> f_layers (fhwc_set k g hwc L) = L1 \<and> f_closed (fhwc_set k g hwc L) = c \<and>
      f_submit (fhwc_set k g hwc L) = None \<and> f_retire (fhwc_set k g hwc L) = - 1"
    unfolding set_def using src by simp
  show "shown_layers t L \<noteq> [] \<Longrightarrow> f_layers (fhwc_set k g hwc L) = store_fences (zip (shown_layers t L) (s_planes r)) L1 \<and>
      f_closed (fhwc_set k g hwc L) = c @ s_closed r \<and> f_submit (fhwc_set k g hwc L) = Some r \<and> f_retire (fhwc_set k g hwc L) = s_retire r"
    unfolding set_def using src r plan by simp
qed

lemma prepared_plane_count:
  assumes "target_index layers = Some t" "L = fhwc_prepare props g hwc layers"
  shows "length (map snd (fst (plan_frame g hwc L))) = length (shown_layers t L)" "length (shown_layers t L) \<le> 4"
proof -
  show *: "length (map snd (fst (plan_frame g hwc L))) = length (shown_layers t L)"
    using plan_prepared_layers [OF assms] by (metis length_map)
  show "length (shown_layers t L) \<le> 4"
    using plan_prepared(1) [OF assms] prepare_few_overlays [of props g hwc layers, folded assms(2)] unfolding * [symmetric]
    by (simp split: if_splits)
qed


lemma close_acquire_split:
  assumes "(L1, c) = (if gles_used L then (L, []) else close_acquire t (L, []))" "t < length L"
  shows "c = (if gles_used L then [] else filter (\<lambda>fd. fd \<ge> 0) [acquireFenceFd (L ! t)])" "length L1 = length L"
    "\<not> gles_used L \<Longrightarrow> acquireFenceFd (L1 ! t) < 0"
  using assms by (auto simp: close_acquire_def split: if_splits)


abbreviation demo_frame :: "bool \<Rightarrow> set_result" where
  "demo_frame ok \<equiv> fhwc_set (demo_disp ok) demo_gralloc demo_hwc (fhwc_prepare (\<lambda>_. []) demo_gralloc demo_hwc demo_layers)"

lemma demo_submit_ok: "length planes \<le> 4 \<Longrightarrow> s_ok (engine_submit (demo_disp ok) g planes hwc) = ok"
  by (simp add: engine_submit_def demo_disp_def Let_def case_prod_beta)

lemma demo_plan:
  "map snd (fst (plan_frame demo_gralloc demo_hwc (fhwc_prepare (\<lambda>_. []) demo_gralloc demo_hwc demo_layers))) =
    [target_plane demo_hwc (demo_layers ! 4), plane_of demo_gralloc demo_hwc (demo_layer 3 20), plane_of demo_gralloc demo_hwc (demo_layer 4 20)]"
  unfolding plan_prepared(1) [OF demo_target refl] unfolding demo_prepare
  by (simp add: gles_used_def demo_layers_def) (simp add: demo_layer_def)

lemma demo_fences:
  "plane_fences (demo_disp ok) demo_gralloc [target_plane demo_hwc l1, plane_of demo_gralloc demo_hwc l2, plane_of demo_gralloc demo_hwc l3] = [200, 201, 202]"
  by (simp add: plane_fences_def plane_fence_def plane_ion_fd_def demo_disp_def demo_gralloc_def Let_def)

lemma demo_gles: "gles_used (fhwc_prepare (\<lambda>_. []) demo_gralloc demo_hwc demo_layers)"
  unfolding demo_prepare by (simp add: gles_used_def) (simp add: demo_layer_def)

lemma demo_shown: "shown_layers 4 (fhwc_prepare (\<lambda>_. []) demo_gralloc demo_hwc demo_layers) = [4, 2, 3]"
  using demo_gles unfolding shown_layers_def demo_prepare by (simp add: demo_layer_def upt_rec)

lemma demo_submit:
  "f_submit (demo_frame ok) = Some (engine_submit (demo_disp ok) demo_gralloc
     (map snd (fst (plan_frame demo_gralloc demo_hwc (fhwc_prepare (\<lambda>_. []) demo_gralloc demo_hwc demo_layers)))) demo_hwc)"
proof (rule fhwc_set_submits)
  show "target_index (fhwc_prepare (\<lambda>_. []) demo_gralloc demo_hwc demo_layers) = Some 4"
    unfolding prepare_target_index by (rule demo_target)
  show "l_handle (fhwc_prepare (\<lambda>_. []) demo_gralloc demo_hwc demo_layers ! 4) \<noteq> 0"
    unfolding demo_prepare by (simp add: demo_layer_def)
  show "fst (plan_frame demo_gralloc demo_hwc (fhwc_prepare (\<lambda>_. []) demo_gralloc demo_hwc demo_layers)) \<noteq> []"
    using demo_plan by auto
qed


text \<open>
  The driver's fences reach the caller exactly when the frame is shown: the retire fence is the
  present fence and the layer of each plane carries the release fence of its buffer. After a failure the caller
  gets none of them.
\<close>

theorem driver_fences_handed_over:
  assumes t: "target_index layers = Some t" "gles_used L \<longrightarrow> l_handle (layers ! t) \<noteq> 0" "shown_layers t L \<noteq> []"
    and L: "L = fhwc_prepare props g hwc layers"
    and res: "res = fhwc_set k g hwc L"
  shows "\<exists>r. f_submit res = Some r \<and>
    (if s_ok r then f_retire res = present_fence k \<and>
        map (\<lambda>j. releaseFenceFd (f_layers res ! j)) (shown_layers t L) = plane_fences k g (map snd (fst (plan_frame g hwc L)))
     else f_retire res = - 1 \<and> list_all (\<lambda>j. releaseFenceFd (f_layers res ! j) < 0) (shown_layers t L))"
proof -
  obtain L1 c where unused: "(L1, c) = (if gles_used L then (L, []) else close_acquire t (L, []))" by (metis surj_pair)
  define planes where "planes = map snd (fst (plan_frame g hwc L))"
  define r where "r = engine_submit k g planes hwc"
  let ?js = "shown_layers t L"
  note set_res = fhwc_set_prepared(2) [OF t(1,2) L unused r_def [unfolded planes_def] t(3), folded res]
  note count = prepared_plane_count [OF t(1) L, folded planes_def]
  have four: "length planes \<le> 4" using count by simp
  note fences = engine_submit_fences [OF four r_def]
  have "t < length L" using target_indexD [of L t] t L by (simp add: prepare_target_index)
  note len = close_acquire_split(2) [OF unused this]
  have release: "map (\<lambda>j. releaseFenceFd (f_layers res ! j)) ?js = map p_release (s_planes r)"
    using store_fences_nth [of ?js "s_planes r" L1] shown_layers_distinct [OF t(1) L] set_res count fences(4) len
    by (intro nth_equalityI) simp_all
  then have "list_all (\<lambda>j. releaseFenceFd (f_layers res ! j) < 0) ?js \<longleftrightarrow> list_all (\<lambda>fd. fd < 0) (map p_release (s_planes r))"
    by (metis (no_types, lifting) list.pred_map comp_def list.pred_cong)
  then show ?thesis using set_res release fences(2,3) by (auto simp: planes_def list_all_iff)
qed

theorem driver_fences_handed_over_witness:
  "f_retire (demo_frame True) = 50 \<and> map (\<lambda>j. releaseFenceFd (f_layers (demo_frame True) ! j)) [4, 2, 3] = [200, 201, 202]"
proof -
  have "l_handle (demo_layers ! 4) \<noteq> 0" "present_fence (demo_disp True) = 50"
    by (simp_all add: demo_layers_def demo_layer_def present_fence_def demo_disp_def)
  then show ?thesis
    using driver_fences_handed_over [of demo_layers 4 "fhwc_prepare (\<lambda>_. []) demo_gralloc demo_hwc demo_layers" "\<lambda>_. []" demo_gralloc demo_hwc
        "demo_frame True" "demo_disp True", OF demo_target _ _ refl refl]
    unfolding demo_shown demo_submit demo_plan demo_fences by (simp add: demo_submit_ok)
qed

section \<open>Planes stay on the panel\<close>




end
