(* ===== verification/HwcProbes.thy ===== *)
theory HwcProbes
  imports HwcCorrect
begin

text \<open>
  The two tear probes of the hardware composer (\<open>engine_crc_probe\<close>, \<open>engine_shear_probe\<close> of
  \<open>hwcomposer/forge_hwc.c\<close>) and what their verdicts mean.

  A mapped buffer is a function from byte offsets to the 64-bit word there; the size \<open>lseek\<close> reports and
  whether \<open>mmap\<close> succeeds are arguments. The probes' static variables and their counters in \<open>forge_hwc\<close>
  form the record \<open>probes\<close>. The kernel log lines are left out, and a stride of 0, at which the shear probe
  would divide by zero, is taken to give no rows.
\<close>

type_synonym u64 = "64 word"
type_synonym buffer = "nat \<Rightarrow> u64"

record probes =
  crc_seq :: nat
  crc_runs :: nat
  crc_dirty_runs :: nat
  sig_prev :: "u64 list"
  prev_pitch :: nat
  prev_valid :: bool
  shear_seq :: nat
  zone_seq :: nat
  shear_frames :: nat
  shear_motion :: nat
  shear_zoned :: nat
  shear_hard :: nat

definition row_sig :: "buffer \<Rightarrow> nat \<Rightarrow> nat \<Rightarrow> u64" where
  "row_sig mem pitch row = fold (\<lambda>i acc. xor acc (mem (row * pitch + 8 * i))) [0..<pitch div 8] 0"

section \<open>CRC probe\<close>

text \<open>One plane of the first loop: the length mapped, the pitch and the rows, or \<open>None\<close> when it is skipped.\<close>

definition crc_map :: "gralloc \<Rightarrow> forge_hwc \<Rightarrow> (int \<Rightarrow> int) \<Rightarrow> (int \<Rightarrow> bool) \<Rightarrow> fhwc_plane \<Rightarrow> (nat \<times> nat \<times> nat) option" where
  "crc_map g hwc fsize mmap_ok p =
     (let ion_fd = plane_ion_fd g (p_handle p); stride_px = plane_stride g hwc (p_handle p) in
      if ion_fd < 0 then None
      else if fsize ion_fd \<le> 0 then None
      else
        let sz = min (nat (fsize ion_fd)) (nat stride_px * 4 * unat (p_sh p)) in
        if sz = 0 \<or> \<not> mmap_ok ion_fd then None
        else let pitch = nat stride_px * 4 in Some (sz, pitch, sz div pitch))"

definition crc_row :: "nat \<Rightarrow> nat \<Rightarrow> nat" where
  "crc_row rows r = (if rows > 1 then r * (rows - 1) div 9 else 0)"

definition crc_sigs :: "buffer \<Rightarrow> nat \<times> nat \<times> nat \<Rightarrow> u64 list" where
  "crc_sigs mem = (\<lambda>(len, pitch, rows). map (\<lambda>r. row_sig mem pitch (crc_row rows r)) [0..<10])"

text \<open>The buffer of plane \<open>i\<close> is \<open>mem0 i\<close> in the first pass and \<open>mem1 i\<close> after the delay.\<close>

definition crc_dirty :: "(nat \<Rightarrow> buffer) \<Rightarrow> (nat \<Rightarrow> buffer) \<Rightarrow> (nat \<times> nat \<times> nat) option list \<Rightarrow> nat list" where
  "crc_dirty mem0 mem1 maps = map fst (filter (\<lambda>(i, m). case m of None \<Rightarrow> False | Some m \<Rightarrow> crc_sigs (mem1 i) m \<noteq> crc_sigs (mem0 i) m)
     (enumerate 0 maps))"

definition engine_crc_probe :: "hwc_props \<Rightarrow> gralloc \<Rightarrow> forge_hwc \<Rightarrow> (int \<Rightarrow> int) \<Rightarrow> (int \<Rightarrow> bool) \<Rightarrow>
    (nat \<Rightarrow> buffer) \<Rightarrow> (nat \<Rightarrow> buffer) \<Rightarrow> fhwc_plane list \<Rightarrow> probes \<Rightarrow> probes" where
  "engine_crc_probe props g hwc fsize mmap_ok mem0 mem1 planes pr =
     (if prop_int props ''debug.forgehwc.crc'' 0 = 0 then pr
      else
        let n = crc_seq pr; pr = pr\<lparr>crc_seq := n + 1\<rparr> in
        if n mod 16 \<noteq> 0 then pr
        else
          let dirty = crc_dirty mem0 mem1 (map (crc_map g hwc fsize mmap_ok) planes);
              pr = pr\<lparr>crc_runs := crc_runs pr + 1\<rparr>
          in if dirty \<noteq> [] then pr\<lparr>crc_dirty_runs := crc_dirty_runs pr + 1\<rparr> else pr)"

section \<open>Shear probe\<close>

definition SHEAR_MAX_ROWS :: nat where "SHEAR_MAX_ROWS = 2048"
definition SHEAR_D :: int where "SHEAR_D = 160"
definition SHEAR_MAX_RUNS :: nat where "SHEAR_MAX_RUNS = 5"

text \<open>The search for the offsets at which row \<open>r\<close> matches: the number found, at most 2, and the first.\<close>

fun scan_offsets :: "u64 list \<Rightarrow> u64 list \<Rightarrow> nat \<Rightarrow> int list \<Rightarrow> nat \<Rightarrow> int \<Rightarrow> nat \<times> int" where
  "scan_offsets cur prev r [] found dm = (found, dm)"
| "scan_offsets cur prev r (d # ds) found dm =
     (let rr = int r + d in
      if rr < 0 \<or> rr \<ge> int (length cur) then scan_offsets cur prev r ds found dm
      else if cur ! r = prev ! nat rr then
        (if found \<noteq> 0 then (found + 1, dm) else scan_offsets cur prev r ds (found + 1) d)
      else scan_offsets cur prev r ds found dm)"

type_synonym run = "nat \<times> nat \<times> int"

text \<open>One row of the match loop; the runs are kept last first.\<close>

definition shear_row :: "u64 list \<Rightarrow> u64 list \<Rightarrow> nat \<Rightarrow> run list \<times> bool \<Rightarrow> run list \<times> bool" where
  "shear_row cur prev r = (\<lambda>(runs, overflow).
     case scan_offsets cur prev r [- SHEAR_D..SHEAR_D] 0 0 of (found, dm) \<Rightarrow>
       if found \<noteq> 1 then (runs, overflow)
       else case runs of
           (s, e, d) # rest \<Rightarrow>
             if d = dm then ((s, r, d) # rest, overflow)
             else if length runs < SHEAR_MAX_RUNS then ((r, r, dm) # runs, overflow)
             else (runs, True)
         | [] \<Rightarrow> ([(r, r, dm)], overflow))"

text \<open>The rows \<open>for (r = 16; r + 16 < rows; r += 8)\<close> visits.\<close>

definition shear_rows :: "nat \<Rightarrow> nat list" where
  "shear_rows rows = filter (\<lambda>r. r + 16 < rows \<and> r mod 8 = 0) [16..<rows]"

text \<open>One run of the counting loop: motion, the distinct offsets, and how many of them are not 0.\<close>

definition shear_zone :: "run \<Rightarrow> bool \<times> int list \<times> nat \<Rightarrow> bool \<times> int list \<times> nat" where
  "shear_zone = (\<lambda>(s, e, d) (motion, dset, nz).
     if e = s then (motion, dset, nz)
     else
       let motion = (motion \<or> d \<noteq> 0) in
       if d \<notin> set dset \<and> length dset < SHEAR_MAX_RUNS then (motion, dset @ [d], if d \<noteq> 0 then nz + 1 else nz)
       else (motion, dset, nz))"

definition shear_compare :: "u64 list \<Rightarrow> u64 list \<Rightarrow> probes \<Rightarrow> probes" where
  "shear_compare cur prev pr =
     (case fold (shear_row cur prev) (shear_rows (length cur)) ([], False) of (runs, overflow) \<Rightarrow>
        case fold shear_zone (rev runs) (False, [], 0) of (motion, dset, ndist_nz) \<Rightarrow>
          let pr = pr\<lparr>shear_frames := shear_frames pr + 1\<rparr>;
              pr = (if motion then pr\<lparr>shear_motion := shear_motion pr + 1\<rparr> else pr)
          in if length dset \<ge> 2 then
               let pr = pr\<lparr>shear_zoned := shear_zoned pr + 1\<rparr> in
               if ndist_nz \<ge> 2 then pr\<lparr>shear_hard := shear_hard pr + 1\<rparr> else pr\<lparr>zone_seq := zone_seq pr + 1\<rparr>
             else pr)"

definition engine_shear_probe :: "hwc_props \<Rightarrow> gralloc \<Rightarrow> forge_hwc \<Rightarrow> (int \<Rightarrow> int) \<Rightarrow> (int \<Rightarrow> bool) \<Rightarrow>
    buffer \<Rightarrow> fhwc_plane list \<Rightarrow> probes \<Rightarrow> probes" where
  "engine_shear_probe props g hwc fsize mmap_ok mem planes pr =
     (let every = prop_int props ''debug.forgehwc.shear'' 0 in
      case planes of [] \<Rightarrow> pr\<lparr>prev_valid := False\<rparr>
      | p # _ \<Rightarrow>
        if every \<le> 0 then pr\<lparr>prev_valid := False\<rparr>
        else
          let n = shear_seq pr; pr = pr\<lparr>shear_seq := n + 1\<rparr> in
          if n mod nat every \<noteq> 0 then pr
          else
            let ion_fd = plane_ion_fd g (p_handle p) in
            if ion_fd < 0 then pr
            else if fsize ion_fd \<le> 0 then pr
            else
              let pitch = nat (plane_stride g hwc (p_handle p)) * 4;
                  rows = nat (fsize ion_fd) div pitch;
                  rows = (if p_sh p \<noteq> 0 then min rows (unat (p_sh p)) else rows);
                  rows = min rows SHEAR_MAX_ROWS
              in if rows < 64 then pr
                 else if \<not> mmap_ok ion_fd then pr
                 else
                   let cur = map (row_sig mem pitch) [0..<rows];
                       pr = (if prev_valid pr \<and> length (sig_prev pr) = rows \<and> prev_pitch pr = pitch
                             then shear_compare cur (sig_prev pr) pr else pr)
                   in pr\<lparr>sig_prev := cur, prev_pitch := pitch, prev_valid := True\<rparr>)"

text \<open>The two probes as \<open>engine_submit\<close> calls them, for a frame that was triggered.\<close>

definition probe_frame :: "hwc_props \<Rightarrow> gralloc \<Rightarrow> (int \<Rightarrow> int) \<Rightarrow> (int \<Rightarrow> bool) \<Rightarrow> (nat \<Rightarrow> buffer) \<Rightarrow> (nat \<Rightarrow> buffer) \<Rightarrow>
    submit_result \<Rightarrow> probes \<Rightarrow> probes" where
  "probe_frame props g fsize mmap_ok mem0 mem1 r pr =
     (if s_ok r
      then engine_shear_probe props g (s_hwc r) fsize mmap_ok (mem1 0) (s_planes r)
             (engine_crc_probe props g (s_hwc r) fsize mmap_ok mem0 mem1 (s_planes r) pr)
      else pr)"

section \<open>What the shear probe reports\<close>

definition matches :: "u64 list \<Rightarrow> u64 list \<Rightarrow> nat \<Rightarrow> int \<Rightarrow> bool" where
  "matches cur prev r d \<longleftrightarrow> 0 \<le> int r + d \<and> int r + d < int (length cur) \<and> cur ! r = prev ! nat (int r + d)"

lemma scan_offsets_step:
  "scan_offsets cur prev r (d # ds) found dm =
     (if matches cur prev r d then (if found \<noteq> 0 then (found + 1, dm) else scan_offsets cur prev r ds 1 d)
      else scan_offsets cur prev r ds found dm)"
  by (auto simp: matches_def Let_def)

lemma scan_offsets_found:
  "scan_offsets cur prev r ds (Suc 0) dm = (Suc 0, dm') \<longleftrightarrow> dm' = dm \<and> filter (matches cur prev r) ds = []"
  by (induction ds) (auto simp: scan_offsets_step simp del: scan_offsets.simps(2))

text \<open>A row is kept exactly when one offset matches.\<close>

lemma scan_offsets_unique:
  "scan_offsets cur prev r ds 0 dm0 = (Suc 0, dm) \<longleftrightarrow> filter (matches cur prev r) ds = [dm]"
  by (induction ds) (auto simp: scan_offsets_step scan_offsets_found simp del: scan_offsets.simps(2))

definition row_offset :: "u64 list \<Rightarrow> u64 list \<Rightarrow> nat \<Rightarrow> int \<Rightarrow> bool" where
  "row_offset cur prev r d \<longleftrightarrow> filter (matches cur prev r) [- SHEAR_D..SHEAR_D] = [d]"

lemma shear_row_skip: "(\<And>d. \<not> row_offset cur prev r d) \<Longrightarrow> shear_row cur prev r st = st"
  using scan_offsets_unique [of cur prev r "[- SHEAR_D..SHEAR_D]" 0]
  by (cases st) (auto simp: shear_row_def row_offset_def split: prod.split)

lemma shear_row_keep:
  "row_offset cur prev r dm \<Longrightarrow> shear_row cur prev r (runs, overflow) =
     (case runs of (s, e, d) # rest \<Rightarrow>
             if d = dm then ((s, r, d) # rest, overflow)
             else if length runs < SHEAR_MAX_RUNS then ((r, r, dm) # runs, overflow)
             else (runs, True)
         | [] \<Rightarrow> ([(r, r, dm)], overflow))"
  unfolding row_offset_def scan_offsets_unique [of cur prev r _ 0, symmetric] by (simp add: shear_row_def)

text \<open>Both ends of a run are rows kept with the offset of the run.\<close>

lemma shear_row_runs:
  assumes "\<forall>(s, e, d) \<in> set (fst st). P s d \<and> P e d" "\<And>d. row_offset cur prev r d \<Longrightarrow> P r d"
  shows "\<forall>(s, e, d) \<in> set (fst (shear_row cur prev r st)). P s d \<and> P e d"
proof (cases "\<exists>d. row_offset cur prev r d")
  case True
  then obtain d where d: "row_offset cur prev r d" ..
  obtain runs overflow where st: "st = (runs, overflow)" by fastforce
  show ?thesis using assms(1) assms(2) [OF d] unfolding st shear_row_keep [OF d] by (auto split: list.split)
next
  case False
  then have "shear_row cur prev r st = st" using shear_row_skip by blast
  then show ?thesis using assms(1) by simp
qed

lemma shear_runs:
  assumes "\<forall>(s, e, d) \<in> set (fst st). P s d \<and> P e d" "\<And>r d. r \<in> set rs \<Longrightarrow> row_offset cur prev r d \<Longrightarrow> P r d"
  shows "\<forall>(s, e, d) \<in> set (fst (fold (shear_row cur prev) rs st)). P s d \<and> P e d"
  using assms
proof (induction rs arbitrary: st)
  case (Cons r rs)
  then show ?case using shear_row_runs [of st P cur prev r] by simp
qed simp

lemma row_offset_block:
  assumes "row_offset cur prev r d" "\<bar>d0\<bar> \<le> SHEAR_D" "matches cur prev r d0"
  shows "d = d0"
proof -
  have "d0 \<in> set (filter (matches cur prev r) [- SHEAR_D..SHEAR_D])" using assms by auto
  then show ?thesis using assms(1) unfolding row_offset_def by (simp del: set_filter)
qed

lemma shear_zone_single:
  "\<forall>(s, e, d) \<in> set runs. d = d0 \<Longrightarrow> set dset \<subseteq> {d0} \<Longrightarrow> length dset \<le> 1 \<Longrightarrow>
    length (fst (snd (fold shear_zone runs (motion, dset, nz)))) \<le> 1"
proof (induction runs arbitrary: motion dset nz)
  case (Cons run runs)
  obtain s e d where run: "run = (s, e, d)" by (rule prod_cases3)
  then have "d = d0" using Cons.prems(1) by simp
  moreover have "d0 \<notin> set dset \<Longrightarrow> dset = []" using Cons.prems(2) by (cases dset) auto
  ultimately show ?case using Cons by (auto simp: run shear_zone_def Let_def)
qed simp

lemma shear_rows_range: "r \<in> set (shear_rows rows) \<Longrightarrow> 16 \<le> r \<and> r + 16 < rows"
  by (simp add: shear_rows_def)

text \<open>
  The shear probe raises no false alarm on smooth scrolling: when a frame is the previous one moved
  as one block by at most 16 rows, whatever comes in at its edges, it is counted neither as zoned nor as
  torn.
\<close>

theorem shear_no_false_alarm:
  assumes "\<And>r. r < length cur \<Longrightarrow> 0 \<le> int r + d0 \<Longrightarrow> int r + d0 < int (length cur) \<Longrightarrow> cur ! r = prev ! nat (int r + d0)"
    and "\<bar>d0\<bar> \<le> 16"
  shows "shear_zoned (shear_compare cur prev pr) = shear_zoned pr \<and> shear_hard (shear_compare cur prev pr) = shear_hard pr \<and>
    shear_frames (shear_compare cur prev pr) = shear_frames pr + 1"
proof -
  obtain runs overflow where fold: "fold (shear_row cur prev) (shear_rows (length cur)) ([], False) = (runs, overflow)" by fastforce
  have "\<forall>(s, e, d) \<in> set (fst (fold (shear_row cur prev) (shear_rows (length cur)) ([], False))). d = d0 \<and> d = d0"
  proof (rule shear_runs)
    fix r d
    assume "r \<in> set (shear_rows (length cur))" "row_offset cur prev r d"
    moreover have "matches cur prev r d0"
      using shear_rows_range [OF \<open>r \<in> _\<close>] assms(2) assms(1) [of r] by (auto simp: matches_def)
    ultimately show "d = d0" using row_offset_block assms(2) by (simp add: SHEAR_D_def)
  qed simp
  then have "\<forall>(s, e, d) \<in> set (rev runs). d = d0" using fold by auto
  then have "length (fst (snd (fold shear_zone (rev runs) (False, [], 0)))) \<le> 1" by (rule shear_zone_single) simp_all
  then show ?thesis by (auto simp: shear_compare_def fold Let_def split: prod.split)
qed

definition probes_zero :: probes where
  "probes_zero = \<lparr>crc_seq = 0, crc_runs = 0, crc_dirty_runs = 0, sig_prev = [], prev_pitch = 0, prev_valid = False, shear_seq = 0,
     zone_seq = 0, shear_frames = 0, shear_motion = 0, shear_zoned = 0, shear_hard = 0\<rparr>"

theorem shear_no_false_alarm_witness:
  "shear_zoned (shear_compare (map (\<lambda>i. of_nat (i + 8)) [0..<64]) (map of_nat [0..<64]) probes_zero) = 0"
  using shear_no_false_alarm [of "map (\<lambda>i. of_nat (i + 8)) [0..<64]" 8 "map of_nat [0..<64]" probes_zero]
  by (simp add: nat_add_distrib probes_zero_def)

lemma shear_fold_kept:
  "fold (shear_row cur prev) rs st = fold (shear_row cur prev) (filter (\<lambda>r. \<exists>d. row_offset cur prev r d) rs) st"
proof (induction rs arbitrary: st)
  case (Cons r rs)
  show ?case
  proof (cases "\<exists>d. row_offset cur prev r d")
    case False
    then have "shear_row cur prev r st = st" using shear_row_skip by blast
    then show ?thesis using Cons False by simp
  qed (use Cons in simp)
qed simp

lemma shear_fold_extend:
  "list_all (\<lambda>r. row_offset cur prev r d) rs \<Longrightarrow>
    fold (shear_row cur prev) rs ((s, e, d) # runs, ov) = ((s, last (e # rs), d) # runs, ov)"
  by (induction rs arbitrary: e) (auto simp: shear_row_keep)

lemma shear_fold_run:
  assumes "list_all (\<lambda>r. row_offset cur prev r d) rs" "rs \<noteq> []" "length runs < SHEAR_MAX_RUNS"
    "\<forall>s e d'. runs \<noteq> [] \<longrightarrow> hd runs = (s, e, d') \<longrightarrow> d' \<noteq> d"
  shows "fold (shear_row cur prev) rs (runs, ov) = ((hd rs, last rs, d) # runs, ov)"
proof -
  obtain r rs' where rs: "rs = r # rs'" using assms(2) by (cases rs) auto
  have "shear_row cur prev r (runs, ov) = ((r, r, d) # runs, ov)"
    using assms by (cases runs) (auto simp: rs shear_row_keep)
  then show ?thesis using assms(1) by (simp add: rs shear_fold_extend)
qed

lemma hd_last_distinct: "distinct rs \<Longrightarrow> 2 \<le> length rs \<Longrightarrow> last rs \<noteq> hd rs"
  by (cases rs) (auto simp: last_in_set)

text \<open>The rows kept in a part of the picture that moves by \<open>d\<close>.\<close>

abbreviation kept :: "u64 list \<Rightarrow> u64 list \<Rightarrow> int \<Rightarrow> nat list \<Rightarrow> nat list" where
  "kept cur prev d rs \<equiv> filter (\<lambda>r. row_offset cur prev r d) rs"

text \<open>
  The shear probe detects a tear: when the rows above some row moved by one offset and the rows
  below by another, as far as they match unambiguously and at least two of each do, the frame is counted as
  zoned, and as torn when both offsets are motions.
\<close>

theorem shear_detects_tear:
  assumes rows: "shear_rows (length cur) = upper @ lower"
    and upper: "\<And>r d. r \<in> set upper \<Longrightarrow> row_offset cur prev r d \<Longrightarrow> d = d1" "2 \<le> length (kept cur prev d1 upper)"
    and lower: "\<And>r d. r \<in> set lower \<Longrightarrow> row_offset cur prev r d \<Longrightarrow> d = d2" "2 \<le> length (kept cur prev d2 lower)"
    and "d1 \<noteq> d2"
  shows "shear_zoned (shear_compare cur prev pr) = shear_zoned pr + 1 \<and>
    shear_hard (shear_compare cur prev pr) = shear_hard pr + (if d1 \<noteq> 0 \<and> d2 \<noteq> 0 then 1 else 0)"
proof -
  let ?u = "kept cur prev d1 upper" and ?l = "kept cur prev d2 lower"
  have "filter (\<lambda>r. \<exists>d. row_offset cur prev r d) upper = ?u" "filter (\<lambda>r. \<exists>d. row_offset cur prev r d) lower = ?l"
    using upper(1) lower(1) by (auto intro!: filter_cong)
  then have kept: "fold (shear_row cur prev) upper st = fold (shear_row cur prev) ?u st"
    "fold (shear_row cur prev) lower st = fold (shear_row cur prev) ?l st" for st
    using shear_fold_kept [of cur prev upper st] shear_fold_kept [of cur prev lower st] by simp_all
  have "?u \<noteq> []" "?l \<noteq> []" using upper(2) lower(2) by auto
  then have runs: "fold (shear_row cur prev) (shear_rows (length cur)) ([], False) = ([(hd ?l, last ?l, d2), (hd ?u, last ?u, d1)], False)"
    using shear_fold_run [of cur prev d1 ?u "[]" False] shear_fold_run [of cur prev d2 ?l "[(hd ?u, last ?u, d1)]" False] \<open>d1 \<noteq> d2\<close>
    by (simp add: rows kept SHEAR_MAX_RUNS_def list_all_iff)
  have "distinct (upper @ lower)" unfolding rows [symmetric] by (simp add: shear_rows_def)
  then have "last ?u \<noteq> hd ?u" "last ?l \<noteq> hd ?l" using upper(2) lower(2) by (simp_all add: hd_last_distinct)
  then have "fold shear_zone (rev [(hd ?l, last ?l, d2), (hd ?u, last ?u, d1)]) (False, [], 0) =
      (d1 \<noteq> 0 \<or> d2 \<noteq> 0, [d1, d2], (if d1 \<noteq> 0 then 1 else 0) + (if d2 \<noteq> 0 then 1 else 0))"
    using \<open>d1 \<noteq> d2\<close> by (simp add: shear_zone_def Let_def SHEAR_MAX_RUNS_def)
  then show ?thesis using \<open>d1 \<noteq> d2\<close> unfolding shear_compare_def runs prod.case Let_def by auto
qed

lemma row_offset_iff:
  "row_offset cur prev r d \<longleftrightarrow> {d'. \<bar>d'\<bar> \<le> SHEAR_D \<and> matches cur prev r d'} = {d}"
proof -
  have "ys = [d] \<longleftrightarrow> set ys = {d}" if "distinct ys" for ys
    using that by (cases ys) (auto simp: subset_singleton_iff)
  moreover have "set (filter (matches cur prev r) [- SHEAR_D..SHEAR_D]) = {d'. \<bar>d'\<bar> \<le> SHEAR_D \<and> matches cur prev r d'}"
    by auto
  ultimately show ?thesis unfolding row_offset_def by (metis distinct_filter distinct_upto)
qed

text \<open>A picture of 80 distinct rows, torn at row 40: one row down above, two rows below.\<close>

definition torn_prev :: "u64 list" where
  "torn_prev = map of_nat [0..<80]"

definition torn_cur :: "u64 list" where
  "torn_cur = map (\<lambda>r. of_nat (if r < 40 then r + 1 else r + 2)) [0..<80]"

lemma torn_offset:
  assumes "r < 78"
  shows "row_offset torn_cur torn_prev r d \<longleftrightarrow> d = (if r < 40 then 1 else 2)"
proof -
  have cur: "torn_cur ! i = of_nat (if i < 40 then i + 1 else i + 2)" and prev: "torn_prev ! i = of_nat i" if "i < 80" for i
    using that by (simp_all add: torn_cur_def torn_prev_def)
  have len: "length torn_cur = 80" by (simp add: torn_cur_def)
  have of_nat_eq: "of_nat i = (of_nat j :: u64) \<longleftrightarrow> i = j" if "i < 100" "j < 100" for i j
    using that by (simp add: word_of_nat_eq_iff take_bit_nat_eq_self)
  have "matches torn_cur torn_prev r d' \<longleftrightarrow> d' = (if r < 40 then 1 else 2)" for d'
  proof (cases "0 \<le> int r + d' \<and> int r + d' < 80")
    case True
    define j where "j = nat (int r + d')"
    have j: "int r + d' = int j" "j < 80" using True by (auto simp: j_def)
    then have "matches torn_cur torn_prev r d' \<longleftrightarrow> of_nat (if r < 40 then r + 1 else r + 2) = (of_nat j :: u64)"
      using cur [of r] prev [of j] len assms unfolding matches_def j(1) nat_int by (simp only: of_nat_less_iff of_nat_0_le_iff simp_thms)
    also have "\<dots> \<longleftrightarrow> (if r < 40 then r + 1 else r + 2) = j" using assms j by (intro of_nat_eq) auto
    also have "\<dots> \<longleftrightarrow> d' = (if r < 40 then 1 else 2)" using j(1) by presburger
    finally show ?thesis .
  next
    case False
    then show ?thesis using assms len by (simp add: matches_def) linarith
  qed
  then show ?thesis by (auto simp: row_offset_iff SHEAR_D_def)
qed

theorem shear_detects_tear_witness:
  "shear_hard (shear_compare torn_cur torn_prev probes_zero) = 1"
proof -
  have rows: "shear_rows (length torn_cur) = [16, 24, 32] @ [40, 48, 56]"
    by (simp add: torn_cur_def shear_rows_def upt_rec_numeral)
  have "d = 1" if "r \<in> set [16, 24, 32]" "row_offset torn_cur torn_prev r d" for r d
    using that torn_offset [of r d] by auto
  moreover have "d = 2" if "r \<in> set [40, 48, 56]" "row_offset torn_cur torn_prev r d" for r d
    using that torn_offset [of r d] by auto
  ultimately show ?thesis
    using shear_detects_tear [OF rows, of torn_prev 1 2 probes_zero] by (simp add: torn_offset probes_zero_def)
qed

end
