(* ===== verification/Spec2Isabelle.thy ===== *)
theory Spec2Isabelle
  imports FleetPower Thermal RegionCorrect RilEventLoop Legacy MalCorrect RilStatus RilSapCorrect HwcProbes
begin

text \<open>
  This library verifies the native code of the device tree of the Meizu M5c: the Power and Thermal HALs, the radio
  interface layer (libril), the hardware composer and the shims that let old vendor libraries run on a newer system.
  Paths below are relative to \<open>src/\<close>.

  \<^bold>\<open>The parts and how they interact.\<close>
  The Power HAL (\<open>power-fleet\<close>) turns hints of the framework into values of kernel nodes: \<open>Power\<close> receives binder
  calls and queues them for a worker, \<open>Adpf\<close> keeps the hint sessions, \<open>Engine\<close> holds the requests in force and writes
  the nodes, \<open>Config\<close> reads the device's JSON file. The Thermal HAL (\<open>thermal\<close>) polls sensors and calls clients back.
  libril (\<open>ril/libril\<close>) sits between the telephony framework and the vendor's library: \<open>ril_event.cpp\<close> is its event
  loop, \<open>ril.cpp\<close> keeps the pending requests, the wake lock, the channels and the MAL socket server,
  \<open>ril_service.cpp\<close> is the HIDL service. A call of the framework becomes a request (\<open>addRequestToList\<close>), goes to the
  vendor (\<open>my_enqueue\<close>), comes back by its token (\<open>RIL_onRequestComplete\<close>) and leaves through a response function of
  the service. The hardware composer (\<open>hwcomposer/forge_hwc.c\<close>) maps layers to display planes. \<open>treble/region.cpp\<close>
  and \<open>treble/legacy.cpp\<close> supply functions that the Mali driver and other old libraries import.

  \<^bold>\<open>Theories.\<close>
  \<^item> \<open>Prelude\<close>, \<open>Words\<close>, \<open>Floats\<close>, \<open>AndroidBase\<close>: integer ranges of C++, \<open>std::map\<close> as a sorted association list,
    decimal text, words bit by bit and four-byte encodings (locale \<open>word_codec\<close>), IEEE rounding on rationals, and
    the functions of \<open>libbase\<close> and the property store that the code calls, as arguments.
  \<^item> \<open>FleetConfig\<close>, \<open>FleetEngine\<close>, \<open>FleetAdpf\<close>, \<open>FleetPower\<close>: one theory for each file of \<open>power-fleet\<close>. The engine
    implements the interface \<open>request_engine\<close> (a map from sources to requests with deadlines), which \<open>FleetPower\<close>
    uses; its step relation interleaves binder calls, session calls and the worker.
  \<^item> \<open>Thermal\<close>: \<open>thermal/Thermal.cpp\<close>.
  \<^item> \<open>Region\<close>, \<open>RegionSweep\<close>, \<open>RegionCorrect\<close>: \<open>treble/region.cpp\<close> with \<open>treble/m5c_RegionHelper.h\<close>; the sweep over
    two lists of rectangles, the rasterizer and the exported operations, against sets of points.
  \<^item> \<open>RilEvent\<close>, \<open>RilLists\<close>, \<open>RilEventLoop\<close>: \<open>ril_event.cpp\<close> on an explicit heap; the intrusive lists as lists of
    addresses, timers as a queue of deadlines (locale \<open>deadline_queue\<close>), one round of the loop.
  \<^item> \<open>Legacy\<close>: \<open>treble/legacy.cpp\<close>, the conversions between UTF-8 and UTF-16.
  \<^item> \<open>Mal\<close>, \<open>MalCorrect\<close>: the MAL server in \<open>ril.cpp\<close>, its framing, its table of commands in flight and its retries.
  \<^item> \<open>RilMacros\<close>, \<open>RilTables\<close>, \<open>RilChannels\<close>, \<open>RilRequests\<close>, \<open>RilCorrect\<close>: the rest of \<open>ril.cpp\<close> with
    \<open>ril_commands.h\<close> and \<open>ril_unsol_commands.h\<close>; numbers, tables and names, threads and proxy queues, the life of a
    request, unsolicited messages and the wake lock. \<open>ril_run\<close> are the states libril can reach.
  \<^item> \<open>RilDispatch\<close>, \<open>RilDispatchCorrect\<close>, \<open>RilRadio\<close>, \<open>RilRadioCorrect\<close>, \<open>RilRadioMethods\<close>: the request half of
    \<open>ril_service.cpp\<close>, every method of \<open>RadioImpl\<close> and \<open>OemHookImpl\<close>, with allocations that may fail and the copies
    of the arguments in an explicit heap. \<open>settled\<close> is what every method guarantees.
  \<^item> \<open>RilFcp\<close>: \<open>forgeFcpToLegacy\<close>, the translation of file control parameters.
  \<^item> \<open>RilReplies\<close>, \<open>RilRepliesCorrect\<close>: registration of the callbacks, \<open>checkReturnStatus\<close> and the response functions
    with plain arguments.
  \<^item> \<open>RilData\<close>: data calls, their interfaces (locale \<open>number_pool\<close>) and the set-up of the network device.
  \<^item> \<open>RilIndications\<close>, \<open>RilIndicationsCorrect\<close>: indications to the framework, the ones that answer the modem, and the
    memory of the radio capability.
  \<^item> \<open>RilStatus\<close>: registration, card, calls and the other responses with structures.
  \<^item> \<open>RilSap\<close>, \<open>RilSapCorrect\<close>: the SIM access profile, \<open>sap_service.cpp\<close>, \<open>RilSapSocket.cpp\<close> and
    \<open>rilSocketQueue.h\<close>; the linked queue of a socket implements a stack of keyed entries (locale \<open>keyed_stack\<close>).
  \<^item> \<open>Hwc\<close>, \<open>HwcCorrect\<close>, \<open>HwcProbes\<close>: \<open>forge_hwc.c\<close>, the planning of a frame, fences, and the two probes for torn
    frames.
  \<^item> This theory: the way of a request through the service, libril and the vendor and back.

  \<^bold>\<open>Correspondence.\<close>
  A structure or class is a \<open>record\<close> with the fields the code uses, an enumeration or union a \<open>datatype\<close>, a function a
  definition of the same name; helper definitions name the loop or block they stand for. State is passed
  explicitly. A result of type \<open>option\<close> is \<open>None\<close> where the code would read or write outside an object, use freed
  memory or a null pointer, so a theorem that a function returns \<open>Some\<close> is also a statement of memory safety. The
  kernel, the file system, the vendor's library, the HIDL transport, \<open>calloc\<close> and clocks are arguments of the
  definitions. Integers are \<open>int\<close> with the range written out where it matters, \<open>word\<close> where bits or wrap-around do.
  Logging is left out.

  \<^bold>\<open>What the lemmas show.\<close>
  For the Power HAL: no floor stays in force on a dark screen, deadlines are kept, the requests implement a map, the
  configuration parser accepts well-formed configurations only. For the Thermal HAL: severities and notifications are
  exact. For regions: union and difference are exact and end. For the event loop: the timers implement a sorted queue,
  a round fires exactly what is due. For the MAL server: framing, single answers, bounded retries. For libril:
  pending requests are exactly those allocated, every completion answers once, the wake lock is a counter, tables are
  indexed by number, proxy jobs run in order. For the radio service: every call settles its request and leaves no
  copied string behind, every answer reaches the client once under its serial number, callbacks registered anew
  survive a failed transaction, interfaces are a pool, short messages arrive byte for byte, incoming calls are
  acknowledged once. For the SIM access profile: a request is refused with one failure or handed over once, and its
  completion reaches the client once and leaves the queues as they were. For the composer: a frame shows what composing its layers would, fences are closed once, planes
  lie on the panel. Lemmas under headings such as \<open>Where the code goes wrong\<close> show behaviour that the code does not
  mean to have.

  \<^bold>\<open>Bounds and fuel.\<close>
  Loops are recursive functions with a proof of termination; there is no fuel. The loops that may run forever in the
  code (workers, the event loop, the poll loop) are modelled by their rounds, and sequences of rounds by step
  relations. Table sizes are those of the code: 16 MAL commands in flight, 24 channels, 5 data calls, 141 entries of
  \<open>s_commands\<close>; the word widths are 8, 16 and 32 bits.

  \<^bold>\<open>Not modelled.\<close>
  In \<open>ril_service.cpp\<close>: the lists of cells, CDMA information records, CDMA short messages as indications and
  supplementary-service records, which are copied field by field; registration with the HIDL service manager.
  nanopb and the message types it generates for the SIM access profile, which are not in the repository: they are
  arguments. \<open>rild\<close>: loads the vendor's library and calls it. \<open>ril.h\<close>, \<open>mtk_ril.h\<close>:
  declarations; the numbers used are in \<open>RilMacros\<close>. \<open>spn.h\<close>: a table of operator names, which is an argument. The
  shims \<open>treble\<close> other than the two above: stubs that return constants or forward to libraries. \<open>bluetooth\<close>,
  \<open>wpa_supplicant_8_lib\<close>: bindings to vendor libraries and the driver interface. Configuration, policies, overlays and
  scripts are data of the system build.
\<close>

section \<open>From a request to its answer\<close>





end
